(* ===== verification/Prelude.thy ===== *)
theory Prelude
  imports Complex_Main "HOL-Library.Multiset"
begin

text \<open>
  Shared vocabulary of the development: the exceptions of \<^verbatim>\<open>backend/app/core/errors.py\<close>, the
  transaction monad in which every service operation is written, the commit/rollback behaviour of
  \<^verbatim>\<open>service_transaction\<close> (\<^verbatim>\<open>backend/app/db/session.py\<close>), its weakest-precondition calculus,
  and the list and option lemmas the components use.

  A service operation reads and writes the rows of the database and may raise. It is a function
  from a state to the exception or result together with the state reached: an exception does not
  undo what was already written. Undoing is the job of \<open>service_transaction\<close>, as in the code.
\<close>

section \<open>Exceptions\<close>

text \<open>
  The exception classes of \<^verbatim>\<open>core/errors.py\<close> keep their error code (the message texts are not
  modelled). \<open>IntegrityError\<close> is SQLAlchemy's exception for a violated unique, check or exclusion
  constraint, \<open>DatabaseError\<close> any other error raised by the database (a \<open>RAISE EXCEPTION\<close> of a
  trigger, a numeric overflow), \<open>InvalidOperation\<close> the signal of Python's \<^verbatim>\<open>decimal\<close> module, and
  \<open>KeyError\<close>, \<open>IndexError\<close>, \<open>ValueError\<close>, \<open>TypeError\<close>, \<open>AttributeError\<close>, \<open>RuntimeError\<close>, \<open>ZeroDivisionError\<close> Python's own.
\<close>

datatype error =
    NotFoundError
  | PermissionDeniedError string
  | ConflictError string
  | AuthenticationError string
  | DomainValidationError string
  | BusinessRuleViolation string
  | RateLimitedError int
  | ExternalServiceError
  | AppError string int
  | IntegrityError
  | DatabaseError string
  | InvalidOperation
  | ZeroDivisionError
  | KeyError
  | IndexError
  | ValueError
  | TypeError
  | AttributeError
  | RuntimeError string

text \<open>
  The HTTP status each exception is answered with: the \<open>status_code\<close> of an \<open>AppError\<close>, and 500
  for every exception that only the catch-all handler of \<open>install_exception_handlers\<close> sees.
\<close>

fun status_code :: "error \<Rightarrow> int" where
  "status_code NotFoundError = 404"
| "status_code (PermissionDeniedError _) = 403"
| "status_code (ConflictError _) = 409"
| "status_code (AuthenticationError _) = 401"
| "status_code (DomainValidationError _) = 422"
| "status_code (BusinessRuleViolation _) = 422"
| "status_code (RateLimitedError _) = 429"
| "status_code ExternalServiceError = 503"
| "status_code (AppError _ n) = n"
| "status_code _ = 500"

section \<open>The transaction monad\<close>

type_synonym ('s, 'a) tx = "'s \<Rightarrow> (error + 'a) \<times> 's"

definition ret :: "'a \<Rightarrow> ('s, 'a) tx" where
  "ret x = (\<lambda>s. (Inr x, s))"

definition raise :: "error \<Rightarrow> ('s, 'a) tx" where
  "raise e = (\<lambda>s. (Inl e, s))"

definition bnd :: "('s, 'a) tx \<Rightarrow> ('a \<Rightarrow> ('s, 'b) tx) \<Rightarrow> ('s, 'b) tx" where
  "bnd m f = (\<lambda>s. case m s of (Inl e, s') \<Rightarrow> (Inl e, s') | (Inr x, s') \<Rightarrow> f x s')"

definition gets :: "('s \<Rightarrow> 'a) \<Rightarrow> ('s, 'a) tx" where
  "gets f = (\<lambda>s. (Inr (f s), s))"

definition modify :: "('s \<Rightarrow> 's) \<Rightarrow> ('s, unit) tx" where
  "modify f = (\<lambda>s. (Inr (), f s))"

text \<open>\<open>require b e\<close> is the guard \<^verbatim>\<open>if not b: raise e\<close>.\<close>

definition require :: "bool \<Rightarrow> error \<Rightarrow> ('s, unit) tx" where
  "require b e = (if b then ret () else raise e)"

text \<open>\<open>run_if b m\<close> is the statement \<^verbatim>\<open>if b: m\<close>.\<close>

definition run_if :: "bool \<Rightarrow> ('s, unit) tx \<Rightarrow> ('s, unit) tx" where
  "run_if b m = (if b then m else ret ())"

text \<open>\<open>some_or e\<close> unwraps a lookup: \<^verbatim>\<open>if row is None: raise e\<close>.\<close>

definition some_or :: "error \<Rightarrow> 'a option \<Rightarrow> ('s, 'a) tx" where
  "some_or e r = (case r of None \<Rightarrow> raise e | Some x \<Rightarrow> ret x)"

text \<open>A pure computation that may raise, run inside a transaction.\<close>

definition lift_res :: "error + 'a \<Rightarrow> ('s, 'a) tx" where
  "lift_res r = (case r of Inl e \<Rightarrow> raise e | Inr x \<Rightarrow> ret x)"

text \<open>Sequencing of pure computations that may raise.\<close>

definition res_bnd :: "error + 'a \<Rightarrow> ('a \<Rightarrow> error + 'b) \<Rightarrow> error + 'b" where
  "res_bnd r f = (case r of Inl e \<Rightarrow> Inl e | Inr x \<Rightarrow> f x)"

fun res_map :: "('a \<Rightarrow> error + 'b) \<Rightarrow> 'a list \<Rightarrow> error + 'b list" where
  "res_map f [] = Inr []"
| "res_map f (x # xs) = res_bnd (f x) (\<lambda>y. res_bnd (res_map f xs) (\<lambda>ys. Inr (y # ys)))"

text \<open>\<^verbatim>\<open>for x in xs: body(x)\<close>, collecting what each round appends, and the same loop with an
  accumulator.\<close>

fun for_each :: "('a \<Rightarrow> ('s, 'b) tx) \<Rightarrow> 'a list \<Rightarrow> ('s, 'b list) tx" where
  "for_each f [] = ret []"
| "for_each f (x # xs) = bnd (f x) (\<lambda>y. bnd (for_each f xs) (\<lambda>ys. ret (y # ys)))"

fun for_acc :: "('acc \<Rightarrow> 'a \<Rightarrow> ('s, 'acc) tx) \<Rightarrow> 'acc \<Rightarrow> 'a list \<Rightarrow> ('s, 'acc) tx" where
  "for_acc f acc [] = ret acc"
| "for_acc f acc (x # xs) = bnd (f acc x) (\<lambda>acc'. for_acc f acc' xs)"

text \<open>
  \<^verbatim>\<open>session.flush()\<close>: pending rows are sent to the database, which checks its constraints.
  \<open>chk\<close> gives the error of the first violated constraint.
\<close>

definition flush :: "('s \<Rightarrow> error option) \<Rightarrow> ('s, unit) tx" where
  "flush chk = (\<lambda>s. case chk s of None \<Rightarrow> (Inr (), s) | Some e \<Rightarrow> (Inl e, s))"

text \<open>
  \<open>service_transaction\<close> of \<^verbatim>\<open>db/session.py\<close>: run the body; on success flush and commit, where a
  violated constraint raises; on any exception roll back to the state at the start and re-raise.
\<close>

definition service_transaction :: "('s \<Rightarrow> error option) \<Rightarrow> ('s, 'a) tx \<Rightarrow> ('s, 'a) tx" where
  "service_transaction chk m = (\<lambda>s.
     case bnd m (\<lambda>x. bnd (flush chk) (\<lambda>_. ret x)) s of
       (Inl e, _) \<Rightarrow> (Inl e, s)
     | (Inr x, s') \<Rightarrow> (Inr x, s'))"

text \<open>\<^verbatim>\<open>try: m except IntegrityError: raise e\<close>\<close>

definition on_integrity_error :: "error \<Rightarrow> ('s, 'a) tx \<Rightarrow> ('s, 'a) tx" where
  "on_integrity_error e m = (\<lambda>s.
     case m s of (Inl IntegrityError, s') \<Rightarrow> (Inl e, s') | r \<Rightarrow> r)"

lemma res_bnd_simps [simp]: "res_bnd (Inl e) f = Inl e" "res_bnd (Inr x) f = f x"
  by (simp_all add: res_bnd_def)

lemma res_bnd_eq_Inr [simp]: "res_bnd r f = Inr y \<longleftrightarrow> (\<exists>x. r = Inr x \<and> f x = Inr y)"
  by (cases r) simp_all

section \<open>Weakest preconditions\<close>

text \<open>
  \<open>wp m Q s\<close>: if \<open>m\<close> returns from \<open>s\<close>, its result and final state satisfy \<open>Q\<close>. An exception
  satisfies every \<open>Q\<close>: what it leaves behind is discarded by the enclosing transaction, and the
  lemmas on \<open>service_transaction\<close> speak about both outcomes.
\<close>

definition wp :: "('s, 'a) tx \<Rightarrow> ('a \<Rightarrow> 's \<Rightarrow> bool) \<Rightarrow> 's \<Rightarrow> bool" where
  "wp m Q s = (case m s of (Inl e, s') \<Rightarrow> True | (Inr x, s') \<Rightarrow> Q x s')"

named_theorems wp_simps \<open>equations that compute a weakest precondition\<close>
named_theorems inv_defs \<open>definitions of the invariants of the components\<close>

lemma wp_ret [wp_simps]: "wp (ret x) Q = Q x"
  by (simp add: fun_eq_iff wp_def ret_def)

lemma wp_raise [wp_simps]: "wp (raise e) Q = (\<lambda>s. True)"
  by (simp add: fun_eq_iff wp_def raise_def)

lemma wp_bnd [wp_simps]: "wp (bnd m f) Q = wp m (\<lambda>x. wp (f x) Q)"
  by (auto simp: fun_eq_iff wp_def bnd_def split: prod.splits sum.splits)

lemma wp_gets [wp_simps]: "wp (gets f) Q = (\<lambda>s. Q (f s) s)"
  by (simp add: fun_eq_iff wp_def gets_def)

lemma wp_modify [wp_simps]: "wp (modify f) Q = (\<lambda>s. Q () (f s))"
  by (simp add: fun_eq_iff wp_def modify_def)

lemma wp_require [wp_simps]: "wp (require b e) Q = (\<lambda>s. b \<longrightarrow> Q () s)"
  by (simp add: fun_eq_iff require_def wp_ret wp_raise)

lemma wp_run_if [wp_simps]: "wp (run_if b m) Q = (if b then wp m Q else Q ())"
  by (simp add: run_if_def wp_ret)

lemma wp_some_or [wp_simps]: "wp (some_or e r) Q = (\<lambda>s. \<forall>x. r = Some x \<longrightarrow> Q x s)"
  by (cases r) (simp_all add: fun_eq_iff some_or_def wp_ret wp_raise)

lemma wp_lift_res [wp_simps]: "wp (lift_res r) Q = (\<lambda>s. \<forall>x. r = Inr x \<longrightarrow> Q x s)"
  by (cases r) (simp_all add: fun_eq_iff lift_res_def wp_ret wp_raise)

lemma wp_flush [wp_simps]: "wp (flush chk) Q = (\<lambda>s. chk s = None \<longrightarrow> Q () s)"
  by (simp add: fun_eq_iff wp_def flush_def split: option.splits)

lemma wp_service_transaction [wp_simps]:
  "wp (service_transaction chk m) Q = wp m (\<lambda>x s'. chk s' = None \<longrightarrow> Q x s')"
  by (auto simp: fun_eq_iff wp_def service_transaction_def bnd_def flush_def ret_def
      split: prod.splits sum.splits option.splits)

lemma wp_on_integrity_error [wp_simps]: "wp (on_integrity_error e m) Q = wp m Q"
  by (auto simp: fun_eq_iff wp_def on_integrity_error_def split: prod.splits sum.splits error.splits)

lemma wp_if [wp_simps]: "wp (if b then m else n) Q = (if b then wp m Q else wp n Q)"
  by simp

lemma wp_case_option [wp_simps]:
  "wp (case r of None \<Rightarrow> m | Some x \<Rightarrow> f x) Q
     = (case r of None \<Rightarrow> wp m Q | Some x \<Rightarrow> wp (f x) Q)"
  by (simp split: option.splits)

lemma wp_case_prod [wp_simps]:
  "wp (case p of (a, b) \<Rightarrow> f a b) Q = (case p of (a, b) \<Rightarrow> wp (f a b) Q)"
  by (simp split: prod.splits)

lemma wp_let [wp_simps]: "wp (let x = e in f x) Q = (let x = e in wp (f x) Q)"
  by (simp add: Let_def)

lemma wp_mono:
  assumes "wp m Q s" and "\<And>x s'. Q x s' \<Longrightarrow> R x s'"
  shows "wp m R s"
  using assms by (auto simp: wp_def split: prod.splits sum.splits)

lemma wp_conj: "wp m (\<lambda>x s'. Q x s' \<and> R x s') s \<longleftrightarrow> wp m Q s \<and> wp m R s"
  by (auto simp: wp_def split: prod.splits sum.splits)

lemma wp_True [simp]: "wp m (\<lambda>x s'. True) s"
  by (auto simp: wp_def split: prod.splits sum.splits)

lemma wpD: "wp m Q s \<Longrightarrow> m s = (Inr x, s') \<Longrightarrow> Q x s'"
  by (simp add: wp_def)

lemma wpI: "(\<And>x s'. m s = (Inr x, s') \<Longrightarrow> Q x s') \<Longrightarrow> wp m Q s"
  by (auto simp: wp_def split: prod.splits sum.splits)

text \<open>Loops: an invariant of the body is one of the loop.\<close>

lemma wp_for_each:
  assumes "I s" and "\<And>x s. x \<in> set xs \<Longrightarrow> I s \<Longrightarrow> wp (f x) (\<lambda>_. I) s"
  shows "wp (for_each f xs) (\<lambda>_. I) s"
  using assms
proof (induction xs arbitrary: s)
  case Nil
  then show ?case by (simp add: wp_simps)
next
  case (Cons x xs)
  have "wp (f x) (\<lambda>_. I) s" using Cons.prems by simp
  moreover have "wp (for_each f xs) (\<lambda>_. I) s'" if "I s'" for s'
    using that Cons.IH Cons.prems(2) by simp
  ultimately show ?case by (auto simp: wp_simps elim: wp_mono)
qed

text \<open>The same with an invariant that mentions the elements still to come.\<close>

lemma wp_for_each_rest:
  assumes "I xs s" and "\<And>x xs s. I (x # xs) s \<Longrightarrow> wp (f x) (\<lambda>_. I xs) s"
  shows "wp (for_each f xs) (\<lambda>_. I []) s"
  using assms(1)
proof (induction xs arbitrary: s)
  case Nil
  then show ?case by (simp add: wp_simps)
next
  case (Cons x xs)
  have "wp (f x) (\<lambda>_. I xs) s" using Cons.prems by (rule assms(2))
  then show ?case using Cons.IH by (auto simp: wp_simps elim: wp_mono)
qed

text \<open>And with one that mentions the elements already done.\<close>

lemma wp_for_each_prefix:
  assumes init: "I [] s"
    and body: "\<And>done x rest s. xs = done @ x # rest \<Longrightarrow> I done s \<Longrightarrow> wp (f x) (\<lambda>_. I (done @ [x])) s"
  shows "wp (for_each f xs) (\<lambda>_. I xs) s"
proof -
  have "wp (for_each f ys) (\<lambda>_. I xs) s" if "xs = zs @ ys" and "I zs s" for zs ys s
    using that
  proof (induction ys arbitrary: zs s)
    case Nil
    then show ?case by (simp add: wp_simps)
  next
    case (Cons y ys)
    have "wp (f y) (\<lambda>_. I (zs @ [y])) s" using body Cons.prems by blast
    moreover have "wp (for_each f ys) (\<lambda>_. I xs) s'" if "I (zs @ [y]) s'" for s'
      using that Cons.IH[of "zs @ [y]"] Cons.prems(1) by simp
    ultimately show ?case by (auto simp: wp_simps elim: wp_mono)
  qed
  from this[of "[]" xs] init show ?thesis by simp
qed

lemma wp_for_acc:
  assumes "I acc s" and "\<And>acc x s. x \<in> set xs \<Longrightarrow> I acc s \<Longrightarrow> wp (f acc x) I s"
  shows "wp (for_acc f acc xs) I s"
  using assms
proof (induction xs arbitrary: acc s)
  case Nil
  then show ?case by (simp add: wp_simps)
next
  case (Cons x xs)
  have "wp (f acc x) I s" using Cons.prems by simp
  moreover have "wp (for_acc f acc' xs) I s'" if "I acc' s'" for acc' s'
    using that Cons.IH Cons.prems(2) by simp
  ultimately show ?case by (auto simp: wp_simps elim: wp_mono)
qed

text \<open>
  Loops whose invariant mentions the part of the list already processed.
\<close>

lemma wp_for_acc_prefix:
  assumes init: "I [] acc s"
    and body: "\<And>done x rest acc s. xs = done @ x # rest \<Longrightarrow> I done acc s \<Longrightarrow>
                 wp (f acc x) (I (done @ [x])) s"
  shows "wp (for_acc f acc xs) (I xs) s"
proof -
  have "wp (for_acc f acc ys) (I xs) s" if "xs = zs @ ys" and "I zs acc s" for zs ys acc s
    using that
  proof (induction ys arbitrary: zs acc s)
    case Nil
    then show ?case by (simp add: wp_simps)
  next
    case (Cons y ys)
    have "wp (f acc y) (I (zs @ [y])) s" using body Cons.prems by blast
    moreover have "wp (for_acc f acc' ys) (I xs) s'" if "I (zs @ [y]) acc' s'" for acc' s'
      using that Cons.IH[of "zs @ [y]"] Cons.prems(1) by simp
    ultimately show ?case by (auto simp: wp_simps elim: wp_mono)
  qed
  from this[of "[]" xs] init show ?thesis by simp
qed

section \<open>Transactions\<close>

text \<open>An operation is atomic when an exception leaves the state it started from.\<close>

definition atomic :: "('s, 'a) tx \<Rightarrow> bool" where
  "atomic m \<longleftrightarrow> (\<forall>s e s'. m s = (Inl e, s') \<longrightarrow> s' = s)"

named_theorems atomic_intros \<open>operations whose exceptions leave the state unchanged\<close>

lemma atomic_service_transaction [atomic_intros]: "atomic (service_transaction chk m)"
  by (auto simp: atomic_def service_transaction_def split: prod.splits sum.splits)

lemma atomic_raise [atomic_intros]: "atomic (raise e)"
  by (simp add: atomic_def raise_def)

lemma atomic_ret [atomic_intros]: "atomic (ret x)"
  by (simp add: atomic_def ret_def)

lemma atomic_on_integrity_error [atomic_intros]: "atomic m \<Longrightarrow> atomic (on_integrity_error e m)"
  by (auto simp: atomic_def on_integrity_error_def split: prod.splits sum.splits error.splits)

lemma atomic_require_bnd [atomic_intros]: "atomic (f ()) \<Longrightarrow> atomic (bnd (require b e) f)"
  by (auto simp: atomic_def bnd_def require_def ret_def raise_def split: if_splits)

lemma atomic_if [atomic_intros]: "atomic m \<Longrightarrow> atomic n \<Longrightarrow> atomic (if b then m else n)"
  by simp

lemma atomic_some_or_bnd [atomic_intros]:
  "(\<And>x. atomic (f x)) \<Longrightarrow> atomic (bnd (some_or e r) f)"
  by (cases r) (auto simp: atomic_def bnd_def some_or_def ret_def raise_def)

lemma atomic_lift_res_bnd [atomic_intros]:
  "(\<And>x. atomic (f x)) \<Longrightarrow> atomic (bnd (lift_res r) f)"
  by (cases r) (auto simp: atomic_def bnd_def lift_res_def ret_def raise_def)

lemma atomic_gets_bnd [atomic_intros]: "(\<And>x. atomic (f x)) \<Longrightarrow> atomic (bnd (gets g) f)"
  by (auto simp: atomic_def bnd_def gets_def)

lemma atomicD: "atomic m \<Longrightarrow> m s = (Inl e, s') \<Longrightarrow> s' = s"
  by (simp add: atomic_def)

text \<open>
  An invariant that holds before an atomic operation and in every state it commits holds
  afterwards whether or not it raised.
\<close>

lemma atomic_preserves:
  assumes "atomic m" and "I s" and "wp m (\<lambda>_. I) s"
  shows "I (snd (m s))"
proof (cases "m s")
  case (Pair r s')
  then show ?thesis
    using assms by (cases r) (auto simp: atomic_def wp_def)
qed

section \<open>Rows and tables\<close>

text \<open>
  A table is the list of its rows in insertion order. \<open>upd_where p f\<close> is the effect of assigning
  to the attributes of the loaded rows that satisfy \<open>p\<close>, or of an SQL \<^verbatim>\<open>UPDATE ... WHERE p\<close>.
\<close>

definition upd_where :: "('r \<Rightarrow> bool) \<Rightarrow> ('r \<Rightarrow> 'r) \<Rightarrow> 'r list \<Rightarrow> 'r list" where
  "upd_where p f = map (\<lambda>r. if p r then f r else r)"

lemma upd_where_simps [simp]:
  "upd_where p f [] = []"
  "upd_where p f (r # rs) = (if p r then f r else r) # upd_where p f rs"
  by (simp_all add: upd_where_def)

lemma upd_where_append [simp]: "upd_where p f (xs @ ys) = upd_where p f xs @ upd_where p f ys"
  by (simp add: upd_where_def)

lemma length_upd_where [simp]: "length (upd_where p f rs) = length rs"
  by (simp add: upd_where_def)

lemma map_upd_where [simp]: "(\<And>r. g (f r) = g r) \<Longrightarrow> map g (upd_where p f rs) = map g rs"
  by (induction rs) simp_all

lemma set_upd_where: "set (upd_where p f rs) = {if p r then f r else r | r. r \<in> set rs}"
  by (auto simp: upd_where_def)

lemma in_upd_where: "r \<in> set rs \<Longrightarrow> \<not> p r \<Longrightarrow> r \<in> set (upd_where p f rs)"
  by (induction rs) auto

lemma filter_upd_where:
  "(\<And>r. q (f r) = q r) \<Longrightarrow> filter q (upd_where p f rs) = upd_where p f (filter q rs)"
  by (induction rs) simp_all

lemma list_all_upd_where: "(\<And>r. q (f r) = q r) \<Longrightarrow> list_all q (upd_where p f rs) = list_all q rs"
  by (induction rs) simp_all

lemma upd_where_no_match: "(\<And>r. r \<in> set rs \<Longrightarrow> \<not> p r) \<Longrightarrow> upd_where p f rs = rs"
  by (induction rs) simp_all

lemma find_SomeD: "find p xs = Some x \<Longrightarrow> x \<in> set xs \<and> p x"
  by (induction xs) (auto split: if_splits)

lemma find_append: "find p (xs @ ys) = (case find p xs of None \<Rightarrow> find p ys | r \<Rightarrow> r)"
  by (induction xs) simp_all

lemma find_upd_where:
  "(\<And>r. q (f r) = q r) \<Longrightarrow>
     find q (upd_where p f rs) = map_option (\<lambda>r. if p r then f r else r) (find q rs)"
  by (induction rs) simp_all

lemma find_map_eq:
  assumes "map g xs = map g ys" and "\<And>x y. g x = g y \<Longrightarrow> P x = P y"
  shows "map_option g (find P xs) = map_option g (find P ys)"
  using assms(1)
proof (induction xs arbitrary: ys)
  case Nil
  then show ?case by simp
next
  case (Cons x xs)
  then obtain y ys' where "ys = y # ys'" "g x = g y" "map g xs = map g ys'" by (cases ys) auto
  with Cons.IH[of ys'] assms(2)[of x y] show ?case by simp
qed

lemma find_distinct_iff:
  assumes "distinct (map k rs)"
  shows "find (\<lambda>r. k r = a) rs = Some r \<longleftrightarrow> r \<in> set rs \<and> k r = a"
  using assms by (induction rs) (auto split: if_splits simp: image_iff)

lemma sum_list_upd_unique:
  fixes v :: "'r \<Rightarrow> 'b :: ab_group_add"
  assumes "distinct (map k rs)" and "r \<in> set rs"
  shows "sum_list (map v (upd_where (\<lambda>x. k x = k r) f rs)) = sum_list (map v rs) - v r + v (f r)"
  using assms
proof (induction rs)
  case Nil
  then show ?case by simp
next
  case (Cons x xs)
  show ?case
  proof (cases "x = r")
    case True
    then have "\<And>y. y \<in> set xs \<Longrightarrow> k y \<noteq> k r"
      using Cons.prems by (auto simp: image_iff)
    then have "upd_where (\<lambda>x. k x = k r) f xs = xs"
      by (intro upd_where_no_match) auto
    with True show ?thesis by (simp add: algebra_simps)
  next
    case False
    with Cons.prems have "r \<in> set xs" and "k x \<noteq> k r" by (auto simp: image_iff)
    with Cons show ?thesis by (simp add: algebra_simps)
  qed
qed

lemma sum_list_nonneg':
  fixes f :: "'r \<Rightarrow> 'b :: ordered_comm_monoid_add"
  shows "(\<And>x. x \<in> set xs \<Longrightarrow> 0 \<le> f x) \<Longrightarrow> 0 \<le> sum_list (map f xs)"
  by (induction xs) (auto intro: add_nonneg_nonneg)

lemma sum_list_member_le:
  fixes f :: "'r \<Rightarrow> 'b :: ordered_comm_monoid_add"
  assumes "x \<in> set xs" and "\<And>y. y \<in> set xs \<Longrightarrow> 0 \<le> f y"
  shows "f x \<le> sum_list (map f xs)"
  using assms
proof (induction xs)
  case Nil
  then show ?case by simp
next
  case (Cons y ys)
  show ?case
  proof (cases "x = y")
    case True
    with Cons show ?thesis by (simp add: add_increasing2 sum_list_nonneg')
  next
    case False
    with Cons show ?thesis by (simp add: add_increasing)
  qed
qed

text \<open>Splitting a sum over rows by a key, as \<^verbatim>\<open>GROUP BY\<close> does.\<close>

lemma sum_list_single:
  fixes v :: "'b :: comm_monoid_add"
  shows "distinct ks \<Longrightarrow> a \<in> set ks \<Longrightarrow> sum_list (map (\<lambda>k. if a = k then v else 0) ks) = v"
proof (induction ks)
  case (Cons k ks)
  have "sum_list (map (\<lambda>k. if a = k then v else 0) ks) = 0" if "a \<notin> set ks"
    using that by (induction ks) auto
  with Cons show ?case by auto
qed simp

lemma sum_list_group_by:
  fixes f :: "'r \<Rightarrow> 'b :: comm_monoid_add"
  assumes "distinct ks" and "\<And>x. x \<in> set xs \<Longrightarrow> key x \<in> set ks"
  shows "sum_list (map (\<lambda>k. sum_list (map f (filter (\<lambda>x. key x = k) xs))) ks) = sum_list (map f xs)"
  using assms(2)
proof (induction xs)
  case (Cons x xs)
  have "sum_list (map (\<lambda>k. sum_list (map f (filter (\<lambda>x. key x = k) (x # xs)))) ks)
      = sum_list (map (\<lambda>k. (if key x = k then f x else 0) + sum_list (map f (filter (\<lambda>x. key x = k) xs))) ks)"
    by (intro arg_cong[where f = sum_list] map_cong) simp_all
  also have "\<dots> = f x + sum_list (map f xs)"
    using Cons sum_list_single[OF assms(1), of "key x" "f x"] by (simp add: sum_list_addf)
  finally show ?case by simp
qed simp

lemma sum_list_sort_key:
  fixes f :: "'r \<Rightarrow> 'b :: comm_monoid_add"
  shows "sum_list (map f (sort_key k xs)) = sum_list (map f xs)"
proof -
  have "mset (map f (sort_key k xs)) = mset (map f xs)" by simp
  then show ?thesis by (metis sum_mset_sum_list)
qed

lemma res_map_list_all2: "res_map f xs = Inr ys \<Longrightarrow> list_all2 (\<lambda>x y. f x = Inr y) xs ys"
  by (induction xs arbitrary: ys) auto

text \<open>The definitions that run an operation on a concrete state.\<close>

lemmas run_simps = bnd_def ret_def raise_def gets_def modify_def require_def run_if_def some_or_def
  lift_res_def flush_def service_transaction_def on_integrity_error_def

section \<open>Constraints\<close>

text \<open>
  The constraints of the tables a transaction touches, each with the error the database raises;
  \<open>violated\<close> is the first one that does not hold. \<open>unique_where k p\<close> is a (partial) unique index.
\<close>

definition violated :: "(bool \<times> error) list \<Rightarrow> error option" where
  "violated cs = map_option snd (find (\<lambda>c. \<not> fst c) cs)"

definition unique_where :: "('r \<Rightarrow> 'k) \<Rightarrow> ('r \<Rightarrow> bool) \<Rightarrow> 'r list \<Rightarrow> bool" where
  "unique_where k p rs = distinct (map k (filter p rs))"

abbreviation unique_on :: "('r \<Rightarrow> 'k) \<Rightarrow> 'r list \<Rightarrow> bool" where
  "unique_on k rs \<equiv> distinct (map k rs)"

lemma violated_None [simp]: "violated cs = None \<longleftrightarrow> list_all fst cs"
  by (auto simp: violated_def find_None_iff list_all_iff)

lemma unique_where_inj:
  "unique_where k p rs \<Longrightarrow> r \<in> set rs \<Longrightarrow> r' \<in> set rs \<Longrightarrow> p r \<Longrightarrow> p r' \<Longrightarrow> k r = k r' \<Longrightarrow> r = r'"
  by (auto simp: unique_where_def distinct_map dest: inj_onD)

lemma unique_on_inj: "unique_on k rs \<Longrightarrow> r \<in> set rs \<Longrightarrow> r' \<in> set rs \<Longrightarrow> k r = k r' \<Longrightarrow> r = r'"
  by (auto simp: distinct_map dest: inj_onD)

lemmas table_simps = upd_where_simps find_append

end
