(* ===== verification/Program_Logic.thy ===== *)
theory Program_Logic
  imports Prelude
begin

text \<open>
  Rules for proving properties of service operations by their structure. \<open>keeps I m\<close> says that \<open>m\<close> leads from states
  that satisfy \<open>I\<close> to states that satisfy \<open>I\<close>; \<open>triple P m Q\<close> reads the steps of an operation forwards; and the rules
  for \<open>service_transaction\<close> use what the constraint checks of the commit establish.
\<close>

section \<open>Preservation\<close>

definition keeps :: "('s \<Rightarrow> bool) \<Rightarrow> ('s, 'a) tx \<Rightarrow> bool" where
  "keeps I m \<longleftrightarrow> (\<forall>s. I s \<longrightarrow> wp m (\<lambda>_. I) s)"

named_theorems keeps_intros \<open>operations that keep an invariant, by their structure\<close>

lemma keepsI: "(\<And>s. I s \<Longrightarrow> wp m (\<lambda>_. I) s) \<Longrightarrow> keeps I m"
  by (simp add: keeps_def)

lemma keepsD: "keeps I m \<Longrightarrow> I s \<Longrightarrow> wp m (\<lambda>_. I) s"
  by (simp add: keeps_def)

lemma keeps_run: "keeps I m \<Longrightarrow> I s \<Longrightarrow> m s = (Inr x, s') \<Longrightarrow> I s'"
  by (auto simp: keeps_def wp_def)

lemma keeps_ret [keeps_intros]: "keeps I (ret x)"
  by (simp add: keeps_def wp_simps)

lemma keeps_raise [keeps_intros]: "keeps I (raise e)"
  by (simp add: keeps_def wp_simps)

lemma keeps_bnd [keeps_intros]: "keeps I m \<Longrightarrow> (\<And>x. keeps I (f x)) \<Longrightarrow> keeps I (bnd m f)"
  unfolding wp_bnd by (rule keepsI) (auto simp: wp_bnd keeps_def intro: wp_mono[of m "\<lambda>_. I"])

lemma keeps_gets [keeps_intros]: "keeps I (gets f)"
  by (simp add: keeps_def wp_simps)

lemma keeps_modify [keeps_intros]: "(\<And>s. I s \<Longrightarrow> I (f s)) \<Longrightarrow> keeps I (modify f)"
  by (simp add: keeps_def wp_simps)

lemma keeps_require [keeps_intros]: "keeps I (require b e)"
  by (simp add: keeps_def wp_simps)

lemma keeps_run_if [keeps_intros]: "keeps I m \<Longrightarrow> keeps I (run_if b m)"
  by (simp add: keeps_def wp_simps)

lemma keeps_some_or [keeps_intros]: "keeps I (some_or e r)"
  by (simp add: keeps_def wp_simps)

lemma keeps_lift_res [keeps_intros]: "keeps I (lift_res r)"
  by (simp add: keeps_def wp_simps)

lemma keeps_flush [keeps_intros]: "keeps I (flush chk)"
  by (simp add: keeps_def wp_simps)

lemma keeps_service_transaction [keeps_intros]: "keeps I m \<Longrightarrow> keeps I (service_transaction chk m)"
  by (auto simp: keeps_def wp_simps elim: wp_mono)

lemma keeps_on_integrity_error [keeps_intros]: "keeps I m \<Longrightarrow> keeps I (on_integrity_error e m)"
  by (simp add: keeps_def wp_simps)

lemma keeps_if [keeps_intros]: "keeps I m \<Longrightarrow> keeps I n \<Longrightarrow> keeps I (if b then m else n)"
  by simp

lemma keeps_case_option [keeps_intros]:
  "keeps I m \<Longrightarrow> (\<And>x. keeps I (f x)) \<Longrightarrow> keeps I (case r of None \<Rightarrow> m | Some x \<Rightarrow> f x)"
  by (cases r) simp_all

lemma keeps_case_prod [keeps_intros]: "(\<And>a b. keeps I (f a b)) \<Longrightarrow> keeps I (case p of (a, b) \<Rightarrow> f a b)"
  by (cases p) simp

lemma keeps_for_each [keeps_intros]: "(\<And>x. x \<in> set xs \<Longrightarrow> keeps I (f x)) \<Longrightarrow> keeps I (for_each f xs)"
  by (auto simp: keeps_def intro: wp_for_each)

lemma keeps_for_acc [keeps_intros]:
  "(\<And>acc x. x \<in> set xs \<Longrightarrow> keeps I (f acc x)) \<Longrightarrow> keeps I (for_acc f acc xs)"
  by (auto simp: keeps_def intro: wp_for_acc[where I = "\<lambda>_. I"])

text \<open>An atomic operation that keeps an invariant keeps it whatever its outcome.\<close>

lemma keeps_atomic: "atomic m \<Longrightarrow> keeps I m \<Longrightarrow> I s \<Longrightarrow> I (snd (m s))"
  by (rule atomic_preserves[where I = I]) (auto simp: keeps_def)

lemma keeps_conj: "keeps I m \<Longrightarrow> keeps J m \<Longrightarrow> keeps (\<lambda>s. I s \<and> J s) m"
  by (simp add: keeps_def wp_conj)

section \<open>Triples\<close>

text \<open>Steps of an operation, read forwards. A guard adds what it checked; a step that keeps the precondition is skipped.\<close>

definition triple :: "('s \<Rightarrow> bool) \<Rightarrow> ('s, 'a) tx \<Rightarrow> ('a \<Rightarrow> 's \<Rightarrow> bool) \<Rightarrow> bool" where
  "triple P m Q \<longleftrightarrow> (\<forall>s. P s \<longrightarrow> wp m Q s)"

lemma tripleI: "(\<And>s. P s \<Longrightarrow> wp m Q s) \<Longrightarrow> triple P m Q"
  by (simp add: triple_def)

lemma tripleD: "triple P m Q \<Longrightarrow> P s \<Longrightarrow> wp m Q s"
  by (simp add: triple_def)

lemma triple_bnd: "triple P m R \<Longrightarrow> (\<And>x. triple (R x) (f x) Q) \<Longrightarrow> triple P (bnd m f) Q"
  by (auto simp: triple_def wp_bnd elim!: wp_mono)

lemma triple_read: "(\<And>v. triple (\<lambda>s. P s \<and> v = f s) (g v) Q) \<Longrightarrow> triple P (bnd (gets f) g) Q"
  by (simp add: triple_def wp_simps)

lemma triple_gets: "(\<And>v. triple P (g v) Q) \<Longrightarrow> triple P (bnd (gets f) g) Q"
  by (simp add: triple_def wp_simps)

lemma triple_require: "(b \<Longrightarrow> triple P (g ()) Q) \<Longrightarrow> triple P (bnd (require b e) g) Q"
  by (simp add: triple_def wp_simps)

lemma triple_some_or: "(\<And>x. r = Some x \<Longrightarrow> triple P (g x) Q) \<Longrightarrow> triple P (bnd (some_or e r) g) Q"
  by (simp add: triple_def wp_simps)

lemma triple_lift_res: "(\<And>x. r = Inr x \<Longrightarrow> triple P (g x) Q) \<Longrightarrow> triple P (bnd (lift_res r) g) Q"
  by (simp add: triple_def wp_simps)

lemma triple_skip: "keeps P m \<Longrightarrow> (\<And>x. triple P (g x) Q) \<Longrightarrow> triple P (bnd m g) Q"
  by (rule triple_bnd[where R = "\<lambda>_. P"]) (auto simp: triple_def keeps_def)

lemma triple_keeps: "keeps P m \<Longrightarrow> triple P m (\<lambda>_. P)"
  by (simp add: triple_def keeps_def)

lemma triple_conseq: "triple P m Q \<Longrightarrow> (\<And>s. P' s \<Longrightarrow> P s) \<Longrightarrow> (\<And>x s. Q x s \<Longrightarrow> Q' x s) \<Longrightarrow> triple P' m Q'"
  by (rule tripleI, rule wp_mono[of m Q]) (simp_all add: triple_def)

lemma triple_weaken: "triple P m Q \<Longrightarrow> (\<And>x s. Q x s \<Longrightarrow> Q' x s) \<Longrightarrow> triple P m Q'"
  by (rule triple_conseq)

lemma keeps_triple: "triple I m (\<lambda>_. I) \<Longrightarrow> keeps I m"
  by (simp add: triple_def keeps_def)

text \<open>What an operation does to a table before the commit, and what the checks of the commit make of it.\<close>

lemma keeps_committed:
  assumes "\<And>s. I s \<Longrightarrow> wp m (\<lambda>_ s'. chk s' = None \<longrightarrow> I s') s"
  shows "keeps I (service_transaction chk m)"
  using assms by (simp add: keeps_def wp_service_transaction)

lemma commit_rule: "keeps N m \<Longrightarrow> N s \<Longrightarrow> (\<And>s'. N s' \<Longrightarrow> chk s' = None \<Longrightarrow> J s') \<Longrightarrow> wp m (\<lambda>_ s'. chk s' = None \<longrightarrow> J s') s"
  by (rule wp_mono[of m "\<lambda>_. N"]) (auto simp: keeps_def)

lemma keeps_by_commit:
  assumes "\<And>s. I s \<Longrightarrow> keeps (N s) m" and "\<And>s. I s \<Longrightarrow> N s s"
    and "\<And>s t. I s \<Longrightarrow> N s t \<Longrightarrow> chk t = None \<Longrightarrow> I t"
  shows "keeps I (service_transaction chk m)"
  using assms by (intro keeps_committed commit_rule) blast+

lemma keeps_read:
  assumes "\<And>s. I s \<Longrightarrow> P (f s)" and "\<And>x. P x \<Longrightarrow> keeps I (g x)"
  shows "keeps I (bnd (gets f) g)"
  using assms by (simp add: keeps_def wp_simps)

lemma triple_committed:
  assumes "\<And>s. I s \<Longrightarrow> triple (\<lambda>t. t = s) m (\<lambda>_. N s)" and "\<And>s t. I s \<Longrightarrow> N s t \<Longrightarrow> chk t = None \<Longrightarrow> I t"
  shows "keeps I (service_transaction chk m)"
proof (rule keeps_committed)
  fix s
  assume "I s"
  then show "wp m (\<lambda>_ t. chk t = None \<longrightarrow> I t) s"
    using tripleD[OF assms(1) refl] assms(2) by (auto intro: wp_mono)
qed

lemma triple_committed_with:
  assumes "keeps I (service_transaction chk m)" and "\<And>s. I s \<Longrightarrow> J s \<Longrightarrow> triple (\<lambda>t. t = s) m (\<lambda>_. N s)"
    and "\<And>s t. I s \<Longrightarrow> J s \<Longrightarrow> N s t \<Longrightarrow> chk t = None \<Longrightarrow> J t"
  shows "keeps (\<lambda>s. I s \<and> J s) (service_transaction chk m)"
proof (rule keepsI)
  fix s
  assume s: "I s \<and> J s"
  then have "wp m (\<lambda>_. N s) s" using tripleD[OF assms(2) refl] by blast
  then have "wp (service_transaction chk m) (\<lambda>_. J) s"
    unfolding wp_service_transaction using s assms(3) by (auto elim: wp_mono)
  then show "wp (service_transaction chk m) (\<lambda>_ s. I s \<and> J s) s"
    using s assms(1) by (simp add: wp_conj keeps_def)
qed

lemma keeps_eq: "keeps J m \<Longrightarrow> (\<And>s. I s \<longleftrightarrow> J s) \<Longrightarrow> keeps I m"
  by (subgoal_tac "I = J") auto

end
