(* ===== verification/Base_Db.thy ===== *)
theory Base_Db
  imports Prelude "HOL-Library.Char_ord"
begin

text \<open>
  The services every module uses: the request's \<open>TenantContext\<close> (\<^verbatim>\<open>core/context.py\<close>), the sources
  of identifiers and of the time, gapless document numbers (\<^verbatim>\<open>modules/numbering\<close>), idempotency keys
  (\<^verbatim>\<open>modules/idempotency\<close>) and the audit trail (\<^verbatim>\<open>modules/audit/service.py\<close>).

  A state holds the rows of one tenant: row-level security and the tenant guard confine every
  statement of a request to its tenant, so tables carry no tenant column. Identifiers come from a
  third-party generator; \<open>uuid_gen\<close> is the sequence it produces and nothing is assumed of it: where
  a property needs identifiers to differ it uses the primary-key constraint that the commit checked.
  \<open>clock\<close> is the sequence of readings of \<^verbatim>\<open>datetime.now(UTC)\<close>, in microseconds. The message of an
  exception and the \<^verbatim>\<open>created_at\<close>/\<^verbatim>\<open>updated_at\<close> columns are not modelled.
\<close>

section \<open>Data\<close>

type_synonym uuid = nat
type_synonym datetime = int

record TenantContext =
  membership_id :: uuid
  user_id :: uuid
  permissions :: "string set"
  branch_ids :: "uuid set option"

datatype meta = MStr string | MUuid uuid | MDec rat | MInt int

record audit_event =
  ae_actor_user_id :: "uuid option"
  ae_actor_membership_id :: "uuid option"
  ae_action :: string
  ae_resource_type :: string
  ae_resource_id :: "uuid option"
  ae_request_id :: "string option"
  ae_metadata :: "(string \<times> meta) list"

record document_sequence =
  ds_series :: string
  ds_period :: string
  ds_next_value :: nat
  ds_prefix :: string

datatype key_status = IN_PROGRESS | COMPLETED_KEY

record idempotency_key =
  ik_endpoint :: string
  ik_key :: string
  ik_request_hash :: string
  ik_status :: key_status
  ik_response_status :: "int option"
  ik_response_body :: "string option"
  ik_expires_at :: datetime

record base_db =
  uuid_gen :: "nat \<Rightarrow> uuid"
  uuid_count :: nat
  clock :: "nat \<Rightarrow> datetime"
  clock_count :: nat
  request_id :: "string option"
  document_sequences :: "document_sequence list"
  idempotency_keys :: "idempotency_key list"
  audit_events :: "audit_event list"

definition base_constraints :: "'a base_db_scheme \<Rightarrow> (bool \<times> error) list" where
  "base_constraints s =
     [(unique_on (\<lambda>d. (ds_series d, ds_period d)) (document_sequences s), IntegrityError),
      (list_all (\<lambda>d. 1 \<le> ds_next_value d) (document_sequences s), IntegrityError),
      (unique_on (\<lambda>k. (ik_endpoint k, ik_key k)) (idempotency_keys s), IntegrityError)]"

section \<open>Identifiers, time and audit\<close>

definition uuid7 :: "('a base_db_scheme, uuid) tx" where
  "uuid7 = bnd (gets (\<lambda>s. uuid_gen s (uuid_count s))) (\<lambda>i.
           bnd (modify (\<lambda>s. s\<lparr>uuid_count := Suc (uuid_count s)\<rparr>)) (\<lambda>_. ret i))"

definition datetime_now :: "('a base_db_scheme, datetime) tx" where
  "datetime_now = bnd (gets (\<lambda>s. clock s (clock_count s))) (\<lambda>t.
                  bnd (modify (\<lambda>s. s\<lparr>clock_count := Suc (clock_count s)\<rparr>)) (\<lambda>_. ret t))"

definition add_audit_event :: "audit_event \<Rightarrow> ('a base_db_scheme, unit) tx" where
  "add_audit_event e = modify (\<lambda>s. s\<lparr>audit_events := audit_events s @ [e]\<rparr>)"

definition audit_record ::
  "TenantContext \<Rightarrow> string \<Rightarrow> string \<Rightarrow> uuid option \<Rightarrow> (string \<times> meta) list \<Rightarrow> ('a base_db_scheme, unit) tx"
where
  "audit_record context action resource_type resource_id metadata =
     bnd (gets request_id) (\<lambda>rid.
     add_audit_event \<lparr>ae_actor_user_id = Some (user_id context),
                      ae_actor_membership_id = Some (membership_id context),
                      ae_action = action, ae_resource_type = resource_type,
                      ae_resource_id = resource_id, ae_request_id = rid,
                      ae_metadata = metadata\<rparr>)"

section \<open>Document numbers\<close>

definition SERIES :: "(string \<times> string) list" where
  "SERIES =
     [(''quotation'', ''QT''), (''sales_order'', ''SO''), (''fulfillment'', ''FUL''),
      (''invoice'', ''INV''), (''credit_note'', ''CN''), (''sales_payment'', ''RCP''),
      (''purchase_order'', ''PO''), (''goods_receipt'', ''GRN''), (''supplier_bill'', ''BILL''),
      (''purchase_payment'', ''PMT''), (''pos_session'', ''SHIFT''), (''pos_sale'', ''SALE''),
      (''pos_return'', ''RET''), (''journal'', ''JE'')]"

text \<open>Python's \<^verbatim>\<open>str(n)\<close> of a non-negative integer, and the format \<^verbatim>\<open>06d\<close>.\<close>

definition digit_char :: "nat \<Rightarrow> char" where
  "digit_char d = ''0123456789'' ! d"

fun str_nat :: "nat \<Rightarrow> string" where
  "str_nat n = (if n < 10 then [digit_char n] else str_nat (n div 10) @ [digit_char (n mod 10)])"

declare str_nat.simps [simp del]

definition zero_pad6 :: "nat \<Rightarrow> string" where
  "zero_pad6 n = (let d = str_nat n in replicate (6 - length d) (CHR ''0'') @ d)"

definition document_number :: "string \<Rightarrow> string \<Rightarrow> nat \<Rightarrow> string" where
  "document_number prefix period n = prefix @ ''-'' @ period @ ''-'' @ zero_pad6 n"

text \<open>
  The upsert of \<open>NumberAllocator.allocate\<close>: the row is inserted with \<open>next_value = 2\<close>, or its
  \<open>next_value\<close> is incremented, and the statement returns \<open>next_value - 1\<close>.
\<close>

definition same_series :: "string \<Rightarrow> string \<Rightarrow> document_sequence \<Rightarrow> bool" where
  "same_series series period d \<longleftrightarrow> ds_series d = series \<and> ds_period d = period"

definition upsert_sequence :: "string \<Rightarrow> string \<Rightarrow> string \<Rightarrow> ('a base_db_scheme, nat) tx" where
  "upsert_sequence series period prefix =
     bnd (gets (\<lambda>s. find (same_series series period) (document_sequences s))) (\<lambda>row.
     case row of
       None \<Rightarrow>
         bnd (modify (\<lambda>s. s\<lparr>document_sequences := document_sequences s @
                [\<lparr>ds_series = series, ds_period = period, ds_next_value = 2, ds_prefix = prefix\<rparr>]\<rparr>))
             (\<lambda>_. ret (2 - 1))
     | Some d \<Rightarrow>
         bnd (modify (\<lambda>s. s\<lparr>document_sequences := upd_where (same_series series period)
                (ds_next_value_update Suc) (document_sequences s)\<rparr>))
             (\<lambda>_. ret (ds_next_value d + 1 - 1)))"

definition allocate :: "string \<Rightarrow> string \<Rightarrow> ('a base_db_scheme, string) tx" where
  "allocate series period =
     (case map_of SERIES series of
        None \<Rightarrow> raise ValueError
      | Some prefix \<Rightarrow>
          bnd (upsert_sequence series period prefix) (\<lambda>allocated.
          ret (document_number prefix period allocated)))"

section \<open>Idempotency keys\<close>

definition RETENTION :: int where
  "RETENTION = 24 * 60 * 60 * 1000000"

definition same_key :: "string \<Rightarrow> string \<Rightarrow> idempotency_key \<Rightarrow> bool" where
  "same_key endpoint key k \<longleftrightarrow> ik_endpoint k = endpoint \<and> ik_key k = key"

text \<open>
  \<open>request_hash\<close> (SHA-256 over the canonical JSON text) is an argument of \<open>claim\<close>. The row of
  a concurrent transaction that has not committed is invisible to the select but conflicts with
  the insert; \<open>in_flight\<close> says whether there is one for this endpoint and key.
\<close>

definition claim ::
  "('p \<Rightarrow> string) \<Rightarrow> bool \<Rightarrow> string \<Rightarrow> string \<Rightarrow> 'p \<Rightarrow>
     ('a base_db_scheme, bool \<times> string option \<times> int option) tx"
where
  "claim request_hash in_flight endpoint key payload =
     (let digest = request_hash payload in
      bnd datetime_now (\<lambda>now.
      bnd uuid7 (\<lambda>_.
      bnd (gets (\<lambda>s. find (same_key endpoint key) (idempotency_keys s))) (\<lambda>existing.
      case existing of
        None \<Rightarrow>
          if in_flight then raise (ConflictError ''REQUEST_IN_PROGRESS'')
          else bnd (modify (\<lambda>s. s\<lparr>idempotency_keys := idempotency_keys s @
                  [\<lparr>ik_endpoint = endpoint, ik_key = key, ik_request_hash = digest,
                    ik_status = IN_PROGRESS, ik_response_status = None, ik_response_body = None,
                    ik_expires_at = now + RETENTION\<rparr>]\<rparr>))
               (\<lambda>_. ret (True, None, None))
      | Some k \<Rightarrow>
          bnd (require (ik_request_hash k = digest) (DomainValidationError ''IDEMPOTENCY_KEY_REUSE'')) (\<lambda>_.
          bnd (require (ik_status k \<noteq> IN_PROGRESS) (ConflictError ''REQUEST_IN_PROGRESS'')) (\<lambda>_.
          ret (False, ik_response_body k, ik_response_status k)))))))"

definition complete_key :: "string \<Rightarrow> string \<Rightarrow> int \<Rightarrow> string \<Rightarrow> ('a base_db_scheme, unit) tx" where
  "complete_key endpoint key response_status response_body =
     modify (\<lambda>s. s\<lparr>idempotency_keys := upd_where (same_key endpoint key)
       (\<lambda>k. k\<lparr>ik_status := COMPLETED_KEY, ik_response_status := Some response_status,
              ik_response_body := Some response_body\<rparr>) (idempotency_keys s)\<rparr>)"

section \<open>Rules for the shared services\<close>

lemma wp_uuid7 [wp_simps]:
  "wp uuid7 Q = (\<lambda>s. Q (uuid_gen s (uuid_count s)) (s\<lparr>uuid_count := Suc (uuid_count s)\<rparr>))"
  by (simp add: uuid7_def wp_simps)

lemma wp_datetime_now [wp_simps]:
  "wp datetime_now Q = (\<lambda>s. Q (clock s (clock_count s)) (s\<lparr>clock_count := Suc (clock_count s)\<rparr>))"
  by (simp add: datetime_now_def wp_simps)

lemma wp_add_audit_event [wp_simps]:
  "wp (add_audit_event e) Q = (\<lambda>s. Q () (s\<lparr>audit_events := audit_events s @ [e]\<rparr>))"
  by (simp add: add_audit_event_def wp_simps)

lemma wp_audit_record [wp_simps]:
  "wp (audit_record context action resource_type resource_id metadata) Q =
     (\<lambda>s. Q () (s\<lparr>audit_events := audit_events s @
        [\<lparr>ae_actor_user_id = Some (user_id context), ae_actor_membership_id = Some (membership_id context),
          ae_action = action, ae_resource_type = resource_type, ae_resource_id = resource_id,
          ae_request_id = request_id s, ae_metadata = metadata\<rparr>]\<rparr>))"
  by (simp add: audit_record_def wp_simps)

lemmas base_run_simps = run_simps uuid7_def datetime_now_def audit_record_def add_audit_event_def
  violated_def unique_where_def base_constraints_def

section \<open>Document numbers are gapless and distinct\<close>

text \<open>The number a series hands out next.\<close>

definition next_number :: "string \<Rightarrow> string \<Rightarrow> 'a base_db_scheme \<Rightarrow> nat" where
  "next_number series period s =
     (case find (same_series series period) (document_sequences s) of
        None \<Rightarrow> 1 | Some d \<Rightarrow> ds_next_value d)"

fun nat_of_digits :: "nat \<Rightarrow> string \<Rightarrow> nat" where
  "nat_of_digits a [] = a"
| "nat_of_digits a (c # cs) = nat_of_digits (10 * a + (of_char c - 48)) cs"

lemma nat_of_digits_append: "nat_of_digits a (xs @ ys) = nat_of_digits (nat_of_digits a xs) ys"
  by (induction xs arbitrary: a) simp_all

lemma digit_char_value: "d < 10 \<Longrightarrow> of_char (digit_char d) - 48 = d"
proof -
  assume "d < 10"
  then have "d \<in> {0, 1, 2, 3, 4, 5, 6, 7, 8, 9}" by auto
  then show ?thesis by (elim insertE emptyE) (simp_all add: digit_char_def)
qed

lemma nat_of_str_nat: "nat_of_digits 0 (str_nat n) = n"
proof (induction n rule: str_nat.induct)
  case (1 n)
  show ?case
  proof (cases "n < 10")
    case True
    then show ?thesis by (simp add: str_nat.simps[of n] digit_char_value)
  next
    case False
    with 1 show ?thesis by (simp add: str_nat.simps[of n] nat_of_digits_append digit_char_value)
  qed
qed

lemma nat_of_zeros: "nat_of_digits 0 (replicate k (CHR ''0'') @ xs) = nat_of_digits 0 xs"
  by (induction k) simp_all

lemma nat_of_zero_pad6: "nat_of_digits 0 (zero_pad6 n) = n"
  by (simp add: zero_pad6_def Let_def nat_of_zeros nat_of_str_nat)

lemma inj_document_number: "inj (document_number prefix period)"
proof (rule injI)
  fix m n
  assume "document_number prefix period m = document_number prefix period n"
  then have "zero_pad6 m = zero_pad6 n" by (simp add: document_number_def)
  then show "m = n" using nat_of_zero_pad6 by metis
qed

lemma inj_str_nat: "inj str_nat"
  using nat_of_str_nat by (metis injI)

lemma next_number_same:
  "find (same_series series period) ds = Some d \<Longrightarrow>
   find (same_series series period) (upd_where (same_series series period) (ds_next_value_update Suc) ds)
     = Some (ds_next_value_update Suc d)"
  by (induction ds) (auto simp: same_series_def split: if_splits)

lemma next_number_other:
  "(series', period') \<noteq> (series, period) \<Longrightarrow>
   find (same_series series' period') (upd_where (same_series series period) (ds_next_value_update Suc) ds)
     = find (same_series series' period') ds"
  by (induction ds) (auto simp: same_series_def split: if_splits)

lemma allocate_run:
  assumes "map_of SERIES series = Some prefix"
  shows "\<exists>s'. allocate series period s = (Inr (document_number prefix period (next_number series period s)), s')
           \<and> next_number series period s' = Suc (next_number series period s)
           \<and> (\<forall>se pe. (se, pe) \<noteq> (series, period) \<longrightarrow> next_number se pe s' = next_number se pe s)
           \<and> s' = s\<lparr>document_sequences := document_sequences s'\<rparr>"
proof (cases "find (same_series series period) (document_sequences s)")
  case None
  then show ?thesis using assms
    by (auto simp: allocate_def upsert_sequence_def bnd_def gets_def modify_def ret_def next_number_def
        find_append same_series_def split: option.splits)
next
  case (Some d)
  then show ?thesis using assms
    by (auto simp: allocate_def upsert_sequence_def bnd_def gets_def modify_def ret_def next_number_def
        next_number_same next_number_other)
qed

lemma allocate_other:
  assumes "map_of SERIES series = Some prefix" and "(se, pe) \<noteq> (series, period)" and "next_number se pe t = n"
  shows "wp (allocate series period) (\<lambda>_ t'. next_number se pe t' = n) t"
proof -
  obtain t' where "allocate series period t = (Inr (document_number prefix period (next_number series period t)), t')"
    and "next_number se pe t' = next_number se pe t"
    using allocate_run[OF assms(1), of period t] assms(2) by blast
  with assms(3) show ?thesis by (simp add: wp_def)
qed

text \<open>What a client of a number series relies on, and what follows for a run of allocations.\<close>

locale number_series =
  fixes alloc :: "('s, string) tx"
    and next_of :: "'s \<Rightarrow> nat"
    and number :: "nat \<Rightarrow> string"
  assumes alloc_next: "\<exists>s'. alloc s = (Inr (number (next_of s)), s') \<and> next_of s' = Suc (next_of s)"
    and inj_number: "inj number"
begin

lemma alloc_run:
  "\<exists>s'. for_each (\<lambda>_. alloc) xs s = (Inr (map number [next_of s ..< next_of s + length xs]), s')
      \<and> next_of s' = next_of s + length xs"
proof (induction xs arbitrary: s)
  case Nil
  then show ?case by (simp add: ret_def)
next
  case (Cons x xs)
  obtain s1 where s1: "alloc s = (Inr (number (next_of s)), s1)" "next_of s1 = Suc (next_of s)"
    using alloc_next by blast
  obtain s2 where "for_each (\<lambda>_. alloc) xs s1 = (Inr (map number [next_of s1 ..< next_of s1 + length xs]), s2)"
    "next_of s2 = next_of s1 + length xs"
    using Cons.IH by blast
  moreover have "[next_of s ..< next_of s + length (x # xs)] = next_of s # [next_of s1 ..< next_of s1 + length xs]"
    using s1(2) by (simp add: upt_conv_Cons del: upt_Suc)
  ultimately show ?case using s1 by (simp add: bnd_def ret_def del: upt_Suc)
qed

lemma alloc_distinct: "distinct (map number [m ..< n])"
  using inj_number by (simp add: distinct_map inj_on_subset[OF _ subset_UNIV])

end

lemma number_series_allocate:
  assumes "map_of SERIES series = Some prefix"
  shows "number_series (allocate series period) (next_number series period) (document_number prefix period)"
  using allocate_run[OF assms] by unfold_locales (blast, rule inj_document_number)

interpretation invoice_numbers: number_series
  "allocate ''invoice'' period" "next_number ''invoice'' period" "document_number ''INV'' period" for period
  by (rule number_series_allocate) (simp add: SERIES_def)

interpretation journal_numbers: number_series
  "allocate ''journal'' period" "next_number ''journal'' period" "document_number ''JE'' period" for period
  by (rule number_series_allocate) (simp add: SERIES_def)

text \<open>
  C18. Document numbers are gapless: consecutive allocations in a known series and period return
  consecutive numbers, starting at the counter's value (one for a series not used before); the
  numbers are pairwise different, and the counters of all other series and periods do not move.
\<close>

theorem allocate_gapless:
  assumes "map_of SERIES series = Some prefix"
  shows "\<exists>s'. for_each (\<lambda>_. allocate series period) (replicate n ()) s
                = (Inr (map (document_number prefix period)
                          [next_number series period s ..< next_number series period s + n]), s')
           \<and> next_number series period s' = next_number series period s + n
           \<and> distinct (map (document_number prefix period)
                [next_number series period s ..< next_number series period s + n])
           \<and> (\<forall>se pe. (se, pe) \<noteq> (series, period) \<longrightarrow> next_number se pe s' = next_number se pe s)"
proof -
  note ns = number_series_allocate[OF assms, of period]
  obtain s' where s': "for_each (\<lambda>_. allocate series period) (replicate n ()) s
      = (Inr (map (document_number prefix period) [next_number series period s ..< next_number series period s + n]), s')"
    "next_number series period s' = next_number series period s + n"
    using number_series.alloc_run[OF ns, of "replicate n ()" s] by auto
  have "next_number se pe s' = next_number se pe s" if "(se, pe) \<noteq> (series, period)" for se pe
  proof -
    have "wp (for_each (\<lambda>_. allocate series period) (replicate n ())) (\<lambda>_ t. next_number se pe t = next_number se pe s) s"
      by (rule wp_for_each) (simp, rule allocate_other[OF assms that], assumption)
    from wpD[OF this s'(1)] show ?thesis .
  qed
  with s' number_series.alloc_distinct[OF ns] show ?thesis by blast
qed

theorem allocate_gapless_witness:
  "\<exists>s'. for_each (\<lambda>_. allocate ''invoice'' ''2026'') (replicate 2 ())
           \<lparr>uuid_gen = (\<lambda>n. n), uuid_count = 0, clock = (\<lambda>n. 0), clock_count = 0, request_id = None,
            document_sequences = [], idempotency_keys = [], audit_events = []\<rparr>
        = (Inr [''INV-2026-000001'', ''INV-2026-000002''], s')"
proof -
  have "document_number ''INV'' ''2026'' 1 = ''INV-2026-000001''"
    "document_number ''INV'' ''2026'' (Suc 1) = ''INV-2026-000002''"
    by (simp_all add: document_number_def zero_pad6_def Let_def str_nat.simps digit_char_def numeral_eq_Suc)
  then show ?thesis
    using allocate_gapless[of "''invoice''" "''INV''" "''2026''" 2
        "\<lparr>uuid_gen = (\<lambda>n. n), uuid_count = 0, clock = (\<lambda>n. 0), clock_count = 0, request_id = None,
          document_sequences = [], idempotency_keys = [], audit_events = []\<rparr>"]
    by (auto simp: SERIES_def next_number_def upt_rec)
qed

section \<open>Idempotency keys replay the stored response\<close>

lemma find_same_key_append:
  "find (same_key e k) ks = None \<Longrightarrow> same_key e k row \<Longrightarrow> find (same_key e k) (ks @ [row]) = Some row"
  by (simp add: find_append)

lemma claim_won:
  assumes "claim h busy e k p s = (Inr (True, r), s1)"
  shows "find (same_key e k) (idempotency_keys s) = None"
    and "\<exists>row. idempotency_keys s1 = idempotency_keys s @ [row] \<and> same_key e k row \<and> ik_request_hash row = h p"
  using assms
  by (auto simp: claim_def bnd_def gets_def modify_def ret_def raise_def require_def datetime_now_def uuid7_def
      same_key_def Let_def split: option.splits if_splits)

lemma find_completed:
  assumes "find (same_key e k) ks = Some row"
  shows "find (same_key e k) (upd_where (same_key e k)
           (\<lambda>k. k\<lparr>ik_status := COMPLETED_KEY, ik_response_status := Some st, ik_response_body := Some body\<rparr>) ks)
       = Some (row\<lparr>ik_status := COMPLETED_KEY, ik_response_status := Some st, ik_response_body := Some body\<rparr>)"
  using assms by (induction ks) (auto simp: same_key_def split: if_splits)

lemma claim_digest: "claim h busy e k p = claim (\<lambda>digest. digest) busy e k (h p)"
  by (simp add: claim_def)

text \<open>
  What later requests do to the table of keys: they write other tables, they claim keys, and a request that won a key
  completes it at its end.
\<close>

inductive keys_later :: "'a base_db_scheme \<Rightarrow> 'a base_db_scheme \<Rightarrow> bool" for s where
  start: "keys_later s s"
| other_tables: "keys_later s t \<Longrightarrow> idempotency_keys u = idempotency_keys t \<Longrightarrow> keys_later s u"
| claimed: "keys_later s t \<Longrightarrow> keys_later s (snd (claim (\<lambda>digest. digest) busy e k digest t))"
| completed: "keys_later s t \<Longrightarrow> claim (\<lambda>digest. digest) busy e k digest t = (Inr (True, r), t1) \<Longrightarrow>
    idempotency_keys t2 = idempotency_keys t1 \<Longrightarrow> keys_later s (snd (complete_key e k st body t2))"

lemma find_completed_other:
  "\<not> same_key e' k' row \<Longrightarrow> find (same_key e k) ks = Some row \<Longrightarrow>
   find (same_key e k) (upd_where (same_key e' k') f ks) = Some row" if "\<And>x. ik_endpoint (f x) = ik_endpoint x \<and> ik_key (f x) = ik_key x"
  using that by (induction ks) (auto simp: same_key_def split: if_splits)

lemma claim_keys:
  "idempotency_keys (snd (claim h busy e k p s)) = idempotency_keys s
   \<or> (\<exists>row. idempotency_keys (snd (claim h busy e k p s)) = idempotency_keys s @ [row])"
  by (auto simp: claim_def bnd_def gets_def modify_def ret_def raise_def require_def datetime_now_def uuid7_def Let_def
      split: option.splits)

lemma find_claimed: "find (same_key e k) (idempotency_keys s) = Some row \<Longrightarrow>
    find (same_key e k) (idempotency_keys (snd (claim h busy e' k' p s))) = Some row"
  using claim_keys[of h busy e' k' p s] by (auto simp: find_append)

lemma keys_later_row:
  "keys_later s t \<Longrightarrow> find (same_key e k) (idempotency_keys s) = Some row \<Longrightarrow> find (same_key e k) (idempotency_keys t) = Some row"
proof (induction rule: keys_later.induct)
  case (claimed t busy e' k' digest)
  then show ?case by (intro find_claimed) simp
next
  case (completed t busy e' k' digest r t1 t2 st body)
  have row: "find (same_key e k) (idempotency_keys t) = Some row" using completed by simp
  have "find (same_key e' k') (idempotency_keys t) = None" using claim_won(1)[OF completed.hyps(2)] .
  then have other: "\<not> same_key e' k' row"
    using row by (auto simp: find_None_iff dest: find_SomeD)
  have "find (same_key e k) (idempotency_keys t1) = Some row"
    using find_claimed[OF row, of "\<lambda>digest. digest" busy e' k' digest] completed.hyps(2) by simp
  then show ?case
    using find_completed_other[OF _ other] completed.hyps(3) by (simp add: complete_key_def modify_def)
qed simp_all

text \<open>
  C17. Execute once, replay afterwards. Suppose a request won its key (\<open>claim\<close> returned \<open>True\<close>) and
  \<open>complete_key\<close> stored its response at the end of the operation. However many requests follow and whatever keys they claim
  and complete, claiming the key again with the same body returns \<open>False\<close> with exactly the stored response and adds no
  key row, and claiming it with a body of another digest raises \<open>IDEMPOTENCY_KEY_REUSE\<close>: the operation is not run twice.
\<close>

theorem claim_replays_completed:
  assumes "claim h busy e k p s = (Inr (True, r), s1)" and "idempotency_keys s2 = idempotency_keys s1"
    and "keys_later (snd (complete_key e k st body s2)) s3"
  shows "fst (claim h busy' e k p s3) = Inr (False, Some body, Some st)
       \<and> idempotency_keys (snd (claim h busy' e k p s3)) = idempotency_keys s3
       \<and> (h p' \<noteq> h p \<longrightarrow>
            fst (claim h busy' e k p' s3) = Inl (DomainValidationError ''IDEMPOTENCY_KEY_REUSE''))"
proof -
  obtain row where row: "idempotency_keys s1 = idempotency_keys s @ [row]" "same_key e k row" "ik_request_hash row = h p"
    using claim_won(2)[OF assms(1)] by blast
  then have "find (same_key e k) (idempotency_keys s2) = Some row"
    using claim_won(1)[OF assms(1)] assms(2) by (simp add: find_same_key_append)
  from find_completed[OF this, where st = st and body = body]
  have "find (same_key e k) (idempotency_keys s3)
      = Some (row\<lparr>ik_status := COMPLETED_KEY, ik_response_status := Some st, ik_response_body := Some body\<rparr>)"
    by (intro keys_later_row[OF assms(3)]) (simp add: complete_key_def modify_def)
  with row(3) show ?thesis
    by (auto simp: claim_def bnd_def gets_def modify_def ret_def raise_def require_def datetime_now_def uuid7_def Let_def)
qed

text \<open>Two payments, one after the other, and a retry of the first.\<close>

definition no_keys :: base_db where
  "no_keys = \<lparr>uuid_gen = (\<lambda>n. n), uuid_count = 0, clock = (\<lambda>n. 0), clock_count = 0, request_id = None,
     document_sequences = [], idempotency_keys = [], audit_events = []\<rparr>"

theorem claim_replays_completed_witness:
  "let s1 = snd (complete_key ''pay'' ''k1'' 201 ''done'' (snd (claim (\<lambda>p. p) False ''pay'' ''k1'' ''body'' no_keys)));
       s2 = snd (complete_key ''pay'' ''k2'' 409 ''other'' (snd (claim (\<lambda>p. p) False ''pay'' ''k2'' ''body2'' s1)))
   in fst (claim (\<lambda>p. p) False ''pay'' ''k1'' ''body'' s2)
       = (Inr (False, Some ''done'', Some 201) :: error + bool \<times> string option \<times> int option)"
proof -
  let ?c1 = "claim (\<lambda>p. p) False ''pay'' ''k1'' ''body'' no_keys"
  let ?s1 = "snd (complete_key ''pay'' ''k1'' 201 ''done'' (snd ?c1))"
  let ?c2 = "claim (\<lambda>p. p) False ''pay'' ''k2'' ''body2'' ?s1"
  note run = claim_def complete_key_def bnd_def gets_def modify_def ret_def raise_def require_def datetime_now_def uuid7_def
    Let_def no_keys_def same_key_def
  have c1: "?c1 = (Inr (True, None, None), snd ?c1)" by (simp add: run)
  have c2: "?c2 = (Inr (True, None, None), snd ?c2)" by (simp add: run)
  have "keys_later ?s1 (snd (complete_key ''pay'' ''k2'' 409 ''other'' (snd ?c2)))"
    by (rule keys_later.completed[OF keys_later.start c2 refl])
  from claim_replays_completed[OF c1 refl this] show ?thesis unfolding Let_def by blast
qed

end
