(* ===== verification/Decimals.thy ===== *)
theory Decimals
  imports Prelude
begin

text \<open>
  Python's \<^verbatim>\<open>decimal\<close> arithmetic as the program uses it, and the pricing functions built on it:
  \<^verbatim>\<open>core/money.py\<close>, \<^verbatim>\<open>modules/sales/money.py\<close> and \<^verbatim>\<open>modules/vat/pricing.py\<close>.

  A finite \<^verbatim>\<open>Decimal\<close> is modelled by the rational number it denotes (Python compares decimals by
  value). The program never changes the default context, so every operation rounds its exact
  result to 28 significant digits, ties to even (\<open>ctx28\<close>), and \<^verbatim>\<open>quantize\<close> signals
  \<open>InvalidOperation\<close> when its result needs more than 28 digits. \<open>ctx28_exact\<close> is the bridge to
  exact arithmetic: a value with \<open>k\<close> decimal places below \<open>10 ^ (28 - k)\<close> is not changed.
\<close>

section \<open>Rounding to an integer\<close>

definition round_half_even :: "rat \<Rightarrow> int" where
  "round_half_even x =
     (let f = \<lfloor>x\<rfloor>; r = x - of_int f
      in if r < 1/2 then f else if r > 1/2 then f + 1 else if even f then f else f + 1)"

text \<open>\<^verbatim>\<open>ROUND_HALF_UP\<close>: ties go away from zero.\<close>

definition round_half_up :: "rat \<Rightarrow> int" where
  "round_half_up x = (if 0 \<le> x then \<lfloor>x + 1/2\<rfloor> else - \<lfloor>- x + 1/2\<rfloor>)"

text \<open>\<^verbatim>\<open>x\<close> rounded to \<open>k\<close> decimal places by the mode \<open>rnd\<close>, and "has at most \<open>k\<close> places".\<close>

definition rescale :: "(rat \<Rightarrow> int) \<Rightarrow> nat \<Rightarrow> rat \<Rightarrow> rat" where
  "rescale rnd k x = of_int (rnd (x * 10 ^ k)) / 10 ^ k"

definition on_grid :: "nat \<Rightarrow> rat \<Rightarrow> bool" where
  "on_grid k x \<longleftrightarrow> of_int \<lfloor>x * 10 ^ k\<rfloor> = x * 10 ^ k"

lemma on_grid_iff: "on_grid k x \<longleftrightarrow> (\<exists>n. x = of_int n / 10 ^ k)"
proof
  assume "on_grid k x"
  then have "of_int \<lfloor>x * 10 ^ k\<rfloor> / 10 ^ k = x * 10 ^ k / 10 ^ k" by (simp only: on_grid_def)
  then have "x = of_int \<lfloor>x * 10 ^ k\<rfloor> / 10 ^ k" by simp
  then show "\<exists>n. x = of_int n / 10 ^ k" ..
next
  assume "\<exists>n. x = of_int n / 10 ^ k"
  then obtain n where "x * 10 ^ k = of_int n" by auto
  then show "on_grid k x" by (simp add: on_grid_def)
qed

lemma on_grid_add [intro]: "on_grid k x \<Longrightarrow> on_grid k y \<Longrightarrow> on_grid k (x + y)"
  by (auto simp: on_grid_iff) (metis add_divide_distrib of_int_add)

lemma on_grid_diff [intro]: "on_grid k x \<Longrightarrow> on_grid k y \<Longrightarrow> on_grid k (x - y)"
  by (auto simp: on_grid_iff) (metis diff_divide_distrib of_int_diff)

lemma on_grid_uminus [intro]: "on_grid k x \<Longrightarrow> on_grid k (- x)"
  using on_grid_diff[of k 0 x] by (simp add: on_grid_def)

lemma on_grid_0 [simp, intro]: "on_grid k 0"
  by (simp add: on_grid_def)

lemma on_grid_sum_list: "(\<And>x. x \<in> set xs \<Longrightarrow> on_grid k (f x)) \<Longrightarrow> on_grid k (sum_list (map f xs))"
  by (induction xs) auto

lemma on_grid_mult: "on_grid j x \<Longrightarrow> on_grid k y \<Longrightarrow> on_grid (j + k) (x * y)"
proof -
  assume "on_grid j x" and "on_grid k y"
  then obtain a b where "x = of_int a / 10 ^ j" and "y = of_int b / 10 ^ k"
    by (auto simp: on_grid_iff)
  then have "x * y = of_int (a * b) / 10 ^ (j + k)" by (simp add: power_add)
  then show ?thesis unfolding on_grid_iff by blast
qed

text \<open>
  What the two rounding modes have in common: the nearest integer, monotone, and symmetric. Every
  fact about quantised amounts below is proved from this contract.
\<close>

locale rounding_mode =
  fixes rnd :: "rat \<Rightarrow> int"
  assumes nearest: "\<bar>of_int (rnd x) - x\<bar> \<le> 1/2"
    and mono_rnd: "x \<le> y \<Longrightarrow> rnd x \<le> rnd y"
    and rnd_uminus: "rnd (- x) = - rnd x"
begin

lemma rnd_of_int [simp]: "rnd (of_int n) = n"
proof -
  have "\<bar>of_int (rnd (of_int n) - n) :: rat\<bar> \<le> 1/2" using nearest[of "of_int n"] by simp
  then have "of_int \<bar>rnd (of_int n) - n\<bar> < (1 :: rat)" by simp
  then show ?thesis by simp
qed

lemma rnd_ge: "of_int a \<le> x \<Longrightarrow> a \<le> rnd x"
  using mono_rnd[of "of_int a" x] by simp

lemma rnd_le: "x \<le> of_int a \<Longrightarrow> rnd x \<le> a"
  using mono_rnd[of x "of_int a"] by simp

lemma rescale_near: "\<bar>rescale rnd k x - x\<bar> \<le> 1 / (2 * 10 ^ k)"
proof -
  have "\<bar>rescale rnd k x - x\<bar> = \<bar>of_int (rnd (x * 10 ^ k)) - x * 10 ^ k\<bar> / 10 ^ k"
    by (simp add: rescale_def field_simps abs_divide flip: abs_mult_pos)
  also have "\<dots> \<le> (1/2) / 10 ^ k" by (intro divide_right_mono nearest) simp
  finally show ?thesis by (simp add: field_simps)
qed

lemma rescale_on_grid [intro]: "on_grid k (rescale rnd k x)"
  by (auto simp: on_grid_iff rescale_def)

lemma rescale_fixed: "on_grid k x \<Longrightarrow> rescale rnd k x = x"
  by (auto simp: on_grid_iff rescale_def)

lemma rescale_mono: "x \<le> y \<Longrightarrow> rescale rnd k x \<le> rescale rnd k y"
  by (simp add: rescale_def divide_right_mono mono_rnd mult_right_mono)

lemma rescale_uminus: "rescale rnd k (- x) = - rescale rnd k x"
  by (simp add: rescale_def rnd_uminus)

lemma rescale_0 [simp]: "rescale rnd k 0 = 0"
  using rescale_fixed[of k 0] by simp

lemma rescale_nonneg: "0 \<le> x \<Longrightarrow> 0 \<le> rescale rnd k x"
  using rescale_mono[of 0 x k] by simp

lemma rescale_upper: "x \<le> y \<Longrightarrow> on_grid k y \<Longrightarrow> rescale rnd k x \<le> y"
  using rescale_mono[of x y k] rescale_fixed[of k y] by simp

lemma rescale_lower: "x \<le> y \<Longrightarrow> on_grid k x \<Longrightarrow> x \<le> rescale rnd k y"
  using rescale_mono[of x y k] rescale_fixed[of k x] by simp

end

lemma round_half_even_near: "\<bar>of_int (round_half_even x) - x\<bar> \<le> 1/2"
  unfolding round_half_even_def Let_def
  using floor_correct[of x] by (auto simp: abs_le_iff)

lemma round_half_even_mono: "x \<le> y \<Longrightarrow> round_half_even x \<le> round_half_even y"
proof -
  assume le: "x \<le> y"
  then have fl: "\<lfloor>x\<rfloor> \<le> \<lfloor>y\<rfloor>" by (rule floor_mono)
  show ?thesis
  proof (cases "\<lfloor>x\<rfloor> = \<lfloor>y\<rfloor>")
    case True
    with le show ?thesis by (auto simp: round_half_even_def Let_def)
  next
    case False
    with fl show ?thesis by (auto simp: round_half_even_def Let_def)
  qed
qed

lemma round_half_even_uminus: "round_half_even (- x) = - round_half_even x"
proof (cases "x = of_int \<lfloor>x\<rfloor>")
  case True
  then obtain n where "x = of_int n" by blast
  then show ?thesis by (simp add: round_half_even_def Let_def flip: of_int_minus)
next
  case False
  have lt: "of_int \<lfloor>x\<rfloor> < x" using False floor_correct[of x] by linarith
  have "\<lfloor>- x\<rfloor> = - \<lfloor>x\<rfloor> - 1"
    using lt floor_correct[of x] by (intro floor_unique) auto
  then show ?thesis by (auto simp: round_half_even_def Let_def)
qed

interpretation half_even: rounding_mode round_half_even
  by unfold_locales (rule round_half_even_near round_half_even_mono round_half_even_uminus; assumption?)+

lemma round_half_up_near: "\<bar>of_int (round_half_up x) - x\<bar> \<le> 1/2"
  unfolding round_half_up_def abs_le_iff
  using floor_correct[of "x + 1/2"] floor_correct[of "- x + 1/2"]
  by (cases "0 \<le> x") (simp_all only: if_True if_False of_int_minus of_int_add of_int_1, linarith+)

lemma round_half_up_mono: "x \<le> y \<Longrightarrow> round_half_up x \<le> round_half_up y"
proof -
  assume le: "x \<le> y"
  consider "0 \<le> x" | "x < 0" "0 \<le> y" | "y < 0" using le by linarith
  then show ?thesis
  proof cases
    case 1
    with le show ?thesis by (simp add: round_half_up_def floor_mono)
  next
    case 2
    have "0 \<le> \<lfloor>- x + 1/2\<rfloor>" and "0 \<le> \<lfloor>y + 1/2\<rfloor>" using 2 by simp_all
    moreover have "round_half_up x = - \<lfloor>- x + 1/2\<rfloor>" and "round_half_up y = \<lfloor>y + 1/2\<rfloor>"
      using 2 by (simp_all add: round_half_up_def)
    ultimately show ?thesis by linarith
  next
    case 3
    with le show ?thesis by (simp add: round_half_up_def floor_mono)
  qed
qed

lemma round_half_up_uminus: "round_half_up (- x) = - round_half_up x"
  by (cases "x = 0") (auto simp: round_half_up_def floor_eq_iff)

interpretation half_up: rounding_mode round_half_up
  by unfold_locales (rule round_half_up_near round_half_up_mono round_half_up_uminus; assumption?)+

lemma round_half_up_tie: "round_half_up (of_int n + 1/2) = (if 0 \<le> n then n + 1 else n)"
proof (cases "0 \<le> n")
  case True
  then have "(0::rat) \<le> of_int n + 1/2" by simp
  moreover have "\<lfloor>of_int n + 1/2 + 1/2 :: rat\<rfloor> = n + 1" by (simp add: floor_add_int)
  ultimately show ?thesis using True by (simp add: round_half_up_def)
next
  case False
  then have "n \<le> - 1" by simp
  then have "(of_int n :: rat) \<le> of_int (- 1)" by (simp only: of_int_le_iff)
  then have "\<not> (0::rat) \<le> of_int n + 1/2" by simp
  moreover have "- (of_int n + 1/2) + 1/2 = (of_int (- n) :: rat)" by simp
  ultimately show ?thesis using False by (simp only: round_half_up_def floor_of_int if_False)
qed

section \<open>The arithmetic context\<close>

fun ndigits :: "nat \<Rightarrow> nat" where
  "ndigits n = (if n < 10 then 1 else Suc (ndigits (n div 10)))"

declare ndigits.simps [simp del]

lemma ndigits_pos: "0 < ndigits n"
  by (subst ndigits.simps) simp

lemma ndigits_upper: "n < 10 ^ ndigits n"
proof (induction n rule: ndigits.induct)
  case (1 n)
  show ?case
  proof (cases "n < 10")
    case True
    then show ?thesis by (simp add: ndigits.simps[of n])
  next
    case False
    with 1 have "n div 10 < 10 ^ ndigits (n div 10)" by simp
    then have "n < 10 * 10 ^ ndigits (n div 10)" by linarith
    with False show ?thesis by (simp add: ndigits.simps[of n])
  qed
qed

lemma ndigits_lower: "0 < n \<Longrightarrow> 10 ^ (ndigits n - 1) \<le> n"
proof (induction n rule: ndigits.induct)
  case (1 n)
  show ?case
  proof (cases "n < 10")
    case True
    with 1 show ?thesis by (simp add: ndigits.simps[of n])
  next
    case False
    then have "0 < n div 10" by simp
    with 1 False have "10 ^ (ndigits (n div 10) - 1) \<le> n div 10" by blast
    then have "10 * 10 ^ (ndigits (n div 10) - 1) \<le> n" by linarith
    with False ndigits_pos[of "n div 10"] show ?thesis
      by (simp add: ndigits.simps[of n] flip: power_Suc)
  qed
qed

text \<open>\<^verbatim>\<open>Decimal.adjusted()\<close>: the exponent of the most significant digit.\<close>

definition adjusted :: "rat \<Rightarrow> int" where
  "adjusted x =
     (let (p, q) = quotient_of \<bar>x\<bar>; d = int (ndigits (nat p)) - int (ndigits (nat q))
      in if 10 powi d \<le> \<bar>x\<bar> then d else d - 1)"

text \<open>Rounding a result to the context's 28 significant digits, ties to even.\<close>

definition ctx28 :: "rat \<Rightarrow> rat" where
  "ctx28 x =
     (if x = 0 then 0
      else let e = adjusted x - 27 in of_int (round_half_even (x / 10 powi e)) * 10 powi e)"

lemma adjusted_bounds:
  assumes "x \<noteq> 0"
  shows "10 powi adjusted x \<le> \<bar>x\<bar>" and "\<bar>x\<bar> < 10 powi (adjusted x + 1)"
proof -
  obtain p q where pq: "quotient_of \<bar>x\<bar> = (p, q)" by (cases "quotient_of \<bar>x\<bar>")
  have q: "0 < q" using quotient_of_denom_pos[OF pq] .
  have x: "\<bar>x\<bar> = of_int p / of_int q" using quotient_of_div[OF pq] .
  have "0 < (of_int p / of_int q :: rat)" using assms x by simp
  then have p: "0 < p" using q by (simp add: zero_less_divide_iff)
  define a b where "a = ndigits (nat p)" and "b = ndigits (nat q)"
  have up: "nat p < 10 ^ a" "nat q < 10 ^ b" unfolding a_def b_def by (rule ndigits_upper)+
  have lo: "10 ^ (a - 1) \<le> nat p" "10 ^ (b - 1) \<le> nat q"
    unfolding a_def b_def by (rule ndigits_lower, simp add: p q)+
  have ab: "0 < a" "0 < b" unfolding a_def b_def by (rule ndigits_pos)+
  have P: "(10::rat) ^ (a - 1) \<le> of_int p" "of_int p < (10::rat) ^ a"
    using of_nat_mono[OF lo(1), where 'a = rat] up(1)[folded of_nat_less_iff[where 'a = rat]] p
    by simp_all
  have Q: "(10::rat) ^ (b - 1) \<le> of_int q" "of_int q < (10::rat) ^ b"
    using of_nat_mono[OF lo(2), where 'a = rat] up(2)[folded of_nat_less_iff[where 'a = rat]] q
    by simp_all
  have hi: "\<bar>x\<bar> < 10 powi (int a - int b + 1)"
  proof -
    have "\<bar>x\<bar> < 10 ^ a / 10 ^ (b - 1)"
      unfolding x using P Q q p by (intro frac_less) simp_all
    also have "\<dots> = 10 powi (int a - int (b - 1))" by (simp add: power_int_diff)
    finally show ?thesis using ab by (simp add: of_nat_diff algebra_simps)
  qed
  have low: "10 powi (int a - int b - 1) \<le> \<bar>x\<bar>"
  proof -
    have "10 powi (int (a - 1) - int b) = (10::rat) ^ (a - 1) / 10 ^ b" by (simp add: power_int_diff)
    also have "\<dots> \<le> \<bar>x\<bar>" unfolding x using P Q q p by (intro frac_le) simp_all
    finally show ?thesis using ab by (simp add: of_nat_diff algebra_simps)
  qed
  have adj: "adjusted x = (if 10 powi (int a - int b) \<le> \<bar>x\<bar> then int a - int b else int a - int b - 1)"
    by (simp add: adjusted_def pq a_def b_def Let_def)
  show "10 powi adjusted x \<le> \<bar>x\<bar>" using low by (simp add: adj)
  show "\<bar>x\<bar> < 10 powi (adjusted x + 1)" using hi by (simp add: adj)
qed

lemma adjusted_uminus [simp]: "adjusted (- x) = adjusted x"
  by (simp add: adjusted_def)

lemma ctx28_0 [simp]: "ctx28 0 = 0"
  by (simp add: ctx28_def)

lemma ctx28_uminus: "ctx28 (- x) = - ctx28 x"
  by (simp add: ctx28_def Let_def half_even.rnd_uminus)

lemma powi_10_lessD: "10 powi a < (10::rat) powi b \<Longrightarrow> a < b"
  by (rule ccontr) (use power_int_increasing[of b a "10::rat"] in auto)

lemma ctx28_representable:
  assumes x: "x = of_int n * 10 powi i" and n: "\<bar>n\<bar> < 10 ^ 28"
  shows "ctx28 x = x"
proof (cases "x = 0")
  case False
  define e where "e = adjusted x - 27"
  have "of_int \<bar>n\<bar> < (of_int (10 ^ 28) :: rat)" using n by (simp only: of_int_less_iff)
  then have "\<bar>x\<bar> < 10 ^ 28 * 10 powi i" by (simp add: x abs_mult)
  with adjusted_bounds(1)[OF False] have "10 powi adjusted x < (10::rat) ^ 28 * 10 powi i" by linarith
  also have "\<dots> = 10 powi (28 + i)" by (simp add: power_int_add)
  finally have "adjusted x < 28 + i" by (rule powi_10_lessD)
  then have "0 \<le> i - e" by (simp add: e_def)
  then obtain j where j: "i - e = int j" by (rule nonneg_int_cases)
  have "x / 10 powi e = of_int n * 10 powi (i - e)" by (simp add: x power_int_diff)
  also have "\<dots> = of_int (n * 10 ^ j)" by (simp add: j)
  finally have y: "x / 10 powi e = of_int (n * 10 ^ j)" .
  have "ctx28 x = of_int (round_half_even (x / 10 powi e)) * 10 powi e"
    using False by (simp add: ctx28_def e_def Let_def)
  also have "\<dots> = x / 10 powi e * 10 powi e" by (simp only: y half_even.rnd_of_int)
  also have "\<dots> = x" by simp
  finally show ?thesis .
qed simp

lemma ctx28_exact:
  assumes "on_grid k x" and "\<bar>x\<bar> * 10 ^ k < 10 ^ 28"
  shows "ctx28 x = x"
proof -
  from assms(1) obtain n where n: "x = of_int n / 10 ^ k" by (auto simp: on_grid_iff)
  with assms(2) have "of_int \<bar>n\<bar> < (of_int (10 ^ 28) :: rat)" by (simp add: abs_divide)
  then have "\<bar>n\<bar> < 10 ^ 28" by (simp only: of_int_less_iff)
  moreover have "x = of_int n * 10 powi (- int k)" by (simp add: n power_int_minus divide_inverse)
  ultimately show ?thesis by (intro ctx28_representable)
qed

lemma ctx28_bounds:
  assumes "0 < x"
  shows "10 powi adjusted x \<le> ctx28 x" and "ctx28 x \<le> 10 powi (adjusted x + 1)"
proof -
  define e where "e = adjusted x - 27"
  have ctx: "ctx28 x = of_int (round_half_even (x / 10 powi e)) * 10 powi e"
    using assms by (simp add: ctx28_def e_def Let_def)
  have E: "(0::rat) < 10 powi e" by simp
  have ae: "10 powi adjusted x = (10::rat) ^ 27 * 10 powi e"
    "10 powi (adjusted x + 1) = (10::rat) ^ 28 * 10 powi e"
    unfolding e_def by (simp_all add: power_int_diff power_int_add)
  have lo: "of_int (10 ^ 27) \<le> x / 10 powi e" and hi: "x / 10 powi e \<le> of_int (10 ^ 28)"
    using adjusted_bounds[of x] assms E by (simp_all add: ae pos_le_divide_eq pos_divide_le_eq)
  have "10 ^ 27 \<le> round_half_even (x / 10 powi e)" using lo by (rule half_even.rnd_ge)
  moreover have "round_half_even (x / 10 powi e) \<le> 10 ^ 28" using hi by (rule half_even.rnd_le)
  ultimately have "of_int (10 ^ 27) \<le> (of_int (round_half_even (x / 10 powi e)) :: rat)"
    "(of_int (round_half_even (x / 10 powi e)) :: rat) \<le> of_int (10 ^ 28)"
    by (simp_all only: of_int_le_iff)
  then show "10 powi adjusted x \<le> ctx28 x" "ctx28 x \<le> 10 powi (adjusted x + 1)"
    unfolding ctx ae using E by (simp_all add: mult_right_mono)
qed

lemma ctx28_pos: "0 < x \<Longrightarrow> 0 < ctx28 x"
  using ctx28_bounds(1)[of x] by (metis less_le_trans zero_less_numeral zero_less_power_int)

lemma ctx28_nonneg: "0 \<le> x \<Longrightarrow> 0 \<le> ctx28 x"
  using ctx28_pos[of x] by (cases "x = 0") auto

lemma ctx28_mono_pos:
  assumes "0 < x" and "x \<le> y"
  shows "ctx28 x \<le> ctx28 y"
proof -
  have "10 powi adjusted x < (10::rat) powi (adjusted y + 1)"
    using adjusted_bounds(1)[of x] adjusted_bounds(2)[of y] assms by simp
  then have le: "adjusted x \<le> adjusted y" using powi_10_lessD by fastforce
  show ?thesis
  proof (cases "adjusted x = adjusted y")
    case True
    have "x / 10 powi (adjusted y - 27) \<le> y / 10 powi (adjusted y - 27)"
      using assms by (simp add: divide_right_mono)
    then have "round_half_even (x / 10 powi (adjusted y - 27)) \<le> round_half_even (y / 10 powi (adjusted y - 27))"
      by (rule half_even.mono_rnd)
    with True assms show ?thesis by (simp add: ctx28_def Let_def mult_right_mono)
  next
    case False
    with le have "adjusted x + 1 \<le> adjusted y" by simp
    then have "10 powi (adjusted x + 1) \<le> (10::rat) powi adjusted y" by (simp add: power_int_increasing)
    with ctx28_bounds(2)[of x] ctx28_bounds(1)[of y] assms show ?thesis by simp
  qed
qed

lemma ctx28_mono: "x \<le> y \<Longrightarrow> ctx28 x \<le> ctx28 y"
proof -
  assume le: "x \<le> y"
  consider "0 < x" | "x \<le> 0" "0 \<le> y" | "y < 0" using le by linarith
  then show ?thesis
  proof cases
    case 1
    with le show ?thesis by (simp add: ctx28_mono_pos)
  next
    case 2
    have "ctx28 x \<le> 0" using ctx28_nonneg[of "- x"] 2 by (simp add: ctx28_uminus)
    also have "0 \<le> ctx28 y" using 2 by (simp add: ctx28_nonneg)
    finally show ?thesis .
  next
    case 3
    then show ?thesis using le ctx28_mono_pos[of "- y" "- x"] by (simp add: ctx28_uminus)
  qed
qed

lemma ctx28_idem: "ctx28 (ctx28 x) = ctx28 x"
proof (cases "x = 0")
  case False
  define e where "e = adjusted x - 27"
  define n where "n = round_half_even (x / 10 powi e)"
  have ctx: "ctx28 x = of_int n * 10 powi e" using False by (simp add: ctx28_def e_def n_def Let_def)
  have "\<bar>x\<bar> \<le> 10 ^ 28 * 10 powi e"
    using adjusted_bounds(2)[OF False] by (simp add: e_def power_int_diff power_int_add)
  then have "\<bar>x / 10 powi e\<bar> \<le> of_int (10 ^ 28)" by (simp add: abs_divide pos_divide_le_eq)
  then have hi: "x / 10 powi e \<le> of_int (10 ^ 28)" and lo: "of_int (- (10 ^ 28)) \<le> x / 10 powi e"
    unfolding abs_le_iff by simp_all
  have "n \<le> 10 ^ 28" "- (10 ^ 28) \<le> n"
    unfolding n_def using half_even.rnd_le[OF hi] half_even.rnd_ge[OF lo] by simp_all
  then consider "\<bar>n\<bar> < 10 ^ 28" | "n = 10 ^ 28" | "n = - (10 ^ 28)" by linarith
  then show ?thesis
  proof cases
    case 1
    then show ?thesis using ctx by (intro ctx28_representable)
  next
    case 2
    then have "ctx28 x = of_int 1 * 10 powi (28 + e)" by (simp add: ctx power_int_add)
    then show ?thesis by (rule ctx28_representable) simp
  next
    case 3
    then have "ctx28 x = of_int (- 1) * 10 powi (28 + e)" by (simp add: ctx power_int_add)
    then show ?thesis by (rule ctx28_representable) simp
  qed
qed simp

lemma ctx28_near: "\<bar>ctx28 x - x\<bar> \<le> \<bar>x\<bar> / (2 * 10 ^ 27)"
proof (cases "x = 0")
  case False
  define e where "e = adjusted x - 27"
  have E: "(0::rat) < 10 powi e" by simp
  have "ctx28 x - x = (of_int (round_half_even (x / 10 powi e)) - x / 10 powi e) * 10 powi e"
    using False by (simp add: ctx28_def e_def Let_def left_diff_distrib)
  then have "\<bar>ctx28 x - x\<bar> = \<bar>of_int (round_half_even (x / 10 powi e)) - x / 10 powi e\<bar> * 10 powi e"
    using E by (simp add: abs_mult)
  also have "\<dots> \<le> 1 / 2 * 10 powi e" by (intro mult_right_mono half_even.nearest) simp
  also have "\<dots> = 10 powi adjusted x / (2 * 10 ^ 27)" by (simp add: e_def power_int_diff)
  also have "\<dots> \<le> \<bar>x\<bar> / (2 * 10 ^ 27)" using adjusted_bounds(1)[OF False] by (intro divide_right_mono) simp_all
  finally show ?thesis .
qed simp

lemma ctx28_abs_le: "\<bar>ctx28 x\<bar> \<le> 2 * \<bar>x\<bar>"
proof -
  have "\<bar>x\<bar> / (2 * 10 ^ 27) \<le> \<bar>x\<bar>" by (simp add: pos_divide_le_eq)
  with ctx28_near[of x] have "\<bar>ctx28 x - x\<bar> \<le> \<bar>x\<bar>" by (rule order_trans)
  then show ?thesis by linarith
qed

text \<open>The operators of \<^verbatim>\<open>Decimal\<close>.\<close>

definition dec_add :: "rat \<Rightarrow> rat \<Rightarrow> rat" where
  "dec_add x y = ctx28 (x + y)"

definition dec_sub :: "rat \<Rightarrow> rat \<Rightarrow> rat" where
  "dec_sub x y = ctx28 (x - y)"

definition dec_mul :: "rat \<Rightarrow> rat \<Rightarrow> rat" where
  "dec_mul x y = ctx28 (x * y)"

text \<open>\<^verbatim>\<open>0 / 0\<close> signals \<^verbatim>\<open>DivisionUndefined\<close>, a kind of \<open>InvalidOperation\<close>; any other division by
  zero signals \<^verbatim>\<open>DivisionByZero\<close>, a \<open>ZeroDivisionError\<close>.\<close>

definition dec_div :: "rat \<Rightarrow> rat \<Rightarrow> error + rat" where
  "dec_div x y = (if y = 0 then Inl (if x = 0 then InvalidOperation else ZeroDivisionError)
                  else Inr (ctx28 (x / y)))"

text \<open>
  \<^verbatim>\<open>x.quantize(Decimal(1).scaleb(-k), rounding=...)\<close>: rounded to \<open>k\<close> places, and an
  \<open>InvalidOperation\<close> when the coefficient of the result would have more than 28 digits.
\<close>

definition dec_quantize :: "(rat \<Rightarrow> int) \<Rightarrow> int \<Rightarrow> rat \<Rightarrow> error + rat" where
  "dec_quantize rnd k x =
     (let c = rnd (x * 10 powi k)
      in if \<bar>c\<bar> < 10 ^ 28 then Inr (of_int c / 10 powi k) else Inl InvalidOperation)"

text \<open>
  What PostgreSQL keeps of a value assigned to a \<^verbatim>\<open>NUMERIC(p, k)\<close> column: \<open>k\<close> decimal places,
  ties away from zero (\<^verbatim>\<open>db/types.py\<close> declares \<open>Money\<close>, \<open>UnitCost\<close>, \<open>Quantity\<close> and \<open>Rate\<close>).
\<close>

definition Money :: "rat \<Rightarrow> rat" where
  "Money = rescale round_half_up 4"

definition UnitCost :: "rat \<Rightarrow> rat" where
  "UnitCost = rescale round_half_up 6"

definition Quantity :: "rat \<Rightarrow> rat" where
  "Quantity = rescale round_half_up 6"

definition Rate :: "rat \<Rightarrow> rat" where
  "Rate = rescale round_half_up 6"

lemma on_grid_bound: "on_grid k x \<Longrightarrow> on_grid k y \<Longrightarrow> x < y \<Longrightarrow> x + 1 / 10 ^ k \<le> y"
proof -
  assume "on_grid k x" "on_grid k y" and lt: "x < y"
  then obtain a b where ab: "x = of_int a / 10 ^ k" "y = of_int b / 10 ^ k" by (auto simp: on_grid_iff)
  with lt have "a < b" by (simp add: divide_less_cancel)
  then have "of_int (a + 1) \<le> (of_int b :: rat)" by (simp only: of_int_le_iff)
  then have "of_int (a + 1) / 10 ^ k \<le> (of_int b / 10 ^ k :: rat)" by (intro divide_right_mono) simp_all
  then show ?thesis by (simp add: ab add_divide_distrib)
qed

lemma on_grid_mono: "on_grid j x \<Longrightarrow> j \<le> k \<Longrightarrow> on_grid k x"
proof -
  assume "on_grid j x" and "j \<le> k"
  then obtain a where "x = of_int a / 10 ^ j" by (auto simp: on_grid_iff)
  moreover have "(10::rat) ^ k = 10 ^ j * 10 ^ (k - j)" using \<open>j \<le> k\<close> by (simp flip: power_add)
  ultimately have "x = of_int (a * 10 ^ (k - j)) / 10 ^ k" by simp
  then show ?thesis unfolding on_grid_iff by blast
qed

lemma on_grid_1 [simp, intro]: "on_grid k 1"
  using on_grid_mono[of 0 1 k] by (simp add: on_grid_def)

context rounding_mode
begin

lemma rescale_unique:
  assumes "on_grid k n" and "\<bar>x - n\<bar> < 1 / (2 * 10 ^ k)"
  shows "rescale rnd k x = n"
proof (rule ccontr)
  have "1 / 10 ^ k = 1 / (2 * 10 ^ k) + (1 / (2 * 10 ^ k) :: rat)" by simp
  moreover assume "rescale rnd k x \<noteq> n"
  then have "rescale rnd k x + 1 / 10 ^ k \<le> n \<or> n + 1 / 10 ^ k \<le> rescale rnd k x"
    using on_grid_bound[of k "rescale rnd k x" n] on_grid_bound[of k n "rescale rnd k x"] assms(1) rescale_on_grid
    by (auto simp: neq_iff)
  ultimately show False using rescale_near[of k x] assms(2) by (elim disjE) linarith+
qed

lemma quantize_rescale:
  assumes "\<bar>x\<bar> * 10 ^ k < 10 ^ 28 - 1"
  shows "dec_quantize rnd (int k) x = Inr (rescale rnd k x)"
proof -
  have "\<bar>of_int (rnd (x * 10 ^ k)) :: rat\<bar> \<le> \<bar>x * 10 ^ k\<bar> + 1 / 2" using nearest[of "x * 10 ^ k"] by linarith
  also have "\<dots> < of_int (10 ^ 28)" using assms by (simp add: abs_mult)
  finally have "of_int \<bar>rnd (x * 10 ^ k)\<bar> < (of_int (10 ^ 28) :: rat)" by simp
  then have "\<bar>rnd (x * 10 ^ k)\<bar> < 10 ^ 28" by (simp only: of_int_less_iff)
  then show ?thesis by (simp add: dec_quantize_def rescale_def Let_def)
qed

lemma quantize_InrD: "dec_quantize rnd (int k) x = Inr y \<Longrightarrow> y = rescale rnd k x"
  by (auto simp: dec_quantize_def rescale_def Let_def split: if_splits)

end

lemma dec_add_exact: "on_grid k x \<Longrightarrow> on_grid k y \<Longrightarrow> \<bar>x + y\<bar> * 10 ^ k < 10 ^ 28 \<Longrightarrow> dec_add x y = x + y"
  unfolding dec_add_def by (rule ctx28_exact) auto

lemma dec_sub_exact: "on_grid k x \<Longrightarrow> on_grid k y \<Longrightarrow> \<bar>x - y\<bar> * 10 ^ k < 10 ^ 28 \<Longrightarrow> dec_sub x y = x - y"
  unfolding dec_sub_def by (rule ctx28_exact) auto

lemma dec_mul_exact:
  "on_grid j x \<Longrightarrow> on_grid k y \<Longrightarrow> \<bar>x * y\<bar> * 10 ^ (j + k) < 10 ^ 28 \<Longrightarrow> dec_mul x y = x * y"
  unfolding dec_mul_def by (rule ctx28_exact) (auto intro: on_grid_mult)

lemma dec_mul_nonneg: "0 \<le> x \<Longrightarrow> 0 \<le> y \<Longrightarrow> 0 \<le> dec_mul x y"
  by (simp add: dec_mul_def ctx28_nonneg)

lemma scaled_bound:
  fixes y :: rat
  shows "0 \<le> y \<Longrightarrow> y < 10 ^ j \<Longrightarrow> j + k \<le> 28 \<Longrightarrow> \<bar>y\<bar> * 10 ^ k < 10 ^ 28"
proof -
  assume "0 \<le> y" "y < 10 ^ j" "j + k \<le> 28"
  then have "\<bar>y\<bar> * 10 ^ k < 10 ^ j * 10 ^ k" by (intro mult_strict_right_mono) simp_all
  also have "\<dots> \<le> 10 ^ 28"
    unfolding power_add[symmetric] using \<open>j + k \<le> 28\<close> by (rule power_increasing) simp
  finally show ?thesis .
qed

text \<open>Whole numbers on a concrete input.\<close>

lemma round_half_up_numeral [simp]:
  "round_half_up (numeral n) = numeral n" "round_half_up 1 = 1" "round_half_up 0 = 0"
  "round_half_up (- numeral n) = - numeral n" "round_half_up (- 1) = - 1"
  using half_up.rnd_of_int[of "numeral n"] half_up.rnd_of_int[of 1] half_up.rnd_of_int[of 0]
    half_up.rnd_of_int[of "- numeral n"] half_up.rnd_of_int[of "- 1"] by simp_all

lemma ctx28_numeral [simp]:
  "(numeral n :: rat) < 10 ^ 28 \<Longrightarrow> ctx28 (numeral n) = numeral n" "ctx28 1 = 1"
  "(numeral n :: rat) < 10 ^ 28 \<Longrightarrow> ctx28 (- numeral n) = - numeral n" "ctx28 (- 1) = - 1"
  by (rule ctx28_exact[of 0]; simp add: on_grid_def)+

lemma stored_numeral [simp]:
  "Money (numeral n) = numeral n" "Money 1 = 1" "Money 0 = 0" "Money (- numeral n) = - numeral n"
  "UnitCost (numeral n) = numeral n" "UnitCost 1 = 1" "UnitCost 0 = 0"
  "Quantity (numeral n) = numeral n" "Quantity 1 = 1" "Quantity 0 = 0" "Quantity (- numeral n) = - numeral n"
  unfolding Money_def UnitCost_def Quantity_def
  by (rule half_up.rescale_fixed; simp add: on_grid_def)+

end
