(* ===== verification/Inventory.thy ===== *)
theory Inventory
  imports Base_Db Decimals
begin

text \<open>
  The stock ledger: \<^verbatim>\<open>modules/inventory/models.py\<close>, \<^verbatim>\<open>repository.py\<close> and \<^verbatim>\<open>service.py\<close>, with the
  product, unit and warehouse rows they read.

  Every public operation of \<open>InventoryService\<close> is a definition with the same guards in the same
  order. A row is added to its table when the code adds it to the session; the constraints of the
  tables (\<open>inventory_constraints\<close>) are checked by the flush at the end of the transaction, since the
  session factory sets \<^verbatim>\<open>autoflush=False\<close>. A column keeps the decimal places of its type: the
  assignment to a \<open>Quantity\<close> or \<open>UnitCost\<close> column rounds the value. \<^verbatim>\<open>+\<close> and \<^verbatim>\<open>-\<close> of quantities are
  exact (they have six places and the range check of the column bounds them); products and
  quotients go through the 28-digit context. Foreign keys are not modelled.
\<close>

section \<open>Rows\<close>

datatype movement_type =
  RECEIPT | ISSUE | ADJUSTMENT | TRANSFER_IN | TRANSFER_OUT | SALE | SALE_RETURN | PURCHASE_RETURN

datatype reservation_status = ACTIVE | RELEASED | CONSUMED

datatype transfer_status = TR_DRAFT | IN_TRANSIT | TR_COMPLETED | TR_CANCELLED

record unit_of_measure =
  um_id :: uuid
  um_precision :: nat

record product =
  pr_id :: uuid
  pr_name :: string
  pr_uom_id :: uuid
  pr_tax_category_id :: "uuid option"
  pr_cost_price :: rat
  pr_selling_price :: rat
  pr_reorder_point :: "rat option"
  pr_is_stock_tracked :: bool
  pr_is_active :: bool

record warehouse =
  wh_id :: uuid
  wh_branch_id :: "uuid option"
  wh_is_active :: bool

record inventory_movement =
  mv_id :: uuid
  mv_warehouse_id :: uuid
  mv_product_id :: uuid
  mv_movement_type :: movement_type
  mv_quantity :: rat
  mv_unit_cost :: "rat option"
  mv_balance_after :: rat
  mv_reference_type :: "string option"
  mv_reference_id :: "uuid option"
  mv_notes :: "string option"
  mv_occurred_at :: datetime
  mv_created_by_membership_id :: "uuid option"
  mv_idempotency_key :: "string option"

record inventory_balance =
  ib_warehouse_id :: uuid
  ib_product_id :: uuid
  ib_quantity_on_hand :: rat
  ib_reserved_quantity :: rat

record stock_reservation =
  sr_id :: uuid
  sr_warehouse_id :: uuid
  sr_product_id :: uuid
  sr_quantity :: rat
  sr_reference_type :: string
  sr_reference_id :: uuid
  sr_status :: reservation_status
  sr_expires_at :: "datetime option"

record stock_transfer =
  st_id :: uuid
  st_transfer_number :: string
  st_source_warehouse_id :: uuid
  st_destination_warehouse_id :: uuid
  st_status :: transfer_status
  st_notes :: "string option"
  st_shipped_at :: "datetime option"
  st_received_at :: "datetime option"

record stock_transfer_line =
  stl_id :: uuid
  stl_transfer_id :: uuid
  stl_product_id :: uuid
  stl_quantity :: rat

record stock_adjustment =
  sa_id :: uuid
  sa_adjustment_number :: string
  sa_warehouse_id :: uuid
  sa_product_id :: uuid
  sa_quantity :: rat
  sa_reason :: string
  sa_notes :: "string option"
  sa_approved_by_membership_id :: "uuid option"

record inventory_db = base_db +
  units :: "unit_of_measure list"
  products :: "product list"
  warehouses :: "warehouse list"
  allow_negative_inventory :: bool
  movements :: "inventory_movement list"
  balances :: "inventory_balance list"
  reservations :: "stock_reservation list"
  transfers :: "stock_transfer list"
  transfer_lines :: "stock_transfer_line list"
  adjustments :: "stock_adjustment list"

text \<open>The payloads (\<^verbatim>\<open>inventory/schemas.py\<close>).\<close>

record MovementCreate =
  mc_warehouse_id :: uuid
  mc_product_id :: uuid
  mc_quantity :: rat
  mc_unit_cost :: "rat option"
  mc_reference_type :: "string option"
  mc_reference_id :: "uuid option"
  mc_notes :: "string option"

record AdjustmentCreate =
  ac_adjustment_number :: string
  ac_warehouse_id :: uuid
  ac_product_id :: uuid
  ac_quantity :: rat
  ac_reason :: string
  ac_notes :: "string option"

record ReservationCreate =
  rc_warehouse_id :: uuid
  rc_product_id :: uuid
  rc_quantity :: rat
  rc_reference_type :: string
  rc_reference_id :: uuid
  rc_expires_at :: "datetime option"

record TransferLineCreate =
  tl_product_id :: uuid
  tl_quantity :: rat

record TransferCreate =
  tc_transfer_number :: string
  tc_source_warehouse_id :: uuid
  tc_destination_warehouse_id :: uuid
  tc_notes :: "string option"
  tc_lines :: "TransferLineCreate list"

section \<open>Constraints\<close>

definition overflow :: error where
  "overflow = DatabaseError ''numeric field overflow''"

definition in_range :: "nat \<Rightarrow> rat \<Rightarrow> bool" where
  "in_range n x \<longleftrightarrow> \<bar>x\<bar> < 10 ^ n"

definition inventory_constraints :: "'a inventory_db_scheme \<Rightarrow> (bool \<times> error) list" where
  "inventory_constraints s =
     [(list_all (\<lambda>m. in_range 14 (mv_quantity m) \<and> in_range 14 (mv_balance_after m)
                   \<and> (case mv_unit_cost m of None \<Rightarrow> True | Some c \<Rightarrow> in_range 12 c)) (movements s), overflow),
      (unique_on mv_id (movements s), IntegrityError),
      (list_all (\<lambda>m. mv_quantity m \<noteq> 0) (movements s), IntegrityError),
      (unique_where mv_idempotency_key (\<lambda>m. mv_idempotency_key m \<noteq> None) (movements s), IntegrityError),
      (list_all (\<lambda>b. in_range 14 (ib_quantity_on_hand b) \<and> in_range 14 (ib_reserved_quantity b)) (balances s), overflow),
      (unique_on (\<lambda>b. (ib_warehouse_id b, ib_product_id b)) (balances s), IntegrityError),
      (list_all (\<lambda>b. 0 \<le> ib_reserved_quantity b) (balances s), IntegrityError),
      (unique_on sr_id (reservations s), IntegrityError),
      (list_all (\<lambda>r. in_range 14 (sr_quantity r)) (reservations s), overflow),
      (list_all (\<lambda>r. 0 < sr_quantity r) (reservations s), IntegrityError),
      (unique_on st_id (transfers s), IntegrityError),
      (unique_on st_transfer_number (transfers s), IntegrityError),
      (list_all (\<lambda>t. st_source_warehouse_id t \<noteq> st_destination_warehouse_id t) (transfers s), IntegrityError),
      (unique_on stl_id (transfer_lines s), IntegrityError),
      (list_all (\<lambda>l. in_range 14 (stl_quantity l)) (transfer_lines s), overflow),
      (list_all (\<lambda>l. 0 < stl_quantity l) (transfer_lines s), IntegrityError),
      (unique_on (\<lambda>l. (stl_transfer_id l, stl_product_id l)) (transfer_lines s), IntegrityError),
      (unique_on sa_id (adjustments s), IntegrityError),
      (unique_on sa_adjustment_number (adjustments s), IntegrityError),
      (list_all (\<lambda>a. sa_quantity a \<noteq> 0) (adjustments s), IntegrityError),
      (list_all (\<lambda>p. 0 \<le> pr_cost_price p) (products s), IntegrityError)]"

definition inventory_chk :: "'a inventory_db_scheme \<Rightarrow> error option" where
  "inventory_chk s = violated (base_constraints s @ inventory_constraints s)"

section \<open>Repository\<close>

definition repo_warehouse :: "uuid \<Rightarrow> 'a inventory_db_scheme \<Rightarrow> warehouse option" where
  "repo_warehouse i s = find (\<lambda>w. wh_id w = i \<and> wh_is_active w) (warehouses s)"

definition repo_product :: "uuid \<Rightarrow> 'a inventory_db_scheme \<Rightarrow> product option" where
  "repo_product i s = find (\<lambda>p. pr_id p = i \<and> pr_is_active p) (products s)"

definition unit_precision :: "uuid \<Rightarrow> 'a inventory_db_scheme \<Rightarrow> nat option" where
  "unit_precision i s = map_option um_precision (find (\<lambda>u. um_id u = i) (units s))"

definition is_balance :: "uuid \<Rightarrow> uuid \<Rightarrow> inventory_balance \<Rightarrow> bool" where
  "is_balance w p b \<longleftrightarrow> ib_warehouse_id b = w \<and> ib_product_id b = p"

definition ensure_balance :: "uuid \<Rightarrow> uuid \<Rightarrow> ('a inventory_db_scheme, unit) tx" where
  "ensure_balance w p =
     modify (\<lambda>s. if list_ex (is_balance w p) (balances s) then s
                 else s\<lparr>balances := balances s @
                   [\<lparr>ib_warehouse_id = w, ib_product_id = p, ib_quantity_on_hand = 0, ib_reserved_quantity = 0\<rparr>]\<rparr>)"

definition lock_balance :: "uuid \<Rightarrow> uuid \<Rightarrow> 'a inventory_db_scheme \<Rightarrow> inventory_balance option" where
  "lock_balance w p s = find (is_balance w p) (balances s)"

definition movement_by_key :: "string \<Rightarrow> 'a inventory_db_scheme \<Rightarrow> inventory_movement option" where
  "movement_by_key key s = find (\<lambda>m. mv_idempotency_key m = Some key) (movements s)"

definition repo_reservation :: "uuid \<Rightarrow> 'a inventory_db_scheme \<Rightarrow> stock_reservation option" where
  "repo_reservation i s = find (\<lambda>r. sr_id r = i) (reservations s)"

text \<open>\<^verbatim>\<open>SKIP LOCKED\<close>: \<open>locked\<close> holds for the rows another transaction has locked.\<close>

definition expired_reservations ::
  "(stock_reservation \<Rightarrow> bool) \<Rightarrow> datetime \<Rightarrow> nat \<Rightarrow> 'a inventory_db_scheme \<Rightarrow> stock_reservation list"
where
  "expired_reservations locked now limit s =
     take limit
       (sort_key (\<lambda>r. the (sr_expires_at r))
         (sort_key sr_id
           (filter (\<lambda>r. sr_status r = ACTIVE \<and> (case sr_expires_at r of None \<Rightarrow> False | Some t \<Rightarrow> t \<le> now) \<and> \<not> locked r)
             (reservations s))))"

definition repo_transfer :: "uuid \<Rightarrow> 'a inventory_db_scheme \<Rightarrow> stock_transfer option" where
  "repo_transfer i s = find (\<lambda>t. st_id t = i) (transfers s)"

definition repo_transfer_lines :: "uuid \<Rightarrow> 'a inventory_db_scheme \<Rightarrow> stock_transfer_line list" where
  "repo_transfer_lines i s = sort_key stl_product_id (filter (\<lambda>l. stl_transfer_id l = i) (transfer_lines s))"

definition ledger_quantity :: "uuid \<Rightarrow> uuid \<Rightarrow> inventory_movement list \<Rightarrow> rat" where
  "ledger_quantity w p ms =
     sum_list (map mv_quantity (filter (\<lambda>m. mv_warehouse_id m = w \<and> mv_product_id m = p) ms))"

definition reconciliation :: "'a inventory_db_scheme \<Rightarrow> (uuid \<times> uuid \<times> rat \<times> rat) list" where
  "reconciliation s =
     map (\<lambda>b. (ib_warehouse_id b, ib_product_id b,
               ledger_quantity (ib_warehouse_id b) (ib_product_id b) (movements s), ib_quantity_on_hand b))
       (sort_key ib_warehouse_id (sort_key ib_product_id (balances s)))"

section \<open>Service\<close>

definition branch_allowed :: "TenantContext \<Rightarrow> uuid option \<Rightarrow> bool" where
  "branch_allowed context branch =
     (case branch_ids context of
        None \<Rightarrow> True
      | Some bs \<Rightarrow> (case branch of None \<Rightarrow> False | Some b \<Rightarrow> b \<in> bs))"

definition validate_pair :: "TenantContext \<Rightarrow> uuid \<Rightarrow> uuid \<Rightarrow> ('a inventory_db_scheme, product) tx" where
  "validate_pair context warehouse_id product_id =
     bnd (gets (repo_warehouse warehouse_id)) (\<lambda>w.
     bnd (gets (repo_product product_id)) (\<lambda>p.
     bnd (some_or NotFoundError w) (\<lambda>warehouse.
     bnd (some_or NotFoundError p) (\<lambda>product.
     bnd (require (branch_allowed context (wh_branch_id warehouse)) (PermissionDeniedError ''BRANCH_ACCESS_DENIED'')) (\<lambda>_.
     bnd (require (pr_is_stock_tracked product) (ConflictError ''PRODUCT_NOT_STOCK_TRACKED'')) (\<lambda>_.
     ret product))))))"

definition balance_for_update :: "uuid \<Rightarrow> uuid \<Rightarrow> ('a inventory_db_scheme, inventory_balance) tx" where
  "balance_for_update warehouse_id product_id =
     bnd uuid7 (\<lambda>_.
     bnd (ensure_balance warehouse_id product_id) (\<lambda>_.
     bnd (gets (lock_balance warehouse_id product_id)) (some_or AttributeError)))"

text \<open>
  \<^verbatim>\<open>quantity.normalize()\<close> rounds to the context and strips trailing zeros; its exponent shows more
  than \<open>precision\<close> places exactly when the value is not a multiple of \<open>10 ^ -precision\<close>.
\<close>

definition validate_quantity :: "product \<Rightarrow> rat \<Rightarrow> ('a inventory_db_scheme, unit) tx" where
  "validate_quantity product quantity =
     bnd (gets (unit_precision (pr_uom_id product))) (\<lambda>precision.
     bnd (some_or TypeError precision) (\<lambda>precision.
     require (on_grid precision (ctx28 quantity)) (DomainValidationError ''VALIDATION_ERROR'')))"

definition truthy :: "string option \<Rightarrow> bool" where
  "truthy k = (case k of None \<Rightarrow> False | Some x \<Rightarrow> x \<noteq> '''')"

definition movement_value :: "movement_type \<Rightarrow> string" where
  "movement_value t =
     (case t of RECEIPT \<Rightarrow> ''RECEIPT'' | ISSUE \<Rightarrow> ''ISSUE'' | ADJUSTMENT \<Rightarrow> ''ADJUSTMENT''
      | TRANSFER_IN \<Rightarrow> ''TRANSFER_IN'' | TRANSFER_OUT \<Rightarrow> ''TRANSFER_OUT'' | SALE \<Rightarrow> ''SALE''
      | SALE_RETURN \<Rightarrow> ''SALE_RETURN'' | PURCHASE_RETURN \<Rightarrow> ''PURCHASE_RETURN'')"

text \<open>The attribute \<^verbatim>\<open>product.cost_price\<close> of the loaded object, and the assignment to it.\<close>

definition product_cost :: "product \<Rightarrow> 'a inventory_db_scheme \<Rightarrow> rat" where
  "product_cost product s =
     (case find (\<lambda>p. pr_id p = pr_id product) (products s) of
        None \<Rightarrow> pr_cost_price product | Some p \<Rightarrow> pr_cost_price p)"

definition set_product_cost :: "product \<Rightarrow> rat \<Rightarrow> ('a inventory_db_scheme, unit) tx" where
  "set_product_cost product c =
     modify (\<lambda>s. s\<lparr>products := upd_where (\<lambda>p. pr_id p = pr_id product) (\<lambda>p. p\<lparr>pr_cost_price := c\<rparr>) (products s)\<rparr>)"

definition moving_average :: "rat \<Rightarrow> rat \<Rightarrow> rat \<Rightarrow> rat \<Rightarrow> error + rat" where
  "moving_average on_hand cost quantity unit_cost =
     res_bnd (dec_div (dec_add (dec_mul on_hand cost) (dec_mul quantity unit_cost)) (on_hand + quantity))
       (dec_quantize round_half_up 6)"

definition update_cost :: "product \<Rightarrow> movement_type \<Rightarrow> rat \<Rightarrow> rat option \<Rightarrow> rat \<Rightarrow> ('a inventory_db_scheme, unit) tx" where
  "update_cost product movement_type quantity unit_cost on_hand =
     (case unit_cost of
        None \<Rightarrow> ret ()
      | Some u \<Rightarrow>
          run_if (quantity > 0 \<and> movement_type = RECEIPT \<and> on_hand + quantity \<noteq> 0)
            (bnd (gets (product_cost product)) (\<lambda>c.
             bnd (lift_res (moving_average on_hand c quantity u)) (set_product_cost product))))"

definition set_balance :: "uuid \<Rightarrow> uuid \<Rightarrow> (inventory_balance \<Rightarrow> inventory_balance) \<Rightarrow> ('a inventory_db_scheme, unit) tx" where
  "set_balance w p f = modify (\<lambda>s. s\<lparr>balances := upd_where (is_balance w p) f (balances s)\<rparr>)"

text \<open>Adding a movement; the columns round to their scale.\<close>

definition add_movement :: "inventory_movement \<Rightarrow> ('a inventory_db_scheme, unit) tx" where
  "add_movement m = modify (\<lambda>s. s\<lparr>movements := movements s @
     [m\<lparr>mv_quantity := Quantity (mv_quantity m), mv_balance_after := Quantity (mv_balance_after m),
        mv_unit_cost := map_option UnitCost (mv_unit_cost m)\<rparr>]\<rparr>)"

definition same_request ::
  "inventory_movement \<Rightarrow> uuid \<Rightarrow> uuid \<Rightarrow> movement_type \<Rightarrow> rat \<Rightarrow> rat option \<Rightarrow> string option \<Rightarrow> uuid option \<Rightarrow> bool"
where
  "same_request existing warehouse_id product_id movement_type quantity unit_cost reference_type reference_id \<longleftrightarrow>
     mv_warehouse_id existing = warehouse_id \<and> mv_product_id existing = product_id
     \<and> mv_movement_type existing = movement_type \<and> mv_quantity existing = quantity
     \<and> mv_unit_cost existing = unit_cost \<and> mv_reference_type existing = reference_type
     \<and> mv_reference_id existing = reference_id"

text \<open>The part of \<open>_post_movement\<close> after the idempotency check, once the balance row is locked and
  including the lock.\<close>

definition write_movement ::
  "TenantContext \<Rightarrow> uuid \<Rightarrow> product \<Rightarrow> movement_type \<Rightarrow> rat \<Rightarrow> rat option \<Rightarrow> string option \<Rightarrow> uuid option \<Rightarrow>
     string option \<Rightarrow> string option \<Rightarrow> inventory_balance \<Rightarrow> ('a inventory_db_scheme, inventory_movement) tx"
where
  "write_movement context warehouse_id product movement_type quantity unit_cost reference_type reference_id notes key
     balance =
     bnd (gets allow_negative_inventory) (\<lambda>negative_allowed.
     bnd (require (\<not> (quantity < 0 \<and> \<not> negative_allowed
                     \<and> - quantity > ib_quantity_on_hand balance - ib_reserved_quantity balance))
           (ConflictError ''INSUFFICIENT_STOCK'')) (\<lambda>_.
     bnd (update_cost product movement_type quantity unit_cost (ib_quantity_on_hand balance)) (\<lambda>_.
     bnd (set_balance warehouse_id (pr_id product)
           (\<lambda>b. b\<lparr>ib_quantity_on_hand := Quantity (ib_quantity_on_hand balance + quantity)\<rparr>)) (\<lambda>_.
     bnd uuid7 (\<lambda>i.
     bnd datetime_now (\<lambda>now.
     let movement =
       \<lparr>mv_id = i, mv_warehouse_id = warehouse_id, mv_product_id = pr_id product,
        mv_movement_type = movement_type, mv_quantity = quantity, mv_unit_cost = unit_cost,
        mv_balance_after = ib_quantity_on_hand balance + quantity, mv_reference_type = reference_type,
        mv_reference_id = reference_id, mv_notes = notes, mv_occurred_at = now,
        mv_created_by_membership_id = Some (membership_id context), mv_idempotency_key = key\<rparr>
     in
     bnd (add_movement movement) (\<lambda>_.
     bnd (audit_record context ''inventory.movement_posted'' ''inventory_movement'' (Some i)
           [(''movement_type'', MStr (movement_value movement_type))]) (\<lambda>_.
     ret movement))))))))"

definition apply_movement ::
  "TenantContext \<Rightarrow> uuid \<Rightarrow> product \<Rightarrow> movement_type \<Rightarrow> rat \<Rightarrow> rat option \<Rightarrow> string option \<Rightarrow> uuid option \<Rightarrow>
     string option \<Rightarrow> string option \<Rightarrow> ('a inventory_db_scheme, inventory_movement) tx"
where
  "apply_movement context warehouse_id product movement_type quantity unit_cost reference_type reference_id notes key =
     bnd (balance_for_update warehouse_id (pr_id product))
       (write_movement context warehouse_id product movement_type quantity unit_cost reference_type reference_id notes key)"

definition post_movement ::
  "TenantContext \<Rightarrow> uuid \<Rightarrow> product \<Rightarrow> movement_type \<Rightarrow> rat \<Rightarrow> rat option \<Rightarrow> string option \<Rightarrow> uuid option \<Rightarrow>
     string option \<Rightarrow> string option \<Rightarrow> ('a inventory_db_scheme, inventory_movement) tx"
where
  "post_movement context warehouse_id product movement_type quantity unit_cost reference_type reference_id notes key =
     bnd (validate_quantity product quantity) (\<lambda>_.
     bnd (gets (\<lambda>s. if truthy key then movement_by_key (the key) s else None)) (\<lambda>existing.
     case existing of
       Some m \<Rightarrow>
         bnd (require (same_request m warehouse_id (pr_id product) movement_type quantity unit_cost reference_type reference_id)
               (DomainValidationError ''IDEMPOTENCY_KEY_REUSE'')) (\<lambda>_.
         ret m)
     | None \<Rightarrow>
         apply_movement context warehouse_id product movement_type quantity unit_cost reference_type reference_id notes key))"

definition post_movement_for_document ::
  "TenantContext \<Rightarrow> uuid \<Rightarrow> product \<Rightarrow> movement_type \<Rightarrow> rat \<Rightarrow> rat option \<Rightarrow> string \<Rightarrow> uuid \<Rightarrow>
     ('a inventory_db_scheme, inventory_movement) tx"
where
  "post_movement_for_document context warehouse_id product movement_type quantity unit_cost reference_type reference_id =
     post_movement context warehouse_id product movement_type quantity unit_cost
       (Some reference_type) (Some reference_id) None None"

definition receipt ::
  "TenantContext \<Rightarrow> MovementCreate \<Rightarrow> string option \<Rightarrow> ('a inventory_db_scheme, inventory_movement) tx"
where
  "receipt context payload key =
     bnd (require (mc_unit_cost payload \<noteq> None) (DomainValidationError ''VALIDATION_ERROR'')) (\<lambda>_.
     on_integrity_error (ConflictError ''IDEMPOTENCY_KEY_REUSE'')
       (service_transaction inventory_chk
         (bnd (validate_pair context (mc_warehouse_id payload) (mc_product_id payload)) (\<lambda>product.
          post_movement context (mc_warehouse_id payload) product RECEIPT (mc_quantity payload) (mc_unit_cost payload)
            (mc_reference_type payload) (mc_reference_id payload) (mc_notes payload) key))))"

definition issue ::
  "TenantContext \<Rightarrow> MovementCreate \<Rightarrow> string option \<Rightarrow> ('a inventory_db_scheme, inventory_movement) tx"
where
  "issue context payload key =
     on_integrity_error (ConflictError ''IDEMPOTENCY_KEY_REUSE'')
       (service_transaction inventory_chk
         (bnd (validate_pair context (mc_warehouse_id payload) (mc_product_id payload)) (\<lambda>product.
          post_movement context (mc_warehouse_id payload) product ISSUE (- mc_quantity payload) None
            (mc_reference_type payload) (mc_reference_id payload) (mc_notes payload) key)))"

definition adjust ::
  "TenantContext \<Rightarrow> AdjustmentCreate \<Rightarrow> string option \<Rightarrow>
     ('a inventory_db_scheme, stock_adjustment \<times> inventory_movement) tx"
where
  "adjust context payload key =
     on_integrity_error (ConflictError ''DUPLICATE_RESOURCE'')
       (service_transaction inventory_chk
         (bnd (validate_pair context (ac_warehouse_id payload) (ac_product_id payload)) (\<lambda>product.
          bnd uuid7 (\<lambda>i.
          let adjustment =
            \<lparr>sa_id = i, sa_adjustment_number = ac_adjustment_number payload,
             sa_warehouse_id = ac_warehouse_id payload, sa_product_id = ac_product_id payload,
             sa_quantity = ac_quantity payload, sa_reason = ac_reason payload, sa_notes = ac_notes payload,
             sa_approved_by_membership_id = Some (membership_id context)\<rparr>
          in
          bnd (modify (\<lambda>s. s\<lparr>adjustments := adjustments s @
                [adjustment\<lparr>sa_quantity := Quantity (sa_quantity adjustment)\<rparr>]\<rparr>)) (\<lambda>_.
          bnd (post_movement context (ac_warehouse_id payload) product ADJUSTMENT (ac_quantity payload) None
                (Some ''adjustment'') (Some i) (ac_notes payload) key) (\<lambda>movement.
          bnd (audit_record context ''inventory.adjustment_posted'' ''stock_adjustment'' (Some i) []) (\<lambda>_.
          ret (adjustment, movement))))))))"

definition reserve :: "TenantContext \<Rightarrow> ReservationCreate \<Rightarrow> ('a inventory_db_scheme, stock_reservation) tx" where
  "reserve context payload =
     service_transaction inventory_chk
       (bnd (validate_pair context (rc_warehouse_id payload) (rc_product_id payload)) (\<lambda>product.
        bnd (validate_quantity product (rc_quantity payload)) (\<lambda>_.
        bnd (balance_for_update (rc_warehouse_id payload) (rc_product_id payload)) (\<lambda>balance.
        bnd (gets allow_negative_inventory) (\<lambda>negative_allowed.
        bnd (require (\<not> (\<not> negative_allowed
                        \<and> rc_quantity payload > ib_quantity_on_hand balance - ib_reserved_quantity balance))
              (ConflictError ''INSUFFICIENT_STOCK'')) (\<lambda>_.
        bnd (set_balance (rc_warehouse_id payload) (rc_product_id payload)
              (\<lambda>b. b\<lparr>ib_reserved_quantity := Quantity (ib_reserved_quantity balance + rc_quantity payload)\<rparr>)) (\<lambda>_.
        bnd uuid7 (\<lambda>i.
        let reservation =
          \<lparr>sr_id = i, sr_warehouse_id = rc_warehouse_id payload, sr_product_id = rc_product_id payload,
           sr_quantity = rc_quantity payload, sr_reference_type = rc_reference_type payload,
           sr_reference_id = rc_reference_id payload, sr_status = ACTIVE, sr_expires_at = rc_expires_at payload\<rparr>
        in
        bnd (modify (\<lambda>s. s\<lparr>reservations := reservations s @
              [reservation\<lparr>sr_quantity := Quantity (sr_quantity reservation)\<rparr>]\<rparr>)) (\<lambda>_.
        bnd (audit_record context ''inventory.reservation_created'' ''stock_reservation'' (Some i) []) (\<lambda>_.
        ret reservation))))))))))"

definition set_reservation_released :: "uuid \<Rightarrow> ('a inventory_db_scheme, unit) tx" where
  "set_reservation_released i =
     modify (\<lambda>s. s\<lparr>reservations := upd_where (\<lambda>r. sr_id r = i) (\<lambda>r. r\<lparr>sr_status := RELEASED\<rparr>) (reservations s)\<rparr>)"

definition release :: "TenantContext \<Rightarrow> uuid \<Rightarrow> ('a inventory_db_scheme, unit) tx" where
  "release context reservation_id =
     service_transaction inventory_chk
       (bnd (gets (repo_reservation reservation_id)) (\<lambda>row.
        bnd (some_or NotFoundError row) (\<lambda>reservation.
        bnd (require (sr_status reservation = ACTIVE) (ConflictError ''INVALID_STATE_TRANSITION'')) (\<lambda>_.
        bnd (balance_for_update (sr_warehouse_id reservation) (sr_product_id reservation)) (\<lambda>balance.
        bnd (set_balance (sr_warehouse_id reservation) (sr_product_id reservation)
              (\<lambda>b. b\<lparr>ib_reserved_quantity := ib_reserved_quantity balance - sr_quantity reservation\<rparr>)) (\<lambda>_.
        bnd (set_reservation_released (sr_id reservation)) (\<lambda>_.
        audit_record context ''inventory.reservation_released'' ''stock_reservation'' (Some (sr_id reservation)) [])))))))"

definition add_transfer_line ::
  "TenantContext \<Rightarrow> uuid \<Rightarrow> uuid \<Rightarrow> TransferLineCreate \<Rightarrow> ('a inventory_db_scheme, stock_transfer_line) tx"
where
  "add_transfer_line context source_warehouse_id transfer_id line_payload =
     bnd (validate_pair context source_warehouse_id (tl_product_id line_payload)) (\<lambda>_.
     bnd uuid7 (\<lambda>j.
     let line = \<lparr>stl_id = j, stl_transfer_id = transfer_id, stl_product_id = tl_product_id line_payload,
                 stl_quantity = tl_quantity line_payload\<rparr>
     in
     bnd (modify (\<lambda>s. s\<lparr>transfer_lines := transfer_lines s @
           [line\<lparr>stl_quantity := Quantity (stl_quantity line)\<rparr>]\<rparr>)) (\<lambda>_.
     ret line)))"

definition create_transfer ::
  "TenantContext \<Rightarrow> TransferCreate \<Rightarrow> ('a inventory_db_scheme, stock_transfer \<times> stock_transfer_line list) tx"
where
  "create_transfer context payload =
     bnd (require (distinct (map tl_product_id (tc_lines payload))) (ConflictError ''DUPLICATE_RESOURCE'')) (\<lambda>_.
     on_integrity_error (ConflictError ''DUPLICATE_RESOURCE'')
       (service_transaction inventory_chk
         (bnd (gets (repo_warehouse (tc_source_warehouse_id payload))) (\<lambda>src.
          bnd (gets (repo_warehouse (tc_destination_warehouse_id payload))) (\<lambda>dst.
          bnd (some_or NotFoundError src) (\<lambda>source.
          bnd (some_or NotFoundError dst) (\<lambda>destination.
          bnd (require (branch_allowed context (wh_branch_id source) \<and> branch_allowed context (wh_branch_id destination))
                (PermissionDeniedError ''BRANCH_ACCESS_DENIED'')) (\<lambda>_.
          bnd uuid7 (\<lambda>i.
          let transfer =
            \<lparr>st_id = i, st_transfer_number = tc_transfer_number payload,
             st_source_warehouse_id = tc_source_warehouse_id payload,
             st_destination_warehouse_id = tc_destination_warehouse_id payload, st_status = TR_DRAFT,
             st_notes = tc_notes payload, st_shipped_at = None, st_received_at = None\<rparr>
          in
          bnd (modify (\<lambda>s. s\<lparr>transfers := transfers s @ [transfer]\<rparr>)) (\<lambda>_.
          bnd (for_each (add_transfer_line context (tc_source_warehouse_id payload) i) (tc_lines payload)) (\<lambda>lines.
          bnd (audit_record context ''inventory.transfer_created'' ''stock_transfer'' (Some i) []) (\<lambda>_.
          ret (transfer, lines)))))))))))))"

definition transfer_key :: "string option \<Rightarrow> movement_type \<Rightarrow> uuid \<Rightarrow> string option" where
  "transfer_key key movement_type product_id =
     (if truthy key then Some (the key @ '':'' @ movement_value movement_type @ '':'' @ str_nat product_id) else None)"

text \<open>One line of \<open>transition_transfer\<close>: the goods leave the source or reach the destination.\<close>

definition move_transfer_line ::
  "TenantContext \<Rightarrow> stock_transfer \<Rightarrow> bool \<Rightarrow> string option \<Rightarrow> stock_transfer_line \<Rightarrow>
     ('a inventory_db_scheme, inventory_movement) tx"
where
  "move_transfer_line context transfer receive key line =
     (let warehouse_id = (if receive then st_destination_warehouse_id transfer else st_source_warehouse_id transfer);
          movement_type = (if receive then TRANSFER_IN else TRANSFER_OUT)
      in
      bnd (validate_pair context warehouse_id (stl_product_id line)) (\<lambda>product.
      bnd (gets (product_cost product)) (\<lambda>cost.
      post_movement context warehouse_id product movement_type
        (if receive then stl_quantity line else - stl_quantity line)
        (if receive then Some cost else None) (Some ''transfer'') (Some (st_id transfer)) (st_notes transfer)
        (transfer_key key movement_type (stl_product_id line)))))"

definition transition_transfer ::
  "TenantContext \<Rightarrow> uuid \<Rightarrow> bool \<Rightarrow> string option \<Rightarrow>
     ('a inventory_db_scheme, stock_transfer \<times> stock_transfer_line list) tx"
where
  "transition_transfer context transfer_id receive key =
     service_transaction inventory_chk
       (bnd (gets (repo_transfer transfer_id)) (\<lambda>row.
        bnd (some_or NotFoundError row) (\<lambda>transfer.
        bnd (require (st_status transfer = (if receive then IN_TRANSIT else TR_DRAFT))
              (ConflictError ''TRANSFER_STATE_INVALID'')) (\<lambda>_.
        bnd (gets (repo_transfer_lines (st_id transfer))) (\<lambda>lines.
        bnd (for_each (move_transfer_line context transfer receive key) (sort_key stl_product_id lines)) (\<lambda>_.
        bnd datetime_now (\<lambda>now.
        let transfer' = (if receive then transfer\<lparr>st_status := TR_COMPLETED, st_received_at := Some now\<rparr>
                         else transfer\<lparr>st_status := IN_TRANSIT, st_shipped_at := Some now\<rparr>)
        in
        bnd (modify (\<lambda>s. s\<lparr>transfers := upd_where (\<lambda>t. st_id t = st_id transfer) (\<lambda>_. transfer') (transfers s)\<rparr>)) (\<lambda>_.
        bnd (audit_record context
              (if receive then ''inventory.transfer_received'' else ''inventory.transfer_shipped'')
              ''stock_transfer'' (Some (st_id transfer)) []) (\<lambda>_.
        ret (transfer', lines))))))))))"

record drift =
  dr_warehouse_id :: uuid
  dr_product_id :: uuid
  dr_ledger_quantity :: rat
  dr_cached_quantity :: rat
  dr_difference :: rat

definition drift_of :: "(uuid \<times> uuid \<times> rat \<times> rat) list \<Rightarrow> drift list" where
  "drift_of rows =
     [\<lparr>dr_warehouse_id = w, dr_product_id = p, dr_ledger_quantity = ledger, dr_cached_quantity = cached,
       dr_difference = ledger - cached\<rparr>. (w, p, ledger, cached) \<leftarrow> rows, ledger \<noteq> cached]"

definition record_drift :: "TenantContext \<Rightarrow> drift \<Rightarrow> ('a inventory_db_scheme, unit) tx" where
  "record_drift context item =
     audit_record context ''inventory.reconciliation_drift'' ''inventory_balance'' None
       [(''warehouse_id'', MUuid (dr_warehouse_id item)), (''product_id'', MUuid (dr_product_id item)),
        (''difference'', MDec (dr_difference item))]"

definition reconcile :: "TenantContext \<Rightarrow> ('a inventory_db_scheme, nat \<times> drift list) tx" where
  "reconcile context =
     service_transaction inventory_chk
       (bnd (gets reconciliation) (\<lambda>rows.
        bnd (for_each (record_drift context) (drift_of rows)) (\<lambda>_.
        ret (length rows, drift_of rows))))"

definition release_expired_row :: "stock_reservation \<Rightarrow> ('a inventory_db_scheme, unit) tx" where
  "release_expired_row reservation =
     bnd (gets (lock_balance (sr_warehouse_id reservation) (sr_product_id reservation))) (\<lambda>row.
     bnd (some_or AttributeError row) (\<lambda>balance.
     bnd (set_balance (sr_warehouse_id reservation) (sr_product_id reservation)
           (\<lambda>b. b\<lparr>ib_reserved_quantity := ib_reserved_quantity balance - sr_quantity reservation\<rparr>)) (\<lambda>_.
     bnd (set_reservation_released (sr_id reservation)) (\<lambda>_.
     bnd uuid7 (\<lambda>_.
     add_audit_event
       \<lparr>ae_actor_user_id = None, ae_actor_membership_id = None,
        ae_action = ''inventory.reservation_released'', ae_resource_type = ''stock_reservation'',
        ae_resource_id = Some (sr_id reservation), ae_request_id = None,
        ae_metadata = [(''reason'', MStr ''expired'')]\<rparr>)))))"

definition release_expired :: "(stock_reservation \<Rightarrow> bool) \<Rightarrow> ('a inventory_db_scheme, nat) tx" where
  "release_expired locked =
     bnd datetime_now (\<lambda>now.
     bnd (gets (expired_reservations locked now 500)) (\<lambda>expired.
     bnd (for_each release_expired_row expired) (\<lambda>_.
     ret (length expired))))"

lemmas inventory_run_simps = base_run_simps validate_pair_def repo_warehouse_def repo_product_def branch_allowed_def
  validate_quantity_def unit_precision_def balance_for_update_def ensure_balance_def lock_balance_def is_balance_def
  movement_by_key_def truthy_def update_cost_def product_cost_def set_product_cost_def moving_average_def dec_add_def
  dec_mul_def dec_div_def dec_quantize_def set_balance_def add_movement_def write_movement_def apply_movement_def
  post_movement_def same_request_def inventory_chk_def inventory_constraints_def in_range_def Let_def

section \<open>Stock as the clients see it\<close>

text \<open>
  The abstraction of the balance rows: quantity on hand and reserved quantity of a product in a
  warehouse (zero without a row), and what the ledger and the reservations say they should be.
\<close>

definition on_hand :: "uuid \<Rightarrow> uuid \<Rightarrow> 'a inventory_db_scheme \<Rightarrow> rat" where
  "on_hand w p s = (case lock_balance w p s of None \<Rightarrow> 0 | Some b \<Rightarrow> ib_quantity_on_hand b)"

definition reserved :: "uuid \<Rightarrow> uuid \<Rightarrow> 'a inventory_db_scheme \<Rightarrow> rat" where
  "reserved w p s = (case lock_balance w p s of None \<Rightarrow> 0 | Some b \<Rightarrow> ib_reserved_quantity b)"

definition active_reserved :: "uuid \<Rightarrow> uuid \<Rightarrow> stock_reservation list \<Rightarrow> rat" where
  "active_reserved w p rs =
     sum_list (map (\<lambda>r. if sr_warehouse_id r = w \<and> sr_product_id r = p \<and> sr_status r = ACTIVE
                        then sr_quantity r else 0) rs)"

text \<open>Every movement carries the balance it left behind: the sum of the ledger up to and including it.\<close>

definition running_balances :: "inventory_movement list \<Rightarrow> bool" where
  "running_balances ms \<longleftrightarrow>
     (\<forall>i < length ms. mv_balance_after (ms ! i)
        = ledger_quantity (mv_warehouse_id (ms ! i)) (mv_product_id (ms ! i)) (take (Suc i) ms))"

text \<open>Two states with the same stock tables and catalog.\<close>

definition same_inventory :: "'a inventory_db_scheme \<Rightarrow> 'b inventory_db_scheme \<Rightarrow> bool" where
  "same_inventory s s' \<longleftrightarrow>
     units s' = units s \<and> products s' = products s \<and> warehouses s' = warehouses s
     \<and> allow_negative_inventory s' = allow_negative_inventory s \<and> movements s' = movements s
     \<and> balances s' = balances s \<and> reservations s' = reservations s \<and> transfers s' = transfers s
     \<and> transfer_lines s' = transfer_lines s \<and> adjustments s' = adjustments s"

lemma same_inventory_refl [simp]: "same_inventory s s"
  by (simp add: same_inventory_def)

lemma same_inventory_trans: "same_inventory s t \<Longrightarrow> same_inventory t u \<Longrightarrow> same_inventory s u"
  by (simp add: same_inventory_def)

text \<open>What posting a movement leaves alone: everything outside the stock tables and the products' costs.\<close>

definition inventory_frame :: "'a inventory_db_scheme \<Rightarrow> 'a inventory_db_scheme \<Rightarrow> bool" where
  "inventory_frame s s' \<longleftrightarrow>
     units s' = units s \<and> warehouses s' = warehouses s
     \<and> allow_negative_inventory s' = allow_negative_inventory s
     \<and> document_sequences s' = document_sequences s \<and> idempotency_keys s' = idempotency_keys s
     \<and> map (\<lambda>p. p\<lparr>pr_cost_price := 0\<rparr>) (products s') = map (\<lambda>p. p\<lparr>pr_cost_price := 0\<rparr>) (products s)
     \<and> inventory_db.more s' = inventory_db.more s"

text \<open>The effect of one posted movement \<open>m\<close>.\<close>

definition stock_step :: "inventory_movement \<Rightarrow> 'a inventory_db_scheme \<Rightarrow> 'a inventory_db_scheme \<Rightarrow> bool" where
  "stock_step m s s' \<longleftrightarrow>
     movements s' = movements s @ [m]
     \<and> (\<forall>w p. on_hand w p s' = (if w = mv_warehouse_id m \<and> p = mv_product_id m
                                 then mv_balance_after m else on_hand w p s))
     \<and> (\<forall>w p. reserved w p s' = reserved w p s)
     \<and> reservations s' = reservations s \<and> transfers s' = transfers s
     \<and> transfer_lines s' = transfer_lines s \<and> adjustments s' = adjustments s
     \<and> inventory_frame s s'"

lemma is_balance_find_update:
  assumes "\<And>b. ib_warehouse_id (f b) = ib_warehouse_id b" and "\<And>b. ib_product_id (f b) = ib_product_id b"
  shows "find (is_balance w' p') (upd_where (is_balance w p) f bs)
       = (if w' = w \<and> p' = p then map_option f (find (is_balance w' p') bs) else find (is_balance w' p') bs)"
  unfolding is_balance_def[abs_def] by (induction bs) (auto simp: assms)

lemma ensure_balance_lookup:
  "list_ex (is_balance w p) bs \<Longrightarrow> \<exists>b. find (is_balance w p) bs = Some b"
  by (induction bs) auto

lemma find_no_balance: "\<not> list_ex (is_balance w p) bs \<Longrightarrow> find (is_balance w p) bs = None"
  by (induction bs) auto

lemma wp_balance_for_update:
  assumes "\<And>b bs. find (is_balance w p) bs = Some b \<Longrightarrow> ib_quantity_on_hand b = on_hand w p s \<Longrightarrow>
             ib_reserved_quantity b = reserved w p s \<Longrightarrow>
             (\<And>w' p'. on_hand w' p' (s\<lparr>balances := bs\<rparr>) = on_hand w' p' s) \<Longrightarrow>
             (\<And>w' p'. reserved w' p' (s\<lparr>balances := bs\<rparr>) = reserved w' p' s) \<Longrightarrow>
             Q b (s\<lparr>uuid_count := Suc (uuid_count s), balances := bs\<rparr>)"
  shows "wp (balance_for_update w p) Q s"
proof (cases "list_ex (is_balance w p) (balances s)")
  case True
  then obtain b where b: "find (is_balance w p) (balances s) = Some b" using ensure_balance_lookup by blast
  then show ?thesis
    using True assms[OF b] by (simp add: balance_for_update_def ensure_balance_def wp_simps lock_balance_def
        on_hand_def reserved_def)
next
  case False
  let ?b = "\<lparr>ib_warehouse_id = w, ib_product_id = p, ib_quantity_on_hand = 0, ib_reserved_quantity = 0\<rparr>"
  have n: "find (is_balance w p) (balances s) = None" using False by (rule find_no_balance)
  then have b: "find (is_balance w p) (balances s @ [?b]) = Some ?b" by (simp add: find_append is_balance_def)
  have other: "on_hand w' p' (s\<lparr>balances := balances s @ [?b]\<rparr>) = on_hand w' p' s
      \<and> reserved w' p' (s\<lparr>balances := balances s @ [?b]\<rparr>) = reserved w' p' s" for w' p'
    by (auto simp: on_hand_def reserved_def lock_balance_def find_append is_balance_def split: option.splits)
  from n have z: "on_hand w p s = 0" "reserved w p s = 0"
    by (simp_all add: on_hand_def reserved_def lock_balance_def)
  have "Q ?b (s\<lparr>uuid_count := Suc (uuid_count s), balances := balances s @ [?b]\<rparr>)"
    by (rule assms[OF b]) (use z other in simp_all)
  then show ?thesis
    using False b by (simp add: balance_for_update_def ensure_balance_def wp_simps lock_balance_def)
qed

lemma on_hand_set:
  assumes "\<And>b. ib_warehouse_id (f b) = ib_warehouse_id b" and "\<And>b. ib_product_id (f b) = ib_product_id b"
    and "find (is_balance w p) bs = Some b"
  shows "on_hand w' p' (s\<lparr>balances := upd_where (is_balance w p) f bs\<rparr>)
       = (if w' = w \<and> p' = p then ib_quantity_on_hand (f b) else on_hand w' p' (s\<lparr>balances := bs\<rparr>))"
    and "reserved w' p' (s\<lparr>balances := upd_where (is_balance w p) f bs\<rparr>)
       = (if w' = w \<and> p' = p then ib_reserved_quantity (f b) else reserved w' p' (s\<lparr>balances := bs\<rparr>))"
  by (auto simp: on_hand_def reserved_def lock_balance_def is_balance_find_update[OF assms(1,2)] assms(3))

lemma stock_view_cong:
  "balances s' = balances s \<Longrightarrow> on_hand w p s' = on_hand w p s"
  "balances s' = balances s \<Longrightarrow> reserved w p s' = reserved w p s"
  by (simp_all add: on_hand_def reserved_def lock_balance_def)

lemma on_hand_simps [simp]:
  "on_hand w p (s\<lparr>uuid_count := n\<rparr>) = on_hand w p s"
  "on_hand w p (s\<lparr>clock_count := n\<rparr>) = on_hand w p s"
  "on_hand w p (s\<lparr>audit_events := es\<rparr>) = on_hand w p s"
  "on_hand w p (s\<lparr>products := ps\<rparr>) = on_hand w p s"
  "on_hand w p (s\<lparr>movements := ms\<rparr>) = on_hand w p s"
  "on_hand w p (s\<lparr>reservations := rs\<rparr>) = on_hand w p s"
  "on_hand w p (s\<lparr>transfers := ts\<rparr>) = on_hand w p s"
  "on_hand w p (s\<lparr>transfer_lines := ls\<rparr>) = on_hand w p s"
  "on_hand w p (s\<lparr>adjustments := as\<rparr>) = on_hand w p s"
  "on_hand w p (s\<lparr>document_sequences := ds\<rparr>) = on_hand w p s"
  "on_hand w p (s\<lparr>idempotency_keys := ks\<rparr>) = on_hand w p s"
  by (simp_all add: on_hand_def lock_balance_def)

lemma reserved_simps [simp]:
  "reserved w p (s\<lparr>uuid_count := n\<rparr>) = reserved w p s"
  "reserved w p (s\<lparr>clock_count := n\<rparr>) = reserved w p s"
  "reserved w p (s\<lparr>audit_events := es\<rparr>) = reserved w p s"
  "reserved w p (s\<lparr>products := ps\<rparr>) = reserved w p s"
  "reserved w p (s\<lparr>movements := ms\<rparr>) = reserved w p s"
  "reserved w p (s\<lparr>reservations := rs\<rparr>) = reserved w p s"
  "reserved w p (s\<lparr>transfers := ts\<rparr>) = reserved w p s"
  "reserved w p (s\<lparr>transfer_lines := ls\<rparr>) = reserved w p s"
  "reserved w p (s\<lparr>adjustments := as\<rparr>) = reserved w p s"
  "reserved w p (s\<lparr>document_sequences := ds\<rparr>) = reserved w p s"
  "reserved w p (s\<lparr>idempotency_keys := ks\<rparr>) = reserved w p s"
  by (simp_all add: reserved_def lock_balance_def)

lemma wp_set_balance [wp_simps]:
  "wp (set_balance w p f) Q = (\<lambda>s. Q () (s\<lparr>balances := upd_where (is_balance w p) f (balances s)\<rparr>))"
  by (simp add: set_balance_def wp_simps)

lemma wp_update_cost:
  assumes "\<And>ps. map (\<lambda>p. p\<lparr>pr_cost_price := 0\<rparr>) ps = map (\<lambda>p. p\<lparr>pr_cost_price := 0\<rparr>) (products s) \<Longrightarrow>
             Q () (s\<lparr>products := ps\<rparr>)"
  shows "wp (update_cost product ty q u oh) Q s"
proof -
  have same: "Q () s" using assms[of "products s"] by simp
  have "Q () (s\<lparr>products := upd_where (\<lambda>p. pr_id p = pr_id product) (\<lambda>p. p\<lparr>pr_cost_price := c\<rparr>) (products s)\<rparr>)" for c
    by (rule assms) simp
  with same show ?thesis
    by (auto simp: update_cost_def set_product_cost_def wp_simps split: option.splits)
qed

text \<open>The balance a movement of \<open>q\<close> leaves, and the row it stores.\<close>

lemma wp_apply_movement:
  assumes "\<And>m s'. \<lbrakk> stock_step (m\<lparr>mv_quantity := Quantity q, mv_unit_cost := map_option UnitCost u,
                                  mv_balance_after := Quantity (on_hand w (pr_id product) s + q)\<rparr>) s s';
               mv_warehouse_id m = w; mv_product_id m = pr_id product; mv_movement_type m = ty; mv_quantity m = q;
               mv_reference_type m = rt; mv_reference_id m = ri; mv_idempotency_key m = key;
               \<not> allow_negative_inventory s \<Longrightarrow> q < 0 \<Longrightarrow>
                 - q \<le> on_hand w (pr_id product) s - reserved w (pr_id product) s \<rbrakk> \<Longrightarrow> Q m s'"
  shows "wp (apply_movement context w product ty q u rt ri notes key) Q s"
  unfolding apply_movement_def wp_bnd
proof (rule wp_balance_for_update)
  fix b bs
  assume b: "find (is_balance w (pr_id product)) bs = Some b"
    and oh: "ib_quantity_on_hand b = on_hand w (pr_id product) s"
    and re: "ib_reserved_quantity b = reserved w (pr_id product) s"
    and ohs: "\<And>w' p'. on_hand w' p' (s\<lparr>balances := bs\<rparr>) = on_hand w' p' s"
    and res: "\<And>w' p'. reserved w' p' (s\<lparr>balances := bs\<rparr>) = reserved w' p' s"
  let ?f = "\<lambda>b. b\<lparr>ib_quantity_on_hand := Quantity (on_hand w (pr_id product) s + q)\<rparr>"
  have view: "on_hand w' p' t = (if w' = w \<and> p' = pr_id product then Quantity (on_hand w (pr_id product) s + q) else on_hand w' p' s)"
    "reserved w' p' t = reserved w' p' s"
    if "balances t = upd_where (is_balance w (pr_id product)) ?f bs" for t :: "'a inventory_db_scheme" and w' p'
    using that ohs[of w' p'] res[of w' p'] b re
    by (auto simp: on_hand_def reserved_def lock_balance_def is_balance_find_update)
  show "wp (write_movement context w product ty q u rt ri notes key b) Q (s\<lparr>uuid_count := Suc (uuid_count s), balances := bs\<rparr>)"
    unfolding write_movement_def Let_def add_movement_def
    apply (simp only: wp_simps)
    apply (intro impI wp_update_cost)
    apply (rule assms)
    by (auto simp: stock_step_def inventory_frame_def view oh re)
qed

definition posted_row :: "rat \<Rightarrow> rat option \<Rightarrow> rat \<Rightarrow> inventory_movement \<Rightarrow> inventory_movement" where
  "posted_row q u oh m = m\<lparr>mv_quantity := Quantity q, mv_unit_cost := map_option UnitCost u,
                           mv_balance_after := Quantity (oh + q)\<rparr>"

lemma posted_row_simps [simp]:
  "mv_id (posted_row q u oh m) = mv_id m"
  "mv_warehouse_id (posted_row q u oh m) = mv_warehouse_id m"
  "mv_product_id (posted_row q u oh m) = mv_product_id m"
  "mv_movement_type (posted_row q u oh m) = mv_movement_type m"
  "mv_quantity (posted_row q u oh m) = Quantity q"
  "mv_unit_cost (posted_row q u oh m) = map_option UnitCost u"
  "mv_balance_after (posted_row q u oh m) = Quantity (oh + q)"
  "mv_reference_type (posted_row q u oh m) = mv_reference_type m"
  "mv_reference_id (posted_row q u oh m) = mv_reference_id m"
  "mv_idempotency_key (posted_row q u oh m) = mv_idempotency_key m"
  by (simp_all add: posted_row_def)

text \<open>
  The contract of \<open>_post_movement\<close>: it either replays the movement already posted under the key and
  changes nothing, or appends one movement and sets the balance.
\<close>

lemma wp_post_movement:
  assumes "\<And>m. truthy key \<Longrightarrow> movement_by_key (the key) s = Some m \<Longrightarrow>
             same_request m w (pr_id product) ty q u rt ri \<Longrightarrow> Q m s"
    and "\<And>m s' k. \<lbrakk> stock_step (posted_row q u (on_hand w (pr_id product) s) m) s s';
               truthy key \<Longrightarrow> movement_by_key (the key) s = None;
               unit_precision (pr_uom_id product) s = Some k; on_grid k (ctx28 q);
               mv_warehouse_id m = w; mv_product_id m = pr_id product; mv_movement_type m = ty; mv_quantity m = q;
               mv_reference_type m = rt; mv_reference_id m = ri; mv_idempotency_key m = key;
               \<not> allow_negative_inventory s \<Longrightarrow> q < 0 \<Longrightarrow>
                 - q \<le> on_hand w (pr_id product) s - reserved w (pr_id product) s \<rbrakk> \<Longrightarrow> Q m s'"
  shows "wp (post_movement context w product ty q u rt ri notes key) Q s"
proof -
  have "wp (apply_movement context w product ty q u rt ri notes key) Q s"
    if "truthy key \<Longrightarrow> movement_by_key (the key) s = None" "unit_precision (pr_uom_id product) s = Some k"
      "on_grid k (ctx28 q)" for k
    by (rule wp_apply_movement, rule assms(2)[OF _ that]) (simp_all add: posted_row_def)
  with assms(1) show ?thesis
    by (auto simp: post_movement_def validate_quantity_def wp_simps split: option.splits if_splits)
qed

text \<open>The catalog as the operations see it is not changed by posting a movement.\<close>

lemma repo_product_frame:
  assumes "inventory_frame s s'" and "repo_product i s = Some p"
  shows "\<exists>p'. repo_product i s' = Some p' \<and> pr_id p' = pr_id p \<and> pr_uom_id p' = pr_uom_id p
           \<and> pr_is_stock_tracked p' = pr_is_stock_tracked p"
proof -
  let ?g = "\<lambda>p. p\<lparr>pr_cost_price := 0\<rparr>"
  have "map_option ?g (repo_product i s') = map_option ?g (repo_product i s)"
    unfolding repo_product_def
  proof (rule find_map_eq)
    show "map ?g (products s') = map ?g (products s)" using assms(1) by (simp add: inventory_frame_def)
    fix x y :: product
    assume "?g x = ?g y"
    then show "(pr_id x = i \<and> pr_is_active x) = (pr_id y = i \<and> pr_is_active y)" by (cases x, cases y) simp
  qed
  with assms(2) obtain p' where "repo_product i s' = Some p'" "?g p' = ?g p" by auto
  then show ?thesis by (cases p, cases p') auto
qed

end
