(* ===== verification/Calendar.thy ===== *)
theory Calendar
  imports Base_Db "HOL-Library.Product_Lexorder"
begin

text \<open>
  Calendar dates as Python's \<^verbatim>\<open>datetime.date\<close> has them: year, month and day, compared
  lexicographically, with \<^verbatim>\<open>calendar.monthrange\<close> and the date of a UTC timestamp (\<open>utc_date\<close>). The last
  part is the fiscal year of \<open>AccountingService._bootstrap\<close>: the twelve months from the tenant's first
  fiscal month that contain today.
\<close>

type_synonym date = "int \<times> int \<times> int"

abbreviation year_of :: "date \<Rightarrow> int" where
  "year_of d \<equiv> fst d"

abbreviation month_of :: "date \<Rightarrow> int" where
  "month_of d \<equiv> fst (snd d)"

definition leap_year :: "int \<Rightarrow> bool" where
  "leap_year y \<longleftrightarrow> y mod 4 = 0 \<and> (y mod 100 \<noteq> 0 \<or> y mod 400 = 0)"

text \<open>\<^verbatim>\<open>monthrange(y, m)[1]\<close>\<close>

definition days_in_month :: "int \<Rightarrow> int \<Rightarrow> int" where
  "days_in_month y m =
     (if m = 2 then (if leap_year y then 29 else 28)
      else if m = 4 \<or> m = 6 \<or> m = 9 \<or> m = 11 then 30 else 31)"

definition valid_date :: "date \<Rightarrow> bool" where
  "valid_date d \<longleftrightarrow> (case d of (y, m, dd) \<Rightarrow> 1 \<le> m \<and> m \<le> 12 \<and> 1 \<le> dd \<and> dd \<le> days_in_month y m)"

definition days_in_year :: "int \<Rightarrow> nat" where
  "days_in_year y = (if leap_year y then 366 else 365)"

text \<open>Counting whole years, then whole months, off a number of days.\<close>

function split_year :: "int \<Rightarrow> nat \<Rightarrow> int \<times> nat" where
  "split_year y n = (if n < days_in_year y then (y, n) else split_year (y + 1) (n - days_in_year y))"
  by pat_completeness auto
termination by (relation "measure snd") (auto simp: days_in_year_def)

declare split_year.simps [simp del]

function split_month :: "int \<Rightarrow> int \<Rightarrow> int \<Rightarrow> int \<times> int" where
  "split_month y m n = (if n < days_in_month y m \<or> m \<ge> 12 then (m, n) else split_month y (m + 1) (n - days_in_month y m))"
  by pat_completeness auto
termination by (relation "measure (\<lambda>(y, m, n). nat (12 - m))") auto

declare split_month.simps [simp del]

definition utc_date :: "datetime \<Rightarrow> date" where
  "utc_date t =
     (let (y, n) = split_year 1970 (nat (t div (24 * 60 * 60 * 1000000)));
          (m, k) = split_month y 1 (int n)
      in (y, m, k + 1))"

lemma days_in_month_pos: "28 \<le> days_in_month y m" "days_in_month y m \<le> 31"
  by (simp_all add: days_in_month_def)

lemma one_le_days_in_month [simp]: "1 \<le> days_in_month y m"
  using days_in_month_pos(1)[of y m] by simp

lemma split_year_bound: "split_year y n = (y', k) \<Longrightarrow> k < days_in_year y'"
proof (induction y n rule: split_year.induct)
  case (1 y n)
  then show ?case by (subst (asm) split_year.simps) (auto split: if_splits)
qed

text \<open>The days left when month \<open>m\<close> starts.\<close>

definition days_from :: "int \<Rightarrow> int \<Rightarrow> int" where
  "days_from y m = sum_list (map (days_in_month y) [m..12])"

lemma days_from_step: "m \<le> 12 \<Longrightarrow> days_from y m = days_in_month y m + days_from y (m + 1)"
  by (simp add: days_from_def upto.simps[of m])

lemma days_from_13: "days_from y 13 = 0"
  by (simp add: days_from_def)

lemma days_from_1: "days_from y 1 = int (days_in_year y)"
proof -
  have "[1..12::int] = [1, 2, 3, 4, 5, 6, 7, 8, 9, 10, 11, 12]" by (simp add: upto.simps)
  then show ?thesis by (simp add: days_from_def days_in_month_def days_in_year_def)
qed

lemma split_month_valid:
  "1 \<le> m \<Longrightarrow> m \<le> 12 \<Longrightarrow> 0 \<le> n \<Longrightarrow> n < days_from y m \<Longrightarrow> split_month y m n = (m', k) \<Longrightarrow>
     1 \<le> m' \<and> m' \<le> 12 \<and> 0 \<le> k \<and> k < days_in_month y m'"
proof (induction y m n rule: split_month.induct)
  case (1 y m n)
  show ?case
  proof (cases "n < days_in_month y m \<or> m \<ge> 12")
    case True
    then have "m' = m" "k = n" using 1(6) by (simp_all add: split_month.simps[of y m n])
    moreover have "n < days_in_month y m"
    proof (cases "m = 12")
      case True
      then show ?thesis using 1(5) by (simp add: days_from_step days_from_13)
    qed (use True 1(3) in auto)
    ultimately show ?thesis using 1(2,3,4) by simp
  next
    case False
    then have "split_month y (m + 1) (n - days_in_month y m) = (m', k)"
      using 1(6) by (simp add: split_month.simps[of y m n])
    moreover have "n - days_in_month y m < days_from y (m + 1)" using 1(5) 1(3) by (simp add: days_from_step)
    ultimately show ?thesis using 1(1)[OF False] 1(2) False by simp
  qed
qed

lemma utc_date_valid: "valid_date (utc_date t)"
proof -
  obtain y n where yn: "split_year 1970 (nat (t div (24 * 60 * 60 * 1000000))) = (y, n)" by fastforce
  obtain m k where mk: "split_month y 1 (int n) = (m, k)" by fastforce
  have "int n < days_from y 1" using split_year_bound[OF yn] by (simp add: days_from_1)
  from split_month_valid[OF _ _ _ this mk] show ?thesis
    by (auto simp: utc_date_def valid_date_def yn[simplified] mk)
qed

section \<open>Fiscal years\<close>

text \<open>Lines 136 to 142 of \<^verbatim>\<open>accounting/service.py\<close>.\<close>

definition fiscal_year :: "int \<Rightarrow> date \<Rightarrow> int \<times> int \<times> date \<times> date" where
  "fiscal_year month today =
     (let year = (if month_of today \<ge> month then year_of today else year_of today - 1);
          start = (year, month, 1);
          end_month = (if month - 1 = 0 then 12 else month - 1);
          end_year = (if month > 1 then year + 1 else year);
          stop = (end_year, end_month, days_in_month end_year end_month)
      in (year, end_year, start, stop))"

lemma fiscal_year_contains:
  assumes valid: "valid_date today" and month: "1 \<le> month" "month \<le> 12"
    and fy: "fiscal_year month today = (y, e, start, stop)"
  shows "start \<le> today" and "today \<le> stop" and "start \<le> stop" and "valid_date start" and "valid_date stop"
proof -
  obtain ty tm td where t: "today = (ty, tm, td)" by (cases today)
  have v: "1 \<le> tm" "tm \<le> 12" "1 \<le> td" "td \<le> days_in_month ty tm" using valid by (simp_all add: t valid_date_def)
  show "start \<le> today" "start \<le> stop" "valid_date start" "valid_date stop"
    using fy month v by (auto simp: t fiscal_year_def Let_def less_eq_prod_def valid_date_def split: if_splits)
  show "today \<le> stop"
  proof (cases "tm = month - 1")
    case True
    then show ?thesis using fy month v by (auto simp: t fiscal_year_def Let_def less_eq_prod_def split: if_splits)
  next
    case False
    then show ?thesis using fy month v
      by (cases "tm = 12") (auto simp: t fiscal_year_def Let_def less_eq_prod_def split: if_splits)
  qed
qed

section \<open>Distances\<close>

text \<open>Python's \<^verbatim>\<open>date.toordinal()\<close>, by which dates are subtracted.\<close>

definition toordinal :: "date \<Rightarrow> int" where
  "toordinal d =
     (case d of (y, m, dd) \<Rightarrow>
        365 * (y - 1) + (y - 1) div 4 - (y - 1) div 100 + (y - 1) div 400
        + sum_list (map (days_in_month y) [1 .. m - 1]) + dd)"

definition MAX_RANGE_DAYS :: int where
  "MAX_RANGE_DAYS = 366"

text \<open>The cap on the range of every report (\<open>_bounded\<close> of \<^verbatim>\<open>vat/router.py\<close>).\<close>

definition bounded :: "date \<Rightarrow> date \<Rightarrow> ('s, unit) tx" where
  "bounded start stop =
     bnd (require (\<not> stop < start) (DomainValidationError ''INVALID_DATE_RANGE'')) (\<lambda>_.
     require (\<not> toordinal stop - toordinal start > MAX_RANGE_DAYS) (DomainValidationError ''INVALID_DATE_RANGE''))"

end
