(* ===== verification/Posting_Rules.thy ===== *)
theory Posting_Rules
  imports Decimals
begin

text \<open>
  The journal lines of every business event: \<^verbatim>\<open>modules/accounting/posting_rules.py\<close>. The amounts are
  four-place amounts of stored documents, on which \<^verbatim>\<open>+\<close> is exact.
\<close>

record PostingLine =
  pl_system_code :: string
  pl_debit :: rat
  pl_credit :: rat
  pl_description :: "string option"

definition debit_line :: "string \<Rightarrow> rat \<Rightarrow> PostingLine" where
  "debit_line code amount = \<lparr>pl_system_code = code, pl_debit = amount, pl_credit = 0, pl_description = None\<rparr>"

definition credit_line :: "string \<Rightarrow> rat \<Rightarrow> PostingLine" where
  "credit_line code amount = \<lparr>pl_system_code = code, pl_debit = 0, pl_credit = amount, pl_description = None\<rparr>"

definition cogs_recognition :: "rat \<Rightarrow> PostingLine list" where
  "cogs_recognition cost = [debit_line ''COGS'' cost, credit_line ''INVENTORY'' cost]"

definition cash_sale :: "rat \<Rightarrow> rat \<Rightarrow> rat \<Rightarrow> PostingLine list \<times> PostingLine list" where
  "cash_sale net tax cost =
     ([debit_line ''CASH'' (net + tax), credit_line ''SALES_REVENUE'' net]
        @ (if tax \<noteq> 0 then [credit_line ''VAT_OUTPUT'' tax] else []),
      [debit_line ''COGS'' cost, credit_line ''INVENTORY'' cost])"

definition credit_sale :: "rat \<Rightarrow> rat \<Rightarrow> PostingLine list" where
  "credit_sale net tax =
     [debit_line ''AR_CONTROL'' (net + tax), credit_line ''SALES_REVENUE'' net]
       @ (if tax \<noteq> 0 then [credit_line ''VAT_OUTPUT'' tax] else [])"

definition customer_payment :: "rat \<Rightarrow> bool \<Rightarrow> PostingLine list" where
  "customer_payment amount cash =
     [debit_line (if cash then ''CASH'' else ''BANK'') amount, credit_line ''AR_CONTROL'' amount]"

definition sales_return :: "rat \<Rightarrow> rat \<Rightarrow> rat \<Rightarrow> PostingLine list \<times> PostingLine list option" where
  "sales_return net tax cost =
     ([debit_line ''SALES_RETURNS'' net] @ (if tax \<noteq> 0 then [debit_line ''VAT_OUTPUT'' tax] else [])
        @ [credit_line ''AR_CONTROL'' (net + tax)],
      if cost \<noteq> 0 then Some [debit_line ''INVENTORY'' cost, credit_line ''COGS'' cost] else None)"

definition pos_refund :: "rat \<Rightarrow> rat \<Rightarrow> rat \<Rightarrow> bool \<Rightarrow> PostingLine list \<times> PostingLine list option" where
  "pos_refund net tax cost restock =
     ([debit_line ''SALES_RETURNS'' net] @ (if tax \<noteq> 0 then [debit_line ''VAT_OUTPUT'' tax] else [])
        @ [credit_line ''CASH'' (net + tax)],
      if restock \<and> cost \<noteq> 0 then Some [debit_line ''INVENTORY'' cost, credit_line ''COGS'' cost] else None)"

definition goods_receipt :: "rat \<Rightarrow> PostingLine list" where
  "goods_receipt cost = [debit_line ''INVENTORY'' cost, credit_line ''GRNI'' cost]"

definition supplier_bill :: "rat \<Rightarrow> rat \<Rightarrow> PostingLine list" where
  "supplier_bill goods_cost tax =
     [debit_line ''GRNI'' goods_cost] @ (if tax \<noteq> 0 then [debit_line ''VAT_INPUT'' tax] else [])
       @ [credit_line ''AP_CONTROL'' (goods_cost + tax)]"

definition supplier_payment :: "rat \<Rightarrow> bool \<Rightarrow> PostingLine list" where
  "supplier_payment amount cash =
     [debit_line ''AP_CONTROL'' amount, credit_line (if cash then ''CASH'' else ''BANK'') amount]"

section \<open>Every rule balances\<close>

definition total_debit :: "PostingLine list \<Rightarrow> rat" where
  "total_debit lines = sum_list (map pl_debit lines)"

definition total_credit :: "PostingLine list \<Rightarrow> rat" where
  "total_credit lines = sum_list (map pl_credit lines)"

lemmas posting_simps = total_debit_def total_credit_def debit_line_def credit_line_def

text \<open>
  What the journal expects of a rule: debits equal credits. A client of the journal that uses such a
  rule is never refused for imbalance unless the total is zero.
\<close>

locale posting_rule =
  fixes lines :: "PostingLine list"
  assumes balanced: "total_debit lines = total_credit lines"
begin

lemma net_effect_zero: "sum_list (map (\<lambda>l. pl_debit l - pl_credit l) lines) = 0"
  using balanced by (simp add: total_debit_def total_credit_def sum_list_subtractf)

end

interpretation cogs_recognition: posting_rule "cogs_recognition cost" for cost
  by unfold_locales (simp add: cogs_recognition_def posting_simps)

interpretation cash_sale: posting_rule "fst (cash_sale net tax cost)" for net tax cost
  by unfold_locales (simp add: cash_sale_def posting_simps)

interpretation cash_sale_cost: posting_rule "snd (cash_sale net tax cost)" for net tax cost
  by unfold_locales (simp add: cash_sale_def posting_simps)

interpretation credit_sale: posting_rule "credit_sale net tax" for net tax
  by unfold_locales (simp add: credit_sale_def posting_simps)

interpretation customer_payment: posting_rule "customer_payment amount cash" for amount cash
  by unfold_locales (simp add: customer_payment_def posting_simps)

interpretation sales_return: posting_rule "fst (sales_return net tax cost)" for net tax cost
  by unfold_locales (simp add: sales_return_def posting_simps)

interpretation pos_refund: posting_rule "fst (pos_refund net tax cost restock)" for net tax cost restock
  by unfold_locales (simp add: pos_refund_def posting_simps)

interpretation goods_receipt: posting_rule "goods_receipt cost" for cost
  by unfold_locales (simp add: goods_receipt_def posting_simps)

interpretation supplier_bill: posting_rule "supplier_bill goods_cost tax" for goods_cost tax
  by unfold_locales (simp add: supplier_bill_def posting_simps)

interpretation supplier_payment: posting_rule "supplier_payment amount cash" for amount cash
  by unfold_locales (simp add: supplier_payment_def posting_simps)

end
