(* ===== verification/Pricing.thy ===== *)
theory Pricing
  imports Decimals
begin

text \<open>
  The price arithmetic of the program: \<^verbatim>\<open>core/money.py\<close>, \<^verbatim>\<open>modules/sales/money.py\<close> (net, tax and
  total of one document line) and \<^verbatim>\<open>modules/vat/pricing.py\<close> (prices with and without VAT). The
  theorems say when the printed amounts are the exact amounts rounded half up, that the parts of a
  price add up to it, and that backing VAT out of a gross price recovers the net it was made from.
\<close>

section \<open>Definitions\<close>

definition core_round_money :: "rat \<Rightarrow> int \<Rightarrow> error + rat" where
  "core_round_money amount minor_units = dec_quantize round_half_up minor_units amount"

definition round_money :: "rat \<Rightarrow> error + rat" where
  "round_money amount = dec_quantize round_half_up 4 amount"

definition line_totals :: "rat \<Rightarrow> rat \<Rightarrow> rat \<Rightarrow> rat \<Rightarrow> error + rat \<times> rat \<times> rat" where
  "line_totals quantity unit_price discount_rate tax_rate =
     (let gross = dec_mul quantity unit_price;
          unrounded_net = dec_mul gross (dec_sub 1 discount_rate)
      in res_bnd (round_money unrounded_net) (\<lambda>net.
         res_bnd (round_money (dec_mul unrounded_net tax_rate)) (\<lambda>tax.
         Inr (net, tax, dec_add net tax))))"

definition quantize :: "rat \<Rightarrow> error + rat" where
  "quantize amount = dec_quantize round_half_up 4 amount"

definition exclusive :: "rat \<Rightarrow> rat \<Rightarrow> error + rat \<times> rat \<times> rat" where
  "exclusive net rate =
     res_bnd (quantize net) (\<lambda>net_r.
     res_bnd (quantize (dec_mul net_r rate)) (\<lambda>vat.
     Inr (net_r, vat, dec_add net_r vat)))"

definition inclusive :: "rat \<Rightarrow> rat \<Rightarrow> error + rat \<times> rat \<times> rat" where
  "inclusive gross rate =
     (if rate < 0 then Inl ValueError
      else res_bnd (quantize gross) (\<lambda>gross_r.
           res_bnd (dec_div gross_r (dec_add 1 rate)) (\<lambda>q.
           res_bnd (quantize q) (\<lambda>net.
           Inr (net, dec_sub gross_r net, gross_r)))))"

section \<open>Auxiliary facts\<close>

lemma round_money_eq: "\<bar>x\<bar> < 10 ^ 23 \<Longrightarrow> round_money x = Inr (Money x)"
  using half_up.quantize_rescale[of x 4] by (simp add: round_money_def Money_def)

lemma round_money_InrD: "round_money x = Inr y \<Longrightarrow> y = Money x"
  using half_up.quantize_InrD[of 4] by (simp add: round_money_def Money_def)

lemma quantize_eq_round_money: "quantize = round_money"
  by (simp add: fun_eq_iff quantize_def round_money_def)

lemma Money_grid [intro, simp]: "on_grid 4 (Money x)"
  unfolding Money_def by (rule half_up.rescale_on_grid)

lemma Money_near: "\<bar>Money x - x\<bar> \<le> 1 / 20000"
  using half_up.rescale_near[of 4 x] by (simp add: Money_def)

lemma Money_mono: "x \<le> y \<Longrightarrow> Money x \<le> Money y"
  unfolding Money_def by (rule half_up.rescale_mono)

lemma Money_fixed: "on_grid 4 x \<Longrightarrow> Money x = x"
  unfolding Money_def by (rule half_up.rescale_fixed)

lemma Money_nonneg: "0 \<le> x \<Longrightarrow> 0 \<le> Money x"
  using Money_mono[of 0 x] by simp

lemma Money_uminus: "Money (- x) = - Money x"
  unfolding Money_def by (rule half_up.rescale_uminus)

lemma Money_bound: "\<bar>x\<bar> < 10 ^ 22 \<Longrightarrow> \<bar>Money x\<bar> < 10 ^ 22 + 1"
  using Money_near[of x] by linarith

lemma dec_add_Money:
  assumes "\<bar>x\<bar> < 10 ^ 22" and "\<bar>y\<bar> < 10 ^ 22"
  shows "dec_add (Money x) (Money y) = Money x + Money y"
proof -
  have "\<bar>Money x + Money y\<bar> < 10 ^ 22 + 1 + (10 ^ 22 + 1)"
    using Money_bound[OF assms(1)] Money_bound[OF assms(2)] by linarith
  then show ?thesis by (intro dec_add_exact[of 4]) simp_all
qed

lemma dec_sub_Money:
  assumes "\<bar>x\<bar> < 10 ^ 22" and "\<bar>y\<bar> < 10 ^ 22"
  shows "dec_sub (Money x) (Money y) = Money x - Money y"
proof -
  have "\<bar>Money x - Money y\<bar> < 10 ^ 22 + 1 + (10 ^ 22 + 1)"
    using Money_bound[OF assms(1)] Money_bound[OF assms(2)] by linarith
  then show ?thesis by (intro dec_sub_exact[of 4]) simp_all
qed

lemma Money_unique: "on_grid 4 n \<Longrightarrow> \<bar>x - n\<bar> < 1 / 20000 \<Longrightarrow> Money x = n"
  using half_up.rescale_unique[of 4 n x] by (simp add: Money_def)

text \<open>The discount factor of a stored rate is exact.\<close>

lemma dec_sub_1_rate:
  assumes "on_grid 6 d" and "0 \<le> d" and "d \<le> 1"
  shows "dec_sub 1 d = 1 - d"
  using assms by (intro dec_sub_exact[of 6]) auto

lemma mult_frac_le:
  fixes a b :: rat
  assumes "0 \<le> a" and "0 \<le> b" and "b \<le> 1"
  shows "0 \<le> a * b" and "a * b \<le> a"
  using assms mult_left_mono[of b 1 a] by simp_all

section \<open>One document line\<close>

text \<open>
  For a quantity, price and rates of the precision the database stores (six, four and six
  decimal places) and a line below one million, \<^verbatim>\<open>line_totals\<close> returns the exact net amount and
  the exact tax on the unrounded net, each rounded half up to four places, and their sum: no
  intermediate result is rounded. Every printed amount is within 0.00005 of the exact one.
\<close>

lemma line_totals_exact:
  assumes "on_grid 6 q" "on_grid 4 p" "on_grid 6 d" "on_grid 6 t"
    and "0 \<le> q" "0 \<le> p" "0 \<le> d" "d \<le> 1" "0 \<le> t" "t \<le> 1" and "q * p < 10 ^ 6"
  shows "line_totals q p d t =
           Inr (Money (q * p * (1 - d)), Money (q * p * (1 - d) * t),
                Money (q * p * (1 - d)) + Money (q * p * (1 - d) * t))
       \<and> \<bar>Money (q * p * (1 - d)) - q * p * (1 - d)\<bar> \<le> 1 / 20000
       \<and> \<bar>Money (q * p * (1 - d) * t) - q * p * (1 - d) * t\<bar> \<le> 1 / 20000"
proof -
  let ?n = "q * p * (1 - d)"
  have d: "dec_sub 1 d = 1 - d" using assms by (intro dec_sub_1_rate)
  have n: "0 \<le> ?n" "?n \<le> q * p" using mult_frac_le[of "q * p" "1 - d"] assms by simp_all
  have nt: "0 \<le> ?n * t" "?n * t \<le> ?n" using mult_frac_le[of ?n t] n assms by blast+
  have gd: "on_grid 6 (1 - d)" using assms by auto
  have gqp: "on_grid 10 (q * p)" using on_grid_mult[of 6 q 4 p] assms by simp
  have m1: "dec_mul q p = q * p" 
    using assms by (intro dec_mul_exact[of 6 _ 4]) (simp_all add: abs_mult mult.commute)
  have m2: "dec_mul (q * p) (1 - d) = ?n"
    using n assms(11) by (intro dec_mul_exact[OF gqp gd] scaled_bound[of _ 6]) linarith+
  have gn: "on_grid 16 ?n" using on_grid_mult[OF gqp gd] by simp
  have m3: "dec_mul ?n t = ?n * t"
    using nt n assms(11) by (intro dec_mul_exact[OF gn assms(4)] scaled_bound[of _ 6]) linarith+
  have r: "round_money ?n = Inr (Money ?n)" "round_money (?n * t) = Inr (Money (?n * t))"
    using n nt assms(11) by (intro round_money_eq; simp)+
  have "dec_add (Money ?n) (Money (?n * t)) = Money ?n + Money (?n * t)"
    using n nt assms(11) by (intro dec_add_Money) simp_all
  with r m1 m2 m3 d have "line_totals q p d t = Inr (Money ?n, Money (?n * t), Money ?n + Money (?n * t))"
    by (simp add: line_totals_def Let_def)
  with Money_near[of ?n] Money_near[of "?n * t"] show ?thesis by blast
qed

lemma line_totals_exact_witness:
  "line_totals 3 (33/10) (1/10) (15/100) =
     Inr (Money (3 * (33/10) * (1 - 1/10)), Money (3 * (33/10) * (1 - 1/10) * (15/100)),
          Money (3 * (33/10) * (1 - 1/10)) + Money (3 * (33/10) * (1 - 1/10) * (15/100)))"
  using line_totals_exact[of 3 "33/10" "1/10" "15/100"] by (simp add: on_grid_def)

text \<open>
  For any non-negative line, however many digits its factors have, \<^verbatim>\<open>line_totals\<close> returns four-place
  amounts with \<open>0 \<le> net\<close>, \<open>0 \<le> tax\<close> and \<open>total = net + tax\<close>; a discount never raises the net above
  the undiscounted line, and a rate of at most one never makes the tax larger than the net.
\<close>

theorem line_totals_bounds:
  assumes "0 \<le> q" "0 \<le> p" "on_grid 6 d" "0 \<le> d" "d \<le> 1" "0 \<le> t" "t \<le> 1" and "q * p < 10 ^ 20"
  shows "\<exists>net tax. line_totals q p d t = Inr (net, tax, net + tax)
           \<and> on_grid 4 net \<and> on_grid 4 tax \<and> 0 \<le> tax \<and> tax \<le> net
           \<and> net \<le> Money (ctx28 (q * p))"
proof -
  define g where "g = dec_mul q p"
  define n where "n = dec_mul g (1 - d)"
  define x where "x = dec_mul n t"
  have d: "dec_sub 1 d = 1 - d" using assms by (intro dec_sub_1_rate)
  have g0: "0 \<le> g" unfolding g_def using assms by (intro dec_mul_nonneg)
  have gb: "g < 10 ^ 20 + 1"
    using ctx28_mono[of "q * p" "10 ^ 20"] ctx28_exact[of 0 "10 ^ 20"] assms
    by (simp add: g_def dec_mul_def on_grid_def)
  have n0: "0 \<le> n" unfolding n_def using assms g0 by (intro dec_mul_nonneg) auto
  have ng: "n \<le> g"
    using ctx28_mono[OF mult_frac_le(2)[of g "1 - d"]] g0 assms ctx28_idem[of "q * p"]
    by (simp add: n_def g_def dec_mul_def)
  have x0: "0 \<le> x" unfolding x_def using assms n0 by (intro dec_mul_nonneg)
  have xn: "x \<le> n"
    using ctx28_mono[OF mult_frac_le(2)[of n t]] n0 assms ctx28_idem[of "g * (1 - d)"]
    by (simp add: x_def n_def dec_mul_def)
  have r: "round_money n = Inr (Money n)" "round_money x = Inr (Money x)"
    using n0 ng gb x0 xn by (intro round_money_eq; simp)+
  have "dec_add (Money n) (Money x) = Money n + Money x"
    using n0 x0 ng xn gb by (intro dec_add_Money) simp_all
  with r have "line_totals q p d t = Inr (Money n, Money x, Money n + Money x)"
    by (simp add: line_totals_def Let_def d g_def n_def x_def)
  moreover have "Money x \<le> Money n" "Money n \<le> Money (ctx28 (q * p))" "0 \<le> Money x"
    using Money_mono[OF xn] Money_mono[OF ng] Money_nonneg[OF x0] by (simp_all add: g_def dec_mul_def)
  ultimately show ?thesis by blast
qed

theorem line_totals_bounds_witness:
  "\<exists>net tax. line_totals (1/3) 100 (1/10) 1 = Inr (net, tax, net + tax)
           \<and> on_grid 4 net \<and> on_grid 4 tax \<and> 0 \<le> tax \<and> tax \<le> net
           \<and> net \<le> Money (ctx28 (1/3 * 100))"
  using line_totals_bounds[of "1/3" 100 "1/10" 1] by (simp add: on_grid_def)

section \<open>Prices with and without VAT\<close>

lemma dec_add_1_rate:
  assumes "on_grid 6 r" and "0 \<le> r" and "r < 1000"
  shows "dec_add 1 r = 1 + r"
  using assms by (intro dec_add_exact[of 6]) auto

lemma inclusive_eq:
  assumes "on_grid 6 r" "0 \<le> r" "r < 1000" and "\<bar>g\<bar> < 10 ^ 21"
  defines "n \<equiv> Money (ctx28 (Money g / (1 + r)))"
  shows "inclusive g r = Inr (n, Money g - n, Money g)"
    and "0 \<le> g \<Longrightarrow> 0 \<le> n \<and> n \<le> Money g"
proof -
  have mg: "\<bar>Money g\<bar> < 10 ^ 21 + 1" using Money_near[of g] assms(4) by linarith
  have "\<bar>Money g / (1 + r)\<bar> \<le> \<bar>Money g\<bar>"
    using assms(2) mult_left_mono[of 1 "1 + r" "\<bar>Money g\<bar>"] by (simp add: abs_divide pos_divide_le_eq)
  then have "\<bar>ctx28 (Money g / (1 + r))\<bar> \<le> 2 * \<bar>Money g\<bar>"
    using ctx28_abs_le[of "Money g / (1 + r)"] by linarith
  with mg have q: "\<bar>ctx28 (Money g / (1 + r))\<bar> < 10 ^ 22" by simp
  have "round_money g = Inr (Money g)" using assms(4) by (intro round_money_eq) simp
  moreover have "round_money (ctx28 (Money g / (1 + r))) = Inr n"
    unfolding n_def using q by (intro round_money_eq) simp
  moreover have "dec_sub (Money g) n = Money g - n"
    unfolding n_def using assms(4) q by (intro dec_sub_Money) simp_all
  ultimately show "inclusive g r = Inr (n, Money g - n, Money g)"
    using assms(2) by (simp add: inclusive_def quantize_eq_round_money dec_div_def dec_add_1_rate[OF assms(1-3)])
  assume "0 \<le> g"
  then have g0: "0 \<le> Money g" by (rule Money_nonneg)
  have "Money g / (1 + r) \<le> Money g" using g0 assms(2) mult_left_mono[of 1 "1 + r" "Money g"] by (simp add: pos_divide_le_eq)
  then have "ctx28 (Money g / (1 + r)) \<le> ctx28 (Money g)" by (rule ctx28_mono)
  also have "\<dots> = Money g" using mg by (intro ctx28_exact[of 4]) simp_all
  finally have "n \<le> Money (Money g)" unfolding n_def by (rule Money_mono)
  then show "0 \<le> n \<and> n \<le> Money g"
    using g0 assms(2) by (simp add: n_def Money_nonneg ctx28_nonneg Money_fixed)
qed

text \<open>
  C22. \<^verbatim>\<open>inclusive\<close> never loses or invents a minor unit: for every stored VAT rate and every
  non-negative gross price, net and VAT are non-negative four-place amounts that add up exactly to
  the rounded gross price, and the net differs from the exact quotient by less than 0.0001.
\<close>

theorem inclusive_parts_add_up:
  assumes "on_grid 6 r" "0 \<le> r" "r < 1000" and "0 \<le> g" "g < 10 ^ 20"
  shows "\<exists>net vat. inclusive g r = Inr (net, vat, Money g) \<and> net + vat = Money g
           \<and> 0 \<le> net \<and> 0 \<le> vat \<and> on_grid 4 net \<and> on_grid 4 vat
           \<and> \<bar>net - Money g / (1 + r)\<bar> < 1 / 10000"
proof -
  define y where "y = Money g / (1 + r)"
  define n where "n = Money (ctx28 y)"
  note * = inclusive_eq[OF assms(1-3), of g, folded y_def, folded n_def]
  have mg: "0 \<le> Money g" "Money g < 10 ^ 20 + 1" using Money_near[of g] assms(4,5) Money_nonneg[of g] by linarith+
  have "y \<le> Money g" "0 \<le> y"
    using mg assms(2) mult_left_mono[of 1 "1 + r" "Money g"] by (simp_all add: y_def pos_divide_le_eq)
  then have "\<bar>ctx28 y - y\<bar> < 1 / 100000" using ctx28_near[of y] mg by simp
  then have "\<bar>n - y\<bar> < 1 / 10000" using Money_near[of "ctx28 y"] unfolding n_def by linarith
  then show ?thesis using * assms by (auto simp: n_def y_def)
qed

theorem inclusive_parts_add_up_witness:
  "\<exists>net vat. inclusive 100 (15/100) = Inr (net, vat, Money 100) \<and> net + vat = Money 100
           \<and> 0 \<le> net \<and> 0 \<le> vat \<and> on_grid 4 net \<and> on_grid 4 vat
           \<and> \<bar>net - Money 100 / (1 + 15/100)\<bar> < 1 / 10000"
  using inclusive_parts_add_up[of "15/100" 100] by (simp add: on_grid_def)

lemma roundtrip_gap:
  fixes n r v :: rat
  assumes "1 / 10 ^ 6 \<le> r" and "\<bar>v - n * r\<bar> \<le> 1 / 20000 + 1 / 10 ^ 12"
  shows "\<bar>(n + v) / (1 + r) - n\<bar> \<le> 1 / 20000 - 1 / 10 ^ 11"
proof -
  have r: "0 < 1 + r" using assms(1) by (simp add: pos_le_divide_eq)
  have "(n + v) / (1 + r) - n = (v - n * r) / (1 + r)" using r by (simp add: field_simps)
  then have "\<bar>(n + v) / (1 + r) - n\<bar> = \<bar>v - n * r\<bar> / (1 + r)" using r by (simp add: abs_divide)
  also have "\<dots> \<le> (1 / 20000 + 1 / 10 ^ 12) / (1 + r)"
    using r assms(2) by (intro divide_right_mono) simp_all
  also have "\<dots> \<le> (1 / 20000 + 1 / 10 ^ 12) / (1 + 1 / 10 ^ 6)"
    using assms(1) by (intro divide_left_mono) simp_all
  also have "\<dots> \<le> 1 / 20000 - 1 / 10 ^ 11" by simp
  finally show ?thesis .
qed

text \<open>
  C23. Round trip: adding VAT to a net price with \<^verbatim>\<open>exclusive\<close> and backing it out of the resulting gross
  price with \<^verbatim>\<open>inclusive\<close> returns the same net, VAT and gross, for every four-place net below one
  billion and every stored VAT rate up to 100 percent.
\<close>

theorem inclusive_exclusive_roundtrip:
  assumes "on_grid 4 net" "0 \<le> net" "net < 10 ^ 9" and "on_grid 6 rate" "0 \<le> rate" "rate \<le> 1"
  shows "\<exists>vat. exclusive net rate = Inr (net, vat, net + vat)
             \<and> inclusive (net + vat) rate = Inr (net, vat, net + vat)"
proof -
  define x where "x = dec_mul net rate"
  define v where "v = Money x"
  have nr: "0 \<le> net * rate" "net * rate \<le> net" using mult_frac_le[of net rate] assms by blast+
  have xe: "\<bar>x - net * rate\<bar> \<le> 1 / 10 ^ 12"
    using ctx28_near[of "net * rate"] nr assms(3) by (simp add: x_def dec_mul_def)
  have ve: "\<bar>v - net * rate\<bar> \<le> 1 / 20000 + 1 / 10 ^ 12" using Money_near[of x] xe unfolding v_def by linarith
  have x0: "0 \<le> x" unfolding x_def using assms by (intro dec_mul_nonneg)
  have "x \<le> 2 * net" using ctx28_abs_le[of "net * rate"] nr unfolding x_def dec_mul_def by linarith
  with assms(3) have xb: "x < 10 ^ 10" by simp
  have mn: "Money net = net" using assms(1) by (rule Money_fixed)
  have "round_money net = Inr net" using round_money_eq[of net] assms by (simp add: mn)
  moreover have "round_money x = Inr v" unfolding v_def using x0 xb by (intro round_money_eq) simp
  moreover have "dec_add net v = net + v"
    using dec_add_Money[of net x] assms x0 xb by (simp add: mn v_def)
  ultimately have ex: "exclusive net rate = Inr (net, v, net + v)"
    by (simp add: exclusive_def quantize_eq_round_money x_def)
  have g: "on_grid 4 (net + v)" using assms(1) by (auto simp: v_def)
  have "v \<le> x + 1" using Money_near[of x] unfolding v_def by linarith
  then have gb: "0 \<le> net + v" "net + v < 10 ^ 11"
    using xb assms(2,3) Money_nonneg[OF x0] by (simp_all add: v_def)
  have "Money (ctx28 ((net + v) / (1 + rate))) = net"
  proof (cases "rate = 0")
    case True
    then have "v = 0" by (simp add: v_def x_def dec_mul_def)
    then show ?thesis using True assms by (simp add: ctx28_exact[of 4] mn)
  next
    case False
    then have "1 / 10 ^ 6 \<le> rate" using on_grid_bound[of 6 0 rate] assms by simp
    define y where "y = (net + v) / (1 + rate)"
    from roundtrip_gap[OF \<open>1 / 10 ^ 6 \<le> rate\<close> ve] have gap: "\<bar>y - net\<bar> \<le> 1 / 20000 - 1 / 10 ^ 11"
      by (simp add: y_def)
    also have "\<dots> \<le> 1" by simp
    finally have "\<bar>y\<bar> \<le> net + 1" using assms(2) by linarith
    with assms(3) have "\<bar>y\<bar> / (2 * 10 ^ 27) < 1 / 10 ^ 11" by simp
    with ctx28_near[of y] have "\<bar>ctx28 y - y\<bar> < 1 / 10 ^ 11" by (rule le_less_trans)
    with gap have "\<bar>ctx28 ((net + v) / (1 + rate)) - net\<bar> < 1 / 20000" unfolding y_def by linarith
    with assms(1) show ?thesis by (rule Money_unique)
  qed
  then have "inclusive (net + v) rate = Inr (net, v, net + v)"
    using inclusive_eq(1)[of rate "net + v"] assms gb by (simp add: Money_fixed[OF g])
  with ex show ?thesis by blast
qed

theorem inclusive_exclusive_roundtrip_witness:
  "\<exists>vat. exclusive (3333/10000) (75/1000) = Inr (3333/10000, vat, 3333/10000 + vat)
             \<and> inclusive (3333/10000 + vat) (75/1000) = Inr (3333/10000, vat, 3333/10000 + vat)"
  using inclusive_exclusive_roundtrip[of "3333/10000" "75/1000"] by (simp add: on_grid_def)

end
