(* ===== verification/Accounting.thy ===== *)
theory Accounting
  imports Inventory Calendar Posting_Rules Pricing
begin

text \<open>
  The general ledger: \<^verbatim>\<open>modules/accounting/models.py\<close>, \<^verbatim>\<open>repository.py\<close> and \<^verbatim>\<open>service.py\<close>, with the
  constraints and the deferred balance trigger of migration 0017.

  Operations that flush take the check of the caller's whole database as \<open>chk\<close>: a flush inside a
  sale checks the pending rows of the sale too. The commit check adds the deferred trigger
  \<^verbatim>\<open>trg_journal_balanced\<close>. The triggers that make posted rows immutable have no counterpart, since no
  operation changes a posted row except for stamping its reversal, which they allow.
\<close>

section \<open>Rows\<close>

datatype account_type = ASSET | LIABILITY | EQUITY | REVENUE | EXPENSE

datatype entry_status = DRAFT | POSTED

datatype period_status = OPEN | CLOSED | LOCKED

record account =
  acc_id :: uuid
  acc_code :: string
  acc_name :: string
  acc_account_type :: account_type
  acc_parent_id :: "uuid option"
  acc_is_postable :: bool
  acc_is_system :: bool
  acc_system_code :: "string option"
  acc_currency :: string
  acc_is_active :: bool

record journal =
  jr_id :: uuid
  jr_code :: string

record fiscal_period =
  fp_id :: uuid
  fp_name :: string
  fp_start_date :: date
  fp_end_date :: date
  fp_status :: period_status

record journal_entry =
  je_id :: uuid
  je_entry_number :: string
  je_journal_id :: uuid
  je_fiscal_period_id :: uuid
  je_entry_date :: date
  je_status :: entry_status
  je_description :: string
  je_source_type :: string
  je_source_id :: uuid
  je_event_type :: string
  je_currency :: string
  je_total_debit :: rat
  je_total_credit :: rat
  je_posted_at :: datetime
  je_posted_by_membership_id :: uuid
  je_reversal_of_entry_id :: "uuid option"
  je_reversed_by_entry_id :: "uuid option"
  je_metadata :: "(string \<times> meta) list"

record journal_entry_line =
  jl_id :: uuid
  jl_journal_entry_id :: uuid
  jl_account_id :: uuid
  jl_description :: "string option"
  jl_debit :: rat
  jl_credit :: rat

record accounting_db = inventory_db +
  base_currency :: string
  fiscal_year_start_month :: int
  accounts :: "account list"
  journals :: "journal list"
  fiscal_periods :: "fiscal_period list"
  journal_entries :: "journal_entry list"
  journal_entry_lines :: "journal_entry_line list"

record AccountCreate =
  acr_code :: string
  acr_name :: string
  acr_account_type :: account_type
  acr_parent_id :: "uuid option"
  acr_is_postable :: bool

record PeriodCreate =
  pc_name :: string
  pc_start_date :: date
  pc_end_date :: date

record ManualLine =
  ml_account_id :: uuid
  ml_description :: "string option"
  ml_debit :: rat
  ml_credit :: rat

record ManualEntryCreate =
  me_entry_date :: date
  me_description :: string
  me_lines :: "ManualLine list"

section \<open>Constraints\<close>

definition no_overlap :: "fiscal_period list \<Rightarrow> bool" where
  "no_overlap ps = sorted_wrt (\<lambda>p q. fp_end_date p < fp_start_date q \<or> fp_end_date q < fp_start_date p) ps"

definition lines_of :: "uuid \<Rightarrow> 'a accounting_db_scheme \<Rightarrow> journal_entry_line list" where
  "lines_of i s = filter (\<lambda>l. jl_journal_entry_id l = i) (journal_entry_lines s)"

definition accounting_constraints :: "'a accounting_db_scheme \<Rightarrow> (bool \<times> error) list" where
  "accounting_constraints s =
     [(unique_on acc_id (accounts s), IntegrityError),
      (unique_on acc_code (accounts s), IntegrityError),
      (unique_where acc_system_code (\<lambda>a. acc_system_code a \<noteq> None) (accounts s), IntegrityError),
      (unique_on jr_code (journals s), IntegrityError),
      (unique_on fp_id (fiscal_periods s), IntegrityError),
      (list_all (\<lambda>p. fp_start_date p \<le> fp_end_date p) (fiscal_periods s), IntegrityError),
      (no_overlap (fiscal_periods s), IntegrityError),
      (unique_on je_id (journal_entries s), IntegrityError),
      (unique_on je_entry_number (journal_entries s), IntegrityError),
      (unique_on (\<lambda>e. (je_source_type e, je_source_id e, je_event_type e)) (journal_entries s), IntegrityError),
      (list_all (\<lambda>e. 0 \<le> je_total_debit e \<and> 0 \<le> je_total_credit e) (journal_entries s), IntegrityError),
      (list_all (\<lambda>e. in_range 14 (je_total_debit e) \<and> in_range 14 (je_total_credit e)) (journal_entries s), overflow),
      (unique_on jl_id (journal_entry_lines s), IntegrityError),
      (list_all (\<lambda>l. (jl_debit l > 0 \<and> jl_credit l = 0) \<or> (jl_credit l > 0 \<and> jl_debit l = 0))
         (journal_entry_lines s), IntegrityError)]"

text \<open>\<^verbatim>\<open>nexora_check_journal_balanced\<close>, the deferred constraint trigger.\<close>

definition entry_balanced :: "'a accounting_db_scheme \<Rightarrow> journal_entry \<Rightarrow> bool" where
  "entry_balanced s e \<longleftrightarrow>
     je_status e \<noteq> POSTED \<or>
     (let d = sum_list (map jl_debit (lines_of (je_id e) s)); c = sum_list (map jl_credit (lines_of (je_id e) s))
      in d = c \<and> d = je_total_debit e \<and> c = je_total_credit e \<and> d \<noteq> 0)"

definition accounting_flush_chk :: "'a accounting_db_scheme \<Rightarrow> error option" where
  "accounting_flush_chk s = violated (base_constraints s @ inventory_constraints s @ accounting_constraints s)"

definition balance_trigger :: "'a accounting_db_scheme \<Rightarrow> (bool \<times> error) list" where
  "balance_trigger s = [(list_all (entry_balanced s) (journal_entries s), DatabaseError ''UNBALANCED_JOURNAL'')]"

definition accounting_chk :: "'a accounting_db_scheme \<Rightarrow> error option" where
  "accounting_chk s =
     violated (base_constraints s @ inventory_constraints s @ accounting_constraints s @ balance_trigger s)"

section \<open>Repository\<close>

definition repo_account :: "uuid \<Rightarrow> 'a accounting_db_scheme \<Rightarrow> account option" where
  "repo_account i s = find (\<lambda>a. acc_id a = i) (accounts s)"

definition system_account :: "'a accounting_db_scheme \<Rightarrow> string \<Rightarrow> account option" where
  "system_account s code = find (\<lambda>a. acc_system_code a = Some code) (accounts s)"

definition repo_journal :: "'a accounting_db_scheme \<Rightarrow> journal option" where
  "repo_journal s = find (\<lambda>j. jr_code j = ''GENERAL'') (journals s)"

definition period_for_date :: "date \<Rightarrow> 'a accounting_db_scheme \<Rightarrow> fiscal_period option" where
  "period_for_date d s = find (\<lambda>p. fp_start_date p \<le> d \<and> d \<le> fp_end_date p) (fiscal_periods s)"

definition repo_entry :: "uuid \<Rightarrow> 'a accounting_db_scheme \<Rightarrow> journal_entry option" where
  "repo_entry i s = find (\<lambda>e. je_id e = i) (journal_entries s)"

definition repo_lines :: "uuid \<Rightarrow> 'a accounting_db_scheme \<Rightarrow> journal_entry_line list" where
  "repo_lines i s = sort_key jl_id (lines_of i s)"

text \<open>The lines of posted entries dated in a window.\<close>

definition posted_between :: "date \<Rightarrow> date \<Rightarrow> 'a accounting_db_scheme \<Rightarrow> journal_entry_line \<Rightarrow> bool" where
  "posted_between start stop s l =
     list_ex (\<lambda>e. je_id e = jl_journal_entry_id l \<and> je_status e = POSTED \<and> start \<le> je_entry_date e \<and> je_entry_date e \<le> stop)
       (journal_entries s)"

definition account_lines :: "date \<Rightarrow> date \<Rightarrow> 'a accounting_db_scheme \<Rightarrow> uuid \<Rightarrow> journal_entry_line list" where
  "account_lines start stop s i =
     filter (\<lambda>l. jl_account_id l = i \<and> posted_between start stop s l) (journal_entry_lines s)"

definition trial_balance_row ::
  "date \<Rightarrow> date \<Rightarrow> 'a accounting_db_scheme \<Rightarrow> account \<Rightarrow> error + account \<times> rat \<times> rat"
where
  "trial_balance_row start stop s a =
     res_bnd (round_money (sum_list (map jl_debit (account_lines start stop s (acc_id a))))) (\<lambda>d.
     res_bnd (round_money (sum_list (map jl_credit (account_lines start stop s (acc_id a))))) (\<lambda>c.
     Inr (a, d, c)))"

text \<open>The inner joins drop the accounts without a line in the window. The order by code is that of the
  database's collation, given by \<open>code_key\<close>.\<close>

definition repo_trial_balance ::
  "(string \<Rightarrow> nat) \<Rightarrow> date \<Rightarrow> date \<Rightarrow> 'a accounting_db_scheme \<Rightarrow> error + (account \<times> rat \<times> rat) list"
where
  "repo_trial_balance code_key start stop s =
     res_map (trial_balance_row start stop s)
       (sort_key (\<lambda>a. code_key (acc_code a)) (filter (\<lambda>a. account_lines start stop s (acc_id a) \<noteq> []) (accounts s)))"

section \<open>Bootstrap\<close>

definition DEFAULT_ACCOUNTS ::
  "(string \<times> string \<times> account_type \<times> string option \<times> bool \<times> string option) list"
where
  "DEFAULT_ACCOUNTS =
     [(''1000'', ''Assets'', ASSET, None, False, None),
      (''1100'', ''Current Assets'', ASSET, Some ''1000'', False, None),
      (''1110'', ''Cash on Hand'', ASSET, Some ''1100'', True, Some ''CASH''),
      (''1120'', ''Bank Accounts'', ASSET, Some ''1100'', True, Some ''BANK''),
      (''1130'', ''Accounts Receivable'', ASSET, Some ''1100'', True, Some ''AR_CONTROL''),
      (''1140'', ''Inventory'', ASSET, Some ''1100'', True, Some ''INVENTORY''),
      (''1150'', ''Input VAT Receivable'', ASSET, Some ''1100'', True, Some ''VAT_INPUT''),
      (''1500'', ''Fixed Assets'', ASSET, Some ''1000'', False, None),
      (''2000'', ''Liabilities'', LIABILITY, None, False, None),
      (''2100'', ''Accounts Payable'', LIABILITY, Some ''2000'', True, Some ''AP_CONTROL''),
      (''2150'', ''Goods Received Not Invoiced'', LIABILITY, Some ''2000'', True, Some ''GRNI''),
      (''2200'', ''Output VAT Payable'', LIABILITY, Some ''2000'', True, Some ''VAT_OUTPUT''),
      (''2300'', ''Accrued Liabilities'', LIABILITY, Some ''2000'', True, None),
      (''3000'', ''Equity'', EQUITY, None, False, None),
      (''3100'', ''Owner's Capital'', EQUITY, Some ''3000'', True, None),
      (''3200'', ''Retained Earnings'', EQUITY, Some ''3000'', True, Some ''RETAINED_EARNINGS''),
      (''4000'', ''Revenue'', REVENUE, None, False, None),
      (''4100'', ''Sales Revenue'', REVENUE, Some ''4000'', True, Some ''SALES_REVENUE''),
      (''4200'', ''Sales Returns & Allowances'', REVENUE, Some ''4000'', True, Some ''SALES_RETURNS''),
      (''4300'', ''Sales Discounts'', REVENUE, Some ''4000'', True, Some ''SALES_DISCOUNTS''),
      (''5000'', ''Expenses'', EXPENSE, None, False, None),
      (''5100'', ''Cost of Goods Sold'', EXPENSE, Some ''5000'', True, Some ''COGS''),
      (''5200'', ''Operating Expenses'', EXPENSE, Some ''5000'', True, None),
      (''5900'', ''Rounding Difference'', EXPENSE, Some ''5000'', True, Some ''ROUNDING'')]"

text \<open>Backfilling one default account; \<open>parents\<close> maps the codes known so far to their accounts.\<close>

definition bootstrap_account ::
  "(string \<rightharpoonup> uuid) \<Rightarrow> (string \<rightharpoonup> uuid) \<Rightarrow> string \<times> string \<times> account_type \<times> string option \<times> bool \<times> string option \<Rightarrow>
     ('a accounting_db_scheme, string \<rightharpoonup> uuid) tx"
where
  "bootstrap_account existing parents d =
     (case d of (code, name, kind, parent_code, postable, system_code) \<Rightarrow>
      if existing code \<noteq> None then ret parents
      else
        bnd uuid7 (\<lambda>i.
        bnd (gets base_currency) (\<lambda>currency.
        bnd (modify (\<lambda>s. s\<lparr>accounts := accounts s @
              [\<lparr>acc_id = i, acc_code = code, acc_name = name, acc_account_type = kind,
                acc_parent_id = parents (case parent_code of None \<Rightarrow> '''' | Some c \<Rightarrow> c),
                acc_is_postable = postable, acc_is_system = (system_code \<noteq> None), acc_system_code = system_code,
                acc_currency = currency, acc_is_active = True\<rparr>]\<rparr>)) (\<lambda>_.
        ret (parents(code \<mapsto> i))))))"

definition existing_codes :: "'a accounting_db_scheme \<Rightarrow> string \<rightharpoonup> uuid" where
  "existing_codes s code = map_option acc_id (find (\<lambda>a. acc_code a = code) (accounts s))"

text \<open>The general journal and the first fiscal period.\<close>

definition bootstrap_journal :: "('a accounting_db_scheme, unit) tx" where
  "bootstrap_journal =
     bnd uuid7 (\<lambda>i.
     bnd (modify (\<lambda>s. s\<lparr>journals := journals s @ [\<lparr>jr_id = i, jr_code = ''GENERAL''\<rparr>]\<rparr>)) (\<lambda>_.
     bnd datetime_now (\<lambda>now.
     bnd (gets fiscal_year_start_month) (\<lambda>month.
     case fiscal_year month (utc_date now) of (year, end_year, start, stop) \<Rightarrow>
     bnd uuid7 (\<lambda>j.
     modify (\<lambda>s. s\<lparr>fiscal_periods := fiscal_periods s @
       [\<lparr>fp_id = j, fp_name = ''FY '' @ str_nat (nat year) @ ''/'' @ str_nat (nat end_year),
         fp_start_date = start, fp_end_date = stop, fp_status = OPEN\<rparr>]\<rparr>))))))"

definition bootstrap :: "('a accounting_db_scheme \<Rightarrow> error option) \<Rightarrow> ('a accounting_db_scheme, unit) tx" where
  "bootstrap chk =
     bnd (gets existing_codes) (\<lambda>existing.
     bnd (for_acc (bootstrap_account existing) existing DEFAULT_ACCOUNTS) (\<lambda>_.
     bnd (gets repo_journal) (\<lambda>journal.
     bnd (run_if (journal = None) bootstrap_journal) (\<lambda>_.
     flush chk))))"

section \<open>Posting\<close>

definition ACCOUNTING_POST_CLOSED :: string where
  "ACCOUNTING_POST_CLOSED = ''accounting.post_closed''"

text \<open>The fiscal period of a posting date, and the guards on it.\<close>

definition posting_period :: "TenantContext \<Rightarrow> date \<Rightarrow> bool \<Rightarrow> ('a accounting_db_scheme, fiscal_period) tx" where
  "posting_period context entry_date allow_closed =
     bnd (gets (period_for_date entry_date)) (\<lambda>row.
     bnd (some_or (ConflictError ''PERIOD_CLOSED'') row) (\<lambda>period.
     bnd (require (fp_status period \<noteq> LOCKED) (ConflictError ''PERIOD_CLOSED'')) (\<lambda>_.
     bnd (require (\<not> (fp_status period = CLOSED
                      \<and> \<not> (allow_closed \<and> ACCOUNTING_POST_CLOSED \<in> permissions context)))
           (ConflictError ''PERIOD_CLOSED'')) (\<lambda>_.
     ret period))))"

text \<open>
  \<^verbatim>\<open>account_map or system_accounts(required)\<close>: an absent or empty map means the system accounts. The
  result is restricted to the codes the lines use.
\<close>

definition posting_accounts ::
  "PostingLine list \<Rightarrow> (string \<times> account) list option \<Rightarrow> ('a accounting_db_scheme, string \<Rightarrow> account option) tx"
where
  "posting_accounts lines account_map =
     bnd (gets system_account) (\<lambda>system.
     let lookup = (case account_map of None \<Rightarrow> system | Some [] \<Rightarrow> system | Some m \<Rightarrow> map_of m);
         required = map pl_system_code lines
     in
     bnd (require (list_all (\<lambda>c. lookup c \<noteq> None) required)
           (RuntimeError ''Required system account is missing'')) (\<lambda>_.
     bnd (require (list_all (\<lambda>c. case lookup c of None \<Rightarrow> True | Some a \<Rightarrow> acc_is_postable a \<and> acc_is_active a) required)
           (DomainValidationError ''ACCOUNT_NOT_POSTABLE'')) (\<lambda>_.
     ret lookup)))"

definition add_entry_line ::
  "uuid \<Rightarrow> (string \<Rightarrow> account option) \<Rightarrow> PostingLine \<Rightarrow> ('a accounting_db_scheme, unit) tx"
where
  "add_entry_line entry_id lookup line =
     bnd uuid7 (\<lambda>i.
     bnd (some_or KeyError (lookup (pl_system_code line))) (\<lambda>a.
     modify (\<lambda>s. s\<lparr>journal_entry_lines := journal_entry_lines s @
       [\<lparr>jl_id = i, jl_journal_entry_id = entry_id, jl_account_id = acc_id a, jl_description = pl_description line,
         jl_debit = Money (pl_debit line), jl_credit = Money (pl_credit line)\<rparr>]\<rparr>)))"

definition update_entry :: "uuid \<Rightarrow> (journal_entry \<Rightarrow> journal_entry) \<Rightarrow> ('a accounting_db_scheme, unit) tx" where
  "update_entry i f = modify (\<lambda>s. s\<lparr>journal_entries := upd_where (\<lambda>e. je_id e = i) f (journal_entries s)\<rparr>)"

text \<open>The entry is flushed as a draft, then its lines, then it gets its number and becomes posted.\<close>

definition write_entry ::
  "('a accounting_db_scheme \<Rightarrow> error option) \<Rightarrow> journal_entry \<Rightarrow> (string \<Rightarrow> account option) \<Rightarrow> PostingLine list \<Rightarrow>
     ('a accounting_db_scheme, journal_entry) tx"
where
  "write_entry chk entry lookup lines =
     bnd (modify (\<lambda>s. s\<lparr>journal_entries := journal_entries s @
           [entry\<lparr>je_total_debit := Money (je_total_debit entry), je_total_credit := Money (je_total_credit entry)\<rparr>]\<rparr>)) (\<lambda>_.
     bnd (flush chk) (\<lambda>_.
     bnd (for_each (add_entry_line (je_id entry) lookup) lines) (\<lambda>_.
     bnd (flush chk) (\<lambda>_.
     bnd (allocate ''journal'' (str_nat (nat (year_of (je_entry_date entry))))) (\<lambda>number.
     bnd (update_entry (je_id entry) (\<lambda>e. e\<lparr>je_entry_number := number, je_status := POSTED\<rparr>)) (\<lambda>_.
     ret (entry\<lparr>je_entry_number := number, je_status := POSTED\<rparr>)))))))"

definition record_entry ::
  "('a accounting_db_scheme \<Rightarrow> error option) \<Rightarrow> TenantContext \<Rightarrow> date \<Rightarrow> string \<Rightarrow> string \<Rightarrow> uuid \<Rightarrow> string \<Rightarrow>
     PostingLine list \<Rightarrow> (string \<times> meta) list \<Rightarrow> fiscal_period \<Rightarrow> (string \<Rightarrow> account option) \<Rightarrow>
     ('a accounting_db_scheme, journal_entry) tx"
where
  "record_entry chk context entry_date description source_type source_id event_type lines metadata period lookup =
     bnd (gets repo_journal) (\<lambda>row.
     bnd (some_or (RuntimeError ''General journal is missing'') row) (\<lambda>journal.
     bnd (gets base_currency) (\<lambda>currency.
     bnd uuid7 (\<lambda>i.
     bnd uuid7 (\<lambda>pending.
     bnd datetime_now (\<lambda>now.
     bnd (write_entry chk
           \<lparr>je_id = i, je_entry_number = ''PENDING-'' @ str_nat pending, je_journal_id = jr_id journal,
            je_fiscal_period_id = fp_id period, je_entry_date = entry_date, je_status = DRAFT,
            je_description = description, je_source_type = source_type, je_source_id = source_id,
            je_event_type = event_type, je_currency = currency, je_total_debit = total_debit lines,
            je_total_credit = total_credit lines, je_posted_at = now,
            je_posted_by_membership_id = membership_id context, je_reversal_of_entry_id = None,
            je_reversed_by_entry_id = None, je_metadata = metadata\<rparr> lookup lines) (\<lambda>entry.
     bnd (audit_record context ''accounting.entry_posted'' ''journal_entry'' (Some i)
           [(''event_type'', MStr event_type)]) (\<lambda>_.
     ret entry))))))))"

definition post ::
  "('a accounting_db_scheme \<Rightarrow> error option) \<Rightarrow> TenantContext \<Rightarrow> date \<Rightarrow> string \<Rightarrow> string \<Rightarrow> uuid \<Rightarrow> string \<Rightarrow>
     PostingLine list \<Rightarrow> bool \<Rightarrow> (string \<times> meta) list \<Rightarrow> (string \<times> account) list option \<Rightarrow>
     ('a accounting_db_scheme, journal_entry) tx"
where
  "post chk context entry_date description source_type source_id event_type lines allow_closed metadata account_map =
     bnd (bootstrap chk) (\<lambda>_.
     bnd (require (\<not> (lines = [] \<or> total_debit lines \<noteq> total_credit lines \<or> total_debit lines = 0))
           (DomainValidationError ''UNBALANCED_JOURNAL'')) (\<lambda>_.
     bnd (posting_period context entry_date allow_closed) (\<lambda>period.
     bnd (posting_accounts lines account_map) (\<lambda>lookup.
     record_entry chk context entry_date description source_type source_id event_type lines metadata period lookup))))"

section \<open>Service operations\<close>

definition repo_accounts :: "(string \<Rightarrow> nat) \<Rightarrow> 'a accounting_db_scheme \<Rightarrow> account list" where
  "repo_accounts code_key s = sort_key (\<lambda>a. code_key (acc_code a)) (accounts s)"

definition list_accounts :: "(string \<Rightarrow> nat) \<Rightarrow> ('a accounting_db_scheme, account list) tx" where
  "list_accounts code_key =
     service_transaction accounting_chk (bnd (bootstrap accounting_flush_chk) (\<lambda>_. gets (repo_accounts code_key)))"

definition set_not_postable :: "uuid \<Rightarrow> ('a accounting_db_scheme, unit) tx" where
  "set_not_postable i =
     modify (\<lambda>s. s\<lparr>accounts := upd_where (\<lambda>a. acc_id a = i) (\<lambda>a. a\<lparr>acc_is_postable := False\<rparr>) (accounts s)\<rparr>)"

definition check_parent :: "AccountCreate \<Rightarrow> ('a accounting_db_scheme, unit) tx" where
  "check_parent payload =
     (case acr_parent_id payload of
        None \<Rightarrow> ret ()
      | Some parent_id \<Rightarrow>
          bnd (gets (repo_account parent_id)) (\<lambda>row.
          bnd (some_or NotFoundError row) (\<lambda>parent.
          bnd (require (acc_account_type parent = acr_account_type payload)
                (DomainValidationError ''ACCOUNT_TYPE_MISMATCH'')) (\<lambda>_.
          set_not_postable (acc_id parent)))))"

definition create_account :: "TenantContext \<Rightarrow> AccountCreate \<Rightarrow> ('a accounting_db_scheme, account) tx" where
  "create_account context payload =
     on_integrity_error (ConflictError ''DUPLICATE_RESOURCE'')
       (service_transaction accounting_chk
         (bnd (bootstrap accounting_flush_chk) (\<lambda>_.
          bnd (gets base_currency) (\<lambda>currency.
          bnd (check_parent payload) (\<lambda>_.
          bnd uuid7 (\<lambda>i.
          let account =
            \<lparr>acc_id = i, acc_code = acr_code payload, acc_name = acr_name payload,
             acc_account_type = acr_account_type payload, acc_parent_id = acr_parent_id payload,
             acc_is_postable = acr_is_postable payload, acc_is_system = False, acc_system_code = None,
             acc_currency = currency, acc_is_active = True\<rparr>
          in
          bnd (modify (\<lambda>s. s\<lparr>accounts := accounts s @ [account]\<rparr>)) (\<lambda>_.
          bnd (audit_record context ''account.created'' ''account'' (Some i) []) (\<lambda>_.
          ret account))))))))"

definition create_period :: "TenantContext \<Rightarrow> PeriodCreate \<Rightarrow> ('a accounting_db_scheme, fiscal_period) tx" where
  "create_period context payload =
     bnd (require (\<not> pc_end_date payload < pc_start_date payload) (DomainValidationError ''INVALID_DATE_RANGE'')) (\<lambda>_.
     on_integrity_error (ConflictError ''PERIOD_OVERLAP'')
       (service_transaction accounting_chk
         (bnd (bootstrap accounting_flush_chk) (\<lambda>_.
          bnd uuid7 (\<lambda>i.
          let period = \<lparr>fp_id = i, fp_name = pc_name payload, fp_start_date = pc_start_date payload,
                        fp_end_date = pc_end_date payload, fp_status = OPEN\<rparr>
          in
          bnd (modify (\<lambda>s. s\<lparr>fiscal_periods := fiscal_periods s @ [period]\<rparr>)) (\<lambda>_.
          bnd (audit_record context ''accounting.period_created'' ''fiscal_period'' (Some i) []) (\<lambda>_.
          ret period)))))))"

definition repo_periods :: "'a accounting_db_scheme \<Rightarrow> fiscal_period list" where
  "repo_periods s = rev (sort_key fp_start_date (rev (fiscal_periods s)))"

definition periods :: "('a accounting_db_scheme, fiscal_period list) tx" where
  "periods =
     service_transaction accounting_chk (bnd (bootstrap accounting_flush_chk) (\<lambda>_. gets repo_periods))"

definition legal_status :: "period_status \<Rightarrow> period_status option" where
  "legal_status st = (case st of OPEN \<Rightarrow> Some CLOSED | CLOSED \<Rightarrow> Some LOCKED | LOCKED \<Rightarrow> None)"

definition period_value :: "period_status \<Rightarrow> string" where
  "period_value st = (case st of OPEN \<Rightarrow> ''OPEN'' | CLOSED \<Rightarrow> ''CLOSED'' | LOCKED \<Rightarrow> ''LOCKED'')"

definition change_period_status ::
  "TenantContext \<Rightarrow> uuid \<Rightarrow> period_status \<Rightarrow> ('a accounting_db_scheme, fiscal_period) tx"
where
  "change_period_status context period_id status =
     service_transaction accounting_chk
       (bnd (gets (\<lambda>s. find (\<lambda>p. fp_id p = period_id) (fiscal_periods s))) (\<lambda>row.
        bnd (some_or NotFoundError row) (\<lambda>period.
        bnd (require (legal_status (fp_status period) = Some status) (ConflictError ''ILLEGAL_STATUS_TRANSITION'')) (\<lambda>_.
        bnd (modify (\<lambda>s. s\<lparr>fiscal_periods :=
              upd_where (\<lambda>p. fp_id p = period_id) (\<lambda>p. p\<lparr>fp_status := status\<rparr>) (fiscal_periods s)\<rparr>)) (\<lambda>_.
        bnd (audit_record context ''accounting.period_status_changed'' ''fiscal_period'' (Some period_id)
              [(''status'', MStr (period_value status))]) (\<lambda>_.
        ret (period\<lparr>fp_status := status\<rparr>)))))))"

text \<open>
  A manual entry names accounts by id; the symbolic codes \<^verbatim>\<open>MANUAL:<id>\<close> carry them through \<open>post\<close>.
\<close>

definition manual_code :: "string \<Rightarrow> uuid \<Rightarrow> string" where
  "manual_code tag i = tag @ '':'' @ str_nat i"

definition account_codes :: "string \<Rightarrow> account list \<Rightarrow> (string \<times> account) list" where
  "account_codes tag as = map (\<lambda>a. (manual_code tag (acc_id a), a)) as"

definition post_manual :: "TenantContext \<Rightarrow> ManualEntryCreate \<Rightarrow> ('a accounting_db_scheme, journal_entry) tx" where
  "post_manual context payload =
     service_transaction accounting_chk
       (bnd (bootstrap accounting_flush_chk) (\<lambda>_.
        bnd (gets accounts) (\<lambda>all_accounts.
        let account_ids = map ml_account_id (me_lines payload);
            chosen = filter (\<lambda>a. acc_id a \<in> set account_ids) all_accounts
        in
        bnd (require (list_all (\<lambda>i. list_ex (\<lambda>a. acc_id a = i) chosen) account_ids) NotFoundError) (\<lambda>_.
        bnd (require (list_all (\<lambda>a. acc_is_postable a \<and> acc_is_active a) chosen)
              (DomainValidationError ''ACCOUNT_NOT_POSTABLE'')) (\<lambda>_.
        let debit = sum_list (map ml_debit (me_lines payload)); credit = sum_list (map ml_credit (me_lines payload))
        in
        bnd (require (\<not> (debit \<noteq> credit \<or> debit = 0)) (DomainValidationError ''UNBALANCED_JOURNAL'')) (\<lambda>_.
        bnd uuid7 (\<lambda>source_id.
        post accounting_flush_chk context (me_entry_date payload) (me_description payload) ''manual'' source_id ''manual''
          (map (\<lambda>l. \<lparr>pl_system_code = manual_code ''MANUAL'' (ml_account_id l), pl_debit = ml_debit l,
                     pl_credit = ml_credit l, pl_description = ml_description l\<rparr>) (me_lines payload))
          True [] (Some (account_codes ''MANUAL'' chosen)))))))))"

definition get_entry :: "uuid \<Rightarrow> ('a accounting_db_scheme, journal_entry \<times> journal_entry_line list) tx" where
  "get_entry entry_id =
     service_transaction accounting_chk
       (bnd (gets (repo_entry entry_id)) (\<lambda>row.
        bnd (some_or NotFoundError row) (\<lambda>entry.
        bnd (gets (repo_lines entry_id)) (\<lambda>lines.
        ret (entry, lines)))))"

definition reversal_line :: "journal_entry \<Rightarrow> journal_entry_line \<Rightarrow> PostingLine" where
  "reversal_line original l =
     \<lparr>pl_system_code = manual_code ''REV'' (jl_account_id l), pl_debit = jl_credit l, pl_credit = jl_debit l,
      pl_description = Some (''Reversal: '' @ (case jl_description l of
        None \<Rightarrow> je_description original
      | Some d \<Rightarrow> if d = '''' then je_description original else d))\<rparr>"

text \<open>\<^verbatim>\<open>date.isoformat()\<close>\<close>

definition pad2 :: "int \<Rightarrow> string" where
  "pad2 n = (let d = str_nat (nat n) in replicate (2 - length d) (CHR ''0'') @ d)"

definition isoformat :: "date \<Rightarrow> string" where
  "isoformat d =
     (case d of (y, m, dd) \<Rightarrow>
       (let ys = str_nat (nat y) in replicate (4 - length ys) (CHR ''0'') @ ys) @ ''-'' @ pad2 m @ ''-'' @ pad2 dd)"

definition reverse_entry :: "TenantContext \<Rightarrow> uuid \<Rightarrow> date \<Rightarrow> ('a accounting_db_scheme, journal_entry) tx" where
  "reverse_entry context entry_id reversal_date =
     service_transaction accounting_chk
       (bnd (gets (repo_entry entry_id)) (\<lambda>row.
        bnd (some_or NotFoundError row) (\<lambda>original.
        bnd (require (je_reversed_by_entry_id original = None) (ConflictError ''ENTRY_ALREADY_REVERSED'')) (\<lambda>_.
        bnd (require (\<not> reversal_date < je_entry_date original) (DomainValidationError ''INVALID_REVERSAL_DATE'')) (\<lambda>_.
        bnd (gets (repo_lines (je_id original))) (\<lambda>old_lines.
        bnd (gets accounts) (\<lambda>all_accounts.
        bnd (post accounting_flush_chk context reversal_date (''Reversal of '' @ je_entry_number original)
              ''journal_entry'' (je_id original) ''reversal'' (map (reversal_line original) old_lines) True
              [(''original_date'', MStr (isoformat (je_entry_date original)))]
              (Some (account_codes ''REV'' all_accounts))) (\<lambda>reversal.
        bnd (update_entry (je_id reversal) (\<lambda>e. e\<lparr>je_reversal_of_entry_id := Some (je_id original)\<rparr>)) (\<lambda>_.
        bnd (update_entry (je_id original) (\<lambda>e. e\<lparr>je_reversed_by_entry_id := Some (je_id reversal)\<rparr>)) (\<lambda>_.
        bnd (audit_record context ''accounting.entry_reversed'' ''journal_entry'' (Some (je_id original))
              [(''reversal_id'', MUuid (je_id reversal))]) (\<lambda>_.
        ret (reversal\<lparr>je_reversal_of_entry_id := Some (je_id original)\<rparr>))))))))))))"

section \<open>Reports\<close>

definition trial_balance ::
  "(string \<Rightarrow> nat) \<Rightarrow> date \<Rightarrow> date \<Rightarrow> ('a accounting_db_scheme, (account \<times> rat \<times> rat) list) tx"
where
  "trial_balance code_key start stop =
     service_transaction accounting_chk
       (bnd (bootstrap accounting_flush_chk) (\<lambda>_.
        bnd (gets (repo_trial_balance code_key start stop)) lift_res))"

definition of_type :: "account_type \<Rightarrow> (account \<times> rat \<times> rat) list \<Rightarrow> (account \<times> rat \<times> rat) list" where
  "of_type ty rows = filter (\<lambda>(a, d, c). acc_account_type a = ty) rows"

definition debit_side :: "account \<times> rat \<times> rat \<Rightarrow> account \<times> rat" where
  "debit_side r = (case r of (a, d, c) \<Rightarrow> (a, d - c))"

definition credit_side :: "account \<times> rat \<times> rat \<Rightarrow> account \<times> rat" where
  "credit_side r = (case r of (a, d, c) \<Rightarrow> (a, c - d))"

definition profit_and_loss ::
  "(string \<Rightarrow> nat) \<Rightarrow> date \<Rightarrow> date \<Rightarrow> ('a accounting_db_scheme, (account \<times> rat) list \<times> (account \<times> rat) list) tx"
where
  "profit_and_loss code_key start stop =
     bnd (trial_balance code_key start stop) (\<lambda>rows.
     ret (map credit_side (of_type REVENUE rows), map debit_side (of_type EXPENSE rows)))"

definition balance_sheet ::
  "(string \<Rightarrow> nat) \<Rightarrow> date \<Rightarrow>
     ('a accounting_db_scheme, (account \<times> rat) list \<times> (account \<times> rat) list \<times> (account \<times> rat) list \<times> rat) tx"
where
  "balance_sheet code_key as_of =
     bnd (service_transaction accounting_chk
       (bnd (bootstrap accounting_flush_chk) (\<lambda>_.
        bnd (gets (period_for_date as_of)) (\<lambda>period.
        bnd (gets (repo_trial_balance code_key (1970, 1, 1) as_of)) (\<lambda>c.
        bnd (lift_res c) (\<lambda>cumulative.
        bnd (case period of
               None \<Rightarrow> ret []
             | Some p \<Rightarrow> bnd (gets (repo_trial_balance code_key (fp_start_date p) as_of)) lift_res) (\<lambda>earnings_rows.
        ret (cumulative, earnings_rows)))))))) (\<lambda>(cumulative, earnings_rows).
     ret (map debit_side (of_type ASSET cumulative), map credit_side (of_type LIABILITY cumulative),
          map credit_side (of_type EQUITY cumulative),
          sum_list (map (snd \<circ> credit_side) (of_type REVENUE earnings_rows))
            - sum_list (map (snd \<circ> debit_side) (of_type EXPENSE earnings_rows))))"

text \<open>The lines of posted entries on an account, with their entry.\<close>

definition account_entries :: "uuid \<Rightarrow> 'a accounting_db_scheme \<Rightarrow> (journal_entry_line \<times> journal_entry) list" where
  "account_entries account_id s =
     List.map_filter (\<lambda>l. if jl_account_id l = account_id
         then map_option (\<lambda>e. (l, e)) (find (\<lambda>e. je_id e = jl_journal_entry_id l \<and> je_status e = POSTED) (journal_entries s))
         else None)
       (journal_entry_lines s)"

definition general_ledger_opening_balance :: "uuid \<Rightarrow> date \<Rightarrow> 'a accounting_db_scheme \<Rightarrow> error + rat" where
  "general_ledger_opening_balance account_id before s =
     round_money (sum_list (map (\<lambda>(l, e). jl_debit l - jl_credit l)
       (filter (\<lambda>(l, e). je_entry_date e < before) (account_entries account_id s))))"

record ledger_line =
  gl_id :: uuid
  gl_entry_number :: string
  gl_entry_date :: date
  gl_description :: string
  gl_debit :: rat
  gl_credit :: rat
  gl_running :: rat

text \<open>The window function: the sum over the rows up to the current one, added to the opening balance.\<close>

fun running_lines :: "rat \<Rightarrow> (journal_entry_line \<times> journal_entry) list \<Rightarrow> error + ledger_line list" where
  "running_lines balance [] = Inr []"
| "running_lines balance ((l, e) # rows) =
     (let running = balance + (jl_debit l - jl_credit l) in
      res_bnd (round_money (jl_debit l)) (\<lambda>debit.
      res_bnd (round_money (jl_credit l)) (\<lambda>credit.
      res_bnd (round_money running) (\<lambda>shown.
      res_bnd (running_lines running rows) (\<lambda>rest.
      Inr (\<lparr>gl_id = jl_id l, gl_entry_number = je_entry_number e, gl_entry_date = je_entry_date e,
            gl_description = (case jl_description l of None \<Rightarrow> je_description e | Some d \<Rightarrow> d),
            gl_debit = debit, gl_credit = credit, gl_running = shown\<rparr> # rest))))))"

definition general_ledger_lines ::
  "uuid \<Rightarrow> date \<Rightarrow> date \<Rightarrow> rat \<Rightarrow> 'a accounting_db_scheme \<Rightarrow> error + ledger_line list"
where
  "general_ledger_lines account_id start stop opening s =
     running_lines opening (sort_key (\<lambda>(l, e). (je_entry_date e, jl_id l))
       (filter (\<lambda>(l, e). start \<le> je_entry_date e \<and> je_entry_date e \<le> stop) (account_entries account_id s)))"

definition natural_sign :: "account_type \<Rightarrow> rat" where
  "natural_sign ty = (if ty \<in> {LIABILITY, EQUITY, REVENUE} then - 1 else 1)"

definition general_ledger ::
  "uuid \<Rightarrow> date \<Rightarrow> date \<Rightarrow> ('a accounting_db_scheme, account \<times> rat \<times> ledger_line list) tx"
where
  "general_ledger account_id start stop =
     service_transaction accounting_chk
       (bnd (bootstrap accounting_flush_chk) (\<lambda>_.
        bnd (gets (repo_account account_id)) (\<lambda>row.
        bnd (some_or NotFoundError row) (\<lambda>account.
        bnd (gets (general_ledger_opening_balance account_id start)) (\<lambda>r.
        bnd (lift_res r) (\<lambda>opening.
        bnd (gets (general_ledger_lines account_id start stop opening)) (\<lambda>r.
        bnd (lift_res r) (\<lambda>lines.
        let sign = natural_sign (acc_account_type account)
        in ret (account, sign * opening, map (\<lambda>l. l\<lparr>gl_running := sign * gl_running l\<rparr>) lines)))))))))"

end
