(* ===== verification/Vat.thy ===== *)
theory Vat
  imports Accounting
begin

text \<open>
  The VAT register: \<^verbatim>\<open>modules/vat/models.py\<close> and \<^verbatim>\<open>service.py\<close> with the entry points of \<^verbatim>\<open>router.py\<close>
  that guard a date range. Rows of the register are appended by the other modules inside their own
  transactions; returns total and claim them.
\<close>

section \<open>Rows\<close>

datatype vat_direction = OUTPUT | INPUT

datatype vat_return_status = RETURN_DRAFT | FILED

record vat_rate =
  vr_id :: uuid
  vr_code :: string
  vr_name :: string
  vr_rate :: rat
  vr_valid_from :: date
  vr_valid_to :: "date option"

record vat_transaction =
  vt_id :: uuid
  vt_direction :: vat_direction
  vt_occurred_on :: date
  vt_source_type :: string
  vt_source_id :: uuid
  vt_rate_code :: "string option"
  vt_rate :: rat
  vt_taxable_amount :: rat
  vt_vat_amount :: rat
  vt_is_reversal :: bool
  vt_vat_return_id :: "uuid option"

record vat_return =
  vn_id :: uuid
  vn_period_start :: date
  vn_period_end :: date
  vn_status :: vat_return_status
  vn_output_vat :: rat
  vn_input_vat :: rat
  vn_net_vat :: rat
  vn_taxable_sales :: rat
  vn_taxable_purchases :: rat
  vn_filed_at :: "datetime option"
  vn_filed_by_membership_id :: "uuid option"

record vat_db = accounting_db +
  vat_rates :: "vat_rate list"
  vat_transactions :: "vat_transaction list"
  vat_returns :: "vat_return list"

record RateCreate =
  rt_code :: string
  rt_name :: string
  rt_rate :: rat
  rt_valid_from :: date
  rt_valid_to :: "date option"

record PriceQuery =
  pq_amount :: rat
  pq_rate_code :: string
  pq_on_date :: date
  pq_inclusive :: bool

record ReturnPrepare =
  rp_period_start :: date
  rp_period_end :: date

definition vat_constraints :: "'a vat_db_scheme \<Rightarrow> (bool \<times> error) list" where
  "vat_constraints s =
     [(unique_on vr_id (vat_rates s), IntegrityError),
      (unique_on (\<lambda>r. (vr_code r, vr_valid_from r)) (vat_rates s), IntegrityError),
      (list_all (\<lambda>r. 0 \<le> vr_rate r \<and> vr_rate r \<le> 1) (vat_rates s), IntegrityError),
      (list_all (\<lambda>r. case vr_valid_to r of None \<Rightarrow> True | Some d \<Rightarrow> d \<ge> vr_valid_from r) (vat_rates s), IntegrityError),
      (unique_on vt_id (vat_transactions s), IntegrityError),
      (list_all (\<lambda>t. 0 \<le> vt_taxable_amount t) (vat_transactions s), IntegrityError),
      (list_all (\<lambda>t. 0 \<le> vt_rate t \<and> vt_rate t \<le> 1) (vat_transactions s), IntegrityError),
      (list_all (\<lambda>t. (vt_vat_amount t \<ge> 0 \<and> \<not> vt_is_reversal t) \<or> (vt_vat_amount t \<le> 0 \<and> vt_is_reversal t))
         (vat_transactions s), IntegrityError),
      (list_all (\<lambda>t. in_range 14 (vt_taxable_amount t) \<and> in_range 14 (vt_vat_amount t)) (vat_transactions s), overflow),
      (unique_on vn_id (vat_returns s), IntegrityError),
      (unique_on (\<lambda>r. (vn_period_start r, vn_period_end r)) (vat_returns s), IntegrityError),
      (list_all (\<lambda>r. vn_period_end r \<ge> vn_period_start r) (vat_returns s), IntegrityError),
      (list_all (\<lambda>r. vn_output_vat r \<ge> 0 \<and> vn_input_vat r \<ge> 0) (vat_returns s), IntegrityError),
      (list_all (\<lambda>r. vn_status r \<noteq> FILED \<or> vn_filed_at r \<noteq> None) (vat_returns s), IntegrityError),
      (list_all (\<lambda>r. in_range 14 (vn_output_vat r) \<and> in_range 14 (vn_input_vat r) \<and> in_range 14 (vn_net_vat r)
           \<and> in_range 14 (vn_taxable_sales r) \<and> in_range 14 (vn_taxable_purchases r)) (vat_returns s), overflow)]"

definition vat_chk :: "'a vat_db_scheme \<Rightarrow> error option" where
  "vat_chk s = violated (base_constraints s @ vat_constraints s)"

section \<open>Grouping a document's lines by rate\<close>

text \<open>
  The dictionary of buckets keeps the order in which its keys were first inserted: a list of
  (rate, net, tax).
\<close>

fun add_to_bucket :: "rat \<Rightarrow> rat \<Rightarrow> rat \<Rightarrow> (rat \<times> rat \<times> rat) list \<Rightarrow> (rat \<times> rat \<times> rat) list" where
  "add_to_bucket rate net tax [] = [(rate, dec_add 0 net, dec_add 0 tax)]"
| "add_to_bucket rate net tax ((r, n, t) # grouped) =
     (if r = rate then (r, dec_add n net, dec_add t tax) # grouped
      else (r, n, t) # add_to_bucket rate net tax grouped)"

definition group_taxable_lines :: "(rat \<times> rat \<times> rat) list \<Rightarrow> (rat \<times> rat \<times> rat) list" where
  "group_taxable_lines lines =
     filter (\<lambda>(rate, net, tax). net \<noteq> 0 \<or> tax \<noteq> 0)
       (fold (\<lambda>(rate, net, tax). add_to_bucket rate net tax) lines [])"

section \<open>Rates\<close>

definition rate_valid_on :: "string \<Rightarrow> date \<Rightarrow> vat_rate \<Rightarrow> bool" where
  "rate_valid_on code on_date r \<longleftrightarrow>
     vr_code r = code \<and> vr_valid_from r \<le> on_date
     \<and> (case vr_valid_to r of None \<Rightarrow> True | Some d \<Rightarrow> d \<ge> on_date)"

definition rate_on :: "string \<Rightarrow> date \<Rightarrow> ('a vat_db_scheme, vat_rate) tx" where
  "rate_on code on_date =
     bnd (gets (\<lambda>s. rev (sort_key vr_valid_from (filter (rate_valid_on code on_date) (vat_rates s))))) (\<lambda>rows.
     case rows of [] \<Rightarrow> raise NotFoundError | rate # _ \<Rightarrow> ret rate)"

text \<open>
  \<open>code_in_message\<close>: whether the text of the driver's exception contains the word \<open>code\<close>, as that of
  the unique constraint does; any other integrity error passes through.
\<close>

definition create_rate :: "bool \<Rightarrow> TenantContext \<Rightarrow> RateCreate \<Rightarrow> ('a vat_db_scheme, vat_rate) tx" where
  "create_rate code_in_message context payload =
     (let body =
        service_transaction vat_chk
          (bnd uuid7 (\<lambda>i.
           let rate = \<lparr>vr_id = i, vr_code = rt_code payload, vr_name = rt_name payload, vr_rate = rt_rate payload,
                       vr_valid_from = rt_valid_from payload, vr_valid_to = rt_valid_to payload\<rparr>
           in
           bnd (modify (\<lambda>s. s\<lparr>vat_rates := vat_rates s @ [rate\<lparr>vr_rate := Rate (rt_rate payload)\<rparr>]\<rparr>)) (\<lambda>_.
           bnd (audit_record context ''vat.rate_created'' ''vat_rate'' (Some i) []) (\<lambda>_.
           ret rate))))
      in if code_in_message then on_integrity_error (ConflictError ''DUPLICATE_RESOURCE'') body else body)"

definition rates :: "(string \<Rightarrow> nat) \<Rightarrow> ('a vat_db_scheme, vat_rate list) tx" where
  "rates code_key =
     service_transaction vat_chk
       (gets (\<lambda>s. sort_key (\<lambda>r. code_key (vr_code r)) (rev (sort_key vr_valid_from (rev (vat_rates s))))))"

definition breakdown :: "PriceQuery \<Rightarrow> ('a vat_db_scheme, (rat \<times> rat \<times> rat) \<times> rat \<times> string) tx" where
  "breakdown payload =
     service_transaction vat_chk
       (bnd (rate_on (pq_rate_code payload) (pq_on_date payload)) (\<lambda>rate.
        bnd (lift_res (if pq_inclusive payload then inclusive (pq_amount payload) (vr_rate rate)
                       else exclusive (pq_amount payload) (vr_rate rate))) (\<lambda>parts.
        ret (parts, vr_rate rate, vr_code rate))))"

section \<open>The register\<close>

definition dec_abs :: "rat \<Rightarrow> rat" where
  "dec_abs x = ctx28 \<bar>x\<bar>"

definition vat_record ::
  "vat_direction \<Rightarrow> date \<Rightarrow> string \<Rightarrow> uuid \<Rightarrow> rat \<Rightarrow> rat \<Rightarrow> rat \<Rightarrow> string option \<Rightarrow> bool \<Rightarrow>
     ('a vat_db_scheme, vat_transaction) tx"
where
  "vat_record direction occurred_on source_type source_id taxable_amount vat_amount rate rate_code is_reversal =
     bnd uuid7 (\<lambda>i.
     bnd (lift_res (quantize (dec_abs taxable_amount))) (\<lambda>taxable.
     bnd (lift_res (quantize (if is_reversal then - dec_abs vat_amount else dec_abs vat_amount))) (\<lambda>vat.
     let transaction =
       \<lparr>vt_id = i, vt_direction = direction, vt_occurred_on = occurred_on, vt_source_type = source_type,
        vt_source_id = source_id, vt_rate_code = rate_code, vt_rate = rate, vt_taxable_amount = taxable,
        vt_vat_amount = vat, vt_is_reversal = is_reversal, vt_vat_return_id = None\<rparr>
     in
     bnd (modify (\<lambda>s. s\<lparr>vat_transactions := vat_transactions s @ [transaction\<lparr>vt_rate := Rate rate\<rparr>]\<rparr>)) (\<lambda>_.
     ret transaction))))"

definition direction_of :: "string \<Rightarrow> vat_direction option" where
  "direction_of d = (if d = ''OUTPUT'' then Some OUTPUT else if d = ''INPUT'' then Some INPUT else None)"

text \<open>An empty direction means no filter; one that is not a member of the enum is refused when bound.\<close>

definition transactions :: "date \<Rightarrow> date \<Rightarrow> string option \<Rightarrow> ('a vat_db_scheme, vat_transaction list) tx" where
  "transactions start stop direction =
     service_transaction vat_chk
       (bnd (require (truthy direction \<longrightarrow> direction_of (the direction) \<noteq> None) (DatabaseError ''StatementError'')) (\<lambda>_.
        gets (\<lambda>s. take 1000 (sort_key (\<lambda>t. (vt_occurred_on t, vt_id t))
          (filter (\<lambda>t. vt_occurred_on t \<ge> start \<and> vt_occurred_on t \<le> stop
                      \<and> (truthy direction \<longrightarrow> Some (vt_direction t) = direction_of (the direction)))
             (vat_transactions s))))))"

section \<open>Returns\<close>

definition vat_sum :: "(vat_transaction \<Rightarrow> rat) \<Rightarrow> vat_direction \<Rightarrow> vat_transaction list \<Rightarrow> rat" where
  "vat_sum f direction ts = sum_list (map f (filter (\<lambda>t. vt_direction t = direction) ts))"

text \<open>The totals of a set of register rows and their assignment to a return.\<close>

definition set_totals :: "vat_transaction list \<Rightarrow> vat_return \<Rightarrow> error + vat_return" where
  "set_totals ts r =
     (let output_vat = vat_sum vt_vat_amount OUTPUT ts; input_vat = vat_sum vt_vat_amount INPUT ts in
      res_bnd (quantize output_vat) (\<lambda>out.
      res_bnd (quantize input_vat) (\<lambda>i.
      res_bnd (quantize (dec_sub output_vat input_vat)) (\<lambda>n.
      res_bnd (quantize (vat_sum vt_taxable_amount OUTPUT ts)) (\<lambda>sales.
      res_bnd (quantize (vat_sum vt_taxable_amount INPUT ts)) (\<lambda>purchases.
      Inr (r\<lparr>vn_output_vat := out, vn_input_vat := i, vn_net_vat := n, vn_taxable_sales := sales,
             vn_taxable_purchases := purchases\<rparr>)))))))"

definition unclaimed :: "date \<Rightarrow> date \<Rightarrow> vat_transaction \<Rightarrow> bool" where
  "unclaimed start stop t \<longleftrightarrow> start \<le> vt_occurred_on t \<and> vt_occurred_on t \<le> stop \<and> vt_vat_return_id t = None"

definition prepare_return :: "TenantContext \<Rightarrow> ReturnPrepare \<Rightarrow> ('a vat_db_scheme, vat_return) tx" where
  "prepare_return context payload =
     bnd (require (\<not> rp_period_end payload < rp_period_start payload) (DomainValidationError ''INVALID_DATE_RANGE'')) (\<lambda>_.
     service_transaction vat_chk
       (bnd (gets (\<lambda>s. find (\<lambda>r. vn_period_start r = rp_period_start payload \<and> vn_period_end r = rp_period_end payload)
               (vat_returns s))) (\<lambda>existing.
        bnd (require (existing = None) (ConflictError ''RETURN_EXISTS'')) (\<lambda>_.
        bnd (gets (\<lambda>s. filter (unclaimed (rp_period_start payload) (rp_period_end payload)) (vat_transactions s))) (\<lambda>rows.
        bnd uuid7 (\<lambda>i.
        bnd (lift_res (set_totals rows
              \<lparr>vn_id = i, vn_period_start = rp_period_start payload, vn_period_end = rp_period_end payload,
               vn_status = RETURN_DRAFT, vn_output_vat = 0, vn_input_vat = 0, vn_net_vat = 0, vn_taxable_sales = 0,
               vn_taxable_purchases = 0, vn_filed_at = None, vn_filed_by_membership_id = None\<rparr>)) (\<lambda>vat_return.
        bnd (modify (\<lambda>s. s\<lparr>vat_returns := vat_returns s @ [vat_return]\<rparr>)) (\<lambda>_.
        bnd (audit_record context ''vat.return_prepared'' ''vat_return'' (Some i) []) (\<lambda>_.
        ret vat_return)))))))))"

definition claim_rows :: "vat_return \<Rightarrow> ('a vat_db_scheme, unit) tx" where
  "claim_rows r =
     modify (\<lambda>s. s\<lparr>vat_transactions :=
       upd_where (unclaimed (vn_period_start r) (vn_period_end r)) (\<lambda>t. t\<lparr>vt_vat_return_id := Some (vn_id r)\<rparr>)
         (vat_transactions s)\<rparr>)"

definition claimed_rows :: "uuid \<Rightarrow> 'a vat_db_scheme \<Rightarrow> vat_transaction list" where
  "claimed_rows i s = filter (\<lambda>t. vt_vat_return_id t = Some i) (vat_transactions s)"

definition file_return :: "TenantContext \<Rightarrow> uuid \<Rightarrow> ('a vat_db_scheme, vat_return) tx" where
  "file_return context return_id =
     service_transaction vat_chk
       (bnd (gets (\<lambda>s. find (\<lambda>r. vn_id r = return_id) (vat_returns s))) (\<lambda>row.
        bnd (some_or NotFoundError row) (\<lambda>vat_return.
        bnd (require (vn_status vat_return \<noteq> FILED) (ConflictError ''RETURN_ALREADY_FILED'')) (\<lambda>_.
        bnd (claim_rows vat_return) (\<lambda>_.
        bnd (gets (claimed_rows (vn_id vat_return))) (\<lambda>rows.
        bnd (lift_res (set_totals rows vat_return)) (\<lambda>totalled.
        bnd datetime_now (\<lambda>now.
        let filed = totalled\<lparr>vn_status := FILED, vn_filed_at := Some now,
                             vn_filed_by_membership_id := Some (membership_id context)\<rparr>
        in
        bnd (modify (\<lambda>s. s\<lparr>vat_returns := upd_where (\<lambda>r. vn_id r = return_id) (\<lambda>_. filed) (vat_returns s)\<rparr>)) (\<lambda>_.
        bnd (audit_record context ''vat.return_filed'' ''vat_return'' (Some (vn_id filed))
              [(''net_vat'', MDec (vn_net_vat filed))]) (\<lambda>_.
        ret filed))))))))))"

definition returns :: "('a vat_db_scheme, vat_return list) tx" where
  "returns = service_transaction vat_chk (gets (\<lambda>s. rev (sort_key vn_period_start (rev (vat_returns s)))))"

text \<open>
  \<open>summary\<close> groups by direction, rate code and rate. The enum orders \<open>OUTPUT\<close> before \<open>INPUT\<close>; rows that
  agree on the sort key keep the order of the register.
\<close>

record summary_item =
  si_direction :: vat_direction
  si_rate_code :: string
  si_rate :: rat
  si_taxable_amount :: rat
  si_vat_amount :: rat
  si_entries :: nat

definition summary_key :: "vat_transaction \<Rightarrow> vat_direction \<times> string option \<times> rat" where
  "summary_key t = (vt_direction t, vt_rate_code t, vt_rate t)"

definition summary_item_of :: "vat_transaction list \<Rightarrow> vat_direction \<times> string option \<times> rat \<Rightarrow> summary_item" where
  "summary_item_of ts k =
     (case k of (direction, code, rate) \<Rightarrow>
      let group = filter (\<lambda>t. summary_key t = k) ts in
      \<lparr>si_direction = direction, si_rate_code = (case code of None \<Rightarrow> ''-'' | Some c \<Rightarrow> c), si_rate = rate,
       si_taxable_amount = sum_list (map vt_taxable_amount group), si_vat_amount = sum_list (map vt_vat_amount group),
       si_entries = length group\<rparr>)"

definition summary :: "(string \<Rightarrow> nat) \<Rightarrow> date \<Rightarrow> date \<Rightarrow> ('a vat_db_scheme, summary_item list) tx" where
  "summary code_key start stop =
     service_transaction vat_chk
       (gets (\<lambda>s.
         let rows = filter (\<lambda>t. start \<le> vt_occurred_on t \<and> vt_occurred_on t \<le> stop) (vat_transactions s) in
         sort_key (\<lambda>i. (if si_direction i = OUTPUT then 0 else 1 :: nat, code_key (si_rate_code i)))
           (map (summary_item_of rows) (remdups (map summary_key rows)))))"

definition count_for_source :: "uuid \<Rightarrow> ('a vat_db_scheme, nat) tx" where
  "count_for_source source_id = gets (\<lambda>s. length (filter (\<lambda>t. vt_source_id t = source_id) (vat_transactions s)))"

text \<open>The endpoints that check the range of dates before they call the service.\<close>

definition route_transactions where
  "route_transactions from_date to_date direction =
     bnd (bounded from_date to_date) (\<lambda>_. transactions from_date to_date direction)"

definition route_summary where
  "route_summary code_key from_date to_date = bnd (bounded from_date to_date) (\<lambda>_. summary code_key from_date to_date)"

definition route_prepare_return where
  "route_prepare_return context payload =
     bnd (bounded (rp_period_start payload) (rp_period_end payload)) (\<lambda>_. prepare_return context payload)"

end
