(* ===== verification/Sales.thy ===== *)
theory Sales
  imports Vat
begin

text \<open>
  The sales workflow: \<^verbatim>\<open>modules/sales/models.py\<close>, \<^verbatim>\<open>repository.py\<close> and \<^verbatim>\<open>service.py\<close>. Quotations become
  orders, orders are fulfilled out of stock and invoiced, invoices are issued, paid and credited; every
  step posts to the ledger and to the VAT register inside the same transaction.

  The payload records hold validated input: \<^verbatim>\<open>schemas.py\<close> bounds quantities to six places, money to four and
  rates to six, the scale of the columns they are stored in. A pending object is written to its table
  once, when its attributes are complete; no flush happens in between. Amounts of a document are sums in
  the 28-digit context.
\<close>

section \<open>Rows\<close>

datatype quotation_status = Q_DRAFT | Q_SENT | Q_ACCEPTED | Q_REJECTED | Q_EXPIRED

datatype sales_order_status = SO_DRAFT | SO_CONFIRMED | SO_PARTIALLY_FULFILLED | SO_FULFILLED | SO_CANCELLED

datatype invoice_status = INV_DRAFT | INV_ISSUED | INV_PARTIALLY_PAID | INV_PAID | INV_CANCELLED

datatype payment_direction = INBOUND | OUTBOUND

datatype payment_method = CASH | CARD | BANK_TRANSFER | MOBILE | CREDIT

datatype credit_note_status = CN_DRAFT | CN_ISSUED | CN_CANCELLED

record LineTotals =
  lt_quantity :: rat
  lt_unit_price :: rat
  lt_discount_rate :: rat
  lt_tax_rate :: rat
  lt_net_amount :: rat
  lt_tax_amount :: rat
  lt_total_amount :: rat

record customer =
  cu_id :: uuid
  cu_name :: string

record quotation =
  qt_id :: uuid
  qt_number :: string
  qt_customer_id :: uuid
  qt_branch_id :: uuid
  qt_status :: quotation_status
  qt_issue_date :: date
  qt_valid_until :: "date option"
  qt_net_amount :: rat
  qt_tax_amount :: rat
  qt_total_amount :: rat
  qt_notes :: "string option"
  qt_converted_order_id :: "uuid option"

record quotation_line = LineTotals +
  ql_id :: uuid
  ql_quotation_id :: uuid
  ql_product_id :: uuid
  ql_description :: "string option"

record sales_order =
  so_id :: uuid
  so_number :: string
  so_customer_id :: uuid
  so_branch_id :: uuid
  so_warehouse_id :: uuid
  so_quotation_id :: "uuid option"
  so_status :: sales_order_status
  so_order_date :: date
  so_net_amount :: rat
  so_tax_amount :: rat
  so_total_amount :: rat
  so_notes :: "string option"
  so_confirmed_at :: "datetime option"
  so_cancelled_at :: "datetime option"

record sales_order_line = LineTotals +
  sol_id :: uuid
  sol_order_id :: uuid
  sol_product_id :: uuid
  sol_description :: "string option"
  sol_fulfilled_quantity :: rat
  sol_invoiced_quantity :: rat

record fulfillment =
  ff_id :: uuid
  ff_number :: string
  ff_order_id :: uuid
  ff_warehouse_id :: uuid
  ff_shipped_at :: datetime
  ff_notes :: "string option"

record fulfillment_line =
  fl_id :: uuid
  fl_fulfillment_id :: uuid
  fl_order_line_id :: uuid
  fl_product_id :: uuid
  fl_quantity :: rat

record invoice =
  inv_id :: uuid
  inv_number :: "string option"
  inv_customer_id :: uuid
  inv_branch_id :: uuid
  inv_order_id :: "uuid option"
  inv_status :: invoice_status
  inv_issue_date :: date
  inv_due_date :: "date option"
  inv_net_amount :: rat
  inv_tax_amount :: rat
  inv_total_amount :: rat
  inv_paid_amount :: rat
  inv_notes :: "string option"
  inv_issued_at :: "datetime option"

record invoice_line = LineTotals +
  il_id :: uuid
  il_invoice_id :: uuid
  il_product_id :: uuid
  il_order_line_id :: "uuid option"
  il_description :: "string option"
  il_credited_quantity :: rat

record payment =
  pay_id :: uuid
  pay_number :: string
  pay_direction :: payment_direction
  pay_customer_id :: "uuid option"
  pay_supplier_id :: "uuid option"
  pay_branch_id :: uuid
  pay_method :: payment_method
  pay_amount :: rat
  pay_allocated_amount :: rat
  pay_payment_date :: date
  pay_reference :: "string option"
  pay_notes :: "string option"
  pay_idempotency_key :: "string option"

record payment_allocation =
  pa_id :: uuid
  pa_payment_id :: uuid
  pa_invoice_id :: "uuid option"
  pa_supplier_bill_id :: "uuid option"
  pa_amount :: rat

record credit_note =
  cn_id :: uuid
  cn_number :: "string option"
  cn_invoice_id :: uuid
  cn_customer_id :: uuid
  cn_branch_id :: uuid
  cn_status :: credit_note_status
  cn_issue_date :: date
  cn_reason :: string
  cn_restock :: bool
  cn_warehouse_id :: "uuid option"
  cn_net_amount :: rat
  cn_tax_amount :: rat
  cn_total_amount :: rat
  cn_notes :: "string option"
  cn_issued_at :: "datetime option"

record credit_note_line = LineTotals +
  cl_id :: uuid
  cl_credit_note_id :: uuid
  cl_invoice_line_id :: uuid
  cl_product_id :: uuid
  cl_description :: "string option"

record sales_db = vat_db +
  customers :: "customer list"
  quotations :: "quotation list"
  quotation_lines :: "quotation_line list"
  sales_orders :: "sales_order list"
  sales_order_lines :: "sales_order_line list"
  fulfillments :: "fulfillment list"
  fulfillment_lines :: "fulfillment_line list"
  invoices :: "invoice list"
  invoice_lines :: "invoice_line list"
  payments :: "payment list"
  payment_allocations :: "payment_allocation list"
  credit_notes :: "credit_note list"
  credit_note_lines :: "credit_note_line list"

section \<open>Payloads\<close>

record LineInput =
  li_product_id :: uuid
  li_quantity :: rat
  li_unit_price :: rat
  li_discount_rate :: rat
  li_tax_rate :: rat
  li_description :: "string option"

record QuotationCreate =
  qc_customer_id :: uuid
  qc_branch_id :: uuid
  qc_issue_date :: date
  qc_valid_until :: "date option"
  qc_notes :: "string option"
  qc_lines :: "LineInput list"

record QuotationConvert =
  qv_warehouse_id :: uuid
  qv_order_date :: date

record SalesOrderCreate =
  oc_customer_id :: uuid
  oc_branch_id :: uuid
  oc_warehouse_id :: uuid
  oc_order_date :: date
  oc_notes :: "string option"
  oc_lines :: "LineInput list"

record FulfillmentLineInput =
  fli_order_line_id :: uuid
  fli_quantity :: rat

record FulfillmentCreate =
  fc_notes :: "string option"
  fc_lines :: "FulfillmentLineInput list option"

record InvoiceCreate =
  ic_sales_order_id :: uuid
  ic_issue_date :: date
  ic_due_date :: "date option"
  ic_notes :: "string option"
  ic_invoice_fulfilled_only :: bool

record AllocationInput =
  ai_invoice_id :: uuid
  ai_amount :: rat

record PaymentCreate =
  pm_customer_id :: uuid
  pm_branch_id :: uuid
  pm_method :: payment_method
  pm_amount :: rat
  pm_payment_date :: date
  pm_reference :: "string option"
  pm_notes :: "string option"
  pm_allocations :: "AllocationInput list"

record CreditNoteLineInput =
  cni_invoice_line_id :: uuid
  cni_quantity :: rat

record CreditNoteCreate =
  cc_invoice_id :: uuid
  cc_issue_date :: date
  cc_reason :: string
  cc_restock :: bool
  cc_warehouse_id :: "uuid option"
  cc_notes :: "string option"
  cc_lines :: "CreditNoteLineInput list"

section \<open>Constraints\<close>

definition line_ok :: "'a LineTotals_scheme \<Rightarrow> bool" where
  "line_ok l \<longleftrightarrow> lt_quantity l > 0 \<and> lt_unit_price l \<ge> 0"

definition line_in_range :: "'a LineTotals_scheme \<Rightarrow> bool" where
  "line_in_range l \<longleftrightarrow> in_range 14 (lt_quantity l) \<and> in_range 14 (lt_net_amount l) \<and> in_range 14 (lt_tax_amount l)
     \<and> in_range 14 (lt_total_amount l)"

text \<open>The constraints of payments and allocations, which purchasing shares.\<close>

definition payment_constraints :: "'a sales_db_scheme \<Rightarrow> (bool \<times> error) list" where
  "payment_constraints s =
     [(unique_on pay_id (payments s), IntegrityError),
      (unique_on pay_number (payments s), IntegrityError),
      (list_all (\<lambda>p. pay_amount p > 0) (payments s), IntegrityError),
      (list_all (\<lambda>p. pay_allocated_amount p \<ge> 0 \<and> pay_allocated_amount p \<le> pay_amount p) (payments s), IntegrityError),
      (list_all (\<lambda>p. (pay_direction p = INBOUND \<and> pay_customer_id p \<noteq> None \<and> pay_supplier_id p = None)
                   \<or> (pay_direction p = OUTBOUND \<and> pay_supplier_id p \<noteq> None \<and> pay_customer_id p = None)) (payments s), IntegrityError),
      (list_all (\<lambda>p. in_range 14 (pay_amount p)) (payments s), overflow),
      (unique_on pa_id (payment_allocations s), IntegrityError),
      (list_all (\<lambda>a. pa_amount a > 0) (payment_allocations s), IntegrityError),
      (list_all (\<lambda>a. (pa_invoice_id a \<noteq> None \<and> pa_supplier_bill_id a = None)
                   \<or> (pa_supplier_bill_id a \<noteq> None \<and> pa_invoice_id a = None)) (payment_allocations s), IntegrityError),
      (unique_where (\<lambda>a. (pa_payment_id a, pa_invoice_id a)) (\<lambda>a. pa_invoice_id a \<noteq> None) (payment_allocations s), IntegrityError),
      (unique_where (\<lambda>a. (pa_payment_id a, pa_supplier_bill_id a)) (\<lambda>a. pa_supplier_bill_id a \<noteq> None) (payment_allocations s), IntegrityError)]"

definition sales_constraints :: "'a sales_db_scheme \<Rightarrow> (bool \<times> error) list" where
  "sales_constraints s =
     [(unique_on qt_id (quotations s), IntegrityError),
      (unique_on qt_number (quotations s), IntegrityError),
      (list_all (\<lambda>q. qt_total_amount q \<ge> 0) (quotations s), IntegrityError),
      (list_all (\<lambda>q. qt_customer_id q \<in> set (map cu_id (customers s))) (quotations s), IntegrityError),
      (list_all (\<lambda>q. in_range 14 (qt_total_amount q)) (quotations s), overflow),
      (unique_on ql_id (quotation_lines s), IntegrityError),
      (list_all line_ok (quotation_lines s), IntegrityError),
      (list_all line_in_range (quotation_lines s), overflow),
      (unique_on so_id (sales_orders s), IntegrityError),
      (unique_on so_number (sales_orders s), IntegrityError),
      (list_all (\<lambda>o'. so_total_amount o' \<ge> 0) (sales_orders s), IntegrityError),
      (list_all (\<lambda>o'. so_customer_id o' \<in> set (map cu_id (customers s))) (sales_orders s), IntegrityError),
      (list_all (\<lambda>o'. in_range 14 (so_total_amount o')) (sales_orders s), overflow),
      (unique_on sol_id (sales_order_lines s), IntegrityError),
      (unique_on (\<lambda>l. (sol_order_id l, sol_product_id l)) (sales_order_lines s), IntegrityError),
      (list_all line_ok (sales_order_lines s), IntegrityError),
      (list_all line_in_range (sales_order_lines s), overflow),
      (list_all (\<lambda>l. sol_fulfilled_quantity l \<ge> 0 \<and> sol_fulfilled_quantity l \<le> lt_quantity l) (sales_order_lines s), IntegrityError),
      (list_all (\<lambda>l. sol_invoiced_quantity l \<ge> 0 \<and> sol_invoiced_quantity l \<le> lt_quantity l) (sales_order_lines s), IntegrityError),
      (unique_on ff_id (fulfillments s), IntegrityError),
      (unique_on ff_number (fulfillments s), IntegrityError),
      (unique_on fl_id (fulfillment_lines s), IntegrityError),
      (list_all (\<lambda>l. fl_quantity l > 0) (fulfillment_lines s), IntegrityError),
      (unique_on inv_id (invoices s), IntegrityError),
      (unique_where inv_number (\<lambda>i. inv_number i \<noteq> None) (invoices s), IntegrityError),
      (list_all (\<lambda>i. inv_total_amount i \<ge> 0) (invoices s), IntegrityError),
      (list_all (\<lambda>i. inv_paid_amount i \<ge> 0 \<and> inv_paid_amount i \<le> inv_total_amount i) (invoices s), IntegrityError),
      (list_all (\<lambda>i. in_range 14 (inv_total_amount i)) (invoices s), overflow),
      (unique_on il_id (invoice_lines s), IntegrityError),
      (list_all line_ok (invoice_lines s), IntegrityError),
      (list_all line_in_range (invoice_lines s), overflow),
      (list_all (\<lambda>l. il_credited_quantity l \<ge> 0 \<and> il_credited_quantity l \<le> lt_quantity l) (invoice_lines s), IntegrityError),
      (list_all (\<lambda>p. case pay_customer_id p of None \<Rightarrow> True | Some c \<Rightarrow> c \<in> set (map cu_id (customers s))) (payments s), IntegrityError),
      (unique_on cn_id (credit_notes s), IntegrityError),
      (unique_where cn_number (\<lambda>n. cn_number n \<noteq> None) (credit_notes s), IntegrityError),
      (list_all (\<lambda>n. cn_total_amount n \<ge> 0) (credit_notes s), IntegrityError),
      (list_all (\<lambda>n. in_range 14 (cn_total_amount n)) (credit_notes s), overflow),
      (unique_on cl_id (credit_note_lines s), IntegrityError),
      (list_all (\<lambda>l. lt_quantity l > 0) (credit_note_lines s), IntegrityError),
      (list_all line_in_range (credit_note_lines s), overflow)]"

definition sales_flush_chk :: "'a sales_db_scheme \<Rightarrow> error option" where
  "sales_flush_chk s =
     violated (base_constraints s @ inventory_constraints s @ accounting_constraints s @ vat_constraints s
       @ payment_constraints s @ sales_constraints s)"

definition sales_chk :: "'a sales_db_scheme \<Rightarrow> error option" where
  "sales_chk s =
     violated (base_constraints s @ inventory_constraints s @ accounting_constraints s @ vat_constraints s
       @ payment_constraints s @ sales_constraints s @ balance_trigger s)"

section \<open>Repository\<close>

definition repo_order :: "uuid \<Rightarrow> 'a sales_db_scheme \<Rightarrow> sales_order option" where
  "repo_order i s = find (\<lambda>o'. so_id o' = i) (sales_orders s)"

definition order_lines :: "uuid \<Rightarrow> 'a sales_db_scheme \<Rightarrow> sales_order_line list" where
  "order_lines i s = sort_key sol_product_id (filter (\<lambda>l. sol_order_id l = i) (sales_order_lines s))"

definition repo_invoice :: "uuid \<Rightarrow> 'a sales_db_scheme \<Rightarrow> invoice option" where
  "repo_invoice i s = find (\<lambda>v. inv_id v = i) (invoices s)"

definition repo_invoice_lines :: "uuid \<Rightarrow> 'a sales_db_scheme \<Rightarrow> invoice_line list" where
  "repo_invoice_lines i s = sort_key il_product_id (filter (\<lambda>l. il_invoice_id l = i) (invoice_lines s))"

definition repo_invoice_line :: "uuid \<Rightarrow> 'a sales_db_scheme \<Rightarrow> invoice_line option" where
  "repo_invoice_line i s = find (\<lambda>l. il_id l = i) (invoice_lines s)"

definition repo_payment :: "uuid \<Rightarrow> 'a sales_db_scheme \<Rightarrow> payment option" where
  "repo_payment i s = find (\<lambda>p. pay_id p = i) (payments s)"

definition repo_allocations :: "uuid \<Rightarrow> 'a sales_db_scheme \<Rightarrow> payment_allocation list" where
  "repo_allocations i s = filter (\<lambda>a. pa_payment_id a = i) (payment_allocations s)"

definition credit_notes_for_invoice :: "uuid \<Rightarrow> 'a sales_db_scheme \<Rightarrow> credit_note list" where
  "credit_notes_for_invoice i s = filter (\<lambda>n. cn_invoice_id n = i) (credit_notes s)"

definition repo_quotation :: "uuid \<Rightarrow> 'a sales_db_scheme \<Rightarrow> quotation option" where
  "repo_quotation i s = find (\<lambda>q. qt_id q = i) (quotations s)"

definition repo_quotation_lines :: "uuid \<Rightarrow> 'a sales_db_scheme \<Rightarrow> quotation_line list" where
  "repo_quotation_lines i s = sort_key ql_product_id (filter (\<lambda>l. ql_quotation_id l = i) (quotation_lines s))"

definition branch_in :: "uuid set option \<Rightarrow> uuid \<Rightarrow> bool" where
  "branch_in bids b = (case bids of None \<Rightarrow> True | Some bs \<Rightarrow> b \<in> bs)"

text \<open>
  A page of documents, newest first: \<open>offset\<close> and \<open>limit\<close> applied to the matching rows, with their number.
  The filter on the status is by the value of the enum.
\<close>

definition page_of :: "('r \<Rightarrow> date \<times> uuid) \<Rightarrow> nat \<Rightarrow> nat \<Rightarrow> 'r list \<Rightarrow> 'r list \<times> nat" where
  "page_of key page page_size rows =
     (take page_size (drop ((page - 1) * page_size) (rev (sort_key key rows))), length rows)"

definition order_status_value :: "sales_order_status \<Rightarrow> string" where
  "order_status_value st =
     (case st of SO_DRAFT \<Rightarrow> ''DRAFT'' | SO_CONFIRMED \<Rightarrow> ''CONFIRMED'' | SO_PARTIALLY_FULFILLED \<Rightarrow> ''PARTIALLY_FULFILLED''
      | SO_FULFILLED \<Rightarrow> ''FULFILLED'' | SO_CANCELLED \<Rightarrow> ''CANCELLED'')"

definition invoice_status_value :: "invoice_status \<Rightarrow> string" where
  "invoice_status_value st =
     (case st of INV_DRAFT \<Rightarrow> ''DRAFT'' | INV_ISSUED \<Rightarrow> ''ISSUED'' | INV_PARTIALLY_PAID \<Rightarrow> ''PARTIALLY_PAID''
      | INV_PAID \<Rightarrow> ''PAID'' | INV_CANCELLED \<Rightarrow> ''CANCELLED'')"

definition quotation_status_value :: "quotation_status \<Rightarrow> string" where
  "quotation_status_value st =
     (case st of Q_DRAFT \<Rightarrow> ''DRAFT'' | Q_SENT \<Rightarrow> ''SENT'' | Q_ACCEPTED \<Rightarrow> ''ACCEPTED'' | Q_REJECTED \<Rightarrow> ''REJECTED''
      | Q_EXPIRED \<Rightarrow> ''EXPIRED'')"

text \<open>A status that names no member of the enum is refused when the query binds it.\<close>

definition check_status_filter :: "string list \<Rightarrow> string option \<Rightarrow> ('s, unit) tx" where
  "check_status_filter members status =
     require (truthy status \<longrightarrow> the status \<in> set members) (DatabaseError ''StatementError'')"

definition order_matches :: "string option \<Rightarrow> uuid option \<Rightarrow> uuid set option \<Rightarrow> sales_order \<Rightarrow> bool" where
  "order_matches status customer_id bids o' \<longleftrightarrow>
     branch_in bids (so_branch_id o') \<and> (truthy status \<longrightarrow> order_status_value (so_status o') = the status)
     \<and> (customer_id \<noteq> None \<longrightarrow> customer_id = Some (so_customer_id o'))"

definition invoice_matches :: "string option \<Rightarrow> uuid option \<Rightarrow> uuid set option \<Rightarrow> invoice \<Rightarrow> bool" where
  "invoice_matches status customer_id bids v \<longleftrightarrow>
     branch_in bids (inv_branch_id v) \<and> (truthy status \<longrightarrow> invoice_status_value (inv_status v) = the status)
     \<and> (customer_id \<noteq> None \<longrightarrow> customer_id = Some (inv_customer_id v))"

definition quotation_matches :: "string option \<Rightarrow> uuid option \<Rightarrow> uuid set option \<Rightarrow> quotation \<Rightarrow> bool" where
  "quotation_matches status customer_id bids q \<longleftrightarrow>
     branch_in bids (qt_branch_id q) \<and> (truthy status \<longrightarrow> quotation_status_value (qt_status q) = the status)
     \<and> (customer_id \<noteq> None \<longrightarrow> customer_id = Some (qt_customer_id q))"

text \<open>Receivables: invoices that are claims, net of issued credit notes.\<close>

definition receivable :: "uuid set option \<Rightarrow> invoice \<Rightarrow> bool" where
  "receivable bids v \<longleftrightarrow> inv_status v \<in> {INV_ISSUED, INV_PARTIALLY_PAID, INV_PAID} \<and> branch_in bids (inv_branch_id v)"

definition credited_amount :: "uuid \<Rightarrow> 'a sales_db_scheme \<Rightarrow> rat" where
  "credited_amount i s = sum_list (map cn_total_amount
     (filter (\<lambda>n. cn_invoice_id n = i \<and> cn_status n = CN_ISSUED) (credit_notes s)))"

definition customer_invoices :: "uuid set option \<Rightarrow> 'a sales_db_scheme \<Rightarrow> customer \<Rightarrow> invoice list" where
  "customer_invoices bids s c = filter (\<lambda>v. inv_customer_id v = cu_id c \<and> receivable bids v) (invoices s)"

definition repo_receivables :: "(string \<Rightarrow> nat) \<Rightarrow> uuid set option \<Rightarrow> 'a sales_db_scheme \<Rightarrow> (uuid \<times> string \<times> rat \<times> rat) list" where
  "repo_receivables name_key bids s =
     filter (\<lambda>(i, n, invoiced, paid). invoiced - paid \<noteq> 0)
       (map (\<lambda>c. (cu_id c, cu_name c,
                  sum_list (map (\<lambda>v. inv_total_amount v - credited_amount (inv_id v) s) (customer_invoices bids s c)),
                  sum_list (map inv_paid_amount (customer_invoices bids s c))))
         (sort_key (\<lambda>c. name_key (cu_name c)) (filter (\<lambda>c. customer_invoices bids s c \<noteq> []) (customers s))))"

definition invoice_balance :: "'a sales_db_scheme \<Rightarrow> invoice \<Rightarrow> rat" where
  "invoice_balance s v = inv_total_amount v - credited_amount (inv_id v) s - inv_paid_amount v"

definition days_overdue :: "date \<Rightarrow> date option \<Rightarrow> int option" where
  "days_overdue as_of due = map_option (\<lambda>d. toordinal as_of - toordinal d) due"

definition aging_bucket :: "date \<Rightarrow> nat \<Rightarrow> date option \<Rightarrow> bool" where
  "aging_bucket as_of b due =
     (case days_overdue as_of due of
        None \<Rightarrow> b = 0
      | Some n \<Rightarrow>
          (if b = 0 then n \<le> 0 else if b = 1 then 1 \<le> n \<and> n \<le> 30 else if b = 2 then 31 \<le> n \<and> n \<le> 60
           else if b = 3 then 61 \<le> n \<and> n \<le> 90 else n > 90))"

definition aging_row ::
  "date \<Rightarrow> uuid set option \<Rightarrow> 'a sales_db_scheme \<Rightarrow> customer \<Rightarrow> error + uuid \<times> string \<times> rat list \<times> rat"
where
  "aging_row as_of bids s c =
     (let vs = customer_invoices bids s c;
          bucket = (\<lambda>b. sum_list (map (invoice_balance s) (filter (\<lambda>v. aging_bucket as_of b (inv_due_date v)) vs)))
      in res_bnd (res_map (\<lambda>b. round_money (bucket b)) [0, 1, 2, 3, 4]) (\<lambda>buckets.
         res_bnd (round_money (sum_list (map (invoice_balance s) vs))) (\<lambda>total.
         Inr (cu_id c, cu_name c, buckets, total))))"

definition repo_ar_aging ::
  "(string \<Rightarrow> nat) \<Rightarrow> date \<Rightarrow> uuid set option \<Rightarrow> 'a sales_db_scheme \<Rightarrow> error + (uuid \<times> string \<times> rat list \<times> rat) list"
where
  "repo_ar_aging name_key as_of bids s =
     res_map (aging_row as_of bids s)
       (sort_key (\<lambda>c. name_key (cu_name c))
         (filter (\<lambda>c. customer_invoices bids s c \<noteq> [] \<and> sum_list (map (invoice_balance s) (customer_invoices bids s c)) \<noteq> 0)
           (customers s)))"

end
