(* ===== verification/Sales_Service.thy ===== *)
theory Sales_Service
  imports Sales
begin

text \<open>
  The operations of \<^verbatim>\<open>SalesService\<close> (\<^verbatim>\<open>modules/sales/service.py\<close>) and the guards its endpoints add in
  \<^verbatim>\<open>router.py\<close>. A Python dictionary is an association list in insertion order. The response stored with an
  idempotency key, \<^verbatim>\<open>{"id": ...}\<close>, is represented by the text of its identifier.
\<close>

section \<open>Shared guards\<close>

definition require_status :: "'st \<Rightarrow> 'st list \<Rightarrow> ('s, unit) tx" where
  "require_status actual allowed = require (actual \<in> set allowed) (ConflictError ''DOCUMENT_STATE_INVALID'')"

definition period :: "('a base_db_scheme, string) tx" where
  "period = bnd datetime_now (\<lambda>now. ret (str_nat (nat (year_of (utc_date now)))))"

definition require_branch :: "TenantContext \<Rightarrow> uuid \<Rightarrow> ('s, unit) tx" where
  "require_branch context branch_id =
     require (branch_in (branch_ids context) branch_id) (PermissionDeniedError ''BRANCH_ACCESS_DENIED'')"

definition require_warehouse :: "TenantContext \<Rightarrow> uuid \<Rightarrow> uuid \<Rightarrow> ('a inventory_db_scheme, unit) tx" where
  "require_warehouse context branch_id warehouse_id =
     bnd (require_branch context branch_id) (\<lambda>_.
     bnd (gets (\<lambda>s. find (\<lambda>w. wh_id w = warehouse_id) (warehouses s))) (\<lambda>row.
     bnd (some_or NotFoundError row) (\<lambda>warehouse.
     require (wh_branch_id warehouse = Some branch_id) (DomainValidationError ''WAREHOUSE_BRANCH_MISMATCH''))))"

definition get_product :: "uuid \<Rightarrow> ('a inventory_db_scheme, product) tx" where
  "get_product product_id =
     bnd (gets (\<lambda>s. find (\<lambda>p. pr_id p = product_id) (products s))) (some_or NotFoundError)"

text \<open>\<^verbatim>\<open>sum(xs, ZERO)\<close> of decimals.\<close>

definition dec_sum :: "rat list \<Rightarrow> rat" where
  "dec_sum xs = foldl dec_add 0 xs"

text \<open>Assignment to a key of a dictionary.\<close>

fun dict_set :: "'k \<Rightarrow> 'v \<Rightarrow> ('k \<times> 'v) list \<Rightarrow> ('k \<times> 'v) list" where
  "dict_set k v [] = [(k, v)]"
| "dict_set k v ((k', v') # d) = (if k' = k then (k, v) # d else (k', v') # dict_set k v d)"

section \<open>Quotations\<close>

definition add_quotation_line ::
  "uuid \<Rightarrow> rat \<times> rat \<Rightarrow> LineInput \<Rightarrow> ('a sales_db_scheme, rat \<times> rat) tx"
where
  "add_quotation_line quotation_id acc item =
     (case acc of (net, tax) \<Rightarrow>
      bnd (get_product (li_product_id item)) (\<lambda>_.
      bnd (lift_res (line_totals (li_quantity item) (li_unit_price item) (li_discount_rate item) (li_tax_rate item)))
        (\<lambda>(line_net, line_tax, line_total).
      bnd uuid7 (\<lambda>i.
      bnd (modify (\<lambda>s. s\<lparr>quotation_lines := quotation_lines s @
            [\<lparr>lt_quantity = li_quantity item, lt_unit_price = li_unit_price item, lt_discount_rate = li_discount_rate item,
              lt_tax_rate = li_tax_rate item, lt_net_amount = line_net, lt_tax_amount = line_tax, lt_total_amount = line_total,
              ql_id = i, ql_quotation_id = quotation_id, ql_product_id = li_product_id item,
              ql_description = li_description item\<rparr>]\<rparr>)) (\<lambda>_.
      ret (dec_add net line_net, dec_add tax line_tax))))))"

definition create_quotation :: "TenantContext \<Rightarrow> QuotationCreate \<Rightarrow> ('a sales_db_scheme, quotation) tx" where
  "create_quotation context payload =
     service_transaction sales_chk
       (bnd (require_branch context (qc_branch_id payload)) (\<lambda>_.
        bnd (require (distinct (map li_product_id (qc_lines payload))) (DomainValidationError ''DUPLICATE_LINE'')) (\<lambda>_.
        bnd uuid7 (\<lambda>i.
        bnd (for_acc (add_quotation_line i) (0, 0) (qc_lines payload)) (\<lambda>(net, tax).
        bnd period (\<lambda>p.
        bnd (allocate ''quotation'' p) (\<lambda>number.
        let quotation =
          \<lparr>qt_id = i, qt_number = number, qt_customer_id = qc_customer_id payload, qt_branch_id = qc_branch_id payload,
           qt_status = Q_DRAFT, qt_issue_date = qc_issue_date payload, qt_valid_until = qc_valid_until payload,
           qt_net_amount = net, qt_tax_amount = tax, qt_total_amount = dec_add net tax, qt_notes = qc_notes payload,
           qt_converted_order_id = None\<rparr>
        in
        bnd (modify (\<lambda>s. s\<lparr>quotations := quotations s @ [quotation]\<rparr>)) (\<lambda>_.
        bnd (audit_record context ''sales.quotation_created'' ''quotation'' (Some i) []) (\<lambda>_.
        ret quotation)))))))))"

definition get_quotation :: "TenantContext \<Rightarrow> uuid \<Rightarrow> ('a sales_db_scheme, quotation \<times> quotation_line list) tx" where
  "get_quotation context quotation_id =
     service_transaction sales_chk
       (bnd (gets (repo_quotation quotation_id)) (\<lambda>row.
        bnd (some_or NotFoundError row) (\<lambda>quotation.
        bnd (require_branch context (qt_branch_id quotation)) (\<lambda>_.
        bnd (gets (repo_quotation_lines (qt_id quotation))) (\<lambda>lines.
        ret (quotation, lines))))))"

definition list_quotations ::
  "TenantContext \<Rightarrow> nat \<Rightarrow> nat \<Rightarrow> string option \<Rightarrow> uuid option \<Rightarrow> ('a sales_db_scheme, quotation list \<times> nat) tx"
where
  "list_quotations context page page_size status customer_id =
     service_transaction sales_chk
       (bnd (check_status_filter (map quotation_status_value [Q_DRAFT, Q_SENT, Q_ACCEPTED, Q_REJECTED, Q_EXPIRED]) status) (\<lambda>_.
        gets (\<lambda>s. page_of (\<lambda>q. (qt_issue_date q, qt_id q)) page page_size
          (filter (quotation_matches status customer_id (branch_ids context)) (quotations s)))))"

definition legal_quotation :: "quotation_status \<Rightarrow> quotation_status list option" where
  "legal_quotation st =
     (case st of Q_DRAFT \<Rightarrow> None | Q_SENT \<Rightarrow> Some [Q_DRAFT] | Q_ACCEPTED \<Rightarrow> Some [Q_SENT] | Q_REJECTED \<Rightarrow> Some [Q_SENT]
      | Q_EXPIRED \<Rightarrow> Some [Q_DRAFT, Q_SENT])"

definition update_quotation :: "uuid \<Rightarrow> (quotation \<Rightarrow> quotation) \<Rightarrow> ('a sales_db_scheme, unit) tx" where
  "update_quotation i f = modify (\<lambda>s. s\<lparr>quotations := upd_where (\<lambda>q. qt_id q = i) f (quotations s)\<rparr>)"

definition set_quotation_status ::
  "TenantContext \<Rightarrow> uuid \<Rightarrow> quotation_status \<Rightarrow> ('a sales_db_scheme, quotation) tx"
where
  "set_quotation_status context quotation_id status =
     service_transaction sales_chk
       (bnd (gets (repo_quotation quotation_id)) (\<lambda>row.
        bnd (some_or NotFoundError row) (\<lambda>quotation.
        bnd (require_branch context (qt_branch_id quotation)) (\<lambda>_.
        bnd (some_or KeyError (legal_quotation status)) (\<lambda>allowed.
        bnd (require_status (qt_status quotation) allowed) (\<lambda>_.
        bnd (update_quotation quotation_id (\<lambda>q. q\<lparr>qt_status := status\<rparr>)) (\<lambda>_.
        bnd (audit_record context ''sales.quotation_accepted'' ''quotation'' (Some (qt_id quotation))
              [(''status'', MStr (quotation_status_value status))]) (\<lambda>_.
        ret (quotation\<lparr>qt_status := status\<rparr>)))))))))"

definition send_quotation :: "TenantContext \<Rightarrow> uuid \<Rightarrow> ('a sales_db_scheme, quotation) tx" where
  "send_quotation context i = set_quotation_status context i Q_SENT"

definition accept_quotation :: "TenantContext \<Rightarrow> uuid \<Rightarrow> ('a sales_db_scheme, quotation) tx" where
  "accept_quotation context i = set_quotation_status context i Q_ACCEPTED"

definition reject_quotation :: "TenantContext \<Rightarrow> uuid \<Rightarrow> ('a sales_db_scheme, quotation) tx" where
  "reject_quotation context i = set_quotation_status context i Q_REJECTED"

definition copy_quotation_line :: "uuid \<Rightarrow> quotation_line \<Rightarrow> ('a sales_db_scheme, unit) tx" where
  "copy_quotation_line order_id line =
     bnd uuid7 (\<lambda>i.
     modify (\<lambda>s. s\<lparr>sales_order_lines := sales_order_lines s @
       [\<lparr>lt_quantity = lt_quantity line, lt_unit_price = lt_unit_price line, lt_discount_rate = lt_discount_rate line,
         lt_tax_rate = lt_tax_rate line, lt_net_amount = lt_net_amount line, lt_tax_amount = lt_tax_amount line,
         lt_total_amount = lt_total_amount line, sol_id = i, sol_order_id = order_id, sol_product_id = ql_product_id line,
         sol_description = ql_description line, sol_fulfilled_quantity = 0, sol_invoiced_quantity = 0\<rparr>]\<rparr>))"

definition convert_quotation ::
  "TenantContext \<Rightarrow> uuid \<Rightarrow> QuotationConvert \<Rightarrow> ('a sales_db_scheme, sales_order) tx"
where
  "convert_quotation context quotation_id payload =
     service_transaction sales_chk
       (bnd (gets (repo_quotation quotation_id)) (\<lambda>row.
        bnd (some_or NotFoundError row) (\<lambda>quotation.
        bnd (require_branch context (qt_branch_id quotation)) (\<lambda>_.
        bnd (require_warehouse context (qt_branch_id quotation) (qv_warehouse_id payload)) (\<lambda>_.
        bnd (require_status (qt_status quotation) [Q_ACCEPTED]) (\<lambda>_.
        bnd (require (qt_converted_order_id quotation = None) (ConflictError ''ALREADY_CONVERTED'')) (\<lambda>_.
        bnd (gets (repo_quotation_lines (qt_id quotation))) (\<lambda>lines.
        bnd uuid7 (\<lambda>i.
        bnd (for_each (copy_quotation_line i) lines) (\<lambda>_.
        bnd (update_quotation quotation_id (\<lambda>q. q\<lparr>qt_converted_order_id := Some i\<rparr>)) (\<lambda>_.
        bnd period (\<lambda>p.
        bnd (allocate ''sales_order'' p) (\<lambda>number.
        let order =
          \<lparr>so_id = i, so_number = number, so_customer_id = qt_customer_id quotation, so_branch_id = qt_branch_id quotation,
           so_warehouse_id = qv_warehouse_id payload, so_quotation_id = Some (qt_id quotation), so_status = SO_DRAFT,
           so_order_date = qv_order_date payload, so_net_amount = qt_net_amount quotation,
           so_tax_amount = qt_tax_amount quotation, so_total_amount = qt_total_amount quotation,
           so_notes = qt_notes quotation, so_confirmed_at = None, so_cancelled_at = None\<rparr>
        in
        bnd (modify (\<lambda>s. s\<lparr>sales_orders := sales_orders s @ [order]\<rparr>)) (\<lambda>_.
        bnd (audit_record context ''sales.quotation_converted'' ''quotation'' (Some (qt_id quotation))
              [(''sales_order_id'', MUuid i)]) (\<lambda>_.
        ret order)))))))))))))))"

section \<open>Orders\<close>

definition add_order_line ::
  "uuid \<Rightarrow> rat \<times> rat \<Rightarrow> LineInput \<Rightarrow> ('a sales_db_scheme, rat \<times> rat) tx"
where
  "add_order_line order_id acc item =
     (case acc of (net, tax) \<Rightarrow>
      bnd (get_product (li_product_id item)) (\<lambda>_.
      bnd (lift_res (line_totals (li_quantity item) (li_unit_price item) (li_discount_rate item) (li_tax_rate item)))
        (\<lambda>(line_net, line_tax, line_total).
      bnd uuid7 (\<lambda>i.
      bnd (modify (\<lambda>s. s\<lparr>sales_order_lines := sales_order_lines s @
            [\<lparr>lt_quantity = li_quantity item, lt_unit_price = li_unit_price item, lt_discount_rate = li_discount_rate item,
              lt_tax_rate = li_tax_rate item, lt_net_amount = line_net, lt_tax_amount = line_tax, lt_total_amount = line_total,
              sol_id = i, sol_order_id = order_id, sol_product_id = li_product_id item,
              sol_description = li_description item, sol_fulfilled_quantity = 0, sol_invoiced_quantity = 0\<rparr>]\<rparr>)) (\<lambda>_.
      ret (dec_add net line_net, dec_add tax line_tax))))))"

definition create_order :: "TenantContext \<Rightarrow> SalesOrderCreate \<Rightarrow> ('a sales_db_scheme, sales_order) tx" where
  "create_order context payload =
     service_transaction sales_chk
       (bnd (require_warehouse context (oc_branch_id payload) (oc_warehouse_id payload)) (\<lambda>_.
        bnd (require (distinct (map li_product_id (oc_lines payload))) (DomainValidationError ''DUPLICATE_LINE'')) (\<lambda>_.
        bnd uuid7 (\<lambda>i.
        bnd (for_acc (add_order_line i) (0, 0) (oc_lines payload)) (\<lambda>(net, tax).
        bnd period (\<lambda>p.
        bnd (allocate ''sales_order'' p) (\<lambda>number.
        let order =
          \<lparr>so_id = i, so_number = number, so_customer_id = oc_customer_id payload, so_branch_id = oc_branch_id payload,
           so_warehouse_id = oc_warehouse_id payload, so_quotation_id = None, so_status = SO_DRAFT,
           so_order_date = oc_order_date payload, so_net_amount = net, so_tax_amount = tax,
           so_total_amount = dec_add net tax, so_notes = oc_notes payload, so_confirmed_at = None, so_cancelled_at = None\<rparr>
        in
        bnd (modify (\<lambda>s. s\<lparr>sales_orders := sales_orders s @ [order]\<rparr>)) (\<lambda>_.
        bnd (audit_record context ''sales.order_created'' ''sales_order'' (Some i) []) (\<lambda>_.
        ret order)))))))))"

definition update_order :: "uuid \<Rightarrow> (sales_order \<Rightarrow> sales_order) \<Rightarrow> ('a sales_db_scheme, unit) tx" where
  "update_order i f = modify (\<lambda>s. s\<lparr>sales_orders := upd_where (\<lambda>o'. so_id o' = i) f (sales_orders s)\<rparr>)"

definition confirm_order :: "TenantContext \<Rightarrow> uuid \<Rightarrow> ('a sales_db_scheme, sales_order) tx" where
  "confirm_order context order_id =
     service_transaction sales_chk
       (bnd (gets (repo_order order_id)) (\<lambda>row.
        bnd (some_or NotFoundError row) (\<lambda>order.
        bnd (require_branch context (so_branch_id order)) (\<lambda>_.
        bnd (require_status (so_status order) [SO_DRAFT]) (\<lambda>_.
        bnd datetime_now (\<lambda>now.
        bnd (update_order order_id (\<lambda>o'. o'\<lparr>so_status := SO_CONFIRMED, so_confirmed_at := Some now\<rparr>)) (\<lambda>_.
        bnd (audit_record context ''sales.order_confirmed'' ''sales_order'' (Some (so_id order)) []) (\<lambda>_.
        ret (order\<lparr>so_status := SO_CONFIRMED, so_confirmed_at := Some now\<rparr>)))))))))"

definition cancel_order :: "TenantContext \<Rightarrow> uuid \<Rightarrow> ('a sales_db_scheme, sales_order) tx" where
  "cancel_order context order_id =
     service_transaction sales_chk
       (bnd (gets (repo_order order_id)) (\<lambda>row.
        bnd (some_or NotFoundError row) (\<lambda>order.
        bnd (require_branch context (so_branch_id order)) (\<lambda>_.
        bnd (require_status (so_status order) [SO_DRAFT, SO_CONFIRMED, SO_PARTIALLY_FULFILLED]) (\<lambda>_.
        bnd (gets (order_lines (so_id order))) (\<lambda>lines.
        bnd (require (\<not> list_ex (\<lambda>l. sol_fulfilled_quantity l > 0) lines) (ConflictError ''ORDER_PARTIALLY_FULFILLED'')) (\<lambda>_.
        bnd datetime_now (\<lambda>now.
        bnd (update_order order_id (\<lambda>o'. o'\<lparr>so_status := SO_CANCELLED, so_cancelled_at := Some now\<rparr>)) (\<lambda>_.
        bnd (audit_record context ''sales.order_cancelled'' ''sales_order'' (Some (so_id order)) []) (\<lambda>_.
        ret (order\<lparr>so_status := SO_CANCELLED, so_cancelled_at := Some now\<rparr>)))))))))))"

definition get_order :: "TenantContext \<Rightarrow> uuid \<Rightarrow> ('a sales_db_scheme, sales_order \<times> sales_order_line list) tx" where
  "get_order context order_id =
     service_transaction sales_chk
       (bnd (gets (repo_order order_id)) (\<lambda>row.
        bnd (some_or NotFoundError row) (\<lambda>order.
        bnd (require_branch context (so_branch_id order)) (\<lambda>_.
        bnd (gets (order_lines (so_id order))) (\<lambda>lines.
        ret (order, lines))))))"

definition list_orders ::
  "TenantContext \<Rightarrow> nat \<Rightarrow> nat \<Rightarrow> string option \<Rightarrow> uuid option \<Rightarrow> ('a sales_db_scheme, sales_order list \<times> nat) tx"
where
  "list_orders context page page_size status customer_id =
     service_transaction sales_chk
       (bnd (check_status_filter (map order_status_value [SO_DRAFT, SO_CONFIRMED, SO_PARTIALLY_FULFILLED, SO_FULFILLED, SO_CANCELLED])
              status) (\<lambda>_.
        gets (\<lambda>s. page_of (\<lambda>o'. (so_order_date o', so_id o')) page page_size
          (filter (order_matches status customer_id (branch_ids context)) (sales_orders s)))))"

section \<open>Fulfillment\<close>

text \<open>The dictionary of requested quantities by order line.\<close>

definition outstanding_lines :: "sales_order_line list \<Rightarrow> (uuid \<times> rat) list" where
  "outstanding_lines lines =
     map (\<lambda>l. (sol_id l, dec_sub (lt_quantity l) (sol_fulfilled_quantity l)))
       (filter (\<lambda>l. lt_quantity l > sol_fulfilled_quantity l) lines)"

definition request_line ::
  "sales_order_line list \<Rightarrow> (uuid \<times> rat) list \<Rightarrow> FulfillmentLineInput \<Rightarrow> ('s, (uuid \<times> rat) list) tx"
where
  "request_line lines requested item =
     bnd (require (fli_order_line_id item \<in> set (map sol_id lines)) NotFoundError) (\<lambda>_.
     ret (dict_set (fli_order_line_id item) (fli_quantity item) requested))"

definition requested_lines ::
  "FulfillmentCreate \<Rightarrow> sales_order_line list \<Rightarrow> ('s, (uuid \<times> rat) list) tx"
where
  "requested_lines payload lines =
     (case fc_lines payload of
        None \<Rightarrow> ret (outstanding_lines lines)
      | Some items \<Rightarrow> for_acc (request_line lines) [] items)"

definition update_order_line :: "uuid \<Rightarrow> (sales_order_line \<Rightarrow> sales_order_line) \<Rightarrow> ('a sales_db_scheme, unit) tx" where
  "update_order_line i f =
     modify (\<lambda>s. s\<lparr>sales_order_lines := upd_where (\<lambda>l. sol_id l = i) f (sales_order_lines s)\<rparr>)"

definition line_by_id :: "uuid \<Rightarrow> sales_order_line list \<Rightarrow> sales_order_line option" where
  "line_by_id i lines = find (\<lambda>l. sol_id l = i) lines"

definition consume_stock ::
  "TenantContext \<Rightarrow> sales_order \<Rightarrow> uuid \<Rightarrow> product \<Rightarrow> rat \<Rightarrow> rat \<Rightarrow> ('a sales_db_scheme, rat) tx"
where
  "consume_stock context order fulfillment_id product quantity cost =
     (if pr_is_stock_tracked product then
        bnd (post_movement_for_document context (so_warehouse_id order) product SALE (ctx28 (- quantity)) None
              ''fulfillment'' fulfillment_id) (\<lambda>_.
        bnd (gets (product_cost product)) (\<lambda>unit_cost.
        ret (dec_add cost (dec_mul quantity unit_cost))))
      else ret cost)"

definition fulfil_line ::
  "TenantContext \<Rightarrow> sales_order \<Rightarrow> uuid \<Rightarrow> sales_order_line list \<Rightarrow> rat \<Rightarrow> uuid \<times> rat \<Rightarrow> ('a sales_db_scheme, rat) tx"
where
  "fulfil_line context order fulfillment_id lines cost request =
     (case request of (line_id, quantity) \<Rightarrow>
      bnd (some_or KeyError (line_by_id line_id lines)) (\<lambda>line.
      bnd (require (\<not> quantity > dec_sub (lt_quantity line) (sol_fulfilled_quantity line)) (ConflictError ''OVER_FULFILMENT'')) (\<lambda>_.
      bnd (get_product (sol_product_id line)) (\<lambda>product.
      bnd (consume_stock context order fulfillment_id product quantity cost) (\<lambda>cost.
      bnd (update_order_line line_id (\<lambda>l. l\<lparr>sol_fulfilled_quantity := dec_add (sol_fulfilled_quantity l) quantity\<rparr>)) (\<lambda>_.
      bnd uuid7 (\<lambda>i.
      bnd (modify (\<lambda>s. s\<lparr>fulfillment_lines := fulfillment_lines s @
            [\<lparr>fl_id = i, fl_fulfillment_id = fulfillment_id, fl_order_line_id = line_id,
              fl_product_id = sol_product_id line, fl_quantity = quantity\<rparr>]\<rparr>)) (\<lambda>_.
      ret cost))))))))"

definition post_fulfillment :: "TenantContext \<Rightarrow> fulfillment \<Rightarrow> rat \<Rightarrow> ('a sales_db_scheme, unit) tx" where
  "post_fulfillment context fulfillment cost =
     run_if (\<not> cost \<le> 0)
       (bnd (post sales_flush_chk context (utc_date (ff_shipped_at fulfillment)) (''Fulfillment '' @ ff_number fulfillment)
              ''fulfillment'' (ff_id fulfillment) ''FULFILLMENT_COGS'' (cogs_recognition cost) False [] None) (\<lambda>_.
        ret ()))"

definition by_product :: "sales_order_line list \<Rightarrow> uuid \<times> rat \<Rightarrow> uuid" where
  "by_product lines r = (case line_by_id (fst r) lines of None \<Rightarrow> 0 | Some l \<Rightarrow> sol_product_id l)"

definition fulfil :: "TenantContext \<Rightarrow> uuid \<Rightarrow> FulfillmentCreate \<Rightarrow> ('a sales_db_scheme, fulfillment) tx" where
  "fulfil context order_id payload =
     service_transaction sales_chk
       (bnd (gets (repo_order order_id)) (\<lambda>row.
        bnd (some_or NotFoundError row) (\<lambda>order.
        bnd (require_branch context (so_branch_id order)) (\<lambda>_.
        bnd (require_status (so_status order) [SO_CONFIRMED, SO_PARTIALLY_FULFILLED]) (\<lambda>_.
        bnd (gets (order_lines (so_id order))) (\<lambda>lines.
        bnd (requested_lines payload lines) (\<lambda>requested.
        bnd (require (requested \<noteq> []) (ConflictError ''NOTHING_TO_FULFIL'')) (\<lambda>_.
        bnd uuid7 (\<lambda>i.
        bnd datetime_now (\<lambda>now.
        bnd (for_acc (fulfil_line context order i lines) 0 (sort_key (by_product lines) requested)) (\<lambda>cost.
        bnd (gets (order_lines (so_id order))) (\<lambda>lines.
        bnd (update_order order_id (\<lambda>o'. o'\<lparr>so_status :=
              if list_all (\<lambda>l. sol_fulfilled_quantity l \<ge> lt_quantity l) lines then SO_FULFILLED else SO_PARTIALLY_FULFILLED\<rparr>)) (\<lambda>_.
        bnd period (\<lambda>p.
        bnd (allocate ''fulfillment'' p) (\<lambda>number.
        let fulfillment = \<lparr>ff_id = i, ff_number = number, ff_order_id = so_id order, ff_warehouse_id = so_warehouse_id order,
                           ff_shipped_at = now, ff_notes = fc_notes payload\<rparr>
        in
        bnd (modify (\<lambda>s. s\<lparr>fulfillments := fulfillments s @ [fulfillment]\<rparr>)) (\<lambda>_.
        bnd (post_fulfillment context fulfillment cost) (\<lambda>_.
        bnd (audit_record context ''sales.fulfillment_posted'' ''fulfillment'' (Some i) []) (\<lambda>_.
        ret fulfillment))))))))))))))))))"

section \<open>Invoices\<close>

definition add_invoice_line ::
  "uuid \<Rightarrow> bool \<Rightarrow> rat \<times> rat \<times> bool \<Rightarrow> sales_order_line \<Rightarrow> ('a sales_db_scheme, rat \<times> rat \<times> bool) tx"
where
  "add_invoice_line invoice_id fulfilled_only acc line =
     (case acc of (net, tax, billed_any) \<Rightarrow>
      let ceiling = (if fulfilled_only then sol_fulfilled_quantity line else lt_quantity line);
          quantity = dec_sub ceiling (sol_invoiced_quantity line)
      in
      if quantity \<le> 0 then ret (net, tax, billed_any)
      else
        bnd (lift_res (line_totals quantity (lt_unit_price line) (lt_discount_rate line) (lt_tax_rate line)))
          (\<lambda>(line_net, line_tax, line_total).
        bnd uuid7 (\<lambda>i.
        bnd (modify (\<lambda>s. s\<lparr>invoice_lines := invoice_lines s @
              [\<lparr>lt_quantity = quantity, lt_unit_price = lt_unit_price line, lt_discount_rate = lt_discount_rate line,
                lt_tax_rate = lt_tax_rate line, lt_net_amount = line_net, lt_tax_amount = line_tax,
                lt_total_amount = line_total, il_id = i, il_invoice_id = invoice_id, il_product_id = sol_product_id line,
                il_order_line_id = Some (sol_id line), il_description = sol_description line, il_credited_quantity = 0\<rparr>]\<rparr>)) (\<lambda>_.
        bnd (update_order_line (sol_id line) (\<lambda>l. l\<lparr>sol_invoiced_quantity := dec_add (sol_invoiced_quantity l) quantity\<rparr>)) (\<lambda>_.
        ret (dec_add net line_net, dec_add tax line_tax, True))))))"

definition create_invoice :: "TenantContext \<Rightarrow> InvoiceCreate \<Rightarrow> ('a sales_db_scheme, invoice) tx" where
  "create_invoice context payload =
     service_transaction sales_chk
       (bnd (gets (repo_order (ic_sales_order_id payload))) (\<lambda>row.
        bnd (some_or NotFoundError row) (\<lambda>order.
        bnd (require_branch context (so_branch_id order)) (\<lambda>_.
        bnd (require_status (so_status order) [SO_CONFIRMED, SO_PARTIALLY_FULFILLED, SO_FULFILLED]) (\<lambda>_.
        bnd (gets (order_lines (so_id order))) (\<lambda>lines.
        bnd uuid7 (\<lambda>i.
        bnd (for_acc (add_invoice_line i (ic_invoice_fulfilled_only payload)) (0, 0, False) lines) (\<lambda>(net, tax, billed_any).
        bnd (require billed_any (ConflictError ''NOTHING_TO_INVOICE'')) (\<lambda>_.
        let invoice =
          \<lparr>inv_id = i, inv_number = None, inv_customer_id = so_customer_id order, inv_branch_id = so_branch_id order,
           inv_order_id = Some (so_id order), inv_status = INV_DRAFT, inv_issue_date = ic_issue_date payload,
           inv_due_date = ic_due_date payload, inv_net_amount = net, inv_tax_amount = tax,
           inv_total_amount = dec_add net tax, inv_paid_amount = 0, inv_notes = ic_notes payload, inv_issued_at = None\<rparr>
        in
        bnd (modify (\<lambda>s. s\<lparr>invoices := invoices s @ [invoice]\<rparr>)) (\<lambda>_.
        bnd (audit_record context ''sales.invoice_created'' ''invoice'' (Some i) []) (\<lambda>_.
        ret invoice)))))))))))"

definition update_invoice :: "uuid \<Rightarrow> (invoice \<Rightarrow> invoice) \<Rightarrow> ('a sales_db_scheme, unit) tx" where
  "update_invoice i f = modify (\<lambda>s. s\<lparr>invoices := upd_where (\<lambda>v. inv_id v = i) f (invoices s)\<rparr>)"

definition number_text :: "string option \<Rightarrow> string" where
  "number_text n = (case n of None \<Rightarrow> ''None'' | Some t \<Rightarrow> t)"

definition post_invoice :: "TenantContext \<Rightarrow> invoice \<Rightarrow> ('a sales_db_scheme, unit) tx" where
  "post_invoice context invoice =
     run_if (\<not> dec_add (inv_net_amount invoice) (inv_tax_amount invoice) \<le> 0)
       (bnd (post sales_flush_chk context (inv_issue_date invoice) (''Invoice '' @ number_text (inv_number invoice)) ''invoice''
              (inv_id invoice) ''INVOICE_ISSUED'' (credit_sale (inv_net_amount invoice) (inv_tax_amount invoice)) False [] None) (\<lambda>_.
        ret ()))"

definition record_vat_groups ::
  "vat_direction \<Rightarrow> date \<Rightarrow> string \<Rightarrow> uuid \<Rightarrow> bool \<Rightarrow> (rat \<times> rat \<times> rat) list \<Rightarrow> ('a vat_db_scheme, unit) tx"
where
  "record_vat_groups direction occurred_on source_type source_id is_reversal lines =
     bnd (for_each (\<lambda>(rate, net, tax).
            vat_record direction occurred_on source_type source_id net tax rate None is_reversal)
           (group_taxable_lines lines)) (\<lambda>_.
     ret ())"

definition record_vat_for_invoice :: "invoice \<Rightarrow> ('a sales_db_scheme, unit) tx" where
  "record_vat_for_invoice invoice =
     bnd (gets (repo_invoice_lines (inv_id invoice))) (\<lambda>lines.
     record_vat_groups OUTPUT (inv_issue_date invoice) ''invoice'' (inv_id invoice) False
       (map (\<lambda>l. (lt_tax_rate l, lt_net_amount l, lt_tax_amount l)) lines))"

text \<open>The replayed result, when the key was used before and the document still exists.\<close>

definition replayed :: "bool \<times> string option \<times> int option \<Rightarrow> (uuid \<Rightarrow> 's \<Rightarrow> 'r option) \<Rightarrow> 's \<Rightarrow> 'r option" where
  "replayed claimed lookup s =
     (case claimed of (won, stored, _) \<Rightarrow>
        if \<not> won then (case stored of None \<Rightarrow> None | Some body \<Rightarrow> lookup (nat_of_digits 0 body) s) else None)"

definition issue_draft :: "TenantContext \<Rightarrow> uuid \<Rightarrow> ('a sales_db_scheme, invoice) tx" where
  "issue_draft context invoice_id =
     bnd (gets (repo_invoice invoice_id)) (\<lambda>row.
     bnd (some_or NotFoundError row) (\<lambda>invoice.
     bnd (require_branch context (inv_branch_id invoice)) (\<lambda>_.
     bnd (require_status (inv_status invoice) [INV_DRAFT]) (\<lambda>_.
     bnd datetime_now (\<lambda>now.
     bnd period (\<lambda>p.
     bnd (allocate ''invoice'' p) (\<lambda>number.
     let issued = invoice\<lparr>inv_status := INV_ISSUED, inv_issued_at := Some now, inv_number := Some number\<rparr>
     in
     bnd (update_invoice invoice_id
           (\<lambda>v. v\<lparr>inv_status := INV_ISSUED, inv_issued_at := Some now, inv_number := Some number\<rparr>)) (\<lambda>_.
     bnd (post_invoice context issued) (\<lambda>_.
     bnd (record_vat_for_invoice issued) (\<lambda>_.
     bnd (audit_record context ''sales.invoice_issued'' ''invoice'' (Some (inv_id issued))
           [(''invoice_number'', MStr number)]) (\<lambda>_.
     ret issued)))))))))))"

definition ISSUE_ENDPOINT :: string where
  "ISSUE_ENDPOINT = ''POST /invoices/{id}/issue''"

definition issue_invoice ::
  "(uuid \<Rightarrow> string) \<Rightarrow> bool \<Rightarrow> TenantContext \<Rightarrow> uuid \<Rightarrow> string \<Rightarrow> ('a sales_db_scheme, invoice \<times> bool) tx"
where
  "issue_invoice request_hash in_flight context invoice_id key =
     service_transaction sales_chk
       (bnd (claim request_hash in_flight ISSUE_ENDPOINT key invoice_id) (\<lambda>claimed.
        bnd (gets (replayed claimed repo_invoice)) (\<lambda>existing.
        case existing of
          Some v \<Rightarrow> bnd (require_branch context (inv_branch_id v)) (\<lambda>_. ret (v, True))
        | None \<Rightarrow>
            bnd (issue_draft context invoice_id) (\<lambda>invoice.
            bnd (complete_key ISSUE_ENDPOINT key 200 (str_nat (inv_id invoice))) (\<lambda>_.
            ret (invoice, False))))))"

definition get_invoice :: "TenantContext \<Rightarrow> uuid \<Rightarrow> ('a sales_db_scheme, invoice \<times> invoice_line list) tx" where
  "get_invoice context invoice_id =
     service_transaction sales_chk
       (bnd (gets (repo_invoice invoice_id)) (\<lambda>row.
        bnd (some_or NotFoundError row) (\<lambda>invoice.
        bnd (require_branch context (inv_branch_id invoice)) (\<lambda>_.
        bnd (gets (repo_invoice_lines (inv_id invoice))) (\<lambda>lines.
        ret (invoice, lines))))))"

definition list_invoices ::
  "TenantContext \<Rightarrow> nat \<Rightarrow> nat \<Rightarrow> string option \<Rightarrow> uuid option \<Rightarrow> ('a sales_db_scheme, invoice list \<times> nat) tx"
where
  "list_invoices context page page_size status customer_id =
     service_transaction sales_chk
       (bnd (check_status_filter (map invoice_status_value [INV_DRAFT, INV_ISSUED, INV_PARTIALLY_PAID, INV_PAID, INV_CANCELLED]) status) (\<lambda>_.
        gets (\<lambda>s. page_of (\<lambda>v. (inv_issue_date v, inv_id v)) page page_size
          (filter (invoice_matches status customer_id (branch_ids context)) (invoices s)))))"


section \<open>Payments\<close>

definition settled_status :: "rat \<Rightarrow> rat \<Rightarrow> invoice_status" where
  "settled_status paid due = (if paid \<ge> due then INV_PAID else INV_PARTIALLY_PAID)"

definition allocate_payment ::
  "TenantContext \<Rightarrow> PaymentCreate \<Rightarrow> uuid \<Rightarrow> AllocationInput \<Rightarrow> ('a sales_db_scheme, payment_allocation) tx"
where
  "allocate_payment context payload payment_id item =
     bnd (gets (repo_invoice (ai_invoice_id item))) (\<lambda>row.
     bnd (some_or NotFoundError row) (\<lambda>invoice.
     bnd (require_branch context (inv_branch_id invoice)) (\<lambda>_.
     bnd (require (inv_customer_id invoice = pm_customer_id payload \<and> inv_branch_id invoice = pm_branch_id payload)
           (DomainValidationError ''ALLOCATION_TARGET_MISMATCH'')) (\<lambda>_.
     bnd (require_status (inv_status invoice) [INV_ISSUED, INV_PARTIALLY_PAID]) (\<lambda>_.
     bnd (require (\<not> ai_amount item > dec_sub (inv_total_amount invoice) (inv_paid_amount invoice))
           (ConflictError ''OVER_ALLOCATION'')) (\<lambda>_.
     bnd (lift_res (round_money (dec_add (inv_paid_amount invoice) (ai_amount item)))) (\<lambda>paid.
     bnd (update_invoice (inv_id invoice)
           (\<lambda>v. v\<lparr>inv_paid_amount := paid, inv_status := settled_status paid (inv_total_amount invoice)\<rparr>)) (\<lambda>_.
     bnd uuid7 (\<lambda>i.
     let allocation = \<lparr>pa_id = i, pa_payment_id = payment_id, pa_invoice_id = Some (inv_id invoice),
                       pa_supplier_bill_id = None, pa_amount = ai_amount item\<rparr>
     in
     bnd (modify (\<lambda>s. s\<lparr>payment_allocations := payment_allocations s @ [allocation]\<rparr>)) (\<lambda>_.
     ret allocation))))))))))"

definition post_payment :: "TenantContext \<Rightarrow> payment \<Rightarrow> ('a sales_db_scheme, unit) tx" where
  "post_payment context payment =
     run_if (\<not> pay_amount payment \<le> 0)
       (bnd (post sales_flush_chk context (pay_payment_date payment) (''Customer payment '' @ pay_number payment) ''payment''
              (pay_id payment) ''CUSTOMER_PAYMENT'' (customer_payment (pay_amount payment) (pay_method payment = CASH)) False [] None) (\<lambda>_.
        ret ()))"

definition PAYMENT_ENDPOINT :: string where
  "PAYMENT_ENDPOINT = ''POST /sales/payments''"

text \<open>An empty key means no key.\<close>

definition claim_payment_key ::
  "('p \<Rightarrow> string) \<Rightarrow> bool \<Rightarrow> string \<Rightarrow> string option \<Rightarrow> 'p \<Rightarrow> ('a base_db_scheme, bool \<times> string option \<times> int option) tx"
where
  "claim_payment_key request_hash in_flight endpoint key payload =
     (if truthy key then claim request_hash in_flight endpoint (the key) payload else ret (True, None, None))"

definition take_payment ::
  "TenantContext \<Rightarrow> PaymentCreate \<Rightarrow> string option \<Rightarrow> ('a sales_db_scheme, payment \<times> payment_allocation list) tx"
where
  "take_payment context payload key =
     (let allocated = dec_sum (map ai_amount (pm_allocations payload)) in
      bnd (require (\<not> allocated > pm_amount payload) (DomainValidationError ''OVER_ALLOCATION'')) (\<lambda>_.
      bnd uuid7 (\<lambda>i.
      bnd (for_each (allocate_payment context payload i) (sort_key ai_invoice_id (pm_allocations payload))) (\<lambda>allocations.
      bnd period (\<lambda>p.
      bnd (allocate ''sales_payment'' p) (\<lambda>number.
      let payment =
        \<lparr>pay_id = i, pay_number = number, pay_direction = INBOUND, pay_customer_id = Some (pm_customer_id payload),
         pay_supplier_id = None, pay_branch_id = pm_branch_id payload, pay_method = pm_method payload,
         pay_amount = pm_amount payload, pay_allocated_amount = allocated, pay_payment_date = pm_payment_date payload,
         pay_reference = pm_reference payload, pay_notes = pm_notes payload, pay_idempotency_key = key\<rparr>
      in
      bnd (modify (\<lambda>s. s\<lparr>payments := payments s @ [payment]\<rparr>)) (\<lambda>_.
      bnd (post_payment context payment) (\<lambda>_.
      bnd (audit_record context ''sales.payment_recorded'' ''payment'' (Some i)
            [(''amount'', MDec (pay_amount payment)), (''allocated'', MDec allocated)]) (\<lambda>_.
      ret (payment, allocations))))))))))"

definition record_payment ::
  "(PaymentCreate \<Rightarrow> string) \<Rightarrow> bool \<Rightarrow> TenantContext \<Rightarrow> PaymentCreate \<Rightarrow> string option \<Rightarrow>
     ('a sales_db_scheme, payment \<times> payment_allocation list \<times> bool) tx"
where
  "record_payment request_hash in_flight context payload key =
     service_transaction sales_chk
       (bnd (require_branch context (pm_branch_id payload)) (\<lambda>_.
        bnd (claim_payment_key request_hash in_flight PAYMENT_ENDPOINT key payload) (\<lambda>claimed.
        bnd (gets (replayed claimed repo_payment)) (\<lambda>existing.
        case existing of
          Some p \<Rightarrow> bnd (gets (repo_allocations (pay_id p))) (\<lambda>allocations. ret (p, allocations, True))
        | None \<Rightarrow>
            bnd (take_payment context payload key) (\<lambda>(payment, allocations).
            bnd (run_if (truthy key) (complete_key PAYMENT_ENDPOINT (the key) 201 (str_nat (pay_id payment)))) (\<lambda>_.
            ret (payment, allocations, False)))))))"

section \<open>Credit notes\<close>

definition restock_line ::
  "TenantContext \<Rightarrow> CreditNoteCreate \<Rightarrow> uuid \<Rightarrow> uuid \<Rightarrow> rat \<Rightarrow> rat \<Rightarrow> ('a sales_db_scheme, rat) tx"
where
  "restock_line context payload note_id product_id quantity cost =
     (if cc_restock payload \<and> cc_warehouse_id payload \<noteq> None then
        bnd (get_product product_id) (\<lambda>product.
        if pr_is_stock_tracked product then
          bnd (post_movement_for_document context (the (cc_warehouse_id payload)) product SALE_RETURN quantity None
                ''credit_note'' note_id) (\<lambda>_.
          bnd (gets (product_cost product)) (\<lambda>unit_cost.
          ret (dec_add cost (dec_mul quantity unit_cost))))
        else ret cost)
      else ret cost)"

definition update_invoice_line :: "uuid \<Rightarrow> (invoice_line \<Rightarrow> invoice_line) \<Rightarrow> ('a sales_db_scheme, unit) tx" where
  "update_invoice_line i f = modify (\<lambda>s. s\<lparr>invoice_lines := upd_where (\<lambda>l. il_id l = i) f (invoice_lines s)\<rparr>)"

definition credit_line_of ::
  "TenantContext \<Rightarrow> CreditNoteCreate \<Rightarrow> uuid \<Rightarrow> uuid \<Rightarrow> rat \<times> rat \<times> rat \<times> (rat \<times> rat \<times> rat) list \<Rightarrow> CreditNoteLineInput \<Rightarrow>
     ('a sales_db_scheme, rat \<times> rat \<times> rat \<times> (rat \<times> rat \<times> rat) list) tx"
where
  "credit_line_of context payload invoice_id note_id acc item =
     (case acc of (net, tax, cost, rate_lines) \<Rightarrow>
      bnd (gets (repo_invoice_line (cni_invoice_line_id item))) (\<lambda>row.
      bnd (some_or NotFoundError row) (\<lambda>line.
      bnd (require (il_invoice_id line = invoice_id) NotFoundError) (\<lambda>_.
      bnd (require (\<not> cni_quantity item > dec_sub (lt_quantity line) (il_credited_quantity line)) (ConflictError ''OVER_CREDIT'')) (\<lambda>_.
      bnd (update_invoice_line (il_id line)
            (\<lambda>l. l\<lparr>il_credited_quantity := dec_add (il_credited_quantity l) (cni_quantity item)\<rparr>)) (\<lambda>_.
      bnd (lift_res (line_totals (cni_quantity item) (lt_unit_price line) (lt_discount_rate line) (lt_tax_rate line)))
        (\<lambda>(line_net, line_tax, line_total).
      bnd uuid7 (\<lambda>i.
      bnd (modify (\<lambda>s. s\<lparr>credit_note_lines := credit_note_lines s @
            [\<lparr>lt_quantity = cni_quantity item, lt_unit_price = lt_unit_price line, lt_discount_rate = lt_discount_rate line,
              lt_tax_rate = lt_tax_rate line, lt_net_amount = line_net, lt_tax_amount = line_tax,
              lt_total_amount = line_total, cl_id = i, cl_credit_note_id = note_id, cl_invoice_line_id = il_id line,
              cl_product_id = il_product_id line, cl_description = il_description line\<rparr>]\<rparr>)) (\<lambda>_.
      bnd (restock_line context payload note_id (il_product_id line) (cni_quantity item) cost) (\<lambda>cost.
      ret (dec_add net line_net, dec_add tax line_tax, cost, rate_lines @ [(lt_tax_rate line, line_net, line_tax)])))))))))))"

definition post_credit_note :: "TenantContext \<Rightarrow> credit_note \<Rightarrow> rat \<Rightarrow> ('a sales_db_scheme, unit) tx" where
  "post_credit_note context note cost =
     (case sales_return (cn_net_amount note) (cn_tax_amount note) cost of (revenue_lines, cost_lines) \<Rightarrow>
      bnd (run_if (dec_add (cn_net_amount note) (cn_tax_amount note) > 0)
            (bnd (post sales_flush_chk context (cn_issue_date note) (''Credit note '' @ number_text (cn_number note)) ''credit_note''
                   (cn_id note) ''CREDIT_NOTE_REVENUE'' revenue_lines False [] None) (\<lambda>_. ret ()))) (\<lambda>_.
      case cost_lines of
        None \<Rightarrow> ret ()
      | Some lines \<Rightarrow>
          bnd (post sales_flush_chk context (cn_issue_date note) (''Credit note COGS reversal '' @ number_text (cn_number note))
                ''credit_note'' (cn_id note) ''CREDIT_NOTE_COGS'' lines False [] None) (\<lambda>_. ret ())))"

definition record_vat_for_credit_note :: "credit_note \<Rightarrow> (rat \<times> rat \<times> rat) list \<Rightarrow> ('a sales_db_scheme, unit) tx" where
  "record_vat_for_credit_note note rate_lines =
     record_vat_groups OUTPUT (cn_issue_date note) ''credit_note'' (cn_id note) True rate_lines"

definition issue_credit_note :: "TenantContext \<Rightarrow> CreditNoteCreate \<Rightarrow> ('a sales_db_scheme, credit_note) tx" where
  "issue_credit_note context payload =
     service_transaction sales_chk
       (bnd (gets (repo_invoice (cc_invoice_id payload))) (\<lambda>row.
        bnd (some_or NotFoundError row) (\<lambda>invoice.
        bnd (require_branch context (inv_branch_id invoice)) (\<lambda>_.
        bnd (require_status (inv_status invoice) [INV_ISSUED, INV_PARTIALLY_PAID, INV_PAID]) (\<lambda>_.
        bnd (require (\<not> (cc_restock payload \<and> cc_warehouse_id payload = None)) (DomainValidationError ''WAREHOUSE_REQUIRED'')) (\<lambda>_.
        bnd (case cc_warehouse_id payload of None \<Rightarrow> ret () | Some w \<Rightarrow> require_warehouse context (inv_branch_id invoice) w) (\<lambda>_.
        bnd uuid7 (\<lambda>i.
        bnd datetime_now (\<lambda>now.
        bnd (for_acc (credit_line_of context payload (inv_id invoice) i) (0, 0, 0, [])
              (sort_key cni_invoice_line_id (cc_lines payload))) (\<lambda>(net, tax, cost, rate_lines).
        bnd period (\<lambda>p.
        bnd (allocate ''credit_note'' p) (\<lambda>number.
        let note =
          \<lparr>cn_id = i, cn_number = Some number, cn_invoice_id = inv_id invoice, cn_customer_id = inv_customer_id invoice,
           cn_branch_id = inv_branch_id invoice, cn_status = CN_ISSUED, cn_issue_date = cc_issue_date payload,
           cn_reason = cc_reason payload, cn_restock = cc_restock payload, cn_warehouse_id = cc_warehouse_id payload,
           cn_net_amount = net, cn_tax_amount = tax, cn_total_amount = dec_add net tax, cn_notes = cc_notes payload,
           cn_issued_at = Some now\<rparr>
        in
        bnd (modify (\<lambda>s. s\<lparr>credit_notes := credit_notes s @ [note]\<rparr>)) (\<lambda>_.
        bnd (post_credit_note context note cost) (\<lambda>_.
        bnd (record_vat_for_credit_note note rate_lines) (\<lambda>_.
        bnd (audit_record context ''sales.credit_note_issued'' ''credit_note'' (Some i) []) (\<lambda>_.
        ret note))))))))))))))))"

section \<open>Reports and endpoints\<close>

definition receivables ::
  "(string \<Rightarrow> nat) \<Rightarrow> TenantContext \<Rightarrow> ('a sales_db_scheme, (uuid \<times> string \<times> rat \<times> rat) list \<times> rat) tx"
where
  "receivables name_key context =
     service_transaction sales_chk
       (bnd (gets (repo_receivables name_key (branch_ids context))) (\<lambda>rows.
        ret (rows, dec_sum (map (\<lambda>(i, n, invoiced, paid). dec_sub invoiced paid) rows))))"

definition ar_aging ::
  "(string \<Rightarrow> nat) \<Rightarrow> TenantContext \<Rightarrow> date \<Rightarrow> ('a sales_db_scheme, (uuid \<times> string \<times> rat list \<times> rat) list) tx"
where
  "ar_aging name_key context as_of =
     service_transaction sales_chk (bnd (gets (repo_ar_aging name_key as_of (branch_ids context))) lift_res)"

text \<open>Issuing and paying require the \<open>Idempotency-Key\<close> header.\<close>

definition route_issue_invoice where
  "route_issue_invoice request_hash in_flight context invoice_id key =
     bnd (require (truthy key) (DomainValidationError ''IDEMPOTENCY_KEY_REQUIRED'')) (\<lambda>_.
     issue_invoice request_hash in_flight context invoice_id (the key))"

definition route_record_payment where
  "route_record_payment request_hash in_flight context payload key =
     bnd (require (truthy key) (DomainValidationError ''IDEMPOTENCY_KEY_REQUIRED'')) (\<lambda>_.
     record_payment request_hash in_flight context payload key)"

end
