(* ===== verification/Purchasing.thy ===== *)
theory Purchasing
  imports Sales_Service
begin

text \<open>
  The purchasing workflow: \<^verbatim>\<open>modules/purchasing/models.py\<close>, \<^verbatim>\<open>repository.py\<close>, \<^verbatim>\<open>service.py\<close> and the guard its
  payment endpoint adds in \<^verbatim>\<open>router.py\<close>. Purchase orders are received into stock, billed by the supplier and
  paid; receipts carry the unit cost that moves the average cost of a product. The conventions are those of
  the sales workflow, whose payments table is shared. Operations that exist in both services carry the word
  \<open>purchase\<close> or \<open>supplier\<close> here.
\<close>

section \<open>Rows\<close>

datatype purchase_order_status = PO_DRAFT | PO_CONFIRMED | PO_PARTIALLY_RECEIVED | PO_RECEIVED | PO_CANCELLED

datatype supplier_bill_status = BILL_DRAFT | BILL_ISSUED | BILL_PARTIALLY_PAID | BILL_PAID | BILL_CANCELLED

record CostTotals =
  ct_quantity :: rat
  ct_unit_cost :: rat
  ct_tax_rate :: rat
  ct_net_amount :: rat
  ct_tax_amount :: rat
  ct_total_amount :: rat

record supplier =
  su_id :: uuid
  su_name :: string

record purchase_order =
  po_id :: uuid
  po_number :: string
  po_supplier_id :: uuid
  po_branch_id :: uuid
  po_warehouse_id :: uuid
  po_status :: purchase_order_status
  po_order_date :: date
  po_expected_date :: "date option"
  po_net_amount :: rat
  po_tax_amount :: rat
  po_total_amount :: rat
  po_notes :: "string option"
  po_confirmed_at :: "datetime option"
  po_cancelled_at :: "datetime option"

record purchase_order_line = CostTotals +
  pol_id :: uuid
  pol_order_id :: uuid
  pol_product_id :: uuid
  pol_description :: "string option"
  pol_received_quantity :: rat
  pol_billed_quantity :: rat

record GoodsReceipt =
  gr_id :: uuid
  gr_number :: string
  gr_purchase_order_id :: uuid
  gr_warehouse_id :: uuid
  gr_received_at :: datetime
  gr_supplier_reference :: "string option"
  gr_notes :: "string option"

record goods_receipt_line =
  grl_id :: uuid
  grl_goods_receipt_id :: uuid
  grl_order_line_id :: uuid
  grl_product_id :: uuid
  grl_quantity :: rat
  grl_unit_cost :: rat

record SupplierBill =
  sb_id :: uuid
  sb_number :: "string option"
  sb_supplier_id :: uuid
  sb_branch_id :: uuid
  sb_purchase_order_id :: "uuid option"
  sb_status :: supplier_bill_status
  sb_supplier_invoice_number :: "string option"
  sb_issue_date :: date
  sb_due_date :: "date option"
  sb_net_amount :: rat
  sb_tax_amount :: rat
  sb_total_amount :: rat
  sb_paid_amount :: rat
  sb_notes :: "string option"
  sb_issued_at :: "datetime option"

record supplier_bill_line = CostTotals +
  sbl_id :: uuid
  sbl_bill_id :: uuid
  sbl_order_line_id :: "uuid option"
  sbl_product_id :: uuid
  sbl_description :: "string option"

record purchasing_db = sales_db +
  suppliers :: "supplier list"
  purchase_orders :: "purchase_order list"
  purchase_order_lines :: "purchase_order_line list"
  goods_receipts :: "GoodsReceipt list"
  goods_receipt_lines :: "goods_receipt_line list"
  supplier_bills :: "SupplierBill list"
  supplier_bill_lines :: "supplier_bill_line list"

section \<open>Payloads\<close>

record PurchaseLineInput =
  pli_product_id :: uuid
  pli_quantity :: rat
  pli_unit_cost :: rat
  pli_tax_rate :: rat
  pli_description :: "string option"

record PurchaseOrderCreate =
  poc_supplier_id :: uuid
  poc_branch_id :: uuid
  poc_warehouse_id :: uuid
  poc_order_date :: date
  poc_expected_date :: "date option"
  poc_notes :: "string option"
  poc_lines :: "PurchaseLineInput list"

record ReceiptLineInput =
  rli_order_line_id :: uuid
  rli_quantity :: rat
  rli_unit_cost :: "rat option"

record GoodsReceiptCreate =
  grc_supplier_reference :: "string option"
  grc_notes :: "string option"
  grc_lines :: "ReceiptLineInput list option"

record SupplierBillCreate =
  sbc_purchase_order_id :: uuid
  sbc_issue_date :: date
  sbc_due_date :: "date option"
  sbc_supplier_invoice_number :: "string option"
  sbc_notes :: "string option"
  sbc_bill_received_only :: bool

record BillAllocationInput =
  bai_supplier_bill_id :: uuid
  bai_amount :: rat

record SupplierPaymentCreate =
  sp_supplier_id :: uuid
  sp_branch_id :: uuid
  sp_method :: payment_method
  sp_amount :: rat
  sp_payment_date :: date
  sp_reference :: "string option"
  sp_notes :: "string option"
  sp_allocations :: "BillAllocationInput list"

section \<open>Constraints\<close>

definition cost_line_ok :: "'a CostTotals_scheme \<Rightarrow> bool" where
  "cost_line_ok l \<longleftrightarrow> ct_quantity l > 0 \<and> ct_unit_cost l \<ge> 0"

definition cost_line_in_range :: "'a CostTotals_scheme \<Rightarrow> bool" where
  "cost_line_in_range l \<longleftrightarrow> in_range 14 (ct_quantity l) \<and> in_range 12 (ct_unit_cost l) \<and> in_range 14 (ct_net_amount l)
     \<and> in_range 14 (ct_tax_amount l) \<and> in_range 14 (ct_total_amount l)"

definition purchasing_constraints :: "'a purchasing_db_scheme \<Rightarrow> (bool \<times> error) list" where
  "purchasing_constraints s =
     [(unique_on po_id (purchase_orders s), IntegrityError),
      (unique_on po_number (purchase_orders s), IntegrityError),
      (list_all (\<lambda>p. po_total_amount p \<ge> 0) (purchase_orders s), IntegrityError),
      (list_all (\<lambda>p. po_supplier_id p \<in> set (map su_id (suppliers s))) (purchase_orders s), IntegrityError),
      (list_all (\<lambda>p. in_range 14 (po_total_amount p)) (purchase_orders s), overflow),
      (unique_on pol_id (purchase_order_lines s), IntegrityError),
      (unique_on (\<lambda>l. (pol_order_id l, pol_product_id l)) (purchase_order_lines s), IntegrityError),
      (list_all cost_line_ok (purchase_order_lines s), IntegrityError),
      (list_all cost_line_in_range (purchase_order_lines s), overflow),
      (list_all (\<lambda>l. pol_received_quantity l \<ge> 0 \<and> pol_received_quantity l \<le> ct_quantity l) (purchase_order_lines s), IntegrityError),
      (list_all (\<lambda>l. pol_billed_quantity l \<ge> 0 \<and> pol_billed_quantity l \<le> ct_quantity l) (purchase_order_lines s), IntegrityError),
      (unique_on gr_id (goods_receipts s), IntegrityError),
      (unique_on gr_number (goods_receipts s), IntegrityError),
      (unique_on grl_id (goods_receipt_lines s), IntegrityError),
      (list_all (\<lambda>l. grl_quantity l > 0 \<and> grl_unit_cost l \<ge> 0) (goods_receipt_lines s), IntegrityError),
      (unique_on sb_id (supplier_bills s), IntegrityError),
      (unique_where sb_number (\<lambda>b. sb_number b \<noteq> None) (supplier_bills s), IntegrityError),
      (list_all (\<lambda>b. sb_total_amount b \<ge> 0) (supplier_bills s), IntegrityError),
      (list_all (\<lambda>b. sb_paid_amount b \<ge> 0 \<and> sb_paid_amount b \<le> sb_total_amount b) (supplier_bills s), IntegrityError),
      (list_all (\<lambda>b. in_range 14 (sb_total_amount b)) (supplier_bills s), overflow),
      (unique_on sbl_id (supplier_bill_lines s), IntegrityError),
      (list_all cost_line_ok (supplier_bill_lines s), IntegrityError),
      (list_all cost_line_in_range (supplier_bill_lines s), overflow),
      (list_all (\<lambda>p. case pay_supplier_id p of None \<Rightarrow> True | Some u \<Rightarrow> u \<in> set (map su_id (suppliers s))) (payments s), IntegrityError)]"

definition purchasing_flush_chk :: "'a purchasing_db_scheme \<Rightarrow> error option" where
  "purchasing_flush_chk s =
     violated (base_constraints s @ inventory_constraints s @ accounting_constraints s @ vat_constraints s
       @ payment_constraints s @ purchasing_constraints s)"

definition purchasing_chk :: "'a purchasing_db_scheme \<Rightarrow> error option" where
  "purchasing_chk s =
     violated (base_constraints s @ inventory_constraints s @ accounting_constraints s @ vat_constraints s
       @ payment_constraints s @ purchasing_constraints s @ balance_trigger s)"

section \<open>Repository\<close>

definition repo_purchase_order :: "uuid \<Rightarrow> 'a purchasing_db_scheme \<Rightarrow> purchase_order option" where
  "repo_purchase_order i s = find (\<lambda>p. po_id p = i) (purchase_orders s)"

definition repo_purchase_order_lines :: "uuid \<Rightarrow> 'a purchasing_db_scheme \<Rightarrow> purchase_order_line list" where
  "repo_purchase_order_lines i s = sort_key pol_product_id (filter (\<lambda>l. pol_order_id l = i) (purchase_order_lines s))"

definition repo_bill :: "uuid \<Rightarrow> 'a purchasing_db_scheme \<Rightarrow> SupplierBill option" where
  "repo_bill i s = find (\<lambda>b. sb_id b = i) (supplier_bills s)"

definition repo_bill_lines :: "uuid \<Rightarrow> 'a purchasing_db_scheme \<Rightarrow> supplier_bill_line list" where
  "repo_bill_lines i s = sort_key sbl_product_id (filter (\<lambda>l. sbl_bill_id l = i) (supplier_bill_lines s))"

definition purchase_order_status_value :: "purchase_order_status \<Rightarrow> string" where
  "purchase_order_status_value st =
     (case st of PO_DRAFT \<Rightarrow> ''DRAFT'' | PO_CONFIRMED \<Rightarrow> ''CONFIRMED'' | PO_PARTIALLY_RECEIVED \<Rightarrow> ''PARTIALLY_RECEIVED''
      | PO_RECEIVED \<Rightarrow> ''RECEIVED'' | PO_CANCELLED \<Rightarrow> ''CANCELLED'')"

definition bill_status_value :: "supplier_bill_status \<Rightarrow> string" where
  "bill_status_value st =
     (case st of BILL_DRAFT \<Rightarrow> ''DRAFT'' | BILL_ISSUED \<Rightarrow> ''ISSUED'' | BILL_PARTIALLY_PAID \<Rightarrow> ''PARTIALLY_PAID''
      | BILL_PAID \<Rightarrow> ''PAID'' | BILL_CANCELLED \<Rightarrow> ''CANCELLED'')"

definition purchase_order_matches :: "string option \<Rightarrow> uuid option \<Rightarrow> uuid set option \<Rightarrow> purchase_order \<Rightarrow> bool" where
  "purchase_order_matches status supplier_id bids p \<longleftrightarrow>
     branch_in bids (po_branch_id p) \<and> (truthy status \<longrightarrow> purchase_order_status_value (po_status p) = the status)
     \<and> (supplier_id \<noteq> None \<longrightarrow> supplier_id = Some (po_supplier_id p))"

definition bill_matches :: "string option \<Rightarrow> uuid option \<Rightarrow> uuid set option \<Rightarrow> SupplierBill \<Rightarrow> bool" where
  "bill_matches status supplier_id bids b \<longleftrightarrow>
     branch_in bids (sb_branch_id b) \<and> (truthy status \<longrightarrow> bill_status_value (sb_status b) = the status)
     \<and> (supplier_id \<noteq> None \<longrightarrow> supplier_id = Some (sb_supplier_id b))"

definition payable :: "uuid set option \<Rightarrow> SupplierBill \<Rightarrow> bool" where
  "payable bids b \<longleftrightarrow> sb_status b \<in> {BILL_ISSUED, BILL_PARTIALLY_PAID, BILL_PAID} \<and> branch_in bids (sb_branch_id b)"

definition payable_bills :: "uuid set option \<Rightarrow> 'a purchasing_db_scheme \<Rightarrow> supplier \<Rightarrow> SupplierBill list" where
  "payable_bills bids s u = filter (\<lambda>b. sb_supplier_id b = su_id u \<and> payable bids b) (supplier_bills s)"

definition repo_payables :: "(string \<Rightarrow> nat) \<Rightarrow> uuid set option \<Rightarrow> 'a purchasing_db_scheme \<Rightarrow> (uuid \<times> string \<times> rat \<times> rat) list" where
  "repo_payables name_key bids s =
     filter (\<lambda>(i, n, billed, paid). billed - paid \<noteq> 0)
       (map (\<lambda>u. (su_id u, su_name u, sum_list (map sb_total_amount (payable_bills bids s u)),
                  sum_list (map sb_paid_amount (payable_bills bids s u))))
         (sort_key (\<lambda>u. name_key (su_name u)) (filter (\<lambda>u. payable_bills bids s u \<noteq> []) (suppliers s))))"

definition bill_balance :: "SupplierBill \<Rightarrow> rat" where
  "bill_balance b = sb_total_amount b - sb_paid_amount b"

definition ap_aging_row ::
  "date \<Rightarrow> uuid set option \<Rightarrow> 'a purchasing_db_scheme \<Rightarrow> supplier \<Rightarrow> error + uuid \<times> string \<times> rat list \<times> rat"
where
  "ap_aging_row as_of bids s u =
     (let bs = payable_bills bids s u;
          bucket = (\<lambda>k. sum_list (map bill_balance (filter (\<lambda>b. aging_bucket as_of k (sb_due_date b)) bs)))
      in res_bnd (res_map (\<lambda>k. round_money (bucket k)) [0, 1, 2, 3, 4]) (\<lambda>buckets.
         res_bnd (round_money (sum_list (map bill_balance bs))) (\<lambda>total.
         Inr (su_id u, su_name u, buckets, total))))"

definition repo_ap_aging ::
  "(string \<Rightarrow> nat) \<Rightarrow> date \<Rightarrow> uuid set option \<Rightarrow> 'a purchasing_db_scheme \<Rightarrow> error + (uuid \<times> string \<times> rat list \<times> rat) list"
where
  "repo_ap_aging name_key as_of bids s =
     res_map (ap_aging_row as_of bids s)
       (sort_key (\<lambda>u. name_key (su_name u))
         (filter (\<lambda>u. payable_bills bids s u \<noteq> [] \<and> sum_list (map bill_balance (payable_bills bids s u)) \<noteq> 0) (suppliers s)))"

end
