(* ===== verification/Purchasing_Service.thy ===== *)
theory Purchasing_Service
  imports Purchasing
begin

text \<open>The operations of \<^verbatim>\<open>PurchasingService\<close> (\<^verbatim>\<open>modules/purchasing/service.py\<close>) and the guard of its payment endpoint.\<close>

section \<open>Orders\<close>

definition add_purchase_line ::
  "uuid \<Rightarrow> rat \<times> rat \<Rightarrow> PurchaseLineInput \<Rightarrow> ('a purchasing_db_scheme, rat \<times> rat) tx"
where
  "add_purchase_line order_id acc item =
     (case acc of (net, tax) \<Rightarrow>
      bnd (get_product (pli_product_id item)) (\<lambda>_.
      bnd (lift_res (line_totals (pli_quantity item) (pli_unit_cost item) 0 (pli_tax_rate item)))
        (\<lambda>(line_net, line_tax, line_total).
      bnd uuid7 (\<lambda>i.
      bnd (modify (\<lambda>s. s\<lparr>purchase_order_lines := purchase_order_lines s @
            [\<lparr>ct_quantity = pli_quantity item, ct_unit_cost = pli_unit_cost item, ct_tax_rate = pli_tax_rate item,
              ct_net_amount = line_net, ct_tax_amount = line_tax, ct_total_amount = line_total,
              pol_id = i, pol_order_id = order_id, pol_product_id = pli_product_id item,
              pol_description = pli_description item, pol_received_quantity = 0, pol_billed_quantity = 0\<rparr>]\<rparr>)) (\<lambda>_.
      ret (dec_add net line_net, dec_add tax line_tax))))))"

definition create_purchase_order :: "TenantContext \<Rightarrow> PurchaseOrderCreate \<Rightarrow> ('a purchasing_db_scheme, purchase_order) tx" where
  "create_purchase_order context payload =
     service_transaction purchasing_chk
       (bnd (require_warehouse context (poc_branch_id payload) (poc_warehouse_id payload)) (\<lambda>_.
        bnd (require (distinct (map pli_product_id (poc_lines payload))) (DomainValidationError ''DUPLICATE_LINE'')) (\<lambda>_.
        bnd uuid7 (\<lambda>i.
        bnd (for_acc (add_purchase_line i) (0, 0) (poc_lines payload)) (\<lambda>(net, tax).
        bnd period (\<lambda>p.
        bnd (allocate ''purchase_order'' p) (\<lambda>number.
        let order =
          \<lparr>po_id = i, po_number = number, po_supplier_id = poc_supplier_id payload, po_branch_id = poc_branch_id payload,
           po_warehouse_id = poc_warehouse_id payload, po_status = PO_DRAFT, po_order_date = poc_order_date payload,
           po_expected_date = poc_expected_date payload, po_net_amount = net, po_tax_amount = tax,
           po_total_amount = dec_add net tax, po_notes = poc_notes payload, po_confirmed_at = None, po_cancelled_at = None\<rparr>
        in
        bnd (modify (\<lambda>s. s\<lparr>purchase_orders := purchase_orders s @ [order]\<rparr>)) (\<lambda>_.
        bnd (audit_record context ''purchases.order_created'' ''purchase_order'' (Some i) []) (\<lambda>_.
        ret order)))))))))"

definition update_purchase_order :: "uuid \<Rightarrow> (purchase_order \<Rightarrow> purchase_order) \<Rightarrow> ('a purchasing_db_scheme, unit) tx" where
  "update_purchase_order i f = modify (\<lambda>s. s\<lparr>purchase_orders := upd_where (\<lambda>p. po_id p = i) f (purchase_orders s)\<rparr>)"

definition confirm_purchase_order :: "TenantContext \<Rightarrow> uuid \<Rightarrow> ('a purchasing_db_scheme, purchase_order) tx" where
  "confirm_purchase_order context order_id =
     service_transaction purchasing_chk
       (bnd (gets (repo_purchase_order order_id)) (\<lambda>row.
        bnd (some_or NotFoundError row) (\<lambda>order.
        bnd (require_branch context (po_branch_id order)) (\<lambda>_.
        bnd (require_status (po_status order) [PO_DRAFT]) (\<lambda>_.
        bnd datetime_now (\<lambda>now.
        bnd (update_purchase_order order_id (\<lambda>p. p\<lparr>po_status := PO_CONFIRMED, po_confirmed_at := Some now\<rparr>)) (\<lambda>_.
        bnd (audit_record context ''purchases.order_confirmed'' ''purchase_order'' (Some (po_id order)) []) (\<lambda>_.
        ret (order\<lparr>po_status := PO_CONFIRMED, po_confirmed_at := Some now\<rparr>)))))))))"

definition cancel_purchase_order :: "TenantContext \<Rightarrow> uuid \<Rightarrow> ('a purchasing_db_scheme, purchase_order) tx" where
  "cancel_purchase_order context order_id =
     service_transaction purchasing_chk
       (bnd (gets (repo_purchase_order order_id)) (\<lambda>row.
        bnd (some_or NotFoundError row) (\<lambda>order.
        bnd (require_branch context (po_branch_id order)) (\<lambda>_.
        bnd (require_status (po_status order) [PO_DRAFT, PO_CONFIRMED, PO_PARTIALLY_RECEIVED]) (\<lambda>_.
        bnd (gets (repo_purchase_order_lines (po_id order))) (\<lambda>lines.
        bnd (require (\<not> list_ex (\<lambda>l. pol_received_quantity l > 0) lines) (ConflictError ''ORDER_PARTIALLY_RECEIVED'')) (\<lambda>_.
        bnd datetime_now (\<lambda>now.
        bnd (update_purchase_order order_id (\<lambda>p. p\<lparr>po_status := PO_CANCELLED, po_cancelled_at := Some now\<rparr>)) (\<lambda>_.
        bnd (audit_record context ''purchases.order_cancelled'' ''purchase_order'' (Some (po_id order)) []) (\<lambda>_.
        ret (order\<lparr>po_status := PO_CANCELLED, po_cancelled_at := Some now\<rparr>)))))))))))"

definition get_purchase_order ::
  "TenantContext \<Rightarrow> uuid \<Rightarrow> ('a purchasing_db_scheme, purchase_order \<times> purchase_order_line list) tx"
where
  "get_purchase_order context order_id =
     service_transaction purchasing_chk
       (bnd (gets (repo_purchase_order order_id)) (\<lambda>row.
        bnd (some_or NotFoundError row) (\<lambda>order.
        bnd (require_branch context (po_branch_id order)) (\<lambda>_.
        bnd (gets (repo_purchase_order_lines (po_id order))) (\<lambda>lines.
        ret (order, lines))))))"

definition list_purchase_orders ::
  "TenantContext \<Rightarrow> nat \<Rightarrow> nat \<Rightarrow> string option \<Rightarrow> uuid option \<Rightarrow> ('a purchasing_db_scheme, purchase_order list \<times> nat) tx"
where
  "list_purchase_orders context page page_size status supplier_id =
     service_transaction purchasing_chk
       (bnd (check_status_filter
              (map purchase_order_status_value [PO_DRAFT, PO_CONFIRMED, PO_PARTIALLY_RECEIVED, PO_RECEIVED, PO_CANCELLED])
              status) (\<lambda>_.
        gets (\<lambda>s. page_of (\<lambda>p. (po_order_date p, po_id p)) page page_size
          (filter (purchase_order_matches status supplier_id (branch_ids context)) (purchase_orders s)))))"

section \<open>Goods receipts\<close>

text \<open>The dictionary of requested quantities, each with the optional cost that overrides the ordered one.\<close>

definition outstanding_purchase_lines :: "purchase_order_line list \<Rightarrow> (uuid \<times> rat \<times> rat option) list" where
  "outstanding_purchase_lines lines =
     map (\<lambda>l. (pol_id l, dec_sub (ct_quantity l) (pol_received_quantity l), None))
       (filter (\<lambda>l. ct_quantity l > pol_received_quantity l) lines)"

definition request_receipt_line ::
  "purchase_order_line list \<Rightarrow> (uuid \<times> rat \<times> rat option) list \<Rightarrow> ReceiptLineInput \<Rightarrow>
     ('s, (uuid \<times> rat \<times> rat option) list) tx"
where
  "request_receipt_line lines requested item =
     bnd (require (rli_order_line_id item \<in> set (map pol_id lines)) NotFoundError) (\<lambda>_.
     ret (dict_set (rli_order_line_id item) (rli_quantity item, rli_unit_cost item) requested))"

definition requested_receipt_lines ::
  "GoodsReceiptCreate \<Rightarrow> purchase_order_line list \<Rightarrow> ('s, (uuid \<times> rat \<times> rat option) list) tx"
where
  "requested_receipt_lines payload lines =
     (case grc_lines payload of
        None \<Rightarrow> ret (outstanding_purchase_lines lines)
      | Some items \<Rightarrow> for_acc (request_receipt_line lines) [] items)"

definition update_purchase_line ::
  "uuid \<Rightarrow> (purchase_order_line \<Rightarrow> purchase_order_line) \<Rightarrow> ('a purchasing_db_scheme, unit) tx"
where
  "update_purchase_line i f =
     modify (\<lambda>s. s\<lparr>purchase_order_lines := upd_where (\<lambda>l. pol_id l = i) f (purchase_order_lines s)\<rparr>)"

definition purchase_line_by_id :: "uuid \<Rightarrow> purchase_order_line list \<Rightarrow> purchase_order_line option" where
  "purchase_line_by_id i lines = find (\<lambda>l. pol_id l = i) lines"

definition receive_stock ::
  "TenantContext \<Rightarrow> purchase_order \<Rightarrow> uuid \<Rightarrow> product \<Rightarrow> rat \<Rightarrow> rat \<Rightarrow> rat \<Rightarrow> ('a purchasing_db_scheme, rat) tx"
where
  "receive_stock context order receipt_id product quantity unit_cost cost =
     (if pr_is_stock_tracked product then
        bnd (post_movement_for_document context (po_warehouse_id order) product RECEIPT quantity (Some unit_cost)
              ''goods_receipt'' receipt_id) (\<lambda>_.
        ret (dec_add cost (dec_mul quantity unit_cost)))
      else ret cost)"

definition receive_line ::
  "TenantContext \<Rightarrow> purchase_order \<Rightarrow> uuid \<Rightarrow> purchase_order_line list \<Rightarrow> rat \<Rightarrow> uuid \<times> rat \<times> rat option \<Rightarrow>
     ('a purchasing_db_scheme, rat) tx"
where
  "receive_line context order receipt_id lines cost request =
     (case request of (line_id, quantity, override) \<Rightarrow>
      bnd (some_or KeyError (purchase_line_by_id line_id lines)) (\<lambda>line.
      bnd (require (\<not> quantity > dec_sub (ct_quantity line) (pol_received_quantity line)) (ConflictError ''OVER_RECEIPT'')) (\<lambda>_.
      let unit_cost = (case override of Some c \<Rightarrow> c | None \<Rightarrow> ct_unit_cost line) in
      bnd (get_product (pol_product_id line)) (\<lambda>product.
      bnd (receive_stock context order receipt_id product quantity unit_cost cost) (\<lambda>cost.
      bnd (update_purchase_line line_id (\<lambda>l. l\<lparr>pol_received_quantity := dec_add (pol_received_quantity l) quantity\<rparr>)) (\<lambda>_.
      bnd uuid7 (\<lambda>i.
      bnd (modify (\<lambda>s. s\<lparr>goods_receipt_lines := goods_receipt_lines s @
            [\<lparr>grl_id = i, grl_goods_receipt_id = receipt_id, grl_order_line_id = line_id,
              grl_product_id = pol_product_id line, grl_quantity = quantity, grl_unit_cost = unit_cost\<rparr>]\<rparr>)) (\<lambda>_.
      ret cost))))))))"

definition post_goods_receipt :: "TenantContext \<Rightarrow> GoodsReceipt \<Rightarrow> rat \<Rightarrow> ('a purchasing_db_scheme, unit) tx" where
  "post_goods_receipt context grn cost =
     bnd (post purchasing_flush_chk context (utc_date (gr_received_at grn)) (''Goods receipt '' @ gr_number grn)
           ''goods_receipt'' (gr_id grn) ''GOODS_RECEIPT'' (goods_receipt cost) False [] None) (\<lambda>_.
     ret ())"

definition by_purchased_product :: "purchase_order_line list \<Rightarrow> uuid \<times> rat \<times> rat option \<Rightarrow> uuid" where
  "by_purchased_product lines r = (case purchase_line_by_id (fst r) lines of None \<Rightarrow> 0 | Some l \<Rightarrow> pol_product_id l)"

definition receive :: "TenantContext \<Rightarrow> uuid \<Rightarrow> GoodsReceiptCreate \<Rightarrow> ('a purchasing_db_scheme, GoodsReceipt) tx" where
  "receive context order_id payload =
     service_transaction purchasing_chk
       (bnd (gets (repo_purchase_order order_id)) (\<lambda>row.
        bnd (some_or NotFoundError row) (\<lambda>order.
        bnd (require_branch context (po_branch_id order)) (\<lambda>_.
        bnd (require_status (po_status order) [PO_CONFIRMED, PO_PARTIALLY_RECEIVED]) (\<lambda>_.
        bnd (gets (repo_purchase_order_lines (po_id order))) (\<lambda>lines.
        bnd (requested_receipt_lines payload lines) (\<lambda>requested.
        bnd (require (requested \<noteq> []) (ConflictError ''NOTHING_TO_RECEIVE'')) (\<lambda>_.
        bnd uuid7 (\<lambda>i.
        bnd datetime_now (\<lambda>now.
        bnd (for_acc (receive_line context order i lines) 0 (sort_key (by_purchased_product lines) requested)) (\<lambda>cost.
        bnd (gets (repo_purchase_order_lines (po_id order))) (\<lambda>lines.
        bnd (update_purchase_order order_id (\<lambda>p. p\<lparr>po_status :=
              if list_all (\<lambda>l. pol_received_quantity l \<ge> ct_quantity l) lines then PO_RECEIVED else PO_PARTIALLY_RECEIVED\<rparr>)) (\<lambda>_.
        bnd period (\<lambda>p.
        bnd (allocate ''goods_receipt'' p) (\<lambda>number.
        let grn = \<lparr>gr_id = i, gr_number = number, gr_purchase_order_id = po_id order,
                       gr_warehouse_id = po_warehouse_id order, gr_received_at = now,
                       gr_supplier_reference = grc_supplier_reference payload, gr_notes = grc_notes payload\<rparr>
        in
        bnd (modify (\<lambda>s. s\<lparr>goods_receipts := goods_receipts s @ [grn]\<rparr>)) (\<lambda>_.
        bnd (run_if (cost > 0) (post_goods_receipt context grn cost)) (\<lambda>_.
        bnd (audit_record context ''purchases.goods_receipt_posted'' ''goods_receipt'' (Some i) []) (\<lambda>_.
        ret grn))))))))))))))))))"

section \<open>Supplier bills\<close>

definition add_bill_line ::
  "uuid \<Rightarrow> bool \<Rightarrow> rat \<times> rat \<times> bool \<Rightarrow> purchase_order_line \<Rightarrow> ('a purchasing_db_scheme, rat \<times> rat \<times> bool) tx"
where
  "add_bill_line bill_id received_only acc line =
     (case acc of (net, tax, billed_any) \<Rightarrow>
      let ceiling = (if received_only then pol_received_quantity line else ct_quantity line);
          quantity = dec_sub ceiling (pol_billed_quantity line)
      in
      if quantity \<le> 0 then ret (net, tax, billed_any)
      else
        bnd (lift_res (line_totals quantity (ct_unit_cost line) 0 (ct_tax_rate line)))
          (\<lambda>(line_net, line_tax, line_total).
        bnd uuid7 (\<lambda>i.
        bnd (modify (\<lambda>s. s\<lparr>supplier_bill_lines := supplier_bill_lines s @
              [\<lparr>ct_quantity = quantity, ct_unit_cost = ct_unit_cost line, ct_tax_rate = ct_tax_rate line,
                ct_net_amount = line_net, ct_tax_amount = line_tax, ct_total_amount = line_total,
                sbl_id = i, sbl_bill_id = bill_id, sbl_order_line_id = Some (pol_id line),
                sbl_product_id = pol_product_id line, sbl_description = pol_description line\<rparr>]\<rparr>)) (\<lambda>_.
        bnd (update_purchase_line (pol_id line) (\<lambda>l. l\<lparr>pol_billed_quantity := dec_add (pol_billed_quantity l) quantity\<rparr>)) (\<lambda>_.
        ret (dec_add net line_net, dec_add tax line_tax, True))))))"

definition create_bill :: "TenantContext \<Rightarrow> SupplierBillCreate \<Rightarrow> ('a purchasing_db_scheme, SupplierBill) tx" where
  "create_bill context payload =
     service_transaction purchasing_chk
       (bnd (gets (repo_purchase_order (sbc_purchase_order_id payload))) (\<lambda>row.
        bnd (some_or NotFoundError row) (\<lambda>order.
        bnd (require_branch context (po_branch_id order)) (\<lambda>_.
        bnd (require_status (po_status order) [PO_CONFIRMED, PO_PARTIALLY_RECEIVED, PO_RECEIVED]) (\<lambda>_.
        bnd (gets (repo_purchase_order_lines (po_id order))) (\<lambda>lines.
        bnd uuid7 (\<lambda>i.
        bnd (for_acc (add_bill_line i (sbc_bill_received_only payload)) (0, 0, False) lines) (\<lambda>(net, tax, billed_any).
        bnd (require billed_any (ConflictError ''NOTHING_TO_BILL'')) (\<lambda>_.
        let bill =
          \<lparr>sb_id = i, sb_number = None, sb_supplier_id = po_supplier_id order, sb_branch_id = po_branch_id order,
           sb_purchase_order_id = Some (po_id order), sb_status = BILL_DRAFT,
           sb_supplier_invoice_number = sbc_supplier_invoice_number payload, sb_issue_date = sbc_issue_date payload,
           sb_due_date = sbc_due_date payload, sb_net_amount = net, sb_tax_amount = tax,
           sb_total_amount = dec_add net tax, sb_paid_amount = 0, sb_notes = sbc_notes payload, sb_issued_at = None\<rparr>
        in
        bnd (modify (\<lambda>s. s\<lparr>supplier_bills := supplier_bills s @ [bill]\<rparr>)) (\<lambda>_.
        bnd (audit_record context ''purchases.bill_created'' ''supplier_bill'' (Some i) []) (\<lambda>_.
        ret bill)))))))))))"

definition update_bill :: "uuid \<Rightarrow> (SupplierBill \<Rightarrow> SupplierBill) \<Rightarrow> ('a purchasing_db_scheme, unit) tx" where
  "update_bill i f = modify (\<lambda>s. s\<lparr>supplier_bills := upd_where (\<lambda>b. sb_id b = i) f (supplier_bills s)\<rparr>)"

definition post_bill :: "TenantContext \<Rightarrow> SupplierBill \<Rightarrow> ('a purchasing_db_scheme, unit) tx" where
  "post_bill context bill =
     bnd (post purchasing_flush_chk context (sb_issue_date bill) (''Supplier bill '' @ number_text (sb_number bill)) ''supplier_bill''
           (sb_id bill) ''SUPPLIER_BILL_ISSUED'' (supplier_bill (sb_net_amount bill) (sb_tax_amount bill)) False [] None) (\<lambda>_.
     ret ())"

definition record_vat_for_bill :: "SupplierBill \<Rightarrow> ('a purchasing_db_scheme, unit) tx" where
  "record_vat_for_bill bill =
     bnd (gets (repo_bill_lines (sb_id bill))) (\<lambda>lines.
     record_vat_groups INPUT (sb_issue_date bill) ''supplier_bill'' (sb_id bill) False
       (map (\<lambda>l. (ct_tax_rate l, ct_net_amount l, ct_tax_amount l)) lines))"

definition issue_bill :: "TenantContext \<Rightarrow> uuid \<Rightarrow> ('a purchasing_db_scheme, SupplierBill) tx" where
  "issue_bill context bill_id =
     service_transaction purchasing_chk
       (bnd (gets (repo_bill bill_id)) (\<lambda>row.
        bnd (some_or NotFoundError row) (\<lambda>bill.
        bnd (require_branch context (sb_branch_id bill)) (\<lambda>_.
        bnd (require_status (sb_status bill) [BILL_DRAFT]) (\<lambda>_.
        bnd datetime_now (\<lambda>now.
        bnd period (\<lambda>p.
        bnd (allocate ''supplier_bill'' p) (\<lambda>number.
        let issued = bill\<lparr>sb_status := BILL_ISSUED, sb_issued_at := Some now, sb_number := Some number\<rparr>
        in
        bnd (update_bill bill_id (\<lambda>b. b\<lparr>sb_status := BILL_ISSUED, sb_issued_at := Some now, sb_number := Some number\<rparr>)) (\<lambda>_.
        bnd (post_bill context issued) (\<lambda>_.
        bnd (record_vat_for_bill issued) (\<lambda>_.
        bnd (audit_record context ''purchases.bill_issued'' ''supplier_bill'' (Some (sb_id issued))
              [(''bill_number'', MStr number)]) (\<lambda>_.
        ret issued))))))))))))"

definition get_bill :: "TenantContext \<Rightarrow> uuid \<Rightarrow> ('a purchasing_db_scheme, SupplierBill \<times> supplier_bill_line list) tx" where
  "get_bill context bill_id =
     service_transaction purchasing_chk
       (bnd (gets (repo_bill bill_id)) (\<lambda>row.
        bnd (some_or NotFoundError row) (\<lambda>bill.
        bnd (require_branch context (sb_branch_id bill)) (\<lambda>_.
        bnd (gets (repo_bill_lines (sb_id bill))) (\<lambda>lines.
        ret (bill, lines))))))"

definition list_bills ::
  "TenantContext \<Rightarrow> nat \<Rightarrow> nat \<Rightarrow> string option \<Rightarrow> uuid option \<Rightarrow> ('a purchasing_db_scheme, SupplierBill list \<times> nat) tx"
where
  "list_bills context page page_size status supplier_id =
     service_transaction purchasing_chk
       (bnd (check_status_filter
              (map bill_status_value [BILL_DRAFT, BILL_ISSUED, BILL_PARTIALLY_PAID, BILL_PAID, BILL_CANCELLED]) status) (\<lambda>_.
        gets (\<lambda>s. page_of (\<lambda>b. (sb_issue_date b, sb_id b)) page page_size
          (filter (bill_matches status supplier_id (branch_ids context)) (supplier_bills s)))))"

section \<open>Supplier payments\<close>

definition settled_bill_status :: "rat \<Rightarrow> rat \<Rightarrow> supplier_bill_status" where
  "settled_bill_status paid due = (if paid \<ge> due then BILL_PAID else BILL_PARTIALLY_PAID)"

definition allocate_supplier_payment ::
  "TenantContext \<Rightarrow> SupplierPaymentCreate \<Rightarrow> uuid \<Rightarrow> BillAllocationInput \<Rightarrow> ('a purchasing_db_scheme, unit) tx"
where
  "allocate_supplier_payment context payload payment_id item =
     bnd (gets (repo_bill (bai_supplier_bill_id item))) (\<lambda>row.
     bnd (some_or NotFoundError row) (\<lambda>bill.
     bnd (require_branch context (sb_branch_id bill)) (\<lambda>_.
     bnd (require (sb_supplier_id bill = sp_supplier_id payload \<and> sb_branch_id bill = sp_branch_id payload)
           (DomainValidationError ''ALLOCATION_TARGET_MISMATCH'')) (\<lambda>_.
     bnd (require_status (sb_status bill) [BILL_ISSUED, BILL_PARTIALLY_PAID]) (\<lambda>_.
     bnd (require (\<not> bai_amount item > dec_sub (sb_total_amount bill) (sb_paid_amount bill))
           (ConflictError ''OVER_ALLOCATION'')) (\<lambda>_.
     bnd (lift_res (round_money (dec_add (sb_paid_amount bill) (bai_amount item)))) (\<lambda>paid.
     bnd (update_bill (sb_id bill)
           (\<lambda>b. b\<lparr>sb_paid_amount := paid, sb_status := settled_bill_status paid (sb_total_amount bill)\<rparr>)) (\<lambda>_.
     bnd uuid7 (\<lambda>i.
     modify (\<lambda>s. s\<lparr>payment_allocations := payment_allocations s @
       [\<lparr>pa_id = i, pa_payment_id = payment_id, pa_invoice_id = None, pa_supplier_bill_id = Some (sb_id bill),
         pa_amount = bai_amount item\<rparr>]\<rparr>))))))))))"

definition post_supplier_payment :: "TenantContext \<Rightarrow> payment \<Rightarrow> ('a purchasing_db_scheme, unit) tx" where
  "post_supplier_payment context payment =
     run_if (\<not> pay_amount payment \<le> 0)
       (bnd (post purchasing_flush_chk context (pay_payment_date payment) (''Supplier payment '' @ pay_number payment) ''payment''
              (pay_id payment) ''SUPPLIER_PAYMENT'' (supplier_payment (pay_amount payment) (pay_method payment = CASH)) False [] None) (\<lambda>_.
        ret ()))"

definition SUPPLIER_PAYMENT_ENDPOINT :: string where
  "SUPPLIER_PAYMENT_ENDPOINT = ''POST /purchases/payments''"

definition make_supplier_payment ::
  "TenantContext \<Rightarrow> SupplierPaymentCreate \<Rightarrow> string option \<Rightarrow> ('a purchasing_db_scheme, payment) tx"
where
  "make_supplier_payment context payload key =
     (let allocated = dec_sum (map bai_amount (sp_allocations payload)) in
      bnd (require (\<not> allocated > sp_amount payload) (DomainValidationError ''OVER_ALLOCATION'')) (\<lambda>_.
      bnd uuid7 (\<lambda>i.
      bnd (for_each (allocate_supplier_payment context payload i) (sort_key bai_supplier_bill_id (sp_allocations payload))) (\<lambda>_.
      bnd period (\<lambda>p.
      bnd (allocate ''purchase_payment'' p) (\<lambda>number.
      let payment =
        \<lparr>pay_id = i, pay_number = number, pay_direction = OUTBOUND, pay_customer_id = None,
         pay_supplier_id = Some (sp_supplier_id payload), pay_branch_id = sp_branch_id payload,
         pay_method = sp_method payload, pay_amount = sp_amount payload, pay_allocated_amount = allocated,
         pay_payment_date = sp_payment_date payload, pay_reference = sp_reference payload, pay_notes = sp_notes payload,
         pay_idempotency_key = key\<rparr>
      in
      bnd (modify (\<lambda>s. s\<lparr>payments := payments s @ [payment]\<rparr>)) (\<lambda>_.
      bnd (post_supplier_payment context payment) (\<lambda>_.
      bnd (audit_record context ''purchases.payment_recorded'' ''payment'' (Some i)
            [(''amount'', MDec (pay_amount payment)), (''allocated'', MDec allocated)]) (\<lambda>_.
      ret payment)))))))))"

definition record_supplier_payment ::
  "(SupplierPaymentCreate \<Rightarrow> string) \<Rightarrow> bool \<Rightarrow> TenantContext \<Rightarrow> SupplierPaymentCreate \<Rightarrow> string option \<Rightarrow>
     ('a purchasing_db_scheme, payment \<times> bool) tx"
where
  "record_supplier_payment request_hash in_flight context payload key =
     service_transaction purchasing_chk
       (bnd (require_branch context (sp_branch_id payload)) (\<lambda>_.
        bnd (claim_payment_key request_hash in_flight SUPPLIER_PAYMENT_ENDPOINT key payload) (\<lambda>claimed.
        bnd (gets (replayed claimed repo_payment)) (\<lambda>existing.
        case existing of
          Some p \<Rightarrow> ret (p, True)
        | None \<Rightarrow>
            bnd (make_supplier_payment context payload key) (\<lambda>payment.
            bnd (run_if (truthy key) (complete_key SUPPLIER_PAYMENT_ENDPOINT (the key) 201 (str_nat (pay_id payment)))) (\<lambda>_.
            ret (payment, False)))))))"

section \<open>Reports and endpoints\<close>

definition payables ::
  "(string \<Rightarrow> nat) \<Rightarrow> TenantContext \<Rightarrow> ('a purchasing_db_scheme, (uuid \<times> string \<times> rat \<times> rat) list \<times> rat) tx"
where
  "payables name_key context =
     service_transaction purchasing_chk
       (bnd (gets (repo_payables name_key (branch_ids context))) (\<lambda>rows.
        ret (rows, dec_sum (map (\<lambda>(i, n, billed, paid). dec_sub billed paid) rows))))"

definition ap_aging ::
  "(string \<Rightarrow> nat) \<Rightarrow> TenantContext \<Rightarrow> date \<Rightarrow> ('a purchasing_db_scheme, (uuid \<times> string \<times> rat list \<times> rat) list) tx"
where
  "ap_aging name_key context as_of =
     service_transaction purchasing_chk (bnd (gets (repo_ap_aging name_key as_of (branch_ids context))) lift_res)"

definition route_record_supplier_payment where
  "route_record_supplier_payment request_hash in_flight context payload key =
     bnd (require (truthy key) (DomainValidationError ''IDEMPOTENCY_KEY_REQUIRED'')) (\<lambda>_.
     record_supplier_payment request_hash in_flight context payload key)"

end
