(* ===== verification/Pos.thy ===== *)
theory Pos
  imports Purchasing_Service
begin

text \<open>
  The point of sale: \<^verbatim>\<open>modules/pos/models.py\<close>, \<^verbatim>\<open>repository.py\<close>, \<^verbatim>\<open>service.py\<close> and the guards its endpoints add in
  \<^verbatim>\<open>router.py\<close>. A cashier opens a session on a terminal, rings up sales that take stock, post to the ledger and
  to the VAT register, parks carts, refunds sold lines and closes the session against the counted cash.

  The conventions are those of the sales workflow. The sale and the return are persisted before their lines,
  with an empty number and zero amounts, by an explicit flush. The receipt's JSON snapshot is a record with the
  same fields. Foreign keys are not modelled; \<^verbatim>\<open>FOR UPDATE\<close> locks have no effect on one
  transaction.
\<close>

section \<open>Rows\<close>

datatype session_status = SESSION_OPEN | SESSION_CLOSED

datatype sale_status = SALE_COMPLETED | SALE_VOIDED

datatype tender_type = T_CASH | T_CARD | T_MOBILE | T_VOUCHER

record tax_category =
  tx_id :: uuid
  tx_rate :: rat
  tx_is_active :: bool

record pos_terminal =
  pt_id :: uuid
  pt_code :: string
  pt_name :: string
  pt_branch_id :: uuid
  pt_warehouse_id :: uuid
  pt_is_active :: bool

record pos_session =
  ps_id :: uuid
  ps_number :: string
  ps_terminal_id :: uuid
  ps_opened_by_membership_id :: uuid
  ps_closed_by_membership_id :: "uuid option"
  ps_status :: session_status
  ps_opened_at :: datetime
  ps_closed_at :: "datetime option"
  ps_opening_float :: rat
  ps_expected_cash :: "rat option"
  ps_counted_cash :: "rat option"
  ps_cash_variance :: "rat option"
  ps_notes :: "string option"

record sale =
  sl_id :: uuid
  sl_number :: string
  sl_session_id :: uuid
  sl_terminal_id :: uuid
  sl_branch_id :: uuid
  sl_warehouse_id :: uuid
  sl_customer_id :: "uuid option"
  sl_cashier_membership_id :: uuid
  sl_status :: sale_status
  sl_occurred_at :: datetime
  sl_net_amount :: rat
  sl_discount_amount :: rat
  sl_tax_amount :: rat
  sl_total_amount :: rat
  sl_cost_amount :: rat
  sl_refunded_amount :: rat
  sl_notes :: "string option"

record sale_line = LineTotals +
  sln_id :: uuid
  sln_sale_id :: uuid
  sln_product_id :: uuid
  sln_unit_cost :: rat
  sln_refunded_quantity :: rat

record sale_payment =
  spy_id :: uuid
  spy_sale_id :: uuid
  spy_tender :: tender_type
  spy_amount :: rat
  spy_change_given :: rat
  spy_reference :: "string option"

record CartLine =
  cart_product_id :: uuid
  cart_quantity :: rat
  cart_discount_rate :: rat

record held_sale =
  hs_id :: uuid
  hs_session_id :: uuid
  hs_terminal_id :: uuid
  hs_held_by_membership_id :: uuid
  hs_label :: "string option"
  hs_cart :: "CartLine list"
  hs_held_at :: datetime

record receipt_content =
  rcc_sale_number :: string
  rcc_occurred_at :: datetime
  rcc_terminal :: string
  rcc_total :: rat
  rcc_lines :: "(uuid \<times> rat \<times> rat \<times> rat) list"
  rcc_payments :: "(tender_type \<times> rat \<times> rat) list"

record Receipt =
  rcp_id :: uuid
  rcp_number :: string
  rcp_sale_id :: uuid
  rcp_content :: receipt_content
  rcp_rendered_at :: datetime

record sale_return =
  srn_id :: uuid
  srn_number :: string
  srn_sale_id :: uuid
  srn_session_id :: uuid
  srn_processed_by_membership_id :: uuid
  srn_amount :: rat
  srn_reason :: string
  srn_occurred_at :: datetime

record sale_return_line =
  srl_id :: uuid
  srl_sale_return_id :: uuid
  srl_sale_line_id :: uuid
  srl_product_id :: uuid
  srl_quantity :: rat
  srl_amount :: rat

record pos_db = purchasing_db +
  tax_categories :: "tax_category list"
  pos_terminals :: "pos_terminal list"
  pos_sessions :: "pos_session list"
  sales :: "sale list"
  sale_lines :: "sale_line list"
  sale_payments :: "sale_payment list"
  held_sales :: "held_sale list"
  receipts :: "Receipt list"
  sale_returns :: "sale_return list"
  sale_return_lines :: "sale_return_line list"

section \<open>Payloads\<close>

record TerminalCreate =
  tmc_code :: string
  tmc_name :: string
  tmc_branch_id :: uuid
  tmc_warehouse_id :: uuid

text \<open>A field of an update is unset (\<open>None\<close>), null (\<open>Some None\<close>) or a value.\<close>

record TerminalUpdate =
  tmu_name :: "string option option"
  tmu_is_active :: "bool option option"

record SessionOpen =
  sop_terminal_id :: uuid
  sop_opening_float :: rat
  sop_notes :: "string option"

record SessionClose =
  scl_counted_cash :: rat
  scl_notes :: "string option"

record TenderInput =
  ti_tender :: tender_type
  ti_amount :: rat
  ti_change_given :: rat
  ti_reference :: "string option"

record CheckoutCreate =
  co_session_id :: uuid
  co_customer_id :: "uuid option"
  co_lines :: "CartLine list"
  co_payments :: "TenderInput list"
  co_notes :: "string option"

record HoldCreate =
  hc_session_id :: uuid
  hc_label :: "string option"
  hc_lines :: "CartLine list"

record RefundLine =
  rl_sale_line_id :: uuid
  rl_quantity :: rat

record RefundCreate =
  rf_sale_id :: uuid
  rf_session_id :: uuid
  rf_reason :: string
  rf_lines :: "RefundLine list"

section \<open>Constraints\<close>

definition pos_constraints :: "'a pos_db_scheme \<Rightarrow> (bool \<times> error) list" where
  "pos_constraints s =
     [(unique_on pt_id (pos_terminals s), IntegrityError),
      (unique_on pt_code (pos_terminals s), IntegrityError),
      (unique_on ps_id (pos_sessions s), IntegrityError),
      (unique_on ps_number (pos_sessions s), IntegrityError),
      (list_all (\<lambda>x. ps_opening_float x \<ge> 0) (pos_sessions s), IntegrityError),
      (unique_where ps_terminal_id (\<lambda>x. ps_status x = SESSION_OPEN) (pos_sessions s), IntegrityError),
      (list_all (\<lambda>x. case ps_expected_cash x of None \<Rightarrow> True | Some c \<Rightarrow> in_range 14 c) (pos_sessions s), overflow),
      (list_all (\<lambda>x. case ps_cash_variance x of None \<Rightarrow> True | Some c \<Rightarrow> in_range 14 c) (pos_sessions s), overflow),
      (unique_on sl_id (sales s), IntegrityError),
      (unique_on sl_number (sales s), IntegrityError),
      (list_all (\<lambda>x. sl_net_amount x \<ge> 0 \<and> sl_tax_amount x \<ge> 0 \<and> sl_total_amount x \<ge> 0) (sales s), IntegrityError),
      (list_all (\<lambda>x. sl_refunded_amount x \<ge> 0 \<and> sl_refunded_amount x \<le> sl_total_amount x) (sales s), IntegrityError),
      (list_all (\<lambda>x. in_range 14 (sl_discount_amount x) \<and> in_range 14 (sl_total_amount x) \<and> in_range 12 (sl_cost_amount x)) (sales s), overflow),
      (unique_on sln_id (sale_lines s), IntegrityError),
      (list_all line_ok (sale_lines s), IntegrityError),
      (list_all line_in_range (sale_lines s), overflow),
      (list_all (\<lambda>l. sln_refunded_quantity l \<ge> 0 \<and> sln_refunded_quantity l \<le> lt_quantity l) (sale_lines s), IntegrityError),
      (unique_on spy_id (sale_payments s), IntegrityError),
      (list_all (\<lambda>p. spy_amount p > 0 \<and> spy_change_given p \<ge> 0 \<and> spy_change_given p \<le> spy_amount p) (sale_payments s), IntegrityError),
      (list_all (\<lambda>p. spy_tender p = T_CASH \<or> spy_change_given p = 0) (sale_payments s), IntegrityError),
      (unique_on hs_id (held_sales s), IntegrityError),
      (unique_on rcp_id (receipts s), IntegrityError),
      (unique_on rcp_number (receipts s), IntegrityError),
      (unique_on rcp_sale_id (receipts s), IntegrityError),
      (unique_on srn_id (sale_returns s), IntegrityError),
      (unique_on srn_number (sale_returns s), IntegrityError),
      (list_all (\<lambda>r. in_range 14 (srn_amount r)) (sale_returns s), overflow),
      (unique_on srl_id (sale_return_lines s), IntegrityError),
      (list_all (\<lambda>l. srl_quantity l > 0) (sale_return_lines s), IntegrityError)]"

definition pos_flush_chk :: "'a pos_db_scheme \<Rightarrow> error option" where
  "pos_flush_chk s =
     violated (base_constraints s @ inventory_constraints s @ accounting_constraints s @ vat_constraints s @ pos_constraints s)"

definition pos_chk :: "'a pos_db_scheme \<Rightarrow> error option" where
  "pos_chk s =
     violated (base_constraints s @ inventory_constraints s @ accounting_constraints s @ vat_constraints s @ pos_constraints s
       @ balance_trigger s)"

section \<open>Repository\<close>

definition repo_terminal :: "uuid \<Rightarrow> 'a pos_db_scheme \<Rightarrow> pos_terminal option" where
  "repo_terminal i s = find (\<lambda>t. pt_id t = i) (pos_terminals s)"

definition repo_terminals :: "(string \<Rightarrow> nat) \<Rightarrow> uuid set option \<Rightarrow> 'a pos_db_scheme \<Rightarrow> pos_terminal list" where
  "repo_terminals code_key bids s =
     sort_key (\<lambda>t. code_key (pt_code t)) (filter (\<lambda>t. branch_in bids (pt_branch_id t)) (pos_terminals s))"

definition repo_pos_session :: "uuid \<Rightarrow> 'a pos_db_scheme \<Rightarrow> pos_session option" where
  "repo_pos_session i s = find (\<lambda>x. ps_id x = i) (pos_sessions s)"

definition open_session_for_terminal :: "uuid \<Rightarrow> 'a pos_db_scheme \<Rightarrow> pos_session option" where
  "open_session_for_terminal i s = find (\<lambda>x. ps_terminal_id x = i \<and> ps_status x = SESSION_OPEN) (pos_sessions s)"

text \<open>\<^verbatim>\<open>PosRepository.product\<close> selects active products, as the inventory repository does: \<open>repo_product\<close>.\<close>

definition tax_rate :: "uuid option \<Rightarrow> 'a pos_db_scheme \<Rightarrow> rat" where
  "tax_rate category s =
     (case category of
        None \<Rightarrow> 0
      | Some i \<Rightarrow>
          (case find (\<lambda>c. tx_id c = i \<and> tx_is_active c) (tax_categories s) of None \<Rightarrow> 0 | Some c \<Rightarrow> tx_rate c))"

definition repo_customer :: "uuid \<Rightarrow> 'a sales_db_scheme \<Rightarrow> customer option" where
  "repo_customer i s = find (\<lambda>c. cu_id c = i) (customers s)"

definition repo_sale :: "uuid \<Rightarrow> 'a pos_db_scheme \<Rightarrow> sale option" where
  "repo_sale i s = find (\<lambda>x. sl_id x = i) (sales s)"

definition repo_sale_lines :: "uuid \<Rightarrow> 'a pos_db_scheme \<Rightarrow> sale_line list" where
  "repo_sale_lines i s = sort_key sln_product_id (filter (\<lambda>l. sln_sale_id l = i) (sale_lines s))"

text \<open>The payments of a sale are created in one transaction, so \<^verbatim>\<open>created_at\<close> does not order them.\<close>

definition repo_sale_payments :: "uuid \<Rightarrow> 'a pos_db_scheme \<Rightarrow> sale_payment list" where
  "repo_sale_payments i s = sort_key spy_id (filter (\<lambda>p. spy_sale_id p = i) (sale_payments s))"

definition repo_receipt :: "uuid \<Rightarrow> 'a pos_db_scheme \<Rightarrow> Receipt option" where
  "repo_receipt i s = find (\<lambda>r. rcp_sale_id r = i) (receipts s)"

definition cash_net :: "uuid \<Rightarrow> 'a pos_db_scheme \<Rightarrow> rat" where
  "cash_net session_id s =
     sum_list (map (\<lambda>p. spy_amount p - spy_change_given p)
       (filter (\<lambda>p. spy_tender p = T_CASH
                  \<and> list_ex (\<lambda>x. sl_id x = spy_sale_id p \<and> sl_session_id x = session_id) (sales s)) (sale_payments s)))"

definition repo_held :: "uuid \<Rightarrow> 'a pos_db_scheme \<Rightarrow> held_sale option" where
  "repo_held i s = find (\<lambda>h. hs_id h = i) (held_sales s)"

definition held_for_session :: "uuid \<Rightarrow> 'a pos_db_scheme \<Rightarrow> held_sale list" where
  "held_for_session i s = rev (sort_key hs_held_at (filter (\<lambda>h. hs_session_id h = i) (held_sales s)))"

definition repo_sale_return :: "uuid \<Rightarrow> 'a pos_db_scheme \<Rightarrow> sale_return option" where
  "repo_sale_return i s = find (\<lambda>r. srn_id r = i) (sale_returns s)"

end
