(* ===== verification/Pos_Service.thy ===== *)
theory Pos_Service
  imports Pos
begin

text \<open>The operations of \<^verbatim>\<open>PosService\<close> (\<^verbatim>\<open>modules/pos/service.py\<close>) and the guards of its endpoints.\<close>

section \<open>Terminals and sessions\<close>

definition require_terminal :: "TenantContext \<Rightarrow> uuid \<Rightarrow> ('a pos_db_scheme, pos_terminal) tx" where
  "require_terminal context terminal_id =
     bnd (gets (repo_terminal terminal_id)) (\<lambda>row.
     bnd (some_or NotFoundError row) (\<lambda>terminal.
     bnd (require_branch context (pt_branch_id terminal)) (\<lambda>_.
     ret terminal)))"

definition require_open_session :: "TenantContext \<Rightarrow> uuid \<Rightarrow> bool \<Rightarrow> ('a pos_db_scheme, pos_session) tx" where
  "require_open_session context session_id own =
     bnd (gets (repo_pos_session session_id)) (\<lambda>row.
     bnd (some_or NotFoundError row) (\<lambda>session.
     bnd (require_terminal context (ps_terminal_id session)) (\<lambda>terminal.
     bnd (require (ps_status session = SESSION_OPEN) (ConflictError ''SESSION_NOT_OPEN'')) (\<lambda>_.
     bnd (require (\<not> (own \<and> ps_opened_by_membership_id session \<noteq> membership_id context))
           (PermissionDeniedError ''SESSION_NOT_OWNED'')) (\<lambda>_.
     bnd (require (pt_is_active terminal) (ConflictError ''TERMINAL_INACTIVE'')) (\<lambda>_.
     ret session))))))"

definition list_terminals :: "(string \<Rightarrow> nat) \<Rightarrow> TenantContext \<Rightarrow> ('a pos_db_scheme, pos_terminal list) tx" where
  "list_terminals code_key context = service_transaction pos_chk (gets (repo_terminals code_key (branch_ids context)))"

definition current_session :: "TenantContext \<Rightarrow> uuid \<Rightarrow> ('a pos_db_scheme, pos_session option) tx" where
  "current_session context terminal_id =
     service_transaction pos_chk
       (bnd (require_terminal context terminal_id) (\<lambda>_. gets (open_session_for_terminal terminal_id)))"

definition create_terminal :: "TenantContext \<Rightarrow> TerminalCreate \<Rightarrow> ('a pos_db_scheme, pos_terminal) tx" where
  "create_terminal context payload =
     on_integrity_error (ConflictError ''DUPLICATE_RESOURCE'')
       (service_transaction pos_chk
         (bnd (require_warehouse context (tmc_branch_id payload) (tmc_warehouse_id payload)) (\<lambda>_.
          bnd uuid7 (\<lambda>i.
          let terminal = \<lparr>pt_id = i, pt_code = tmc_code payload, pt_name = tmc_name payload,
                          pt_branch_id = tmc_branch_id payload, pt_warehouse_id = tmc_warehouse_id payload,
                          pt_is_active = True\<rparr>
          in
          bnd (modify (\<lambda>s. s\<lparr>pos_terminals := pos_terminals s @ [terminal]\<rparr>)) (\<lambda>_.
          bnd (audit_record context ''pos.terminal_created'' ''pos_terminal'' (Some i) []) (\<lambda>_.
          ret terminal))))))"

text \<open>Assigning null to a column that is not nullable is refused when the row is written.\<close>

definition apply_terminal_update :: "TerminalUpdate \<Rightarrow> pos_terminal \<Rightarrow> pos_terminal" where
  "apply_terminal_update payload t =
     t\<lparr>pt_name := (case tmu_name payload of Some (Some n) \<Rightarrow> n | _ \<Rightarrow> pt_name t),
       pt_is_active := (case tmu_is_active payload of Some (Some a) \<Rightarrow> a | _ \<Rightarrow> pt_is_active t)\<rparr>"

definition update_terminal :: "TenantContext \<Rightarrow> uuid \<Rightarrow> TerminalUpdate \<Rightarrow> ('a pos_db_scheme, pos_terminal) tx" where
  "update_terminal context terminal_id payload =
     service_transaction pos_chk
       (bnd (require_terminal context terminal_id) (\<lambda>terminal.
        bnd (require (tmu_name payload \<noteq> Some None \<and> tmu_is_active payload \<noteq> Some None) IntegrityError) (\<lambda>_.
        bnd (modify (\<lambda>s. s\<lparr>pos_terminals :=
              upd_where (\<lambda>t. pt_id t = terminal_id) (apply_terminal_update payload) (pos_terminals s)\<rparr>)) (\<lambda>_.
        ret (apply_terminal_update payload terminal)))))"

definition open_session :: "TenantContext \<Rightarrow> SessionOpen \<Rightarrow> ('a pos_db_scheme, pos_session) tx" where
  "open_session context payload =
     on_integrity_error (ConflictError ''SESSION_ALREADY_OPEN'')
       (service_transaction pos_chk
         (bnd (require_terminal context (sop_terminal_id payload)) (\<lambda>terminal.
          bnd (require (pt_is_active terminal) (ConflictError ''TERMINAL_INACTIVE'')) (\<lambda>_.
          bnd uuid7 (\<lambda>i.
          bnd datetime_now (\<lambda>opened.
          bnd datetime_now (\<lambda>now.
          bnd (allocate ''pos_session'' (str_nat (nat (year_of (utc_date now))))) (\<lambda>number.
          let session =
            \<lparr>ps_id = i, ps_number = number, ps_terminal_id = pt_id terminal,
             ps_opened_by_membership_id = membership_id context, ps_closed_by_membership_id = None,
             ps_status = SESSION_OPEN, ps_opened_at = opened, ps_closed_at = None,
             ps_opening_float = sop_opening_float payload, ps_expected_cash = None, ps_counted_cash = None,
             ps_cash_variance = None, ps_notes = sop_notes payload\<rparr>
          in
          bnd (modify (\<lambda>s. s\<lparr>pos_sessions := pos_sessions s @ [session]\<rparr>)) (\<lambda>_.
          bnd (audit_record context ''pos.session_opened'' ''pos_session'' (Some i) []) (\<lambda>_.
          ret session))))))))))"

definition update_pos_session :: "uuid \<Rightarrow> (pos_session \<Rightarrow> pos_session) \<Rightarrow> ('a pos_db_scheme, unit) tx" where
  "update_pos_session i f = modify (\<lambda>s. s\<lparr>pos_sessions := upd_where (\<lambda>x. ps_id x = i) f (pos_sessions s)\<rparr>)"

definition closed_session ::
  "TenantContext \<Rightarrow> SessionClose \<Rightarrow> rat \<Rightarrow> rat \<Rightarrow> datetime \<Rightarrow> pos_session \<Rightarrow> pos_session"
where
  "closed_session context payload expected variance now x =
     x\<lparr>ps_expected_cash := Some expected, ps_counted_cash := Some (scl_counted_cash payload),
       ps_cash_variance := Some variance, ps_status := SESSION_CLOSED, ps_closed_at := Some now,
       ps_closed_by_membership_id := Some (membership_id context),
       ps_notes := (if scl_notes payload \<noteq> None then scl_notes payload else ps_notes x)\<rparr>"

definition close_session :: "TenantContext \<Rightarrow> uuid \<Rightarrow> SessionClose \<Rightarrow> ('a pos_db_scheme, pos_session) tx" where
  "close_session context session_id payload =
     service_transaction pos_chk
       (bnd (require_open_session context session_id True) (\<lambda>session.
        bnd (gets (cash_net session_id)) (\<lambda>cash.
        bnd (lift_res (round_money (dec_add (ps_opening_float session) cash))) (\<lambda>expected.
        bnd (lift_res (round_money (dec_sub (scl_counted_cash payload) expected))) (\<lambda>variance.
        bnd datetime_now (\<lambda>now.
        bnd (update_pos_session session_id (closed_session context payload expected variance now)) (\<lambda>_.
        bnd (audit_record context ''pos.session_closed'' ''pos_session'' (Some (ps_id session)) []) (\<lambda>_.
        ret (closed_session context payload expected variance now session)))))))))"

section \<open>Checkout\<close>

definition take_sold_stock ::
  "TenantContext \<Rightarrow> uuid \<Rightarrow> uuid \<Rightarrow> product \<Rightarrow> rat \<Rightarrow> ('a pos_db_scheme, unit) tx"
where
  "take_sold_stock context warehouse_id sale_id product quantity =
     run_if (pr_is_stock_tracked product)
       (bnd (post_movement_for_document context warehouse_id product SALE (ctx28 (- quantity)) None ''pos_sale'' sale_id) (\<lambda>_.
        ret ()))"

text \<open>The accumulator holds the lines and the running net, tax, cost and discount.\<close>

type_synonym checkout_acc = "sale_line list \<times> rat \<times> rat \<times> rat \<times> rat"

definition add_sale_line ::
  "TenantContext \<Rightarrow> uuid \<Rightarrow> uuid \<Rightarrow> checkout_acc \<Rightarrow> CartLine \<Rightarrow> ('a pos_db_scheme, checkout_acc) tx"
where
  "add_sale_line context warehouse_id sale_id acc item =
     (case acc of (lines, net, tax, cost, discount) \<Rightarrow>
      bnd (gets (repo_product (cart_product_id item))) (\<lambda>row.
      bnd (some_or NotFoundError row) (\<lambda>product.
      bnd (gets (tax_rate (pr_tax_category_id product))) (\<lambda>rate.
      bnd (lift_res (line_totals (cart_quantity item) (pr_selling_price product) (cart_discount_rate item) rate))
        (\<lambda>(line_net, line_tax, line_total).
      bnd uuid7 (\<lambda>i.
      let line =
        \<lparr>lt_quantity = cart_quantity item, lt_unit_price = pr_selling_price product,
         lt_discount_rate = cart_discount_rate item, lt_tax_rate = rate, lt_net_amount = line_net,
         lt_tax_amount = line_tax, lt_total_amount = line_total, sln_id = i, sln_sale_id = sale_id,
         sln_product_id = pr_id product, sln_unit_cost = pr_cost_price product, sln_refunded_quantity = 0\<rparr>
      in
      bnd (modify (\<lambda>s. s\<lparr>sale_lines := sale_lines s @ [line]\<rparr>)) (\<lambda>_.
      bnd (take_sold_stock context warehouse_id sale_id product (cart_quantity item)) (\<lambda>_.
      ret (lines @ [line], dec_add net line_net, dec_add tax line_tax,
           dec_add cost (dec_mul (cart_quantity item) (pr_cost_price product)),
           dec_add discount (dec_sub (dec_mul (cart_quantity item) (pr_selling_price product)) line_net))))))))))"

definition add_tender :: "uuid \<Rightarrow> TenderInput \<Rightarrow> ('a pos_db_scheme, sale_payment) tx" where
  "add_tender sale_id input =
     bnd (require (\<not> (ti_tender input \<noteq> T_CASH \<and> ti_change_given input \<noteq> 0)) (DomainValidationError ''CHANGE_CASH_ONLY'')) (\<lambda>_.
     bnd uuid7 (\<lambda>i.
     let payment = \<lparr>spy_id = i, spy_sale_id = sale_id, spy_tender = ti_tender input, spy_amount = ti_amount input,
                    spy_change_given = ti_change_given input, spy_reference = ti_reference input\<rparr>
     in
     bnd (modify (\<lambda>s. s\<lparr>sale_payments := sale_payments s @ [payment]\<rparr>)) (\<lambda>_.
     ret payment)))"

definition effective_tender :: "TenderInput list \<Rightarrow> rat" where
  "effective_tender tenders = dec_sum (map (\<lambda>p. dec_sub (ti_amount p) (ti_change_given p)) tenders)"

definition post_sale :: "TenantContext \<Rightarrow> sale \<Rightarrow> ('a pos_db_scheme, unit) tx" where
  "post_sale context sale =
     (case cash_sale (sl_net_amount sale) (sl_tax_amount sale) (sl_cost_amount sale) of (revenue_lines, cost_lines) \<Rightarrow>
      bnd (post pos_flush_chk context (utc_date (sl_occurred_at sale)) (''POS sale '' @ sl_number sale) ''pos_sale''
            (sl_id sale) ''POS_SALE_REVENUE'' revenue_lines False [] None) (\<lambda>_.
      run_if (sl_cost_amount sale > 0)
        (bnd (post pos_flush_chk context (utc_date (sl_occurred_at sale)) (''POS sale COGS '' @ sl_number sale) ''pos_sale''
               (sl_id sale) ''POS_SALE_COGS'' cost_lines False [] None) (\<lambda>_.
         ret ()))))"

definition record_vat_for_sale :: "sale \<Rightarrow> sale_line list \<Rightarrow> ('a pos_db_scheme, unit) tx" where
  "record_vat_for_sale sale lines =
     record_vat_groups OUTPUT (utc_date (sl_occurred_at sale)) ''pos_sale'' (sl_id sale) False
       (map (\<lambda>l. (lt_tax_rate l, lt_net_amount l, lt_tax_amount l)) lines)"

definition new_sale :: "TenantContext \<Rightarrow> CheckoutCreate \<Rightarrow> pos_session \<Rightarrow> pos_terminal \<Rightarrow> uuid \<Rightarrow> datetime \<Rightarrow> sale" where
  "new_sale context payload session terminal i now =
     \<lparr>sl_id = i, sl_number = '''', sl_session_id = ps_id session, sl_terminal_id = pt_id terminal,
      sl_branch_id = pt_branch_id terminal, sl_warehouse_id = pt_warehouse_id terminal,
      sl_customer_id = co_customer_id payload, sl_cashier_membership_id = membership_id context,
      sl_status = SALE_COMPLETED, sl_occurred_at = now, sl_net_amount = 0, sl_discount_amount = 0, sl_tax_amount = 0,
      sl_total_amount = 0, sl_cost_amount = 0, sl_refunded_amount = 0, sl_notes = co_notes payload\<rparr>"

definition receipt_snapshot :: "sale \<Rightarrow> pos_terminal \<Rightarrow> sale_line list \<Rightarrow> sale_payment list \<Rightarrow> receipt_content" where
  "receipt_snapshot sale terminal lines tenders =
     \<lparr>rcc_sale_number = sl_number sale, rcc_occurred_at = sl_occurred_at sale, rcc_terminal = pt_name terminal,
      rcc_total = sl_total_amount sale,
      rcc_lines = map (\<lambda>l. (sln_product_id l, lt_quantity l, lt_unit_price l, lt_total_amount l)) lines,
      rcc_payments = map (\<lambda>p. (spy_tender p, spy_amount p, spy_change_given p)) tenders\<rparr>"

definition update_sale :: "uuid \<Rightarrow> (sale \<Rightarrow> sale) \<Rightarrow> ('a pos_db_scheme, unit) tx" where
  "update_sale i f = modify (\<lambda>s. s\<lparr>sales := upd_where (\<lambda>x. sl_id x = i) f (sales s)\<rparr>)"

text \<open>The sale itself, after the replay check.\<close>

definition ring_up ::
  "TenantContext \<Rightarrow> CheckoutCreate \<Rightarrow> ('a pos_db_scheme, sale \<times> sale_line list \<times> sale_payment list \<times> Receipt) tx"
where
  "ring_up context payload =
     bnd (require_open_session context (co_session_id payload) True) (\<lambda>session.
     bnd (require_terminal context (ps_terminal_id session)) (\<lambda>terminal.
     bnd (require (distinct (map cart_product_id (co_lines payload))) (DomainValidationError ''DUPLICATE_LINE'')) (\<lambda>_.
     bnd (gets (\<lambda>s. case co_customer_id payload of None \<Rightarrow> True | Some c \<Rightarrow> repo_customer c s \<noteq> None)) (\<lambda>known.
     bnd (require known NotFoundError) (\<lambda>_.
     bnd uuid7 (\<lambda>i.
     bnd datetime_now (\<lambda>now.
     let sale = new_sale context payload session terminal i now in
     bnd (modify (\<lambda>s. s\<lparr>sales := sales s @ [sale]\<rparr>)) (\<lambda>_.
     bnd (flush pos_flush_chk) (\<lambda>_.
     bnd (for_acc (add_sale_line context (pt_warehouse_id terminal) i) ([], 0, 0, 0, 0)
           (sort_key cart_product_id (co_lines payload))) (\<lambda>(lines, net, tax, cost, discount).
     bnd (lift_res (round_money net)) (\<lambda>net_amount.
     bnd (lift_res (round_money discount)) (\<lambda>discount_amount.
     bnd (lift_res (round_money tax)) (\<lambda>tax_amount.
     bnd (lift_res (round_money (dec_add net tax))) (\<lambda>total_amount.
     bnd (lift_res (dec_quantize round_half_even 6 cost)) (\<lambda>cost_amount.
     bnd (require (effective_tender (co_payments payload) = total_amount) (ConflictError ''TENDER_INSUFFICIENT'')) (\<lambda>_.
     bnd (for_each (add_tender i) (co_payments payload)) (\<lambda>payments.
     bnd (allocate ''pos_sale'' (str_nat (nat (year_of (utc_date now))))) (\<lambda>number.
     let complete = (\<lambda>x. x\<lparr>sl_number := number, sl_net_amount := net_amount, sl_discount_amount := discount_amount,
                           sl_tax_amount := tax_amount, sl_total_amount := total_amount, sl_cost_amount := cost_amount\<rparr>);
         sold = complete sale
     in
     bnd (update_sale i complete) (\<lambda>_.
     bnd uuid7 (\<lambda>j.
     bnd datetime_now (\<lambda>rendered.
     let slip = \<lparr>rcp_id = j, rcp_number = number, rcp_sale_id = i,
                 rcp_content = receipt_snapshot sold terminal lines payments, rcp_rendered_at = rendered\<rparr>
     in
     bnd (modify (\<lambda>s. s\<lparr>receipts := receipts s @ [slip]\<rparr>)) (\<lambda>_.
     bnd (post_sale context sold) (\<lambda>_.
     bnd (record_vat_for_sale sold lines) (\<lambda>_.
     bnd (audit_record context ''pos.sale_completed'' ''sale'' (Some i) []) (\<lambda>_.
     ret (sold, lines, payments, slip))))))))))))))))))))))))))"

definition CHECKOUT_ENDPOINT :: string where
  "CHECKOUT_ENDPOINT = ''POST /pos/checkout''"

text \<open>The stored parts of a completed sale.\<close>

definition sale_parts ::
  "TenantContext \<Rightarrow> sale \<Rightarrow> ('a pos_db_scheme, sale \<times> sale_line list \<times> sale_payment list \<times> Receipt) tx"
where
  "sale_parts context sale =
     bnd (require_branch context (sl_branch_id sale)) (\<lambda>_.
     bnd (gets (repo_receipt (sl_id sale))) (\<lambda>row.
     bnd (some_or (RuntimeError ''Completed sale is missing its receipt'') row) (\<lambda>slip.
     bnd (gets (repo_sale_lines (sl_id sale))) (\<lambda>lines.
     bnd (gets (repo_sale_payments (sl_id sale))) (\<lambda>payments.
     ret (sale, lines, payments, slip))))))"

definition checkout ::
  "(CheckoutCreate \<Rightarrow> string) \<Rightarrow> bool \<Rightarrow> TenantContext \<Rightarrow> CheckoutCreate \<Rightarrow> string \<Rightarrow>
     ('a pos_db_scheme, (sale \<times> sale_line list \<times> sale_payment list \<times> Receipt) \<times> bool) tx"
where
  "checkout request_hash in_flight context payload key =
     service_transaction pos_chk
       (bnd (claim request_hash in_flight CHECKOUT_ENDPOINT key payload) (\<lambda>claimed.
        bnd (gets (replayed claimed repo_sale)) (\<lambda>existing.
        case existing of
          Some sale \<Rightarrow> bnd (sale_parts context sale) (\<lambda>parts. ret (parts, True))
        | None \<Rightarrow>
            bnd (ring_up context payload) (\<lambda>parts.
            bnd (complete_key CHECKOUT_ENDPOINT key 201 (str_nat (sl_id (fst parts)))) (\<lambda>_.
            ret (parts, False))))))"

section \<open>Parked carts\<close>

definition hold :: "TenantContext \<Rightarrow> HoldCreate \<Rightarrow> ('a pos_db_scheme, held_sale) tx" where
  "hold context payload =
     service_transaction pos_chk
       (bnd (require_open_session context (hc_session_id payload) True) (\<lambda>session.
        bnd (require_terminal context (ps_terminal_id session)) (\<lambda>terminal.
        bnd uuid7 (\<lambda>i.
        bnd datetime_now (\<lambda>now.
        let held = \<lparr>hs_id = i, hs_session_id = ps_id session, hs_terminal_id = pt_id terminal,
                    hs_held_by_membership_id = membership_id context, hs_label = hc_label payload,
                    hs_cart = hc_lines payload, hs_held_at = now\<rparr>
        in
        bnd (modify (\<lambda>s. s\<lparr>held_sales := held_sales s @ [held]\<rparr>)) (\<lambda>_.
        bnd (audit_record context ''pos.sale_held'' ''held_sale'' (Some i) []) (\<lambda>_.
        ret held)))))))"

definition list_holds :: "TenantContext \<Rightarrow> uuid \<Rightarrow> ('a pos_db_scheme, held_sale list) tx" where
  "list_holds context session_id =
     service_transaction pos_chk
       (bnd (require_open_session context session_id True) (\<lambda>_. gets (held_for_session session_id)))"

definition resume :: "TenantContext \<Rightarrow> uuid \<Rightarrow> ('a pos_db_scheme, CartLine list) tx" where
  "resume context held_id =
     service_transaction pos_chk
       (bnd (gets (repo_held held_id)) (\<lambda>row.
        bnd (some_or NotFoundError row) (\<lambda>held.
        bnd (require_open_session context (hs_session_id held) True) (\<lambda>_.
        bnd (modify (\<lambda>s. s\<lparr>held_sales := filter (\<lambda>h. hs_id h \<noteq> held_id) (held_sales s)\<rparr>)) (\<lambda>_.
        bnd (audit_record context ''pos.sale_resumed'' ''held_sale'' (Some (hs_id held)) []) (\<lambda>_.
        ret (hs_cart held)))))))"

section \<open>Refunds\<close>

definition update_sale_line :: "uuid \<Rightarrow> (sale_line \<Rightarrow> sale_line) \<Rightarrow> ('a pos_db_scheme, unit) tx" where
  "update_sale_line i f = modify (\<lambda>s. s\<lparr>sale_lines := upd_where (\<lambda>l. sln_id l = i) f (sale_lines s)\<rparr>)"

definition sale_line_by_id :: "uuid \<Rightarrow> sale_line list \<Rightarrow> sale_line option" where
  "sale_line_by_id i lines = find (\<lambda>l. sln_id l = i) lines"

text \<open>The share of an amount of the line that the refunded quantity carries.\<close>

definition refund_share :: "rat \<Rightarrow> rat \<Rightarrow> rat \<Rightarrow> error + rat" where
  "refund_share amount quantity sold = res_bnd (dec_div (dec_mul amount quantity) sold) round_money"

definition return_stock :: "TenantContext \<Rightarrow> uuid \<Rightarrow> uuid \<Rightarrow> product \<Rightarrow> rat \<Rightarrow> ('a pos_db_scheme, unit) tx" where
  "return_stock context warehouse_id return_id product quantity =
     run_if (pr_is_stock_tracked product)
       (bnd (post_movement_for_document context warehouse_id product SALE_RETURN quantity None ''pos_return'' return_id) (\<lambda>_.
        ret ()))"

text \<open>The accumulator holds the running total, net, tax and cost and the amounts by rate.\<close>

type_synonym refund_acc = "rat \<times> rat \<times> rat \<times> rat \<times> (rat \<times> rat \<times> rat) list"

definition refund_line ::
  "TenantContext \<Rightarrow> sale \<Rightarrow> uuid \<Rightarrow> sale_line list \<Rightarrow> refund_acc \<Rightarrow> RefundLine \<Rightarrow> ('a pos_db_scheme, refund_acc) tx"
where
  "refund_line context sale return_id lines acc item =
     (case acc of (total_so_far, net, tax, cost, rate_lines) \<Rightarrow>
      bnd (some_or KeyError (sale_line_by_id (rl_sale_line_id item) lines)) (\<lambda>line.
      bnd (require (\<not> rl_quantity item > dec_sub (lt_quantity line) (sln_refunded_quantity line)) (ConflictError ''REFUND_EXCEEDS_SALE'')) (\<lambda>_.
      bnd (gets (repo_product (sln_product_id line))) (\<lambda>row.
      bnd (some_or NotFoundError row) (\<lambda>product.
      bnd (lift_res (refund_share (lt_total_amount line) (rl_quantity item) (lt_quantity line))) (\<lambda>amount.
      bnd (lift_res (refund_share (lt_net_amount line) (rl_quantity item) (lt_quantity line))) (\<lambda>line_net.
      bnd (lift_res (refund_share (lt_tax_amount line) (rl_quantity item) (lt_quantity line))) (\<lambda>line_tax.
      bnd (update_sale_line (sln_id line) (\<lambda>l. l\<lparr>sln_refunded_quantity := dec_add (sln_refunded_quantity l) (rl_quantity item)\<rparr>)) (\<lambda>_.
      bnd uuid7 (\<lambda>i.
      bnd (modify (\<lambda>s. s\<lparr>sale_return_lines := sale_return_lines s @
            [\<lparr>srl_id = i, srl_sale_return_id = return_id, srl_sale_line_id = sln_id line,
              srl_product_id = sln_product_id line, srl_quantity = rl_quantity item, srl_amount = amount\<rparr>]\<rparr>)) (\<lambda>_.
      bnd (return_stock context (sl_warehouse_id sale) return_id product (rl_quantity item)) (\<lambda>_.
      ret (dec_add total_so_far amount, dec_add net line_net, dec_add tax line_tax,
           dec_add cost (dec_mul (sln_unit_cost line) (rl_quantity item)),
           rate_lines @ [(lt_tax_rate line, line_net, line_tax)])))))))))))))"

definition post_refund :: "TenantContext \<Rightarrow> sale_return \<Rightarrow> rat \<Rightarrow> rat \<Rightarrow> rat \<Rightarrow> ('a pos_db_scheme, unit) tx" where
  "post_refund context sale_return net tax cost =
     (case pos_refund net tax cost True of (revenue_lines, cost_lines) \<Rightarrow>
      bnd (run_if (dec_add net tax > 0)
            (bnd (post pos_flush_chk context (utc_date (srn_occurred_at sale_return)) (''POS refund '' @ srn_number sale_return)
                   ''pos_return'' (srn_id sale_return) ''POS_REFUND_REVENUE'' revenue_lines False [] None) (\<lambda>_. ret ()))) (\<lambda>_.
      case cost_lines of
        None \<Rightarrow> ret ()
      | Some lines \<Rightarrow>
          bnd (post pos_flush_chk context (utc_date (srn_occurred_at sale_return))
                (''POS refund COGS reversal '' @ srn_number sale_return) ''pos_return'' (srn_id sale_return) ''POS_REFUND_COGS''
                lines False [] None) (\<lambda>_. ret ())))"

definition record_vat_for_refund :: "sale_return \<Rightarrow> (rat \<times> rat \<times> rat) list \<Rightarrow> ('a pos_db_scheme, unit) tx" where
  "record_vat_for_refund sale_return rate_lines =
     record_vat_groups OUTPUT (utc_date (srn_occurred_at sale_return)) ''pos_return'' (srn_id sale_return) True rate_lines"

definition by_sold_product :: "sale_line list \<Rightarrow> RefundLine \<Rightarrow> uuid" where
  "by_sold_product lines item =
     (case sale_line_by_id (rl_sale_line_id item) lines of None \<Rightarrow> 0 | Some l \<Rightarrow> sln_product_id l)"

definition update_sale_return :: "uuid \<Rightarrow> (sale_return \<Rightarrow> sale_return) \<Rightarrow> ('a pos_db_scheme, unit) tx" where
  "update_sale_return i f = modify (\<lambda>s. s\<lparr>sale_returns := upd_where (\<lambda>r. srn_id r = i) f (sale_returns s)\<rparr>)"

definition take_back :: "TenantContext \<Rightarrow> RefundCreate \<Rightarrow> ('a pos_db_scheme, sale_return) tx" where
  "take_back context payload =
     bnd (require_open_session context (rf_session_id payload) True) (\<lambda>session.
     bnd (require_terminal context (ps_terminal_id session)) (\<lambda>terminal.
     bnd (gets (repo_sale (rf_sale_id payload))) (\<lambda>row.
     bnd (some_or NotFoundError row) (\<lambda>sale.
     bnd (require_branch context (sl_branch_id sale)) (\<lambda>_.
     bnd (require (sl_branch_id sale = pt_branch_id terminal) (PermissionDeniedError ''BRANCH_ACCESS_DENIED'')) (\<lambda>_.
     bnd (gets (repo_sale_lines (sl_id sale))) (\<lambda>lines.
     bnd (require (distinct (map rl_sale_line_id (rf_lines payload))) (DomainValidationError ''DUPLICATE_LINE'')) (\<lambda>_.
     bnd (require (list_all (\<lambda>item. rl_sale_line_id item \<in> set (map sln_id lines)) (rf_lines payload)) NotFoundError) (\<lambda>_.
     bnd uuid7 (\<lambda>i.
     bnd datetime_now (\<lambda>now.
     let pending = \<lparr>srn_id = i, srn_number = '''', srn_sale_id = sl_id sale, srn_session_id = ps_id session,
                    srn_processed_by_membership_id = membership_id context, srn_amount = 0, srn_reason = rf_reason payload,
                    srn_occurred_at = now\<rparr>
     in
     bnd (modify (\<lambda>s. s\<lparr>sale_returns := sale_returns s @ [pending]\<rparr>)) (\<lambda>_.
     bnd (flush pos_flush_chk) (\<lambda>_.
     bnd (for_acc (refund_line context sale i lines) (0, 0, 0, 0, []) (sort_key (by_sold_product lines) (rf_lines payload)))
       (\<lambda>(total_refund, net, tax, cost, rate_lines).
     bnd (lift_res (round_money total_refund)) (\<lambda>amount.
     bnd (lift_res (round_money (dec_add (sl_refunded_amount sale) total_refund))) (\<lambda>refunded.
     bnd (update_sale (sl_id sale) (\<lambda>x. x\<lparr>sl_refunded_amount := refunded\<rparr>)) (\<lambda>_.
     bnd (allocate ''pos_return'' (str_nat (nat (year_of (utc_date now))))) (\<lambda>number.
     let complete = (\<lambda>r. r\<lparr>srn_amount := amount, srn_number := number\<rparr>) in
     bnd (update_sale_return i complete) (\<lambda>_.
     bnd (post_refund context (complete pending) net tax cost) (\<lambda>_.
     bnd (record_vat_for_refund (complete pending) rate_lines) (\<lambda>_.
     bnd (audit_record context ''pos.sale_refunded'' ''sale_return'' (Some i) []) (\<lambda>_.
     ret (complete pending)))))))))))))))))))))))"

definition REFUND_ENDPOINT :: string where
  "REFUND_ENDPOINT = ''POST /pos/refunds''"

definition refund ::
  "(RefundCreate \<Rightarrow> string) \<Rightarrow> bool \<Rightarrow> TenantContext \<Rightarrow> RefundCreate \<Rightarrow> string \<Rightarrow> ('a pos_db_scheme, sale_return \<times> bool) tx"
where
  "refund request_hash in_flight context payload key =
     service_transaction pos_chk
       (bnd (claim request_hash in_flight REFUND_ENDPOINT key payload) (\<lambda>claimed.
        bnd (gets (replayed claimed repo_sale_return)) (\<lambda>existing.
        case existing of
          Some r \<Rightarrow> ret (r, True)
        | None \<Rightarrow>
            bnd (take_back context payload) (\<lambda>r.
            bnd (complete_key REFUND_ENDPOINT key 201 (str_nat (srn_id r))) (\<lambda>_.
            ret (r, False))))))"

definition sale_detail ::
  "TenantContext \<Rightarrow> uuid \<Rightarrow> ('a pos_db_scheme, sale \<times> sale_line list \<times> sale_payment list \<times> Receipt) tx"
where
  "sale_detail context sale_id =
     service_transaction pos_chk
       (bnd (gets (repo_sale sale_id)) (\<lambda>row.
        bnd (some_or NotFoundError row) (sale_parts context)))"

text \<open>Checkout and refund require the \<open>Idempotency-Key\<close> header.\<close>

definition route_checkout where
  "route_checkout request_hash in_flight context payload key =
     bnd (require (truthy key) (DomainValidationError ''IDEMPOTENCY_KEY_REQUIRED'')) (\<lambda>_.
     checkout request_hash in_flight context payload (the key))"

definition route_refund where
  "route_refund request_hash in_flight context payload key =
     bnd (require (truthy key) (DomainValidationError ''IDEMPOTENCY_KEY_REQUIRED'')) (\<lambda>_.
     refund request_hash in_flight context payload (the key))"

end
