(* ===== verification/Stock_Invariant.thy ===== *)
theory Stock_Invariant
  imports Inventory
begin

text \<open>
  The invariants of the stock ledger and the properties of the inventory service. \<open>stock_inv\<close>: the
  cached balance of every product and warehouse is the sum of its movements, the reserved quantity
  is the sum of the active reservations, every movement records the balance it left behind, and
  stock is never reserved or issued beyond what is available unless the tenant allows it.
  \<open>transfer_inv\<close>: the goods of a transfer leave its source once when it is shipped and reach its
  destination once when it is received. Every operation preserves both.
\<close>

section \<open>The stock invariant\<close>

definition units_ok :: "'a inventory_db_scheme \<Rightarrow> bool" where
  "units_ok s \<longleftrightarrow> list_all (\<lambda>u. um_precision u \<le> 6) (units s)"

definition quantity_ranges :: "'a inventory_db_scheme \<Rightarrow> bool" where
  "quantity_ranges s \<longleftrightarrow> list_all (\<lambda>m. in_range 14 (mv_quantity m)) (movements s)
                        \<and> list_all (\<lambda>r. in_range 14 (sr_quantity r)) (reservations s)"

definition agrees_at :: "bool \<Rightarrow> uuid \<Rightarrow> uuid \<Rightarrow> 'a inventory_db_scheme \<Rightarrow> bool" where
  "agrees_at lax w p s \<longleftrightarrow>
     on_grid 6 (on_hand w p s) \<and> on_grid 6 (reserved w p s)
     \<and> on_hand w p s = ledger_quantity w p (movements s)
     \<and> reserved w p s = active_reserved w p (reservations s)
     \<and> (\<not> lax \<longrightarrow> \<not> allow_negative_inventory s \<longrightarrow> reserved w p s \<le> on_hand w p s)"

definition stock_agrees :: "bool \<Rightarrow> 'a inventory_db_scheme \<Rightarrow> bool" where
  "stock_agrees lax s \<longleftrightarrow> running_balances (movements s) \<and> (\<forall>w p. agrees_at lax w p s)"

text \<open>The ranges are those the commit checks, so the premise holds in every committed state.\<close>

definition stock_inv :: "bool \<Rightarrow> 'a inventory_db_scheme \<Rightarrow> bool" where
  "stock_inv lax s \<longleftrightarrow> units_ok s \<and> list_all (\<lambda>r. on_grid 6 (sr_quantity r)) (reservations s)
                    \<and> (quantity_ranges s \<longrightarrow> stock_agrees lax s)"

lemma stock_agreesD:
  assumes "stock_agrees lax s"
  shows "on_grid 6 (on_hand w p s)" and "on_grid 6 (reserved w p s)"
    and "on_hand w p s = ledger_quantity w p (movements s)"
    and "reserved w p s = active_reserved w p (reservations s)"
    and "\<not> lax \<Longrightarrow> \<not> allow_negative_inventory s \<Longrightarrow> reserved w p s \<le> on_hand w p s"
  using assms unfolding stock_agrees_def agrees_at_def by blast+

lemma unit_precision_le6: "units_ok s \<Longrightarrow> unit_precision i s = Some k \<Longrightarrow> k \<le> 6"
  by (auto simp: units_ok_def unit_precision_def list_all_iff dest: find_SomeD)

lemma ctx28_close:
  assumes "\<bar>q\<bar> < 10 ^ 15"
  shows "\<bar>q - ctx28 q\<bar> < 1 / (2 * 10 ^ 6)"
proof -
  have "\<bar>q\<bar> / (2 * 10 ^ 27) < 1 / (2 * 10 ^ 6)" using assms by simp
  with ctx28_near[of q] have "\<bar>ctx28 q - q\<bar> < 1 / (2 * 10 ^ 6)" by (rule le_less_trans)
  then show ?thesis by (simp add: abs_minus_commute)
qed

lemma Quantity_valid:
  assumes "on_grid 6 (ctx28 q)" and "in_range 14 (Quantity q)"
  shows "Quantity q = ctx28 q" and "on_grid 6 a \<Longrightarrow> Quantity (a + q) = a + Quantity q"
proof -
  have "\<bar>Quantity q - q\<bar> \<le> 1" using half_up.rescale_near[of 6 q] by (simp add: Quantity_def)
  then have "\<bar>q\<bar> \<le> \<bar>Quantity q\<bar> + 1" by linarith
  then have q: "\<bar>q\<bar> < 10 ^ 15" using assms(2) by (simp add: in_range_def)
  show eq: "Quantity q = ctx28 q"
    unfolding Quantity_def using assms(1) ctx28_close[OF q] by (rule half_up.rescale_unique)
  assume a: "on_grid 6 a"
  have "Quantity (a + q) = a + ctx28 q"
    unfolding Quantity_def by (rule half_up.rescale_unique) (use assms(1) a ctx28_close[OF q] in auto)
  then show "Quantity (a + q) = a + Quantity q" by (simp add: eq)
qed

lemma Quantity_fixed: "on_grid 6 x \<Longrightarrow> Quantity x = x"
  unfolding Quantity_def by (rule half_up.rescale_fixed)

lemma Quantity_mono: "x \<le> y \<Longrightarrow> Quantity x \<le> Quantity y"
  unfolding Quantity_def by (rule half_up.rescale_mono)

lemma Quantity_grid [simp, intro]: "on_grid 6 (Quantity x)"
  unfolding Quantity_def by (rule half_up.rescale_on_grid)

lemma ledger_quantity_append [simp]:
  "ledger_quantity w p (ms @ [m]) =
     ledger_quantity w p ms + (if mv_warehouse_id m = w \<and> mv_product_id m = p then mv_quantity m else 0)"
  by (simp add: ledger_quantity_def)

lemma running_balances_append:
  "running_balances (ms @ [m]) \<longleftrightarrow>
     running_balances ms \<and> mv_balance_after m = ledger_quantity (mv_warehouse_id m) (mv_product_id m) (ms @ [m])"
  by (auto simp: running_balances_def nth_append less_Suc_eq all_conj_distrib)

lemma stock_step_inv:
  assumes inv: "stock_inv lax s" and step: "stock_step (posted_row q u (on_hand w p s) m) s s'"
    and m: "mv_warehouse_id m = w" "mv_product_id m = p" and grid: "k \<le> 6" "on_grid k (ctx28 q)"
    and guard: "\<not> allow_negative_inventory s \<Longrightarrow> q < 0 \<Longrightarrow> - q \<le> on_hand w p s - reserved w p s"
  shows "stock_inv lax s'"
proof -
  have frame: "units s' = units s" "allow_negative_inventory s' = allow_negative_inventory s"
    "reservations s' = reservations s" "movements s' = movements s @ [posted_row q u (on_hand w p s) m]"
    using step by (simp_all add: stock_step_def inventory_frame_def)
  have "stock_agrees lax s'" if ranges: "quantity_ranges s'"
  proof -
    have r: "in_range 14 (Quantity q)" and "quantity_ranges s"
      using ranges frame by (auto simp: quantity_ranges_def)
    then have ok: "stock_agrees lax s" using inv by (simp add: stock_inv_def)
    have g6: "on_grid 6 (ctx28 q)" using grid(2,1) by (rule on_grid_mono)
    have oh: "on_grid 6 (on_hand w p s)" using ok by (rule stock_agreesD)
    note add = Quantity_valid(2)[OF g6 r oh]
    have avail: "reserved w p s \<le> Quantity (on_hand w p s + q)" if "\<not> lax" "\<not> allow_negative_inventory s"
    proof -
      have "reserved w p s \<le> on_hand w p s + q"
        using guard[OF that(2)] stock_agreesD(5)[OF ok that, of w p] by (cases "q < 0") linarith+
      then have "Quantity (reserved w p s) \<le> Quantity (on_hand w p s + q)" by (rule Quantity_mono)
      then show ?thesis by (simp add: Quantity_fixed stock_agreesD(2)[OF ok])
    qed
    have oh': "on_hand w' p' s' = (if w' = w \<and> p' = p then on_hand w p s + Quantity q else on_hand w' p' s)"
      and re': "reserved w' p' s' = reserved w' p' s" for w' p'
      using step m add by (simp_all add: stock_step_def)
    have "agrees_at lax w' p' s'" for w' p'
    proof (cases "w' = w \<and> p' = p")
      case True
      then show ?thesis
        using avail add oh m unfolding agrees_at_def oh' re' frame
        by (auto simp: stock_agreesD(2)[OF ok] stock_agreesD(4)[OF ok, symmetric] stock_agreesD(3)[OF ok, symmetric])
    next
      case False
      moreover have "agrees_at lax w' p' s" using ok by (simp add: stock_agrees_def)
      ultimately show ?thesis using m unfolding agrees_at_def oh' re' frame by auto
    qed
    moreover have "running_balances (movements s')"
      using ok m add by (auto simp: frame running_balances_append stock_agrees_def stock_agreesD(3)[OF ok])
    ultimately show ?thesis by (simp add: stock_agrees_def)
  qed
  then show ?thesis using inv by (simp add: stock_inv_def units_ok_def frame)
qed

lemma post_movement_stock_inv:
  assumes "stock_inv lax s"
  shows "wp (post_movement context w product ty q u rt ri notes key) (\<lambda>_. stock_inv lax) s"
proof (rule wp_post_movement)
  fix m s' k
  assume "stock_step (posted_row q u (on_hand w (pr_id product) s) m) s s'"
    "unit_precision (pr_uom_id product) s = Some k" "on_grid k (ctx28 q)"
    "mv_warehouse_id m = w" "mv_product_id m = pr_id product"
    "\<not> allow_negative_inventory s \<Longrightarrow> q < 0 \<Longrightarrow> - q \<le> on_hand w (pr_id product) s - reserved w (pr_id product) s"
  moreover have "k \<le> 6" using unit_precision_le6 calculation(2) assms by (auto simp: stock_inv_def)
  ultimately show "stock_inv lax s'" using stock_step_inv[OF assms] by blast
qed (use assms in simp)

lemma wp_validate_pair:
  assumes "\<And>product. repo_product p s = Some product \<Longrightarrow> pr_is_stock_tracked product \<Longrightarrow> Q product s"
  shows "wp (validate_pair context w p) Q s"
  using assms by (auto simp: validate_pair_def wp_simps)

lemma wp_committed:
  assumes "wp m (\<lambda>_. I) s"
  shows "wp (service_transaction chk m) (\<lambda>_ s'. I s' \<and> chk s' = None) s"
  using assms by (auto simp: wp_simps elim: wp_mono)

text \<open>Changes outside the stock tables keep the invariant.\<close>

lemma stock_inv_cong:
  assumes "balances s' = balances s" "movements s' = movements s" "reservations s' = reservations s"
    "units s' = units s" "allow_negative_inventory s' = allow_negative_inventory s"
  shows "stock_inv lax s' = stock_inv lax s"
  using assms stock_view_cong[OF assms(1)]
  by (simp add: stock_inv_def stock_agrees_def agrees_at_def quantity_ranges_def units_ok_def)

lemma stock_inv_simps [simp]:
  "stock_inv lax (s\<lparr>uuid_count := n\<rparr>) = stock_inv lax s"
  "stock_inv lax (s\<lparr>clock_count := n\<rparr>) = stock_inv lax s"
  "stock_inv lax (s\<lparr>audit_events := es\<rparr>) = stock_inv lax s"
  "stock_inv lax (s\<lparr>products := ps\<rparr>) = stock_inv lax s"
  "stock_inv lax (s\<lparr>transfers := ts\<rparr>) = stock_inv lax s"
  "stock_inv lax (s\<lparr>transfer_lines := ls\<rparr>) = stock_inv lax s"
  "stock_inv lax (s\<lparr>adjustments := as\<rparr>) = stock_inv lax s"
  "stock_inv lax (s\<lparr>document_sequences := ds\<rparr>) = stock_inv lax s"
  "stock_inv lax (s\<lparr>idempotency_keys := ks\<rparr>) = stock_inv lax s"
  by (rule stock_inv_cong; simp)+

lemma active_reserved_append [simp]:
  "active_reserved w p (rs @ [r]) = active_reserved w p rs
     + (if sr_warehouse_id r = w \<and> sr_product_id r = p \<and> sr_status r = ACTIVE then sr_quantity r else 0)"
  by (simp add: active_reserved_def)

lemma active_reserved_release:
  assumes "unique_on sr_id rs" and "r \<in> set rs" and "sr_status r = ACTIVE"
  shows "active_reserved w p (upd_where (\<lambda>x. sr_id x = sr_id r) (\<lambda>x. x\<lparr>sr_status := RELEASED\<rparr>) rs)
       = active_reserved w p rs - (if sr_warehouse_id r = w \<and> sr_product_id r = p then sr_quantity r else 0)"
  unfolding active_reserved_def using assms(3) by (subst sum_list_upd_unique[OF assms(1,2)]) simp

lemma quantity_ranges_release [simp]:
  "quantity_ranges (s\<lparr>reservations := upd_where P (\<lambda>x. x\<lparr>sr_status := RELEASED\<rparr>) (reservations s)\<rparr>) = quantity_ranges s"
  by (simp add: quantity_ranges_def list_all_upd_where)

text \<open>
  What releasing the reservation \<open>r\<close> does: its quantity leaves the reserved stock and its status is
  \<open>RELEASED\<close>. \<open>release\<close> and \<open>release_expired\<close> both do this.
\<close>

lemma release_row_inv:
  assumes inv: "stock_inv lax s" and uniq: "unique_on sr_id (reservations s)"
    and r: "r \<in> set (reservations s)" "sr_status r = ACTIVE" "0 < sr_quantity r"
    and b: "find (is_balance (sr_warehouse_id r) (sr_product_id r)) bs = Some b"
    and view: "\<And>w p. on_hand w p (s\<lparr>balances := bs\<rparr>) = on_hand w p s"
      "\<And>w p. reserved w p (s\<lparr>balances := bs\<rparr>) = reserved w p s"
    and s': "balances s' = upd_where (is_balance (sr_warehouse_id r) (sr_product_id r))
               (\<lambda>x. x\<lparr>ib_reserved_quantity := ib_reserved_quantity b - sr_quantity r\<rparr>) bs"
      "reservations s' = upd_where (\<lambda>x. sr_id x = sr_id r) (\<lambda>x. x\<lparr>sr_status := RELEASED\<rparr>) (reservations s)"
      "movements s' = movements s" "units s' = units s" "allow_negative_inventory s' = allow_negative_inventory s"
  shows "stock_inv lax s'"
proof -
  let ?w = "sr_warehouse_id r" and ?p = "sr_product_id r"
  let ?f = "\<lambda>x. x\<lparr>ib_reserved_quantity := ib_reserved_quantity b - sr_quantity r\<rparr>"
  have grid: "on_grid 6 (sr_quantity r)" using inv r(1) by (auto simp: stock_inv_def list_all_iff)
  have rb: "ib_reserved_quantity b = reserved ?w ?p s" "ib_quantity_on_hand b = on_hand ?w ?p s"
    using b view[of ?w ?p] by (simp_all add: reserved_def on_hand_def lock_balance_def)
  have oh': "on_hand w p s' = on_hand w p s"
    and re': "reserved w p s' = reserved w p s - (if w = ?w \<and> p = ?p then sr_quantity r else 0)" for w p
    using on_hand_set[of ?f, OF _ _ b, of w p s] view[of w p] rb s'(1)
    by (auto simp: on_hand_def reserved_def lock_balance_def)
  have "stock_agrees lax s'" if "quantity_ranges s'"
  proof -
    have "quantity_ranges s" using that s' quantity_ranges_release[of "\<lambda>x. sr_id x = sr_id r" s]
      by (simp add: quantity_ranges_def)
    then have ok: "stock_agrees lax s" using inv by (simp add: stock_inv_def)
    have "agrees_at lax w p s'" for w p
      using stock_agreesD[OF ok, of w p] r(3) grid
      unfolding agrees_at_def oh' re' s' active_reserved_release[OF uniq r(1,2)] by auto
    then show ?thesis using ok by (simp add: stock_agrees_def s')
  qed
  then show ?thesis using inv by (simp add: stock_inv_def units_ok_def s' list_all_upd_where)
qed

lemma inventory_chkD:
  assumes "inventory_chk s = None"
  shows "unique_on (\<lambda>b. (ib_warehouse_id b, ib_product_id b)) (balances s)"
    and "unique_on sr_id (reservations s)" and "list_all (\<lambda>r. 0 < sr_quantity r) (reservations s)"
    and "unique_on st_id (transfers s)" and "unique_on (\<lambda>l. (stl_transfer_id l, stl_product_id l)) (transfer_lines s)"
    and "list_all (\<lambda>l. 0 < stl_quantity l) (transfer_lines s)"
    and "unique_where mv_idempotency_key (\<lambda>m. mv_idempotency_key m \<noteq> None) (movements s)"
    and "unique_on mv_id (movements s)"
    and "quantity_ranges s"
  using assms by (auto simp: inventory_chk_def inventory_constraints_def quantity_ranges_def list_all_iff)

lemma inventory_chk_simps [simp]:
  "inventory_chk (s\<lparr>uuid_count := n\<rparr>) = inventory_chk s"
  "inventory_chk (s\<lparr>clock_count := n\<rparr>) = inventory_chk s"
  "inventory_chk (s\<lparr>audit_events := es\<rparr>) = inventory_chk s"
  by (simp_all add: inventory_chk_def inventory_constraints_def base_constraints_def)

definition inventory_inv :: "bool \<Rightarrow> 'a inventory_db_scheme \<Rightarrow> bool" where
  "inventory_inv lax s \<longleftrightarrow> stock_inv lax s \<and> inventory_chk s = None"

lemma receipt_inv: "stock_inv lax s \<Longrightarrow> wp (receipt context payload key) (\<lambda>_. inventory_inv lax) s"
  unfolding receipt_def inventory_inv_def wp_bnd wp_require wp_on_integrity_error
  by (intro impI wp_committed) (simp add: wp_bnd, intro wp_validate_pair post_movement_stock_inv)

lemma issue_inv: "stock_inv lax s \<Longrightarrow> wp (issue context payload key) (\<lambda>_. inventory_inv lax) s"
  unfolding issue_def inventory_inv_def wp_on_integrity_error
  by (intro wp_committed) (simp add: wp_bnd, intro wp_validate_pair post_movement_stock_inv)

lemma adjust_inv:
  assumes "stock_inv lax s"
  shows "wp (adjust context payload key) (\<lambda>_. inventory_inv lax) s"
proof -
  show ?thesis
    unfolding adjust_def inventory_inv_def wp_on_integrity_error
    by (intro wp_committed)
      (simp add: wp_simps Let_def, intro wp_validate_pair, simp add: wp_simps post_movement_stock_inv assms)
qed

lemma reserve_inv:
  assumes "stock_inv lax s"
  shows "wp (reserve context payload) (\<lambda>_. inventory_inv lax) s"
proof -
  let ?w = "rc_warehouse_id payload" and ?p = "rc_product_id payload" and ?q = "rc_quantity payload"
  have row: "stock_inv lax s'"
    if k: "unit_precision i s = Some k" "on_grid k (ctx28 ?q)"
      and b: "find (is_balance ?w ?p) bs = Some b" "ib_quantity_on_hand b = on_hand ?w ?p s" "ib_reserved_quantity b = reserved ?w ?p s"
      and view: "\<And>w p. on_hand w p (s\<lparr>balances := bs\<rparr>) = on_hand w p s" "\<And>w p. reserved w p (s\<lparr>balances := bs\<rparr>) = reserved w p s"
      and guard: "\<not> allow_negative_inventory s \<Longrightarrow> ?q \<le> on_hand ?w ?p s - reserved ?w ?p s"
      and s': "balances s' = upd_where (is_balance ?w ?p) (\<lambda>x. x\<lparr>ib_reserved_quantity := Quantity (reserved ?w ?p s + ?q)\<rparr>) bs"
        "reservations s' = reservations s @ [r]" "sr_warehouse_id r = ?w" "sr_product_id r = ?p" "sr_status r = ACTIVE"
        "sr_quantity r = Quantity ?q"
        "movements s' = movements s" "units s' = units s" "allow_negative_inventory s' = allow_negative_inventory s"
    for i k bs b r and s' :: "'a inventory_db_scheme"
  proof -
    let ?f = "\<lambda>x. x\<lparr>ib_reserved_quantity := Quantity (reserved ?w ?p s + ?q)\<rparr>"
    have oh': "on_hand w p s' = on_hand w p s"
      and re': "reserved w p s' = (if w = ?w \<and> p = ?p then Quantity (reserved ?w ?p s + ?q) else reserved w p s)" for w p
      using on_hand_set[of ?f, OF _ _ b(1), of w p s] view[of w p] b s'(1)
      by (auto simp: on_hand_def reserved_def lock_balance_def)
    have "stock_agrees lax s'" if "quantity_ranges s'"
    proof -
      have r: "in_range 14 (Quantity ?q)" and "quantity_ranges s"
        using that s' by (auto simp: quantity_ranges_def)
      then have ok: "stock_agrees lax s" using assms by (simp add: stock_inv_def)
      have "k \<le> 6" using k(1) assms unit_precision_le6 by (auto simp: stock_inv_def)
      with k(2) have g6: "on_grid 6 (ctx28 ?q)" by (rule on_grid_mono)
      note add = Quantity_valid(2)[OF g6 r stock_agreesD(2)[OF ok]]
      have avail: "reserved ?w ?p s + Quantity ?q \<le> on_hand ?w ?p s" if "\<not> lax" "\<not> allow_negative_inventory s"
        using Quantity_mono[of "reserved ?w ?p s + ?q" "on_hand ?w ?p s"] guard[OF that(2)] add[of ?w ?p]
        by (simp add: Quantity_fixed stock_agreesD(1)[OF ok])
      have "agrees_at lax w p s'" for w p
        using stock_agreesD[OF ok, of w p] avail s' unfolding agrees_at_def oh' re' add by auto
      then show ?thesis using ok by (simp add: stock_agrees_def s')
    qed
    then show ?thesis using assms by (simp add: stock_inv_def units_ok_def s')
  qed
  show ?thesis
    unfolding reserve_def inventory_inv_def
    apply (intro wp_committed)
    apply (simp only: wp_bnd validate_quantity_def wp_gets wp_some_or wp_require)
    apply (intro wp_validate_pair allI impI wp_balance_for_update)
    apply (simp only: wp_simps Let_def)
    subgoal for product k b bs by (rule row[of "pr_uom_id product" k bs b]) (auto simp: not_less)
    done
qed

lemma release_inv:
  assumes "inventory_inv lax s"
  shows "wp (release context i) (\<lambda>_. inventory_inv lax) s"
proof -
  have inv: "stock_inv lax s" "unique_on sr_id (reservations s)" "list_all (\<lambda>r. 0 < sr_quantity r) (reservations s)"
    using assms inventory_chkD[of s] by (simp_all add: inventory_inv_def)
  show ?thesis
    unfolding release_def inventory_inv_def
    apply (intro wp_committed)
    apply (simp only: wp_bnd wp_gets wp_some_or wp_require repo_reservation_def)
    apply (intro allI impI wp_balance_for_update)
    apply (simp only: wp_simps set_reservation_released_def)
    subgoal for r b bs
      using find_SomeD[of "\<lambda>r. sr_id r = i" "reservations s" r] inv(3)
      by (intro release_row_inv[OF inv(1,2), of r bs b]) (auto simp: list_all_iff)
    done
qed

lemma reconcile_inv:
  assumes "inventory_inv lax s"
  shows "wp (reconcile context) (\<lambda>_. inventory_inv lax) s"
proof -
  have "wp (for_each (record_drift context) xs) (\<lambda>_. stock_inv lax) s" for xs
    by (rule wp_for_each) (use assms in \<open>simp_all add: wp_simps record_drift_def inventory_inv_def\<close>)
  then show ?thesis
    unfolding reconcile_def inventory_inv_def by (intro wp_committed) (simp add: wp_simps)
qed

lemma expired_reservations_rows:
  assumes "unique_on sr_id (reservations s)"
  shows "distinct (map sr_id (expired_reservations locked now n s))"
    and "set (expired_reservations locked now n s) \<subseteq> {r \<in> set (reservations s). sr_status r = ACTIVE}"
proof -
  let ?rs = "filter (\<lambda>r. sr_status r = ACTIVE \<and> (case sr_expires_at r of None \<Rightarrow> False | Some t \<Rightarrow> t \<le> now) \<and> \<not> locked r) (reservations s)"
  have "distinct (map sr_id ?rs)" using assms by (rule distinct_map_filter)
  then have d: "distinct (map sr_id (sort_key (\<lambda>r. the (sr_expires_at r)) (sort_key sr_id ?rs)))"
    by (simp add: distinct_map)
  show "distinct (map sr_id (expired_reservations locked now n s))"
    unfolding expired_reservations_def take_map[symmetric] by (rule distinct_take[OF d])
  show "set (expired_reservations locked now n s) \<subseteq> {r \<in> set (reservations s). sr_status r = ACTIVE}"
    unfolding expired_reservations_def by (rule order_trans[OF set_take_subset]) auto
qed

text \<open>The loop of \<open>release_expired\<close>: the reservations still to come are active.\<close>

definition expiry_inv :: "bool \<Rightarrow> stock_reservation list \<Rightarrow> 'a inventory_db_scheme \<Rightarrow> bool" where
  "expiry_inv lax rs t \<longleftrightarrow> stock_inv lax t \<and> unique_on sr_id (reservations t) \<and> distinct (map sr_id rs)
     \<and> list_all (\<lambda>r. r \<in> set (reservations t) \<and> sr_status r = ACTIVE \<and> 0 < sr_quantity r) rs"

lemma release_expired_row_inv:
  assumes "expiry_inv lax (r # rs) t"
  shows "wp (release_expired_row r) (\<lambda>_. expiry_inv lax rs) t"
proof -
  have r: "stock_inv lax t" "unique_on sr_id (reservations t)" "r \<in> set (reservations t)" "sr_status r = ACTIVE" "0 < sr_quantity r"
    using assms by (auto simp: expiry_inv_def)
  have keep: "list_all (\<lambda>x. x \<in> set (upd_where (\<lambda>x. sr_id x = sr_id r) (\<lambda>x. x\<lparr>sr_status := RELEASED\<rparr>) (reservations t))
      \<and> sr_status x = ACTIVE \<and> 0 < sr_quantity x) rs"
    using assms by (auto simp: expiry_inv_def list_all_iff image_iff intro!: in_upd_where)
  have "stock_inv lax (t\<lparr>balances := upd_where (is_balance (sr_warehouse_id r) (sr_product_id r))
             (\<lambda>x. x\<lparr>ib_reserved_quantity := ib_reserved_quantity b - sr_quantity r\<rparr>) (balances t),
       reservations := upd_where (\<lambda>x. sr_id x = sr_id r) (\<lambda>x. x\<lparr>sr_status := RELEASED\<rparr>) (reservations t)\<rparr>)"
    if "find (is_balance (sr_warehouse_id r) (sr_product_id r)) (balances t) = Some b" for b
    by (rule release_row_inv[OF r that]) (simp_all add: on_hand_def reserved_def lock_balance_def)
  then show ?thesis
    using assms keep
    by (auto simp: release_expired_row_def wp_simps lock_balance_def set_reservation_released_def expiry_inv_def)
qed

lemma release_expired_inv:
  assumes inv: "inventory_inv lax s"
  shows "wp (release_expired locked) (\<lambda>_. stock_inv lax) s"
proof -
  have u: "unique_on sr_id (reservations s)" and pos: "list_all (\<lambda>r. 0 < sr_quantity r) (reservations s)"
    using inv inventory_chkD by (auto simp: inventory_inv_def)
  have "expiry_inv lax (expired_reservations locked now n s) (s\<lparr>clock_count := c\<rparr>)" for now n c
    using inv u pos expired_reservations_rows[OF u, of locked now n]
    by (auto simp: expiry_inv_def inventory_inv_def list_all_iff)
  then have "wp (for_each release_expired_row (expired_reservations locked now n s)) (\<lambda>_. expiry_inv lax []) (s\<lparr>clock_count := c\<rparr>)"
    for now n c by (rule wp_for_each_rest) (rule release_expired_row_inv)
  then have "wp (for_each release_expired_row (expired_reservations locked now n s)) (\<lambda>_. stock_inv lax) (s\<lparr>clock_count := c\<rparr>)"
    for now n c by (rule wp_mono) (simp add: expiry_inv_def)
  then show ?thesis unfolding release_expired_def by (simp add: wp_simps expired_reservations_def)
qed

section \<open>Transfers\<close>

text \<open>The movements of one transfer, product and direction, and what its lines call for.\<close>

definition moves :: "uuid \<Rightarrow> uuid \<Rightarrow> movement_type \<Rightarrow> inventory_movement list \<Rightarrow> (uuid \<times> rat) list" where
  "moves t p ty ms = map (\<lambda>m. (mv_warehouse_id m, mv_quantity m))
     (filter (\<lambda>m. mv_movement_type m = ty \<and> mv_reference_id m = Some t \<and> mv_product_id m = p) ms)"

definition line_moves :: "uuid \<Rightarrow> rat \<Rightarrow> uuid \<Rightarrow> uuid \<Rightarrow> stock_transfer_line list \<Rightarrow> (uuid \<times> rat) list" where
  "line_moves w sg t p ls = map (\<lambda>l. (w, sg * stl_quantity l))
     (filter (\<lambda>l. stl_transfer_id l = t \<and> stl_product_id l = p) ls)"

definition transfer_ok :: "'a inventory_db_scheme \<Rightarrow> stock_transfer \<Rightarrow> bool" where
  "transfer_ok s t \<longleftrightarrow>
     (\<forall>p. moves (st_id t) p TRANSFER_OUT (movements s)
            = (if st_status t \<in> {IN_TRANSIT, TR_COMPLETED}
               then line_moves (st_source_warehouse_id t) (- 1) (st_id t) p (transfer_lines s) else [])
        \<and> moves (st_id t) p TRANSFER_IN (movements s)
            = (if st_status t = TR_COMPLETED
               then line_moves (st_destination_warehouse_id t) 1 (st_id t) p (transfer_lines s) else []))"

definition transfer_type :: "movement_type \<Rightarrow> bool" where
  "transfer_type ty \<longleftrightarrow> ty = TRANSFER_IN \<or> ty = TRANSFER_OUT"

definition transfer_inv :: "'a inventory_db_scheme \<Rightarrow> bool" where
  "transfer_inv s \<longleftrightarrow>
     (\<forall>t \<in> set (transfers s). transfer_ok s t)
     \<and> (\<forall>m \<in> set (movements s). transfer_type (mv_movement_type m) \<longrightarrow>
          mv_reference_id m \<in> Some ` st_id ` set (transfers s))
     \<and> (\<forall>l \<in> set (transfer_lines s). on_grid 6 (stl_quantity l) \<and> stl_transfer_id l \<in> st_id ` set (transfers s))"

lemma transfer_inv_cong:
  assumes "movements s' = movements s" "transfers s' = transfers s" "transfer_lines s' = transfer_lines s"
  shows "transfer_inv s' = transfer_inv s"
  using assms by (simp add: transfer_inv_def transfer_ok_def)

lemma transfer_inv_simps [simp]:
  "transfer_inv (s\<lparr>uuid_count := n\<rparr>) = transfer_inv s"
  "transfer_inv (s\<lparr>clock_count := n\<rparr>) = transfer_inv s"
  "transfer_inv (s\<lparr>audit_events := es\<rparr>) = transfer_inv s"
  "transfer_inv (s\<lparr>products := ps\<rparr>) = transfer_inv s"
  "transfer_inv (s\<lparr>balances := bs\<rparr>) = transfer_inv s"
  "transfer_inv (s\<lparr>reservations := rs\<rparr>) = transfer_inv s"
  "transfer_inv (s\<lparr>adjustments := as\<rparr>) = transfer_inv s"
  by (rule transfer_inv_cong; simp)+

lemma moves_append [simp]:
  "moves t p ty (ms @ [m]) = moves t p ty ms
     @ (if mv_movement_type m = ty \<and> mv_reference_id m = Some t \<and> mv_product_id m = p
        then [(mv_warehouse_id m, mv_quantity m)] else [])"
  by (simp add: moves_def)

lemma post_movement_transfer_inv:
  assumes "transfer_inv s" and "\<not> transfer_type ty"
  shows "wp (post_movement context w product ty q u rt ri notes key) (\<lambda>_. transfer_inv) s"
  by (rule wp_post_movement)
    (use assms in \<open>auto simp: transfer_inv_def transfer_ok_def stock_step_def transfer_type_def\<close>)

text \<open>Both invariants together.\<close>

definition core_inv :: "bool \<Rightarrow> 'a inventory_db_scheme \<Rightarrow> bool" where
  "core_inv lax s \<longleftrightarrow> stock_inv lax s \<and> transfer_inv s"

lemma core_inv_simps [simp]:
  "core_inv lax (s\<lparr>uuid_count := n\<rparr>) = core_inv lax s"
  "core_inv lax (s\<lparr>clock_count := n\<rparr>) = core_inv lax s"
  "core_inv lax (s\<lparr>audit_events := es\<rparr>) = core_inv lax s"
  "core_inv lax (s\<lparr>products := ps\<rparr>) = core_inv lax s"
  "core_inv lax (s\<lparr>adjustments := as\<rparr>) = core_inv lax s"
  by (simp_all add: core_inv_def)

lemma post_movement_core_inv:
  assumes "core_inv lax s" and "\<not> transfer_type ty"
  shows "wp (post_movement context w product ty q u rt ri notes key) (\<lambda>_. core_inv lax) s"
  using assms unfolding core_inv_def wp_conj
  by (simp add: post_movement_stock_inv post_movement_transfer_inv)

text \<open>Shipping or receiving, line by line.\<close>

definition line_type :: "bool \<Rightarrow> movement_type" where
  "line_type receive = (if receive then TRANSFER_IN else TRANSFER_OUT)"

definition line_warehouse :: "stock_transfer \<Rightarrow> bool \<Rightarrow> uuid" where
  "line_warehouse t receive = (if receive then st_destination_warehouse_id t else st_source_warehouse_id t)"

definition line_sign :: "bool \<Rightarrow> rat" where
  "line_sign receive = (if receive then 1 else - 1)"

definition moving_inv ::
  "bool \<Rightarrow> 'a inventory_db_scheme \<Rightarrow> stock_transfer \<Rightarrow> bool \<Rightarrow> stock_transfer_line list \<Rightarrow> 'a inventory_db_scheme \<Rightarrow> bool"
where
  "moving_inv lax s0 t receive done s \<longleftrightarrow>
     stock_inv lax s \<and> transfers s = transfers s0 \<and> transfer_lines s = transfer_lines s0
     \<and> (\<forall>i p ty. moves i p ty (movements s) = moves i p ty (movements s0)
          @ (if i = st_id t \<and> ty = line_type receive
             then map (\<lambda>l. (line_warehouse t receive, line_sign receive * stl_quantity l))
                    (filter (\<lambda>l. stl_product_id l = p) done) else []))
     \<and> (\<forall>m \<in> set (movements s). m \<in> set (movements s0) \<or> mv_reference_id m = Some (st_id t))"

lemma in_moves:
  "m \<in> set ms \<Longrightarrow> mv_movement_type m = ty \<Longrightarrow> mv_reference_id m = Some t \<Longrightarrow> mv_product_id m = p \<Longrightarrow> moves t p ty ms \<noteq> []"
  by (auto simp: moves_def filter_empty_conv)

lemma move_transfer_line_inv:
  assumes inv: "moving_inv lax s0 t receive done s"
    and none: "moves (st_id t) (stl_product_id l) (line_type receive) (movements s0) = []"
    and new: "\<forall>l' \<in> set done. stl_product_id l' \<noteq> stl_product_id l"
    and grid: "on_grid 6 (stl_quantity l)"
  shows "wp (move_transfer_line context t receive key l) (\<lambda>_. moving_inv lax s0 t receive (done @ [l])) s"
proof -
  let ?w = "line_warehouse t receive" and ?ty = "line_type receive"
  let ?q = "if receive then stl_quantity l else - stl_quantity l"
  have q: "?q = line_sign receive * stl_quantity l" by (simp add: line_sign_def)
  have qg: "Quantity ?q = ?q" using grid by (auto intro!: Quantity_fixed)
  have "wp (post_movement context ?w product ?ty ?q u (Some ''transfer'') (Some (st_id t)) (st_notes t) k)
          (\<lambda>_. moving_inv lax s0 t receive (done @ [l])) s" if prod: "pr_id product = stl_product_id l" for product u k
  proof (rule wp_mono[OF iffD2[OF wp_conj[of _ "\<lambda>_. stock_inv lax"], OF conjI]])
    show "wp (post_movement context ?w product ?ty ?q u (Some ''transfer'') (Some (st_id t)) (st_notes t) k) (\<lambda>_. stock_inv lax) s"
      using inv by (intro post_movement_stock_inv) (simp add: moving_inv_def)
    show "wp (post_movement context ?w product ?ty ?q u (Some ''transfer'') (Some (st_id t)) (st_notes t) k)
            (\<lambda>_ s'. stock_inv lax s' \<longrightarrow> moving_inv lax s0 t receive (done @ [l]) s') s"
    proof (rule wp_post_movement)
      fix m
      assume "movement_by_key (the k) s = Some m"
        "same_request m ?w (pr_id product) ?ty ?q u (Some ''transfer'') (Some (st_id t))"
      then have "moves (st_id t) (stl_product_id l) ?ty (movements s) \<noteq> []"
        using prod by (intro in_moves[of m]) (auto simp: movement_by_key_def same_request_def dest: find_SomeD)
      then have False using inv none new by (auto simp: moving_inv_def filter_empty_conv)
      then show "stock_inv lax s \<longrightarrow> moving_inv lax s0 t receive (done @ [l]) s" ..
    next
      fix m s' k'
      assume step: "stock_step (posted_row ?q u (on_hand ?w (pr_id product) s) m) s s'"
        and m: "mv_warehouse_id m = ?w" "mv_product_id m = pr_id product" "mv_movement_type m = ?ty"
          "mv_reference_id m = Some (st_id t)"
      show "stock_inv lax s' \<longrightarrow> moving_inv lax s0 t receive (done @ [l]) s'"
        using step m inv prod qg q by (auto simp: stock_step_def moving_inv_def)
    qed
  qed simp
  then show ?thesis
    unfolding move_transfer_line_def Let_def wp_bnd line_warehouse_def[symmetric] line_type_def[symmetric]
    by (intro wp_validate_pair) (auto simp: wp_simps repo_product_def dest: find_SomeD)
qed

lemma transfer_lines_facts:
  assumes "transfer_inv s" and "unique_on (\<lambda>l. (stl_transfer_id l, stl_product_id l)) (transfer_lines s)"
  shows "distinct (map stl_product_id (repo_transfer_lines i s))"
    and "l \<in> set (repo_transfer_lines i s) \<Longrightarrow> on_grid 6 (stl_quantity l)"
    and "filter (\<lambda>l. stl_product_id l = p) (sort_key stl_product_id (repo_transfer_lines i s))
       = filter (\<lambda>l. stl_transfer_id l = i \<and> stl_product_id l = p) (transfer_lines s)"
proof -
  have "distinct (map (\<lambda>l. (stl_transfer_id l, stl_product_id l)) (filter (\<lambda>l. stl_transfer_id l = i) (transfer_lines s)))"
    using assms(2) by (rule distinct_map_filter)
  then have "distinct (map stl_product_id (filter (\<lambda>l. stl_transfer_id l = i) (transfer_lines s)))"
    by (auto simp: distinct_map inj_on_def)
  then show "distinct (map stl_product_id (repo_transfer_lines i s))"
    by (simp add: repo_transfer_lines_def distinct_map)
  show "l \<in> set (repo_transfer_lines i s) \<Longrightarrow> on_grid 6 (stl_quantity l)"
    using assms(1) by (auto simp: repo_transfer_lines_def transfer_inv_def)
  show "filter (\<lambda>l. stl_product_id l = p) (sort_key stl_product_id (repo_transfer_lines i s))
       = filter (\<lambda>l. stl_transfer_id l = i \<and> stl_product_id l = p) (transfer_lines s)"
    by (simp add: repo_transfer_lines_def sort_key_stable conj_commute)
qed

lemma moved_transfer_inv:
  assumes inv: "transfer_inv s" and u: "unique_on st_id (transfers s)"
    and t: "t \<in> set (transfers s)" "st_status t = (if receive then IN_TRANSIT else TR_DRAFT)"
    and moved: "moving_inv lax s t receive (sort_key stl_product_id (repo_transfer_lines (st_id t) s)) s1"
    and lines: "unique_on (\<lambda>l. (stl_transfer_id l, stl_product_id l)) (transfer_lines s)"
    and t': "st_id t' = st_id t" "st_status t' = (if receive then TR_COMPLETED else IN_TRANSIT)"
      "st_source_warehouse_id t' = st_source_warehouse_id t" "st_destination_warehouse_id t' = st_destination_warehouse_id t"
  shows "transfer_inv (s1\<lparr>transfers := upd_where (\<lambda>x. st_id x = st_id t) (\<lambda>_. t') (transfers s1)\<rparr>)"
proof -
  let ?s = "s1\<lparr>transfers := upd_where (\<lambda>x. st_id x = st_id t) (\<lambda>_. t') (transfers s1)\<rparr>"
  have fr: "transfers s1 = transfers s" "transfer_lines s1 = transfer_lines s" using moved by (simp_all add: moving_inv_def)
  have mv: "moves i p ty (movements s1) = moves i p ty (movements s)
          @ (if i = st_id t \<and> ty = line_type receive
             then line_moves (line_warehouse t receive) (line_sign receive) i p (transfer_lines s) else [])" for i p ty
    using moved by (auto simp: moving_inv_def line_moves_def transfer_lines_facts(3)[OF inv lines])
  have ids: "st_id ` set (upd_where (\<lambda>x. st_id x = st_id t) (\<lambda>_. t') (transfers s)) = st_id ` set (transfers s)"
    using t' t(1) by (auto simp: set_upd_where image_iff) (metis (mono_tags, lifting))
  have old: "transfer_ok s x" if "x \<in> set (transfers s)" for x using inv that by (simp add: transfer_inv_def)
  have "transfer_ok ?s x" if x: "x \<in> set (transfers ?s)" for x
  proof (cases "x = t'")
    case True
    show ?thesis
      using old[OF t(1)] t(2) t' unfolding True
      by (auto simp: transfer_ok_def mv fr line_type_def line_warehouse_def line_sign_def)
  next
    case False
    with x have "x \<in> set (transfers s)" "st_id x \<noteq> st_id t" by (auto simp: fr set_upd_where split: if_splits)
    with old show ?thesis by (simp add: transfer_ok_def mv fr)
  qed
  moreover have "mv_reference_id m \<in> Some ` st_id ` set (transfers ?s)"
    if "m \<in> set (movements s1)" "transfer_type (mv_movement_type m)" for m
    using that moved inv t(1) by (auto simp: ids fr moving_inv_def transfer_inv_def)
  ultimately show ?thesis using inv by (auto simp: transfer_inv_def ids fr)
qed

lemma transition_transfer_inv:
  assumes "core_inv lax s" and chk: "inventory_chk s = None"
  shows "wp (transition_transfer context i receive key) (\<lambda>_ s'. core_inv lax s' \<and> inventory_chk s' = None) s"
proof -
  have inv: "stock_inv lax s" "transfer_inv s" using assms by (simp_all add: core_inv_def)
  note u = inventory_chkD(4)[OF chk] and ul = inventory_chkD(5)[OF chk]
  have loop: "wp (for_each (move_transfer_line context t receive key) (sort_key stl_product_id (repo_transfer_lines (st_id t) s)))
      (\<lambda>_. moving_inv lax s t receive (sort_key stl_product_id (repo_transfer_lines (st_id t) s))) s"
    if t: "t \<in> set (transfers s)" "st_status t = (if receive then IN_TRANSIT else TR_DRAFT)" for t
  proof (rule wp_for_each_prefix)
    show "moving_inv lax s t receive [] s" using inv by (simp add: moving_inv_def)
    fix "done" l rest s1
    assume split: "sort_key stl_product_id (repo_transfer_lines (st_id t) s) = done @ l # rest"
      and I: "moving_inv lax s t receive done s1"
    have "distinct (map stl_product_id (sort_key stl_product_id (repo_transfer_lines (st_id t) s)))"
      using transfer_lines_facts(1)[OF inv(2) ul] by (simp add: distinct_map)
    then have d: "\<forall>l' \<in> set done. stl_product_id l' \<noteq> stl_product_id l" unfolding split by (auto simp: image_iff)
    have "l \<in> set (sort_key stl_product_id (repo_transfer_lines (st_id t) s))" unfolding split by simp
    then have g: "on_grid 6 (stl_quantity l)" using transfer_lines_facts(2)[OF inv(2) ul] by simp
    have "transfer_ok s t" using inv(2) t(1) by (simp add: transfer_inv_def)
    then have "moves (st_id t) (stl_product_id l) (line_type receive) (movements s) = []"
      using t(2) by (auto simp: transfer_ok_def line_type_def)
    from move_transfer_line_inv[OF I this d g]
    show "wp (move_transfer_line context t receive key l) (\<lambda>_. moving_inv lax s t receive (done @ [l])) s1" .
  qed
  have after: "core_inv lax (s1\<lparr>clock_count := n, transfers := upd_where (\<lambda>x. st_id x = i) (\<lambda>_. t') (transfers s1)\<rparr>)"
    if "st_id t = i" "t \<in> set (transfers s)" "st_status t = (if receive then IN_TRANSIT else TR_DRAFT)"
      and m: "moving_inv lax s t receive (sort_key stl_product_id (repo_transfer_lines i s)) s1"
      and "st_id t' = st_id t" "st_status t' = (if receive then TR_COMPLETED else IN_TRANSIT)"
      "st_source_warehouse_id t' = st_source_warehouse_id t" "st_destination_warehouse_id t' = st_destination_warehouse_id t"
    for t t' s1 n
  proof -
    have "stock_inv lax s1" using m by (simp add: moving_inv_def)
    moreover have "transfer_inv (s1\<lparr>transfers := upd_where (\<lambda>x. st_id x = st_id t) (\<lambda>_. t') (transfers s1)\<rparr>)"
      using that by (intro moved_transfer_inv[OF inv(2) u _ _ _ ul]) simp_all
    ultimately show ?thesis using \<open>st_id t = i\<close>
      by (simp add: core_inv_def transfer_inv_def transfer_ok_def)
  qed
  show ?thesis
    unfolding transition_transfer_def Let_def
    apply (intro wp_committed)
    apply (simp only: wp_bnd wp_gets wp_some_or wp_require repo_transfer_def)
    apply (intro allI impI)
    subgoal for t
      apply (drule find_SomeD)
      apply (rule wp_mono[OF loop[of t]])
        apply simp
       apply simp
      apply (cases receive)
       apply (simp_all add: wp_simps)
      subgoal by (rule after[of t]) auto
      subgoal by (rule after[of t]) auto
      done
    done
qed

lemma add_transfer_line_effect:
  assumes "\<And>l n. stl_transfer_id l = i \<Longrightarrow> on_grid 6 (stl_quantity l) \<Longrightarrow>
             Q (s\<lparr>uuid_count := n, transfer_lines := transfer_lines s @ [l]\<rparr>)"
  shows "wp (add_transfer_line context w i line) (\<lambda>_. Q) s"
  unfolding add_transfer_line_def Let_def wp_bnd
  by (intro wp_validate_pair) (simp add: wp_simps assms)

lemma create_transfer_inv:
  assumes "core_inv lax s" and chk: "inventory_chk s = None"
  shows "wp (create_transfer context payload) (\<lambda>_ s'. core_inv lax s' \<and> inventory_chk s' = None) s"
proof -
  have inv: "stock_inv lax s" "transfer_inv s" using assms by (simp_all add: core_inv_def)
  define added where "added i s' \<longleftrightarrow> stock_inv lax s' \<and> movements s' = movements s
      \<and> (\<exists>t. st_id t = i \<and> st_status t = TR_DRAFT \<and> transfers s' = transfers s @ [t])
      \<and> (\<exists>new. transfer_lines s' = transfer_lines s @ new \<and> (\<forall>l \<in> set new. stl_transfer_id l = i \<and> on_grid 6 (stl_quantity l)))"
    for i and s' :: "'a inventory_db_scheme"
  have loop: "wp (for_each (add_transfer_line context w i) ls) (\<lambda>_. added i) s'" if "added i s'" for w i ls s'
    by (rule wp_for_each[where I = "added i"], rule that, rule add_transfer_line_effect) (fastforce simp: added_def)
  have final: "core_inv lax s'" if ad: "added i s'" and chk': "inventory_chk s' = None" for i s'
  proof -
    obtain new t where new: "transfers s' = transfers s @ [t]" "movements s' = movements s"
      "transfer_lines s' = transfer_lines s @ new" "\<forall>l \<in> set new. stl_transfer_id l = i \<and> on_grid 6 (stl_quantity l)"
      and t: "st_id t = i" "st_status t = TR_DRAFT"
      using ad by (auto simp: added_def)
    have fresh: "i \<notin> st_id ` set (transfers s)"
      using inventory_chkD(4)[OF chk'] t(1) by (auto simp: new)
    have lm: "line_moves w sg j p (transfer_lines s') = line_moves w sg j p (transfer_lines s)" if "j \<noteq> i" for w sg j p
      using new(4) that by (auto simp: line_moves_def new(3) filter_empty_conv)
    have "transfer_ok s' x" if "x \<in> set (transfers s)" for x
    proof -
      have "st_id x \<noteq> i" using that fresh by auto
      then show ?thesis using inv(2) that by (simp add: transfer_inv_def transfer_ok_def new(2) lm)
    qed
    moreover have "moves i p ty (movements s) = []" if "transfer_type ty" for p ty
      using inv(2) fresh that by (fastforce simp: moves_def filter_empty_conv transfer_inv_def)
    then have "transfer_ok s' t" using t by (simp add: transfer_ok_def transfer_type_def new(2))
    ultimately have "transfer_inv s'" using inv(2) new t(1) by (auto simp: transfer_inv_def)
    then show ?thesis using ad by (simp add: core_inv_def added_def)
  qed
  show ?thesis
    unfolding create_transfer_def Let_def
    apply (simp only: wp_bnd wp_require wp_on_integrity_error wp_service_transaction wp_gets wp_some_or wp_uuid7 wp_modify)
    apply (intro impI allI)
    apply (rule wp_mono[OF loop])
    subgoal using inv by (simp add: added_def)
    subgoal by (auto simp: wp_simps added_def intro!: final)
    done
qed

section \<open>Every reachable state\<close>

lemma reserve_transfer_inv:
  assumes "transfer_inv s"
  shows "wp (reserve context payload) (\<lambda>_. transfer_inv) s"
  unfolding reserve_def wp_service_transaction
  apply (simp only: wp_bnd validate_quantity_def wp_gets wp_some_or wp_require)
  apply (intro wp_validate_pair allI impI wp_balance_for_update)
  using assms by (simp add: wp_simps)

lemma release_transfer_inv:
  assumes "transfer_inv s"
  shows "wp (release context i) (\<lambda>_. transfer_inv) s"
  unfolding release_def wp_service_transaction
  apply (simp only: wp_bnd wp_gets wp_some_or wp_require)
  apply (intro allI impI wp_balance_for_update)
  using assms by (simp add: wp_simps set_reservation_released_def)

lemma reconcile_transfer_inv:
  assumes "transfer_inv s"
  shows "wp (reconcile context) (\<lambda>_. transfer_inv) s"
proof -
  have "wp (for_each (record_drift context) xs) (\<lambda>_. transfer_inv) s" for xs
    by (rule wp_for_each) (use assms in \<open>simp_all add: wp_simps record_drift_def\<close>)
  then have "wp (for_each (record_drift context) xs) (\<lambda>_ s'. inventory_chk s' = None \<longrightarrow> transfer_inv s') s" for xs
    by (rule wp_mono) simp
  then show ?thesis unfolding reconcile_def by (simp add: wp_simps)
qed

lemma release_expired_transfer_inv:
  assumes "transfer_inv s"
  shows "wp (release_expired locked) (\<lambda>_. transfer_inv) s"
proof -
  have "wp (for_each release_expired_row rs) (\<lambda>_. transfer_inv) (s\<lparr>clock_count := n\<rparr>)" for rs n
    by (rule wp_for_each)
      (use assms in \<open>simp_all add: wp_simps release_expired_row_def set_reservation_released_def lock_balance_def\<close>)
  then show ?thesis unfolding release_expired_def by (simp add: wp_simps)
qed

lemma receipt_transfer_inv:
  "transfer_inv s \<Longrightarrow> wp (receipt context payload key) (\<lambda>_. transfer_inv) s"
  unfolding receipt_def wp_bnd wp_require wp_on_integrity_error wp_service_transaction
  by (intro impI wp_validate_pair, rule wp_mono[OF post_movement_transfer_inv]) (simp_all add: transfer_type_def)

lemma issue_transfer_inv:
  "transfer_inv s \<Longrightarrow> wp (issue context payload key) (\<lambda>_. transfer_inv) s"
  unfolding issue_def wp_bnd wp_on_integrity_error wp_service_transaction
  by (intro wp_validate_pair, rule wp_mono[OF post_movement_transfer_inv]) (simp_all add: transfer_type_def)

lemma adjust_transfer_inv:
  assumes "transfer_inv s"
  shows "wp (adjust context payload key) (\<lambda>_. transfer_inv) s"
  unfolding adjust_def wp_on_integrity_error wp_service_transaction Let_def
  apply (simp only: wp_bnd)
  apply (intro wp_validate_pair)
  apply (simp only: wp_simps)
  apply (rule wp_mono[OF post_movement_transfer_inv])
  using assms by (simp_all add: transfer_type_def)

definition inventory_ok :: "bool \<Rightarrow> 'a inventory_db_scheme \<Rightarrow> bool" where
  "inventory_ok lax s \<longleftrightarrow> core_inv lax s \<and> inventory_chk s = None"

lemma inventory_ok_split:
  "inventory_ok lax s \<longleftrightarrow> inventory_inv lax s \<and> transfer_inv s"
  by (auto simp: inventory_ok_def core_inv_def inventory_inv_def)

lemma atomic_inventory [atomic_intros]:
  "atomic (receipt context mc key)" "atomic (issue context mc key)" "atomic (adjust context ac key)"
  "atomic (reserve context rc)" "atomic (release context i)" "atomic (create_transfer context tc)"
  "atomic (transition_transfer context i receive key)" "atomic (reconcile context)"
  unfolding receipt_def issue_def adjust_def reserve_def release_def create_transfer_def transition_transfer_def
    reconcile_def
  by (intro atomic_intros)+

text \<open>
  The states the module can be in: it starts with empty stock tables; every request runs one of the
  service's operations, the expiry job, or a movement posted by another module in its transaction;
  in between, the catalog, the environment and the setting that allows negative stock may change. The
  parameter \<open>lax\<close> says whether the tenant may also switch negative stock off again: a position that was
  overdrawn while it was allowed then stays overdrawn, and nothing is claimed of what is available.
\<close>

inductive inventory_reachable :: "bool \<Rightarrow> 'a inventory_db_scheme \<Rightarrow> bool" for lax where
  start: "movements s = [] \<Longrightarrow> balances s = [] \<Longrightarrow> reservations s = [] \<Longrightarrow> transfers s = [] \<Longrightarrow>
          transfer_lines s = [] \<Longrightarrow> units_ok s \<Longrightarrow> inventory_chk s = None \<Longrightarrow> inventory_reachable lax s"
| environment: "inventory_reachable lax s \<Longrightarrow> movements s' = movements s \<Longrightarrow> balances s' = balances s \<Longrightarrow>
          reservations s' = reservations s \<Longrightarrow> transfers s' = transfers s \<Longrightarrow> transfer_lines s' = transfer_lines s \<Longrightarrow>
          (\<not> lax \<Longrightarrow> allow_negative_inventory s \<Longrightarrow> allow_negative_inventory s') \<Longrightarrow> units_ok s' \<Longrightarrow>
          inventory_chk s' = None \<Longrightarrow> inventory_reachable lax s'"
| receipt: "inventory_reachable lax s \<Longrightarrow> inventory_reachable lax (snd (receipt context mc key s))"
| issue: "inventory_reachable lax s \<Longrightarrow> inventory_reachable lax (snd (issue context mc key s))"
| adjust: "inventory_reachable lax s \<Longrightarrow> inventory_reachable lax (snd (adjust context ac key s))"
| reserve: "inventory_reachable lax s \<Longrightarrow> inventory_reachable lax (snd (reserve context rc s))"
| release: "inventory_reachable lax s \<Longrightarrow> inventory_reachable lax (snd (release context i s))"
| create_transfer: "inventory_reachable lax s \<Longrightarrow> inventory_reachable lax (snd (create_transfer context tc s))"
| transition_transfer: "inventory_reachable lax s \<Longrightarrow> inventory_reachable lax (snd (transition_transfer context i receive key s))"
| reconcile: "inventory_reachable lax s \<Longrightarrow> inventory_reachable lax (snd (reconcile context s))"
| release_expired: "inventory_reachable lax s \<Longrightarrow>
          inventory_reachable lax (snd (service_transaction inventory_chk (release_expired locked) s))"
| document: "inventory_reachable lax s \<Longrightarrow> \<not> transfer_type ty \<Longrightarrow>
          inventory_reachable lax (snd (service_transaction inventory_chk
            (post_movement_for_document context w product ty q u rt ri) s))"

lemma committed_ok:
  assumes "inventory_ok lax s" and "wp m (\<lambda>_. core_inv lax) s"
  shows "inventory_ok lax (snd (service_transaction inventory_chk m s))"
  by (rule atomic_preserves[where I = "inventory_ok lax", OF atomic_service_transaction assms(1)])
    (use wp_committed[OF assms(2)] in \<open>simp add: inventory_ok_def[abs_def]\<close>)

lemma op_ok:
  assumes "atomic m" and "inventory_ok lax s" and "wp m (\<lambda>_. inventory_inv lax) s" and "wp m (\<lambda>_. transfer_inv) s"
  shows "inventory_ok lax (snd (m s))"
  by (rule atomic_preserves[where I = "inventory_ok lax", OF assms(1,2)])
    (use assms(3,4) in \<open>simp add: inventory_ok_split[abs_def] wp_conj\<close>)

lemma stock_inv_environment:
  assumes "stock_inv lax s" and fr: "movements s' = movements s" "balances s' = balances s" "reservations s' = reservations s"
    and "\<not> lax \<Longrightarrow> allow_negative_inventory s \<Longrightarrow> allow_negative_inventory s'" and "units_ok s'"
  shows "stock_inv lax s'"
proof -
  have "agrees_at lax w p s \<longrightarrow> agrees_at lax w p s'" for w p
    unfolding agrees_at_def fr stock_view_cong[OF fr(2)] using assms(5) by blast
  then show ?thesis
    using assms(1,6) by (auto simp: stock_inv_def stock_agrees_def quantity_ranges_def fr)
qed

lemma inventory_reachable_ok: "inventory_reachable lax s \<Longrightarrow> inventory_ok lax s"
proof (induction rule: inventory_reachable.induct)
  case (start s)
  have "quantity_ranges s \<longrightarrow> stock_agrees lax s"
    using start by (simp add: stock_agrees_def agrees_at_def running_balances_def on_hand_def reserved_def lock_balance_def
        ledger_quantity_def active_reserved_def)
  with start show ?case
    by (simp add: inventory_ok_def core_inv_def stock_inv_def transfer_inv_def)
next
  case (environment s s')
  have "stock_inv lax s" using environment by (simp add: inventory_ok_def core_inv_def)
  then have "stock_inv lax s'" using environment by (intro stock_inv_environment[of lax s s']) simp_all
  with environment show ?case by (simp add: inventory_ok_def core_inv_def transfer_inv_cong[of s' s])
next
  case (receipt s ctx mc key)
  then show ?case
    by (intro op_ok atomic_inventory receipt_inv receipt_transfer_inv) (simp_all add: inventory_ok_def core_inv_def)
next
  case (issue s ctx mc key)
  then show ?case
    by (intro op_ok atomic_inventory issue_inv issue_transfer_inv) (simp_all add: inventory_ok_def core_inv_def)
next
  case (adjust s ctx ac key)
  then show ?case
    by (intro op_ok atomic_inventory adjust_inv adjust_transfer_inv) (simp_all add: inventory_ok_def core_inv_def)
next
  case (reserve s ctx rc)
  then show ?case
    by (intro op_ok atomic_inventory reserve_inv reserve_transfer_inv) (simp_all add: inventory_ok_def core_inv_def)
next
  case (release s ctx i)
  then show ?case
    by (intro op_ok atomic_inventory release_inv release_transfer_inv) (simp_all add: inventory_ok_split)
next
  case (create_transfer s ctx tc)
  show ?case
    by (rule atomic_preserves[where I = "inventory_ok lax", OF atomic_inventory(6) create_transfer.IH])
      (use create_transfer.IH create_transfer_inv[of lax s] in \<open>simp add: inventory_ok_def[abs_def]\<close>)
next
  case (transition_transfer s ctx i receive key)
  show ?case
    by (rule atomic_preserves[where I = "inventory_ok lax", OF atomic_inventory(7) transition_transfer.IH])
      (use transition_transfer.IH transition_transfer_inv[of lax s] in \<open>simp add: inventory_ok_def[abs_def]\<close>)
next
  case (reconcile s ctx)
  then show ?case
    by (intro op_ok atomic_inventory reconcile_inv reconcile_transfer_inv) (simp_all add: inventory_ok_split)
next
  case (release_expired s locked)
  then show ?case
    by (intro committed_ok) (simp_all add: inventory_ok_split core_inv_def[abs_def] wp_conj release_expired_inv release_expired_transfer_inv)
next
  case (document s ty ctx w product q u rt ri)
  then show ?case
    by (intro committed_ok) (simp_all add: inventory_ok_def post_movement_for_document_def post_movement_core_inv)
qed

section \<open>Properties\<close>

text \<open>
  C10. The balance cache never drifts from the ledger. In every reachable state, for every warehouse and
  product: the quantity on hand is the sum of the movements, the reserved quantity is the sum of the
  active reservations, and every movement carries the running balance it left behind, however often the
  tenant switches negative stock on and off (\<open>lax\<close>). If the tenant never switched it off again after allowing it
  (\<open>\<not> lax\<close>) and it is not allowed now, the reserved quantity never exceeds the quantity on hand.
\<close>

theorem stock_agrees_with_ledger:
  assumes "inventory_reachable lax s"
  shows "on_hand w p s = ledger_quantity w p (movements s)
       \<and> reserved w p s = active_reserved w p (reservations s)
       \<and> (\<not> lax \<longrightarrow> \<not> allow_negative_inventory s \<longrightarrow> reserved w p s \<le> on_hand w p s)
       \<and> running_balances (movements s)"
proof -
  have "inventory_ok lax s" using assms by (rule inventory_reachable_ok)
  then have "stock_agrees lax s" using inventory_chkD(9)[of s] by (simp add: inventory_ok_def core_inv_def stock_inv_def)
  then show ?thesis unfolding stock_agrees_def agrees_at_def by blast
qed

definition example_db :: inventory_db where
  "example_db = \<lparr>uuid_gen = (\<lambda>n. 100 + n), uuid_count = 0, clock = (\<lambda>n. 0), clock_count = 0, request_id = None,
     document_sequences = [], idempotency_keys = [], audit_events = [],
     units = [\<lparr>um_id = 1, um_precision = 2\<rparr>],
     products = [\<lparr>pr_id = 5, pr_name = ''Tea'', pr_uom_id = 1, pr_tax_category_id = None, pr_cost_price = 2,
                  pr_selling_price = 4, pr_reorder_point = None, pr_is_stock_tracked = True, pr_is_active = True\<rparr>],
     warehouses = [\<lparr>wh_id = 7, wh_branch_id = None, wh_is_active = True\<rparr>, \<lparr>wh_id = 8, wh_branch_id = None, wh_is_active = True\<rparr>],
     allow_negative_inventory = False, movements = [], balances = [], reservations = [], transfers = [],
     transfer_lines = [], adjustments = []\<rparr>"

definition example_context :: TenantContext where
  "example_context = \<lparr>membership_id = 1, user_id = 2, permissions = {}, branch_ids = None\<rparr>"

definition example_receipt :: MovementCreate where
  "example_receipt = \<lparr>mc_warehouse_id = 7, mc_product_id = 5, mc_quantity = 10, mc_unit_cost = Some 3,
     mc_reference_type = None, mc_reference_id = None, mc_notes = None\<rparr>"

lemma example_db_reachable: "inventory_reachable lax example_db"
  by (rule inventory_reachable.start)
    (simp_all add: example_db_def units_ok_def inventory_chk_def base_constraints_def inventory_constraints_def unique_where_def)

definition example_stocked :: inventory_db where
  "example_stocked = snd (receipt example_context example_receipt (Some ''k'') example_db)"

lemma example_stocked_facts:
  "on_hand 7 5 example_stocked = 10" "map mv_quantity (movements example_stocked) = [10]"
  "map pr_cost_price (products example_stocked) = [3]"
  by (simp_all add: inventory_run_simps receipt_def example_stocked_def example_context_def example_receipt_def
      example_db_def on_hand_def on_grid_def)

lemma example_stocked_reachable: "inventory_reachable lax example_stocked"
  unfolding example_stocked_def by (rule inventory_reachable.receipt[OF example_db_reachable])

theorem stock_agrees_with_ledger_witness:
  "ledger_quantity 7 5 (movements example_stocked) = 10"
  using stock_agrees_with_ledger[OF example_stocked_reachable, of 7 5] example_stocked_facts(1) by simp

text \<open>
  Reconciliation reports no drift: in every reachable state \<open>reconcile\<close> checks every balance row,
  returns an empty list of differences and writes nothing.
\<close>

theorem reconcile_no_drift:
  assumes "inventory_reachable lax s"
  shows "reconcile context s = (Inr (length (balances s), []), s)"
proof -
  have ok: "inventory_ok lax s" using assms by (rule inventory_reachable_ok)
  then have chk: "inventory_chk s = None" and agrees: "stock_agrees lax s"
    using inventory_chkD(9)[of s] by (simp_all add: inventory_ok_def core_inv_def stock_inv_def)
  have "ledger_quantity (ib_warehouse_id b) (ib_product_id b) (movements s) = ib_quantity_on_hand b"
    if "b \<in> set (balances s)" for b
  proof -
    have "find (\<lambda>x. (ib_warehouse_id x, ib_product_id x) = (ib_warehouse_id b, ib_product_id b)) (balances s) = Some b"
      using find_distinct_iff[OF inventory_chkD(1)[OF chk]] that by blast
    then have "on_hand (ib_warehouse_id b) (ib_product_id b) s = ib_quantity_on_hand b"
      by (simp add: on_hand_def lock_balance_def is_balance_def[abs_def])
    then show ?thesis using stock_agreesD(3)[OF agrees] by simp
  qed
  then have "drift_of (reconciliation s) = []" by (auto simp: drift_of_def reconciliation_def)
  then show ?thesis
    using chk by (simp add: reconcile_def service_transaction_def bnd_def gets_def ret_def flush_def reconciliation_def)
qed

theorem reconcile_no_drift_witness:
  "reconcile example_context example_stocked = (Inr (length (balances example_stocked), []), example_stocked)"
  by (rule reconcile_no_drift[OF example_stocked_reachable])

text \<open>
  C11. Goods in a transfer move exactly once. In every reachable state, for each transfer and product:
  the \<open>TRANSFER_OUT\<close> movements are one per line, at the source and of minus the line's quantity, once the
  transfer has been shipped and none before; the \<open>TRANSFER_IN\<close> movements are one per line, at the
  destination and of the same quantity, once it is completed and none before.
\<close>

theorem transfers_move_once:
  assumes "inventory_reachable lax s" and "t \<in> set (transfers s)"
  shows "moves (st_id t) p TRANSFER_OUT (movements s)
           = (if st_status t \<in> {IN_TRANSIT, TR_COMPLETED}
              then line_moves (st_source_warehouse_id t) (- 1) (st_id t) p (transfer_lines s) else [])
       \<and> moves (st_id t) p TRANSFER_IN (movements s)
           = (if st_status t = TR_COMPLETED
              then line_moves (st_destination_warehouse_id t) 1 (st_id t) p (transfer_lines s) else [])"
  using inventory_reachable_ok[OF assms(1)] assms(2)
  by (simp add: inventory_ok_def core_inv_def transfer_inv_def transfer_ok_def)

definition example_transfer :: TransferCreate where
  "example_transfer = \<lparr>tc_transfer_number = ''T1'', tc_source_warehouse_id = 7, tc_destination_warehouse_id = 8,
     tc_notes = None, tc_lines = [\<lparr>tl_product_id = 5, tl_quantity = 4\<rparr>]\<rparr>"

definition example_shipped :: inventory_db where
  "example_shipped = snd (transition_transfer example_context 102 False (Some ''k'')
     (snd (create_transfer example_context example_transfer example_stocked)))"

lemma example_shipped_facts:
  "transfers example_shipped = [\<lparr>st_id = 102, st_transfer_number = ''T1'', st_source_warehouse_id = 7,
     st_destination_warehouse_id = 8, st_status = IN_TRANSIT, st_notes = None, st_shipped_at = Some 0, st_received_at = None\<rparr>]"
  "map (\<lambda>l. (stl_transfer_id l, stl_product_id l, stl_quantity l)) (transfer_lines example_shipped) = [(102, 5, 4)]"
  by (simp_all add: inventory_run_simps receipt_def example_stocked_def example_context_def example_receipt_def example_db_def
      on_grid_def create_transfer_def add_transfer_line_def example_transfer_def example_shipped_def
      transition_transfer_def move_transfer_line_def transfer_key_def repo_transfer_def repo_transfer_lines_def)

lemma example_shipped_reachable: "inventory_reachable lax example_shipped"
  unfolding example_shipped_def
  by (intro inventory_reachable.transition_transfer inventory_reachable.create_transfer example_stocked_reachable)

theorem transfers_move_once_witness:
  "moves 102 5 TRANSFER_OUT (movements example_shipped) = [(7, - 4)] \<and> moves 102 5 TRANSFER_IN (movements example_shipped) = []"
proof -
  obtain l where l: "transfer_lines example_shipped = [l]" "stl_transfer_id l = 102" "stl_product_id l = 5" "stl_quantity l = 4"
    using example_shipped_facts(2) by (auto simp: map_eq_Cons_conv)
  show ?thesis
    using transfers_move_once[OF example_shipped_reachable, of "hd (transfers example_shipped)" 5] l
    by (simp add: example_shipped_facts(1) line_moves_def)
qed



lemma post_movement_key:
  assumes "k \<noteq> ''''"
  shows "wp (post_movement context w product ty q (Some u) rt ri notes (Some k))
     (\<lambda>m s1. \<exists>row. movement_by_key k s1 = Some row \<and> mv_id row = mv_id m
                \<and> (on_grid 6 q \<and> on_grid 6 u \<longrightarrow> same_request row w (pr_id product) ty q (Some u) rt ri)) s"
proof (rule wp_post_movement)
  fix m
  assume "movement_by_key (the (Some k)) s = Some m" "same_request m w (pr_id product) ty q (Some u) rt ri"
  then show "\<exists>row. movement_by_key k s = Some row \<and> mv_id row = mv_id m
                \<and> (on_grid 6 q \<and> on_grid 6 u \<longrightarrow> same_request row w (pr_id product) ty q (Some u) rt ri)"
    by simp
next
  fix m s1 k'
  let ?row = "posted_row q (Some u) (on_hand w (pr_id product) s) m"
  assume step: "stock_step ?row s s1" and none: "truthy (Some k) \<Longrightarrow> movement_by_key (the (Some k)) s = None"
    and m: "mv_warehouse_id m = w" "mv_product_id m = pr_id product" "mv_movement_type m = ty"
      "mv_reference_type m = rt" "mv_reference_id m = ri" "mv_idempotency_key m = Some k"
  have ms: "movements s1 = movements s @ [?row]" using step by (simp add: stock_step_def)
  have "movement_by_key k s1 = Some ?row"
    using none assms m by (simp add: movement_by_key_def ms find_append truthy_def)
  moreover have "same_request ?row w (pr_id product) ty q (Some u) rt ri" if "on_grid 6 q" "on_grid 6 u"
    using m that by (simp add: same_request_def Quantity_fixed UnitCost_def half_up.rescale_fixed)
  ultimately show "\<exists>row. movement_by_key k s1 = Some row \<and> mv_id row = mv_id m
                \<and> (on_grid 6 q \<and> on_grid 6 u \<longrightarrow> same_request row w (pr_id product) ty q (Some u) rt ri)"
    by auto
qed

lemma receipt_body:
  assumes "receipt context payload key s = (Inr m, s1)"
  shows "bnd (validate_pair context (mc_warehouse_id payload) (mc_product_id payload)) (\<lambda>product.
          post_movement context (mc_warehouse_id payload) product RECEIPT (mc_quantity payload) (mc_unit_cost payload)
            (mc_reference_type payload) (mc_reference_id payload) (mc_notes payload) key) s = (Inr m, s1)"
    and "inventory_chk s1 = None" and "mc_unit_cost payload \<noteq> None"
proof -
  show c: "mc_unit_cost payload \<noteq> None"
    using assms by (cases "mc_unit_cost payload") (simp_all add: receipt_def bnd_def require_def raise_def)
  let ?body = "bnd (validate_pair context (mc_warehouse_id payload) (mc_product_id payload)) (\<lambda>product.
          post_movement context (mc_warehouse_id payload) product RECEIPT (mc_quantity payload) (mc_unit_cost payload)
            (mc_reference_type payload) (mc_reference_id payload) (mc_notes payload) key)"
  have r: "on_integrity_error (ConflictError ''IDEMPOTENCY_KEY_REUSE'') (service_transaction inventory_chk ?body) s = (Inr m, s1)"
    using assms c by (auto simp: receipt_def bnd_def require_def ret_def)
  then show "?body s = (Inr m, s1)" "inventory_chk s1 = None"
    by (cases "?body s", cases "fst (?body s)", auto simp: on_integrity_error_def service_transaction_def bnd_def flush_def ret_def
        split: option.splits error.splits)+
qed

lemma receipt_key_row:
  assumes "receipt context payload (Some k) s = (Inr m, s1)" and "k \<noteq> ''''"
  obtains row u where "movement_by_key k s1 = Some row" "mv_id row = mv_id m" "mc_unit_cost payload = Some u"
    "on_grid 6 (mc_quantity payload) \<Longrightarrow> on_grid 6 u \<Longrightarrow>
       same_request row (mc_warehouse_id payload) (mc_product_id payload) RECEIPT (mc_quantity payload) (Some u)
         (mc_reference_type payload) (mc_reference_id payload)"
proof -
  obtain u where u: "mc_unit_cost payload = Some u" using receipt_body(3)[OF assms(1)] by blast
  let ?post = "\<lambda>product. post_movement context (mc_warehouse_id payload) product RECEIPT (mc_quantity payload) (Some u)
      (mc_reference_type payload) (mc_reference_id payload) (mc_notes payload) (Some k)"
  have "bnd (validate_pair context (mc_warehouse_id payload) (mc_product_id payload)) ?post s = (Inr m, s1)"
    using receipt_body(1)[OF assms(1)] by (simp add: u)
  then obtain product where "repo_product (mc_product_id payload) s = Some product" and post: "?post product s = (Inr m, s1)"
    by (auto simp: validate_pair_def run_simps split: option.splits if_splits)
  then have "pr_id product = mc_product_id payload" by (auto simp: repo_product_def dest: find_SomeD)
  then show thesis using that[OF _ _ u] wpD[OF post_movement_key[OF assms(2)] post] by auto
qed

text \<open>Any receipt sent with a key that a movement already has changes nothing: it returns that movement or fails.\<close>

lemma receipt_key_known:
  assumes "movement_by_key k s = Some row" and "k \<noteq> ''''" and "receipt context payload (Some k) s = (r, s')"
  shows "s' = s" and "r = Inr m \<Longrightarrow> m = row"
proof -
  let ?body = "bnd (validate_pair context (mc_warehouse_id payload) (mc_product_id payload)) (\<lambda>product.
      post_movement context (mc_warehouse_id payload) product RECEIPT (mc_quantity payload) (mc_unit_cost payload)
        (mc_reference_type payload) (mc_reference_id payload) (mc_notes payload) (Some k))"
  have body: "snd (?body s) = s \<and> (\<forall>m. fst (?body s) = Inr m \<longrightarrow> m = row)"
    using assms(1,2)
    by (auto simp: validate_pair_def post_movement_def validate_quantity_def run_simps truthy_def split: option.splits if_splits)
  obtain b where b: "?body s = (b, s)" using body by (metis prod.collapse)
  with body have "b = Inr m \<Longrightarrow> m = row" for m by simp
  with b assms(3) show "s' = s" "r = Inr m \<Longrightarrow> m = row"
    by (auto simp: receipt_def require_def on_integrity_error_def service_transaction_def flush_def bnd_def ret_def raise_def
        split: prod.splits sum.splits if_splits error.splits option.splits)
qed

lemma receipt_replays:
  assumes "movement_by_key k s = Some row" and "k \<noteq> ''''" and "mc_unit_cost payload = Some u" and "inventory_chk s = None"
    and "validate_pair context (mc_warehouse_id payload) (mc_product_id payload) s = (Inr product, s)"
    and "validate_quantity product (mc_quantity payload) s = (Inr (), s)"
    and "same_request row (mc_warehouse_id payload) (mc_product_id payload) RECEIPT (mc_quantity payload) (Some u)
          (mc_reference_type payload) (mc_reference_id payload)"
  shows "receipt context payload (Some k) s = (Inr row, s)"
proof -
  have "repo_product (mc_product_id payload) s = Some product"
    using assms(5) by (auto simp: validate_pair_def run_simps split: option.splits if_splits)
  then have "pr_id product = mc_product_id payload" by (auto simp: repo_product_def dest: find_SomeD)
  then have "post_movement context (mc_warehouse_id payload) product RECEIPT (mc_quantity payload) (Some u)
      (mc_reference_type payload) (mc_reference_id payload) (mc_notes payload) (Some k) s = (Inr row, s)"
    using assms by (simp add: post_movement_def bnd_def gets_def require_def ret_def truthy_def)
  then show ?thesis
    using assms(3-5) by (simp add: receipt_def require_def ret_def bnd_def on_integrity_error_def service_transaction_def flush_def)
qed




end
