(* ===== verification/Ledger.thy ===== *)
theory Ledger
  imports Accounting Stock_Invariant
begin

text \<open>
  Properties of the general ledger: what bootstrapping, posting and reversing do to the journal, that
  the journal of every reachable state is balanced, and what the reports computed from it satisfy.
\<close>

section \<open>Bootstrap\<close>

definition bootstrapped :: "'a accounting_db_scheme \<Rightarrow> 'a accounting_db_scheme \<Rightarrow> bool" where
  "bootstrapped s s' \<longleftrightarrow>
     same_inventory s s' \<and> document_sequences s' = document_sequences s \<and> idempotency_keys s' = idempotency_keys s
     \<and> audit_events s' = audit_events s \<and> base_currency s' = base_currency s
     \<and> journal_entries s' = journal_entries s \<and> journal_entry_lines s' = journal_entry_lines s
     \<and> (\<exists>as. accounts s' = accounts s @ as) \<and> (\<exists>ps. fiscal_periods s' = fiscal_periods s @ ps)
     \<and> (repo_journal s \<noteq> None \<longrightarrow> journals s' = journals s \<and> fiscal_periods s' = fiscal_periods s)
     \<and> accounting_db.more s' = accounting_db.more s"

lemma bootstrapped_refl [simp]: "bootstrapped s s"
  by (simp add: bootstrapped_def)

lemma wp_bootstrap_accounts:
  assumes "\<And>n as acc. Q acc (s\<lparr>uuid_count := n, accounts := accounts s @ as\<rparr>)"
  shows "wp (for_acc (bootstrap_account existing) parents ds) Q s"
proof -
  have "wp (for_acc (bootstrap_account existing) parents ds) (\<lambda>_ t. \<exists>n as. t = s\<lparr>uuid_count := n, accounts := accounts s @ as\<rparr>) s"
  proof (rule wp_for_acc)
    show "\<exists>n as. s = s\<lparr>uuid_count := n, accounts := accounts s @ as\<rparr>"
      by (intro exI[of _ "uuid_count s"] exI[of _ "[]"]) simp
    fix acc d t
    assume "\<exists>n as. t = s\<lparr>uuid_count := n, accounts := accounts s @ as\<rparr>"
    then obtain n as where t: "t = s\<lparr>uuid_count := n, accounts := accounts s @ as\<rparr>" by blast
    show "wp (bootstrap_account existing acc d) (\<lambda>_ t. \<exists>n as. t = s\<lparr>uuid_count := n, accounts := accounts s @ as\<rparr>) t"
      unfolding t by (cases d) (auto simp: bootstrap_account_def wp_simps)
  qed
  then show ?thesis by (rule wp_mono) (use assms in blast)
qed

lemma wp_bootstrap_flushed:
  assumes "\<And>s'. bootstrapped s s' \<Longrightarrow> chk s' = None \<Longrightarrow> Q () s'"
  shows "wp (bootstrap chk) Q s"
proof -
  have step: "wp (run_if (repo_journal t = None) bootstrap_journal) (\<lambda>_ s'. chk s' = None \<longrightarrow> Q () s') t"
    if t: "t = s\<lparr>uuid_count := n, accounts := accounts s @ as\<rparr>" for t n as
  proof (cases "repo_journal t = None")
    case True
    then show ?thesis
      using assms by (auto simp: bootstrap_journal_def wp_simps t bootstrapped_def repo_journal_def same_inventory_def
          split: prod.splits)
  next
    case False
    then show ?thesis
      using assms by (auto simp: wp_simps t bootstrapped_def repo_journal_def same_inventory_def)
  qed
  show ?thesis
    unfolding bootstrap_def wp_bnd wp_gets
    by (rule wp_bootstrap_accounts) (use step in \<open>simp add: wp_simps\<close>)
qed

section \<open>Posting\<close>

lemma wp_allocate_frame:
  assumes "\<And>num ds. Q num (s\<lparr>document_sequences := ds\<rparr>)"
  shows "wp (allocate series period) Q s"
  using assms by (auto simp: allocate_def upsert_sequence_def wp_simps split: option.splits)

definition line_amounts :: "journal_entry_line \<Rightarrow> rat \<times> rat" where
  "line_amounts l = (jl_debit l, jl_credit l)"

definition stored_amounts :: "PostingLine \<Rightarrow> rat \<times> rat" where
  "stored_amounts l = (Money (pl_debit l), Money (pl_credit l))"

text \<open>The lines of a new entry: one per posting line, on the account its code stands for.\<close>

definition lines_written ::
  "uuid \<Rightarrow> (string \<Rightarrow> account option) \<Rightarrow> PostingLine list \<Rightarrow> journal_entry_line list \<Rightarrow> bool"
where
  "lines_written i lookup lines new \<longleftrightarrow>
     list_all2 (\<lambda>l r. jl_journal_entry_id r = i \<and> line_amounts r = stored_amounts l
                     \<and> (\<exists>a. lookup (pl_system_code l) = Some a \<and> jl_account_id r = acc_id a)) lines new"

lemma wp_add_entry_lines:
  assumes "\<And>n new. lines_written i lookup lines new \<Longrightarrow>
             Q (s\<lparr>uuid_count := n, journal_entry_lines := journal_entry_lines s @ new\<rparr>)"
  shows "wp (for_each (add_entry_line i lookup) lines) (\<lambda>_. Q) s"
proof -
  have "wp (for_each (add_entry_line i lookup) lines)
      (\<lambda>_ t. \<exists>n new. lines_written i lookup lines new
              \<and> t = s\<lparr>uuid_count := n, journal_entry_lines := journal_entry_lines s @ new\<rparr>) s"
  proof (rule wp_for_each_prefix[where I = "\<lambda>done t. \<exists>n new. lines_written i lookup done new
              \<and> t = s\<lparr>uuid_count := n, journal_entry_lines := journal_entry_lines s @ new\<rparr>"])
    show "\<exists>n new. lines_written i lookup [] new \<and> s = s\<lparr>uuid_count := n, journal_entry_lines := journal_entry_lines s @ new\<rparr>"
      by (intro exI[of _ "uuid_count s"] exI[of _ "[]"]) (simp add: lines_written_def)
    fix "done" l rest t
    assume "\<exists>n new. lines_written i lookup done new \<and> t = s\<lparr>uuid_count := n, journal_entry_lines := journal_entry_lines s @ new\<rparr>"
    then obtain n new where new: "lines_written i lookup done new"
      and t: "t = s\<lparr>uuid_count := n, journal_entry_lines := journal_entry_lines s @ new\<rparr>" by blast
    have more: "lines_written i lookup (done @ [l]) (new @ [\<lparr>jl_id = j, jl_journal_entry_id = i, jl_account_id = acc_id a,
        jl_description = d, jl_debit = Money (pl_debit l), jl_credit = Money (pl_credit l)\<rparr>])"
      if "lookup (pl_system_code l) = Some a" for a j d
      using new that by (simp add: lines_written_def list_all2_appendI line_amounts_def stored_amounts_def)
    show "wp (add_entry_line i lookup l) (\<lambda>_ t. \<exists>n new. lines_written i lookup (done @ [l]) new
        \<and> t = s\<lparr>uuid_count := n, journal_entry_lines := journal_entry_lines s @ new\<rparr>) t"
      unfolding add_entry_line_def t
      by (auto simp: wp_simps intro!: exI[of _ "Suc n"] more)
  qed
  then show ?thesis by (rule wp_mono) (use assms in blast)
qed

lemma lines_written_accounts:
  assumes "lines_written i lookup lines new" and "\<And>c a. lookup c = Some a \<Longrightarrow> a \<in> A"
  shows "list_all (\<lambda>r. jl_account_id r \<in> acc_id ` A) new"
  using assms(1) unfolding lines_written_def
  by (induction rule: list_all2_induct) (use assms(2) in auto)

lemma lines_written_amounts:
  "lines_written i lookup lines new \<Longrightarrow>
   list_all2 (\<lambda>l r. jl_journal_entry_id r = i \<and> line_amounts r = stored_amounts l) lines new"
  unfolding lines_written_def by (erule list_all2_mono) simp

definition period_open_for :: "TenantContext \<Rightarrow> bool \<Rightarrow> date \<Rightarrow> fiscal_period \<Rightarrow> bool" where
  "period_open_for context allow_closed d p \<longleftrightarrow>
     fp_start_date p \<le> d \<and> d \<le> fp_end_date p \<and> fp_status p \<noteq> LOCKED
     \<and> (fp_status p = CLOSED \<longrightarrow> allow_closed \<and> ACCOUNTING_POST_CLOSED \<in> permissions context)"

text \<open>
  The effect of a successful \<open>post\<close>: one posted entry with one line per posting line, dated in a period
  that accepts it; nothing else changes but the chart of accounts, the periods, the number series and
  the audit trail.
\<close>

definition posted ::
  "TenantContext \<Rightarrow> bool \<Rightarrow> PostingLine list \<Rightarrow> journal_entry \<Rightarrow> journal_entry_line list \<Rightarrow>
     'a accounting_db_scheme \<Rightarrow> 'a accounting_db_scheme \<Rightarrow> bool"
where
  "posted context allow_closed lines e new s s' \<longleftrightarrow>
     je_status e = POSTED \<and> lines \<noteq> [] \<and> total_debit lines = total_credit lines \<and> total_debit lines \<noteq> 0
     \<and> je_total_debit e = total_debit lines \<and> je_total_credit e = total_credit lines
     \<and> je_reversed_by_entry_id e = None
     \<and> je_id e \<notin> je_id ` set (journal_entries s)
     \<and> journal_entries s' = journal_entries s @ [e\<lparr>je_total_debit := Money (total_debit lines), je_total_credit := Money (total_credit lines)\<rparr>]
     \<and> journal_entry_lines s' = journal_entry_lines s @ new
     \<and> list_all2 (\<lambda>l r. jl_journal_entry_id r = je_id e \<and> line_amounts r = stored_amounts l) lines new
     \<and> list_all (\<lambda>r. jl_account_id r \<in> acc_id ` set (accounts s')) new
     \<and> (\<exists>p. period_for_date (je_entry_date e) s' = Some p \<and> je_fiscal_period_id e = fp_id p
           \<and> period_open_for context allow_closed (je_entry_date e) p)
     \<and> same_inventory s s' \<and> idempotency_keys s' = idempotency_keys s
     \<and> (\<exists>as. accounts s' = accounts s @ as) \<and> (\<exists>ps. fiscal_periods s' = fiscal_periods s @ ps)
     \<and> accounting_db.more s' = accounting_db.more s"

lemma wp_posting_period:
  assumes "\<And>p. period_for_date d s = Some p \<Longrightarrow> period_open_for context allow_closed d p \<Longrightarrow> Q p s"
  shows "wp (posting_period context d allow_closed) Q s"
proof -
  have "fp_start_date p \<le> d \<and> d \<le> fp_end_date p" if "period_for_date d s = Some p" for p
    using find_SomeD[OF that[unfolded period_for_date_def]] by simp
  then show ?thesis using assms by (auto simp: posting_period_def wp_simps period_open_for_def)
qed

lemma wp_posting_accounts:
  assumes "\<And>lookup. (\<And>c a. lookup c = Some a \<Longrightarrow> a \<in> set (accounts s) \<or> (\<exists>m. account_map = Some m \<and> (c, a) \<in> set m)) \<Longrightarrow>
             (\<And>l. l \<in> set lines \<Longrightarrow> \<exists>a. lookup (pl_system_code l) = Some a \<and> acc_is_postable a \<and> acc_is_active a) \<Longrightarrow>
             (\<And>m. account_map = Some m \<Longrightarrow> m \<noteq> [] \<Longrightarrow> lookup = map_of m) \<Longrightarrow> Q lookup s"
  shows "wp (posting_accounts lines account_map) Q s"
proof -
  define lookup where "lookup = (case account_map of None \<Rightarrow> system_account s | Some [] \<Rightarrow> system_account s | Some (x # xs) \<Rightarrow> map_of (x # xs))"
  have src: "a \<in> set (accounts s) \<or> (\<exists>m. account_map = Some m \<and> (c, a) \<in> set m)" if "lookup c = Some a" for c a
    using that by (auto simp: lookup_def system_account_def simp del: map_of.simps
        dest: find_SomeD map_of_SomeD split: option.splits list.splits)
  have "Q lookup s" if "list_all (\<lambda>c. lookup c \<noteq> None) (map pl_system_code lines)"
    "list_all (\<lambda>c. case lookup c of None \<Rightarrow> True | Some a \<Rightarrow> acc_is_postable a \<and> acc_is_active a) (map pl_system_code lines)"
    by (rule assms[OF src]) (use that in \<open>auto simp: list_all_iff lookup_def neq_Nil_conv split: option.splits\<close>)
  then show ?thesis by (simp add: posting_accounts_def wp_simps Let_def lookup_def)
qed

text \<open>
  The flush check of a caller covers the constraints of the journal. Each module that posts provides
  its own check and obtains the posting rule from this contract.
\<close>

locale journal_check =
  fixes chk :: "'a accounting_db_scheme \<Rightarrow> error option"
  assumes chk_entries: "chk s = None \<Longrightarrow> unique_on je_id (journal_entries s)"
begin

lemma wp_write_entry:
  assumes "\<And>e new s'. \<lbrakk> \<exists>num. e = entry\<lparr>je_entry_number := num, je_status := POSTED\<rparr>;
             je_id entry \<notin> je_id ` set (journal_entries s); lines_written (je_id entry) lookup lines new;
             journal_entries s' = journal_entries s
               @ [e\<lparr>je_total_debit := Money (je_total_debit entry), je_total_credit := Money (je_total_credit entry)\<rparr>];
             journal_entry_lines s' = journal_entry_lines s @ new; same_inventory s s';
             idempotency_keys s' = idempotency_keys s; accounts s' = accounts s; fiscal_periods s' = fiscal_periods s;
             accounting_db.more s' = accounting_db.more s \<rbrakk> \<Longrightarrow> Q e s'"
  shows "wp (write_entry chk entry lookup lines) Q s"
proof -
  let ?row = "entry\<lparr>je_total_debit := Money (je_total_debit entry), je_total_credit := Money (je_total_credit entry)\<rparr>"
  let ?s1 = "s\<lparr>journal_entries := journal_entries s @ [?row]\<rparr>"
  have fresh: "je_id entry \<notin> je_id ` set (journal_entries s)" if "chk ?s1 = None"
    using chk_entries[OF that] by auto
  have upd: "upd_where (\<lambda>e. je_id e = je_id entry) f (journal_entries s @ [?row]) = journal_entries s @ [f ?row]"
    if "je_id entry \<notin> je_id ` set (journal_entries s)" for f
    using that by (simp, intro upd_where_no_match) (auto simp: image_iff)
  show ?thesis
    unfolding write_entry_def wp_bnd wp_modify wp_flush
  proof (intro impI wp_add_entry_lines)
    fix n new
    assume c: "chk ?s1 = None" and w: "lines_written (je_id entry) lookup lines new"
    note f = fresh[OF c]
    show "wp (allocate ''journal'' (str_nat (nat (year_of (je_entry_date entry)))))
          (\<lambda>x. wp (update_entry (je_id entry) (\<lambda>e. e\<lparr>je_entry_number := x, je_status := POSTED\<rparr>))
                 (\<lambda>_. wp (ret (entry\<lparr>je_entry_number := x, je_status := POSTED\<rparr>)) Q))
          (?s1\<lparr>uuid_count := n, journal_entry_lines := journal_entry_lines ?s1 @ new\<rparr>)"
      by (rule wp_allocate_frame)
        (auto simp: update_entry_def wp_simps same_inventory_def upd[OF f, simplified] intro!: assms[OF _ f w])
  qed
qed

lemma wp_post:
  assumes map: "\<And>m. account_map = Some m \<Longrightarrow> snd ` set m \<subseteq> set (accounts s)"
    and Q: "\<And>e new s'. posted context allow_closed lines e new s s' \<Longrightarrow>
             je_entry_date e = entry_date \<Longrightarrow> je_source_type e = source_type \<Longrightarrow> je_source_id e = source_id \<Longrightarrow>
             je_event_type e = event_type \<Longrightarrow>
             (\<And>m. account_map = Some m \<Longrightarrow> m \<noteq> [] \<Longrightarrow> lines_written (je_id e) (map_of m) lines new) \<Longrightarrow> Q e s'"
  shows "wp (post chk context entry_date description source_type source_id event_type lines allow_closed metadata account_map) Q s"
  unfolding post_def wp_bnd
  apply (rule wp_bootstrap_flushed)
  apply (simp only: wp_require)
  apply (intro impI wp_posting_period wp_posting_accounts)
  apply (unfold record_entry_def)
  apply (simp only: wp_bnd wp_gets wp_some_or wp_uuid7 wp_datetime_now)
  apply (intro allI impI wp_write_entry)
  apply (simp only: wp_simps)
  subgoal premises p for s1 period lookup journal e new s2
  proof (rule Q)
    have acc: "accounts s2 = accounts s1" and sub: "set (accounts s) \<subseteq> set (accounts s1)"
      using p by (auto simp: bootstrapped_def)
    have src: "a \<in> set (accounts s2)" if "lookup c = Some a" for c a
      using p(6)[OF that] map sub unfolding acc by force
    have e: "je_id e = uuid_gen s1 (uuid_count s1)" "je_entry_date e = entry_date" "je_source_type e = source_type"
      "je_source_id e = source_id" "je_event_type e = event_type" "je_fiscal_period_id e = fp_id period"
      "je_status e = POSTED" "je_total_debit e = total_debit lines" "je_total_credit e = total_credit lines"
      "je_reversed_by_entry_id e = None"
      using p by auto
    then show "je_entry_date e = entry_date" "je_source_type e = source_type" "je_source_id e = source_id"
      "je_event_type e = event_type" by simp_all
    show "lines_written (je_id e) (map_of m) lines new" if "account_map = Some m" "m \<noteq> []" for m
      using p(8)[OF that] p e(1) by simp
    show "posted context allow_closed lines e new s
        (s2\<lparr>audit_events := audit_events s2 @ [\<lparr>ae_actor_user_id = Some (user_id context),
            ae_actor_membership_id = Some (membership_id context), ae_action = ''accounting.entry_posted'',
            ae_resource_type = ''journal_entry'', ae_resource_id = Some (uuid_gen s1 (uuid_count s1)),
            ae_request_id = request_id s2, ae_metadata = [(''event_type'', MStr event_type)]\<rparr>]\<rparr>)"
      using p e sub lines_written_amounts[of "je_id e" lookup lines new]
        lines_written_accounts[of "je_id e" lookup lines new "set (accounts s2)"] src
      by (auto simp: posted_def bootstrapped_def same_inventory_def period_for_date_def)
  qed
  done

text \<open>The period of a posting, whatever the accounts come from.\<close>

lemma wp_post_period:
  "wp (post chk context entry_date description source_type source_id event_type lines allow_closed metadata account_map)
     (\<lambda>e s'. (\<exists>p. period_for_date entry_date s' = Some p \<and> je_fiscal_period_id e = fp_id p
               \<and> period_open_for context allow_closed entry_date p)
       \<and> je_entry_date e = entry_date \<and> (\<exists>ps. fiscal_periods s' = fiscal_periods s @ ps)) s"
  unfolding post_def wp_bnd
  apply (rule wp_bootstrap_flushed)
  apply (simp only: wp_require)
  apply (intro impI wp_posting_period wp_posting_accounts)
  apply (unfold record_entry_def)
  apply (simp only: wp_bnd wp_gets wp_some_or wp_uuid7 wp_datetime_now)
  apply (intro allI impI wp_write_entry)
  apply (simp only: wp_simps)
  apply (force simp: bootstrapped_def period_for_date_def)
  done

end

section \<open>The journal of every reachable state\<close>

definition journal_inv :: "'a accounting_db_scheme \<Rightarrow> bool" where
  "journal_inv s \<longleftrightarrow>
     (\<forall>l \<in> set (journal_entry_lines s).
        jl_journal_entry_id l \<in> je_id ` set (journal_entries s) \<and> jl_account_id l \<in> acc_id ` set (accounts s)
        \<and> on_grid 4 (jl_debit l) \<and> on_grid 4 (jl_credit l))
     \<and> (\<forall>e \<in> set (journal_entries s). je_status e = POSTED)"

lemma posted_new_lines:
  assumes "posted context allow_closed lines e new s s'" and "l \<in> set new"
  shows "jl_journal_entry_id l = je_id e \<and> jl_account_id l \<in> acc_id ` set (accounts s') \<and> on_grid 4 (jl_debit l) \<and> on_grid 4 (jl_credit l)"
proof -
  have "list_all2 (\<lambda>l r. jl_journal_entry_id r = je_id e \<and> line_amounts r = stored_amounts l) lines new"
    using assms(1) by (simp add: posted_def)
  then obtain x where "jl_journal_entry_id l = je_id e" "line_amounts l = stored_amounts x"
    using assms(2) by (induction rule: list_all2_induct) auto
  then show ?thesis
    using assms by (auto simp: posted_def line_amounts_def stored_amounts_def list_all_iff)
qed

lemma posted_journal_inv:
  assumes "journal_inv s" and "posted context allow_closed lines e new s s'"
  shows "journal_inv s'"
proof -
  have "acc_id ` set (accounts s) \<subseteq> acc_id ` set (accounts s')"
    using assms(2) by (auto simp: posted_def)
  then show ?thesis
    using assms posted_new_lines[OF assms(2)] by (auto simp: journal_inv_def posted_def)
qed

lemma posted_lines_of:
  assumes "journal_inv s" and p: "posted context allow_closed lines e new s s'"
  shows "lines_of (je_id e) s' = new"
    and "e' \<in> set (journal_entries s) \<Longrightarrow> lines_of (je_id e') s' = lines_of (je_id e') s"
proof -
  have fresh: "je_id e \<notin> je_id ` set (journal_entries s)" using p by (simp add: posted_def)
  have old: "jl_journal_entry_id l \<noteq> je_id e" if "l \<in> set (journal_entry_lines s)" for l
  proof -
    have "jl_journal_entry_id l \<in> je_id ` set (journal_entries s)"
      using assms(1) that by (simp add: journal_inv_def)
    with fresh show ?thesis by metis
  qed
  have new: "jl_journal_entry_id l = je_id e" if "l \<in> set new" for l using posted_new_lines[OF p that] by simp
  have "filter (\<lambda>l. jl_journal_entry_id l = je_id e) (journal_entry_lines s) = []"
    "filter (\<lambda>l. jl_journal_entry_id l = je_id e) new = new"
    using old new by (simp_all add: filter_empty_conv filter_id_conv)
  then show "lines_of (je_id e) s' = new" using p by (simp add: lines_of_def posted_def)
  assume "e' \<in> set (journal_entries s)"
  then have "je_id e' \<noteq> je_id e" using fresh by (metis imageI)
  then have "filter (\<lambda>l. jl_journal_entry_id l = je_id e') new = []" using new by (simp add: filter_empty_conv)
  then show "lines_of (je_id e') s' = lines_of (je_id e') s" using p by (simp add: lines_of_def posted_def)
qed

text \<open>What the invariant of the ledger and the committed constraints give together.\<close>

definition ledger_ok :: "'a accounting_db_scheme \<Rightarrow> bool" where
  "ledger_ok s \<longleftrightarrow> journal_inv s \<and> unique_on je_id (journal_entries s) \<and> unique_on acc_id (accounts s)
     \<and> list_all (entry_balanced s) (journal_entries s)"

lemma ledger_ok_cong:
  "accounts s' = accounts s \<Longrightarrow> journal_entries s' = journal_entries s \<Longrightarrow> journal_entry_lines s' = journal_entry_lines s \<Longrightarrow>
   ledger_ok s' = ledger_ok s"
  by (simp add: ledger_ok_def journal_inv_def entry_balanced_def [abs_def] lines_of_def)

lemma accounting_chkD:
  assumes "accounting_chk s = None"
  shows "unique_on je_id (journal_entries s)" "unique_on acc_id (accounts s)" "list_all (entry_balanced s) (journal_entries s)"
    "unique_on fp_id (fiscal_periods s)" "no_overlap (fiscal_periods s)" "inventory_chk s = None"
  using assms by (simp_all add: accounting_chk_def accounting_constraints_def balance_trigger_def inventory_chk_def)

lemma accounting_flush_chkD:
  assumes "accounting_flush_chk s = None"
  shows "unique_on je_id (journal_entries s)" "unique_on acc_id (accounts s)"
  using assms by (simp_all add: accounting_flush_chk_def accounting_constraints_def)

lemma ledger_okI: "journal_inv s \<Longrightarrow> accounting_chk s = None \<Longrightarrow> ledger_ok s"
  using accounting_chkD[of s] by (simp add: ledger_ok_def)

interpretation accounting_check: journal_check accounting_flush_chk
  by unfold_locales (rule accounting_flush_chkD)

section \<open>The trial balance\<close>

definition in_window :: "date \<Rightarrow> date \<Rightarrow> journal_entry \<Rightarrow> bool" where
  "in_window start stop e \<longleftrightarrow> je_status e = POSTED \<and> start \<le> je_entry_date e \<and> je_entry_date e \<le> stop"

text \<open>The lines of a window are the lines of the entries in it: an entry is never split.\<close>

lemma window_sum_by_entry:
  fixes f :: "journal_entry_line \<Rightarrow> rat"
  assumes "unique_on je_id (journal_entries s)"
  shows "sum_list (map f (filter (posted_between start stop s) (journal_entry_lines s)))
       = sum_list (map (\<lambda>e. sum_list (map f (lines_of (je_id e) s))) (filter (in_window start stop) (journal_entries s)))"
proof -
  let ?W = "filter (in_window start stop) (journal_entries s)"
  let ?L = "filter (posted_between start stop s) (journal_entry_lines s)"
  have d: "distinct (map je_id ?W)" using assms by (simp add: distinct_map_filter)
  have k: "jl_journal_entry_id l \<in> set (map je_id ?W)" if "l \<in> set ?L" for l
    using that by (auto simp: posted_between_def in_window_def list_ex_iff image_iff)
  have "filter (\<lambda>l. jl_journal_entry_id l = je_id e) ?L = lines_of (je_id e) s" if "e \<in> set ?W" for e
    using that by (auto simp: lines_of_def filter_filter posted_between_def in_window_def list_ex_iff intro!: filter_cong)
  then have "map (\<lambda>k. sum_list (map f (filter (\<lambda>l. jl_journal_entry_id l = k) ?L))) (map je_id ?W)
      = map (\<lambda>e. sum_list (map f (lines_of (je_id e) s))) ?W" by simp
  with sum_list_group_by[where f = f and key = jl_journal_entry_id and xs = ?L, OF d k] show ?thesis
    by (simp only:)
qed

lemma window_balanced:
  assumes "ledger_ok s"
  shows "sum_list (map jl_debit (filter (posted_between start stop s) (journal_entry_lines s)))
       = sum_list (map jl_credit (filter (posted_between start stop s) (journal_entry_lines s)))"
proof -
  have u: "unique_on je_id (journal_entries s)" using assms by (simp add: ledger_ok_def)
  have "sum_list (map jl_debit (lines_of (je_id e) s)) = sum_list (map jl_credit (lines_of (je_id e) s))"
    if "e \<in> set (journal_entries s)" "in_window start stop e" for e
    using assms that by (auto simp: ledger_ok_def list_all_iff entry_balanced_def in_window_def Let_def)
  then show ?thesis unfolding window_sum_by_entry[OF u] by (intro arg_cong[where f = sum_list]) simp
qed

text \<open>The sum of a function over the lines, account by account, with the idle accounts left out.\<close>

lemma window_sum_by_account:
  fixes f :: "journal_entry_line \<Rightarrow> rat"
  assumes "ledger_ok s"
  shows "sum_list (map (\<lambda>a. sum_list (map f (account_lines start stop s (acc_id a))))
           (filter (\<lambda>a. account_lines start stop s (acc_id a) \<noteq> []) (accounts s)))
       = sum_list (map f (filter (posted_between start stop s) (journal_entry_lines s)))"
proof -
  let ?L = "filter (posted_between start stop s) (journal_entry_lines s)"
  have d: "distinct (map acc_id (accounts s))" using assms by (simp add: ledger_ok_def)
  have k: "jl_account_id l \<in> set (map acc_id (accounts s))" if "l \<in> set ?L" for l
    using assms that by (auto simp: ledger_ok_def journal_inv_def)
  have al: "account_lines start stop s i = filter (\<lambda>l. jl_account_id l = i) ?L" for i
    by (simp add: account_lines_def filter_filter conj_commute)
  have drop: "sum_list (map g (filter (\<lambda>a. h a \<noteq> []) as)) = sum_list (map g as)"
    if "\<And>a. h a = [] \<Longrightarrow> g a = 0" for g :: "account \<Rightarrow> rat" and h :: "account \<Rightarrow> journal_entry_line list" and as
    by (induction as) (auto simp: that)
  have "sum_list (map (\<lambda>a. sum_list (map f (account_lines start stop s (acc_id a))))
           (filter (\<lambda>a. account_lines start stop s (acc_id a) \<noteq> []) (accounts s)))
      = sum_list (map (\<lambda>a. sum_list (map f (account_lines start stop s (acc_id a)))) (accounts s))"
    by (rule drop) simp
  also have "\<dots> = sum_list (map f ?L)"
    using sum_list_group_by[where f = f and key = jl_account_id and xs = ?L, OF d k]
    by (simp add: al o_def del: filter_filter)
  finally show ?thesis .
qed

text \<open>A row of the trial balance holds the exact sums of its account: rounding four-place sums is the identity.\<close>

lemma account_sums_grid:
  assumes "ledger_ok s"
  shows "on_grid 4 (sum_list (map jl_debit (account_lines start stop s i)))"
    and "on_grid 4 (sum_list (map jl_credit (account_lines start stop s i)))"
  using assms by (auto simp: ledger_ok_def journal_inv_def account_lines_def intro!: on_grid_sum_list)

lemma trial_balance_rows:
  assumes "ledger_ok s" and "repo_trial_balance code_key start stop s = Inr rows"
  shows "rows = map (\<lambda>a. (a, sum_list (map jl_debit (account_lines start stop s (acc_id a))),
                           sum_list (map jl_credit (account_lines start stop s (acc_id a)))))
           (sort_key (\<lambda>a. code_key (acc_code a)) (filter (\<lambda>a. account_lines start stop s (acc_id a) \<noteq> []) (accounts s)))"
proof -
  have "list_all2 (\<lambda>a r. trial_balance_row start stop s a = Inr r)
      (sort_key (\<lambda>a. code_key (acc_code a)) (filter (\<lambda>a. account_lines start stop s (acc_id a) \<noteq> []) (accounts s))) rows"
    using assms(2) unfolding repo_trial_balance_def by (rule res_map_list_all2)
  then show ?thesis
    by (induction rule: list_all2_induct)
      (auto simp: trial_balance_row_def Money_fixed account_sums_grid[OF assms(1)] dest!: round_money_InrD)
qed

lemma trial_balance_sums:
  assumes "ledger_ok s" and "repo_trial_balance code_key start stop s = Inr rows"
  shows "sum_list (map (\<lambda>(a, d, c). d) rows) = sum_list (map jl_debit (filter (posted_between start stop s) (journal_entry_lines s)))"
    and "sum_list (map (\<lambda>(a, d, c). c) rows) = sum_list (map jl_credit (filter (posted_between start stop s) (journal_entry_lines s)))"
  unfolding trial_balance_rows[OF assms]
  by (simp_all add: o_def sum_list_sort_key window_sum_by_account[OF assms(1)])

lemma bootstrapped_ledger_ok:
  assumes "ledger_ok s" and "bootstrapped s s'" and "accounting_flush_chk s' = None"
  shows "ledger_ok s'"
proof -
  have "acc_id ` set (accounts s) \<subseteq> acc_id ` set (accounts s')" using assms(2) by (auto simp: bootstrapped_def)
  moreover have "entry_balanced s' = entry_balanced s"
    using assms(2) by (simp add: bootstrapped_def fun_eq_iff entry_balanced_def lines_of_def)
  ultimately show ?thesis
    using assms accounting_flush_chkD[OF assms(3)] by (auto simp: ledger_ok_def journal_inv_def bootstrapped_def)
qed

lemma wp_trial_balance:
  assumes "ledger_ok s"
    and "\<And>rows s'. ledger_ok s' \<Longrightarrow> bootstrapped s s' \<Longrightarrow> repo_trial_balance code_key start stop s' = Inr rows \<Longrightarrow> Q rows s'"
  shows "wp (trial_balance code_key start stop) Q s"
  unfolding trial_balance_def wp_service_transaction wp_bnd
  by (rule wp_bootstrap_flushed) (use assms bootstrapped_ledger_ok[OF assms(1)] in \<open>auto simp: wp_simps\<close>)


section \<open>Reachable ledgers\<close>

lemma journal_inv_cong:
  assumes "map je_id (journal_entries s') = map je_id (journal_entries s)"
    and "map je_status (journal_entries s') = map je_status (journal_entries s)"
    and "journal_entry_lines s' = journal_entry_lines s" and "acc_id ` set (accounts s) \<subseteq> acc_id ` set (accounts s')"
  shows "journal_inv s \<Longrightarrow> journal_inv s'"
proof -
  have "je_id ` set (journal_entries s') = je_id ` set (journal_entries s)"
    using assms(1) by (metis list.set_map)
  moreover have "je_status ` set (journal_entries s') = je_status ` set (journal_entries s)"
    using assms(2) by (metis list.set_map)
  then have "(\<forall>e \<in> set (journal_entries s'). je_status e = POSTED) = (\<forall>e \<in> set (journal_entries s). je_status e = POSTED)"
    by (metis (no_types, lifting) imageE imageI)
  ultimately show "journal_inv s \<Longrightarrow> journal_inv s'"
    using assms(3,4) by (auto simp: journal_inv_def)
qed

lemma bootstrapped_journal_inv: "bootstrapped s s' \<Longrightarrow> journal_inv s \<Longrightarrow> journal_inv s'"
  by (rule journal_inv_cong[of s' s]) (auto simp: bootstrapped_def)

lemma journal_inv_simps [simp]:
  "journal_inv (s\<lparr>audit_events := x\<rparr>) = journal_inv s"
  "journal_inv (s\<lparr>uuid_count := n\<rparr>) = journal_inv s"
  "journal_inv (s\<lparr>fiscal_periods := ps\<rparr>) = journal_inv s"
  by (simp_all add: journal_inv_def)

lemma post_journal_inv:
  assumes "journal_inv s" and "\<And>m. account_map = Some m \<Longrightarrow> snd ` set m \<subseteq> set (accounts s)"
  shows "wp (post accounting_flush_chk context d description source_type source_id event_type lines allow_closed metadata account_map)
           (\<lambda>_. journal_inv) s"
  by (rule accounting_check.wp_post) (use assms posted_journal_inv[OF assms(1)] in auto)

lemma list_accounts_ledger: "ledger_ok s \<Longrightarrow> wp (list_accounts code_key) (\<lambda>_. ledger_ok) s"
  unfolding list_accounts_def wp_service_transaction wp_bnd
  by (rule wp_bootstrap_flushed) (simp add: wp_simps bootstrapped_ledger_ok)

lemma trial_balance_ledger: "ledger_ok s \<Longrightarrow> wp (trial_balance code_key start stop) (\<lambda>_. ledger_ok) s"
  by (rule wp_trial_balance)

lemma set_not_postable_ids: "acc_id ` set (upd_where p (\<lambda>a. a\<lparr>acc_is_postable := False\<rparr>) as) = acc_id ` set as"
  by (induction as) auto

lemma create_account_ledger: "ledger_ok s \<Longrightarrow> wp (create_account context payload) (\<lambda>_. ledger_ok) s"
  unfolding create_account_def wp_on_integrity_error wp_service_transaction wp_bnd
  apply (rule wp_bootstrap_flushed)
  subgoal premises p for s1
  proof -
    have "journal_inv s1" using bootstrapped_ledger_ok[OF p] by (simp add: ledger_ok_def)
    then show ?thesis
      by (auto simp: check_parent_def set_not_postable_def wp_simps Let_def set_not_postable_ids
          intro!: ledger_okI journal_inv_cong[of _ s1] split: option.splits)
  qed
  done

lemma create_period_ledger: "ledger_ok s \<Longrightarrow> wp (create_period context payload) (\<lambda>_. ledger_ok) s"
  unfolding create_period_def wp_on_integrity_error wp_service_transaction wp_bnd wp_require
  by (intro impI wp_bootstrap_flushed)
    (simp add: wp_simps Let_def ledger_okI bootstrapped_journal_inv[of s] ledger_ok_def[of s])

lemma change_period_status_ledger: "ledger_ok s \<Longrightarrow> wp (change_period_status context i st) (\<lambda>_. ledger_ok) s"
  by (auto simp: change_period_status_def wp_simps intro!: ledger_okI) (simp add: ledger_ok_def)

lemma post_manual_ledger: "ledger_ok s \<Longrightarrow> wp (post_manual context payload) (\<lambda>_. ledger_ok) s"
  unfolding post_manual_def wp_service_transaction wp_bnd
  apply (rule wp_bootstrap_flushed)
  apply (simp only: wp_gets wp_let Let_def wp_bnd wp_require wp_uuid7)
  apply (intro impI wp_mono[OF post_journal_inv])
    apply (simp add: bootstrapped_journal_inv ledger_ok_def)
   apply (force simp: account_codes_def)
  apply (simp add: ledger_okI)
  done

lemma reverse_entry_ledger: "ledger_ok s \<Longrightarrow> wp (reverse_entry context i d) (\<lambda>_. ledger_ok) s"
  unfolding reverse_entry_def wp_service_transaction
  apply (simp only: wp_bnd wp_gets wp_some_or wp_require)
  apply (intro impI allI wp_mono[OF post_journal_inv])
    apply (simp add: ledger_ok_def)
   apply (force simp: account_codes_def)
  subgoal for original e s'
    by (auto simp: update_entry_def wp_simps intro!: ledger_okI journal_inv_cong[of _ s'])
  done

text \<open>A document of another module, as far as the ledger is concerned: it posts to the system accounts.\<close>

lemma document_ledger:
  "ledger_ok s \<Longrightarrow>
   wp (service_transaction accounting_chk
        (post accounting_flush_chk context d description source_type source_id event_type lines allow_closed metadata None))
     (\<lambda>_. ledger_ok) s"
  unfolding wp_service_transaction
  by (rule wp_mono[OF post_journal_inv]) (auto simp: ledger_ok_def[of s] intro: ledger_okI)


lemma wp_balance_sheet:
  assumes "ledger_ok s"
    and "\<And>cum ear s'. ledger_ok s' \<Longrightarrow> bootstrapped s s' \<Longrightarrow> repo_trial_balance code_key (1970, 1, 1) as_of s' = Inr cum \<Longrightarrow>
           (case period_for_date as_of s' of None \<Rightarrow> ear = []
              | Some p \<Rightarrow> repo_trial_balance code_key (fp_start_date p) as_of s' = Inr ear) \<Longrightarrow>
           Q (map debit_side (of_type ASSET cum), map credit_side (of_type LIABILITY cum),
              map credit_side (of_type EQUITY cum),
              sum_list (map (snd \<circ> credit_side) (of_type REVENUE ear))
                - sum_list (map (snd \<circ> debit_side) (of_type EXPENSE ear))) s'"
  shows "wp (balance_sheet code_key as_of) Q s"
  unfolding balance_sheet_def wp_bnd wp_service_transaction
  apply (rule wp_bootstrap_flushed)
  using assms(2) bootstrapped_ledger_ok[OF assms(1)]
  by (auto simp: wp_simps split: option.splits)

lemma balance_sheet_ledger: "ledger_ok s \<Longrightarrow> wp (balance_sheet code_key as_of) (\<lambda>_. ledger_ok) s"
  by (rule wp_balance_sheet)

text \<open>
  The ledgers the accounting operations reach, from a tenant without entries. \<open>document\<close> stands for a
  posting of another module and \<open>environment\<close> for everything that leaves the ledger's tables alone.
\<close>

inductive accounting_reachable :: "'a accounting_db_scheme \<Rightarrow> bool" where
  init: "journal_entries s = [] \<Longrightarrow> journal_entry_lines s = [] \<Longrightarrow> unique_on acc_id (accounts s) \<Longrightarrow> accounting_reachable s"
| list_accounts: "accounting_reachable s \<Longrightarrow> accounting_reachable (snd (list_accounts k s))"
| create_account: "accounting_reachable s \<Longrightarrow> accounting_reachable (snd (create_account c a s))"
| create_period: "accounting_reachable s \<Longrightarrow> accounting_reachable (snd (create_period c p s))"
| change_period_status: "accounting_reachable s \<Longrightarrow> accounting_reachable (snd (change_period_status c i st s))"
| post_manual: "accounting_reachable s \<Longrightarrow> accounting_reachable (snd (post_manual c m s))"
| reverse_entry: "accounting_reachable s \<Longrightarrow> accounting_reachable (snd (reverse_entry c i d s))"
| trial_balance: "accounting_reachable s \<Longrightarrow> accounting_reachable (snd (trial_balance k d d' s))"
| balance_sheet: "accounting_reachable s \<Longrightarrow> accounting_reachable (snd (balance_sheet k d s))"
| document: "accounting_reachable s \<Longrightarrow>
    accounting_reachable (snd (service_transaction accounting_chk
      (post accounting_flush_chk c d description source_type source_id event_type lines False metadata None) s))"
| environment: "accounting_reachable s \<Longrightarrow> accounts s' = accounts s \<Longrightarrow> journal_entries s' = journal_entries s \<Longrightarrow>
    journal_entry_lines s' = journal_entry_lines s \<Longrightarrow> accounting_reachable s'"

lemma atomic_bnd_ret [atomic_intros]:
  "atomic m \<Longrightarrow> atomic (bnd m (\<lambda>x. ret (f x)))"
  "atomic n \<Longrightarrow> atomic (bnd n (\<lambda>(x, y). ret (g x y)))"
  by (auto simp: atomic_def bnd_def ret_def split: prod.splits sum.splits)

lemma atomic_accounting [atomic_intros]:
  "atomic (list_accounts k)" "atomic (create_account c a)" "atomic (create_period c p)" "atomic (change_period_status c i st)"
  "atomic (post_manual c m)" "atomic (reverse_entry c i d)" "atomic (trial_balance k d d')"
  "atomic (profit_and_loss k d d')" "atomic (balance_sheet k d)"
  by (auto simp: list_accounts_def create_account_def create_period_def change_period_status_def post_manual_def
      reverse_entry_def trial_balance_def profit_and_loss_def balance_sheet_def intro!: atomic_intros)

lemma accounting_reachable_ok: "accounting_reachable s \<Longrightarrow> ledger_ok s"
proof (induction rule: accounting_reachable.induct)
  case (init s)
  then show ?case by (simp add: ledger_ok_def journal_inv_def)
next
  case (environment s s')
  then show ?case using ledger_ok_cong[of s' s] by simp
qed (auto intro!: atomic_preserves[where I = ledger_ok] atomic_intros list_accounts_ledger create_account_ledger
    create_period_ledger change_period_status_ledger post_manual_ledger reverse_entry_ledger trial_balance_ledger
    balance_sheet_ledger document_ledger)


section \<open>Properties\<close>

text \<open>
  C12. Double entry. In every reachable ledger, a trial balance over any window of dates that the service
  returns has equal debit and credit totals: each posted entry is balanced, lies in the window as a whole,
  has all its lines on accounts of the chart, and rounding the sums to four places changes nothing.
\<close>

theorem trial_balance_balances:
  assumes "accounting_reachable s" and "trial_balance code_key start stop s = (Inr rows, s')"
  shows "sum_list (map (\<lambda>(a, d, c). d) rows) = sum_list (map (\<lambda>(a, d, c). c) rows)"
proof -
  have "wp (trial_balance code_key start stop)
      (\<lambda>rows _. sum_list (map (\<lambda>(a, d, c). d) rows) = sum_list (map (\<lambda>(a, d, c). c) rows)) s"
    by (rule wp_trial_balance[OF accounting_reachable_ok[OF assms(1)]])
      (simp add: trial_balance_sums window_balanced)
  from wpD[OF this assms(2)] show ?thesis .
qed

text \<open>Sums over the rows of a trial balance by kind of account.\<close>

definition net_of :: "account_type \<Rightarrow> (account \<times> rat \<times> rat) list \<Rightarrow> rat" where
  "net_of ty rows = sum_list (map (snd \<circ> debit_side) (of_type ty rows))"

lemma net_of_simps [simp]:
  "net_of ty [] = 0"
  "net_of ty ((a, d, c) # rows) = (if acc_account_type a = ty then d - c else 0) + net_of ty rows"
  by (simp_all add: net_of_def of_type_def debit_side_def)

lemma credit_side_net: "sum_list (map (snd \<circ> credit_side) (of_type ty rows)) = - net_of ty rows"
  by (induction rows) (auto simp: of_type_def credit_side_def)

lemma net_by_type:
  "sum_list (map (\<lambda>(a, d, c). d) rows) - sum_list (map (\<lambda>(a, d, c). c) rows)
     = net_of ASSET rows + net_of LIABILITY rows + net_of EQUITY rows + net_of REVENUE rows + net_of EXPENSE rows"
proof (induction rows)
  case (Cons r rows)
  obtain a d c where "r = (a, d, c)" by (cases r)
  with Cons show ?case by (cases "acc_account_type a") auto
qed simp

lemma net_of_sort:
  assumes "ledger_ok s" and "repo_trial_balance code_key start stop s = Inr rows"
  shows "net_of ty rows = sum_list (map (\<lambda>a. if acc_account_type a = ty
      then sum_list (map jl_debit (account_lines start stop s (acc_id a)))
           - sum_list (map jl_credit (account_lines start stop s (acc_id a))) else 0) (accounts s))"
proof -
  let ?v = "\<lambda>a. if acc_account_type a = ty
      then sum_list (map jl_debit (account_lines start stop s (acc_id a)))
           - sum_list (map jl_credit (account_lines start stop s (acc_id a))) else 0"
  have n: "net_of ty (map (\<lambda>a. (a, sum_list (map jl_debit (account_lines start stop s (acc_id a))),
      sum_list (map jl_credit (account_lines start stop s (acc_id a))))) as) = sum_list (map ?v as)" for as
    by (induction as) simp_all
  have idle: "sum_list (map ?v (filter (\<lambda>a. account_lines start stop s (acc_id a) \<noteq> []) as)) = sum_list (map ?v as)" for as
    by (induction as) auto
  show ?thesis unfolding trial_balance_rows[OF assms] n sum_list_sort_key by (rule idle)
qed

text \<open>The result of the accounting years before a date that no entry has moved to equity.\<close>

definition net_result :: "date \<Rightarrow> date \<Rightarrow> 'a accounting_db_scheme \<Rightarrow> rat" where
  "net_result start stop s = sum_list (map (\<lambda>a. if acc_account_type a \<in> {REVENUE, EXPENSE}
      then sum_list (map jl_credit (account_lines start stop s (acc_id a)))
           - sum_list (map jl_debit (account_lines start stop s (acc_id a))) else 0) (accounts s))"

definition unclosed_result :: "date \<Rightarrow> 'a accounting_db_scheme \<Rightarrow> rat" where
  "unclosed_result as_of s = net_result (1970, 1, 1) as_of s
     - (case period_for_date as_of s of None \<Rightarrow> 0 | Some p \<Rightarrow> net_result (fp_start_date p) as_of s)"

lemma net_of_result:
  assumes "ledger_ok s" and "repo_trial_balance code_key start stop s = Inr rows"
  shows "net_of REVENUE rows + net_of EXPENSE rows = - net_result start stop s"
  unfolding net_of_sort[OF assms] net_result_def uminus_sum_list_map sum_list_addf[symmetric]
  by (intro arg_cong[where f = sum_list] map_cong) auto

text \<open>
  C16. The accounting equation. The balance sheet of a reachable ledger satisfies assets = liabilities + equity + current
  earnings + the result of revenue and expense postings before the fiscal period of the date that were not closed to
  equity. So it balances exactly when the earlier years are closed (by entries that bring their revenue and expense
  accounts to zero together), and always in the first fiscal year.
\<close>

theorem balance_sheet_equation:
  assumes "accounting_reachable s"
    and "balance_sheet code_key as_of s = (Inr (assets, liabilities, equity, earnings), s')"
  shows "sum_list (map snd assets) = sum_list (map snd liabilities) + sum_list (map snd equity) + earnings + unclosed_result as_of s'"
proof -
  have "wp (balance_sheet code_key as_of) (\<lambda>(A, L, E, earn) t. t = s' \<longrightarrow>
      sum_list (map snd A) = sum_list (map snd L) + sum_list (map snd E) + earn + unclosed_result as_of s') s"
  proof (rule wp_balance_sheet[OF accounting_reachable_ok[OF assms(1)]], clarsimp)
    fix cum ear t
    assume ok: "ledger_ok s'" and cum: "repo_trial_balance code_key (1970, 1, 1) as_of s' = Inr cum"
      and ear: "case period_for_date as_of s' of None \<Rightarrow> ear = []
              | Some p \<Rightarrow> repo_trial_balance code_key (fp_start_date p) as_of s' = Inr ear"
    have "net_of REVENUE ear + net_of EXPENSE ear
        = - (case period_for_date as_of s' of None \<Rightarrow> 0 | Some p \<Rightarrow> net_result (fp_start_date p) as_of s')"
      using ear net_of_result[OF ok] by (auto split: option.splits)
    moreover have "0 = net_of ASSET cum + net_of LIABILITY cum + net_of EQUITY cum + net_of REVENUE cum + net_of EXPENSE cum"
      using net_by_type[of cum] trial_balance_sums[OF ok cum] window_balanced[OF ok] by simp
    ultimately show "sum_list (map (snd \<circ> debit_side) (of_type ASSET cum)) =
        sum_list (map (snd \<circ> credit_side) (of_type LIABILITY cum)) + sum_list (map (snd \<circ> credit_side) (of_type EQUITY cum))
        + (sum_list (map (snd \<circ> credit_side) (of_type REVENUE ear)) - sum_list (map (snd \<circ> debit_side) (of_type EXPENSE ear)))
        + unclosed_result as_of s'"
      using net_of_result[OF ok cum] by (simp add: unclosed_result_def credit_side_net flip: net_of_def)
  qed
  from wpD[OF this assms(2)] show ?thesis by simp
qed

text \<open>
  The columns round each line and the total of the entry to four places. The trigger compares the rounded rows, the
  application the unrounded lines.
\<close>

definition trigger_accepts :: "PostingLine list \<Rightarrow> bool" where
  "trigger_accepts lines \<longleftrightarrow> sum_list (map (\<lambda>l. Money (pl_debit l)) lines) = Money (total_debit lines)
     \<and> sum_list (map (\<lambda>l. Money (pl_credit l)) lines) = Money (total_debit lines) \<and> Money (total_debit lines) \<noteq> 0"

definition four_places :: "PostingLine list \<Rightarrow> bool" where
  "four_places lines \<longleftrightarrow> (\<forall>l \<in> set lines. on_grid 4 (pl_debit l) \<and> on_grid 4 (pl_credit l))"

lemma four_places_accepted:
  assumes "four_places lines" and "total_debit lines = total_credit lines" and "total_debit lines \<noteq> 0"
  shows "trigger_accepts lines"
proof -
  have "on_grid 4 (total_debit lines)"
    unfolding total_debit_def using assms(1) by (auto simp: four_places_def intro: on_grid_sum_list)
  then have m: "Money (total_debit lines) = total_debit lines" by (simp add: Money_fixed)
  have "sum_list (map (\<lambda>l. Money (pl_debit l)) lines) = total_debit lines"
    "sum_list (map (\<lambda>l. Money (pl_credit l)) lines) = total_credit lines"
    using assms(1) unfolding total_debit_def total_credit_def
    by (auto simp: four_places_def Money_fixed intro!: arg_cong[where f = sum_list] map_cong)
  then show ?thesis using assms(2,3) m by (simp add: trigger_accepts_def)
qed

lemma one_amount_accepted: "Money x \<noteq> 0 \<Longrightarrow> trigger_accepts [debit_line c x, credit_line d x]"
  by (simp add: trigger_accepts_def debit_line_def credit_line_def total_debit_def Money_fixed on_grid_def)

lemma posted_trigger:
  assumes inv: "journal_inv s" and p: "posted context allow_closed lines e new s s'"
    and old: "list_all (entry_balanced s) (journal_entries s)"
  shows "list_all (entry_balanced s') (journal_entries s') \<longleftrightarrow> trigger_accepts lines"
    and "map line_amounts new = map stored_amounts lines"
proof -
  have rows: "list_all2 (\<lambda>l r. line_amounts r = stored_amounts l) lines new"
    using p unfolding posted_def by (elim conjE list_all2_mono) simp
  then show eq: "map line_amounts new = map stored_amounts lines"
    by (induction rule: list_all2_induct) simp_all
  have sums: "map jl_debit new = map (\<lambda>l. Money (pl_debit l)) lines" "map jl_credit new = map (\<lambda>l. Money (pl_credit l)) lines"
    using arg_cong[OF eq, of "map fst"] arg_cong[OF eq, of "map snd"]
    by (simp_all add: o_def line_amounts_def stored_amounts_def)
  have "entry_balanced s' (e\<lparr>je_total_debit := Money (total_debit lines), je_total_credit := Money (total_credit lines)\<rparr>)
      \<longleftrightarrow> trigger_accepts lines"
    using p posted_lines_of(1)[OF inv p] by (auto simp: entry_balanced_def Let_def posted_def trigger_accepts_def sums)
  moreover have "entry_balanced s' e'" if "e' \<in> set (journal_entries s)" for e'
    using old that posted_lines_of(2)[OF inv p that] by (simp add: list_all_iff entry_balanced_def)
  ultimately show "list_all (entry_balanced s') (journal_entries s') \<longleftrightarrow> trigger_accepts lines"
    using p by (auto simp: posted_def list_all_iff)
qed

text \<open>
  C14. The application's balance check against the one of the database. A successful posting to a reachable ledger, of
  lines of any precision and to the system accounts or to accounts given by the caller (manual entries and reversals),
  stores each line rounded to four places and touches no other entry; the deferred trigger accepts the result exactly
  when the rounded lines still add up to the rounded total. It always does for amounts of four places, the amounts of
  all documents and payments, and for the two lines of one cost of any precision (cost of goods, goods receipts) that
  does not round to zero.
\<close>

theorem post_satisfies_balance_trigger:
  assumes "accounting_reachable s"
    and "post accounting_flush_chk context d description source_type source_id event_type lines allow_closed metadata account_map s
           = (Inr e, s')"
    and "\<And>m. account_map = Some m \<Longrightarrow> snd ` set m \<subseteq> set (accounts s)"
  shows "map (\<lambda>l. (jl_debit l, jl_credit l)) (lines_of (je_id e) s') = map (\<lambda>l. (Money (pl_debit l), Money (pl_credit l))) lines
       \<and> list_all (\<lambda>e'. lines_of (je_id e') s' = lines_of (je_id e') s) (journal_entries s)
       \<and> (list_all (entry_balanced s') (journal_entries s') \<longleftrightarrow> trigger_accepts lines)
       \<and> (four_places lines \<longrightarrow> trigger_accepts lines)
       \<and> (\<forall>c c' x. lines = [debit_line c x, credit_line c' x] \<and> Money x \<noteq> 0 \<longrightarrow> trigger_accepts lines)"
proof -
  note ok = accounting_reachable_ok[OF assms(1)]
  then have inv: "journal_inv s" by (simp add: ledger_ok_def)
  have "wp (post accounting_flush_chk context d description source_type source_id event_type lines allow_closed metadata account_map)
      (\<lambda>e s'. \<exists>new. posted context allow_closed lines e new s s') s"
    by (rule accounting_check.wp_post) (use assms(3) in auto)
  from wpD[OF this assms(2)] obtain new where p: "posted context allow_closed lines e new s s'" by blast
  have total: "total_debit lines = total_credit lines" "total_debit lines \<noteq> 0" using p by (simp_all add: posted_def)
  show ?thesis
    using posted_lines_of[OF inv p] posted_trigger[OF inv p] ok four_places_accepted[OF _ total] one_amount_accepted
    by (auto simp: list_all_iff ledger_ok_def line_amounts_def[abs_def] stored_amounts_def[abs_def])
qed

text \<open>
  C15. Closed books stay closed. A posting that succeeds, of a document, a manual entry or a reversal, is recorded in the
  fiscal period that contains its date; that period is not locked, and it is closed only if the caller allowed it (manual
  entries and reversals do) and holds \<^verbatim>\<open>accounting.post_closed\<close>. A period that covered the date before is the one used.
\<close>

theorem post_respects_periods:
  assumes "post accounting_flush_chk context d description source_type source_id event_type lines allow_closed metadata account_map s
             = (Inr e, s')"
  shows "\<exists>p. period_for_date d s' = Some p \<and> je_fiscal_period_id e = fp_id p \<and> fp_start_date p \<le> d \<and> d \<le> fp_end_date p
           \<and> fp_status p \<noteq> LOCKED
           \<and> (fp_status p = CLOSED \<longrightarrow> allow_closed \<and> ACCOUNTING_POST_CLOSED \<in> permissions context)
           \<and> (\<forall>q. period_for_date d s = Some q \<longrightarrow> q = p)"
  using wpD[OF accounting_check.wp_post_period assms]
  by (auto simp: period_open_for_def period_for_date_def find_append split: option.splits)

text \<open>
  The life cycle of a fiscal period: a status change succeeds exactly along OPEN, CLOSED, LOCKED, one
  step at a time and never back, touches no other period, and every other request is refused without a
  change to the database.
\<close>

theorem period_lifecycle:
  assumes "find (\<lambda>p. fp_id p = i) (fiscal_periods s) = Some p"
    and "change_period_status context i status s = (r, s')"
  shows "((\<exists>p'. r = Inr p') \<longrightarrow>
            (fp_status p = OPEN \<and> status = CLOSED \<or> fp_status p = CLOSED \<and> status = LOCKED)
            \<and> r = Inr (p\<lparr>fp_status := status\<rparr>)
            \<and> find (\<lambda>p. fp_id p = i) (fiscal_periods s') = Some (p\<lparr>fp_status := status\<rparr>)
            \<and> (\<forall>j. j \<noteq> i \<longrightarrow> find (\<lambda>p. fp_id p = j) (fiscal_periods s') = find (\<lambda>p. fp_id p = j) (fiscal_periods s)))
       \<and> (legal_status (fp_status p) \<noteq> Some status \<longrightarrow> r = Inl (ConflictError ''ILLEGAL_STATUS_TRANSITION''))
       \<and> ((\<exists>e. r = Inl e) \<longrightarrow> s' = s)"
proof -
  have a: "(\<exists>e. r = Inl e) \<longrightarrow> s' = s"
    using assms(2) atomicD[OF atomic_accounting(4)] by metis
  have illegal: "legal_status (fp_status p) \<noteq> Some status \<longrightarrow> r = Inl (ConflictError ''ILLEGAL_STATUS_TRANSITION'')"
    using assms by (auto simp: change_period_status_def run_simps)
  have same: "find (\<lambda>p. fp_id p = j) (upd_where (\<lambda>p. fp_id p = i) (\<lambda>p. p\<lparr>fp_status := status\<rparr>) ps)
      = map_option (\<lambda>p. if fp_id p = i then p\<lparr>fp_status := status\<rparr> else p) (find (\<lambda>p. fp_id p = j) ps)" for j ps
    by (rule find_upd_where) simp
  have other: "map_option (\<lambda>p. if fp_id p = i then p\<lparr>fp_status := status\<rparr> else p) (find (\<lambda>p. fp_id p = j) ps)
      = find (\<lambda>p. fp_id p = j) ps" if "j \<noteq> i" for j ps
    using that find_SomeD by (cases "find (\<lambda>p. fp_id p = j) ps") fastforce+
  have id: "fp_id p = i" using find_SomeD[OF assms(1)] by simp
  have "wp (change_period_status context i status) (\<lambda>r s'. legal_status (fp_status p) = Some status
      \<and> r = p\<lparr>fp_status := status\<rparr> \<and> find (\<lambda>p. fp_id p = i) (fiscal_periods s') = Some (p\<lparr>fp_status := status\<rparr>)
      \<and> (\<forall>j. j \<noteq> i \<longrightarrow> find (\<lambda>p. fp_id p = j) (fiscal_periods s') = find (\<lambda>p. fp_id p = j) (fiscal_periods s))) s"
    using assms(1) id by (simp add: change_period_status_def wp_simps same other)
  with assms(2) a illegal show ?thesis
    by (auto simp: wp_def legal_status_def split: period_status.splits)
qed


section \<open>Reversal\<close>

text \<open>The effect of an entry on an account: the sum of its debits less its credits there.\<close>

definition entry_effect :: "uuid \<Rightarrow> uuid \<Rightarrow> 'a accounting_db_scheme \<Rightarrow> rat" where
  "entry_effect entry_id account_id s =
     sum_list (map (\<lambda>l. if jl_account_id l = account_id then jl_debit l - jl_credit l else 0) (lines_of entry_id s))"

lemma map_of_account_codes: "map_of (account_codes tag as) (manual_code tag i) = Some a \<Longrightarrow> acc_id a = i"
  using inj_str_nat by (induction as) (auto simp: account_codes_def manual_code_def inj_eq split: if_splits)

lemma reversal_lines_effect:
  assumes "lines_written i (map_of (account_codes ''REV'' as)) (map (reversal_line original) old) new"
    and "\<And>l. l \<in> set old \<Longrightarrow> on_grid 4 (jl_debit l) \<and> on_grid 4 (jl_credit l)"
  shows "sum_list (map (\<lambda>l. if jl_account_id l = a then jl_debit l - jl_credit l else 0) new)
       = - sum_list (map (\<lambda>l. if jl_account_id l = a then jl_debit l - jl_credit l else 0) old)"
proof -
  have "list_all2 (\<lambda>l r. line_amounts r = (Money (jl_credit l), Money (jl_debit l)) \<and> jl_account_id r = jl_account_id l) old new"
    using assms(1) unfolding lines_written_def list_all2_map1
    by (rule list_all2_mono) (auto simp: reversal_line_def stored_amounts_def dest: map_of_account_codes)
  then show ?thesis using assms(2)
    by (induction rule: list_all2_induct) (auto simp: line_amounts_def Money_fixed)
qed

lemma find_entry_update:
  assumes "\<And>e. je_id (f e) = je_id e"
  shows "find (\<lambda>e. je_id e = i) (upd_where (\<lambda>e. je_id e = j) f es)
       = (if i = j then map_option f else id) (find (\<lambda>e. je_id e = i) es)"
proof -
  have "find (\<lambda>e. je_id e = i) (upd_where (\<lambda>e. je_id e = j) f es)
      = map_option (\<lambda>e. if je_id e = j then f e else e) (find (\<lambda>e. je_id e = i) es)"
    by (rule find_upd_where) (simp add: assms)
  also have "\<dots> = (if i = j then map_option f else id) (find (\<lambda>e. je_id e = i) es)"
    using find_SomeD by (cases "find (\<lambda>e. je_id e = i) es") fastforce+
  finally show ?thesis .
qed

definition reversed_by :: "journal_entry \<Rightarrow> journal_entry \<Rightarrow> 'a accounting_db_scheme \<Rightarrow> bool" where
  "reversed_by original reversal s' \<longleftrightarrow>
     je_reversal_of_entry_id reversal = Some (je_id original)
     \<and> repo_entry (je_id original) s' = Some (original\<lparr>je_reversed_by_entry_id := Some (je_id reversal)\<rparr>)
     \<and> (\<forall>a. entry_effect (je_id original) a s' + entry_effect (je_id reversal) a s' = 0)"

lemma posted_reversal:
  assumes ok: "ledger_ok s" and o: "repo_entry i s = Some original"
    and p: "posted context True (map (reversal_line original) (repo_lines (je_id original) s)) e new s s'"
    and w: "account_codes ''REV'' (accounts s) \<noteq> [] \<Longrightarrow>
      lines_written (je_id e) (map_of (account_codes ''REV'' (accounts s)))
        (map (reversal_line original) (repo_lines (je_id original) s)) new"
  shows "entry_effect (je_id original) a s' + entry_effect (je_id e) a s' = 0" and "je_id original \<noteq> je_id e"
    and "repo_entry (je_id original) s' = Some original"
proof -
  let ?f = "\<lambda>l. if jl_account_id l = a then jl_debit l - jl_credit l else 0"
  have inv: "journal_inv s" using ok by (simp add: ledger_ok_def)
  have m: "original \<in> set (journal_entries s)" "je_id original = i"
    using find_SomeD[OF o[unfolded repo_entry_def]] by simp_all
  have lines: "set (repo_lines (je_id original) s) \<subseteq> set (journal_entry_lines s)"
    by (auto simp: repo_lines_def lines_of_def)
  have "repo_lines (je_id original) s \<noteq> []" using p by (auto simp: posted_def)
  then obtain l where "l \<in> set (journal_entry_lines s)" using lines by (cases "repo_lines (je_id original) s") auto
  with inv have "accounts s \<noteq> []" by (auto simp: journal_inv_def)
  then have "sum_list (map ?f new) = - sum_list (map ?f (repo_lines (je_id original) s))"
    using lines inv by (intro reversal_lines_effect[OF w]) (auto simp: account_codes_def journal_inv_def)
  then show "entry_effect (je_id original) a s' + entry_effect (je_id e) a s' = 0"
    by (simp add: entry_effect_def posted_lines_of[OF inv p] posted_lines_of(2)[OF inv p m(1)] repo_lines_def sum_list_sort_key)
  have "je_id e \<notin> je_id ` set (journal_entries s)" using p by (simp add: posted_def)
  with m(1) show "je_id original \<noteq> je_id e" by (metis imageI)
  show "repo_entry (je_id original) s' = Some original"
    using p o m(2) by (simp add: posted_def repo_entry_def find_append)
qed

lemma wp_reverse_entry:
  assumes "ledger_ok s"
  shows "wp (reverse_entry context i d)
           (\<lambda>r s'. \<exists>original. repo_entry i s = Some original \<and> je_reversed_by_entry_id original = None
                  \<and> je_entry_date original \<le> d \<and> reversed_by original r s') s"
  unfolding reverse_entry_def wp_service_transaction
  apply (simp only: wp_bnd wp_gets wp_some_or wp_require)
  apply (intro impI allI accounting_check.wp_post)
   apply (force simp: account_codes_def)
  subgoal premises p for original e new s'
  proof -
    have "je_id original = i" using find_SomeD[OF p(1)[unfolded repo_entry_def]] by simp
    moreover have w: "lines_written (je_id e) (map_of (account_codes ''REV'' (accounts s)))
        (map (reversal_line original) (repo_lines (je_id original) s)) new" if "account_codes ''REV'' (accounts s) \<noteq> []"
      using p that by simp
    note r = posted_reversal[OF assms p(1) p(4) w]
    ultimately show ?thesis
      using p r by (auto simp: wp_simps update_entry_def reversed_by_def repo_entry_def find_entry_update entry_effect_def lines_of_def)
  qed
  done

text \<open>
  C13. Reversal. When a reversal of an entry of a reachable ledger succeeds, the original had not been
  reversed and is not dated after its reversal, the two point at each other, their combined effect on
  every account is zero, and a second reversal is refused with \<open>ENTRY_ALREADY_REVERSED\<close>, whoever asks and
  whatever the date, without a change to the database.
\<close>

theorem reversal_cancels:
  assumes "accounting_reachable s" and "reverse_entry context i d s = (Inr r, s')"
  shows "(\<exists>original. repo_entry i s = Some original \<and> je_reversed_by_entry_id original = None \<and> je_entry_date original \<le> d
            \<and> repo_entry i s' = Some (original\<lparr>je_reversed_by_entry_id := Some (je_id r)\<rparr>))
       \<and> je_reversal_of_entry_id r = Some i
       \<and> (\<forall>a. entry_effect i a s' + entry_effect (je_id r) a s' = 0)
       \<and> (\<forall>context' d'. reverse_entry context' i d' s' = (Inl (ConflictError ''ENTRY_ALREADY_REVERSED''), s'))"
proof -
  from wpD[OF wp_reverse_entry[OF accounting_reachable_ok[OF assms(1)]] assms(2)]
  obtain original where o: "repo_entry i s = Some original" "je_reversed_by_entry_id original = None"
    "je_entry_date original \<le> d" "reversed_by original r s'" by blast
  have "je_id original = i" using find_SomeD[OF o(1)[unfolded repo_entry_def]] by simp
  with o show ?thesis by (simp add: reversed_by_def reverse_entry_def run_simps)
qed


section \<open>Bootstrapping twice\<close>

definition code_known :: "'a accounting_db_scheme \<Rightarrow> string \<Rightarrow> bool" where
  "code_known s code \<longleftrightarrow> code \<in> acc_code ` set (accounts s)"

lemma existing_codes_iff: "existing_codes s code \<noteq> None \<longleftrightarrow> code_known s code"
  by (auto simp: existing_codes_def code_known_def find_None_iff)

lemma wp_bootstrap_accounts_known:
  "wp (for_acc (bootstrap_account (existing_codes s)) parents ds)
      (\<lambda>_ t. (\<forall>d \<in> set ds. code_known t (fst d)) \<and> journals t = journals s) s"
proof -
  have "wp (for_acc (bootstrap_account (existing_codes s)) parents ds)
      ((\<lambda>done _ t. (\<forall>d \<in> set done. code_known t (fst d)) \<and> journals t = journals s \<and> set (accounts s) \<subseteq> set (accounts t)) ds) s"
  proof (rule wp_for_acc_prefix)
    fix "done" rest :: "(string \<times> string \<times> account_type \<times> string option \<times> bool \<times> string option) list" and d acc t
    assume t: "(\<forall>d \<in> set done. code_known t (fst d)) \<and> journals t = journals s \<and> set (accounts s) \<subseteq> set (accounts t)"
    have "code_known t c" if "existing_codes s c = Some i" for c i
      using that t existing_codes_iff[of s c] by (auto simp: code_known_def)
    with t show "wp (bootstrap_account (existing_codes s) acc d)
        (\<lambda>_ t. (\<forall>d \<in> set (done @ [d]). code_known t (fst d)) \<and> journals t = journals s \<and> set (accounts s) \<subseteq> set (accounts t)) t"
      by (cases d) (auto simp: bootstrap_account_def wp_simps code_known_def)
  qed auto
  then show ?thesis by (rule wp_mono) simp
qed

lemma bootstrap_accounts_skip:
  "\<forall>d \<in> set ds. existing (fst d) \<noteq> None \<Longrightarrow> for_acc (bootstrap_account existing) parents ds s = (Inr parents, s)"
  by (induction ds) (auto simp: bootstrap_account_def ret_def bnd_def)

lemma bootstrap_skip:
  assumes "\<forall>d \<in> set DEFAULT_ACCOUNTS. code_known s (fst d)" and "repo_journal s \<noteq> None" and "chk s = None"
  shows "bootstrap chk s = (Inr (), s)"
proof -
  have "for_acc (bootstrap_account (existing_codes s)) (existing_codes s) DEFAULT_ACCOUNTS s = (Inr (existing_codes s), s)"
    using assms(1) by (intro bootstrap_accounts_skip) (simp only: existing_codes_iff)
  with assms(2,3) show ?thesis by (auto simp: bootstrap_def bnd_def gets_def run_if_def ret_def flush_def)
qed

text \<open>
  Bootstrapping is idempotent. After a successful bootstrap the default accounts and the general
  journal exist and a second bootstrap changes nothing at all; the fiscal period that the first one adds
  for a tenant without a journal contains the day it ran.
\<close>

theorem bootstrap_idempotent:
  assumes "bootstrap accounting_flush_chk s = (Inr (), s')"
  shows "bootstrap accounting_flush_chk s' = (Inr (), s')
       \<and> (\<forall>d \<in> set DEFAULT_ACCOUNTS. fst d \<in> acc_code ` set (accounts s'))
       \<and> (repo_journal s = None \<longrightarrow> 1 \<le> fiscal_year_start_month s \<longrightarrow> fiscal_year_start_month s \<le> 12 \<longrightarrow>
            (\<exists>p. fiscal_periods s' = fiscal_periods s @ [p] \<and> fp_status p = OPEN
                \<and> fp_start_date p \<le> utc_date (clock s (clock_count s)) \<and> utc_date (clock s (clock_count s)) \<le> fp_end_date p))"
proof -
  let ?today = "utc_date (clock s (clock_count s))"
  let ?Q = "\<lambda>s'. (\<forall>d \<in> set DEFAULT_ACCOUNTS. code_known s' (fst d)) \<and> repo_journal s' \<noteq> None \<and> accounting_flush_chk s' = None
     \<and> (repo_journal s = None \<longrightarrow> 1 \<le> fiscal_year_start_month s \<longrightarrow> fiscal_year_start_month s \<le> 12 \<longrightarrow>
            (\<exists>p. fiscal_periods s' = fiscal_periods s @ [p] \<and> fp_status p = OPEN \<and> fp_start_date p \<le> ?today \<and> ?today \<le> fp_end_date p))"
  have step: "wp (run_if (repo_journal t = None) bootstrap_journal) (\<lambda>_ s'. accounting_flush_chk s' = None \<longrightarrow> ?Q s') t"
    if t: "t = s\<lparr>uuid_count := n, accounts := as\<rparr>" "\<forall>d \<in> set DEFAULT_ACCOUNTS. code_known t (fst d)" for t n as
  proof (cases "repo_journal t = None")
    case True
    obtain y e start stop where fy: "fiscal_year (fiscal_year_start_month s) ?today = (y, e, start, stop)"
      by (cases "fiscal_year (fiscal_year_start_month s) ?today")
    from True t(2) show ?thesis
      using fiscal_year_contains(1,2)[OF utc_date_valid _ _ fy]
      by (simp add: bootstrap_journal_def wp_simps t(1) fy code_known_def repo_journal_def find_append)
  next
    case False
    with t(2) show ?thesis by (auto simp: t(1) wp_simps code_known_def repo_journal_def)
  qed
  have "wp (for_acc (bootstrap_account (existing_codes s)) (existing_codes s) DEFAULT_ACCOUNTS)
      (\<lambda>_ t. (\<exists>n as. t = s\<lparr>uuid_count := n, accounts := as\<rparr>) \<and> (\<forall>d \<in> set DEFAULT_ACCOUNTS. code_known t (fst d))) s"
    unfolding wp_conj
    by (intro conjI wp_bootstrap_accounts wp_mono[OF wp_bootstrap_accounts_known]) auto
  then have "wp (bootstrap accounting_flush_chk) (\<lambda>_. ?Q) s"
    unfolding bootstrap_def wp_bnd wp_gets
    by (rule wp_mono) (use step in \<open>auto simp: wp_flush\<close>)
  from wpD[OF this assms] have q: "?Q s'" .
  then show ?thesis using bootstrap_skip[of s' accounting_flush_chk] by (simp add: code_known_def)
qed


section \<open>An example ledger\<close>

text \<open>A small concrete ledger with the default chart and one open period, in a form that runs quickly.\<close>

definition example_accounts :: "account list" where
  "example_accounts =
     map (\<lambda>(i, code, name, kind, parent, postable, system).
            \<lparr>acc_id = i, acc_code = code, acc_name = name, acc_account_type = kind, acc_parent_id = None,
             acc_is_postable = postable, acc_is_system = (system \<noteq> None), acc_system_code = system,
             acc_currency = ''BDT'', acc_is_active = True\<rparr>)
       (zip [10 ..< 34] DEFAULT_ACCOUNTS)"

definition books ::
  "nat \<Rightarrow> nat \<Rightarrow> document_sequence list \<Rightarrow> audit_event list \<Rightarrow> journal_entry list \<Rightarrow> journal_entry_line list \<Rightarrow> accounting_db"
where
  "books n k ds ev es ls =
     \<lparr>uuid_gen = (\<lambda>n. 100 + n), uuid_count = n, clock = (\<lambda>n. 0), clock_count = k, request_id = None,
      document_sequences = ds, idempotency_keys = [], audit_events = ev, units = [], products = [], warehouses = [],
      allow_negative_inventory = False, movements = [], balances = [], reservations = [], transfers = [],
      transfer_lines = [], adjustments = [], base_currency = ''BDT'', fiscal_year_start_month = 1,
      accounts = example_accounts, journals = [\<lparr>jr_id = 50, jr_code = ''GENERAL''\<rparr>],
      fiscal_periods = [\<lparr>fp_id = 51, fp_name = ''FY 2026/2026'', fp_start_date = (2026, 1, 1), fp_end_date = (2026, 12, 31),
                         fp_status = OPEN\<rparr>],
      journal_entries = es, journal_entry_lines = ls\<rparr>"

lemma books_simps [simp]:
  "uuid_gen (books n k ds ev es ls) = (\<lambda>n. 100 + n)" "uuid_count (books n k ds ev es ls) = n"
  "clock (books n k ds ev es ls) = (\<lambda>n. 0)" "clock_count (books n k ds ev es ls) = k" "request_id (books n k ds ev es ls) = None"
  "document_sequences (books n k ds ev es ls) = ds" "audit_events (books n k ds ev es ls) = ev"
  "base_currency (books n k ds ev es ls) = ''BDT''" "accounts (books n k ds ev es ls) = example_accounts"
  "journals (books n k ds ev es ls) = [\<lparr>jr_id = 50, jr_code = ''GENERAL''\<rparr>]"
  "fiscal_periods (books n k ds ev es ls) =
     [\<lparr>fp_id = 51, fp_name = ''FY 2026/2026'', fp_start_date = (2026, 1, 1), fp_end_date = (2026, 12, 31), fp_status = OPEN\<rparr>]"
  "journal_entries (books n k ds ev es ls) = es" "journal_entry_lines (books n k ds ev es ls) = ls"
  "uuid_count_update fn (books n k ds ev es ls) = books (fn n) k ds ev es ls"
  "clock_count_update fn (books n k ds ev es ls) = books n (fn k) ds ev es ls"
  "document_sequences_update fd (books n k ds ev es ls) = books n k (fd ds) ev es ls"
  "audit_events_update fe (books n k ds ev es ls) = books n k ds (fe ev) es ls"
  "journal_entries_update fj (books n k ds ev es ls) = books n k ds ev (fj es) ls"
  "journal_entry_lines_update fl (books n k ds ev es ls) = books n k ds ev es (fl ls)"
  by (simp_all add: books_def)

lemma example_accounts_unique:
  "unique_on acc_id example_accounts" "unique_on acc_code example_accounts"
  "unique_where acc_system_code (\<lambda>a. acc_system_code a \<noteq> None) example_accounts"
  "unique_where acc_system_code (\<lambda>a. \<exists>y. acc_system_code a = Some y) example_accounts"
  by (simp_all add: example_accounts_def DEFAULT_ACCOUNTS_def unique_where_def)

definition books_constraints :: "document_sequence list \<Rightarrow> journal_entry list \<Rightarrow> journal_entry_line list \<Rightarrow> bool" where
  "books_constraints ds es ls \<longleftrightarrow>
     unique_on (\<lambda>d. (ds_series d, ds_period d)) ds \<and> list_all (\<lambda>d. 1 \<le> ds_next_value d) ds
     \<and> unique_on je_id es \<and> unique_on je_entry_number es
     \<and> unique_on (\<lambda>e. (je_source_type e, je_source_id e, je_event_type e)) es
     \<and> list_all (\<lambda>e. 0 \<le> je_total_debit e \<and> 0 \<le> je_total_credit e) es
     \<and> list_all (\<lambda>e. in_range 14 (je_total_debit e) \<and> in_range 14 (je_total_credit e)) es
     \<and> unique_on jl_id ls
     \<and> list_all (\<lambda>l. (jl_debit l > 0 \<and> jl_credit l = 0) \<or> (jl_credit l > 0 \<and> jl_debit l = 0)) ls"

lemma books_chk:
  "books_constraints ds es ls \<Longrightarrow> accounting_flush_chk (books n k ds ev es ls) = None"
  "books_constraints ds es ls \<Longrightarrow> list_all (entry_balanced (books n k ds ev es ls)) es \<Longrightarrow>
     accounting_chk (books n k ds ev es ls) = None"
  by (simp_all add: accounting_flush_chk_def accounting_chk_def accounting_constraints_def balance_trigger_def
      example_accounts_unique books_constraints_def no_overlap_def)
    (simp_all add: books_def base_constraints_def inventory_constraints_def unique_where_def)

lemma books_bootstrap:
  "books_constraints ds es ls \<Longrightarrow> bootstrap accounting_flush_chk (books n k ds ev es ls) = (Inr (), books n k ds ev es ls)"
  by (rule bootstrap_skip)
    (simp_all add: books_chk code_known_def example_accounts_def DEFAULT_ACCOUNTS_def repo_journal_def)

lemma books_reachable: "accounting_reachable (books n k ds ev [] [])"
  by (rule accounting_reachable.init) (simp_all add: example_accounts_unique)

lemma document_number_eq: "document_number p y m = document_number p y n \<longleftrightarrow> m = n"
  using inj_document_number[of p y] by (simp add: inj_eq)

lemma document_number_pending:
  "document_number ''JE'' y n \<noteq> CHR ''P'' # x" "CHR ''P'' # x \<noteq> document_number ''JE'' y n"
  by (simp_all add: document_number_def)

definition example_capital :: ManualEntryCreate where
  "example_capital = \<lparr>me_entry_date = (2026, 3, 1), me_description = ''Capital paid in'',
     me_lines = [\<lparr>ml_account_id = 12, ml_description = None, ml_debit = 500, ml_credit = 0\<rparr>,
                 \<lparr>ml_account_id = 24, ml_description = None, ml_debit = 0, ml_credit = 500\<rparr>]\<rparr>"

lemmas books_run_simps = base_run_simps Let_def repo_journal_def period_for_date_def posting_period_def posting_accounts_def
  system_account_def record_entry_def write_entry_def add_entry_line_def update_entry_def allocate_def upsert_sequence_def
  same_series_def SERIES_def entry_balanced_def lines_of_def total_debit_def total_credit_def post_def in_range_def
  books_chk books_bootstrap books_constraints_def example_accounts_def DEFAULT_ACCOUNTS_def manual_code_def account_codes_def
  str_nat.simps digit_char_def document_number_eq document_number_pending

definition example_booked :: accounting_db where
  "example_booked = books 7 3
     [\<lparr>ds_series = ''journal'', ds_period = ''2026'', ds_next_value = 2, ds_prefix = ''JE''\<rparr>]
     [\<lparr>ae_actor_user_id = Some 2, ae_actor_membership_id = Some 1, ae_action = ''accounting.entry_posted'',
       ae_resource_type = ''journal_entry'', ae_resource_id = Some 103, ae_request_id = None,
       ae_metadata = [(''event_type'', MStr ''manual'')]\<rparr>]
     [\<lparr>je_id = 103, je_entry_number = document_number ''JE'' ''2026'' 1, je_journal_id = 50, je_fiscal_period_id = 51,
       je_entry_date = (2026, 3, 1), je_status = POSTED, je_description = ''Capital paid in'', je_source_type = ''manual'',
       je_source_id = 102, je_event_type = ''manual'', je_currency = ''BDT'', je_total_debit = 500, je_total_credit = 500,
       je_posted_at = 0, je_posted_by_membership_id = 1, je_reversal_of_entry_id = None, je_reversed_by_entry_id = None,
       je_metadata = []\<rparr>]
     [\<lparr>jl_id = 105, jl_journal_entry_id = 103, jl_account_id = 12, jl_description = None, jl_debit = 500, jl_credit = 0\<rparr>,
      \<lparr>jl_id = 106, jl_journal_entry_id = 103, jl_account_id = 24, jl_description = None, jl_debit = 0, jl_credit = 500\<rparr>]"

lemma example_manual_runs: "snd (post_manual example_context example_capital (books 2 2 [] [] [] [])) = example_booked"
  by (simp add: books_run_simps post_manual_def example_capital_def example_context_def example_booked_def)

lemma example_booked_reachable: "accounting_reachable example_booked"
  using accounting_reachable.post_manual[OF books_reachable] unfolding example_manual_runs[symmetric] by blast

theorem trial_balance_balances_witness:
  "\<exists>rows. fst (trial_balance (\<lambda>_. 0) (2026, 1, 1) (2026, 12, 31) example_booked) = Inr rows
     \<and> map (\<lambda>(a, d, c). (acc_name a, d, c)) rows = [(''Cash on Hand'', 500, 0), (''Owner's Capital'', 0, 500)]
     \<and> sum_list (map (\<lambda>(a, d, c). d) rows) = sum_list (map (\<lambda>(a, d, c). c) rows)"
proof -
  obtain rows s' where run: "trial_balance (\<lambda>_. 0) (2026, 1, 1) (2026, 12, 31) example_booked = (Inr rows, s')"
    and rows: "map (\<lambda>(a, d, c). (acc_name a, d, c)) rows = [(''Cash on Hand'', 500, 0), (''Owner's Capital'', 0, 500)]"
    by (simp add: trial_balance_def repo_trial_balance_def trial_balance_row_def account_lines_def posted_between_def
        round_money_eq sort_key_def example_booked_def books_run_simps)
  from trial_balance_balances[OF example_booked_reachable run] run rows show ?thesis by simp
qed


lemmas report_run_simps = repo_trial_balance_def trial_balance_row_def account_lines_def posted_between_def round_money_eq
  sort_key_def of_type_def debit_side_def credit_side_def

theorem balance_sheet_equation_witness:
  "\<exists>assets liabilities equity earnings.
     fst (balance_sheet (\<lambda>_. 0) (2026, 12, 31) example_booked) = Inr (assets, liabilities, equity, earnings)
     \<and> map snd assets = [500] \<and> map snd equity = [500] \<and> unclosed_result (2026, 12, 31) example_booked = 0
     \<and> sum_list (map snd assets) = sum_list (map snd liabilities) + sum_list (map snd equity) + earnings"
proof -
  obtain assets liabilities equity earnings where
    run: "balance_sheet (\<lambda>_. 0) (2026, 12, 31) example_booked = (Inr (assets, liabilities, equity, earnings), example_booked)"
    and rows: "map snd assets = [500]" "map snd equity = [500]"
    by (simp add: balance_sheet_def report_run_simps example_booked_def books_run_simps)
  have period: "period_for_date (2026, 12, 31) example_booked = Some
      \<lparr>fp_id = 51, fp_name = ''FY 2026/2026'', fp_start_date = (2026, 1, 1), fp_end_date = (2026, 12, 31), fp_status = OPEN\<rparr>"
    by (simp add: example_booked_def period_for_date_def)
  have "account_lines (1970, 1, 1) (2026, 12, 31) example_booked i = account_lines (2026, 1, 1) (2026, 12, 31) example_booked i" for i
    by (simp add: example_booked_def account_lines_def posted_between_def)
  then have "unclosed_result (2026, 12, 31) example_booked = 0" by (simp add: unclosed_result_def net_result_def period cong: if_cong)
  with balance_sheet_equation[OF example_booked_reachable run] run rows show ?thesis by simp
qed

definition example_lines :: "PostingLine list" where
  "example_lines = customer_payment 20 True"

lemma example_post_runs:
  "\<exists>e s'. post accounting_flush_chk example_context (2026, 4, 2) ''Payment'' ''sales_payment'' 77 ''customer_payment''
            example_lines False [] None example_booked = (Inr e, s')"
  by (simp add: books_run_simps example_booked_def example_context_def example_lines_def customer_payment_def debit_line_def
      credit_line_def)

theorem post_satisfies_balance_trigger_witness:
  "\<exists>e s'. post accounting_flush_chk example_context (2026, 4, 2) ''Payment'' ''sales_payment'' 77 ''customer_payment''
            example_lines False [] None example_booked = (Inr e, s')
     \<and> list_all (entry_balanced s') (journal_entries s')
     \<and> map (\<lambda>l. (jl_debit l, jl_credit l)) (lines_of (je_id e) s') = [(20, 0), (0, 20)]"
proof -
  obtain e s' where run: "post accounting_flush_chk example_context (2026, 4, 2) ''Payment'' ''sales_payment'' 77
      ''customer_payment'' example_lines False [] None example_booked = (Inr e, s')"
    using example_post_runs by blast
  have "four_places example_lines"
    by (auto simp: four_places_def example_lines_def customer_payment_def debit_line_def credit_line_def on_grid_def)
  with post_satisfies_balance_trigger[OF example_booked_reachable run] run show ?thesis
    by (simp add: example_lines_def customer_payment_def debit_line_def credit_line_def Money_fixed on_grid_def)
qed

theorem post_respects_periods_witness:
  "\<exists>e s' (p :: fiscal_period). post accounting_flush_chk example_context (2026, 4, 2) ''Payment'' ''sales_payment'' 77 ''customer_payment''
            example_lines False [] None example_booked = (Inr e, s') \<and> fp_start_date p \<le> (2026, 4, 2) \<and> fp_status p \<noteq> LOCKED
            \<and> je_fiscal_period_id e = fp_id p"
proof -
  obtain e s' where run: "post accounting_flush_chk example_context (2026, 4, 2) ''Payment'' ''sales_payment'' 77
      ''customer_payment'' example_lines False [] None example_booked = (Inr e, s')"
    using example_post_runs by blast
  from post_respects_periods[OF run] obtain p :: fiscal_period where "fp_start_date p \<le> (2026, 4, 2)" "fp_status p \<noteq> LOCKED"
    "je_fiscal_period_id e = fp_id p" by metis
  with run show ?thesis by metis
qed

theorem period_lifecycle_witness:
  "\<exists>p'. fst (change_period_status example_context 51 CLOSED example_booked) = Inr p' \<and> fp_status p' = CLOSED
     \<and> fst (change_period_status example_context 51 LOCKED example_booked)
         = Inl (ConflictError ''ILLEGAL_STATUS_TRANSITION'')"
proof -
  have p: "find (\<lambda>p. fp_id p = 51) (fiscal_periods example_booked) = Some
      \<lparr>fp_id = 51, fp_name = ''FY 2026/2026'', fp_start_date = (2026, 1, 1), fp_end_date = (2026, 12, 31), fp_status = OPEN\<rparr>"
    by (simp add: example_booked_def)
  obtain r s' where a: "change_period_status example_context 51 CLOSED example_booked = (r, s')" by fastforce
  obtain r' s'' where b: "change_period_status example_context 51 LOCKED example_booked = (r', s'')" by fastforce
  have "\<exists>p'. fst (change_period_status example_context 51 CLOSED example_booked) = Inr p'"
    by (simp add: change_period_status_def run_simps p legal_status_def audit_record_def add_audit_event_def)
       (simp add: example_booked_def books_def accounting_chk_def base_constraints_def inventory_constraints_def
          accounting_constraints_def balance_trigger_def example_accounts_unique[unfolded unique_where_def] unique_where_def
          no_overlap_def in_range_def entry_balanced_def lines_of_def Let_def violated_def)
  with period_lifecycle[OF p a] period_lifecycle[OF p b] a b show ?thesis
    by (auto simp: legal_status_def)
qed

theorem reversal_cancels_witness:
  "\<exists>r s'. reverse_entry example_context 103 (2026, 5, 1) example_booked = (Inr r, s')
     \<and> entry_effect 103 12 s' + entry_effect (je_id r) 12 s' = 0
     \<and> reverse_entry example_context 103 (2026, 6, 1) s' = (Inl (ConflictError ''ENTRY_ALREADY_REVERSED''), s')"
proof -
  obtain r s' where run: "reverse_entry example_context 103 (2026, 5, 1) example_booked = (Inr r, s')"
    by (simp add: reverse_entry_def repo_entry_def repo_lines_def sort_key_def reversal_line_def books_run_simps
        example_booked_def example_context_def)
  from reversal_cancels[OF example_booked_reachable run] run show ?thesis by blast
qed

theorem bootstrap_idempotent_witness:
  "bootstrap accounting_flush_chk example_booked = (Inr (), example_booked)
   \<and> ''1110'' \<in> acc_code ` set (accounts example_booked)"
proof -
  have run: "bootstrap accounting_flush_chk example_booked = (Inr (), example_booked)"
    by (simp add: example_booked_def books_bootstrap books_constraints_def in_range_def)
  from bootstrap_idempotent[OF run] show ?thesis by (simp add: DEFAULT_ACCOUNTS_def)
qed

end
