(* ===== verification/Vat_Register.thy ===== *)
theory Vat_Register
  imports Vat Stock_Invariant
begin

text \<open>
  Properties of the VAT register: grouping a document's lines by rate loses nothing, a filed return
  always equals the rows it claimed, and a row is claimed by one return only.
\<close>

section \<open>Grouping by rate\<close>

definition net_total :: "(rat \<times> rat \<times> rat) list \<Rightarrow> rat" where
  "net_total g = sum_list (map (\<lambda>(r, n, t). n) g)"

definition tax_total :: "(rat \<times> rat \<times> rat) list \<Rightarrow> rat" where
  "tax_total g = sum_list (map (\<lambda>(r, n, t). t) g)"

definition at_rate :: "rat \<Rightarrow> (rat \<times> rat \<times> rat) list \<Rightarrow> (rat \<times> rat \<times> rat) list" where
  "at_rate rate g = filter (\<lambda>(r, n, t). r = rate) g"

lemma totals_simps [simp]:
  "net_total [] = 0" "net_total ((r, n, t) # g) = n + net_total g"
  "tax_total [] = 0" "tax_total ((r, n, t) # g) = t + tax_total g"
  "at_rate rate [] = []" "at_rate rate ((r, n, t) # g) = (if r = rate then (r, n, t) # at_rate rate g else at_rate rate g)"
  by (simp_all add: net_total_def tax_total_def at_rate_def)

text \<open>Amounts of at most four places, non-negative, and small enough for the 28-digit context.\<close>

definition small_amounts :: "(rat \<times> rat \<times> rat) list \<Rightarrow> bool" where
  "small_amounts g \<longleftrightarrow> list_all (\<lambda>(r, n, t). on_grid 4 n \<and> on_grid 4 t \<and> 0 \<le> n \<and> 0 \<le> t) g
     \<and> net_total g < 10 ^ 24 \<and> tax_total g < 10 ^ 24"

lemma dec_add_small:
  "on_grid 4 x \<Longrightarrow> on_grid 4 y \<Longrightarrow> 0 \<le> x + y \<Longrightarrow> x + y < 10 ^ 24 \<Longrightarrow> dec_add x y = x + y"
  by (rule dec_add_exact[where k = 4]) simp_all

lemma nonneg_totals:
  "list_all (\<lambda>(r, n, t). on_grid 4 n \<and> on_grid 4 t \<and> 0 \<le> n \<and> 0 \<le> t) g \<Longrightarrow> 0 \<le> net_total g \<and> 0 \<le> tax_total g"
  by (induction g) auto

text \<open>One line moves into the bucket of its rate and nothing else changes.\<close>

lemma add_to_bucket_spec:
  assumes "distinct (map fst g)" and "small_amounts ((rate, net, tax) # g)"
  shows "distinct (map fst (add_to_bucket rate net tax g))
       \<and> set (map fst (add_to_bucket rate net tax g)) = insert rate (set (map fst g))
       \<and> (\<forall>q. net_total (at_rate q (add_to_bucket rate net tax g)) = net_total (at_rate q ((rate, net, tax) # g))
             \<and> tax_total (at_rate q (add_to_bucket rate net tax g)) = tax_total (at_rate q ((rate, net, tax) # g)))
       \<and> net_total (add_to_bucket rate net tax g) = net + net_total g
       \<and> tax_total (add_to_bucket rate net tax g) = tax + tax_total g
       \<and> list_all (\<lambda>(r, n, t). on_grid 4 n \<and> on_grid 4 t \<and> 0 \<le> n \<and> 0 \<le> t) (add_to_bucket rate net tax g)"
  using assms
proof (induction g)
  case Nil
  then show ?case by (simp add: small_amounts_def dec_add_small)
next
  case (Cons b g)
  obtain r n t where b: "b = (r, n, t)" by (cases b)
  have nn: "0 \<le> net_total g" "0 \<le> tax_total g"
    using nonneg_totals[of g] Cons.prems(2) by (auto simp: small_amounts_def b)
  show ?case
  proof (cases "r = rate")
    case True
    have "dec_add n net = n + net" "dec_add t tax = t + tax"
      using Cons.prems(2) nn by (auto simp: small_amounts_def b intro!: dec_add_small)
    then show ?thesis using Cons.prems True by (auto simp: b small_amounts_def)
  next
    case False
    have "small_amounts ((rate, net, tax) # g)" using Cons.prems(2) by (auto simp: small_amounts_def b)
    with Cons.IH Cons.prems(1) have ih: "distinct (map fst (add_to_bucket rate net tax g))
       \<and> set (map fst (add_to_bucket rate net tax g)) = insert rate (set (map fst g))
       \<and> (\<forall>q. net_total (at_rate q (add_to_bucket rate net tax g)) = net_total (at_rate q ((rate, net, tax) # g))
             \<and> tax_total (at_rate q (add_to_bucket rate net tax g)) = tax_total (at_rate q ((rate, net, tax) # g)))
       \<and> net_total (add_to_bucket rate net tax g) = net + net_total g
       \<and> tax_total (add_to_bucket rate net tax g) = tax + tax_total g
       \<and> list_all (\<lambda>(r, n, t). on_grid 4 n \<and> on_grid 4 t \<and> 0 \<le> n \<and> 0 \<le> t) (add_to_bucket rate net tax g)"
      by (simp add: b)
    then show ?thesis using Cons.prems False by (auto simp: b small_amounts_def)
  qed
qed

definition grouped_as :: "(rat \<times> rat \<times> rat) list \<Rightarrow> (rat \<times> rat \<times> rat) list \<Rightarrow> bool" where
  "grouped_as lines g \<longleftrightarrow> distinct (map fst g)
     \<and> list_all (\<lambda>(r, n, t). on_grid 4 n \<and> on_grid 4 t \<and> 0 \<le> n \<and> 0 \<le> t) g
     \<and> net_total g = net_total lines \<and> tax_total g = tax_total lines
     \<and> (\<forall>q. net_total (at_rate q g) = net_total (at_rate q lines) \<and> tax_total (at_rate q g) = tax_total (at_rate q lines))"

lemma totals_append [simp]:
  "net_total (xs @ ys) = net_total xs + net_total ys" "tax_total (xs @ ys) = tax_total xs + tax_total ys"
  "at_rate q (xs @ ys) = at_rate q xs @ at_rate q ys"
  by (simp_all add: net_total_def tax_total_def at_rate_def)

lemma fold_buckets:
  assumes "grouped_as done g" and "small_amounts (done @ lines)"
  shows "grouped_as (done @ lines) (fold (\<lambda>(rate, net, tax). add_to_bucket rate net tax) lines g)"
  using assms
proof (induction lines arbitrary: "done" g)
  case Nil
  then show ?case by simp
next
  case (Cons l lines)
  obtain rate net tax where l: "l = (rate, net, tax)" by (cases l)
  have nn: "0 \<le> net_total lines" "0 \<le> tax_total lines"
    using nonneg_totals[of lines] Cons.prems(2) by (auto simp: small_amounts_def l)
  have "small_amounts ((rate, net, tax) # g)" "distinct (map fst g)"
    using Cons.prems nn by (auto simp: small_amounts_def grouped_as_def l)
  from add_to_bucket_spec[OF this(2,1)] have "grouped_as (done @ [l]) (add_to_bucket rate net tax g)"
    using Cons.prems(1) by (simp add: grouped_as_def l)
  from Cons.IH[OF this] Cons.prems(2) show ?case by (simp add: l)
qed

lemma drop_zero_buckets:
  "net_total (filter (\<lambda>(r, n, t). n \<noteq> 0 \<or> t \<noteq> 0) g) = net_total g"
  "tax_total (filter (\<lambda>(r, n, t). n \<noteq> 0 \<or> t \<noteq> 0) g) = tax_total g"
  "at_rate q (filter (\<lambda>(r, n, t). n \<noteq> 0 \<or> t \<noteq> 0) g) = filter (\<lambda>(r, n, t). n \<noteq> 0 \<or> t \<noteq> 0) (at_rate q g)"
  by (induction g) (auto split: if_splits)

text \<open>
  Grouping the lines of a document by VAT rate gives one bucket per rate, without empty buckets, whose
  net and tax are the sums over the lines of that rate; so nothing is lost or counted twice between a
  document and the register.
\<close>

theorem group_taxable_lines_sums:
  assumes "small_amounts lines"
  shows "distinct (map fst (group_taxable_lines lines))
       \<and> net_total (group_taxable_lines lines) = net_total lines
       \<and> tax_total (group_taxable_lines lines) = tax_total lines
       \<and> (\<forall>q. net_total (at_rate q (group_taxable_lines lines)) = net_total (at_rate q lines)
             \<and> tax_total (at_rate q (group_taxable_lines lines)) = tax_total (at_rate q lines))
       \<and> list_all (\<lambda>(r, n, t). n \<noteq> 0 \<or> t \<noteq> 0) (group_taxable_lines lines)"
proof -
  have "grouped_as ([] @ lines) (fold (\<lambda>(rate, net, tax). add_to_bucket rate net tax) lines [])"
    by (rule fold_buckets) (use assms in \<open>simp_all add: grouped_as_def\<close>)
  then show ?thesis
    unfolding group_taxable_lines_def drop_zero_buckets
    by (auto simp: grouped_as_def distinct_map_filter list_all_iff drop_zero_buckets[unfolded de_Morgan_disj])
qed

theorem group_taxable_lines_sums_witness:
  "net_total (group_taxable_lines [(15/100, 100, 15), (0, 0, 0), (5/100, 20, 1), (15/100, 200, 30)]) = 320
   \<and> tax_total (at_rate (15/100) (group_taxable_lines [(15/100, 100, 15), (0, 0, 0), (5/100, 20, 1), (15/100, 200, 30)])) = 45"
proof -
  have "small_amounts [(15/100, 100, 15), (0, 0, 0), (5/100, 20, 1), (15/100, 200, 30)]"
    by (simp add: small_amounts_def on_grid_def)
  from group_taxable_lines_sums[OF this] show ?thesis by simp
qed


section \<open>Filed returns\<close>

definition totals_match :: "vat_transaction list \<Rightarrow> vat_return \<Rightarrow> bool" where
  "totals_match ts r \<longleftrightarrow>
     vn_output_vat r = vat_sum vt_vat_amount OUTPUT ts \<and> vn_input_vat r = vat_sum vt_vat_amount INPUT ts
     \<and> vn_net_vat r = vat_sum vt_vat_amount OUTPUT ts - vat_sum vt_vat_amount INPUT ts
     \<and> vn_taxable_sales r = vat_sum vt_taxable_amount OUTPUT ts
     \<and> vn_taxable_purchases r = vat_sum vt_taxable_amount INPUT ts"

definition register_grid :: "vat_transaction list \<Rightarrow> bool" where
  "register_grid ts \<longleftrightarrow> list_all (\<lambda>t. on_grid 4 (vt_taxable_amount t) \<and> on_grid 4 (vt_vat_amount t)) ts"

definition vat_inv :: "'a vat_db_scheme \<Rightarrow> bool" where
  "vat_inv s \<longleftrightarrow>
     register_grid (vat_transactions s)
     \<and> (\<forall>t \<in> set (vat_transactions s). \<forall>i. vt_vat_return_id t = Some i \<longrightarrow>
          (\<exists>r \<in> set (vat_returns s). vn_id r = i \<and> vn_status r = FILED))
     \<and> (\<forall>r \<in> set (vat_returns s). vn_status r = FILED \<longrightarrow> totals_match (claimed_rows (vn_id r) s) r)
     \<and> unique_on vn_id (vat_returns s)"

lemma vat_inv_cong:
  "vat_transactions s' = vat_transactions s \<Longrightarrow> vat_returns s' = vat_returns s \<Longrightarrow> vat_inv s' = vat_inv s"
  by (simp add: vat_inv_def claimed_rows_def)

lemma vat_chkD:
  assumes "vat_chk s = None"
  shows "unique_on vn_id (vat_returns s)" "r \<in> set (vat_returns s) \<Longrightarrow> 0 \<le> vn_output_vat r"
    "r \<in> set (vat_returns s) \<Longrightarrow> in_range 14 (vn_output_vat r) \<and> in_range 14 (vn_input_vat r)"
  using assms by (auto simp: vat_chk_def vat_constraints_def list_all_iff)

lemma vat_sum_grid:
  assumes "register_grid ts"
  shows "on_grid 4 (vat_sum vt_vat_amount d ts)" "on_grid 4 (vat_sum vt_taxable_amount d ts)"
  using assms by (auto simp: vat_sum_def register_grid_def list_all_iff intro!: on_grid_sum_list)

lemma quantize_grid: "quantize x = Inr y \<Longrightarrow> on_grid 4 x \<Longrightarrow> y = x"
  by (auto simp: quantize_eq_round_money Money_fixed dest: round_money_InrD)

lemma set_totals_match:
  assumes "set_totals ts r = Inr r'" and "register_grid ts"
    and "in_range 14 (vn_output_vat r')" "in_range 14 (vn_input_vat r')"
  shows "totals_match ts r'"
    and "vn_id r' = vn_id r" "vn_status r' = vn_status r" "vn_period_start r' = vn_period_start r" "vn_period_end r' = vn_period_end r"
proof -
  let ?o = "vat_sum vt_vat_amount OUTPUT ts" and ?i = "vat_sum vt_vat_amount INPUT ts"
  note g = vat_sum_grid[OF assms(2)]
  obtain n where r': "vn_output_vat r' = ?o" "vn_input_vat r' = ?i" "vn_net_vat r' = n" "quantize (dec_sub ?o ?i) = Inr n"
    "vn_taxable_sales r' = vat_sum vt_taxable_amount OUTPUT ts" "vn_taxable_purchases r' = vat_sum vt_taxable_amount INPUT ts"
    using assms(1) quantize_grid[OF _ g(1)] quantize_grid[OF _ g(2)] by (fastforce simp: set_totals_def Let_def)
  have "\<bar>?o\<bar> < 10 ^ 14" "\<bar>?i\<bar> < 10 ^ 14" using assms(3,4) r' by (simp_all add: in_range_def)
  then have "\<bar>?o - ?i\<bar> < 2 * 10 ^ 14" by linarith
  then have "dec_sub ?o ?i = ?o - ?i" using g by (intro dec_sub_exact[where k = 4]) simp_all
  with r' g have "n = ?o - ?i" by (auto dest!: quantize_grid)
  with r' show "totals_match ts r'" by (simp add: totals_match_def)
  show "vn_id r' = vn_id r" "vn_status r' = vn_status r" "vn_period_start r' = vn_period_start r" "vn_period_end r' = vn_period_end r"
    using assms(1) by (auto simp: set_totals_def Let_def)
qed

lemma register_grid_claim [simp]:
  "register_grid (upd_where p (\<lambda>t. t\<lparr>vt_vat_return_id := x\<rparr>) ts) = register_grid ts"
  by (simp add: register_grid_def list_all_upd_where)

lemma claim_other:
  assumes "j \<noteq> i"
  shows "filter (\<lambda>t. vt_vat_return_id t = Some j)
           (upd_where (unclaimed a b) (\<lambda>t. t\<lparr>vt_vat_return_id := Some i\<rparr>) ts)
       = filter (\<lambda>t. vt_vat_return_id t = Some j) ts"
  using assms by (induction ts) (auto simp: unclaimed_def)

lemma claim_own:
  "filter (\<lambda>t. vt_vat_return_id t = Some i) ts = [] \<Longrightarrow>
   filter (\<lambda>t. vt_vat_return_id t = Some i) (upd_where (unclaimed a b) (\<lambda>t. t\<lparr>vt_vat_return_id := Some i\<rparr>) ts)
     = map (\<lambda>t. t\<lparr>vt_vat_return_id := Some i\<rparr>) (filter (unclaimed a b) ts)"
  by (induction ts) (auto split: if_splits)

lemma record_inv:
  "vat_inv s \<Longrightarrow> wp (vat_record direction d source_type source_id taxable vat rate code reversal) (\<lambda>_. vat_inv) s"
  by (auto simp: vat_record_def wp_simps Let_def vat_inv_def register_grid_def claimed_rows_def quantize_eq_round_money
      dest!: round_money_InrD)

lemma prepare_inv: "vat_inv s \<Longrightarrow> wp (prepare_return context payload) (\<lambda>_. vat_inv) s"
  by (auto simp: prepare_return_def wp_simps vat_inv_def claimed_rows_def set_totals_def Let_def dest!: vat_chkD(1))

lemma find_upd_id:
  assumes "find (\<lambda>r. vn_id r = i) rs = Some r" and "vn_id r' = i"
  shows "find (\<lambda>r. vn_id r = i) (upd_where (\<lambda>r. vn_id r = i) (\<lambda>_. r') rs) = Some r'"
  using assms by (induction rs) (auto split: if_splits)

text \<open>What filing does.\<close>

definition filed_from :: "vat_return \<Rightarrow> vat_return \<Rightarrow> 'a vat_db_scheme \<Rightarrow> 'a vat_db_scheme \<Rightarrow> bool" where
  "filed_from r r' s s' \<longleftrightarrow>
     vn_status r \<noteq> FILED \<and> vn_status r' = FILED \<and> vn_id r' = vn_id r \<and> totals_match (claimed_rows (vn_id r) s') r'
     \<and> vat_returns s' = upd_where (\<lambda>q. vn_id q = vn_id r) (\<lambda>_. r') (vat_returns s)
     \<and> vat_transactions s' = upd_where (unclaimed (vn_period_start r) (vn_period_end r))
         (\<lambda>t. t\<lparr>vt_vat_return_id := Some (vn_id r)\<rparr>) (vat_transactions s)
     \<and> 0 \<le> vn_output_vat r' \<and> unique_on vn_id (vat_returns s')"

lemma wp_file_return:
  assumes "vat_inv s"
  shows "wp (file_return context i) (\<lambda>r' s'. \<exists>r. find (\<lambda>r. vn_id r = i) (vat_returns s) = Some r \<and> filed_from r r' s s') s"
  unfolding file_return_def
  apply (simp only: wp_service_transaction wp_bnd wp_gets wp_some_or wp_require claim_rows_def wp_modify wp_lift_res
      wp_datetime_now wp_let Let_def wp_audit_record wp_ret)
  apply (intro allI impI)
  subgoal premises p for r r1
  proof -
    let ?T = "upd_where (unclaimed (vn_period_start r) (vn_period_end r)) (\<lambda>t. t\<lparr>vt_vat_return_id := Some (vn_id r)\<rparr>) (vat_transactions s)"
    let ?r' = "r1\<lparr>vn_status := FILED, vn_filed_at := Some (clock s (clock_count s)), vn_filed_by_membership_id := Some (membership_id context)\<rparr>"
    have id: "vn_id r = i" "r \<in> set (vat_returns s)" using find_SomeD[OF p(1)] by simp_all
    have g: "register_grid (filter (\<lambda>t. vt_vat_return_id t = Some (vn_id r)) ?T)"
      using assms register_grid_claim by (auto simp: vat_inv_def register_grid_def list_all_iff set_upd_where)
    have t: "set_totals (filter (\<lambda>t. vt_vat_return_id t = Some (vn_id r)) ?T) r = Inr r1"
      using p(3) by (simp add: claimed_rows_def)
    have "?r' \<in> set (upd_where (\<lambda>q. vn_id q = i) (\<lambda>_. ?r') (vat_returns s))"
      using id by (auto simp: set_upd_where)
    then have "in_range 14 (vn_output_vat ?r') \<and> in_range 14 (vn_input_vat ?r')" "0 \<le> vn_output_vat ?r'"
      using vat_chkD(2,3)[OF p(4), of ?r'] by simp_all
    with set_totals_match[OF t g] vat_chkD(1)[OF p(4)] p(1,2) show ?thesis
      by (auto simp: filed_from_def id claimed_rows_def totals_match_def)
  qed
  done

lemma file_inv:
  assumes "vat_inv s"
  shows "wp (file_return context i) (\<lambda>_. vat_inv) s"
proof (rule wp_mono[OF wp_file_return[OF assms]])
  fix r' s'
  assume "\<exists>r. find (\<lambda>r. vn_id r = i) (vat_returns s) = Some r \<and> filed_from r r' s s'"
  then obtain r where f: "find (\<lambda>r. vn_id r = i) (vat_returns s) = Some r" and r: "filed_from r r' s s'" by blast
  have id: "vn_id r = i" "r \<in> set (vat_returns s)" using find_SomeD[OF f] by simp_all
  have keep: "q \<in> set (vat_returns s')" if "q \<in> set (vat_returns s)" "vn_id q \<noteq> i" for q
    using that r id by (auto simp: filed_from_def intro: in_upd_where)
  have mine: "r' \<in> set (vat_returns s')" "vn_id r' = i" "vn_status r' = FILED"
    using r id by (auto simp: filed_from_def set_upd_where)
  have other: "q = r' \<or> (q \<in> set (vat_returns s) \<and> vn_id q \<noteq> i)" if "q \<in> set (vat_returns s')" for q
    using that r id by (auto simp: filed_from_def set_upd_where split: if_splits)
  have claimed: "\<exists>q \<in> set (vat_returns s'). vn_id q = j \<and> vn_status q = FILED"
    if "t \<in> set (vat_transactions s')" "vt_vat_return_id t = Some j" for t j
  proof (cases "j = i")
    case True
    then show ?thesis using mine by blast
  next
    case False
    note claim = that(2)
    have "t \<in> set (vat_transactions s)"
      using False that r id by (auto simp: filed_from_def set_upd_where split: if_splits)
    then obtain q where "q \<in> set (vat_returns s)" "vn_id q = j" "vn_status q = FILED"
      using assms claim unfolding vat_inv_def by blast
    then show ?thesis using keep False by blast
  qed
  have "totals_match (claimed_rows (vn_id q) s') q" if "q \<in> set (vat_returns s')" "vn_status q = FILED" for q
  proof (cases "q = r'")
    case True
    then show ?thesis using r mine id by (simp add: filed_from_def)
  next
    case False
    then have q: "q \<in> set (vat_returns s)" "vn_id q \<noteq> i" using other[OF that(1)] by simp_all
    then have "claimed_rows (vn_id q) s' = claimed_rows (vn_id q) s"
      using r id by (simp add: filed_from_def claimed_rows_def claim_other)
    then show ?thesis using assms q that(2) by (simp add: vat_inv_def)
  qed
  then show "vat_inv s'"
    using claimed r assms by (auto simp: vat_inv_def filed_from_def)
qed


section \<open>Reachable registers\<close>

inductive vat_reachable :: "'a vat_db_scheme \<Rightarrow> bool" where
  init: "vat_transactions s = [] \<Longrightarrow> vat_returns s = [] \<Longrightarrow> vat_reachable s"
| create_rate: "vat_reachable s \<Longrightarrow> vat_reachable (snd (create_rate b c p s))"
| recorded: "vat_reachable s \<Longrightarrow>
    vat_reachable (snd (service_transaction vat_chk (vat_record dir d ty i taxable vat rate code reversal) s))"
| prepare_return: "vat_reachable s \<Longrightarrow> vat_reachable (snd (prepare_return c q s))"
| file_return: "vat_reachable s \<Longrightarrow> vat_reachable (snd (file_return c i s))"
| environment: "vat_reachable s \<Longrightarrow> vat_transactions s' = vat_transactions s \<Longrightarrow> vat_returns s' = vat_returns s \<Longrightarrow>
    vat_reachable s'"

lemma atomic_vat [atomic_intros]:
  "atomic (create_rate b c p)" "atomic (prepare_return c q)" "atomic (file_return c i)" "atomic (breakdown pq)"
  "atomic (transactions d d' dir)" "atomic (summary k d d')" "atomic (rates k)" "atomic returns"
  by (auto simp: create_rate_def prepare_return_def file_return_def breakdown_def transactions_def summary_def rates_def
      returns_def Let_def intro!: atomic_intros)

lemma create_rate_inv: "vat_inv s \<Longrightarrow> wp (create_rate b c p) (\<lambda>_. vat_inv) s"
  by (auto simp: create_rate_def wp_simps Let_def vat_inv_def claimed_rows_def)

lemma committed_record_inv:
  "vat_inv s \<Longrightarrow> wp (service_transaction vat_chk (vat_record dir d ty i taxable vat rate code reversal)) (\<lambda>_. vat_inv) s"
  unfolding wp_service_transaction by (rule wp_mono[OF record_inv]) auto

lemma vat_reachable_inv: "vat_reachable s \<Longrightarrow> vat_inv s"
proof (induction rule: vat_reachable.induct)
  case (init s)
  then show ?case by (simp add: vat_inv_def register_grid_def)
next
  case (environment s s')
  then show ?case using vat_inv_cong[of s' s] by simp
qed (auto intro!: atomic_preserves[where I = vat_inv] atomic_intros create_rate_inv committed_record_inv prepare_inv file_inv)

lemma draft_claims_nothing:
  assumes inv: "vat_inv s" and r: "r \<in> set (vat_returns s)" "vn_status r \<noteq> FILED"
  shows "claimed_rows (vn_id r) s = []"
proof -
  have "vt_vat_return_id t \<noteq> Some (vn_id r)" if t: "t \<in> set (vat_transactions s)" for t
  proof
    assume "vt_vat_return_id t = Some (vn_id r)"
    with inv t obtain q where "q \<in> set (vat_returns s)" "vn_id q = vn_id r" "vn_status q = FILED"
      unfolding vat_inv_def by blast
    moreover have "unique_on vn_id (vat_returns s)" using inv by (simp add: vat_inv_def)
    ultimately show False using unique_on_inj r by metis
  qed
  then show ?thesis by (simp add: claimed_rows_def filter_empty_conv)
qed

text \<open>
  C24. A filed return never drifts from the register. In every reachable state the five totals of a filed
  return are exactly the sums over the register rows that carry its identifier, every claimed row is
  claimed by a filed return, and no row was claimed for a return that is still a draft.
\<close>

theorem filed_returns_match_register:
  assumes "vat_reachable s"
  shows "(\<forall>r \<in> set (vat_returns s). vn_status r = FILED \<longrightarrow>
            vn_output_vat r = vat_sum vt_vat_amount OUTPUT (claimed_rows (vn_id r) s)
            \<and> vn_input_vat r = vat_sum vt_vat_amount INPUT (claimed_rows (vn_id r) s)
            \<and> vn_net_vat r = vn_output_vat r - vn_input_vat r
            \<and> vn_taxable_sales r = vat_sum vt_taxable_amount OUTPUT (claimed_rows (vn_id r) s)
            \<and> vn_taxable_purchases r = vat_sum vt_taxable_amount INPUT (claimed_rows (vn_id r) s))
       \<and> (\<forall>r \<in> set (vat_returns s). vn_status r \<noteq> FILED \<longrightarrow> claimed_rows (vn_id r) s = [])
       \<and> (\<forall>t \<in> set (vat_transactions s). vt_vat_return_id t \<noteq> None \<longrightarrow>
            (\<exists>r \<in> set (vat_returns s). vt_vat_return_id t = Some (vn_id r) \<and> vn_status r = FILED))"
proof -
  note inv = vat_reachable_inv[OF assms]
  have "claimed_rows (vn_id r) s = []" if "r \<in> set (vat_returns s)" "vn_status r \<noteq> FILED" for r
    using draft_claims_nothing[OF inv that] .
  with inv show ?thesis by (fastforce simp: vat_inv_def totals_match_def)
qed

text \<open>
  C25. Filing claims once. When filing succeeds, the return was not filed before; every register row of the
  period that no return had claimed is now claimed by it, all other rows are as they were, the totals are
  those of exactly the claimed rows, and filing it again raises \<open>RETURN_ALREADY_FILED\<close> and changes nothing.
\<close>

theorem file_return_claims_once:
  assumes "vat_reachable s" and "file_return context i s = (Inr r', s')"
  shows "\<exists>r. find (\<lambda>r. vn_id r = i) (vat_returns s) = Some r \<and> vn_status r \<noteq> FILED \<and> vn_status r' = FILED
       \<and> vat_transactions s' = map (\<lambda>t. if unclaimed (vn_period_start r) (vn_period_end r) t
             then t\<lparr>vt_vat_return_id := Some i\<rparr> else t) (vat_transactions s)
       \<and> totals_match (claimed_rows i s') r'
       \<and> (\<forall>context'. file_return context' i s' = (Inl (ConflictError ''RETURN_ALREADY_FILED''), s'))"
proof -
  from wpD[OF wp_file_return[OF vat_reachable_inv[OF assms(1)]] assms(2)]
  obtain r where f: "find (\<lambda>r. vn_id r = i) (vat_returns s) = Some r" and r: "filed_from r r' s s'" by blast
  have "vn_id r = i" using find_SomeD[OF f] by simp
  with f r find_upd_id[OF f, of r'] show ?thesis
    by (auto simp: filed_from_def upd_where_def file_return_def run_simps)
qed

text \<open>
  C26. A period whose refunds exceed its sales cannot be filed: when the output VAT of the unclaimed rows of
  the period sums to less than zero, filing the draft raises and leaves the database as it was, because the
  table requires \<open>output_vat >= 0\<close> although the register records refunds as negative VAT.
\<close>

theorem refund_period_cannot_be_filed:
  assumes "vat_reachable s" and "find (\<lambda>r. vn_id r = i) (vat_returns s) = Some r" and "vn_status r \<noteq> FILED"
    and "vat_sum vt_vat_amount OUTPUT
           (filter (unclaimed (vn_period_start r) (vn_period_end r)) (vat_transactions s)) < 0"
  shows "\<exists>e. file_return context i s = (Inl e, s)"
proof (cases "file_return context i s")
  case (Pair res s')
  show ?thesis
  proof (cases res)
    case (Inl e)
    then show ?thesis using Pair atomicD[OF atomic_vat(3)] by blast
  next
    case (Inr r')
    note inv = vat_reachable_inv[OF assms(1)]
    from wpD[OF wp_file_return[OF inv] Pair[unfolded Inr]] assms(2) have r: "filed_from r r' s s'" by simp
    have id: "vn_id r = i" "r \<in> set (vat_returns s)" using find_SomeD[OF assms(2)] by simp_all
    have "claimed_rows i s = []"
      using draft_claims_nothing[OF inv] id assms(3) by blast
    then have "claimed_rows i s' = map (\<lambda>t. t\<lparr>vt_vat_return_id := Some i\<rparr>)
        (filter (unclaimed (vn_period_start r) (vn_period_end r)) (vat_transactions s))"
      using r id by (simp add: filed_from_def claimed_rows_def claim_own)
    then have "vn_output_vat r' < 0"
      using r id assms(4) by (simp add: filed_from_def totals_match_def vat_sum_def filter_map o_def)
    with r show ?thesis by (simp add: filed_from_def)
  qed
qed


section \<open>An example register\<close>

definition register :: "vat_transaction list \<Rightarrow> vat_return list \<Rightarrow> vat_db" where
  "register ts rs =
     \<lparr>uuid_gen = (\<lambda>n. 100 + n), uuid_count = 2, clock = (\<lambda>n. 0), clock_count = 2, request_id = None,
      document_sequences = [], idempotency_keys = [], audit_events = [], units = [], products = [], warehouses = [],
      allow_negative_inventory = False, movements = [], balances = [], reservations = [], transfers = [],
      transfer_lines = [], adjustments = [], base_currency = ''BDT'', fiscal_year_start_month = 1,
      accounts = [], journals = [], fiscal_periods = [], journal_entries = [], journal_entry_lines = [],
      vat_rates = [], vat_transactions = ts, vat_returns = rs\<rparr>"

lemmas vat_run_simps = base_run_simps vat_record_def dec_abs_def quantize_eq_round_money round_money_eq Let_def vat_chk_def
  vat_constraints_def prepare_return_def file_return_def claim_rows_def claimed_rows_def set_totals_def vat_sum_def
  unclaimed_def in_range_def dec_sub_def

lemma Rate_fixed: "on_grid 6 x \<Longrightarrow> Rate x = x"
  by (simp add: Rate_def half_up.rescale_fixed)

lemma Rate_15: "Rate (3 / 20) = 3 / 20"
  by (rule Rate_fixed) (simp add: on_grid_def)

definition example_sale_row :: "rat \<Rightarrow> bool \<Rightarrow> vat_transaction" where
  "example_sale_row vat reversal =
     \<lparr>vt_id = 102, vt_direction = OUTPUT, vt_occurred_on = (2026, 1, 15), vt_source_type = ''invoice'', vt_source_id = 9,
      vt_rate_code = None, vt_rate = 3 / 20, vt_taxable_amount = 100, vt_vat_amount = vat, vt_is_reversal = reversal,
      vt_vat_return_id = None\<rparr>"

definition example_draft :: "rat \<Rightarrow> rat \<Rightarrow> vat_return" where
  "example_draft vat sales =
     \<lparr>vn_id = 102, vn_period_start = (2026, 1, 1), vn_period_end = (2026, 1, 31), vn_status = RETURN_DRAFT,
      vn_output_vat = vat, vn_input_vat = 0, vn_net_vat = vat, vn_taxable_sales = sales, vn_taxable_purchases = 0,
      vn_filed_at = None, vn_filed_by_membership_id = None\<rparr>"

lemma vat_reachable_register:
  "vat_reachable (s :: vat_db) \<Longrightarrow> vat_transactions s = ts \<Longrightarrow> vat_returns s = rs \<Longrightarrow> vat_reachable (register ts rs)"
  by (erule vat_reachable.environment) (simp_all add: register_def)

definition example_period :: ReturnPrepare where
  "example_period = \<lparr>rp_period_start = (2026, 1, 1), rp_period_end = (2026, 1, 31)\<rparr>"

lemma example_row_reachable: "vat_reachable (register [example_sale_row 15 False] [])"
proof -
  have init: "vat_reachable (register [] [])" by (rule vat_reachable.init) (simp_all add: register_def)
  let ?run = "\<lambda>vat reversal. snd (service_transaction vat_chk
      (vat_record OUTPUT (2026, 1, 15) ''invoice'' 9 100 vat (3 / 20) None reversal) (register [] []))"
  have "vat_transactions (?run 15 False) = [example_sale_row 15 False]" "vat_returns (?run 15 False) = []"
    by (simp_all add: vat_run_simps register_def example_sale_row_def Rate_15)
  note run = this
  show "vat_reachable (register [example_sale_row 15 False] [])"
    by (rule vat_reachable_register[OF vat_reachable.recorded[OF init]]) (fact run)+
qed

lemma example_draft_reachable: "vat_reachable (register [example_sale_row 15 False] [example_draft 15 100])"
proof -
  let ?run = "snd (prepare_return example_context example_period (register [example_sale_row 15 False] []))"
  have "vat_transactions ?run = [example_sale_row 15 False]" "vat_returns ?run = [example_draft 15 100]"
    by (simp_all add: vat_run_simps register_def example_sale_row_def example_draft_def example_period_def example_context_def)
  then show ?thesis
    by (intro vat_reachable.environment[OF vat_reachable.prepare_return[OF example_row_reachable],
          where c1 = example_context and q1 = example_period]) (simp_all add: register_def)
qed

lemma example_draft_facts:
  "find (\<lambda>r. vn_id r = 102) (vat_returns (register ts [example_draft v n])) = Some (example_draft v n)"
  "vn_status (example_draft v n) \<noteq> FILED"
  by (simp_all add: register_def example_draft_def)

lemma example_file_runs: "\<exists>r. file_return example_context 102 (register [example_sale_row 15 False] [example_draft 15 100])
     = (Inr r, snd (file_return example_context 102 (register [example_sale_row 15 False] [example_draft 15 100])))"
  by (simp add: vat_run_simps register_def example_sale_row_def example_draft_def example_context_def)

theorem filed_returns_match_register_witness:
  "\<exists>r \<in> set (vat_returns (snd (file_return example_context 102 (register [example_sale_row 15 False] [example_draft 15 100])))).
     vn_status r = FILED \<and> vn_output_vat r = 15
     \<and> vn_output_vat r = vat_sum vt_vat_amount OUTPUT (claimed_rows (vn_id r)
          (snd (file_return example_context 102 (register [example_sale_row 15 False] [example_draft 15 100]))))"
proof -
  have "\<exists>r \<in> set (vat_returns (snd (file_return example_context 102 (register [example_sale_row 15 False] [example_draft 15 100])))).
     vn_status r = FILED \<and> vn_output_vat r = 15"
    by (simp add: vat_run_simps register_def example_sale_row_def example_draft_def example_context_def)
  with filed_returns_match_register[OF vat_reachable.file_return[OF example_draft_reachable], of example_context 102]
  show ?thesis by blast
qed

theorem file_return_claims_once_witness:
  "\<exists>r s'. file_return example_context 102 (register [example_sale_row 15 False] [example_draft 15 100]) = (Inr r, s')
     \<and> totals_match (claimed_rows 102 s') r
     \<and> file_return example_context 102 s' = (Inl (ConflictError ''RETURN_ALREADY_FILED''), s')"
proof -
  obtain r s' where run: "file_return example_context 102 (register [example_sale_row 15 False] [example_draft 15 100]) = (Inr r, s')"
    using example_file_runs by blast
  from file_return_claims_once[OF example_draft_reachable run] run show ?thesis by blast
qed

lemma example_refund_reachable: "vat_reachable (register [example_sale_row (- 15) True] [example_draft 0 0])"
proof -
  have init: "vat_reachable (register [] [])" by (rule vat_reachable.init) (simp_all add: register_def)
  let ?d = "snd (prepare_return example_context example_period (register [] []))"
  have "vat_returns ?d = [example_draft 0 0]" "vat_transactions ?d = []"
    by (simp_all add: vat_run_simps register_def example_draft_def example_period_def example_context_def)
  then have draft: "vat_reachable (register [] [example_draft 0 0])"
    by (intro vat_reachable.environment[OF vat_reachable.prepare_return[OF init],
          where c1 = example_context and q1 = example_period]) (simp_all add: register_def)
  let ?run = "snd (service_transaction vat_chk
      (vat_record OUTPUT (2026, 1, 15) ''invoice'' 9 100 15 (3 / 20) None True) (register [] [example_draft 0 0]))"
  have "vat_transactions ?run = [example_sale_row (- 15) True]" "vat_returns ?run = [example_draft 0 0]"
    by (simp_all add: vat_run_simps register_def example_sale_row_def Rate_15 example_draft_def)
  note run = this
  show ?thesis by (rule vat_reachable_register[OF vat_reachable.recorded[OF draft]]) (fact run)+
qed

theorem refund_period_cannot_be_filed_witness:
  "\<exists>e. file_return example_context 102 (register [example_sale_row (- 15) True] [example_draft 0 0])
     = (Inl e, register [example_sale_row (- 15) True] [example_draft 0 0])"
  by (rule refund_period_cannot_be_filed[OF example_refund_reachable example_draft_facts])
    (simp add: register_def example_sale_row_def example_draft_def vat_sum_def unclaimed_def)

end
