(* ===== verification/Keeps.thy ===== *)
theory Keeps
  imports Program_Logic Pos_Service Ledger Vat_Register
begin

text \<open>
  Preservation of invariants by the document services. The locale \<open>shared_services\<close>
  states what an invariant has to tolerate for the services every document uses (identifiers, clock, audit trail,
  numbers, idempotency keys, stock movements, journal entries, register rows) to keep it.
\<close>

section \<open>Guards\<close>

text \<open>The guards do not change the state.\<close>

lemma keeps_guards [keeps_intros]:
  "keeps I (require_status actual allowed)" "keeps I (require_branch context b)"
  "keeps I (require_warehouse context b w)" "keeps I (get_product p)" "keeps I (check_status_filter ms st)"
  "keeps I (request_line ls req it)" "keeps I (requested_lines fc ls)"
  "keeps I (request_receipt_line pls preq rit)" "keeps I (requested_receipt_lines grc pls)"
  unfolding require_status_def require_branch_def require_warehouse_def get_product_def check_status_filter_def
    request_line_def requested_lines_def request_receipt_line_def requested_receipt_lines_def
  by (intro keeps_intros)+

lemma keeps_pos_guards [keeps_intros]:
  "keeps I (require_terminal context t)" "keeps I (require_open_session context i own)" "keeps I (sale_parts context sl)"
  unfolding require_open_session_def require_terminal_def sale_parts_def
  by (intro keeps_intros)+

section \<open>The shared services\<close>

locale base_services =
  fixes I :: "'a base_db_scheme \<Rightarrow> bool"
  assumes ids [simp]: "I (s\<lparr>uuid_count := n\<rparr>) = I s" "I (s\<lparr>clock_count := n\<rparr>) = I s"
    and rows [simp]: "I (s\<lparr>audit_events := es\<rparr>) = I s" "I (s\<lparr>document_sequences := ds\<rparr>) = I s"
      "I (s\<lparr>idempotency_keys := ks\<rparr>) = I s"
begin

lemma keeps_base:
  "keeps I uuid7" "keeps I datetime_now" "keeps I (audit_record context a rt ri md)" "keeps I period"
  by (simp_all add: keeps_def wp_simps period_def)

lemma keeps_allocate: "keeps I (allocate series p)"
  by (rule keepsI) (rule wp_allocate_frame, simp)

lemma keeps_keys:
  "keeps I (claim h fl e k pl)" "keeps I (complete_key e k st b)" "keeps I (claim_payment_key h fl e ko pl)"
  by (auto simp: keeps_def wp_simps claim_def complete_key_def claim_payment_key_def Let_def split: option.splits)

lemmas keeps_base_services = keeps_base keeps_allocate keeps_keys

end

locale shared_services = base_services I for I :: "'a vat_db_scheme \<Rightarrow> bool" +
  fixes chk :: "'a vat_db_scheme \<Rightarrow> error option"
  assumes movement: "\<not> transfer_type ty \<Longrightarrow> keeps I (post_movement context w p ty q u rt ri notes key)"
    and entry: "keeps I (post chk context d desc st si ev lines False md None)"
    and register_row: "keeps I (vat_record dir d st si net tax rate code rv)"
begin

lemma keeps_document_movement:
  "keeps I (post_movement_for_document context w p SALE q u rt ri)"
  "keeps I (post_movement_for_document context w p SALE_RETURN q u rt ri)"
  "keeps I (post_movement_for_document context w p RECEIPT q u rt ri)"
  unfolding post_movement_for_document_def by (rule movement, simp add: transfer_type_def)+

lemma keeps_vat_groups: "keeps I (record_vat_groups dir d st si rv ls)"
  unfolding record_vat_groups_def by (intro keeps_intros register_row)

lemmas keeps_services = keeps_base_services keeps_document_movement entry keeps_vat_groups

end

text \<open>What a posted entry keeps, an operation that posts keeps.\<close>

context journal_check
begin

lemma entry_keeps:
  assumes "\<And>lines e new s s'. posted context False lines e new s s' \<Longrightarrow> J s \<Longrightarrow> J s'"
  shows "keeps J (post chk context d desc st si ev lines False md None)"
  by (rule keepsI, rule wp_post) (use assms in auto)

end

text \<open>The constraint checks of the three document modules cover the journal.\<close>

lemma document_chkD:
  "sales_flush_chk s = None \<Longrightarrow> unique_on je_id (journal_entries s)"
  "purchasing_flush_chk t = None \<Longrightarrow> unique_on je_id (journal_entries t)"
  "pos_flush_chk u = None \<Longrightarrow> unique_on je_id (journal_entries u)"
  by (simp_all add: sales_flush_chk_def purchasing_flush_chk_def pos_flush_chk_def accounting_constraints_def)

interpretation sales_check: journal_check sales_flush_chk
  by unfold_locales (rule document_chkD)

interpretation purchasing_check: journal_check purchasing_flush_chk
  by unfold_locales (rule document_chkD)

interpretation pos_check: journal_check pos_flush_chk
  by unfold_locales (rule document_chkD)

text \<open>What a movement, an entry and a register row leave alone.\<close>

lemma core_inv_cong:
  assumes "same_inventory s s'"
  shows "core_inv True s' = core_inv True s"
  using assms stock_inv_cong[of s' s] transfer_inv_cong[of s' s] by (simp add: core_inv_def same_inventory_def)

lemma base_core_inv: "base_services (core_inv True)"
  by unfold_locales (rule core_inv_cong; simp add: same_inventory_def)+

lemma movement_core_inv: "\<not> transfer_type ty \<Longrightarrow> keeps (core_inv True) (post_movement context w p ty q u rt ri notes key)"
  by (rule keepsI) (rule post_movement_core_inv)

lemma core_inv_register [simp]: "core_inv True (s\<lparr>vat_transactions := ts\<rparr>) = core_inv True s"
  by (rule core_inv_cong) (simp add: same_inventory_def)

lemma register_row_core_inv: "keeps (core_inv True) (vat_record dir d st si net tax rate code rv)"
  by (rule keepsI) (simp add: vat_record_def wp_simps Let_def)

lemma base_journal_inv: "base_services journal_inv"
  by unfold_locales (simp_all add: journal_inv_def)

lemma base_vat_inv: "base_services vat_inv"
  by unfold_locales (rule vat_inv_cong; simp)+

text \<open>Whatever keeps the part of the state behind the stock tables keeps the tables of the other modules.\<close>

lemma inventory_moreD:
  fixes s s' :: "'a vat_db_scheme"
  assumes "inventory_db.more s' = inventory_db.more s"
  shows "accounts s' = accounts s" "journal_entries s' = journal_entries s" "journal_entry_lines s' = journal_entry_lines s"
    "vat_transactions s' = vat_transactions s" "vat_returns s' = vat_returns s" "vat_db.more s' = vat_db.more s"
  using assms by (cases s; cases s'; simp)+

lemma accounting_moreD:
  fixes s s' :: "'a vat_db_scheme"
  assumes "accounting_db.more s' = accounting_db.more s"
  shows "vat_transactions s' = vat_transactions s" "vat_returns s' = vat_returns s" "vat_db.more s' = vat_db.more s"
  using assms by (cases s; cases s'; simp)+

lemma movement_more:
  "I s \<Longrightarrow> (\<And>s'. inventory_db.more s' = inventory_db.more s \<Longrightarrow> I s') \<Longrightarrow>
   wp (post_movement context w p ty q u rt ri notes key) (\<lambda>_. I) s"
  by (rule wp_post_movement) (simp_all add: stock_step_def inventory_frame_def)

lemma movement_journal_inv:
  "keeps (journal_inv :: 'a vat_db_scheme \<Rightarrow> bool) (post_movement context w p ty q u rt ri notes key)"
proof (rule keepsI)
  fix s :: "'a vat_db_scheme"
  assume inv: "journal_inv s"
  show "wp (post_movement context w p ty q u rt ri notes key) (\<lambda>_. journal_inv) s"
  proof (rule movement_more[of journal_inv, OF inv])
    fix s' :: "'a vat_db_scheme"
    assume "inventory_db.more s' = inventory_db.more s"
    from inventory_moreD(1-3)[OF this] inv show "journal_inv s'" by (simp add: journal_inv_def)
  qed
qed

lemma movement_vat_inv: "keeps vat_inv (post_movement context w p ty q u rt ri notes key)"
proof (rule keepsI)
  fix s :: "'a vat_db_scheme"
  assume inv: "vat_inv s"
  show "wp (post_movement context w p ty q u rt ri notes key) (\<lambda>_. vat_inv) s"
  proof (rule movement_more[of vat_inv, OF inv])
    fix s' :: "'a vat_db_scheme"
    assume "inventory_db.more s' = inventory_db.more s"
    from inventory_moreD(4,5)[OF this] inv show "vat_inv s'" by (simp add: vat_inv_def claimed_rows_def)
  qed
qed

lemma posted_keeps:
  fixes s s' :: "'a vat_db_scheme"
  assumes "posted context ac lines e new s s'"
  shows "core_inv True s \<Longrightarrow> core_inv True s'" "journal_inv s \<Longrightarrow> journal_inv s'" "vat_inv s \<Longrightarrow> vat_inv s'"
    "vat_db.more s' = vat_db.more s"
proof -
  have "same_inventory s s'" and more: "accounting_db.more s' = accounting_db.more s"
    using assms by (simp_all add: posted_def)
  then show "core_inv True s \<Longrightarrow> core_inv True s'" by (simp add: core_inv_cong)
  show "journal_inv s \<Longrightarrow> journal_inv s'" by (rule posted_journal_inv[OF _ assms])
  show "vat_inv s \<Longrightarrow> vat_inv s'" using accounting_moreD[OF more] by (simp add: vat_inv_def claimed_rows_def)
  show "vat_db.more s' = vat_db.more s" by (rule accounting_moreD(3)[OF more])
qed

lemma register_row_journal_inv: "keeps journal_inv (vat_record dir d st si net tax rate code rv)"
  by (rule keepsI) (simp add: vat_record_def wp_simps Let_def journal_inv_def)

lemma register_row_vat_inv: "keeps vat_inv (vat_record dir d st si net tax rate code rv)"
  by (rule keepsI) (rule record_inv)

text \<open>The three invariants of the core tolerate every shared service, called from any of the three modules.\<close>

interpretation sales_stock: shared_services "core_inv True" sales_flush_chk
  by (intro shared_services.intro shared_services_axioms.intro base_core_inv movement_core_inv sales_check.entry_keeps
      register_row_core_inv) (assumption | rule posted_keeps, assumption, assumption)+

interpretation sales_journal: shared_services journal_inv sales_flush_chk
  by (intro shared_services.intro shared_services_axioms.intro base_journal_inv movement_journal_inv
      sales_check.entry_keeps register_row_journal_inv) (rule posted_keeps)

interpretation sales_vat: shared_services vat_inv sales_flush_chk
  by (intro shared_services.intro shared_services_axioms.intro base_vat_inv movement_vat_inv sales_check.entry_keeps
      register_row_vat_inv) (rule posted_keeps)

interpretation purchasing_stock: shared_services "core_inv True" purchasing_flush_chk
  by (intro shared_services.intro shared_services_axioms.intro base_core_inv movement_core_inv
      purchasing_check.entry_keeps register_row_core_inv) (assumption | rule posted_keeps, assumption, assumption)+

interpretation purchasing_journal: shared_services journal_inv purchasing_flush_chk
  by (intro shared_services.intro shared_services_axioms.intro base_journal_inv movement_journal_inv
      purchasing_check.entry_keeps register_row_journal_inv) (rule posted_keeps)

interpretation purchasing_vat: shared_services vat_inv purchasing_flush_chk
  by (intro shared_services.intro shared_services_axioms.intro base_vat_inv movement_vat_inv
      purchasing_check.entry_keeps register_row_vat_inv) (rule posted_keeps)

interpretation pos_stock: shared_services "core_inv True" pos_flush_chk
  by (intro shared_services.intro shared_services_axioms.intro base_core_inv movement_core_inv pos_check.entry_keeps
      register_row_core_inv) (assumption | rule posted_keeps, assumption, assumption)+

interpretation pos_journal: shared_services journal_inv pos_flush_chk
  by (intro shared_services.intro shared_services_axioms.intro base_journal_inv movement_journal_inv
      pos_check.entry_keeps register_row_journal_inv) (rule posted_keeps)

interpretation pos_vat: shared_services vat_inv pos_flush_chk
  by (intro shared_services.intro shared_services_axioms.intro base_vat_inv movement_vat_inv pos_check.entry_keeps
      register_row_vat_inv) (rule posted_keeps)

section \<open>Operations that an invariant does not notice\<close>

text \<open>
  An invariant that tolerates the shared services and does not depend on the sales documents is kept by every
  operation of the sales service.
\<close>

locale sales_operations = shared_services I sales_flush_chk for I :: "'a sales_db_scheme \<Rightarrow> bool" +
  assumes quotation_tables: "I (s\<lparr>quotations := qs\<rparr>) = I s" "I (s\<lparr>quotation_lines := qls\<rparr>) = I s"
    and order_tables: "I (s\<lparr>sales_orders := os\<rparr>) = I s" "I (s\<lparr>sales_order_lines := ols\<rparr>) = I s"
    and fulfillment_tables: "I (s\<lparr>fulfillments := fs\<rparr>) = I s" "I (s\<lparr>fulfillment_lines := fls\<rparr>) = I s"
    and invoice_tables: "I (s\<lparr>invoices := vs\<rparr>) = I s" "I (s\<lparr>invoice_lines := vls\<rparr>) = I s"
    and payment_table: "I (s\<lparr>payments := ps\<rparr>) = I s"
    and credit_tables: "I (s\<lparr>credit_notes := cs\<rparr>) = I s" "I (s\<lparr>credit_note_lines := cls\<rparr>) = I s"
    and allocation: "pa_supplier_bill_id a = None \<Longrightarrow> I (s\<lparr>payment_allocations := payment_allocations s @ [a]\<rparr>) = I s"
begin

lemmas tables = quotation_tables order_tables fulfillment_tables invoice_tables payment_table credit_tables allocation

lemma keeps_sales_steps:
  "keeps I (add_quotation_line i acc item)" "keeps I (update_quotation i f)" "keeps I (copy_quotation_line i ql)"
  "keeps I (add_order_line i acc' item')" "keeps I (update_order i g)" "keeps I (update_order_line i h)"
  "keeps I (consume_stock context order i product q c)" "keeps I (fulfil_line context order i ls c r)"
  "keeps I (post_fulfillment context ff c)" "keeps I (add_invoice_line i b acc2 ol)" "keeps I (update_invoice i vf)"
  "keeps I (post_invoice context v)" "keeps I (record_vat_for_invoice v)" "keeps I (allocate_payment context pc i it)"
  "keeps I (post_payment context p)" "keeps I (update_invoice_line i lf)" "keeps I (restock_line context cc i pid q c)"
  "keeps I (credit_line_of context cc i j acc3 ci)" "keeps I (post_credit_note context note c)"
  "keeps I (record_vat_for_credit_note note rl)"
  unfolding add_quotation_line_def update_quotation_def copy_quotation_line_def add_order_line_def update_order_def
    update_order_line_def consume_stock_def fulfil_line_def post_fulfillment_def add_invoice_line_def update_invoice_def
    post_invoice_def record_vat_for_invoice_def allocate_payment_def post_payment_def update_invoice_line_def
    restock_line_def credit_line_of_def post_credit_note_def record_vat_for_credit_note_def Let_def
  by (intro keeps_intros keeps_services; simp add: tables)+

lemma keeps_sales_quotations:
  "keeps I (create_quotation context qc)" "keeps I (get_quotation context i)" "keeps I (list_quotations context n m st c)"
  "keeps I (set_quotation_status context i qs)" "keeps I (convert_quotation context i qv)"
  unfolding create_quotation_def get_quotation_def list_quotations_def set_quotation_status_def convert_quotation_def Let_def
  by (intro keeps_intros keeps_services keeps_sales_steps; simp add: tables)+

lemma keeps_sales_orders:
  "keeps I (create_order context oc)" "keeps I (confirm_order context i)" "keeps I (cancel_order context i)"
  "keeps I (get_order context i)" "keeps I (list_orders context n m st c)" "keeps I (fulfil context i fc)"
  unfolding create_order_def confirm_order_def cancel_order_def get_order_def list_orders_def fulfil_def Let_def
  by (intro keeps_intros keeps_services keeps_sales_steps; simp add: tables)+

lemma keeps_sales_invoices:
  "keeps I (create_invoice context ic)" "keeps I (issue_draft context i)" "keeps I (issue_invoice h fl context i k)"
  "keeps I (get_invoice context i)" "keeps I (list_invoices context n m st c)" "keeps I (take_payment context pc ko)"
  "keeps I (record_payment hp fl context pc ko)" "keeps I (issue_credit_note context cc)"
  "keeps I (receivables nk context)" "keeps I (ar_aging nk context d)"
  unfolding create_invoice_def issue_draft_def issue_invoice_def get_invoice_def list_invoices_def take_payment_def
    record_payment_def issue_credit_note_def receivables_def ar_aging_def Let_def
  by (intro keeps_intros keeps_services keeps_sales_steps; simp add: tables)+

lemmas keeps_sales = keeps_sales_quotations keeps_sales_orders keeps_sales_invoices

end

interpretation sales_stock: sales_operations "core_inv True"
  by unfold_locales (rule core_inv_cong; simp add: same_inventory_def)+

interpretation sales_journal: sales_operations journal_inv
  by unfold_locales (simp_all add: journal_inv_def)

interpretation sales_vat: sales_operations vat_inv
  by unfold_locales (rule vat_inv_cong; simp)+

text \<open>The same for the purchasing service and for the point of sale.\<close>

locale purchasing_operations = shared_services I purchasing_flush_chk for I :: "'a purchasing_db_scheme \<Rightarrow> bool" +
  assumes purchase_tables: "I (s\<lparr>purchase_orders := os\<rparr>) = I s" "I (s\<lparr>purchase_order_lines := ols\<rparr>) = I s"
    and receipt_tables: "I (s\<lparr>goods_receipts := gs\<rparr>) = I s" "I (s\<lparr>goods_receipt_lines := gls\<rparr>) = I s"
    and bill_tables: "I (s\<lparr>supplier_bills := bs\<rparr>) = I s" "I (s\<lparr>supplier_bill_lines := bls\<rparr>) = I s"
    and payment_table: "I (s\<lparr>payments := ps\<rparr>) = I s"
    and allocation: "pa_invoice_id a = None \<Longrightarrow> I (s\<lparr>payment_allocations := payment_allocations s @ [a]\<rparr>) = I s"
begin

lemmas tables = purchase_tables receipt_tables bill_tables payment_table allocation

lemma keeps_purchasing_steps:
  "keeps I (add_purchase_line i acc item)" "keeps I (update_purchase_order i f)" "keeps I (update_purchase_line i h)"
  "keeps I (receive_stock context order i product q u c)" "keeps I (receive_line context order i ls c r)"
  "keeps I (post_goods_receipt context grn c)" "keeps I (add_bill_line i b acc2 ol)" "keeps I (update_bill i g)"
  "keeps I (post_bill context bill)" "keeps I (record_vat_for_bill bill)"
  "keeps I (allocate_supplier_payment context sp i it)" "keeps I (post_supplier_payment context p)"
  unfolding add_purchase_line_def update_purchase_order_def update_purchase_line_def receive_stock_def receive_line_def
    post_goods_receipt_def add_bill_line_def update_bill_def post_bill_def record_vat_for_bill_def
    allocate_supplier_payment_def post_supplier_payment_def Let_def
  by (intro keeps_intros keeps_services; simp add: tables)+

lemma keeps_purchasing_orders:
  "keeps I (create_purchase_order context poc)" "keeps I (confirm_purchase_order context i)"
  "keeps I (cancel_purchase_order context i)" "keeps I (get_purchase_order context i)"
  "keeps I (list_purchase_orders context n m st c)" "keeps I (receive context i grc)"
  unfolding create_purchase_order_def confirm_purchase_order_def cancel_purchase_order_def get_purchase_order_def
    list_purchase_orders_def receive_def Let_def
  by (intro keeps_intros keeps_services keeps_purchasing_steps; simp add: tables)+

lemma keeps_purchasing_bills:
  "keeps I (create_bill context sbc)" "keeps I (issue_bill context i)" "keeps I (get_bill context i)"
  "keeps I (list_bills context n m st c)" "keeps I (make_supplier_payment context sp ko)"
  "keeps I (record_supplier_payment h fl context sp ko)" "keeps I (payables nk context)" "keeps I (ap_aging nk context d)"
  unfolding create_bill_def issue_bill_def get_bill_def list_bills_def make_supplier_payment_def
    record_supplier_payment_def payables_def ap_aging_def Let_def
  by (intro keeps_intros keeps_services keeps_purchasing_steps; simp add: tables)+

lemmas keeps_purchasing = keeps_purchasing_orders keeps_purchasing_bills

end

interpretation purchasing_stock: purchasing_operations "core_inv True"
  by unfold_locales (rule core_inv_cong; simp add: same_inventory_def)+

interpretation purchasing_journal: purchasing_operations journal_inv
  by unfold_locales (simp_all add: journal_inv_def)

interpretation purchasing_vat: purchasing_operations vat_inv
  by unfold_locales (rule vat_inv_cong; simp)+

locale pos_operations = shared_services I pos_flush_chk for I :: "'a pos_db_scheme \<Rightarrow> bool" +
  assumes terminal_tables: "I (s\<lparr>pos_terminals := ts\<rparr>) = I s" "I (s\<lparr>pos_sessions := ss\<rparr>) = I s"
    and sale_tables: "I (s\<lparr>sales := xs\<rparr>) = I s" "I (s\<lparr>sale_lines := xls\<rparr>) = I s" "I (s\<lparr>sale_payments := xps\<rparr>) = I s"
    and other_tables: "I (s\<lparr>held_sales := hs\<rparr>) = I s" "I (s\<lparr>receipts := rs\<rparr>) = I s"
    and return_tables: "I (s\<lparr>sale_returns := srs\<rparr>) = I s" "I (s\<lparr>sale_return_lines := srls\<rparr>) = I s"
begin

lemmas tables = terminal_tables sale_tables other_tables return_tables

lemma keeps_pos_steps:
  "keeps I (update_pos_session i f)" "keeps I (take_sold_stock context w i product q)" "keeps I (add_sale_line context w i acc item)"
  "keeps I (add_tender i ti)" "keeps I (post_sale context sl)" "keeps I (record_vat_for_sale sl ls)" "keeps I (update_sale i g)"
  "keeps I (update_sale_line i lf)" "keeps I (return_stock context w i product q)"
  "keeps I (refund_line context sl i ls acc2 it)" "keeps I (post_refund context sr n t c)"
  "keeps I (record_vat_for_refund sr rl)" "keeps I (update_sale_return i rf)"
  unfolding update_pos_session_def take_sold_stock_def add_sale_line_def add_tender_def post_sale_def record_vat_for_sale_def
    update_sale_def update_sale_line_def return_stock_def refund_line_def post_refund_def record_vat_for_refund_def
    update_sale_return_def Let_def
  by (intro keeps_intros keeps_services; simp add: tables)+

lemma keeps_pos_sessions:
  "keeps I (list_terminals ck context)" "keeps I (current_session context i)" "keeps I (create_terminal context tmc)"
  "keeps I (update_terminal context i tmu)" "keeps I (open_session context sop)" "keeps I (close_session context i scl)"
  unfolding list_terminals_def current_session_def create_terminal_def update_terminal_def open_session_def
    close_session_def Let_def
  by (intro keeps_intros keeps_services keeps_pos_steps; simp add: tables)+

lemma keeps_ring_up: "keeps I (ring_up context co)"
  unfolding ring_up_def Let_def
  by (intro keeps_intros keeps_services keeps_pos_steps; simp add: tables)

lemma keeps_take_back: "keeps I (take_back context rf)"
  unfolding take_back_def Let_def
  by (intro keeps_intros keeps_services keeps_pos_steps; simp add: tables)

lemma keeps_pos_sales:
  "keeps I (checkout h fl context co k)" "keeps I (hold context hc)" "keeps I (list_holds context i)"
  "keeps I (resume context i)" "keeps I (refund hr fl context rf k)" "keeps I (sale_detail context i)"
  unfolding checkout_def hold_def list_holds_def resume_def refund_def sale_detail_def Let_def
  by (intro keeps_intros keeps_services keeps_pos_steps keeps_ring_up keeps_take_back; simp add: tables)+

lemmas keeps_pos = keeps_pos_sessions keeps_pos_sales

end

interpretation pos_stock: pos_operations "core_inv True"
  by unfold_locales (rule core_inv_cong; simp add: same_inventory_def)+

interpretation pos_journal: pos_operations journal_inv
  by unfold_locales (simp_all add: journal_inv_def)

interpretation pos_vat: pos_operations vat_inv
  by unfold_locales (rule vat_inv_cong; simp)+

end
