(* ===== verification/Tallies.thy ===== *)
theory Tallies
  imports Keeps
begin

text \<open>
  The counters of the documents. A row that counts what other rows did to it (the fulfilled quantity of an order
  line, the paid amount of an invoice, the refunded quantity of a sale line) is \<open>tallied\<close> when the counter is the
  sum of those rows. The document modules share these lemmas, the exactness of their decimal sums and the rule for
  loops that work on a snapshot of rows.
\<close>

section \<open>Tallies\<close>

definition tallied ::
  "('p \<Rightarrow> uuid) \<Rightarrow> ('p \<Rightarrow> rat) \<Rightarrow> ('c \<Rightarrow> uuid option) \<Rightarrow> ('c \<Rightarrow> rat) \<Rightarrow> 'p list \<Rightarrow> 'c list \<Rightarrow> bool"
where
  "tallied key cnt ref amount ps cs \<longleftrightarrow>
     (\<forall>p \<in> set ps. cnt p = sum_list (map amount (filter (\<lambda>c. ref c = Some (key p)) cs)))
     \<and> (\<forall>c \<in> set cs. \<forall>k. ref c = Some k \<longrightarrow> k \<in> key ` set ps)"

lemma tallied_Nil [simp]: "tallied key cnt ref amount [] cs \<longleftrightarrow> (\<forall>c \<in> set cs. ref c = None)"
  by (auto simp: tallied_def)

lemma tallied_new_row:
  assumes "tallied key cnt ref amount ps cs" and "key p \<notin> key ` set ps" and "cnt p = 0"
  shows "tallied key cnt ref amount (ps @ [p]) cs"
proof -
  have "filter (\<lambda>c. ref c = Some (key p)) cs = []"
    using assms(1,2) by (auto simp: tallied_def filter_empty_conv)
  then show ?thesis using assms by (auto simp: tallied_def)
qed

lemma tallied_new_rows:
  assumes "tallied key cnt ref amount ps cs" and "unique_on key (ps @ new)" and "\<forall>p \<in> set new. cnt p = 0"
  shows "tallied key cnt ref amount (ps @ new) cs"
  using assms(2,3)
proof (induction new rule: rev_induct)
  case Nil
  then show ?case using assms(1) by simp
next
  case (snoc p new)
  then have "tallied key cnt ref amount ((ps @ new) @ [p]) cs" by (intro tallied_new_row) auto
  then show ?case by simp
qed

lemma tallied_other_child:
  "tallied key cnt ref amount ps cs \<Longrightarrow> ref c = None \<Longrightarrow> tallied key cnt ref amount ps (cs @ [c])"
  by (simp add: tallied_def)

lemma tallied_update:
  assumes "tallied key cnt ref amount ps cs" and "\<And>p. key (f p) = key p" and "\<And>p. cnt (f p) = cnt p"
  shows "tallied key cnt ref amount (upd_where P f ps) cs"
proof -
  have "key ` set (upd_where P f ps) = key ` set ps"
    using map_upd_where[of key f P ps] assms(2) by (metis list.set_map)
  moreover have "cnt p = sum_list (map amount (filter (\<lambda>c. ref c = Some (key p)) cs))"
    if "p \<in> set (upd_where P f ps)" for p
    using assms that by (auto simp: tallied_def set_upd_where split: if_splits)
  ultimately show ?thesis using assms(1) by (auto simp: tallied_def)
qed

text \<open>The central step: a row is added and the counter it refers to moves with it.\<close>

lemma tallied_count:
  assumes t: "tallied key cnt ref amount ps cs" and c: "ref c = Some k" "k \<in> key ` set ps"
    and f: "\<And>p. key (f p) = key p" "\<And>p. p \<in> set ps \<Longrightarrow> key p = k \<Longrightarrow> cnt (f p) = cnt p + amount c"
  shows "tallied key cnt ref amount (upd_where (\<lambda>p. key p = k) f ps) (cs @ [c])"
proof -
  have "key ` set (upd_where (\<lambda>p. key p = k) f ps) = key ` set ps"
    using map_upd_where[of key f "\<lambda>p. key p = k" ps] f(1) by (metis list.set_map)
  moreover have "cnt p = sum_list (map amount (filter (\<lambda>c. ref c = Some (key p)) (cs @ [c])))"
    if "p \<in> set (upd_where (\<lambda>p. key p = k) f ps)" for p
  proof -
    obtain r where r: "r \<in> set ps" "p = (if key r = k then f r else r)"
      using \<open>p \<in> _\<close> by (auto simp: set_upd_where)
    then have "cnt r = sum_list (map amount (filter (\<lambda>c. ref c = Some (key r)) cs))"
      using t by (simp add: tallied_def)
    then show ?thesis using r c f by auto
  qed
  ultimately show ?thesis using t c by (auto simp: tallied_def)
qed

lemma tallied_child_update [simp]:
  assumes "\<And>c. ref (f c) = ref c" and "\<And>c. amount (f c) = amount c"
  shows "tallied key cnt ref amount ps (upd_where P f cs) = tallied key cnt ref amount ps cs"
proof -
  have "map amount (filter (\<lambda>c. ref c = r) (upd_where P f cs)) = map amount (filter (\<lambda>c. ref c = r) cs)" for r
    using assms by (induction cs) (simp_all add: upd_where_def)
  moreover have "ref ` set (upd_where P f cs) = ref ` set cs"
    using map_upd_where[of ref f P cs] assms by (metis list.set_map)
  ultimately show ?thesis by (auto simp: tallied_def) (metis image_iff)+
qed

lemma list_all_updateI: "list_all Q xs \<Longrightarrow> (\<And>x. Q x \<Longrightarrow> Q (f x)) \<Longrightarrow> list_all Q (upd_where P f xs)"
  by (auto simp: list_all_iff set_upd_where)

lemma unique_on_update: "(\<And>r. key (f r) = key r) \<Longrightarrow> unique_on key (upd_where P f rs) = unique_on key rs"
  by simp

section \<open>Exact sums\<close>

lemma ctx28_less_14: "ctx28 x < 10 ^ 14 \<Longrightarrow> x < 10 ^ 14"
proof (rule ccontr)
  assume lt: "ctx28 x < 10 ^ 14" and "\<not> x < 10 ^ 14"
  then have "ctx28 (10 ^ 14) \<le> ctx28 x" by (intro ctx28_mono) simp
  moreover have "ctx28 (10 ^ 14) = 10 ^ 14" by (rule ctx28_exact[where k = 0]) (simp_all add: on_grid_def)
  ultimately show False using lt by simp
qed

lemma dec_add_nonneg: "0 \<le> x \<Longrightarrow> 0 \<le> y \<Longrightarrow> 0 \<le> dec_add x y"
  unfolding dec_add_def by (rule ctx28_nonneg) simp

text \<open>A decimal sum of non-negative amounts that ends in the range of its column lost nothing.\<close>

lemma dec_sum_exact:
  assumes "\<forall>x \<in> set xs. 0 \<le> x \<and> on_grid k x" and "k \<le> 6" and "foldl dec_add 0 xs < 10 ^ 14"
  shows "foldl dec_add 0 xs = sum_list xs"
  using assms(1,3)
proof (induction xs rule: rev_induct)
  case Nil
  then show ?case by simp
next
  case (snoc x xs)
  let ?a = "foldl dec_add 0 xs"
  have nn: "0 \<le> foldl dec_add 0 ys" if "\<forall>y \<in> set ys. (0 :: rat) \<le> y" for ys
    using that by (induction ys rule: rev_induct) (simp_all add: dec_add_nonneg)
  have a0: "0 \<le> ?a" using snoc.prems(1) by (intro nn) simp
  have x: "0 \<le> x" "on_grid k x" using snoc.prems(1) by simp_all
  have "ctx28 (?a + x) < 10 ^ 14" using snoc.prems(2) unfolding dec_add_def[of ?a x, symmetric] by simp
  then have lt: "?a + x < 10 ^ 14" by (rule ctx28_less_14)
  then have eq: "?a = sum_list xs" using snoc a0 x by simp
  have "on_grid k ?a" unfolding eq using snoc.prems(1) on_grid_sum_list[of xs k "\<lambda>x. x"] by simp
  moreover have "\<bar>?a + x\<bar> * 10 ^ k < 10 ^ 28"
  proof -
    have "(10 :: rat) ^ k \<le> 10 ^ 6" using assms(2) by (rule power_increasing) simp
    then have "\<bar>?a + x\<bar> * 10 ^ k \<le> 10 ^ 14 * 10 ^ 6" using lt a0 x by (intro mult_mono) simp_all
    also have "\<dots> < (10 :: rat) ^ 28" by simp
    finally show ?thesis .
  qed
  ultimately show ?case using x eq dec_add_exact[of k ?a x] by simp
qed

section \<open>Loops over a snapshot\<close>

text \<open>
  The elements name different rows; \<open>R x s\<close> says that the row of \<open>x\<close> is still as it was read. A step may change the
  row of its own element only.
\<close>

lemma wp_for_acc_distinct:
  assumes "distinct (map k xs)" and "I acc s" and "\<And>x. x \<in> set xs \<Longrightarrow> R x s"
    and step: "\<And>acc x s. x \<in> set xs \<Longrightarrow> I acc s \<Longrightarrow> R x s \<Longrightarrow>
      wp (f acc x) (\<lambda>acc' s'. I acc' s' \<and> (\<forall>y \<in> set xs. k y \<noteq> k x \<longrightarrow> R y s \<longrightarrow> R y s')) s"
  shows "wp (for_acc f acc xs) I s"
proof -
  have "wp (for_acc f acc ys) I s"
    if "distinct (map k ys)" "set ys \<subseteq> set xs" "I acc s" "\<And>y. y \<in> set ys \<Longrightarrow> R y s" for ys acc s
    using that
  proof (induction ys arbitrary: acc s)
    case Nil
    then show ?case by (simp add: wp_simps)
  next
    case (Cons y ys)
    have "wp (f acc y) (\<lambda>acc' s'. I acc' s' \<and> (\<forall>z \<in> set xs. k z \<noteq> k y \<longrightarrow> R z s \<longrightarrow> R z s')) s"
      using Cons.prems by (intro step) auto
    moreover have "wp (for_acc f acc' ys) I s'"
      if "I acc' s'" "\<forall>z \<in> set xs. k z \<noteq> k y \<longrightarrow> R z s \<longrightarrow> R z s'" for acc' s'
    proof (rule Cons.IH)
      show "distinct (map k ys)" "set ys \<subseteq> set xs" "I acc' s'" using Cons.prems that by auto
      show "R z s'" if "z \<in> set ys" for z
      proof -
        have "k z \<noteq> k y" using Cons.prems(1) that by (auto simp: image_iff)
        then show ?thesis using \<open>\<forall>z \<in> set xs. _\<close> Cons.prems that by auto
      qed
    qed
    ultimately show ?case by (auto simp: wp_simps elim!: wp_mono)
  qed
  from this[of xs acc s] assms(1-3) show ?thesis by simp
qed

section \<open>Invariants of the documents\<close>

text \<open>
  An invariant of the document tables looks at nothing the shared services write, so they keep it whatever
  module calls them.
\<close>

definition documents_only :: "('a vat_db_scheme \<Rightarrow> bool) \<Rightarrow> bool" where
  "documents_only J \<longleftrightarrow> (\<forall>s s'. vat_db.more s' = vat_db.more s \<longrightarrow> J s' = J s)"

lemma documents_onlyD: "documents_only J \<Longrightarrow> vat_db.more s' = vat_db.more s \<Longrightarrow> J s' = J s"
  unfolding documents_only_def by blast

lemma documents_only_conj: "documents_only I \<Longrightarrow> documents_only J \<Longrightarrow> documents_only (\<lambda>s. I s \<and> J s)"
  unfolding documents_only_def by blast

lemma documents_only_base:
  assumes "documents_only J"
  shows "base_services J"
proof (rule base_services.intro)
  fix s n
  show "J (s\<lparr>uuid_count := n\<rparr>) = J s" by (rule documents_onlyD[OF assms]) simp
next
  fix s n
  show "J (s\<lparr>clock_count := n\<rparr>) = J s" by (rule documents_onlyD[OF assms]) simp
next
  fix s n
  show "J (s\<lparr>audit_events := n\<rparr>) = J s" by (rule documents_onlyD[OF assms]) simp
next
  fix s n
  show "J (s\<lparr>document_sequences := n\<rparr>) = J s" by (rule documents_onlyD[OF assms]) simp
next
  fix s n
  show "J (s\<lparr>idempotency_keys := n\<rparr>) = J s" by (rule documents_onlyD[OF assms]) simp
qed

lemma documents_only_services:
  assumes "documents_only J" and "journal_check chk"
  shows "shared_services J chk"
proof (intro shared_services.intro shared_services_axioms.intro documents_only_base[OF assms(1)])
  show "keeps J (post_movement ctx w p ty q u rt ri nt key)" for ctx w p ty q u rt ri nt key
  proof (rule keepsI)
    fix s
    assume J: "J s"
    show "wp (post_movement ctx w p ty q u rt ri nt key) (\<lambda>_. J) s"
    proof (rule movement_more[of J, OF J])
      fix s'
      assume "inventory_db.more s' = inventory_db.more s"
      from documents_onlyD[OF assms(1) inventory_moreD(6)[OF this]] J show "J s'" by simp
    qed
  qed
  show "keeps J (post chk ctx d desc st si ev lines False md None)" for ctx d desc st si ev lines md
    using documents_onlyD[OF assms(1)] posted_keeps(4) by (intro journal_check.entry_keeps[OF assms(2)]) blast
  show "keeps J (vat_record dir d st si net tax rate code rv)" for dir d st si net tax rate code rv
  proof (rule keepsI)
    fix s
    assume J: "J s"
    have "J s'" if "vat_db.more s' = vat_db.more s" for s' using documents_onlyD[OF assms(1) that] J by simp
    then show "wp (vat_record dir d st si net tax rate code rv) (\<lambda>_. J) s" by (simp add: vat_record_def wp_simps Let_def)
  qed
qed

section \<open>Lines of documents\<close>

text \<open>What the schemas guarantee of quantities, amounts and rates (\<^verbatim>\<open>Field(gt=0, max_digits=20, decimal_places=6)\<close> and the like).\<close>

definition valid_quantity :: "rat \<Rightarrow> bool" where
  "valid_quantity q \<longleftrightarrow> 0 < q \<and> on_grid 6 q \<and> q < 10 ^ 14"

definition valid_amount :: "rat \<Rightarrow> bool" where
  "valid_amount m \<longleftrightarrow> 0 < m \<and> on_grid 4 m \<and> m < 10 ^ 14"

definition valid_rate :: "rat \<Rightarrow> bool" where
  "valid_rate r \<longleftrightarrow> 0 \<le> r \<and> r \<le> 1 \<and> on_grid 6 r"

text \<open>A counter of a quantity: on the grid of its column and within the quantity.\<close>

definition counted :: "rat \<Rightarrow> rat \<Rightarrow> bool" where
  "counted n q \<longleftrightarrow> 0 \<le> n \<and> n \<le> q \<and> on_grid 6 n"

lemma counted_0 [simp]: "valid_quantity q \<Longrightarrow> counted 0 q"
  by (simp add: counted_def valid_quantity_def)

lemma counted_full: "valid_quantity q \<Longrightarrow> counted q q"
  by (simp add: counted_def valid_quantity_def)

lemma quantity_fits: "x < 10 ^ 14 \<Longrightarrow> \<bar>x\<bar> * 10 ^ 6 < 10 ^ 28" if "0 \<le> x" for x :: rat
proof -
  assume "x < 10 ^ 14"
  then have "\<bar>x\<bar> * 10 ^ 6 < 10 ^ 14 * 10 ^ 6" using that by simp
  also have "\<dots> < (10 :: rat) ^ 28" by simp
  finally show ?thesis .
qed

lemma counted_sub:
  assumes "valid_quantity q" "counted m q" "counted n q"
  shows "dec_sub m n = m - n" "on_grid 6 (m - n)" "m - n \<le> q - n"
proof -
  have "\<bar>m - n\<bar> < 10 ^ 14" using assms by (auto simp: counted_def valid_quantity_def)
  then have "\<bar>m - n\<bar> * 10 ^ 6 < 10 ^ 28" using quantity_fits[of "\<bar>m - n\<bar>"] by simp
  then show "dec_sub m n = m - n" using assms by (intro dec_sub_exact[where k = 6]) (simp_all add: counted_def)
  show "on_grid 6 (m - n)" "m - n \<le> q - n" using assms by (auto simp: counted_def)
qed

lemma counted_open:
  assumes "valid_quantity q" "counted m q" "counted n q" "0 < m - n"
  shows "valid_quantity (m - n)"
  using assms counted_sub(2)[OF assms(1-3)] by (auto simp: counted_def valid_quantity_def)

lemma counted_add:
  assumes "valid_quantity q" "counted n q" "valid_quantity d" "d \<le> q - n"
  shows "dec_add n d = n + d" "counted (n + d) q"
proof -
  have "0 \<le> n + d" "n + d < 10 ^ 14" using assms by (auto simp: counted_def valid_quantity_def)
  then have "\<bar>n + d\<bar> * 10 ^ 6 < 10 ^ 28" by (rule quantity_fits)
  then show "dec_add n d = n + d"
    using assms by (intro dec_add_exact[where k = 6]) (simp_all add: counted_def valid_quantity_def)
  show "counted (n + d) q" using assms by (auto simp: counted_def valid_quantity_def)
qed

text \<open>The step of every counter: a row is written and the row it counts for is updated.\<close>

lemma tallied_step:
  assumes "tallied key cnt ref amount ps cs" and "unique_on key ps" and p: "p \<in> set ps" "ref c = Some (key p)"
    and "\<And>r. key (f r) = key r" "\<And>r. cnt (f r) = dec_add (cnt r) d" "amount c = d"
    and q: "valid_quantity q" "counted (cnt p) q" "valid_quantity d" "d \<le> q - cnt p"
  shows "tallied key cnt ref amount (upd_where (\<lambda>r. key r = key p) f ps) (cs @ [c])" "counted (cnt (f p)) q"
proof -
  have same: "r = p" if "r \<in> set ps" "key r = key p" for r
    using assms(2) p(1) that by (auto dest: inj_onD simp: distinct_map)
  show "tallied key cnt ref amount (upd_where (\<lambda>r. key r = key p) f ps) (cs @ [c])"
    using assms(1,5-7) p counted_add(1)[OF q] same by (intro tallied_count) auto
  show "counted (cnt (f p)) q" using assms(6) counted_add[OF q] by simp
qed

text \<open>The amounts of a line are four-place amounts and not negative.\<close>

definition money :: "rat \<Rightarrow> bool" where
  "money x \<longleftrightarrow> 0 \<le> x \<and> on_grid 4 x"

lemma line_totals_money:
  assumes "line_totals q p d t = Inr (net, tax, tot)" and "0 \<le> q" "0 \<le> p" "0 \<le> t" "valid_rate d"
  shows "money net" "money tax" "tot = dec_add net tax"
proof -
  have d: "dec_sub 1 d = 1 - d" using assms(5) by (intro dec_sub_1_rate) (simp_all add: valid_rate_def)
  have n: "0 \<le> dec_mul (dec_mul q p) (1 - d)"
    using assms by (intro dec_mul_nonneg) (simp_all add: valid_rate_def)
  then have t: "0 \<le> dec_mul (dec_mul (dec_mul q p) (1 - d)) t" using assms(4) by (rule dec_mul_nonneg)
  from assms(1) show "tot = dec_add net tax" by (auto simp: line_totals_def Let_def)
  have "net = Money (dec_mul (dec_mul q p) (1 - d))" "tax = Money (dec_mul (dec_mul (dec_mul q p) (1 - d)) t)"
    using assms(1) d by (auto simp: line_totals_def Let_def dest!: round_money_InrD)
  then show "money net" "money tax" using n t by (simp_all add: money_def Money_nonneg)
qed

text \<open>The totals of a document that passed the range check are the exact sums of its lines.\<close>

lemma document_totals:
  assumes "\<forall>l \<in> set ls. money (net l) \<and> money (tax l)"
    and "dec_add (foldl dec_add 0 (map net ls)) (foldl dec_add 0 (map tax ls)) < 10 ^ 14"
  shows "foldl dec_add 0 (map net ls) = sum_list (map net ls)" "foldl dec_add 0 (map tax ls) = sum_list (map tax ls)"
    and "dec_add (foldl dec_add 0 (map net ls)) (foldl dec_add 0 (map tax ls)) = sum_list (map net ls) + sum_list (map tax ls)"
    and "money (sum_list (map net ls))" "money (sum_list (map tax ls))" "sum_list (map net ls) + sum_list (map tax ls) < 10 ^ 14"
proof -
  let ?n = "foldl dec_add 0 (map net ls)" and ?t = "foldl dec_add 0 (map tax ls)"
  have nn: "0 \<le> foldl dec_add 0 ys" if "\<forall>y \<in> set ys. (0 :: rat) \<le> y" for ys
    using that by (induction ys rule: rev_induct) (simp_all add: dec_add_nonneg)
  have n0: "0 \<le> ?n" and t0: "0 \<le> ?t" using assms(1) by (intro nn; simp add: money_def)+
  have lt: "?n + ?t < 10 ^ 14" using assms(2) unfolding dec_add_def[of ?n ?t] by (rule ctx28_less_14)
  show n: "?n = sum_list (map net ls)"
    using assms(1) lt t0 by (intro dec_sum_exact[where k = 4]) (auto simp: money_def)
  show t: "?t = sum_list (map tax ls)"
    using assms(1) lt n0 by (intro dec_sum_exact[where k = 4]) (auto simp: money_def)
  have gn: "on_grid 4 ?n" and gt: "on_grid 4 ?t"
    unfolding n t using assms(1) by (auto simp: money_def intro: on_grid_sum_list)
  show "money (sum_list (map net ls))" "money (sum_list (map tax ls))"
    using n0 t0 gn gt unfolding n t by (simp_all add: money_def)
  show "sum_list (map net ls) + sum_list (map tax ls) < 10 ^ 14" using lt unfolding n t .
  have "dec_add ?n ?t = ?n + ?t" using lt n0 t0 gn gt by (intro dec_add_exact[where k = 4]) simp_all
  then show "dec_add ?n ?t = sum_list (map net ls) + sum_list (map tax ls)" unfolding n t .
qed

lemma tallied_new_document:
  assumes "tallied key cnt ref amount ps cs" and "unique_on key (ps @ [p])"
    and "\<forall>c \<in> set new. ref c = Some (key p)" and "cnt p = sum_list (map amount new)"
  shows "tallied key cnt ref amount (ps @ [p]) (cs @ new)"
proof -
  have fresh: "key p \<notin> key ` set ps" using assms(2) by auto
  then have "filter (\<lambda>c. ref c = Some (key p)) cs = []"
    using assms(1) by (auto simp: tallied_def filter_empty_conv)
  moreover have "filter (\<lambda>c. ref c = Some (key p)) new = new" using assms(3) by (simp add: filter_id_conv)
  moreover have "filter (\<lambda>c. ref c = Some (key q)) new = []" if "q \<in> set ps" for q
    using assms(3) fresh that by (auto simp: filter_empty_conv image_iff)
  ultimately show ?thesis using assms by (auto simp: tallied_def)
qed

lemma documents_onlyI: "(\<And>s s'. vat_db.more s' = vat_db.more s \<Longrightarrow> J s' = J s) \<Longrightarrow> documents_only J"
  unfolding documents_only_def by blast

text \<open>The lines a loop has added to a table, with the totals it carries.\<close>

definition added ::
  "('l \<Rightarrow> uuid) \<Rightarrow> ('l \<Rightarrow> rat) \<Rightarrow> ('l \<Rightarrow> rat) \<Rightarrow> ('l \<Rightarrow> bool) \<Rightarrow> uuid \<Rightarrow> 'l list \<Rightarrow> rat \<times> rat \<Rightarrow> bool"
where
  "added doc net tax ok i new acc \<longleftrightarrow>
     (\<forall>l \<in> set new. doc l = i \<and> ok l \<and> money (net l) \<and> money (tax l))
     \<and> acc = (foldl dec_add 0 (map net new), foldl dec_add 0 (map tax new))"

lemma added_Nil [simp]: "added doc net tax ok i [] (0, 0)"
  by (simp add: added_def)

lemma added_snoc:
  "added doc net tax ok i new (n, t) \<Longrightarrow> doc l = i \<Longrightarrow> ok l \<Longrightarrow> money (net l) \<Longrightarrow> money (tax l) \<Longrightarrow>
   net l = a \<Longrightarrow> tax l = b \<Longrightarrow> added doc net tax ok i (new @ [l]) (dec_add n a, dec_add t b)"
  by (auto simp: added_def)

text \<open>Writing the document after its lines keeps the tallies of both totals.\<close>

lemma added_tallied:
  assumes "added doc net tax ok (key p) new (n, t)" and "unique_on key (ps @ [p])"
    and "tallied key cn (\<lambda>l. Some (doc l)) net ps ls" "tallied key ct (\<lambda>l. Some (doc l)) tax ps ls"
    and "cn p = n" "ct p = t" "tot p = dec_add n t" "in_range 14 (tot p)"
  shows "tallied key cn (\<lambda>l. Some (doc l)) net (ps @ [p]) (ls @ new)"
    and "tallied key ct (\<lambda>l. Some (doc l)) tax (ps @ [p]) (ls @ new)"
    and "tot p = cn p + ct p" and "money (tot p)" "tot p < 10 ^ 14"
proof -
  have new: "\<forall>l \<in> set new. money (net l) \<and> money (tax l)" "\<forall>l \<in> set new. Some (doc l) = Some (key p)"
    and acc: "n = foldl dec_add 0 (map net new)" "t = foldl dec_add 0 (map tax new)"
    using assms(1) by (simp_all add: added_def)
  have "dec_add (foldl dec_add 0 (map net new)) (foldl dec_add 0 (map tax new)) < 10 ^ 14"
    using assms(7,8) acc by (simp add: in_range_def)
  note dt = document_totals[OF new(1) this]
  show "tallied key cn (\<lambda>l. Some (doc l)) net (ps @ [p]) (ls @ new)"
    "tallied key ct (\<lambda>l. Some (doc l)) tax (ps @ [p]) (ls @ new)"
    using assms acc new dt by (auto intro!: tallied_new_document)
  show "tot p = cn p + ct p" "money (tot p)" "tot p < 10 ^ 14"
    using assms acc dt by (auto simp: money_def)
qed

lemma list_all_update_row:
  "unique_on key rs \<Longrightarrow> p \<in> set rs \<Longrightarrow> list_all Q rs \<Longrightarrow> Q (f p) \<Longrightarrow> list_all Q (upd_where (\<lambda>r. key r = key p) f rs)"
  by (auto simp: list_all_iff set_upd_where distinct_map dest: inj_onD)

lemma dict_set_keys: "distinct (map fst d) \<Longrightarrow> distinct (map fst (dict_set k v d))"
proof -
  have "fst ` set (dict_set k v d) = insert k (fst ` set d)" for d :: "('a \<times> 'b) list"
    by (induction k v d rule: dict_set.induct) auto
  then show "distinct (map fst d) \<Longrightarrow> distinct (map fst (dict_set k v d))"
    by (induction k v d rule: dict_set.induct) auto
qed

lemma dict_set_all: "list_all P d \<Longrightarrow> P (k, v) \<Longrightarrow> list_all P (dict_set k v d)"
  by (induction k v d rule: dict_set.induct) auto

lemma documents_same: "documents_only (\<lambda>t. vat_db.more t = vat_db.more s)"
  by (simp add: documents_only_def)

lemma triple_read_documents:
  assumes "\<And>t. vat_db.more t = vat_db.more s \<Longrightarrow> f t = f s" and "triple (\<lambda>t. vat_db.more t = vat_db.more s) (g (f s)) Q"
  shows "triple (\<lambda>t. vat_db.more t = vat_db.more s) (bnd (gets f) g) Q"
proof (rule tripleI)
  fix t
  assume t: "vat_db.more t = vat_db.more s"
  from tripleD[OF assms(2) t] show "wp (bnd (gets f) g) Q t" by (simp add: wp_simps assms(1)[OF t])
qed

end
