(* ===== verification/Sales_Invariant.thy ===== *)
theory Sales_Invariant
  imports Tallies
begin

text \<open>
  The invariants of the sales documents: the totals of a document are the sums of its lines (\<open>quotation_sums\<close>,
  \<open>order_sums\<close>, \<open>invoice_sums\<close>, \<open>credit_sums\<close>); an order line counts what was fulfilled and invoiced of it
  (\<open>order_counts\<close>), an invoice line what was credited (\<open>credit_counts\<close>) and an invoice what was paid
  (\<open>settlement\<close>). Every operation of the sales service keeps them.
\<close>

section \<open>Invariants\<close>

definition valid_line :: "LineInput \<Rightarrow> bool" where
  "valid_line i \<longleftrightarrow> valid_quantity (li_quantity i) \<and> money (li_unit_price i) \<and> valid_rate (li_discount_rate i)
     \<and> valid_rate (li_tax_rate i)"

definition priced_line :: "'a LineTotals_scheme \<Rightarrow> bool" where
  "priced_line l \<longleftrightarrow> valid_quantity (lt_quantity l) \<and> 0 \<le> lt_unit_price l \<and> valid_rate (lt_discount_rate l)
     \<and> 0 \<le> lt_tax_rate l"

definition sold_line :: "'a LineTotals_scheme \<Rightarrow> bool" where
  "sold_line l \<longleftrightarrow> priced_line l \<and> money (lt_net_amount l) \<and> money (lt_tax_amount l)"

definition quotation_sums :: "'a sales_db_scheme \<Rightarrow> bool" where
  "quotation_sums s \<longleftrightarrow> unique_on qt_id (quotations s) \<and> list_all sold_line (quotation_lines s)
     \<and> tallied qt_id qt_net_amount (\<lambda>l. Some (ql_quotation_id l)) lt_net_amount (quotations s) (quotation_lines s)
     \<and> tallied qt_id qt_tax_amount (\<lambda>l. Some (ql_quotation_id l)) lt_tax_amount (quotations s) (quotation_lines s)
     \<and> list_all (\<lambda>q. qt_total_amount q = qt_net_amount q + qt_tax_amount q) (quotations s)"

definition order_sums :: "'a sales_db_scheme \<Rightarrow> bool" where
  "order_sums s \<longleftrightarrow> unique_on so_id (sales_orders s) \<and> list_all sold_line (sales_order_lines s)
     \<and> tallied so_id so_net_amount (\<lambda>l. Some (sol_order_id l)) lt_net_amount (sales_orders s) (sales_order_lines s)
     \<and> tallied so_id so_tax_amount (\<lambda>l. Some (sol_order_id l)) lt_tax_amount (sales_orders s) (sales_order_lines s)
     \<and> list_all (\<lambda>q. so_total_amount q = so_net_amount q + so_tax_amount q) (sales_orders s)"

definition invoice_sums :: "'a sales_db_scheme \<Rightarrow> bool" where
  "invoice_sums s \<longleftrightarrow> unique_on inv_id (invoices s) \<and> list_all sold_line (invoice_lines s)
     \<and> tallied inv_id inv_net_amount (\<lambda>l. Some (il_invoice_id l)) lt_net_amount (invoices s) (invoice_lines s)
     \<and> tallied inv_id inv_tax_amount (\<lambda>l. Some (il_invoice_id l)) lt_tax_amount (invoices s) (invoice_lines s)
     \<and> list_all (\<lambda>v. inv_total_amount v = inv_net_amount v + inv_tax_amount v) (invoices s)"

definition credit_sums :: "'a sales_db_scheme \<Rightarrow> bool" where
  "credit_sums s \<longleftrightarrow> unique_on cn_id (credit_notes s)
     \<and> tallied cn_id cn_net_amount (\<lambda>l. Some (cl_credit_note_id l)) lt_net_amount (credit_notes s) (credit_note_lines s)
     \<and> tallied cn_id cn_tax_amount (\<lambda>l. Some (cl_credit_note_id l)) lt_tax_amount (credit_notes s) (credit_note_lines s)
     \<and> list_all (\<lambda>n. cn_total_amount n = cn_net_amount n + cn_tax_amount n) (credit_notes s)"

definition order_line_counts :: "sales_order_line \<Rightarrow> bool" where
  "order_line_counts l \<longleftrightarrow> priced_line l \<and> counted (sol_fulfilled_quantity l) (lt_quantity l)
     \<and> counted (sol_invoiced_quantity l) (lt_quantity l)"

definition order_counts :: "'a sales_db_scheme \<Rightarrow> bool" where
  "order_counts s \<longleftrightarrow> unique_on sol_id (sales_order_lines s)
     \<and> list_all order_line_counts (sales_order_lines s)
     \<and> tallied sol_id sol_fulfilled_quantity (\<lambda>l. Some (fl_order_line_id l)) fl_quantity (sales_order_lines s) (fulfillment_lines s)
     \<and> tallied sol_id sol_invoiced_quantity il_order_line_id lt_quantity (sales_order_lines s) (invoice_lines s)"

definition invoice_line_counts :: "invoice_line \<Rightarrow> bool" where
  "invoice_line_counts l \<longleftrightarrow> priced_line l \<and> counted (il_credited_quantity l) (lt_quantity l)"

definition credit_counts :: "'a sales_db_scheme \<Rightarrow> bool" where
  "credit_counts s \<longleftrightarrow> unique_on il_id (invoice_lines s)
     \<and> list_all invoice_line_counts (invoice_lines s)
     \<and> tallied il_id il_credited_quantity (\<lambda>l. Some (cl_invoice_line_id l)) lt_quantity (invoice_lines s) (credit_note_lines s)"

text \<open>The status of an invoice tells how much of it is paid.\<close>

definition settled :: "invoice \<Rightarrow> bool" where
  "settled v \<longleftrightarrow> money (inv_total_amount v) \<and> inv_total_amount v < 10 ^ 14 \<and> money (inv_paid_amount v)
     \<and> inv_paid_amount v \<le> inv_total_amount v
     \<and> (case inv_status v of
          INV_PARTIALLY_PAID \<Rightarrow> 0 < inv_paid_amount v \<and> inv_paid_amount v < inv_total_amount v
        | INV_PAID \<Rightarrow> 0 < inv_paid_amount v \<and> inv_paid_amount v = inv_total_amount v
        | _ \<Rightarrow> inv_paid_amount v = 0)"

definition settlement :: "'a sales_db_scheme \<Rightarrow> bool" where
  "settlement s \<longleftrightarrow> unique_on inv_id (invoices s) \<and> list_all settled (invoices s)
     \<and> tallied inv_id inv_paid_amount pa_invoice_id pa_amount (invoices s) (payment_allocations s)"

lemma sales_moreD:
  fixes s s' :: "'a sales_db_scheme"
  assumes "vat_db.more s' = vat_db.more s"
  shows "quotations s' = quotations s" "quotation_lines s' = quotation_lines s" "sales_orders s' = sales_orders s"
    "sales_order_lines s' = sales_order_lines s" "fulfillments s' = fulfillments s" "fulfillment_lines s' = fulfillment_lines s"
    "invoices s' = invoices s" "invoice_lines s' = invoice_lines s" "payments s' = payments s"
    "payment_allocations s' = payment_allocations s" "credit_notes s' = credit_notes s"
    "credit_note_lines s' = credit_note_lines s" "sales_db.more s' = sales_db.more s"
  using assms by (cases s; cases s'; simp)+

lemma sales_documents_only:
  "documents_only (quotation_sums :: 'a sales_db_scheme \<Rightarrow> bool)" "documents_only (order_sums :: 'a sales_db_scheme \<Rightarrow> bool)"
  "documents_only (invoice_sums :: 'a sales_db_scheme \<Rightarrow> bool)" "documents_only (credit_sums :: 'a sales_db_scheme \<Rightarrow> bool)"
  "documents_only (order_counts :: 'a sales_db_scheme \<Rightarrow> bool)" "documents_only (credit_counts :: 'a sales_db_scheme \<Rightarrow> bool)"
  "documents_only (settlement :: 'a sales_db_scheme \<Rightarrow> bool)"
  by (rule documents_onlyI, frule sales_moreD(1), frule sales_moreD(2), frule sales_moreD(3), frule sales_moreD(4),
      frule sales_moreD(6), frule sales_moreD(7), frule sales_moreD(8), frule sales_moreD(10), frule sales_moreD(11),
      frule sales_moreD(12),
      simp add: quotation_sums_def order_sums_def invoice_sums_def credit_sums_def order_counts_def credit_counts_def
        settlement_def)+

section \<open>Services\<close>

lemma sales_services: "documents_only J \<Longrightarrow> shared_services J sales_flush_chk"
  by (rule documents_only_services) (simp_all add: sales_check.journal_check_axioms)

lemmas sales_keeps = shared_services.keeps_services[OF sales_services]

section \<open>Quotations\<close>

lemma valid_line_totals:
  assumes "valid_line i" and "line_totals (li_quantity i) (li_unit_price i) (li_discount_rate i) (li_tax_rate i) = Inr (n, t, x)"
  shows "money n" "money t"
  using assms line_totals_money[of "li_quantity i" "li_unit_price i" "li_discount_rate i" "li_tax_rate i" n t x]
  by (auto simp: valid_line_def valid_quantity_def valid_rate_def money_def)

lemma added_item:
  assumes "added doc lt_net_amount lt_tax_amount sold_line i new (n, t)" and "valid_line item"
    and "line_totals (li_quantity item) (li_unit_price item) (li_discount_rate item) (li_tax_rate item) = Inr (a, b, y)"
    and "doc l = i" "lt_quantity l = li_quantity item" "lt_unit_price l = li_unit_price item"
      "lt_discount_rate l = li_discount_rate item" "lt_tax_rate l = li_tax_rate item" "lt_net_amount l = a" "lt_tax_amount l = b"
  shows "added doc lt_net_amount lt_tax_amount sold_line i (new @ [l]) (dec_add n a, dec_add t b)"
  using assms(2-) valid_line_totals[OF assms(2,3)]
  by (intro added_snoc[OF assms(1)]) (auto simp: sold_line_def priced_line_def valid_line_def valid_rate_def money_def)

lemma quotation_lines_added:
  assumes "list_all valid_line items" and "vat_db.more t = vat_db.more s"
  shows "wp (for_acc (add_quotation_line i) (0, 0) items)
           (\<lambda>acc t. \<exists>new. added ql_quotation_id lt_net_amount lt_tax_amount sold_line i new acc
              \<and> quotation_lines t = quotation_lines s @ new \<and> quotations t = quotations s) t"
    (is "wp _ ?I t")
proof (rule wp_for_acc)
  show "?I (0, 0) t" using sales_moreD[OF assms(2)] by (intro exI[of _ "[]"]) simp
next
  fix acc item t
  assume item: "item \<in> set items" and "?I acc t"
  then obtain n x new where acc: "acc = (n, x)"
    and new: "added ql_quotation_id lt_net_amount lt_tax_amount sold_line i new (n, x)"
    and t: "quotation_lines t = quotation_lines s @ new" "quotations t = quotations s" by (cases acc) auto
  have v: "valid_line item" using item assms(1) by (simp add: list_all_iff)
  show "wp (add_quotation_line i acc item) ?I t"
    unfolding add_quotation_line_def acc get_product_def
    by (auto simp: wp_simps t intro!: added_item[OF new v])
qed

lemma quotation_written:
  assumes "quotation_sums s" and "sales_chk t = None"
    and "quotations t = quotations s @ [q]" "quotation_lines t = quotation_lines s @ new"
    and "added ql_quotation_id lt_net_amount lt_tax_amount sold_line (qt_id q) new (qt_net_amount q, qt_tax_amount q)"
    and "qt_total_amount q = dec_add (qt_net_amount q) (qt_tax_amount q)"
  shows "quotation_sums t"
proof -
  have c: "unique_on qt_id (quotations s @ [q])" "in_range 14 (qt_total_amount q)"
    using assms by (simp_all add: sales_chk_def sales_constraints_def)
  have "tallied qt_id qt_net_amount (\<lambda>l. Some (ql_quotation_id l)) lt_net_amount (quotations s) (quotation_lines s)"
    "tallied qt_id qt_tax_amount (\<lambda>l. Some (ql_quotation_id l)) lt_tax_amount (quotations s) (quotation_lines s)"
    using assms(1) by (simp_all add: quotation_sums_def)
  note at = added_tallied[where key = qt_id and cn = qt_net_amount and ct = qt_tax_amount and tot = qt_total_amount,
      OF assms(5) c(1) this refl refl assms(6) c(2)]
  show ?thesis
    using assms(1,3-5) at c(1) by (auto simp: quotation_sums_def list_all_iff added_def)
qed

lemma create_quotation_sums:
  assumes "list_all valid_line (qc_lines payload)"
  shows "keeps quotation_sums (create_quotation context payload)"
  unfolding create_quotation_def require_branch_def period_def Let_def
  apply (rule keeps_committed)
  apply (simp only: wp_simps)
  apply (intro impI)
  subgoal for s
    apply (rule wp_mono[OF quotation_lines_added[OF assms, of _ s]])
     apply simp
    apply (elim exE conjE)
    apply (simp only: prod.case_eq_if wp_simps)
    apply (rule wp_allocate_frame)
    apply (intro impI)
    apply (rule quotation_written[of s])
    by (assumption | simp)+
  done

section \<open>Changes that an invariant does not notice\<close>

text \<open>Rows that change in other columns than the ones an invariant sums or counts.\<close>

lemma quotation_sums_update:
  assumes "\<And>q. qt_id (f q) = qt_id q \<and> qt_net_amount (f q) = qt_net_amount q \<and> qt_tax_amount (f q) = qt_tax_amount q
      \<and> qt_total_amount (f q) = qt_total_amount q"
  shows "keeps quotation_sums (update_quotation i f)"
  unfolding update_quotation_def
  by (rule keeps_modify) (use assms in \<open>auto simp: quotation_sums_def intro!: tallied_update list_all_updateI\<close>)

lemma order_sums_update:
  assumes "\<And>q. so_id (f q) = so_id q \<and> so_net_amount (f q) = so_net_amount q \<and> so_tax_amount (f q) = so_tax_amount q
      \<and> so_total_amount (f q) = so_total_amount q"
  shows "keeps order_sums (update_order i f)"
  unfolding update_order_def
  by (rule keeps_modify) (use assms in \<open>auto simp: order_sums_def intro!: tallied_update list_all_updateI\<close>)

lemma order_sums_update_line:
  assumes "\<And>l. LineTotals.truncate (f l) = LineTotals.truncate l \<and> sol_order_id (f l) = sol_order_id l"
  shows "keeps order_sums (update_order_line i f)"
proof -
  have "lt_net_amount (f l) = lt_net_amount l" "lt_tax_amount (f l) = lt_tax_amount l" "sold_line (f l) = sold_line l"
    "sol_order_id (f l) = sol_order_id l" for l
    using assms[of l] by (simp_all add: LineTotals.truncate_def sold_line_def priced_line_def)
  then show ?thesis unfolding update_order_line_def
    by (intro keeps_modify) (auto simp: order_sums_def intro!: list_all_updateI)
qed

lemma invoice_sums_update:
  assumes "\<And>q. inv_id (f q) = inv_id q \<and> inv_net_amount (f q) = inv_net_amount q \<and> inv_tax_amount (f q) = inv_tax_amount q
      \<and> inv_total_amount (f q) = inv_total_amount q"
  shows "keeps invoice_sums (update_invoice i f)"
  unfolding update_invoice_def
  by (rule keeps_modify) (use assms in \<open>auto simp: invoice_sums_def intro!: tallied_update list_all_updateI\<close>)

lemma invoice_sums_update_line:
  assumes "\<And>l. LineTotals.truncate (f l) = LineTotals.truncate l \<and> il_invoice_id (f l) = il_invoice_id l"
  shows "keeps invoice_sums (update_invoice_line i f)"
proof -
  have "lt_net_amount (f l) = lt_net_amount l" "lt_tax_amount (f l) = lt_tax_amount l" "sold_line (f l) = sold_line l"
    "il_invoice_id (f l) = il_invoice_id l" for l
    using assms[of l] by (simp_all add: LineTotals.truncate_def sold_line_def priced_line_def)
  then show ?thesis unfolding update_invoice_line_def
    by (intro keeps_modify) (auto simp: invoice_sums_def intro!: list_all_updateI)
qed

lemma settlement_update:
  assumes "\<And>v. settled v \<Longrightarrow> settled (f v)" and "\<And>v. inv_id (f v) = inv_id v" "\<And>v. inv_paid_amount (f v) = inv_paid_amount v"
  shows "keeps settlement (update_invoice i f)"
  unfolding update_invoice_def
  by (rule keeps_modify) (use assms in \<open>auto simp: settlement_def intro!: tallied_update list_all_updateI\<close>)

lemma order_counts_credited: "keeps order_counts (update_invoice_line i (\<lambda>l. l\<lparr>il_credited_quantity := f l\<rparr>))"
  unfolding update_invoice_line_def by (rule keeps_modify) (simp add: order_counts_def)

text \<open>The steps and operations of the service.\<close>

lemmas sales_steps =
  add_quotation_line_def copy_quotation_line_def add_order_line_def consume_stock_def fulfil_line_def
  post_fulfillment_def add_invoice_line_def post_invoice_def record_vat_for_invoice_def allocate_payment_def
  post_payment_def restock_line_def credit_line_of_def post_credit_note_def record_vat_for_credit_note_def

lemmas sales_updates =
  update_quotation_def update_order_def update_order_line_def update_invoice_def update_invoice_line_def

lemmas sales_operation_defs =
  create_quotation_def get_quotation_def list_quotations_def set_quotation_status_def convert_quotation_def
  create_order_def confirm_order_def cancel_order_def get_order_def list_orders_def fulfil_def create_invoice_def
  issue_invoice_def issue_draft_def get_invoice_def list_invoices_def take_payment_def record_payment_def
  issue_credit_note_def receivables_def ar_aging_def

lemma quotation_sums_kept:
  "keeps quotation_sums (set_quotation_status context i st)" "keeps quotation_sums (convert_quotation context i qv)"
  "keeps quotation_sums (create_order context oc)" "keeps quotation_sums (confirm_order context i)"
  "keeps quotation_sums (cancel_order context i)" "keeps quotation_sums (fulfil context i fc)"
  "keeps quotation_sums (create_invoice context ic)" "keeps quotation_sums (issue_invoice h fl context i k)"
  "keeps quotation_sums (record_payment hp fl context pc ko)" "keeps quotation_sums (issue_credit_note context cc)"
  unfolding sales_operation_defs sales_steps Let_def
  by (intro keeps_intros sales_keeps[OF sales_documents_only(1)] quotation_sums_update;
      (auto simp: quotation_sums_def sales_updates intro!: keeps_modify)?)+

section \<open>Quantities of orders\<close>

lemma order_counts_kept:
  "keeps order_counts (create_quotation context qc)" "keeps order_counts (set_quotation_status context i st)"
  "keeps order_counts (confirm_order context i)" "keeps order_counts (cancel_order context i)"
  "keeps order_counts (issue_invoice h fl context i k)" "keeps order_counts (record_payment hp fl context pc ko)"
  "keeps order_counts (issue_credit_note context cc)"
  unfolding sales_operation_defs sales_steps Let_def
  by (intro keeps_intros sales_keeps[OF sales_documents_only(5)] order_counts_credited;
      (auto simp: order_counts_def update_quotation_def update_order_def update_invoice_def intro!: keeps_modify)?)+

text \<open>New order lines count from zero.\<close>

definition new_order_lines :: "'a sales_db_scheme \<Rightarrow> 'a sales_db_scheme \<Rightarrow> bool" where
  "new_order_lines s t \<longleftrightarrow> fulfillment_lines t = fulfillment_lines s \<and> invoice_lines t = invoice_lines s \<and>
     (\<exists>new. sales_order_lines t = sales_order_lines s @ new
       \<and> list_all (\<lambda>l. priced_line l \<and> sol_fulfilled_quantity l = 0 \<and> sol_invoiced_quantity l = 0) new)"

lemma new_order_lines_refl [simp]: "new_order_lines s s"
  by (simp add: new_order_lines_def exI[of _ "[]"])

lemma new_order_lines_add:
  assumes "new_order_lines s t"
    and "priced_line l" "sol_fulfilled_quantity l = 0" "sol_invoiced_quantity l = 0"
  shows "new_order_lines s (t\<lparr>sales_order_lines := sales_order_lines t @ [l]\<rparr>)"
  using assms by (fastforce simp: new_order_lines_def)

lemma new_order_lines_documents: "documents_only (new_order_lines (s :: 'a sales_db_scheme))"
  by (rule documents_onlyI, frule sales_moreD(4), frule sales_moreD(6), frule sales_moreD(8))
    (simp add: new_order_lines_def)

lemma new_order_lines_counts:
  assumes "order_counts s" "new_order_lines s t" "sales_chk t = None"
  shows "order_counts t"
proof -
  obtain new where new: "sales_order_lines t = sales_order_lines s @ new"
    "list_all (\<lambda>l. priced_line l \<and> sol_fulfilled_quantity l = 0 \<and> sol_invoiced_quantity l = 0) new"
    using assms(2) by (auto simp: new_order_lines_def)
  have u: "unique_on sol_id (sales_order_lines s @ new)"
    using assms(3) new by (simp add: sales_chk_def sales_constraints_def)
  have "tallied sol_id sol_fulfilled_quantity (\<lambda>l. Some (fl_order_line_id l)) fl_quantity (sales_order_lines s @ new) (fulfillment_lines s)"
    "tallied sol_id sol_invoiced_quantity il_order_line_id lt_quantity (sales_order_lines s @ new) (invoice_lines s)"
    using assms(1) new(2) by (auto simp: order_counts_def list_all_iff intro!: tallied_new_rows u)
  then show ?thesis using assms(1,2) new u
    by (auto simp: order_counts_def order_line_counts_def new_order_lines_def list_all_iff priced_line_def)
qed

lemma new_order_lines_steps:
  "valid_line item \<Longrightarrow> keeps (new_order_lines s) (add_order_line i acc item)"
  "priced_line l \<Longrightarrow> keeps (new_order_lines s) (copy_quotation_line i l)"
  "keeps (new_order_lines s) (update_quotation i f)"
  unfolding add_order_line_def copy_quotation_line_def update_quotation_def
  by (intro keeps_intros sales_keeps[OF new_order_lines_documents] new_order_lines_add;
      simp add: valid_line_def priced_line_def valid_rate_def money_def new_order_lines_def)+

lemma create_order_counts:
  assumes "list_all valid_line (oc_lines payload)"
  shows "keeps order_counts (create_order context payload)"
  unfolding create_order_def Let_def
  apply (rule keeps_by_commit[where N = new_order_lines])
  subgoal
    using assms by (intro keeps_intros sales_keeps[OF new_order_lines_documents] new_order_lines_steps)
      (simp_all add: list_all_iff new_order_lines_def)
  by (simp_all add: new_order_lines_counts)

text \<open>A conversion copies lines that were checked when the quotation was written.\<close>

lemma repo_quotation_lines_sold: "quotation_sums s \<Longrightarrow> list_all sold_line (repo_quotation_lines i s)"
  by (simp add: quotation_sums_def repo_quotation_lines_def list_all_iff)

lemma convert_quotation_counts:
  "keeps (\<lambda>s. quotation_sums s \<and> order_counts s) (convert_quotation context i payload)"
proof -
  let ?N = "\<lambda>s t. quotation_sums t \<and> new_order_lines s t"
  note docs = documents_only_conj[OF sales_documents_only(1) new_order_lines_documents]
  have read: "keeps (?N s) (bnd (gets (repo_quotation_lines j)) g)"
    if "\<And>ls. list_all sold_line ls \<Longrightarrow> keeps (?N s) (g ls)" for s :: "'a sales_db_scheme" and j g
    using that by (intro keeps_read[where P = "list_all sold_line"]) (auto simp: repo_quotation_lines_sold)
  have copy: "keeps (?N s) (copy_quotation_line j l)" if "sold_line l" for s :: "'a sales_db_scheme" and j l
    using that unfolding copy_quotation_line_def
    by (intro keeps_intros sales_keeps[OF docs]) (auto simp: quotation_sums_def sold_line_def priced_line_def intro!: new_order_lines_add)
  have upd: "keeps (?N s) (update_quotation j (\<lambda>q. q\<lparr>qt_converted_order_id := x\<rparr>))" for s :: "'a sales_db_scheme" and j x
    by (intro keeps_conj new_order_lines_steps quotation_sums_update) simp
  show ?thesis
    unfolding convert_quotation_def Let_def
    apply (rule keeps_by_commit[where N = ?N])
    subgoal
      by (rule read copy upd keeps_intros sales_keeps[OF docs] | (simp add: list_all_iff quotation_sums_def new_order_lines_def; fail))+
    by (auto intro: new_order_lines_counts)
qed

text \<open>Shipping and invoicing a line move its counters within the ordered quantity.\<close>

lemma order_counts_lines: "order_counts s \<Longrightarrow> l \<in> set (sales_order_lines s) \<Longrightarrow> order_line_counts l"
  by (auto simp: order_counts_def list_all_iff)

lemma order_counts_fulfil:
  assumes "order_counts s" "line \<in> set (sales_order_lines s)" "valid_quantity q" "q \<le> lt_quantity line - sol_fulfilled_quantity line"
    and "fl_order_line_id fl = sol_id line" "fl_quantity fl = q"
    and "sales_order_lines t = upd_where (\<lambda>l. sol_id l = sol_id line)
           (\<lambda>l. l\<lparr>sol_fulfilled_quantity := dec_add (sol_fulfilled_quantity l) q\<rparr>) (sales_order_lines s)"
    and "fulfillment_lines t = fulfillment_lines s @ [fl]" "invoice_lines t = invoice_lines s"
  shows "order_counts t"
proof -
  let ?f = "\<lambda>l. l\<lparr>sol_fulfilled_quantity := dec_add (sol_fulfilled_quantity l) q\<rparr>"
  have line: "order_line_counts line" using assms(1,2) by (rule order_counts_lines)
  have "tallied sol_id sol_fulfilled_quantity (\<lambda>l. Some (fl_order_line_id l)) fl_quantity
          (upd_where (\<lambda>r. sol_id r = sol_id line) ?f (sales_order_lines s)) (fulfillment_lines s @ [fl])"
    using assms line by (auto simp: order_counts_def order_line_counts_def priced_line_def
        intro!: tallied_step[where p = line and q = "lt_quantity line" and d = q and cnt = sol_fulfilled_quantity])
  moreover have "counted (dec_add (sol_fulfilled_quantity line) q) (lt_quantity line)"
    using assms(3,4) line counted_add[of "lt_quantity line" "sol_fulfilled_quantity line" q] by (simp add: order_line_counts_def priced_line_def)
  ultimately show ?thesis
    using assms line by (auto simp: order_counts_def order_line_counts_def priced_line_def intro!: tallied_update list_all_update_row)
qed

lemma order_counts_invoice:
  assumes "order_counts s" "line \<in> set (sales_order_lines s)" "valid_quantity q" "q \<le> lt_quantity line - sol_invoiced_quantity line"
    and "il_order_line_id il = Some (sol_id line)" "lt_quantity il = q"
    and "sales_order_lines t = upd_where (\<lambda>l. sol_id l = sol_id line)
           (\<lambda>l. l\<lparr>sol_invoiced_quantity := dec_add (sol_invoiced_quantity l) q\<rparr>) (sales_order_lines s)"
    and "invoice_lines t = invoice_lines s @ [il]" "fulfillment_lines t = fulfillment_lines s"
  shows "order_counts t"
proof -
  let ?f = "\<lambda>l. l\<lparr>sol_invoiced_quantity := dec_add (sol_invoiced_quantity l) q\<rparr>"
  have line: "order_line_counts line" using assms(1,2) by (rule order_counts_lines)
  have "tallied sol_id sol_invoiced_quantity il_order_line_id lt_quantity
          (upd_where (\<lambda>r. sol_id r = sol_id line) ?f (sales_order_lines s)) (invoice_lines s @ [il])"
    using assms line by (auto simp: order_counts_def order_line_counts_def priced_line_def
        intro!: tallied_step[where p = line and q = "lt_quantity line" and d = q and cnt = sol_invoiced_quantity])
  moreover have "counted (dec_add (sol_invoiced_quantity line) q) (lt_quantity line)"
    using assms(3,4) line counted_add[of "lt_quantity line" "sol_invoiced_quantity line" q] by (simp add: order_line_counts_def priced_line_def)
  ultimately show ?thesis
    using assms line by (auto simp: order_counts_def order_line_counts_def priced_line_def intro!: tallied_update list_all_update_row)
qed

lemma order_lines_snapshot:
  assumes "order_counts s"
  shows "set (order_lines i s) \<subseteq> set (sales_order_lines s)" "distinct (map sol_id (order_lines i s))"
proof -
  show "set (order_lines i s) \<subseteq> set (sales_order_lines s)" by (auto simp: order_lines_def)
  have "distinct (map sol_id (sales_order_lines s))" using assms by (simp add: order_counts_def)
  then show "distinct (map sol_id (order_lines i s))"
    by (simp add: order_lines_def distinct_map) (auto intro: inj_on_subset)
qed

text \<open>The requested quantities name every line once.\<close>

definition requests :: "sales_order_line list \<Rightarrow> (uuid \<times> rat) list \<Rightarrow> bool" where
  "requests ls req \<longleftrightarrow> distinct (map fst req) \<and> list_all (\<lambda>(k, q). k \<in> sol_id ` set ls \<and> valid_quantity q) req"

lemma requested_lines_requests:
  assumes "distinct (map sol_id ls)" "list_all order_line_counts ls"
    and "\<forall>items. fc_lines payload = Some items \<longrightarrow> list_all (\<lambda>i. valid_quantity (fli_quantity i)) items"
  shows "wp (requested_lines payload ls) (\<lambda>req t. requests ls req \<and> t = s) s"
proof (cases "fc_lines payload")
  case None
  have "valid_quantity (dec_sub (lt_quantity l) (sol_fulfilled_quantity l))"
    if "l \<in> set ls" "sol_fulfilled_quantity l < lt_quantity l" for l
    using assms(2) that counted_full[of "lt_quantity l"] counted_sub(1)[of "lt_quantity l" "lt_quantity l" "sol_fulfilled_quantity l"]
      counted_open[of "lt_quantity l" "lt_quantity l" "sol_fulfilled_quantity l"]
    by (auto simp: order_line_counts_def priced_line_def list_all_iff)
  moreover have "map fst (outstanding_lines ls) = map sol_id (filter (\<lambda>l. sol_fulfilled_quantity l < lt_quantity l) ls)"
    by (simp add: outstanding_lines_def)
  ultimately have "requests ls (outstanding_lines ls)"
    using assms(1) by (auto simp: requests_def comp_def distinct_map_filter outstanding_lines_def list_all_iff)
  then show ?thesis by (simp add: requested_lines_def None wp_simps)
next
  case (Some items)
  have "wp (for_acc (request_line ls) [] items) (\<lambda>req t. requests ls req \<and> t = s) s"
    using assms(3) Some
    by (intro wp_for_acc)
      (auto simp: requests_def request_line_def wp_simps list_all_iff[of _ items] intro!: dict_set_keys dict_set_all)
  then show ?thesis by (simp add: requested_lines_def Some)
qed

text \<open>Moving stock leaves the documents alone.\<close>

lemma wp_consume_stock:
  fixes s :: "'a sales_db_scheme"
  assumes "\<And>c t. sales_order_lines t = sales_order_lines s \<Longrightarrow> fulfillment_lines t = fulfillment_lines s \<Longrightarrow>
    invoice_lines t = invoice_lines s \<Longrightarrow> Q c t"
  shows "wp (consume_stock context order i product q c) Q s"
proof -
  have "keeps (\<lambda>t :: 'a sales_db_scheme. vat_db.more t = vat_db.more s) (consume_stock context order i product q c)"
    unfolding consume_stock_def by (intro keeps_intros sales_keeps[OF documents_same])
  from keepsD[OF this refl] show ?thesis by (rule wp_mono) (rule assms; rule sales_moreD; assumption)
qed

text \<open>A line is shipped when its row is still as it was read.\<close>

lemma fulfil_line_counts:
  fixes s :: "'a sales_db_scheme"
  assumes req: "requests ls req" "r \<in> set req"
    and s: "order_counts s" "\<forall>l \<in> set ls. sol_id l = fst r \<longrightarrow> l \<in> set (sales_order_lines s)"
  shows "wp (fulfil_line context order i ls c r)
           (\<lambda>_ t. order_counts t \<and> (\<forall>l \<in> set (sales_order_lines s). sol_id l \<noteq> fst r \<longrightarrow> l \<in> set (sales_order_lines t))) s"
proof -
  obtain k q where r: "r = (k, q)" by (cases r)
  have q: "valid_quantity q" using req r by (auto simp: requests_def list_all_iff)
  have counts: "order_counts t"
    if "line_by_id k ls = Some line" "\<not> q > dec_sub (lt_quantity line) (sol_fulfilled_quantity line)"
      and "sales_order_lines t = upd_where (\<lambda>l. sol_id l = k)
           (\<lambda>l. l\<lparr>sol_fulfilled_quantity := dec_add (sol_fulfilled_quantity l) q\<rparr>) (sales_order_lines s)"
      and "fulfillment_lines t = fulfillment_lines s @ [fl]" "invoice_lines t = invoice_lines s"
      and "fl_order_line_id fl = k" "fl_quantity fl = q" for line and t :: "'a sales_db_scheme" and fl
  proof (rule order_counts_fulfil[OF s(1)])
    have line: "line \<in> set ls" "sol_id line = k" using that(1) by (auto simp: line_by_id_def dest: find_SomeD)
    then show row: "line \<in> set (sales_order_lines s)" using s(2) r by simp
    have "order_line_counts line" using s(1) row by (rule order_counts_lines)
    then show "q \<le> lt_quantity line - sol_fulfilled_quantity line"
      using that(2) counted_full counted_sub(1) by (force simp: order_line_counts_def priced_line_def)
    show "sales_order_lines t = upd_where (\<lambda>l. sol_id l = sol_id line)
           (\<lambda>l. l\<lparr>sol_fulfilled_quantity := dec_add (sol_fulfilled_quantity l) q\<rparr>) (sales_order_lines s)"
      "fl_order_line_id fl = sol_id line" using that line by simp_all
  qed (use that q in simp_all)
  show ?thesis
    unfolding fulfil_line_def r update_order_line_def get_product_def
    by (auto simp: wp_simps r intro!: wp_consume_stock intro: in_upd_where)
      (rule counts, assumption, (simp; fail)+)
qed

text \<open>The snapshot of the lines survives everything that leaves the documents alone.\<close>

definition lines_read :: "uuid \<Rightarrow> sales_order_line list \<Rightarrow> 'a sales_db_scheme \<Rightarrow> bool" where
  "lines_read j ls s \<longleftrightarrow> order_counts s \<and> ls = order_lines j s"

lemma lines_read_documents: "documents_only (lines_read j ls :: 'a sales_db_scheme \<Rightarrow> bool)"
proof (rule documents_onlyI)
  fix s s' :: "'a sales_db_scheme"
  assume "vat_db.more s' = vat_db.more s"
  from documents_onlyD[OF sales_documents_only(5) this] sales_moreD(4)[OF this]
  show "lines_read j ls s' = lines_read j ls s" by (simp add: lines_read_def order_lines_def)
qed

lemma fulfil_loop_counts:
  fixes s :: "'a sales_db_scheme"
  assumes s: "lines_read j ls s" and req: "requests ls req"
  shows "wp (for_acc (fulfil_line context order i ls) c (sort_key g req)) (\<lambda>_. order_counts) s"
proof (rule wp_for_acc_distinct[where k = fst and R = "\<lambda>r t. \<forall>l \<in> set ls. sol_id l = fst r \<longrightarrow> l \<in> set (sales_order_lines t)"])
  show "distinct (map fst (sort_key g req))" using req by (simp add: requests_def distinct_map)
  show "\<forall>l \<in> set ls. sol_id l = fst r \<longrightarrow> l \<in> set (sales_order_lines s)" for r
    using s by (auto simp: lines_read_def order_lines_def)
  show "order_counts s" using s by (simp add: lines_read_def)
next
  fix acc r and t :: "'a sales_db_scheme"
  assume "r \<in> set (sort_key g req)" and t: "order_counts t" "\<forall>l \<in> set ls. sol_id l = fst r \<longrightarrow> l \<in> set (sales_order_lines t)"
  then have "r \<in> set req" by simp
  from fulfil_line_counts[OF req this t]
  show "wp (fulfil_line context order i ls acc r) (\<lambda>_ u. order_counts u \<and> (\<forall>y \<in> set (sort_key g req). fst y \<noteq> fst r \<longrightarrow>
      (\<forall>l \<in> set ls. sol_id l = fst y \<longrightarrow> l \<in> set (sales_order_lines t)) \<longrightarrow>
      (\<forall>l \<in> set ls. sol_id l = fst y \<longrightarrow> l \<in> set (sales_order_lines u)))) t"
    by (rule wp_mono) auto
qed

lemma triple_order_lines:
  "(\<And>ls. triple (lines_read j ls) (g ls) Q) \<Longrightarrow> triple order_counts (bnd (gets (order_lines j)) g) Q"
  by (simp add: triple_def wp_simps lines_read_def)

lemma triple_requested_lines:
  assumes "\<forall>items. fc_lines payload = Some items \<longrightarrow> list_all (\<lambda>i. valid_quantity (fli_quantity i)) items"
    and "\<And>req. requests ls req \<Longrightarrow> triple (lines_read j ls) (g req) Q"
  shows "triple (lines_read j ls) (bnd (requested_lines payload ls) g) Q"
proof (rule triple_bnd[where R = "\<lambda>req s. requests ls req \<and> lines_read j ls s"], rule tripleI)
  fix s :: "'a sales_db_scheme"
  assume s: "lines_read j ls s"
  then have "distinct (map sol_id ls)" "list_all order_line_counts ls"
    using order_lines_snapshot[of s j] by (auto simp: lines_read_def order_counts_def list_all_iff)
  from requested_lines_requests[OF this assms(1)] show "wp (requested_lines payload ls) (\<lambda>req s. requests ls req \<and> lines_read j ls s) s"
    by (rule wp_mono) (use s in simp)
qed (use assms(2) in \<open>auto simp: triple_def\<close>)

lemma triple_fulfil_loop:
  "requests ls req \<Longrightarrow> (\<And>c. keeps order_counts (g' c)) \<Longrightarrow>
   triple (lines_read j ls) (bnd (for_acc (fulfil_line context order i ls) c (sort_key g req)) g') (\<lambda>_. order_counts)"
  by (rule triple_bnd[where R = "\<lambda>_. order_counts"]) (auto intro!: tripleI fulfil_loop_counts triple_keeps)

lemma fulfil_counts:
  assumes "\<forall>items. fc_lines payload = Some items \<longrightarrow> list_all (\<lambda>i. valid_quantity (fli_quantity i)) items"
  shows "keeps order_counts (fulfil context order_id payload)"
  unfolding fulfil_def Let_def post_fulfillment_def update_order_def
  apply (rule keeps_service_transaction, rule keeps_triple)
  apply (rule triple_gets, rule triple_some_or, (rule triple_skip, rule keeps_guards)+, rule triple_order_lines)
  apply (rule triple_requested_lines[OF assms], rule triple_require)
  apply ((rule triple_skip, rule sales_keeps[OF lines_read_documents])+, rule triple_fulfil_loop, assumption)
  by (intro keeps_intros sales_keeps[OF sales_documents_only(5)]; simp add: order_counts_def)

section \<open>Invoices\<close>

text \<open>The lines written for an invoice, with the totals of the loop.\<close>

definition new_invoice_lines :: "'a sales_db_scheme \<Rightarrow> uuid \<Rightarrow> rat \<Rightarrow> rat \<Rightarrow> 'a sales_db_scheme \<Rightarrow> bool" where
  "new_invoice_lines s i n x t \<longleftrightarrow> order_counts t \<and> invoices t = invoices s \<and> payment_allocations t = payment_allocations s
     \<and> credit_note_lines t = credit_note_lines s
     \<and> (\<exists>new. invoice_lines t = invoice_lines s @ new \<and> list_all (\<lambda>l. il_credited_quantity l = 0) new
          \<and> added il_invoice_id lt_net_amount lt_tax_amount sold_line i new (n, x))"

lemma open_quantity:
  assumes "order_line_counts l" "c = sol_fulfilled_quantity l \<or> c = lt_quantity l" "0 < dec_sub c (sol_invoiced_quantity l)"
  shows "valid_quantity (dec_sub c (sol_invoiced_quantity l))"
    "dec_sub c (sol_invoiced_quantity l) \<le> lt_quantity l - sol_invoiced_quantity l"
proof -
  have l: "valid_quantity (lt_quantity l)" "counted (sol_invoiced_quantity l) (lt_quantity l)" "counted c (lt_quantity l)"
    using assms counted_full by (auto simp: order_line_counts_def priced_line_def)
  note sub = counted_sub[OF l(1) l(3) l(2)]
  show "valid_quantity (dec_sub c (sol_invoiced_quantity l))"
    using assms(3) counted_open[OF l(1) l(3) l(2)] sub by simp
  show "dec_sub c (sol_invoiced_quantity l) \<le> lt_quantity l - sol_invoiced_quantity l" using sub by simp
qed

lemma add_invoice_line_counts:
  fixes t :: "'a sales_db_scheme"
  assumes t: "new_invoice_lines s i n x t" and line: "line \<in> set (sales_order_lines t)"
  shows "wp (add_invoice_line i fo (n, x, b) line)
           (\<lambda>(n, x, b) u. new_invoice_lines s i n x u
              \<and> (\<forall>l \<in> set (sales_order_lines t). sol_id l \<noteq> sol_id line \<longrightarrow> l \<in> set (sales_order_lines u))) t"
proof -
  let ?c = "if fo then sol_fulfilled_quantity line else lt_quantity line"
  let ?q = "dec_sub ?c (sol_invoiced_quantity line)"
  have counts: "order_counts t" "order_line_counts line"
    using t line by (auto simp: new_invoice_lines_def intro: order_counts_lines)
  obtain new where new: "invoice_lines t = invoice_lines s @ new" "list_all (\<lambda>l. il_credited_quantity l = 0) new"
    "added il_invoice_id lt_net_amount lt_tax_amount sold_line i new (n, x)"
    using t by (auto simp: new_invoice_lines_def)
  have step: "new_invoice_lines s i (dec_add n a) (dec_add x d) u"
    if q: "0 < ?q" and lt: "line_totals ?q (lt_unit_price line) (lt_discount_rate line) (lt_tax_rate line) = Inr (a, d, y)"
      and il: "lt_quantity il = ?q" "lt_unit_price il = lt_unit_price line" "lt_discount_rate il = lt_discount_rate line"
        "lt_tax_rate il = lt_tax_rate line" "lt_net_amount il = a" "lt_tax_amount il = d" "il_invoice_id il = i"
        "il_order_line_id il = Some (sol_id line)" "il_credited_quantity il = 0"
      and u: "invoice_lines u = invoice_lines t @ [il]"
        "sales_order_lines u = upd_where (\<lambda>l. sol_id l = sol_id line)
           (\<lambda>l. l\<lparr>sol_invoiced_quantity := dec_add (sol_invoiced_quantity l) ?q\<rparr>) (sales_order_lines t)"
        "fulfillment_lines u = fulfillment_lines t" "invoices u = invoices t"
        "payment_allocations u = payment_allocations t" "credit_note_lines u = credit_note_lines t"
    for a d y il and u :: "'a sales_db_scheme"
  proof -
    note oq = open_quantity[OF counts(2) _ q]
    have "order_counts u"
      by (rule order_counts_invoice[OF counts(1) line _ _ il(8,1) u(2,1,3)]) (use oq in simp_all)
    moreover have "priced_line il"
      using counts(2) oq il by (simp add: order_line_counts_def priced_line_def)
    then have "money a" "money d"
      using line_totals_money[OF lt] il by (auto simp: priced_line_def valid_quantity_def)
    with \<open>priced_line il\<close> have "added il_invoice_id lt_net_amount lt_tax_amount sold_line i (new @ [il]) (dec_add n a, dec_add x d)"
      using il by (intro added_snoc[OF new(3)]) (auto simp: sold_line_def)
    ultimately show ?thesis
      using t new u il by (auto simp: new_invoice_lines_def intro!: exI[of _ "new @ [il]"])
  qed
  show ?thesis
    unfolding add_invoice_line_def update_order_line_def Let_def
    by (cases "?q \<le> 0") (auto simp: wp_simps t intro!: step intro: in_upd_where)
qed

lemma invoice_loop:
  fixes s :: "'a sales_db_scheme"
  assumes "lines_read j ls t" "order_counts s" "vat_db.more t = vat_db.more s"
  shows "wp (for_acc (add_invoice_line i fo) (0, 0, False) ls) (\<lambda>(n, x, b). new_invoice_lines s i n x) t"
proof (rule wp_for_acc_distinct[where k = sol_id and R = "\<lambda>l t. l \<in> set (sales_order_lines t)"])
  note same = sales_moreD[OF assms(3)]
  show "distinct (map sol_id ls)" "\<And>l. l \<in> set ls \<Longrightarrow> l \<in> set (sales_order_lines t)"
    using assms(1) order_lines_snapshot[of t j] by (auto simp: lines_read_def)
  show "(case (0, 0, False) of (n, x, b) \<Rightarrow> new_invoice_lines s i n x) t"
    using assms(1) same by (simp add: new_invoice_lines_def lines_read_def)
next
  fix acc :: "rat \<times> rat \<times> bool" and l and t :: "'a sales_db_scheme"
  assume "(case acc of (n, x, b) \<Rightarrow> new_invoice_lines s i n x) t" "l \<in> set ls" "l \<in> set (sales_order_lines t)"
  then show "wp (add_invoice_line i fo acc l) (\<lambda>acc' u. (case acc' of (n, x, b) \<Rightarrow> new_invoice_lines s i n x) u
      \<and> (\<forall>y \<in> set ls. sol_id y \<noteq> sol_id l \<longrightarrow> y \<in> set (sales_order_lines t) \<longrightarrow> y \<in> set (sales_order_lines u))) t"
    by (cases acc) (auto intro: wp_mono[OF add_invoice_line_counts])
qed

text \<open>The invoice is written with its lines; the checks of the commit make its identifier new and its total fit.\<close>

lemma invoice_written:
  assumes inv: "credit_counts s" "invoice_sums s" "settlement s" and chk: "sales_chk t = None"
    and lines: "new_invoice_lines s (inv_id v) (inv_net_amount v) (inv_tax_amount v) u"
    and t: "invoices t = invoices u @ [v]" "invoice_lines t = invoice_lines u" "payment_allocations t = payment_allocations u"
      "credit_note_lines t = credit_note_lines u"
    and v: "inv_total_amount v = dec_add (inv_net_amount v) (inv_tax_amount v)" "inv_paid_amount v = 0" "inv_status v = INV_DRAFT"
  shows "credit_counts t" "invoice_sums t" "settlement t"
proof -
  obtain new where new: "invoice_lines u = invoice_lines s @ new" "list_all (\<lambda>l. il_credited_quantity l = 0) new"
    "added il_invoice_id lt_net_amount lt_tax_amount sold_line (inv_id v) new (inv_net_amount v, inv_tax_amount v)"
    and u: "invoices u = invoices s" "payment_allocations u = payment_allocations s" "credit_note_lines u = credit_note_lines s"
    using lines by (auto simp: new_invoice_lines_def)
  have c: "unique_on inv_id (invoices s @ [v])" "in_range 14 (inv_total_amount v)" "unique_on il_id (invoice_lines s @ new)"
    using chk t u new by (simp_all add: sales_chk_def sales_constraints_def)
  have "tallied inv_id inv_net_amount (\<lambda>l. Some (il_invoice_id l)) lt_net_amount (invoices s) (invoice_lines s)"
    "tallied inv_id inv_tax_amount (\<lambda>l. Some (il_invoice_id l)) lt_tax_amount (invoices s) (invoice_lines s)"
    using inv(2) by (simp_all add: invoice_sums_def)
  note at = added_tallied[where key = inv_id and cn = inv_net_amount and ct = inv_tax_amount and tot = inv_total_amount,
      OF new(3) c(1) this refl refl v(1) c(2)]
  have sold: "list_all sold_line new" using new(3) by (auto simp: added_def list_all_iff)
  show "invoice_sums t" using inv(2) at c(1) sold new(1) t u by (auto simp: invoice_sums_def)
  have "tallied il_id il_credited_quantity (\<lambda>l. Some (cl_invoice_line_id l)) lt_quantity (invoice_lines s @ new) (credit_note_lines s)"
    using inv(1) c(3) new(2) by (intro tallied_new_rows) (auto simp: credit_counts_def list_all_iff)
  then show "credit_counts t"
    using inv(1) c(3) new sold t u
    by (auto simp: credit_counts_def invoice_line_counts_def list_all_iff sold_line_def priced_line_def)
  have "tallied inv_id inv_paid_amount pa_invoice_id pa_amount (invoices s @ [v]) (payment_allocations s)"
    using inv(3) c(1) v by (intro tallied_new_row) (auto simp: settlement_def)
  moreover have "settled v" using v at by (simp add: settled_def money_def)
  ultimately show "settlement t" using inv(3) c(1) t u by (auto simp: settlement_def)
qed

text \<open>Drafting an invoice counts the invoiced quantities and keeps every total.\<close>

definition billing_inv :: "'a sales_db_scheme \<Rightarrow> bool" where
  "billing_inv s \<longleftrightarrow> order_counts s \<and> credit_counts s \<and> invoice_sums s \<and> settlement s"

lemma invoice_loop_read:
  "billing_inv s \<Longrightarrow> wp (for_acc (add_invoice_line i fo) (0, 0, False) (order_lines j s)) (\<lambda>(n, x, b). new_invoice_lines s i n x)
     (s\<lparr>uuid_count := k\<rparr>)"
  by (intro invoice_loop[where j = j]) (simp_all add: billing_inv_def lines_read_def order_lines_def order_counts_def)

lemma invoice_written_billing:
  assumes "billing_inv s" and "sales_chk (u\<lparr>invoices := invoices u @ [v], audit_events := es\<rparr>) = None"
    and "new_invoice_lines s i n x u" and "inv_id v = i" "inv_net_amount v = n" "inv_tax_amount v = x"
    and "inv_total_amount v = dec_add n x" "inv_paid_amount v = 0" "inv_status v = INV_DRAFT"
  shows "billing_inv (u\<lparr>invoices := invoices u @ [v], audit_events := es\<rparr>)"
  using assms invoice_written[of s "u\<lparr>invoices := invoices u @ [v], audit_events := es\<rparr>" v u]
  by (simp add: billing_inv_def new_invoice_lines_def order_counts_def)

lemma create_invoice_billing: "keeps billing_inv (create_invoice context payload)"
  unfolding create_invoice_def Let_def require_branch_def require_status_def
  apply (rule keeps_committed)
  apply (simp only: wp_simps)
  apply (intro impI allI)
  apply (rule wp_mono[OF invoice_loop_read])
   apply assumption
  by (auto simp: wp_simps) (rule invoice_written_billing, assumption, assumption, assumption, simp_all)+

section \<open>Settlement\<close>

lemma credit_counts_kept:
  "keeps credit_counts (create_quotation context qc)" "keeps credit_counts (set_quotation_status context i st)"
  "keeps credit_counts (convert_quotation context i qv)" "keeps credit_counts (create_order context oc)"
  "keeps credit_counts (confirm_order context i)" "keeps credit_counts (cancel_order context i)"
  "keeps credit_counts (fulfil context i fc)" "keeps credit_counts (issue_invoice h fl context i k)"
  "keeps credit_counts (record_payment hp fl context pc ko)"
  unfolding sales_operation_defs sales_steps Let_def
  by (intro keeps_intros sales_keeps[OF sales_documents_only(6)];
      (auto simp: credit_counts_def sales_updates intro!: keeps_modify)?)+

lemma invoice_sums_kept:
  "keeps invoice_sums (create_quotation context qc)" "keeps invoice_sums (set_quotation_status context i st)"
  "keeps invoice_sums (convert_quotation context i qv)" "keeps invoice_sums (create_order context oc)"
  "keeps invoice_sums (confirm_order context i)" "keeps invoice_sums (cancel_order context i)"
  "keeps invoice_sums (fulfil context i fc)" "keeps invoice_sums (issue_invoice h fl context i k)"
  "keeps invoice_sums (record_payment hp fl context pc ko)" "keeps invoice_sums (issue_credit_note context cc)"
  unfolding sales_operation_defs sales_steps Let_def
  by (intro keeps_intros sales_keeps[OF sales_documents_only(3)] invoice_sums_update invoice_sums_update_line;
      (auto simp: invoice_sums_def update_quotation_def update_order_def update_order_line_def LineTotals.truncate_def
        intro!: keeps_modify)?)+

lemma settlement_kept:
  "keeps settlement (create_quotation context qc)" "keeps settlement (set_quotation_status context i st)"
  "keeps settlement (convert_quotation context i qv)" "keeps settlement (create_order context oc)"
  "keeps settlement (confirm_order context i)" "keeps settlement (cancel_order context i)"
  "keeps settlement (fulfil context i fc)" "keeps settlement (issue_credit_note context cc)"
  unfolding sales_operation_defs sales_steps Let_def
  by (intro keeps_intros sales_keeps[OF sales_documents_only(7)];
      (auto simp: settlement_def sales_updates intro!: keeps_modify)?)+

text \<open>An invoice that was read is the row with its identifier.\<close>

definition invoice_read :: "uuid \<Rightarrow> invoice \<Rightarrow> 'a sales_db_scheme \<Rightarrow> bool" where
  "invoice_read i v s \<longleftrightarrow> settlement s \<and> repo_invoice i s = Some v"

lemma invoice_read_documents: "documents_only (invoice_read i v :: 'a sales_db_scheme \<Rightarrow> bool)"
proof (rule documents_onlyI)
  fix s s' :: "'a sales_db_scheme"
  assume "vat_db.more s' = vat_db.more s"
  from documents_onlyD[OF sales_documents_only(7) this] sales_moreD(7)[OF this]
  show "invoice_read i v s' = invoice_read i v s" by (simp add: invoice_read_def repo_invoice_def)
qed

lemma invoice_readD:
  assumes "invoice_read i v s"
  shows "v \<in> set (invoices s)" "inv_id v = i" "settled v" "unique_on inv_id (invoices s)"
  using assms find_SomeD[of "\<lambda>v. inv_id v = i" "invoices s" v] by (auto simp: invoice_read_def repo_invoice_def settlement_def list_all_iff)

lemma settlement_issue:
  assumes "invoice_read i v s" "settled (f v)" "\<And>v. inv_id (f v) = inv_id v" "\<And>v. inv_paid_amount (f v) = inv_paid_amount v"
  shows "settlement (s\<lparr>invoices := upd_where (\<lambda>v. inv_id v = i) f (invoices s)\<rparr>)"
proof -
  note v = invoice_readD[OF assms(1)]
  have "list_all settled (upd_where (\<lambda>r. inv_id r = inv_id v) f (invoices s))"
    using assms v by (intro list_all_update_row) (auto simp: invoice_read_def settlement_def)
  then show ?thesis using assms v(2) by (auto simp: settlement_def invoice_read_def intro!: tallied_update)
qed

lemma triple_invoice:
  "(\<And>v. triple (invoice_read i v) (g v) Q) \<Longrightarrow>
   triple settlement (bnd (gets (repo_invoice i)) (\<lambda>row. bnd (some_or e row) g)) Q"
  by (auto simp: triple_def wp_simps invoice_read_def split: option.splits)

lemma settled_issue:
  "settled v \<Longrightarrow> inv_status v = INV_DRAFT \<Longrightarrow> settled (v\<lparr>inv_status := INV_ISSUED, inv_issued_at := x, inv_number := y\<rparr>)"
  by (simp add: settled_def money_def)

lemma issue_draft_settlement: "keeps settlement (issue_draft context i)"
  unfolding issue_draft_def Let_def require_status_def update_invoice_def post_invoice_def record_vat_for_invoice_def
  apply (rule keeps_triple, rule triple_invoice)
  apply ((rule triple_skip, rule keeps_guards), rule triple_require, (rule triple_skip, rule sales_keeps[OF invoice_read_documents])+)
  apply (rule triple_bnd[where R = "\<lambda>_. settlement"])
   apply (rule tripleI, simp add: wp_simps, rule settlement_issue, assumption)
     apply (rule settled_issue, erule invoice_readD, assumption, simp, simp)
  by (rule triple_keeps, intro keeps_intros sales_keeps[OF sales_documents_only(7)])

lemma issue_invoice_settlement: "keeps settlement (issue_invoice h fl context i k)"
  unfolding issue_invoice_def
  by (intro keeps_intros sales_keeps[OF sales_documents_only(7)] issue_draft_settlement)

text \<open>A payment is allocated within the outstanding amount.\<close>

lemma settled_pay:
  assumes "settled v" "inv_status v \<in> {INV_ISSUED, INV_PARTIALLY_PAID}" "valid_amount a"
    and "\<not> a > dec_sub (inv_total_amount v) (inv_paid_amount v)"
  shows "dec_add (inv_paid_amount v) a = inv_paid_amount v + a"
    and "round_money (inv_paid_amount v + a) = Inr (inv_paid_amount v + a)"
    and "settled (v\<lparr>inv_paid_amount := inv_paid_amount v + a,
            inv_status := settled_status (inv_paid_amount v + a) (inv_total_amount v)\<rparr>)"
proof -
  let ?p = "inv_paid_amount v" and ?t = "inv_total_amount v"
  have g: "on_grid 4 ?p" "on_grid 4 ?t" "on_grid 4 a" and b: "0 \<le> ?p" "?p \<le> ?t" "?t < 10 ^ 14" "0 < a"
    using assms by (auto simp: settled_def money_def valid_amount_def)
  have "dec_sub ?t ?p = ?t - ?p" using g b by (intro dec_sub_exact[where k = 4]) simp_all
  then have le: "?p + a \<le> ?t" using assms(4) by simp
  then show "dec_add ?p a = ?p + a" using g b by (intro dec_add_exact[where k = 4]) simp_all
  show "round_money (?p + a) = Inr (?p + a)"
    using g b le half_up.rescale_fixed[of 4 "?p + a"] by (subst round_money_eq) (simp_all add: Money_def on_grid_add)
  show "settled (v\<lparr>inv_paid_amount := ?p + a, inv_status := settled_status (?p + a) ?t\<rparr>)"
    using assms(1) g b le by (simp add: settled_def settled_status_def money_def on_grid_add)
qed

lemma settlement_pay:
  fixes s :: "'a sales_db_scheme"
  assumes v: "invoice_read i v s" "inv_status v \<in> {INV_ISSUED, INV_PARTIALLY_PAID}"
    and a: "valid_amount a" "\<not> a > dec_sub (inv_total_amount v) (inv_paid_amount v)"
    and p: "round_money (dec_add (inv_paid_amount v) a) = Inr p"
    and t: "invoices t = upd_where (\<lambda>r. inv_id r = inv_id v)
        (\<lambda>r. r\<lparr>inv_paid_amount := p, inv_status := settled_status p (inv_total_amount v)\<rparr>) (invoices s)"
      "payment_allocations t = payment_allocations s @ [pa]" "pa_invoice_id pa = Some (inv_id v)" "pa_amount pa = a"
  shows "settlement t"
proof -
  note row = invoice_readD[OF v(1)] and pay = settled_pay[OF invoice_readD(3)[OF v(1)] v(2) a]
  let ?f = "\<lambda>r. r\<lparr>inv_paid_amount := p, inv_status := settled_status p (inv_total_amount v)\<rparr>"
  have s: "settlement s" using v(1) by (simp add: invoice_read_def)
  have p': "p = inv_paid_amount v + a" using p pay by simp
  have same: "r = v" if "r \<in> set (invoices s)" "inv_id r = inv_id v" for r
    using row that by (auto simp: distinct_map dest: inj_onD)
  have "tallied inv_id inv_paid_amount pa_invoice_id pa_amount (upd_where (\<lambda>r. inv_id r = inv_id v) ?f (invoices s)) (payment_allocations s @ [pa])"
  proof (rule tallied_count[where c = pa and k = "inv_id v"])
    show "inv_paid_amount (?f r) = inv_paid_amount r + pa_amount pa" if "r \<in> set (invoices s)" "inv_id r = inv_id v" for r
      using same[OF that] p' t(4) by simp
  qed (use s row(1) t(3) in \<open>auto simp: settlement_def\<close>)
  moreover have "list_all settled (upd_where (\<lambda>r. inv_id r = inv_id v) ?f (invoices s))"
    using s row pay p' by (intro list_all_update_row) (auto simp: settlement_def)
  ultimately show ?thesis using row t by (simp add: settlement_def)
qed

lemma allocate_payment_settlement:
  assumes "valid_amount (ai_amount item)"
  shows "keeps settlement (allocate_payment context payload j item)"
proof (rule keepsI)
  fix s :: "'a sales_db_scheme"
  assume s: "settlement s"
  show "wp (allocate_payment context payload j item) (\<lambda>_. settlement) s"
    unfolding allocate_payment_def Let_def require_branch_def require_status_def update_invoice_def
    apply (simp only: wp_simps)
    apply (intro impI allI conjI)
    apply (rule settlement_pay[OF _ _ assms])
    using s by (auto simp: invoice_read_def)
qed

lemma record_payment_settlement:
  assumes "list_all (\<lambda>a. valid_amount (ai_amount a)) (pm_allocations payload)"
  shows "keeps settlement (record_payment h fl context payload ko)"
  using assms unfolding record_payment_def take_payment_def post_payment_def Let_def
  by (intro keeps_intros sales_keeps[OF sales_documents_only(7)] allocate_payment_settlement;
      simp add: list_all_iff settlement_def)

section \<open>Credit notes\<close>

definition new_credit_lines :: "'a sales_db_scheme \<Rightarrow> uuid \<Rightarrow> rat \<Rightarrow> rat \<Rightarrow> 'a sales_db_scheme \<Rightarrow> bool" where
  "new_credit_lines s i n x t \<longleftrightarrow> credit_counts t \<and> credit_notes t = credit_notes s
     \<and> (\<exists>new. credit_note_lines t = credit_note_lines s @ new
          \<and> added cl_credit_note_id lt_net_amount lt_tax_amount sold_line i new (n, x))"

lemma credit_counts_credit:
  assumes "credit_counts s" "repo_invoice_line j s = Some line" "valid_quantity q"
    and "\<not> q > dec_sub (lt_quantity line) (il_credited_quantity line)"
    and "invoice_lines t = upd_where (\<lambda>l. il_id l = il_id line)
           (\<lambda>l. l\<lparr>il_credited_quantity := dec_add (il_credited_quantity l) q\<rparr>) (invoice_lines s)"
    and "credit_note_lines t = credit_note_lines s @ [cl]" "cl_invoice_line_id cl = il_id line" "lt_quantity cl = q"
  shows "credit_counts t"
proof -
  let ?f = "\<lambda>l. l\<lparr>il_credited_quantity := dec_add (il_credited_quantity l) q\<rparr>"
  have row: "line \<in> set (invoice_lines s)" using assms(2) by (auto simp: repo_invoice_line_def dest: find_SomeD)
  have lc: "invoice_line_counts line" using assms(1) row by (auto simp: credit_counts_def list_all_iff)
  then have line: "valid_quantity (lt_quantity line)" "counted (il_credited_quantity line) (lt_quantity line)"
    by (simp_all add: invoice_line_counts_def priced_line_def)
  have le: "q \<le> lt_quantity line - il_credited_quantity line"
    using assms(4) counted_sub(1)[OF line(1) counted_full[OF line(1)] line(2)] by simp
  have "tallied il_id il_credited_quantity (\<lambda>l. Some (cl_invoice_line_id l)) lt_quantity
          (upd_where (\<lambda>r. il_id r = il_id line) ?f (invoice_lines s)) (credit_note_lines s @ [cl])"
    using assms row line le by (auto simp: credit_counts_def
        intro!: tallied_step[where p = line and q = "lt_quantity line" and d = q and cnt = il_credited_quantity])
  moreover have "invoice_line_counts (?f line)"
    using assms(3) lc line le counted_add[of "lt_quantity line" "il_credited_quantity line" q]
    by (simp add: invoice_line_counts_def priced_line_def)
  then have "list_all invoice_line_counts (upd_where (\<lambda>r. il_id r = il_id line) ?f (invoice_lines s))"
    using assms(1) row by (intro list_all_update_row) (simp_all add: credit_counts_def)
  ultimately show ?thesis using assms by (simp add: credit_counts_def)
qed

lemma wp_restock_line:
  fixes s :: "'a sales_db_scheme"
  assumes "\<And>c t. vat_db.more t = vat_db.more s \<Longrightarrow> Q c t"
  shows "wp (restock_line context payload i p q c) Q s"
proof -
  have "keeps (\<lambda>t :: 'a sales_db_scheme. vat_db.more t = vat_db.more s) (restock_line context payload i p q c)"
    unfolding restock_line_def by (intro keeps_intros sales_keeps[OF documents_same])
  from keepsD[OF this refl] show ?thesis by (rule wp_mono) (rule assms)
qed

lemma credit_line_counts:
  fixes t :: "'a sales_db_scheme"
  assumes t: "new_credit_lines s i n x t" and item: "valid_quantity (cni_quantity item)"
  shows "wp (credit_line_of context payload j i (n, x, c, rl) item) (\<lambda>(n, x, _). new_credit_lines s i n x) t"
proof -
  obtain new where new: "credit_note_lines t = credit_note_lines s @ new"
    "added cl_credit_note_id lt_net_amount lt_tax_amount sold_line i new (n, x)"
    using t by (auto simp: new_credit_lines_def)
  have step: "new_credit_lines s i (dec_add n a) (dec_add x d) u"
    if r: "repo_invoice_line k t = Some line" "\<not> cni_quantity item > dec_sub (lt_quantity line) (il_credited_quantity line)"
      and lt: "line_totals (cni_quantity item) (lt_unit_price line) (lt_discount_rate line) (lt_tax_rate line) = Inr (a, d, y)"
      and cl: "lt_quantity cl = cni_quantity item" "lt_unit_price cl = lt_unit_price line" "lt_discount_rate cl = lt_discount_rate line"
        "lt_tax_rate cl = lt_tax_rate line" "lt_net_amount cl = a" "lt_tax_amount cl = d" "cl_credit_note_id cl = i"
        "cl_invoice_line_id cl = il_id line"
      and w: "invoice_lines w = upd_where (\<lambda>l. il_id l = il_id line)
          (\<lambda>l. l\<lparr>il_credited_quantity := dec_add (il_credited_quantity l) (cni_quantity item)\<rparr>) (invoice_lines t)"
        "credit_note_lines w = credit_note_lines t @ [cl]" "credit_notes w = credit_notes t"
      and u: "vat_db.more u = vat_db.more w" for k line a d y cl and u w :: "'a sales_db_scheme"
  proof -
    have "credit_counts t" using t by (simp add: new_credit_lines_def)
    moreover have "line \<in> set (invoice_lines t)" using r(1) by (auto simp: repo_invoice_line_def dest: find_SomeD)
    ultimately have "priced_line line" by (auto simp: credit_counts_def list_all_iff invoice_line_counts_def)
    then have "priced_line cl" "money a" "money d"
      using item cl line_totals_money[OF lt] by (auto simp: priced_line_def valid_quantity_def)
    then have "added cl_credit_note_id lt_net_amount lt_tax_amount sold_line i (new @ [cl]) (dec_add n a, dec_add x d)"
      using cl by (intro added_snoc[OF new(2)]) (auto simp: sold_line_def)
    moreover have "credit_counts w"
      by (rule credit_counts_credit[OF \<open>credit_counts t\<close> r(1) item r(2) w(1,2) cl(8,1)])
    then have "credit_counts u" using documents_onlyD[OF sales_documents_only(6) u] by simp
    ultimately show ?thesis
      using t new w sales_moreD[OF u] by (auto simp: new_credit_lines_def)
  qed
  show ?thesis
    unfolding credit_line_of_def update_invoice_line_def
    apply (simp only: prod.case wp_simps)
    apply (intro impI allI conjI)
    apply (auto simp: wp_simps intro!: wp_restock_line)
    by (rule step; simp)
qed

lemma credit_loop:
  fixes s :: "'a sales_db_scheme"
  assumes "credit_counts s" "vat_db.more t = vat_db.more s" "list_all (\<lambda>l. valid_quantity (cni_quantity l)) items"
  shows "wp (for_acc (credit_line_of context payload j i) (0, 0, 0, []) (sort_key g items)) (\<lambda>(n, x, _). new_credit_lines s i n x) t"
proof (rule wp_for_acc)
  show "(case (0, 0, 0, []) of (n, x, _) \<Rightarrow> new_credit_lines s i n x) t"
    using assms(1) documents_onlyD[OF sales_documents_only(6) assms(2)] sales_moreD[OF assms(2)]
    by (simp add: new_credit_lines_def)
next
  fix acc :: "rat \<times> rat \<times> rat \<times> (rat \<times> rat \<times> rat) list" and item and t :: "'a sales_db_scheme"
  assume "item \<in> set (sort_key g items)" "(case acc of (n, x, _) \<Rightarrow> new_credit_lines s i n x) t"
  then show "wp (credit_line_of context payload j i acc item) (\<lambda>(n, x, _). new_credit_lines s i n x) t"
    using assms(3) by (cases acc) (auto simp: list_all_iff intro: credit_line_counts)
qed

lemma credit_note_written:
  assumes inv: "credit_sums s" and chk: "sales_chk t = None"
    and lines: "new_credit_lines s (cn_id v) (cn_net_amount v) (cn_tax_amount v) u"
    and t: "credit_notes t = credit_notes u @ [v]" "credit_note_lines t = credit_note_lines u"
    and v: "cn_total_amount v = dec_add (cn_net_amount v) (cn_tax_amount v)"
  shows "credit_sums t"
proof -
  obtain new where new: "credit_note_lines u = credit_note_lines s @ new"
    "added cl_credit_note_id lt_net_amount lt_tax_amount sold_line (cn_id v) new (cn_net_amount v, cn_tax_amount v)"
    and u: "credit_notes u = credit_notes s"
    using lines by (auto simp: new_credit_lines_def)
  have c: "unique_on cn_id (credit_notes s @ [v])" "in_range 14 (cn_total_amount v)"
    using chk t u by (simp_all add: sales_chk_def sales_constraints_def)
  have "tallied cn_id cn_net_amount (\<lambda>l. Some (cl_credit_note_id l)) lt_net_amount (credit_notes s) (credit_note_lines s)"
    "tallied cn_id cn_tax_amount (\<lambda>l. Some (cl_credit_note_id l)) lt_tax_amount (credit_notes s) (credit_note_lines s)"
    using inv by (simp_all add: credit_sums_def)
  note at = added_tallied[where key = cn_id and cn = cn_net_amount and ct = cn_tax_amount and tot = cn_total_amount,
      OF new(2) c(1) this refl refl v c(2)]
  show ?thesis using inv at c(1) new(1) t u by (auto simp: credit_sums_def)
qed

text \<open>What remains after the lines: the note, its entries, its register rows.\<close>

definition credit_note_added :: "'a sales_db_scheme \<Rightarrow> 'a sales_db_scheme \<Rightarrow> bool" where
  "credit_note_added s t \<longleftrightarrow> credit_counts t \<and> (\<exists>u v. new_credit_lines s (cn_id v) (cn_net_amount v) (cn_tax_amount v) u
     \<and> credit_notes t = credit_notes u @ [v] \<and> credit_note_lines t = credit_note_lines u
     \<and> cn_total_amount v = dec_add (cn_net_amount v) (cn_tax_amount v))"

lemma credit_note_added_documents: "documents_only (credit_note_added (s :: 'a sales_db_scheme))"
proof (rule documents_onlyI)
  fix t t' :: "'a sales_db_scheme"
  assume "vat_db.more t' = vat_db.more t"
  from documents_onlyD[OF sales_documents_only(6) this] sales_moreD[OF this]
  show "credit_note_added s t' = credit_note_added s t" by (simp add: credit_note_added_def)
qed

lemma new_credit_lines_documents: "documents_only (new_credit_lines (s :: 'a sales_db_scheme) i n x)"
proof (rule documents_onlyI)
  fix t t' :: "'a sales_db_scheme"
  assume "vat_db.more t' = vat_db.more t"
  from documents_onlyD[OF sales_documents_only(6) this] sales_moreD[OF this]
  show "new_credit_lines s i n x t' = new_credit_lines s i n x t" by (simp add: new_credit_lines_def)
qed

lemma credit_note_add:
  "new_credit_lines s i n x u \<Longrightarrow> cn_id v = i \<Longrightarrow> cn_net_amount v = n \<Longrightarrow> cn_tax_amount v = x \<Longrightarrow> cn_total_amount v = dec_add n x \<Longrightarrow>
   credit_note_added s (u\<lparr>credit_notes := credit_notes u @ [v]\<rparr>)"
  by (auto simp: credit_note_added_def new_credit_lines_def credit_counts_def)

lemma triple_credit_loop:
  assumes "credit_counts s" "list_all (\<lambda>l. valid_quantity (cni_quantity l)) items"
    and "\<And>n x c rl. triple (new_credit_lines s i n x) (f (n, x, c, rl)) Q"
  shows "triple (\<lambda>t. vat_db.more t = vat_db.more s)
     (bnd (for_acc (credit_line_of context payload j i) (0, 0, 0, []) (sort_key g items)) f) Q"
  using assms
  by (intro triple_bnd[where R = "\<lambda>(n, x, _). new_credit_lines s i n x"] tripleI)
    (auto intro: credit_loop simp: triple_def split: prod.splits)

lemma issue_credit_note_counts:
  assumes items: "list_all (\<lambda>l. valid_quantity (cni_quantity l)) (cc_lines payload)"
  shows "keeps (\<lambda>s. credit_counts s \<and> credit_sums s) (issue_credit_note context payload)"
  unfolding issue_credit_note_def Let_def post_credit_note_def record_vat_for_credit_note_def
  apply (rule triple_committed[where N = credit_note_added])
  subgoal for s
    apply (rule triple_conseq[where P = "\<lambda>t. vat_db.more t = vat_db.more s"])
      apply (rule triple_gets, rule triple_some_or, (rule triple_skip, rule keeps_guards)+, rule triple_require)
      apply (rule triple_skip, intro keeps_intros)
      apply ((rule triple_skip, rule sales_keeps[OF documents_same])+)
      apply (rule triple_credit_loop[OF _ items], simp)
      apply (simp only: prod.case)
      apply ((rule triple_skip, rule sales_keeps[OF new_credit_lines_documents])+)
      apply (rule triple_bnd[where R = "\<lambda>_. credit_note_added s"])
       apply (rule tripleI, simp add: wp_simps, erule credit_note_add; simp)
      apply (rule triple_keeps, intro keeps_intros sales_keeps[OF credit_note_added_documents])
    by simp_all
  by (auto simp: credit_note_added_def intro: credit_note_written)

section \<open>Totals of orders\<close>

lemma credit_sums_kept:
  "keeps credit_sums (create_quotation context qc)" "keeps credit_sums (set_quotation_status context i st)"
  "keeps credit_sums (convert_quotation context i qv)" "keeps credit_sums (create_order context oc)"
  "keeps credit_sums (confirm_order context i)" "keeps credit_sums (cancel_order context i)"
  "keeps credit_sums (fulfil context i fc)" "keeps credit_sums (create_invoice context ic)"
  "keeps credit_sums (issue_invoice h fl context i k)" "keeps credit_sums (record_payment hp fl context pc ko)"
  unfolding sales_operation_defs sales_steps Let_def
  by (intro keeps_intros sales_keeps[OF sales_documents_only(4)];
      (auto simp: credit_sums_def sales_updates intro!: keeps_modify)?)+

lemma order_sums_kept:
  "keeps order_sums (create_quotation context qc)" "keeps order_sums (set_quotation_status context i st)"
  "keeps order_sums (confirm_order context i)" "keeps order_sums (cancel_order context i)"
  "keeps order_sums (fulfil context i fc)" "keeps order_sums (create_invoice context ic)"
  "keeps order_sums (issue_invoice h fl context i k)" "keeps order_sums (record_payment hp fl context pc ko)"
  "keeps order_sums (issue_credit_note context cc)"
  unfolding sales_operation_defs sales_steps Let_def
  by (intro keeps_intros sales_keeps[OF sales_documents_only(2)] order_sums_update order_sums_update_line;
      (auto simp: order_sums_def update_quotation_def update_invoice_def update_invoice_line_def LineTotals.truncate_def
        intro!: keeps_modify)?)+

lemma order_lines_added:
  assumes "list_all valid_line items" and "vat_db.more t = vat_db.more s"
  shows "wp (for_acc (add_order_line i) (0, 0) items)
           (\<lambda>acc t. \<exists>new. added sol_order_id lt_net_amount lt_tax_amount sold_line i new acc
              \<and> sales_order_lines t = sales_order_lines s @ new \<and> sales_orders t = sales_orders s) t"
    (is "wp _ ?I t")
proof (rule wp_for_acc)
  show "?I (0, 0) t" using sales_moreD[OF assms(2)] by (intro exI[of _ "[]"]) simp
next
  fix acc item t
  assume item: "item \<in> set items" and "?I acc t"
  then obtain n x new where acc: "acc = (n, x)"
    and new: "added sol_order_id lt_net_amount lt_tax_amount sold_line i new (n, x)"
    and t: "sales_order_lines t = sales_order_lines s @ new" "sales_orders t = sales_orders s" by (cases acc) auto
  have v: "valid_line item" using item assms(1) by (simp add: list_all_iff)
  show "wp (add_order_line i acc item) ?I t"
    unfolding add_order_line_def acc get_product_def
    by (auto simp: wp_simps t intro!: added_item[OF new v])
qed

lemma order_written:
  assumes "order_sums s" and "sales_chk t = None"
    and "sales_orders t = sales_orders s @ [q]" "sales_order_lines t = sales_order_lines s @ new"
    and "added sol_order_id lt_net_amount lt_tax_amount sold_line (so_id q) new (so_net_amount q, so_tax_amount q)"
    and "so_total_amount q = dec_add (so_net_amount q) (so_tax_amount q)"
  shows "order_sums t"
proof -
  have c: "unique_on so_id (sales_orders s @ [q])" "in_range 14 (so_total_amount q)"
    using assms by (simp_all add: sales_chk_def sales_constraints_def)
  have "tallied so_id so_net_amount (\<lambda>l. Some (sol_order_id l)) lt_net_amount (sales_orders s) (sales_order_lines s)"
    "tallied so_id so_tax_amount (\<lambda>l. Some (sol_order_id l)) lt_tax_amount (sales_orders s) (sales_order_lines s)"
    using assms(1) by (simp_all add: order_sums_def)
  note at = added_tallied[where key = so_id and cn = so_net_amount and ct = so_tax_amount and tot = so_total_amount,
      OF assms(5) c(1) this refl refl assms(6) c(2)]
  show ?thesis
    using assms(1,3-5) at c(1) by (auto simp: order_sums_def list_all_iff added_def)
qed

lemma create_order_sums:
  assumes "list_all valid_line (oc_lines payload)"
  shows "keeps order_sums (create_order context payload)"
  unfolding create_order_def require_warehouse_def require_branch_def period_def Let_def
  apply (rule keeps_committed)
  apply (simp only: wp_simps)
  apply (intro impI allI conjI)
  subgoal for s
    apply (rule wp_mono[OF order_lines_added[OF assms, of _ s]])
     apply simp
    apply (elim exE conjE)
    apply (simp only: prod.case_eq_if wp_simps)
    apply (rule wp_allocate_frame)
    apply (intro impI)
    apply (rule order_written[of s])
    by (assumption | simp)+
  done

text \<open>A conversion copies the lines of the quotation and with them its totals.\<close>

definition copied_lines :: "'a sales_db_scheme \<Rightarrow> uuid \<Rightarrow> quotation_line list \<Rightarrow> 'a sales_db_scheme \<Rightarrow> bool" where
  "copied_lines s i ls t \<longleftrightarrow> sales_orders t = sales_orders s \<and> (\<exists>new. sales_order_lines t = sales_order_lines s @ new
     \<and> (\<forall>l \<in> set new. sol_order_id l = i \<and> sold_line l)
     \<and> map lt_net_amount new = map lt_net_amount ls \<and> map lt_tax_amount new = map lt_tax_amount ls)"

lemma copied_lines_documents: "documents_only (copied_lines (s :: 'a sales_db_scheme) i ls)"
  by (rule documents_onlyI, frule sales_moreD(3), frule sales_moreD(4)) (simp add: copied_lines_def)

lemma copy_lines:
  assumes "list_all sold_line ls" "vat_db.more t = vat_db.more s"
  shows "wp (for_each (copy_quotation_line i) ls) (\<lambda>_. copied_lines s i ls) t"
proof (rule wp_for_each_prefix[where I = "copied_lines s i"])
  show "copied_lines s i [] t" using sales_moreD[OF assms(2)] by (auto simp: copied_lines_def)
next
  fix before l after t
  assume ls: "ls = before @ l # after" and t: "copied_lines s i before t"
  then have "sold_line l" using assms(1) by simp
  then show "wp (copy_quotation_line i l) (\<lambda>_. copied_lines s i (before @ [l])) t"
    using t by (fastforce simp: copy_quotation_line_def wp_simps copied_lines_def sold_line_def priced_line_def)
qed

lemma order_converted:
  assumes s: "quotation_sums s" "order_sums s" and chk: "sales_chk t = None"
    and lines: "copied_lines s (so_id v) (repo_quotation_lines (qt_id q) s) u" and q: "q \<in> set (quotations s)"
    and t: "sales_orders t = sales_orders u @ [v]" "sales_order_lines t = sales_order_lines u"
    and v: "so_net_amount v = qt_net_amount q" "so_tax_amount v = qt_tax_amount q" "so_total_amount v = qt_total_amount q"
  shows "order_sums t"
proof -
  obtain new where new: "sales_order_lines u = sales_order_lines s @ new" "\<forall>l \<in> set new. sol_order_id l = so_id v \<and> sold_line l"
    "map lt_net_amount new = map lt_net_amount (repo_quotation_lines (qt_id q) s)"
    "map lt_tax_amount new = map lt_tax_amount (repo_quotation_lines (qt_id q) s)" and u: "sales_orders u = sales_orders s"
    using lines by (auto simp: copied_lines_def)
  have c: "unique_on so_id (sales_orders s @ [v])" using chk t u by (simp add: sales_chk_def sales_constraints_def)
  have "qt_net_amount q = sum_list (map lt_net_amount new)" "qt_tax_amount q = sum_list (map lt_tax_amount new)"
    "qt_total_amount q = qt_net_amount q + qt_tax_amount q"
    using s(1) q unfolding new(3,4) by (auto simp: quotation_sums_def tallied_def repo_quotation_lines_def sum_list_sort_key list_all_iff)
  then have "tallied so_id so_net_amount (\<lambda>l. Some (sol_order_id l)) lt_net_amount (sales_orders s @ [v]) (sales_order_lines s @ new)"
    "tallied so_id so_tax_amount (\<lambda>l. Some (sol_order_id l)) lt_tax_amount (sales_orders s @ [v]) (sales_order_lines s @ new)"
    "so_total_amount v = so_net_amount v + so_tax_amount v"
    using s(2) c v new(2) by (auto simp: order_sums_def intro!: tallied_new_document)
  then show ?thesis using s(2) c new t u by (auto simp: order_sums_def list_all_iff)
qed

lemma quotation_reads:
  fixes s t :: "'a sales_db_scheme"
  assumes "vat_db.more t = vat_db.more s"
  shows "repo_quotation i t = repo_quotation i s" "repo_quotation_lines i t = repo_quotation_lines i s"
  using sales_moreD(1,2)[OF assms] by (simp_all add: repo_quotation_def repo_quotation_lines_def)

text \<open>The conversion, up to the commit.\<close>

definition order_copied :: "'a sales_db_scheme \<Rightarrow> 'a sales_db_scheme \<Rightarrow> bool" where
  "order_copied s t \<longleftrightarrow> (\<exists>q v u. copied_lines s (so_id v) (repo_quotation_lines (qt_id q) s) u \<and> q \<in> set (quotations s)
     \<and> sales_orders t = sales_orders u @ [v] \<and> sales_order_lines t = sales_order_lines u
     \<and> so_net_amount v = qt_net_amount q \<and> so_tax_amount v = qt_tax_amount q \<and> so_total_amount v = qt_total_amount q)"

lemma order_copied_documents: "documents_only (order_copied (s :: 'a sales_db_scheme))"
  by (rule documents_onlyI, frule sales_moreD(3), frule sales_moreD(4)) (simp add: order_copied_def)

lemma order_copy:
  "copied_lines s i (repo_quotation_lines j s) u \<Longrightarrow> q \<in> set (quotations s) \<Longrightarrow> qt_id q = j \<Longrightarrow> so_id v = i \<Longrightarrow>
   so_net_amount v = qt_net_amount q \<Longrightarrow> so_tax_amount v = qt_tax_amount q \<Longrightarrow> so_total_amount v = qt_total_amount q \<Longrightarrow>
   order_copied s (u\<lparr>sales_orders := sales_orders u @ [v]\<rparr>)"
  unfolding order_copied_def by (intro exI[of _ q] exI[of _ v] exI[of _ u]) simp

lemma triple_copy_lines:
  assumes "list_all sold_line ls" "\<And>x. triple (copied_lines s i ls) (f x) Q"
  shows "triple (\<lambda>t. vat_db.more t = vat_db.more s) (bnd (for_each (copy_quotation_line i) ls) f) Q"
  using assms by (intro triple_bnd[where R = "\<lambda>_. copied_lines s i ls"]) (auto intro: tripleI copy_lines)

lemma convert_quotation_sums:
  "keeps (\<lambda>s. quotation_sums s \<and> order_sums s) (convert_quotation context i payload)"
proof -
  have upd: "keeps (copied_lines s j ls) (update_quotation k f)" for s :: "'a sales_db_scheme" and j ls k f
    unfolding update_quotation_def by (rule keeps_modify) (simp add: copied_lines_def)
  show ?thesis
    using quotation_sums_kept(2)[of "context" i payload]
    unfolding convert_quotation_def Let_def
    apply (rule triple_committed_with[where N = order_copied])
    subgoal for s
      apply (rule triple_conseq[where P = "\<lambda>t. vat_db.more t = vat_db.more s"])
        apply (rule triple_read_documents, erule quotation_reads, rule triple_some_or)
        apply ((rule triple_skip, rule keeps_guards)+, rule triple_require)
        apply (rule triple_read_documents, erule quotation_reads)
        apply (rule triple_skip, rule sales_keeps[OF documents_same])
        apply (rule triple_copy_lines, simp add: repo_quotation_lines_sold)
        apply (rule triple_skip, rule upd)
        apply ((rule triple_skip, rule sales_keeps[OF copied_lines_documents])+)
        apply (rule triple_bnd[where R = "\<lambda>_. order_copied s"])
         apply (rule tripleI, simp add: wp_simps repo_quotation_def, drule find_SomeD, erule order_copy; simp)
        apply (rule triple_keeps, intro keeps_intros sales_keeps[OF order_copied_documents])
      by simp_all
    by (auto simp: order_copied_def intro: order_converted)
qed

section \<open>The invariant of the sales documents\<close>

definition sales_inv :: "'a sales_db_scheme \<Rightarrow> bool" where
  "sales_inv s \<longleftrightarrow> quotation_sums s \<and> order_sums s \<and> order_counts s \<and> credit_counts s \<and> invoice_sums s \<and> settlement s \<and> credit_sums s"

lemma sales_invI:
  "keeps quotation_sums m \<Longrightarrow> keeps order_sums m \<Longrightarrow> keeps order_counts m \<Longrightarrow> keeps credit_counts m \<Longrightarrow>
   keeps invoice_sums m \<Longrightarrow> keeps settlement m \<Longrightarrow> keeps credit_sums m \<Longrightarrow> keeps sales_inv m"
  by (simp add: keeps_def sales_inv_def[abs_def] wp_conj)

lemmas sales_kept = quotation_sums_kept order_sums_kept order_counts_kept credit_counts_kept invoice_sums_kept
  settlement_kept credit_sums_kept issue_invoice_settlement

text \<open>What the schemas of the requests check.\<close>

definition valid_fulfillment :: "FulfillmentCreate \<Rightarrow> bool" where
  "valid_fulfillment payload \<longleftrightarrow> (case fc_lines payload of None \<Rightarrow> True | Some items \<Rightarrow> list_all (\<lambda>i. valid_quantity (fli_quantity i)) items)"

definition valid_payment :: "PaymentCreate \<Rightarrow> bool" where
  "valid_payment payload \<longleftrightarrow> list_all (\<lambda>a. valid_amount (ai_amount a)) (pm_allocations payload)"

definition valid_credit_note :: "CreditNoteCreate \<Rightarrow> bool" where
  "valid_credit_note payload \<longleftrightarrow> list_all (\<lambda>l. valid_quantity (cni_quantity l)) (cc_lines payload)"

lemma sales_transitions_inv:
  "keeps sales_inv (set_quotation_status context i st)" "keeps sales_inv (confirm_order context i)"
  "keeps sales_inv (cancel_order context i)" "keeps sales_inv (issue_invoice h fl context i k)"
  by (rule sales_invI; rule sales_kept)+

lemma create_quotation_inv:
  assumes "list_all valid_line (qc_lines payload)"
  shows "keeps sales_inv (create_quotation context payload)"
  by (rule sales_invI; rule sales_kept create_quotation_sums[OF assms])

lemma create_order_inv:
  assumes "list_all valid_line (oc_lines payload)"
  shows "keeps sales_inv (create_order context payload)"
  by (rule sales_invI; rule sales_kept create_order_sums[OF assms] create_order_counts[OF assms])

lemma fulfil_inv:
  assumes "valid_fulfillment payload"
  shows "keeps sales_inv (fulfil context i payload)"
proof -
  have items: "\<forall>items. fc_lines payload = Some items \<longrightarrow> list_all (\<lambda>i. valid_quantity (fli_quantity i)) items"
    using assms by (simp add: valid_fulfillment_def split: option.splits)
  show ?thesis by (rule sales_invI; rule sales_kept fulfil_counts[OF items])
qed

lemma record_payment_inv:
  assumes "valid_payment payload"
  shows "keeps sales_inv (record_payment h fl context payload ko)"
  by (rule sales_invI; rule sales_kept record_payment_settlement[OF assms[unfolded valid_payment_def]])

lemma convert_quotation_inv: "keeps sales_inv (convert_quotation context i payload)"
  by (rule keeps_eq[OF keeps_conj[OF convert_quotation_sums keeps_conj[OF convert_quotation_counts
      keeps_conj[OF credit_counts_kept(3) keeps_conj[OF invoice_sums_kept(3) keeps_conj[OF settlement_kept(3) credit_sums_kept(3)]]]]]])
    (auto simp: sales_inv_def)

lemma create_invoice_inv: "keeps sales_inv (create_invoice context payload)"
  by (rule keeps_eq[OF keeps_conj[OF quotation_sums_kept(7) keeps_conj[OF order_sums_kept(6)
      keeps_conj[OF create_invoice_billing credit_sums_kept(8)]]]]) (auto simp: sales_inv_def billing_inv_def)

lemma issue_credit_note_inv:
  assumes "valid_credit_note payload"
  shows "keeps sales_inv (issue_credit_note context payload)"
  by (rule keeps_eq[OF keeps_conj[OF quotation_sums_kept(10) keeps_conj[OF order_sums_kept(9) keeps_conj[OF order_counts_kept(7)
      keeps_conj[OF issue_credit_note_counts[OF assms[unfolded valid_credit_note_def]]
      keeps_conj[OF invoice_sums_kept(10) settlement_kept(8)]]]]]])
    (auto simp: sales_inv_def)

end
