(* ===== verification/Purchasing_Invariant.thy ===== *)
theory Purchasing_Invariant
  imports Sales_Invariant
begin

text \<open>
  The invariants of the purchasing documents, the mirror of those of sales: the totals of orders and bills are the
  sums of their lines (\<open>purchase_sums\<close>, \<open>bill_sums\<close>); an order line counts what was received and billed of it
  (\<open>purchase_counts\<close>) and a bill what was paid (\<open>bill_settlement\<close>). Every operation of the purchasing service
  keeps them.
\<close>

section \<open>Invariants\<close>

definition valid_purchase_line :: "PurchaseLineInput \<Rightarrow> bool" where
  "valid_purchase_line i \<longleftrightarrow> valid_quantity (pli_quantity i) \<and> 0 \<le> pli_unit_cost i \<and> valid_rate (pli_tax_rate i)"

definition costed_line :: "'a CostTotals_scheme \<Rightarrow> bool" where
  "costed_line l \<longleftrightarrow> valid_quantity (ct_quantity l) \<and> 0 \<le> ct_unit_cost l \<and> 0 \<le> ct_tax_rate l"

definition bought_line :: "'a CostTotals_scheme \<Rightarrow> bool" where
  "bought_line l \<longleftrightarrow> costed_line l \<and> money (ct_net_amount l) \<and> money (ct_tax_amount l)"

definition purchase_sums :: "'a purchasing_db_scheme \<Rightarrow> bool" where
  "purchase_sums s \<longleftrightarrow> unique_on po_id (purchase_orders s) \<and> list_all bought_line (purchase_order_lines s)
     \<and> tallied po_id po_net_amount (\<lambda>l. Some (pol_order_id l)) ct_net_amount (purchase_orders s) (purchase_order_lines s)
     \<and> tallied po_id po_tax_amount (\<lambda>l. Some (pol_order_id l)) ct_tax_amount (purchase_orders s) (purchase_order_lines s)
     \<and> list_all (\<lambda>q. po_total_amount q = po_net_amount q + po_tax_amount q) (purchase_orders s)"

definition bill_sums :: "'a purchasing_db_scheme \<Rightarrow> bool" where
  "bill_sums s \<longleftrightarrow> unique_on sb_id (supplier_bills s) \<and> list_all bought_line (supplier_bill_lines s)
     \<and> tallied sb_id sb_net_amount (\<lambda>l. Some (sbl_bill_id l)) ct_net_amount (supplier_bills s) (supplier_bill_lines s)
     \<and> tallied sb_id sb_tax_amount (\<lambda>l. Some (sbl_bill_id l)) ct_tax_amount (supplier_bills s) (supplier_bill_lines s)
     \<and> list_all (\<lambda>v. sb_total_amount v = sb_net_amount v + sb_tax_amount v) (supplier_bills s)"

definition purchase_line_counts :: "purchase_order_line \<Rightarrow> bool" where
  "purchase_line_counts l \<longleftrightarrow> costed_line l \<and> counted (pol_received_quantity l) (ct_quantity l)
     \<and> counted (pol_billed_quantity l) (ct_quantity l)"

definition purchase_counts :: "'a purchasing_db_scheme \<Rightarrow> bool" where
  "purchase_counts s \<longleftrightarrow> unique_on pol_id (purchase_order_lines s) \<and> list_all purchase_line_counts (purchase_order_lines s)
     \<and> tallied pol_id pol_received_quantity (\<lambda>l. Some (grl_order_line_id l)) grl_quantity (purchase_order_lines s) (goods_receipt_lines s)
     \<and> tallied pol_id pol_billed_quantity sbl_order_line_id ct_quantity (purchase_order_lines s) (supplier_bill_lines s)"

definition bill_settled :: "SupplierBill \<Rightarrow> bool" where
  "bill_settled v \<longleftrightarrow> money (sb_total_amount v) \<and> sb_total_amount v < 10 ^ 14 \<and> money (sb_paid_amount v)
     \<and> sb_paid_amount v \<le> sb_total_amount v
     \<and> (case sb_status v of
          BILL_PARTIALLY_PAID \<Rightarrow> 0 < sb_paid_amount v \<and> sb_paid_amount v < sb_total_amount v
        | BILL_PAID \<Rightarrow> 0 < sb_paid_amount v \<and> sb_paid_amount v = sb_total_amount v
        | _ \<Rightarrow> sb_paid_amount v = 0)"

definition bill_settlement :: "'a purchasing_db_scheme \<Rightarrow> bool" where
  "bill_settlement s \<longleftrightarrow> unique_on sb_id (supplier_bills s) \<and> list_all bill_settled (supplier_bills s)
     \<and> tallied sb_id sb_paid_amount pa_supplier_bill_id pa_amount (supplier_bills s) (payment_allocations s)"

lemma purchasing_moreD:
  fixes s s' :: "'a purchasing_db_scheme"
  assumes "vat_db.more s' = vat_db.more s"
  shows "purchase_orders s' = purchase_orders s" "purchase_order_lines s' = purchase_order_lines s"
    "goods_receipt_lines s' = goods_receipt_lines s" "supplier_bills s' = supplier_bills s"
    "supplier_bill_lines s' = supplier_bill_lines s" "payment_allocations s' = payment_allocations s"
    "purchasing_db.more s' = purchasing_db.more s"
  using assms by (cases s; cases s'; simp)+

lemma purchasing_documents_only:
  "documents_only (purchase_sums :: 'a purchasing_db_scheme \<Rightarrow> bool)" "documents_only (purchase_counts :: 'a purchasing_db_scheme \<Rightarrow> bool)"
  "documents_only (bill_sums :: 'a purchasing_db_scheme \<Rightarrow> bool)" "documents_only (bill_settlement :: 'a purchasing_db_scheme \<Rightarrow> bool)"
  by (rule documents_onlyI, frule purchasing_moreD(1), frule purchasing_moreD(2), frule purchasing_moreD(3),
      frule purchasing_moreD(4), frule purchasing_moreD(5), frule purchasing_moreD(6),
      simp add: purchase_sums_def purchase_counts_def bill_sums_def bill_settlement_def)+

lemma purchasing_services: "documents_only J \<Longrightarrow> shared_services J purchasing_flush_chk"
  by (rule documents_only_services) (simp_all add: purchasing_check.journal_check_axioms)

lemmas purchasing_keeps = shared_services.keeps_services[OF purchasing_services]

lemma zero_rate [simp]: "valid_rate 0"
  by (simp add: valid_rate_def)

section \<open>Changes that an invariant does not notice\<close>

lemma purchase_sums_update:
  assumes "\<And>q. po_id (f q) = po_id q \<and> po_net_amount (f q) = po_net_amount q \<and> po_tax_amount (f q) = po_tax_amount q
      \<and> po_total_amount (f q) = po_total_amount q"
  shows "keeps purchase_sums (update_purchase_order i f)"
  unfolding update_purchase_order_def
  by (rule keeps_modify) (use assms in \<open>auto simp: purchase_sums_def intro!: tallied_update list_all_updateI\<close>)

lemma purchase_sums_update_line:
  assumes "\<And>l. CostTotals.truncate (f l) = CostTotals.truncate l \<and> pol_order_id (f l) = pol_order_id l"
  shows "keeps purchase_sums (update_purchase_line i f)"
proof -
  have "ct_net_amount (f l) = ct_net_amount l" "ct_tax_amount (f l) = ct_tax_amount l" "bought_line (f l) = bought_line l"
    "pol_order_id (f l) = pol_order_id l" for l
    using assms[of l] by (simp_all add: CostTotals.truncate_def bought_line_def costed_line_def)
  then show ?thesis unfolding update_purchase_line_def
    by (intro keeps_modify) (auto simp: purchase_sums_def intro!: list_all_updateI)
qed

lemma bill_sums_update:
  assumes "\<And>q. sb_id (f q) = sb_id q \<and> sb_net_amount (f q) = sb_net_amount q \<and> sb_tax_amount (f q) = sb_tax_amount q
      \<and> sb_total_amount (f q) = sb_total_amount q"
  shows "keeps bill_sums (update_bill i f)"
  unfolding update_bill_def
  by (rule keeps_modify) (use assms in \<open>auto simp: bill_sums_def intro!: tallied_update list_all_updateI\<close>)

lemmas purchasing_steps =
  add_purchase_line_def receive_stock_def receive_line_def post_goods_receipt_def add_bill_line_def post_bill_def
  record_vat_for_bill_def allocate_supplier_payment_def post_supplier_payment_def

lemmas purchasing_updates = update_purchase_order_def update_purchase_line_def update_bill_def

lemmas purchasing_operation_defs =
  create_purchase_order_def confirm_purchase_order_def cancel_purchase_order_def receive_def create_bill_def
  issue_bill_def make_supplier_payment_def record_supplier_payment_def

lemma purchase_sums_kept:
  "keeps purchase_sums (confirm_purchase_order context i)" "keeps purchase_sums (cancel_purchase_order context i)"
  "keeps purchase_sums (receive context i grc)" "keeps purchase_sums (create_bill context sbc)"
  "keeps purchase_sums (issue_bill context i)" "keeps purchase_sums (record_supplier_payment h fl context sp ko)"
  unfolding purchasing_operation_defs purchasing_steps Let_def
  by (intro keeps_intros purchasing_keeps[OF purchasing_documents_only(1)] purchase_sums_update purchase_sums_update_line;
      (auto simp: purchase_sums_def update_bill_def CostTotals.truncate_def intro!: keeps_modify)?)+

lemma purchase_counts_kept:
  "keeps purchase_counts (confirm_purchase_order context i)" "keeps purchase_counts (cancel_purchase_order context i)"
  "keeps purchase_counts (issue_bill context i)" "keeps purchase_counts (record_supplier_payment h fl context sp ko)"
  unfolding purchasing_operation_defs purchasing_steps Let_def
  by (intro keeps_intros purchasing_keeps[OF purchasing_documents_only(2)];
      (auto simp: purchase_counts_def update_purchase_order_def update_bill_def intro!: keeps_modify)?)+

lemma bill_sums_kept:
  "keeps bill_sums (create_purchase_order context poc)" "keeps bill_sums (confirm_purchase_order context i)"
  "keeps bill_sums (cancel_purchase_order context i)" "keeps bill_sums (receive context i grc)"
  "keeps bill_sums (issue_bill context i)" "keeps bill_sums (record_supplier_payment h fl context sp ko)"
  unfolding purchasing_operation_defs purchasing_steps Let_def
  by (intro keeps_intros purchasing_keeps[OF purchasing_documents_only(3)] bill_sums_update;
      (auto simp: bill_sums_def update_purchase_order_def update_purchase_line_def intro!: keeps_modify)?)+

lemma bill_settlement_kept:
  "keeps bill_settlement (create_purchase_order context poc)" "keeps bill_settlement (confirm_purchase_order context i)"
  "keeps bill_settlement (cancel_purchase_order context i)" "keeps bill_settlement (receive context i grc)"
  unfolding purchasing_operation_defs purchasing_steps Let_def
  by (intro keeps_intros purchasing_keeps[OF purchasing_documents_only(4)];
      (auto simp: bill_settlement_def purchasing_updates intro!: keeps_modify)?)+

section \<open>Quantities of orders\<close>

text \<open>New order lines count from zero.\<close>

definition new_purchase_lines :: "'a purchasing_db_scheme \<Rightarrow> 'a purchasing_db_scheme \<Rightarrow> bool" where
  "new_purchase_lines s t \<longleftrightarrow> goods_receipt_lines t = goods_receipt_lines s \<and> supplier_bill_lines t = supplier_bill_lines s \<and>
     (\<exists>new. purchase_order_lines t = purchase_order_lines s @ new
       \<and> list_all (\<lambda>l. costed_line l \<and> pol_received_quantity l = 0 \<and> pol_billed_quantity l = 0) new)"

lemma new_purchase_lines_refl [simp]: "new_purchase_lines s s"
  by (simp add: new_purchase_lines_def exI[of _ "[]"])

lemma new_purchase_lines_add:
  assumes "new_purchase_lines s t"
    and "costed_line l" "pol_received_quantity l = 0" "pol_billed_quantity l = 0"
  shows "new_purchase_lines s (t\<lparr>purchase_order_lines := purchase_order_lines t @ [l]\<rparr>)"
  using assms by (fastforce simp: new_purchase_lines_def)

lemma new_purchase_lines_documents: "documents_only (new_purchase_lines (s :: 'a purchasing_db_scheme))"
  by (rule documents_onlyI, frule purchasing_moreD(2), frule purchasing_moreD(3), frule purchasing_moreD(5))
    (simp add: new_purchase_lines_def)

lemma new_purchase_lines_counts:
  assumes "purchase_counts s" "new_purchase_lines s t" "purchasing_chk t = None"
  shows "purchase_counts t"
proof -
  obtain new where new: "purchase_order_lines t = purchase_order_lines s @ new"
    "list_all (\<lambda>l. costed_line l \<and> pol_received_quantity l = 0 \<and> pol_billed_quantity l = 0) new"
    using assms(2) by (auto simp: new_purchase_lines_def)
  have u: "unique_on pol_id (purchase_order_lines s @ new)"
    using assms(3) new by (simp add: purchasing_chk_def purchasing_constraints_def)
  have "tallied pol_id pol_received_quantity (\<lambda>l. Some (grl_order_line_id l)) grl_quantity (purchase_order_lines s @ new) (goods_receipt_lines s)"
    "tallied pol_id pol_billed_quantity sbl_order_line_id ct_quantity (purchase_order_lines s @ new) (supplier_bill_lines s)"
    using assms(1) new(2) by (auto simp: purchase_counts_def list_all_iff intro!: tallied_new_rows u)
  then show ?thesis using assms(1,2) new u
    by (auto simp: purchase_counts_def purchase_line_counts_def new_purchase_lines_def list_all_iff costed_line_def)
qed

lemma add_purchase_line_new: "valid_purchase_line item \<Longrightarrow> keeps (new_purchase_lines s) (add_purchase_line i acc item)"
  unfolding add_purchase_line_def
  by (intro keeps_intros purchasing_keeps[OF new_purchase_lines_documents] new_purchase_lines_add)
    (simp_all add: valid_purchase_line_def costed_line_def valid_rate_def)

lemma create_purchase_order_counts:
  assumes "list_all valid_purchase_line (poc_lines payload)"
  shows "keeps purchase_counts (create_purchase_order context payload)"
  unfolding create_purchase_order_def Let_def
  apply (rule keeps_by_commit[where N = new_purchase_lines])
  subgoal
    using assms by (intro keeps_intros purchasing_keeps[OF new_purchase_lines_documents] add_purchase_line_new)
      (simp_all add: list_all_iff new_purchase_lines_def)
  by (simp_all add: new_purchase_lines_counts)

text \<open>Receiving and billing a line move its counters within the ordered quantity.\<close>

lemma purchase_counts_lines: "purchase_counts s \<Longrightarrow> l \<in> set (purchase_order_lines s) \<Longrightarrow> purchase_line_counts l"
  by (auto simp: purchase_counts_def list_all_iff)

lemma purchase_counts_receive:
  assumes "purchase_counts s" "line \<in> set (purchase_order_lines s)" "valid_quantity q" "q \<le> ct_quantity line - pol_received_quantity line"
    and "grl_order_line_id fl = pol_id line" "grl_quantity fl = q"
    and "purchase_order_lines t = upd_where (\<lambda>l. pol_id l = pol_id line)
           (\<lambda>l. l\<lparr>pol_received_quantity := dec_add (pol_received_quantity l) q\<rparr>) (purchase_order_lines s)"
    and "goods_receipt_lines t = goods_receipt_lines s @ [fl]" "supplier_bill_lines t = supplier_bill_lines s"
  shows "purchase_counts t"
proof -
  let ?f = "\<lambda>l. l\<lparr>pol_received_quantity := dec_add (pol_received_quantity l) q\<rparr>"
  have line: "purchase_line_counts line" using assms(1,2) by (rule purchase_counts_lines)
  have "tallied pol_id pol_received_quantity (\<lambda>l. Some (grl_order_line_id l)) grl_quantity
          (upd_where (\<lambda>r. pol_id r = pol_id line) ?f (purchase_order_lines s)) (goods_receipt_lines s @ [fl])"
    using assms line by (auto simp: purchase_counts_def purchase_line_counts_def costed_line_def
        intro!: tallied_step[where p = line and q = "ct_quantity line" and d = q and cnt = pol_received_quantity])
  moreover have "counted (dec_add (pol_received_quantity line) q) (ct_quantity line)"
    using assms(3,4) line counted_add[of "ct_quantity line" "pol_received_quantity line" q] by (simp add: purchase_line_counts_def costed_line_def)
  ultimately show ?thesis
    using assms line by (auto simp: purchase_counts_def purchase_line_counts_def costed_line_def intro!: tallied_update list_all_update_row)
qed

lemma purchase_counts_bill:
  assumes "purchase_counts s" "line \<in> set (purchase_order_lines s)" "valid_quantity q" "q \<le> ct_quantity line - pol_billed_quantity line"
    and "sbl_order_line_id il = Some (pol_id line)" "ct_quantity il = q"
    and "purchase_order_lines t = upd_where (\<lambda>l. pol_id l = pol_id line)
           (\<lambda>l. l\<lparr>pol_billed_quantity := dec_add (pol_billed_quantity l) q\<rparr>) (purchase_order_lines s)"
    and "supplier_bill_lines t = supplier_bill_lines s @ [il]" "goods_receipt_lines t = goods_receipt_lines s"
  shows "purchase_counts t"
proof -
  let ?f = "\<lambda>l. l\<lparr>pol_billed_quantity := dec_add (pol_billed_quantity l) q\<rparr>"
  have line: "purchase_line_counts line" using assms(1,2) by (rule purchase_counts_lines)
  have "tallied pol_id pol_billed_quantity sbl_order_line_id ct_quantity
          (upd_where (\<lambda>r. pol_id r = pol_id line) ?f (purchase_order_lines s)) (supplier_bill_lines s @ [il])"
    using assms line by (auto simp: purchase_counts_def purchase_line_counts_def costed_line_def
        intro!: tallied_step[where p = line and q = "ct_quantity line" and d = q and cnt = pol_billed_quantity])
  moreover have "counted (dec_add (pol_billed_quantity line) q) (ct_quantity line)"
    using assms(3,4) line counted_add[of "ct_quantity line" "pol_billed_quantity line" q] by (simp add: purchase_line_counts_def costed_line_def)
  ultimately show ?thesis
    using assms line by (auto simp: purchase_counts_def purchase_line_counts_def costed_line_def intro!: tallied_update list_all_update_row)
qed

lemma purchase_lines_snapshot:
  assumes "purchase_counts s"
  shows "set (repo_purchase_order_lines i s) \<subseteq> set (purchase_order_lines s)" "distinct (map pol_id (repo_purchase_order_lines i s))"
proof -
  show "set (repo_purchase_order_lines i s) \<subseteq> set (purchase_order_lines s)" by (auto simp: repo_purchase_order_lines_def)
  have "distinct (map pol_id (purchase_order_lines s))" using assms by (simp add: purchase_counts_def)
  then show "distinct (map pol_id (repo_purchase_order_lines i s))"
    by (simp add: repo_purchase_order_lines_def distinct_map) (auto intro: inj_on_subset)
qed

text \<open>The requested quantities name every line once.\<close>

definition receipt_requests :: "purchase_order_line list \<Rightarrow> (uuid \<times> rat \<times> rat option) list \<Rightarrow> bool" where
  "receipt_requests ls req \<longleftrightarrow> distinct (map fst req) \<and> list_all (\<lambda>(k, q, _). k \<in> pol_id ` set ls \<and> valid_quantity q) req"

lemma requested_receipt_lines_receipt_requests:
  assumes "distinct (map pol_id ls)" "list_all purchase_line_counts ls"
    and "\<forall>items. grc_lines payload = Some items \<longrightarrow> list_all (\<lambda>i. valid_quantity (rli_quantity i)) items"
  shows "wp (requested_receipt_lines payload ls) (\<lambda>req t. receipt_requests ls req \<and> t = s) s"
proof (cases "grc_lines payload")
  case None
  have "valid_quantity (dec_sub (ct_quantity l) (pol_received_quantity l))"
    if "l \<in> set ls" "pol_received_quantity l < ct_quantity l" for l
    using assms(2) that counted_full[of "ct_quantity l"] counted_sub(1)[of "ct_quantity l" "ct_quantity l" "pol_received_quantity l"]
      counted_open[of "ct_quantity l" "ct_quantity l" "pol_received_quantity l"]
    by (auto simp: purchase_line_counts_def costed_line_def list_all_iff)
  moreover have "map fst (outstanding_purchase_lines ls) = map pol_id (filter (\<lambda>l. pol_received_quantity l < ct_quantity l) ls)"
    by (simp add: outstanding_purchase_lines_def)
  ultimately have "receipt_requests ls (outstanding_purchase_lines ls)"
    using assms(1) by (auto simp: receipt_requests_def comp_def distinct_map_filter outstanding_purchase_lines_def list_all_iff)
  then show ?thesis by (simp add: requested_receipt_lines_def None wp_simps)
next
  case (Some items)
  have "wp (for_acc (request_receipt_line ls) [] items) (\<lambda>req t. receipt_requests ls req \<and> t = s) s"
    using assms(3) Some
    by (intro wp_for_acc)
      (auto simp: receipt_requests_def request_receipt_line_def wp_simps list_all_iff[of _ items] intro!: dict_set_keys dict_set_all)
  then show ?thesis by (simp add: requested_receipt_lines_def Some)
qed

text \<open>Moving stock leaves the documents alone.\<close>

lemma wp_receive_stock:
  fixes s :: "'a purchasing_db_scheme"
  assumes "\<And>c t. purchase_order_lines t = purchase_order_lines s \<Longrightarrow> goods_receipt_lines t = goods_receipt_lines s \<Longrightarrow>
    supplier_bill_lines t = supplier_bill_lines s \<Longrightarrow> Q c t"
  shows "wp (receive_stock context order i product q u c) Q s"
proof -
  have "keeps (\<lambda>t :: 'a purchasing_db_scheme. vat_db.more t = vat_db.more s) (receive_stock context order i product q u c)"
    unfolding receive_stock_def by (intro keeps_intros purchasing_keeps[OF documents_same])
  from keepsD[OF this refl] show ?thesis by (rule wp_mono) (rule assms; rule purchasing_moreD; assumption)
qed

text \<open>A line is received when its row is still as it was read.\<close>

lemma receive_line_counts:
  fixes s :: "'a purchasing_db_scheme"
  assumes req: "receipt_requests ls req" "r \<in> set req"
    and s: "purchase_counts s" "\<forall>l \<in> set ls. pol_id l = fst r \<longrightarrow> l \<in> set (purchase_order_lines s)"
  shows "wp (receive_line context order i ls c r)
           (\<lambda>_ t. purchase_counts t \<and> (\<forall>l \<in> set (purchase_order_lines s). pol_id l \<noteq> fst r \<longrightarrow> l \<in> set (purchase_order_lines t))) s"
proof -
  obtain k q ov where r: "r = (k, q, ov)" by (cases r)
  have q: "valid_quantity q" using req r by (auto simp: receipt_requests_def list_all_iff)
  have counts: "purchase_counts t"
    if "purchase_line_by_id k ls = Some line" "\<not> q > dec_sub (ct_quantity line) (pol_received_quantity line)"
      and "purchase_order_lines t = upd_where (\<lambda>l. pol_id l = k)
           (\<lambda>l. l\<lparr>pol_received_quantity := dec_add (pol_received_quantity l) q\<rparr>) (purchase_order_lines s)"
      and "goods_receipt_lines t = goods_receipt_lines s @ [fl]" "supplier_bill_lines t = supplier_bill_lines s"
      and "grl_order_line_id fl = k" "grl_quantity fl = q" for line and t :: "'a purchasing_db_scheme" and fl
  proof (rule purchase_counts_receive[OF s(1)])
    have line: "line \<in> set ls" "pol_id line = k" using that(1) by (auto simp: purchase_line_by_id_def dest: find_SomeD)
    then show row: "line \<in> set (purchase_order_lines s)" using s(2) r by simp
    have "purchase_line_counts line" using s(1) row by (rule purchase_counts_lines)
    then show "q \<le> ct_quantity line - pol_received_quantity line"
      using that(2) counted_full counted_sub(1) by (force simp: purchase_line_counts_def costed_line_def)
    show "purchase_order_lines t = upd_where (\<lambda>l. pol_id l = pol_id line)
           (\<lambda>l. l\<lparr>pol_received_quantity := dec_add (pol_received_quantity l) q\<rparr>) (purchase_order_lines s)"
      "grl_order_line_id fl = pol_id line" using that line by simp_all
  qed (use that q in simp_all)
  show ?thesis
    unfolding receive_line_def r update_purchase_line_def get_product_def Let_def
    by (auto simp: wp_simps r intro!: wp_receive_stock intro: in_upd_where)
      (rule counts, assumption, (simp; fail)+)
qed

definition purchase_lines_read :: "uuid \<Rightarrow> purchase_order_line list \<Rightarrow> 'a purchasing_db_scheme \<Rightarrow> bool" where
  "purchase_lines_read j ls s \<longleftrightarrow> purchase_counts s \<and> ls = repo_purchase_order_lines j s"

lemma purchase_lines_read_documents: "documents_only (purchase_lines_read j ls :: 'a purchasing_db_scheme \<Rightarrow> bool)"
proof (rule documents_onlyI)
  fix s s' :: "'a purchasing_db_scheme"
  assume "vat_db.more s' = vat_db.more s"
  from documents_onlyD[OF purchasing_documents_only(2) this] purchasing_moreD(2)[OF this]
  show "purchase_lines_read j ls s' = purchase_lines_read j ls s" by (simp add: purchase_lines_read_def repo_purchase_order_lines_def)
qed

lemma receive_loop_counts:
  fixes s :: "'a purchasing_db_scheme"
  assumes s: "purchase_lines_read j ls s" and req: "receipt_requests ls req"
  shows "wp (for_acc (receive_line context order i ls) c (sort_key g req)) (\<lambda>_. purchase_counts) s"
proof (rule wp_for_acc_distinct[where k = fst and R = "\<lambda>r t. \<forall>l \<in> set ls. pol_id l = fst r \<longrightarrow> l \<in> set (purchase_order_lines t)"])
  show "distinct (map fst (sort_key g req))" using req by (simp add: receipt_requests_def distinct_map)
  show "\<forall>l \<in> set ls. pol_id l = fst r \<longrightarrow> l \<in> set (purchase_order_lines s)" for r
    using s by (auto simp: purchase_lines_read_def repo_purchase_order_lines_def)
  show "purchase_counts s" using s by (simp add: purchase_lines_read_def)
next
  fix acc r and t :: "'a purchasing_db_scheme"
  assume "r \<in> set (sort_key g req)" and t: "purchase_counts t" "\<forall>l \<in> set ls. pol_id l = fst r \<longrightarrow> l \<in> set (purchase_order_lines t)"
  then have "r \<in> set req" by simp
  from receive_line_counts[OF req this t]
  show "wp (receive_line context order i ls acc r) (\<lambda>_ u. purchase_counts u \<and> (\<forall>y \<in> set (sort_key g req). fst y \<noteq> fst r \<longrightarrow>
      (\<forall>l \<in> set ls. pol_id l = fst y \<longrightarrow> l \<in> set (purchase_order_lines t)) \<longrightarrow>
      (\<forall>l \<in> set ls. pol_id l = fst y \<longrightarrow> l \<in> set (purchase_order_lines u)))) t"
    by (rule wp_mono) auto
qed

lemma triple_purchase_lines:
  "(\<And>ls. triple (purchase_lines_read j ls) (g ls) Q) \<Longrightarrow> triple purchase_counts (bnd (gets (repo_purchase_order_lines j)) g) Q"
  by (simp add: triple_def wp_simps purchase_lines_read_def)

lemma triple_requested_receipt_lines:
  assumes "\<forall>items. grc_lines payload = Some items \<longrightarrow> list_all (\<lambda>i. valid_quantity (rli_quantity i)) items"
    and "\<And>req. receipt_requests ls req \<Longrightarrow> triple (purchase_lines_read j ls) (g req) Q"
  shows "triple (purchase_lines_read j ls) (bnd (requested_receipt_lines payload ls) g) Q"
proof (rule triple_bnd[where R = "\<lambda>req s. receipt_requests ls req \<and> purchase_lines_read j ls s"], rule tripleI)
  fix s :: "'a purchasing_db_scheme"
  assume s: "purchase_lines_read j ls s"
  then have "distinct (map pol_id ls)" "list_all purchase_line_counts ls"
    using purchase_lines_snapshot[of s j] by (auto simp: purchase_lines_read_def purchase_counts_def list_all_iff)
  from requested_receipt_lines_receipt_requests[OF this assms(1)] show "wp (requested_receipt_lines payload ls) (\<lambda>req s. receipt_requests ls req \<and> purchase_lines_read j ls s) s"
    by (rule wp_mono) (use s in simp)
qed (use assms(2) in \<open>auto simp: triple_def\<close>)

lemma triple_receive_loop:
  "receipt_requests ls req \<Longrightarrow> (\<And>c. keeps purchase_counts (g' c)) \<Longrightarrow>
   triple (purchase_lines_read j ls) (bnd (for_acc (receive_line context order i ls) c (sort_key g req)) g') (\<lambda>_. purchase_counts)"
  by (rule triple_bnd[where R = "\<lambda>_. purchase_counts"]) (auto intro!: tripleI receive_loop_counts triple_keeps)

lemma receive_counts:
  assumes "\<forall>items. grc_lines payload = Some items \<longrightarrow> list_all (\<lambda>i. valid_quantity (rli_quantity i)) items"
  shows "keeps purchase_counts (receive context order_id payload)"
  unfolding receive_def Let_def post_goods_receipt_def update_purchase_order_def
  apply (rule keeps_service_transaction, rule keeps_triple)
  apply (rule triple_gets, rule triple_some_or, (rule triple_skip, rule keeps_guards)+, rule triple_purchase_lines)
  apply (rule triple_requested_receipt_lines[OF assms], rule triple_require)
  apply ((rule triple_skip, rule purchasing_keeps[OF purchase_lines_read_documents])+, rule triple_receive_loop, assumption)
  by (intro keeps_intros purchasing_keeps[OF purchasing_documents_only(2)]; simp add: purchase_counts_def)

section \<open>Bills\<close>

text \<open>The lines written for a bill, with the totals of the loop.\<close>

definition new_bill_lines :: "'a purchasing_db_scheme \<Rightarrow> uuid \<Rightarrow> rat \<Rightarrow> rat \<Rightarrow> 'a purchasing_db_scheme \<Rightarrow> bool" where
  "new_bill_lines s i n x t \<longleftrightarrow> purchase_counts t \<and> supplier_bills t = supplier_bills s \<and> payment_allocations t = payment_allocations s
     \<and> (\<exists>new. supplier_bill_lines t = supplier_bill_lines s @ new
          \<and> added sbl_bill_id ct_net_amount ct_tax_amount bought_line i new (n, x))"

lemma open_bill_quantity:
  assumes "purchase_line_counts l" "c = pol_received_quantity l \<or> c = ct_quantity l" "0 < dec_sub c (pol_billed_quantity l)"
  shows "valid_quantity (dec_sub c (pol_billed_quantity l))"
    "dec_sub c (pol_billed_quantity l) \<le> ct_quantity l - pol_billed_quantity l"
proof -
  have l: "valid_quantity (ct_quantity l)" "counted (pol_billed_quantity l) (ct_quantity l)" "counted c (ct_quantity l)"
    using assms counted_full by (auto simp: purchase_line_counts_def costed_line_def)
  note sub = counted_sub[OF l(1) l(3) l(2)]
  show "valid_quantity (dec_sub c (pol_billed_quantity l))"
    using assms(3) counted_open[OF l(1) l(3) l(2)] sub by simp
  show "dec_sub c (pol_billed_quantity l) \<le> ct_quantity l - pol_billed_quantity l" using sub by simp
qed

lemma add_bill_line_counts:
  fixes t :: "'a purchasing_db_scheme"
  assumes t: "new_bill_lines s i n x t" and line: "line \<in> set (purchase_order_lines t)"
  shows "wp (add_bill_line i fo (n, x, b) line)
           (\<lambda>(n, x, b) u. new_bill_lines s i n x u
              \<and> (\<forall>l \<in> set (purchase_order_lines t). pol_id l \<noteq> pol_id line \<longrightarrow> l \<in> set (purchase_order_lines u))) t"
proof -
  let ?c = "if fo then pol_received_quantity line else ct_quantity line"
  let ?q = "dec_sub ?c (pol_billed_quantity line)"
  have counts: "purchase_counts t" "purchase_line_counts line"
    using t line by (auto simp: new_bill_lines_def intro: purchase_counts_lines)
  obtain new where new: "supplier_bill_lines t = supplier_bill_lines s @ new"
    "added sbl_bill_id ct_net_amount ct_tax_amount bought_line i new (n, x)"
    using t by (auto simp: new_bill_lines_def)
  have step: "new_bill_lines s i (dec_add n a) (dec_add x d) u"
    if q: "0 < ?q" and lt: "line_totals ?q (ct_unit_cost line) (0) (ct_tax_rate line) = Inr (a, d, y)"
      and il: "ct_quantity il = ?q" "ct_unit_cost il = ct_unit_cost line"
        "ct_tax_rate il = ct_tax_rate line" "ct_net_amount il = a" "ct_tax_amount il = d" "sbl_bill_id il = i"
        "sbl_order_line_id il = Some (pol_id line)"
      and u: "supplier_bill_lines u = supplier_bill_lines t @ [il]"
        "purchase_order_lines u = upd_where (\<lambda>l. pol_id l = pol_id line)
           (\<lambda>l. l\<lparr>pol_billed_quantity := dec_add (pol_billed_quantity l) ?q\<rparr>) (purchase_order_lines t)"
        "goods_receipt_lines u = goods_receipt_lines t" "supplier_bills u = supplier_bills t"
        "payment_allocations u = payment_allocations t"
    for a d y il and u :: "'a purchasing_db_scheme"
  proof -
    note oq = open_bill_quantity[OF counts(2) _ q]
    have "purchase_counts u"
      by (rule purchase_counts_bill[OF counts(1) line _ _ il(7,1) u(2,1,3)]) (use oq in simp_all)
    moreover have "costed_line il"
      using counts(2) oq il by (simp add: purchase_line_counts_def costed_line_def)
    then have "money a" "money d"
      using line_totals_money[OF lt] il by (auto simp: costed_line_def valid_quantity_def)
    with \<open>costed_line il\<close> have "added sbl_bill_id ct_net_amount ct_tax_amount bought_line i (new @ [il]) (dec_add n a, dec_add x d)"
      using il by (intro added_snoc[OF new(2)]) (auto simp: bought_line_def)
    ultimately show ?thesis
      using t new u il by (auto simp: new_bill_lines_def intro!: exI[of _ "new @ [il]"])
  qed
  show ?thesis
    unfolding add_bill_line_def update_purchase_line_def Let_def
    by (cases "?q \<le> 0") (auto simp: wp_simps t intro!: step intro: in_upd_where)
qed

lemma bill_loop:
  fixes s :: "'a purchasing_db_scheme"
  assumes "purchase_lines_read j ls t" "purchase_counts s" "vat_db.more t = vat_db.more s"
  shows "wp (for_acc (add_bill_line i fo) (0, 0, False) ls) (\<lambda>(n, x, b). new_bill_lines s i n x) t"
proof (rule wp_for_acc_distinct[where k = pol_id and R = "\<lambda>l t. l \<in> set (purchase_order_lines t)"])
  note same = purchasing_moreD[OF assms(3)]
  show "distinct (map pol_id ls)" "\<And>l. l \<in> set ls \<Longrightarrow> l \<in> set (purchase_order_lines t)"
    using assms(1) purchase_lines_snapshot[of t j] by (auto simp: purchase_lines_read_def)
  show "(case (0, 0, False) of (n, x, b) \<Rightarrow> new_bill_lines s i n x) t"
    using assms(1) same by (simp add: new_bill_lines_def purchase_lines_read_def)
next
  fix acc :: "rat \<times> rat \<times> bool" and l and t :: "'a purchasing_db_scheme"
  assume "(case acc of (n, x, b) \<Rightarrow> new_bill_lines s i n x) t" "l \<in> set ls" "l \<in> set (purchase_order_lines t)"
  then show "wp (add_bill_line i fo acc l) (\<lambda>acc' u. (case acc' of (n, x, b) \<Rightarrow> new_bill_lines s i n x) u
      \<and> (\<forall>y \<in> set ls. pol_id y \<noteq> pol_id l \<longrightarrow> y \<in> set (purchase_order_lines t) \<longrightarrow> y \<in> set (purchase_order_lines u))) t"
    by (cases acc) (auto intro: wp_mono[OF add_bill_line_counts])
qed

text \<open>The bill is written with its lines; the checks of the commit make its identifier new and its total fit.\<close>

lemma bill_written:
  assumes inv: "bill_sums s" "bill_settlement s" and chk: "purchasing_chk t = None"
    and lines: "new_bill_lines s (sb_id v) (sb_net_amount v) (sb_tax_amount v) u"
    and t: "supplier_bills t = supplier_bills u @ [v]" "supplier_bill_lines t = supplier_bill_lines u" "payment_allocations t = payment_allocations u"
    and v: "sb_total_amount v = dec_add (sb_net_amount v) (sb_tax_amount v)" "sb_paid_amount v = 0" "sb_status v = BILL_DRAFT"
  shows "bill_sums t" "bill_settlement t"
proof -
  obtain new where new: "supplier_bill_lines u = supplier_bill_lines s @ new"
    "added sbl_bill_id ct_net_amount ct_tax_amount bought_line (sb_id v) new (sb_net_amount v, sb_tax_amount v)"
    and u: "supplier_bills u = supplier_bills s" "payment_allocations u = payment_allocations s"
    using lines by (auto simp: new_bill_lines_def)
  have c: "unique_on sb_id (supplier_bills s @ [v])" "in_range 14 (sb_total_amount v)"
    using chk t u new by (simp_all add: purchasing_chk_def purchasing_constraints_def)
  have "tallied sb_id sb_net_amount (\<lambda>l. Some (sbl_bill_id l)) ct_net_amount (supplier_bills s) (supplier_bill_lines s)"
    "tallied sb_id sb_tax_amount (\<lambda>l. Some (sbl_bill_id l)) ct_tax_amount (supplier_bills s) (supplier_bill_lines s)"
    using inv(1) by (simp_all add: bill_sums_def)
  note at = added_tallied[where key = sb_id and cn = sb_net_amount and ct = sb_tax_amount and tot = sb_total_amount,
      OF new(2) c(1) this refl refl v(1) c(2)]
  have bought: "list_all bought_line new" using new(2) by (auto simp: added_def list_all_iff)
  show "bill_sums t" using inv(1) at c(1) bought new(1) t u by (auto simp: bill_sums_def)
  have "tallied sb_id sb_paid_amount pa_supplier_bill_id pa_amount (supplier_bills s @ [v]) (payment_allocations s)"
    using inv(2) c(1) v by (intro tallied_new_row) (auto simp: bill_settlement_def)
  moreover have "bill_settled v" using v at by (simp add: bill_settled_def money_def)
  ultimately show "bill_settlement t" using inv(2) c(1) t u by (auto simp: bill_settlement_def)
qed

text \<open>Drafting a bill counts the billed quantities and keeps every total.\<close>

definition payable_inv :: "'a purchasing_db_scheme \<Rightarrow> bool" where
  "payable_inv s \<longleftrightarrow> purchase_counts s \<and> bill_sums s \<and> bill_settlement s"

lemma bill_loop_read:
  "payable_inv s \<Longrightarrow> wp (for_acc (add_bill_line i fo) (0, 0, False) (repo_purchase_order_lines j s)) (\<lambda>(n, x, b). new_bill_lines s i n x)
     (s\<lparr>uuid_count := k\<rparr>)"
  by (intro bill_loop[where j = j]) (simp_all add: payable_inv_def purchase_lines_read_def repo_purchase_order_lines_def purchase_counts_def)

lemma bill_written_billing:
  assumes "payable_inv s" and "purchasing_chk (u\<lparr>supplier_bills := supplier_bills u @ [v], audit_events := es\<rparr>) = None"
    and "new_bill_lines s i n x u" and "sb_id v = i" "sb_net_amount v = n" "sb_tax_amount v = x"
    and "sb_total_amount v = dec_add n x" "sb_paid_amount v = 0" "sb_status v = BILL_DRAFT"
  shows "payable_inv (u\<lparr>supplier_bills := supplier_bills u @ [v], audit_events := es\<rparr>)"
  using assms bill_written[of s "u\<lparr>supplier_bills := supplier_bills u @ [v], audit_events := es\<rparr>" v u]
  by (simp add: payable_inv_def new_bill_lines_def purchase_counts_def)

lemma create_bill_billing: "keeps payable_inv (create_bill context payload)"
  unfolding create_bill_def Let_def require_branch_def require_status_def
  apply (rule keeps_committed)
  apply (simp only: wp_simps)
  apply (intro impI allI)
  apply (rule wp_mono[OF bill_loop_read])
   apply assumption
  by (auto simp: wp_simps) (rule bill_written_billing, assumption, assumption, assumption, simp_all)+

section \<open>Settlement\<close>

text \<open>A bill that was read is the row with its identifier.\<close>

definition bill_read :: "uuid \<Rightarrow> SupplierBill \<Rightarrow> 'a purchasing_db_scheme \<Rightarrow> bool" where
  "bill_read i v s \<longleftrightarrow> bill_settlement s \<and> repo_bill i s = Some v"

lemma bill_read_documents: "documents_only (bill_read i v :: 'a purchasing_db_scheme \<Rightarrow> bool)"
proof (rule documents_onlyI)
  fix s s' :: "'a purchasing_db_scheme"
  assume "vat_db.more s' = vat_db.more s"
  from documents_onlyD[OF purchasing_documents_only(4) this] purchasing_moreD(4)[OF this]
  show "bill_read i v s' = bill_read i v s" by (simp add: bill_read_def repo_bill_def)
qed

lemma bill_readD:
  assumes "bill_read i v s"
  shows "v \<in> set (supplier_bills s)" "sb_id v = i" "bill_settled v" "unique_on sb_id (supplier_bills s)"
  using assms find_SomeD[of "\<lambda>v. sb_id v = i" "supplier_bills s" v] by (auto simp: bill_read_def repo_bill_def bill_settlement_def list_all_iff)

lemma bill_settlement_issue:
  assumes "bill_read i v s" "bill_settled (f v)" "\<And>v. sb_id (f v) = sb_id v" "\<And>v. sb_paid_amount (f v) = sb_paid_amount v"
  shows "bill_settlement (s\<lparr>supplier_bills := upd_where (\<lambda>v. sb_id v = i) f (supplier_bills s)\<rparr>)"
proof -
  note v = bill_readD[OF assms(1)]
  have "list_all bill_settled (upd_where (\<lambda>r. sb_id r = sb_id v) f (supplier_bills s))"
    using assms v by (intro list_all_update_row) (auto simp: bill_read_def bill_settlement_def)
  then show ?thesis using assms v(2) by (auto simp: bill_settlement_def bill_read_def intro!: tallied_update)
qed

lemma triple_bill:
  "(\<And>v. triple (bill_read i v) (g v) Q) \<Longrightarrow>
   triple bill_settlement (bnd (gets (repo_bill i)) (\<lambda>row. bnd (some_or e row) g)) Q"
  by (auto simp: triple_def wp_simps bill_read_def split: option.splits)

lemma bill_settled_issue:
  "bill_settled v \<Longrightarrow> sb_status v = BILL_DRAFT \<Longrightarrow> bill_settled (v\<lparr>sb_status := BILL_ISSUED, sb_issued_at := x, sb_number := y\<rparr>)"
  by (simp add: bill_settled_def money_def)

lemma issue_bill_settlement: "keeps bill_settlement (issue_bill context i)"
  unfolding issue_bill_def Let_def require_status_def update_bill_def post_bill_def record_vat_for_bill_def
  apply (rule keeps_service_transaction, rule keeps_triple, rule triple_bill)
  apply ((rule triple_skip, rule keeps_guards), rule triple_require, (rule triple_skip, rule purchasing_keeps[OF bill_read_documents])+)
  apply (rule triple_bnd[where R = "\<lambda>_. bill_settlement"])
   apply (rule tripleI, simp add: wp_simps, rule bill_settlement_issue, assumption)
     apply (rule bill_settled_issue, erule bill_readD, assumption, simp, simp)
  by (rule triple_keeps, intro keeps_intros purchasing_keeps[OF purchasing_documents_only(4)])

text \<open>A payment is allocated within the outstanding amount.\<close>

lemma bill_settled_pay:
  assumes "bill_settled v" "sb_status v \<in> {BILL_ISSUED, BILL_PARTIALLY_PAID}" "valid_amount a"
    and "\<not> a > dec_sub (sb_total_amount v) (sb_paid_amount v)"
  shows "dec_add (sb_paid_amount v) a = sb_paid_amount v + a"
    and "round_money (sb_paid_amount v + a) = Inr (sb_paid_amount v + a)"
    and "bill_settled (v\<lparr>sb_paid_amount := sb_paid_amount v + a,
            sb_status := settled_bill_status (sb_paid_amount v + a) (sb_total_amount v)\<rparr>)"
proof -
  let ?p = "sb_paid_amount v" and ?t = "sb_total_amount v"
  have g: "on_grid 4 ?p" "on_grid 4 ?t" "on_grid 4 a" and b: "0 \<le> ?p" "?p \<le> ?t" "?t < 10 ^ 14" "0 < a"
    using assms by (auto simp: bill_settled_def money_def valid_amount_def)
  have "dec_sub ?t ?p = ?t - ?p" using g b by (intro dec_sub_exact[where k = 4]) simp_all
  then have le: "?p + a \<le> ?t" using assms(4) by simp
  then show "dec_add ?p a = ?p + a" using g b by (intro dec_add_exact[where k = 4]) simp_all
  show "round_money (?p + a) = Inr (?p + a)"
    using g b le half_up.rescale_fixed[of 4 "?p + a"] by (subst round_money_eq) (simp_all add: Money_def on_grid_add)
  show "bill_settled (v\<lparr>sb_paid_amount := ?p + a, sb_status := settled_bill_status (?p + a) ?t\<rparr>)"
    using assms(1) g b le by (simp add: bill_settled_def settled_bill_status_def money_def on_grid_add)
qed

lemma bill_settlement_pay:
  fixes s :: "'a purchasing_db_scheme"
  assumes v: "bill_read i v s" "sb_status v \<in> {BILL_ISSUED, BILL_PARTIALLY_PAID}"
    and a: "valid_amount a" "\<not> a > dec_sub (sb_total_amount v) (sb_paid_amount v)"
    and p: "round_money (dec_add (sb_paid_amount v) a) = Inr p"
    and t: "supplier_bills t = upd_where (\<lambda>r. sb_id r = sb_id v)
        (\<lambda>r. r\<lparr>sb_paid_amount := p, sb_status := settled_bill_status p (sb_total_amount v)\<rparr>) (supplier_bills s)"
      "payment_allocations t = payment_allocations s @ [pa]" "pa_supplier_bill_id pa = Some (sb_id v)" "pa_amount pa = a"
  shows "bill_settlement t"
proof -
  note row = bill_readD[OF v(1)] and pay = bill_settled_pay[OF bill_readD(3)[OF v(1)] v(2) a]
  let ?f = "\<lambda>r. r\<lparr>sb_paid_amount := p, sb_status := settled_bill_status p (sb_total_amount v)\<rparr>"
  have s: "bill_settlement s" using v(1) by (simp add: bill_read_def)
  have p': "p = sb_paid_amount v + a" using p pay by simp
  have same: "r = v" if "r \<in> set (supplier_bills s)" "sb_id r = sb_id v" for r
    using row that by (auto simp: distinct_map dest: inj_onD)
  have "tallied sb_id sb_paid_amount pa_supplier_bill_id pa_amount (upd_where (\<lambda>r. sb_id r = sb_id v) ?f (supplier_bills s)) (payment_allocations s @ [pa])"
  proof (rule tallied_count[where c = pa and k = "sb_id v"])
    show "sb_paid_amount (?f r) = sb_paid_amount r + pa_amount pa" if "r \<in> set (supplier_bills s)" "sb_id r = sb_id v" for r
      using same[OF that] p' t(4) by simp
  qed (use s row(1) t(3) in \<open>auto simp: bill_settlement_def\<close>)
  moreover have "list_all bill_settled (upd_where (\<lambda>r. sb_id r = sb_id v) ?f (supplier_bills s))"
    using s row pay p' by (intro list_all_update_row) (auto simp: bill_settlement_def)
  ultimately show ?thesis using row t by (simp add: bill_settlement_def)
qed

lemma allocate_supplier_payment_settlement:
  assumes "valid_amount (bai_amount item)"
  shows "keeps bill_settlement (allocate_supplier_payment context payload j item)"
proof (rule keepsI)
  fix s :: "'a purchasing_db_scheme"
  assume s: "bill_settlement s"
  show "wp (allocate_supplier_payment context payload j item) (\<lambda>_. bill_settlement) s"
    unfolding allocate_supplier_payment_def Let_def require_branch_def require_status_def update_bill_def
    apply (simp only: wp_simps)
    apply (intro impI allI conjI)
    apply (rule bill_settlement_pay[OF _ _ assms])
    using s by (auto simp: bill_read_def)
qed

definition valid_supplier_payment :: "SupplierPaymentCreate \<Rightarrow> bool" where
  "valid_supplier_payment payload \<longleftrightarrow> list_all (\<lambda>a. valid_amount (bai_amount a)) (sp_allocations payload)"

lemma record_supplier_payment_settlement:
  assumes "valid_supplier_payment payload"
  shows "keeps bill_settlement (record_supplier_payment h fl context payload ko)"
  using assms unfolding record_supplier_payment_def make_supplier_payment_def post_supplier_payment_def valid_supplier_payment_def Let_def
  by (intro keeps_intros purchasing_keeps[OF purchasing_documents_only(4)] allocate_supplier_payment_settlement;
      simp add: list_all_iff bill_settlement_def)

section \<open>Totals of orders\<close>

lemma added_purchase:
  assumes "added doc ct_net_amount ct_tax_amount bought_line i new (n, t)" and "valid_purchase_line item"
    and "line_totals (pli_quantity item) (pli_unit_cost item) 0 (pli_tax_rate item) = Inr (a, b, y)"
    and "doc l = i" "ct_quantity l = pli_quantity item" "ct_unit_cost l = pli_unit_cost item"
      "ct_tax_rate l = pli_tax_rate item" "ct_net_amount l = a" "ct_tax_amount l = b"
  shows "added doc ct_net_amount ct_tax_amount bought_line i (new @ [l]) (dec_add n a, dec_add t b)"
  using assms(2-) line_totals_money[OF assms(3)]
  by (intro added_snoc[OF assms(1)])
    (auto simp: bought_line_def costed_line_def valid_purchase_line_def valid_rate_def valid_quantity_def)

lemma purchase_lines_added:
  assumes "list_all valid_purchase_line items" and "vat_db.more t = vat_db.more s"
  shows "wp (for_acc (add_purchase_line i) (0, 0) items)
           (\<lambda>acc t. \<exists>new. added pol_order_id ct_net_amount ct_tax_amount bought_line i new acc
              \<and> purchase_order_lines t = purchase_order_lines s @ new \<and> purchase_orders t = purchase_orders s) t"
    (is "wp _ ?I t")
proof (rule wp_for_acc)
  show "?I (0, 0) t" using purchasing_moreD[OF assms(2)] by (intro exI[of _ "[]"]) simp
next
  fix acc item t
  assume item: "item \<in> set items" and "?I acc t"
  then obtain n x new where acc: "acc = (n, x)"
    and new: "added pol_order_id ct_net_amount ct_tax_amount bought_line i new (n, x)"
    and t: "purchase_order_lines t = purchase_order_lines s @ new" "purchase_orders t = purchase_orders s" by (cases acc) auto
  have v: "valid_purchase_line item" using item assms(1) by (simp add: list_all_iff)
  show "wp (add_purchase_line i acc item) ?I t"
    unfolding add_purchase_line_def acc get_product_def
    by (auto simp: wp_simps t intro!: added_purchase[OF new v])
qed

lemma purchase_written:
  assumes "purchase_sums s" and "purchasing_chk t = None"
    and "purchase_orders t = purchase_orders s @ [q]" "purchase_order_lines t = purchase_order_lines s @ new"
    and "added pol_order_id ct_net_amount ct_tax_amount bought_line (po_id q) new (po_net_amount q, po_tax_amount q)"
    and "po_total_amount q = dec_add (po_net_amount q) (po_tax_amount q)"
  shows "purchase_sums t"
proof -
  have c: "unique_on po_id (purchase_orders s @ [q])" "in_range 14 (po_total_amount q)"
    using assms by (simp_all add: purchasing_chk_def purchasing_constraints_def)
  have "tallied po_id po_net_amount (\<lambda>l. Some (pol_order_id l)) ct_net_amount (purchase_orders s) (purchase_order_lines s)"
    "tallied po_id po_tax_amount (\<lambda>l. Some (pol_order_id l)) ct_tax_amount (purchase_orders s) (purchase_order_lines s)"
    using assms(1) by (simp_all add: purchase_sums_def)
  note at = added_tallied[where key = po_id and cn = po_net_amount and ct = po_tax_amount and tot = po_total_amount,
      OF assms(5) c(1) this refl refl assms(6) c(2)]
  show ?thesis
    using assms(1,3-5) at c(1) by (auto simp: purchase_sums_def list_all_iff added_def)
qed

lemma create_purchase_order_sums:
  assumes "list_all valid_purchase_line (poc_lines payload)"
  shows "keeps purchase_sums (create_purchase_order context payload)"
  unfolding create_purchase_order_def require_warehouse_def require_branch_def period_def Let_def
  apply (rule keeps_committed)
  apply (simp only: wp_simps)
  apply (intro impI allI conjI)
  subgoal for s
    apply (rule wp_mono[OF purchase_lines_added[OF assms, of _ s]])
     apply simp
    apply (elim exE conjE)
    apply (simp only: prod.case_eq_if wp_simps)
    apply (rule wp_allocate_frame)
    apply (intro impI)
    apply (rule purchase_written[of s])
    by (assumption | simp)+
  done

section \<open>The invariant of the purchasing documents\<close>

definition purchasing_inv :: "'a purchasing_db_scheme \<Rightarrow> bool" where
  "purchasing_inv s \<longleftrightarrow> purchase_sums s \<and> purchase_counts s \<and> bill_sums s \<and> bill_settlement s"

definition valid_receipt :: "GoodsReceiptCreate \<Rightarrow> bool" where
  "valid_receipt payload \<longleftrightarrow> (case grc_lines payload of None \<Rightarrow> True | Some items \<Rightarrow> list_all (\<lambda>i. valid_quantity (rli_quantity i)) items)"

lemma purchasing_invI:
  "keeps purchase_sums m \<Longrightarrow> keeps purchase_counts m \<Longrightarrow> keeps bill_sums m \<Longrightarrow> keeps bill_settlement m \<Longrightarrow> keeps purchasing_inv m"
  by (simp add: keeps_def purchasing_inv_def[abs_def] wp_conj)

lemmas purchasing_kept = purchase_sums_kept purchase_counts_kept bill_sums_kept bill_settlement_kept issue_bill_settlement

lemma purchasing_transitions_inv:
  "keeps purchasing_inv (confirm_purchase_order context i)" "keeps purchasing_inv (cancel_purchase_order context i)"
  "keeps purchasing_inv (issue_bill context i)"
  by (rule purchasing_invI; rule purchasing_kept)+

lemma create_purchase_order_inv:
  assumes "list_all valid_purchase_line (poc_lines payload)"
  shows "keeps purchasing_inv (create_purchase_order context payload)"
  by (rule purchasing_invI; rule purchasing_kept create_purchase_order_sums[OF assms] create_purchase_order_counts[OF assms])

lemma receive_inv:
  assumes "valid_receipt payload"
  shows "keeps purchasing_inv (receive context i payload)"
proof -
  have items: "\<forall>items. grc_lines payload = Some items \<longrightarrow> list_all (\<lambda>i. valid_quantity (rli_quantity i)) items"
    using assms by (simp add: valid_receipt_def split: option.splits)
  show ?thesis by (rule purchasing_invI; rule purchasing_kept receive_counts[OF items])
qed

lemma create_bill_inv: "keeps purchasing_inv (create_bill context payload)"
  by (rule keeps_eq[OF keeps_conj[OF purchase_sums_kept(4) create_bill_billing]]) (auto simp: purchasing_inv_def payable_inv_def)

lemma record_supplier_payment_inv:
  assumes "valid_supplier_payment payload"
  shows "keeps purchasing_inv (record_supplier_payment h fl context payload ko)"
  by (rule purchasing_invI; rule purchasing_kept record_supplier_payment_settlement[OF assms])

end
