(* ===== verification/Pos_Invariant.thy ===== *)
theory Pos_Invariant
  imports Purchasing_Invariant
begin

text \<open>
  The invariants of the point of sale: the totals of a sale are the sums of its lines and of the tender that was
  taken for it (\<open>sale_sums\<close>); a sale line counts the refunded quantity (\<open>refund_counts\<close>) and a sale the refunded
  amount (\<open>refund_totals\<close>); a terminal has at most one open session (\<open>one_open_session\<close>). Every operation of the
  service keeps them.
\<close>

section \<open>Invariants\<close>

definition valid_cart_line :: "CartLine \<Rightarrow> bool" where
  "valid_cart_line i \<longleftrightarrow> valid_quantity (cart_quantity i) \<and> valid_rate (cart_discount_rate i)"

definition valid_tender :: "TenderInput \<Rightarrow> bool" where
  "valid_tender p \<longleftrightarrow> valid_amount (ti_amount p) \<and> money (ti_change_given p) \<and> ti_change_given p < 10 ^ 14"

definition rung_line :: "sale_line \<Rightarrow> bool" where
  "rung_line l \<longleftrightarrow> sold_line l \<and> 0 \<le> lt_total_amount l"

definition sale_sums :: "'a pos_db_scheme \<Rightarrow> bool" where
  "sale_sums s \<longleftrightarrow> unique_on sl_id (sales s) \<and> list_all rung_line (sale_lines s)
     \<and> list_all (\<lambda>c. 0 \<le> tx_rate c) (tax_categories s)
     \<and> tallied sl_id sl_net_amount (\<lambda>l. Some (sln_sale_id l)) lt_net_amount (sales s) (sale_lines s)
     \<and> tallied sl_id sl_tax_amount (\<lambda>l. Some (sln_sale_id l)) lt_tax_amount (sales s) (sale_lines s)
     \<and> list_all (\<lambda>v. sl_total_amount v = sl_net_amount v + sl_tax_amount v) (sales s)
     \<and> tallied sl_id sl_total_amount (\<lambda>p. Some (spy_sale_id p)) (\<lambda>p. spy_amount p - spy_change_given p) (sales s) (sale_payments s)"

definition sale_line_counts :: "sale_line \<Rightarrow> bool" where
  "sale_line_counts l \<longleftrightarrow> valid_quantity (lt_quantity l) \<and> counted (sln_refunded_quantity l) (lt_quantity l)"

definition refund_counts :: "'a pos_db_scheme \<Rightarrow> bool" where
  "refund_counts s \<longleftrightarrow> unique_on sln_id (sale_lines s) \<and> list_all sale_line_counts (sale_lines s)
     \<and> tallied sln_id sln_refunded_quantity (\<lambda>l. Some (srl_sale_line_id l)) srl_quantity (sale_lines s) (sale_return_lines s)"

definition refund_totals :: "'a pos_db_scheme \<Rightarrow> bool" where
  "refund_totals s \<longleftrightarrow> unique_on sl_id (sales s) \<and> unique_on srn_id (sale_returns s)
     \<and> list_all (\<lambda>v. money (sl_refunded_amount v) \<and> sl_refunded_amount v \<le> sl_total_amount v) (sales s)
     \<and> tallied sl_id sl_refunded_amount (\<lambda>r. Some (srn_sale_id r)) srn_amount (sales s) (sale_returns s)"

definition one_open_session :: "'a pos_db_scheme \<Rightarrow> bool" where
  "one_open_session s \<longleftrightarrow> unique_on ps_id (pos_sessions s)
     \<and> unique_where ps_terminal_id (\<lambda>x. ps_status x = SESSION_OPEN) (pos_sessions s)"

lemma pos_moreD:
  fixes s s' :: "'a pos_db_scheme"
  assumes "vat_db.more s' = vat_db.more s"
  shows "tax_categories s' = tax_categories s" "pos_sessions s' = pos_sessions s" "sales s' = sales s"
    "sale_lines s' = sale_lines s" "sale_payments s' = sale_payments s" "sale_returns s' = sale_returns s"
    "sale_return_lines s' = sale_return_lines s"
  using assms by (cases s; cases s'; simp)+

lemma pos_documents_only:
  "documents_only (sale_sums :: 'a pos_db_scheme \<Rightarrow> bool)" "documents_only (refund_counts :: 'a pos_db_scheme \<Rightarrow> bool)"
  "documents_only (refund_totals :: 'a pos_db_scheme \<Rightarrow> bool)" "documents_only (one_open_session :: 'a pos_db_scheme \<Rightarrow> bool)"
  by (rule documents_onlyI, frule pos_moreD(1), frule pos_moreD(2), frule pos_moreD(3), frule pos_moreD(4),
      frule pos_moreD(5), frule pos_moreD(6), frule pos_moreD(7),
      simp add: sale_sums_def refund_counts_def refund_totals_def one_open_session_def)+

lemma pos_services: "documents_only J \<Longrightarrow> shared_services J pos_flush_chk"
  by (rule documents_only_services) (simp_all add: pos_check.journal_check_axioms)

lemmas pos_keeps = shared_services.keeps_services[OF pos_services]

section \<open>Changes that an invariant does not notice\<close>

lemmas pos_steps =
  take_sold_stock_def add_sale_line_def add_tender_def post_sale_def record_vat_for_sale_def return_stock_def
  refund_line_def post_refund_def record_vat_for_refund_def

lemmas pos_updates = update_pos_session_def update_sale_def update_sale_line_def update_sale_return_def

lemma sale_sums_refunded:
  "keeps sale_sums (update_sale i (\<lambda>x. x\<lparr>sl_refunded_amount := r\<rparr>))"
  "keeps sale_sums (update_sale_line i (\<lambda>l. l\<lparr>sln_refunded_quantity := f l\<rparr>))"
  unfolding update_sale_def update_sale_line_def
  by (rule keeps_modify, auto simp: sale_sums_def rung_line_def sold_line_def priced_line_def
      intro!: tallied_update list_all_updateI)+

lemma sale_sums_kept:
  "keeps sale_sums (create_terminal context tmc)" "keeps sale_sums (update_terminal context i tmu)"
  "keeps sale_sums (open_session context sop)" "keeps sale_sums (close_session context i scl)"
  "keeps sale_sums (hold context hc)" "keeps sale_sums (resume context i)" "keeps sale_sums (take_back context rf)"
  unfolding create_terminal_def update_terminal_def open_session_def close_session_def hold_def resume_def
    take_back_def pos_steps Let_def
  by (intro keeps_intros pos_keeps[OF pos_documents_only(1)] sale_sums_refunded;
      (auto simp: sale_sums_def update_pos_session_def update_sale_return_def intro!: keeps_modify)?)+

lemma refund_counts_kept:
  "keeps refund_counts (create_terminal context tmc)" "keeps refund_counts (update_terminal context i tmu)"
  "keeps refund_counts (open_session context sop)" "keeps refund_counts (close_session context i scl)"
  "keeps refund_counts (hold context hc)" "keeps refund_counts (resume context i)"
  unfolding create_terminal_def update_terminal_def open_session_def close_session_def hold_def resume_def Let_def
  by (intro keeps_intros pos_keeps[OF pos_documents_only(2)];
      (auto simp: refund_counts_def update_pos_session_def intro!: keeps_modify)?)+

lemma refund_totals_kept:
  "keeps refund_totals (create_terminal context tmc)" "keeps refund_totals (update_terminal context i tmu)"
  "keeps refund_totals (open_session context sop)" "keeps refund_totals (close_session context i scl)"
  "keeps refund_totals (hold context hc)" "keeps refund_totals (resume context i)"
  unfolding create_terminal_def update_terminal_def open_session_def close_session_def hold_def resume_def Let_def
  by (intro keeps_intros pos_keeps[OF pos_documents_only(3)];
      (auto simp: refund_totals_def update_pos_session_def intro!: keeps_modify)?)+

text \<open>The constraints of the table are the invariant of the sessions.\<close>

lemma one_open_session_committed: "keeps one_open_session (service_transaction pos_chk m)"
  by (rule keepsI)
    (auto simp: wp_def service_transaction_def bnd_def flush_def ret_def one_open_session_def pos_chk_def pos_constraints_def
      split: prod.splits sum.splits option.splits)

section \<open>Checkout\<close>

text \<open>A line as it is added; that its price is not negative is checked when it is written.\<close>

definition line_added :: "uuid \<Rightarrow> sale_line \<Rightarrow> bool" where
  "line_added i l \<longleftrightarrow> sln_sale_id l = i \<and> sln_refunded_quantity l = 0 \<and> valid_quantity (lt_quantity l)
     \<and> valid_rate (lt_discount_rate l) \<and> 0 \<le> lt_tax_rate l
     \<and> line_totals (lt_quantity l) (lt_unit_price l) (lt_discount_rate l) (lt_tax_rate l)
         = Inr (lt_net_amount l, lt_tax_amount l, lt_total_amount l)"

definition ringing :: "'a pos_db_scheme \<Rightarrow> sale \<Rightarrow> sale_line list \<Rightarrow> rat \<Rightarrow> rat \<Rightarrow> 'a pos_db_scheme \<Rightarrow> bool" where
  "ringing s v new n x t \<longleftrightarrow> sl_id v \<notin> sl_id ` set (sales s) \<and> sales t = sales s @ [v] \<and> sale_lines t = sale_lines s @ new
     \<and> sale_payments t = sale_payments s \<and> sale_returns t = sale_returns s \<and> sale_return_lines t = sale_return_lines s
     \<and> tax_categories t = tax_categories s \<and> list_all (line_added (sl_id v)) new
     \<and> n = foldl dec_add 0 (map lt_net_amount new) \<and> x = foldl dec_add 0 (map lt_tax_amount new)"

lemma ringing_documents: "documents_only (ringing (s :: 'a pos_db_scheme) v new n x)"
  by (rule documents_onlyI, frule pos_moreD(1), frule pos_moreD(3), frule pos_moreD(4), frule pos_moreD(5),
      frule pos_moreD(6), frule pos_moreD(7)) (simp add: ringing_def)

lemma tax_rate_nonneg: "sale_sums s \<Longrightarrow> tax_categories t = tax_categories s \<Longrightarrow> 0 \<le> tax_rate c t"
  by (auto simp: sale_sums_def tax_rate_def list_all_iff split: option.splits dest!: find_SomeD)

lemma add_sale_line_ringing:
  fixes t :: "'a pos_db_scheme"
  assumes s: "sale_sums s" and t: "ringing s v new n x t" and item: "valid_cart_line item"
  shows "wp (add_sale_line context w (sl_id v) (new, n, x, c, d) item) (\<lambda>(new, n, x, _). ringing s v new n x) t"
proof -
  have stock: "keeps (ringing s v new n x) (take_sold_stock context w i p q)" for new n x i p q
    unfolding take_sold_stock_def by (intro keeps_intros pos_keeps[OF ringing_documents])
  have "ringing s v (new @ [l]) (dec_add n a) (dec_add x b) u"
    if "line_added (sl_id v) l" "lt_net_amount l = a" "lt_tax_amount l = b"
      "sale_lines u = sale_lines t @ [l]" "sales u = sales t" "sale_payments u = sale_payments t" "sale_returns u = sale_returns t"
      "sale_return_lines u = sale_return_lines t" "tax_categories u = tax_categories t" for l a b and u :: "'a pos_db_scheme"
    using t that by (auto simp: ringing_def)
  note step = keepsD[OF stock this]
  have r: "0 \<le> tax_rate k t" for k using s t by (intro tax_rate_nonneg) (auto simp: ringing_def)
  show ?thesis
    unfolding add_sale_line_def Let_def
    by (auto simp: wp_simps intro!: wp_mono[OF step]) (use item r in \<open>auto simp: line_added_def valid_cart_line_def\<close>)
qed

lemma sale_loop:
  fixes t :: "'a pos_db_scheme"
  assumes s: "sale_sums s" and t: "ringing s v [] 0 0 t" and items: "list_all valid_cart_line items"
  shows "wp (for_acc (add_sale_line context w (sl_id v)) ([], 0, 0, 0, 0) (sort_key g items)) (\<lambda>(new, n, x, _). ringing s v new n x) t"
proof (rule wp_for_acc)
  show "(case ([], 0, 0, 0, 0) of (new, n, x, _) \<Rightarrow> ringing s v new n x) t" using t by simp
next
  fix acc :: checkout_acc and item and t :: "'a pos_db_scheme"
  assume "item \<in> set (sort_key g items)" "(case acc of (new, n, x, _) \<Rightarrow> ringing s v new n x) t"
  then show "wp (add_sale_line context w (sl_id v) acc item) (\<lambda>(new, n, x, _). ringing s v new n x) t"
    using items by (cases acc) (auto simp: list_all_iff intro: add_sale_line_ringing[OF s])
qed

text \<open>The tender of a sale.\<close>

definition tendered :: "uuid \<Rightarrow> TenderInput list \<Rightarrow> sale_payment list \<Rightarrow> bool" where
  "tendered i = list_all2 (\<lambda>p q. spy_sale_id q = i \<and> spy_amount q = ti_amount p \<and> spy_change_given q = ti_change_given p)"

definition paying :: "'a pos_db_scheme \<Rightarrow> sale \<Rightarrow> sale_line list \<Rightarrow> rat \<Rightarrow> rat \<Rightarrow> TenderInput list \<Rightarrow> 'a pos_db_scheme \<Rightarrow> bool" where
  "paying s v new n x ins t \<longleftrightarrow> (\<exists>u ps. ringing s v new n x u \<and> tendered (sl_id v) ins ps \<and> sale_payments t = sale_payments s @ ps
     \<and> sales t = sales u \<and> sale_lines t = sale_lines u \<and> sale_returns t = sale_returns u
     \<and> sale_return_lines t = sale_return_lines u \<and> tax_categories t = tax_categories u)"

lemma paying_documents: "documents_only (paying (s :: 'a pos_db_scheme) v new n x ins)"
  by (rule documents_onlyI, frule pos_moreD(1), frule pos_moreD(3), frule pos_moreD(4), frule pos_moreD(5),
      frule pos_moreD(6), frule pos_moreD(7)) (simp add: paying_def)

lemma tender_loop:
  fixes t :: "'a pos_db_scheme"
  assumes "ringing s v new n x t"
  shows "wp (for_each (add_tender (sl_id v)) ins) (\<lambda>_. paying s v new n x ins) t"
proof (rule wp_for_each_prefix[where I = "paying s v new n x"])
  show "paying s v new n x [] t"
    using assms by (auto simp: paying_def tendered_def ringing_def intro!: exI[of _ t])
next
  fix before p after and t :: "'a pos_db_scheme"
  assume "paying s v new n x before t"
  then obtain u ps where u: "ringing s v new n x u" "tendered (sl_id v) before ps" "sale_payments t = sale_payments s @ ps"
    "sales t = sales u" "sale_lines t = sale_lines u" "sale_returns t = sale_returns u"
    "sale_return_lines t = sale_return_lines u" "tax_categories t = tax_categories u" by (auto simp: paying_def)
  have "paying s v new n x (before @ [p]) t'"
    if "sale_payments t' = sale_payments t @ [q]" "spy_sale_id q = sl_id v" "spy_amount q = ti_amount p"
      "spy_change_given q = ti_change_given p" "sales t' = sales t" "sale_lines t' = sale_lines t"
      "sale_returns t' = sale_returns t" "sale_return_lines t' = sale_return_lines t" "tax_categories t' = tax_categories t"
    for q and t' :: "'a pos_db_scheme"
    using u that unfolding paying_def by (intro exI[of _ u] exI[of _ "ps @ [q]"]) (auto simp: tendered_def intro: list_all2_appendI)
  then show "wp (add_tender (sl_id v) p) (\<lambda>_. paying s v new n x (before @ [p])) t"
    by (auto simp: add_tender_def wp_simps)
qed

text \<open>The completed sale, up to the commit.\<close>

definition sale_rung :: "'a pos_db_scheme \<Rightarrow> TenderInput list \<Rightarrow> 'a pos_db_scheme \<Rightarrow> bool" where
  "sale_rung s ins t \<longleftrightarrow> (\<exists>u w v new n x. paying s w new n x ins u \<and> sales t = sales s @ [v] \<and> sl_id v = sl_id w
     \<and> sale_lines t = sale_lines u \<and> sale_payments t = sale_payments u \<and> sale_returns t = sale_returns u
     \<and> sale_return_lines t = sale_return_lines u \<and> tax_categories t = tax_categories u
     \<and> sl_net_amount v = Money n \<and> sl_tax_amount v = Money x \<and> sl_total_amount v = Money (dec_add n x)
     \<and> sl_refunded_amount v = 0 \<and> effective_tender ins = sl_total_amount v)"

lemma sale_rung_documents: "documents_only (sale_rung (s :: 'a pos_db_scheme) ins)"
proof (rule documents_onlyI)
  fix t t' :: "'a pos_db_scheme"
  assume "vat_db.more t' = vat_db.more t"
  from pos_moreD[OF this] show "sale_rung s ins t' = sale_rung s ins t" by (simp only: sale_rung_def)
qed

lemma Money_less_14: "Money x < 10 ^ 14 \<Longrightarrow> x < 10 ^ 14"
  using half_up.rescale_lower[of "10 ^ 14" x 4] by (fastforce simp: Money_def on_grid_def)

lemma line_added_sold: "line_added i l \<Longrightarrow> line_ok l \<Longrightarrow> rung_line l \<and> sale_line_counts l"
  using line_totals_money[of "lt_quantity l" "lt_unit_price l" "lt_discount_rate l" "lt_tax_rate l"]
  by (auto simp: line_added_def line_ok_def rung_line_def sold_line_def priced_line_def sale_line_counts_def valid_quantity_def
      money_def dec_add_nonneg)

text \<open>The tender pays the total to the last decimal place.\<close>

lemma tender_exact:
  assumes "tendered i ins ps" "list_all valid_tender ins" "list_all (\<lambda>p. spy_change_given p \<le> spy_amount p) ps"
    and "effective_tender ins < 10 ^ 14"
  shows "sum_list (map (\<lambda>p. spy_amount p - spy_change_given p) ps) = effective_tender ins"
proof -
  have sub: "dec_sub (ti_amount p) (ti_change_given p) = ti_amount p - ti_change_given p"
    "on_grid 4 (ti_amount p - ti_change_given p)" if "p \<in> set ins" for p
  proof -
    have p: "valid_tender p" using assms(2) that by (simp add: list_all_iff)
    then show "dec_sub (ti_amount p) (ti_change_given p) = ti_amount p - ti_change_given p"
      by (intro dec_sub_exact[where k = 4]) (auto simp: valid_tender_def valid_amount_def money_def)
    show "on_grid 4 (ti_amount p - ti_change_given p)"
      using p by (auto simp: valid_tender_def valid_amount_def money_def)
  qed
  have same: "map (\<lambda>p. spy_amount p - spy_change_given p) ps = map (\<lambda>p. dec_sub (ti_amount p) (ti_change_given p)) ins"
    and "\<forall>p \<in> set ins. ti_change_given p \<le> ti_amount p"
    using assms(1,3) sub(1) unfolding tendered_def by (induction rule: list_all2_induct) auto
  then have "\<forall>y \<in> set (map (\<lambda>p. dec_sub (ti_amount p) (ti_change_given p)) ins). 0 \<le> y \<and> on_grid 4 y"
    using sub by auto
  with assms(4) show ?thesis unfolding effective_tender_def dec_sum_def same
    by (intro dec_sum_exact[where k = 4, symmetric]) simp_all
qed

lemma sale_written:
  fixes s t :: "'a pos_db_scheme"
  assumes s: "sale_sums s" "refund_counts s" "refund_totals s" and ins: "list_all valid_tender ins"
    and chk: "pos_chk t = None" and rung: "sale_rung s ins t"
  shows "sale_sums t" "refund_counts t" "refund_totals t"
proof -
  obtain w v new n x ps where t: "sales t = sales s @ [v]" "sale_lines t = sale_lines s @ new" "sale_payments t = sale_payments s @ ps"
      "sale_returns t = sale_returns s" "sale_return_lines t = sale_return_lines s" "tax_categories t = tax_categories s"
    and new: "list_all (line_added (sl_id v)) new" "n = foldl dec_add 0 (map lt_net_amount new)" "x = foldl dec_add 0 (map lt_tax_amount new)"
    and ps: "tendered (sl_id v) ins ps" "effective_tender ins = sl_total_amount v"
    and v: "sl_net_amount v = Money n" "sl_tax_amount v = Money x" "sl_total_amount v = Money (dec_add n x)" "sl_refunded_amount v = 0"
    using rung by (force simp: sale_rung_def paying_def ringing_def)
  have c: "unique_on sl_id (sales s @ [v])" "in_range 14 (sl_total_amount v)" "0 \<le> sl_total_amount v" "unique_on sln_id (sale_lines s @ new)"
    "list_all line_ok new" "list_all (\<lambda>p. spy_change_given p \<le> spy_amount p) ps" "unique_on srn_id (sale_returns s)"
    using chk unfolding pos_chk_def by (simp_all add: pos_constraints_def t list_all_iff)
  have rl: "\<forall>l \<in> set new. rung_line l \<and> sale_line_counts l \<and> sln_sale_id l = sl_id v \<and> sln_refunded_quantity l = 0"
    using new(1) c(5) line_added_sold by (auto simp: list_all_iff line_added_def)
  then have money: "\<forall>l \<in> set new. money (lt_net_amount l) \<and> money (lt_tax_amount l)" by (simp add: rung_line_def sold_line_def)
  have "dec_add n x < 10 ^ 14" using c(2) v(3) Money_less_14[of "dec_add n x"] by (simp add: in_range_def abs_less_iff)
  note dt = document_totals[OF money this[unfolded new(2,3)], folded new(2,3)]
  have m: "Money n = n" "Money x = x" "Money (dec_add n x) = dec_add n x"
    using dt by (simp_all add: Money_fixed money_def on_grid_add)
  have add: "added sln_sale_id lt_net_amount lt_tax_amount rung_line (sl_id v) new (n, x)"
    using rl money new(2,3) by (simp add: added_def)
  have tl: "tallied sl_id sl_net_amount (\<lambda>l. Some (sln_sale_id l)) lt_net_amount (sales s) (sale_lines s)"
    "tallied sl_id sl_tax_amount (\<lambda>l. Some (sln_sale_id l)) lt_tax_amount (sales s) (sale_lines s)"
    using s(1) by (simp_all add: sale_sums_def)
  note at = added_tallied[where key = sl_id and cn = sl_net_amount and ct = sl_tax_amount and tot = sl_total_amount,
      OF add c(1) tl v(1)[unfolded m(1)] v(2)[unfolded m(2)] v(3)[unfolded m(3)] c(2)]
  have "sum_list (map (\<lambda>p. spy_amount p - spy_change_given p) ps) = sl_total_amount v"
    using tender_exact[OF ps(1) ins c(6)] ps(2) c(2) by (simp add: in_range_def)
  moreover have "\<forall>p \<in> set ps. spy_sale_id p = sl_id v"
    using ps(1) by (auto simp: tendered_def list_all2_conv_all_nth in_set_conv_nth)
  ultimately have "tallied sl_id sl_total_amount (\<lambda>p. Some (spy_sale_id p)) (\<lambda>p. spy_amount p - spy_change_given p)
      (sales s @ [v]) (sale_payments s @ ps)"
    using s(1) c(1) by (intro tallied_new_document) (auto simp: sale_sums_def)
  then show "sale_sums t" using s(1) at rl c(1) by (auto simp: sale_sums_def t list_all_iff)
  have "tallied sln_id sln_refunded_quantity (\<lambda>l. Some (srl_sale_line_id l)) srl_quantity (sale_lines s @ new) (sale_return_lines s)"
    using s(2) c(4) rl by (intro tallied_new_rows) (auto simp: refund_counts_def)
  then show "refund_counts t" using s(2) c(4) rl by (auto simp: refund_counts_def t list_all_iff)
  have "tallied sl_id sl_refunded_amount (\<lambda>r. Some (srn_sale_id r)) srn_amount (sales s @ [v]) (sale_returns s)"
    using s(3) c(1) v by (intro tallied_new_row) (auto simp: refund_totals_def)
  then show "refund_totals t" using s(3) c v by (auto simp: refund_totals_def t money_def)
qed

definition valid_checkout :: "CheckoutCreate \<Rightarrow> bool" where
  "valid_checkout payload \<longleftrightarrow> list_all valid_cart_line (co_lines payload) \<and> list_all valid_tender (co_payments payload)"

text \<open>The sale is inserted before its lines and completed after them; its identifier is new because the insert was flushed.\<close>

lemma triple_new_sale:
  fixes s :: "'a pos_db_scheme"
  assumes "sl_id v = i" "\<And>t. triple (ringing s v [] 0 0) (g ()) Q"
  shows "triple (\<lambda>t. vat_db.more t = vat_db.more s) (bnd (modify (\<lambda>s. s\<lparr>sales := sales s @ [v]\<rparr>)) (\<lambda>_. bnd (flush pos_flush_chk) g)) Q"
proof (rule tripleI)
  fix t :: "'a pos_db_scheme"
  assume "vat_db.more t = vat_db.more s"
  note same = pos_moreD[OF this]
  have "ringing s v [] 0 0 (t\<lparr>sales := sales t @ [v]\<rparr>)" if "pos_flush_chk (t\<lparr>sales := sales t @ [v]\<rparr>) = None"
    using that same by (auto simp: ringing_def pos_flush_chk_def pos_constraints_def)
  then show "wp (bnd (modify (\<lambda>s. s\<lparr>sales := sales s @ [v]\<rparr>)) (\<lambda>_. bnd (flush pos_flush_chk) g)) Q t"
    using tripleD[OF assms(2)] by (simp add: wp_simps)
qed

lemma triple_sale_loop:
  assumes "sale_sums s" "list_all valid_cart_line items" "sl_id v = i"
    and "\<And>new n x c d. triple (ringing s v new n x) (f (new, n, x, c, d)) Q"
  shows "triple (ringing s v [] 0 0) (bnd (for_acc (add_sale_line context w i) ([], 0, 0, 0, 0) (sort_key g items)) f) Q"
  using assms sale_loop[OF assms(1) _ assms(2), of v]
  by (intro triple_bnd[where R = "\<lambda>(new, n, x, _). ringing s v new n x"] tripleI)
    (auto simp: triple_def split: prod.splits)

lemma triple_tender:
  assumes "sl_id v = i" "\<And>x'. triple (paying s v new n x ins) (f x') Q"
  shows "triple (ringing s v new n x) (bnd (for_each (add_tender i) ins) f) Q"
  using assms tender_loop[of s v new n x] by (intro triple_bnd[where R = "\<lambda>_. paying s v new n x ins"]) (auto simp: triple_def)

lemma complete_sale:
  assumes "paying s w new n x ins t" "sl_id w = i" "sl_refunded_amount w = 0" "\<And>v. sl_id (f v) = sl_id v"
    "sl_net_amount (f w) = Money n" "sl_tax_amount (f w) = Money x" "sl_total_amount (f w) = Money (dec_add n x)"
    "sl_refunded_amount (f w) = 0" "effective_tender ins = sl_total_amount (f w)"
  shows "sale_rung s ins (t\<lparr>sales := upd_where (\<lambda>x. sl_id x = i) f (sales t)\<rparr>)"
proof -
  obtain u ps where u: "ringing s w new n x u" "sales t = sales u" using assms(1) by (auto simp: paying_def)
  have "upd_where (\<lambda>x. sl_id x = i) f (sales s) = sales s"
    by (rule upd_where_no_match) (use u assms(2) in \<open>auto simp: ringing_def image_iff\<close>)
  then have "upd_where (\<lambda>x. sl_id x = i) f (sales t) = sales s @ [f w]"
    using u assms(2) by (simp add: ringing_def)
  then show ?thesis unfolding sale_rung_def using assms
    by (intro exI[of _ t] exI[of _ w] exI[of _ "f w"] exI[of _ new] exI[of _ n] exI[of _ x]) simp
qed

definition till_inv :: "'a pos_db_scheme \<Rightarrow> bool" where
  "till_inv s \<longleftrightarrow> sale_sums s \<and> refund_counts s \<and> refund_totals s"

lemma ring_up_rung:
  fixes s :: "'a pos_db_scheme"
  assumes s: "sale_sums s" and p: "valid_checkout payload"
  shows "triple (\<lambda>t. vat_db.more t = vat_db.more s) (ring_up context payload) (\<lambda>_. sale_rung s (co_payments payload))"
  unfolding ring_up_def Let_def update_sale_def post_sale_def record_vat_for_sale_def
  apply ((rule triple_skip, rule keeps_pos_guards)+, rule triple_require, rule triple_gets, rule triple_require)
  apply ((rule triple_skip, rule pos_keeps[OF documents_same])+)
  apply (rule triple_new_sale, rule refl)
  apply (rule triple_sale_loop[OF s], use p in \<open>simp add: valid_checkout_def\<close>, simp add: new_sale_def)
  apply (simp only: prod.case)
  apply ((rule triple_lift_res)+, rule triple_require)
  apply (rule triple_tender, simp add: new_sale_def)
  apply (rule triple_skip, rule pos_keeps[OF paying_documents])
  apply (rule triple_bnd[where R = "\<lambda>_. sale_rung s (co_payments payload)"])
   apply (rule tripleI, simp add: wp_simps, erule complete_sale)
          apply (auto simp: new_sale_def dest!: round_money_InrD)[8]
  apply (rule triple_keeps)
  apply (intro keeps_intros pos_keeps[OF sale_rung_documents])
  by (simp add: sale_rung_def)

lemma triple_case_option:
  "triple P m Q \<Longrightarrow> (\<And>x. triple P (f x) Q) \<Longrightarrow> triple P (case r of None \<Rightarrow> m | Some x \<Rightarrow> f x) Q"
  by (cases r) simp_all

lemma till_inv_documents: "documents_only (till_inv :: 'a pos_db_scheme \<Rightarrow> bool)"
  unfolding till_inv_def by (intro documents_only_conj pos_documents_only)

lemma checkout_inv:
  assumes "valid_checkout payload"
  shows "keeps till_inv (checkout h fl context payload k)"
  unfolding checkout_def
  apply (rule triple_committed[where N = "\<lambda>s t. sale_rung s (co_payments payload) t \<or> vat_db.more t = vat_db.more s"])
  subgoal for s
    apply (rule triple_conseq[where P = "\<lambda>t. vat_db.more t = vat_db.more s" and Q = "\<lambda>_ t. sale_rung s (co_payments payload) t \<or> vat_db.more t = vat_db.more s"])
      apply (rule triple_skip, rule pos_keeps[OF documents_same], rule triple_gets, rule triple_case_option)
       apply (rule triple_bnd[where R = "\<lambda>_. sale_rung s (co_payments payload)"])
        apply (rule ring_up_rung[OF _ assms], simp add: till_inv_def)
       apply (rule triple_weaken, rule triple_keeps, intro keeps_intros pos_keeps[OF sale_rung_documents], simp)
      apply (rule triple_weaken, rule triple_keeps, intro keeps_intros pos_keeps[OF documents_same], simp)
    by simp_all
  subgoal for s t
    using assms sale_written[of s "co_payments payload" t] documents_onlyD[OF till_inv_documents, of t s]
    by (auto simp: till_inv_def valid_checkout_def)
  done

section \<open>Refunds\<close>

definition valid_refund :: "RefundCreate \<Rightarrow> bool" where
  "valid_refund payload \<longleftrightarrow> list_all (\<lambda>l. valid_quantity (rl_quantity l)) (rf_lines payload)"

lemma refund_counts_lines: "refund_counts s \<Longrightarrow> l \<in> set (sale_lines s) \<Longrightarrow> sale_line_counts l"
  by (auto simp: refund_counts_def list_all_iff)

lemma refund_counts_refund:
  assumes "refund_counts s" "line \<in> set (sale_lines s)" "valid_quantity q"
    and "\<not> q > dec_sub (lt_quantity line) (sln_refunded_quantity line)"
    and "sale_lines t = upd_where (\<lambda>l. sln_id l = sln_id line)
           (\<lambda>l. l\<lparr>sln_refunded_quantity := dec_add (sln_refunded_quantity l) q\<rparr>) (sale_lines s)"
    and "sale_return_lines t = sale_return_lines s @ [rl]" "srl_sale_line_id rl = sln_id line" "srl_quantity rl = q"
  shows "refund_counts t"
proof -
  let ?f = "\<lambda>l. l\<lparr>sln_refunded_quantity := dec_add (sln_refunded_quantity l) q\<rparr>"
  have line: "valid_quantity (lt_quantity line)" "counted (sln_refunded_quantity line) (lt_quantity line)"
    using refund_counts_lines[OF assms(1,2)] by (simp_all add: sale_line_counts_def)
  have le: "q \<le> lt_quantity line - sln_refunded_quantity line"
    using assms(4) counted_sub(1)[OF line(1) counted_full[OF line(1)] line(2)] by simp
  have "tallied sln_id sln_refunded_quantity (\<lambda>l. Some (srl_sale_line_id l)) srl_quantity
          (upd_where (\<lambda>r. sln_id r = sln_id line) ?f (sale_lines s)) (sale_return_lines s @ [rl])"
    using assms line le by (auto simp: refund_counts_def
        intro!: tallied_step[where p = line and q = "lt_quantity line" and d = q and cnt = sln_refunded_quantity])
  moreover have "sale_line_counts (?f line)"
    using assms(3) line le counted_add[of "lt_quantity line" "sln_refunded_quantity line" q] by (simp add: sale_line_counts_def)
  then have "list_all sale_line_counts (upd_where (\<lambda>r. sln_id r = sln_id line) ?f (sale_lines s))"
    using assms(1,2) by (intro list_all_update_row) (simp_all add: refund_counts_def)
  ultimately show ?thesis using assms by (simp add: refund_counts_def)
qed

lemma refund_share_money:
  assumes "refund_share a q d = Inr y" "0 \<le> a" "0 < q" "0 < d"
  shows "money y"
proof -
  have "y = Money (ctx28 (dec_mul a q / d))"
    using assms by (auto simp: refund_share_def dec_div_def dest: round_money_InrD)
  moreover have "0 \<le> ctx28 (dec_mul a q / d)"
    using assms by (intro ctx28_nonneg divide_nonneg_pos dec_mul_nonneg) simp_all
  ultimately show ?thesis by (simp add: money_def Money_nonneg)
qed

text \<open>While the lines are refunded the sale and the pending return wait for their amounts.\<close>

definition refunding :: "'a pos_db_scheme \<Rightarrow> sale list \<Rightarrow> sale_return \<Rightarrow> rat \<Rightarrow> 'a pos_db_scheme \<Rightarrow> bool" where
  "refunding s vs r x t \<longleftrightarrow> refund_counts t \<and> sales t = vs \<and> sale_returns t = sale_returns s @ [r]
     \<and> srn_id r \<notin> srn_id ` set (sale_returns s) \<and> (\<exists>as. x = foldl dec_add 0 as \<and> list_all money as)"

lemma refunding_documents: "documents_only (refunding (s :: 'a pos_db_scheme) vs r x)"
proof (rule documents_onlyI)
  fix t t' :: "'a pos_db_scheme"
  assume "vat_db.more t' = vat_db.more t"
  from documents_onlyD[OF pos_documents_only(2) this] pos_moreD[OF this]
  show "refunding s vs r x t' = refunding s vs r x t" by (simp add: refunding_def)
qed

lemma refund_line_counts:
  fixes t :: "'a pos_db_scheme"
  assumes t: "refunding s vs r x t" "\<forall>l \<in> set ls. sln_id l = rl_sale_line_id item \<longrightarrow> l \<in> set (sale_lines t)"
    and ls: "list_all rung_line ls" and item: "valid_quantity (rl_quantity item)"
  shows "wp (refund_line context sale i ls (x, n, y, c, rl) item)
           (\<lambda>(x, _) u. refunding s vs r x u
              \<and> (\<forall>l \<in> set (sale_lines t). sln_id l \<noteq> rl_sale_line_id item \<longrightarrow> l \<in> set (sale_lines u))) t"
proof -
  have stock: "keeps (\<lambda>u :: 'a pos_db_scheme. vat_db.more u = vat_db.more w) (return_stock context k i p q)"
    for w :: "'a pos_db_scheme" and k p q
    unfolding return_stock_def by (intro keeps_intros pos_keeps[OF documents_same])
  have step: "refunding s vs r (dec_add x a) u"
    if u: "vat_db.more u = vat_db.more w" and l: "sale_line_by_id (rl_sale_line_id item) ls = Some line"
      "\<not> rl_quantity item > dec_sub (lt_quantity line) (sln_refunded_quantity line)"
      and a: "refund_share (lt_total_amount line) (rl_quantity item) (lt_quantity line) = Inr a"
      and w: "sale_lines w = upd_where (\<lambda>l. sln_id l = sln_id line)
          (\<lambda>l. l\<lparr>sln_refunded_quantity := dec_add (sln_refunded_quantity l) (rl_quantity item)\<rparr>) (sale_lines t)"
        "sale_return_lines w = sale_return_lines t @ [srl]" "srl_sale_line_id srl = sln_id line" "srl_quantity srl = rl_quantity item"
        "sales w = sales t" "sale_returns w = sale_returns t" for line a srl and u w :: "'a pos_db_scheme"
  proof -
    have line: "line \<in> set ls" "sln_id line = rl_sale_line_id item"
      using l(1) by (auto simp: sale_line_by_id_def dest: find_SomeD)
    then have row: "line \<in> set (sale_lines t)" and rung: "rung_line line" using t(2) ls by (auto simp: list_all_iff)
    have "money a" using refund_share_money[OF a] rung item
      by (auto simp: rung_line_def sold_line_def priced_line_def valid_quantity_def)
    moreover have "refund_counts t" using t(1) by (simp add: refunding_def)
    from refund_counts_refund[OF this row item l(2) w(1-4)] have "refund_counts u"
      using documents_onlyD[OF pos_documents_only(2) u] by simp
    moreover obtain as where "x = foldl dec_add 0 as" "list_all money as" using t(1) by (auto simp: refunding_def)
    ultimately show ?thesis
      using t(1) w(5,6) pos_moreD[OF u] by (auto simp: refunding_def intro!: exI[of _ "as @ [a]"])
  qed
  have others: "l \<in> set (sale_lines u)"
    if "vat_db.more u = vat_db.more w" "l \<in> set (sale_lines t)" "sln_id l \<noteq> rl_sale_line_id item"
      "sale_line_by_id (rl_sale_line_id item) ls = Some line"
      "sale_lines w = upd_where (\<lambda>l. sln_id l = sln_id line) f (sale_lines t)"
    for l line f and u w :: "'a pos_db_scheme"
  proof -
    have "sln_id line = rl_sale_line_id item" using that(4) by (auto simp: sale_line_by_id_def dest: find_SomeD)
    then show ?thesis using that(2,3,5) pos_moreD(4)[OF that(1)] by (auto intro: in_upd_where)
  qed
  show ?thesis
    unfolding refund_line_def update_sale_line_def
    apply (simp only: prod.case wp_simps)
    apply (intro impI allI conjI)
    apply (rule wp_mono[OF keepsD[OF stock refl]])
    apply (intro conjI ballI impI)
     apply (rule step, assumption, assumption, assumption, assumption)
          apply (simp; fail)+
    by (rule others, assumption, assumption, assumption, assumption) simp
qed

lemma triple_new_return:
  fixes s :: "'a pos_db_scheme"
  assumes "refund_counts s" "\<And>t. triple (\<lambda>t. refunding s (sales s) r 0 t \<and> sale_lines t = sale_lines s) (g ()) Q"
  shows "triple (\<lambda>t. vat_db.more t = vat_db.more s)
    (bnd (modify (\<lambda>s. s\<lparr>sale_returns := sale_returns s @ [r]\<rparr>)) (\<lambda>_. bnd (flush pos_flush_chk) g)) Q"
proof (rule tripleI)
  fix t :: "'a pos_db_scheme"
  assume t: "vat_db.more t = vat_db.more s"
  note same = pos_moreD[OF t]
  have "refunding s (sales s) r 0 (t\<lparr>sale_returns := sale_returns t @ [r]\<rparr>)" if "pos_flush_chk (t\<lparr>sale_returns := sale_returns t @ [r]\<rparr>) = None"
    using that same assms(1) by (auto simp: refunding_def refund_counts_def pos_flush_chk_def pos_constraints_def intro!: exI[of _ "[]"])
  then show "wp (bnd (modify (\<lambda>s. s\<lparr>sale_returns := sale_returns s @ [r]\<rparr>)) (\<lambda>_. bnd (flush pos_flush_chk) g)) Q t"
    using tripleD[OF assms(2)] same by (simp add: wp_simps)
qed

lemma triple_refund_loop:
  fixes s :: "'a pos_db_scheme"
  assumes s: "sale_sums s" "set ls \<subseteq> set (sale_lines s)" and p: "valid_refund payload"
    and d: "distinct (map rl_sale_line_id (rf_lines payload))"
    and g: "\<And>x n y c rs. triple (refunding s vs r x) (g (x, n, y, c, rs)) Q"
  shows "triple (\<lambda>t. refunding s vs r 0 t \<and> sale_lines t = sale_lines s)
    (bnd (for_acc (refund_line context sale i ls) (0, 0, 0, 0, []) (sort_key (by_sold_product ls) (rf_lines payload))) g) Q"
proof (rule triple_bnd[where R = "\<lambda>(x, _) t. refunding s vs r x t"])
  let ?R = "\<lambda>item t. \<forall>l \<in> set ls. sln_id l = rl_sale_line_id item \<longrightarrow> l \<in> set (sale_lines t)"
  let ?xs = "sort_key (by_sold_product ls) (rf_lines payload)"
  have ls: "list_all rung_line ls" using s by (auto simp: sale_sums_def list_all_iff)
  show "triple (\<lambda>t. refunding s vs r 0 t \<and> sale_lines t = sale_lines s)
      (for_acc (refund_line context sale i ls) (0, 0, 0, 0, []) ?xs) (\<lambda>(x, _) t. refunding s vs r x t)"
  proof (rule tripleI, rule wp_for_acc_distinct[where k = rl_sale_line_id and R = ?R])
    show "distinct (map rl_sale_line_id ?xs)"
      using d by (metis distinct_map distinct_sort set_sort)
    fix t :: "'a pos_db_scheme"
    assume t: "refunding s vs r 0 t \<and> sale_lines t = sale_lines s"
    then show "(case (0, 0, 0, 0, []) of (x, _) \<Rightarrow> refunding s vs r x) t" by simp
    show "?R item t" for item using t s(2) by auto
  next
    fix t :: "'a pos_db_scheme" and acc :: refund_acc and item t'
    assume "item \<in> set ?xs" "(case acc of (x, _) \<Rightarrow> refunding s vs r x) t" "?R item t"
    then show "wp (refund_line context sale i ls acc item)
        (\<lambda>acc' s'. (case acc' of (x, _) \<Rightarrow> refunding s vs r x) s'
          \<and> (\<forall>y \<in> set ?xs. rl_sale_line_id y \<noteq> rl_sale_line_id item \<longrightarrow> ?R y t \<longrightarrow> ?R y s')) t"
      using p ls by (cases acc)
        (auto simp: valid_refund_def list_all_iff intro!: wp_mono[OF refund_line_counts])
  qed
  show "triple (case acc of (x, _) \<Rightarrow> refunding s vs r x) (g acc) Q" for acc using g by (cases acc) simp
qed

definition taken_back :: "'a pos_db_scheme \<Rightarrow> 'a pos_db_scheme \<Rightarrow> bool" where
  "taken_back s t \<longleftrightarrow> (\<exists>v r as. v \<in> set (sales s) \<and> refund_counts t \<and> list_all money as
     \<and> sales t = upd_where (\<lambda>x. sl_id x = sl_id v)
         (\<lambda>x. x\<lparr>sl_refunded_amount := Money (dec_add (sl_refunded_amount v) (foldl dec_add 0 as))\<rparr>) (sales s)
     \<and> sale_returns t = sale_returns s @ [r] \<and> srn_sale_id r = sl_id v \<and> srn_amount r = Money (foldl dec_add 0 as))"

lemma taken_back_documents: "documents_only (taken_back (s :: 'a pos_db_scheme))"
proof (rule documents_onlyI)
  fix t t' :: "'a pos_db_scheme"
  assume "vat_db.more t' = vat_db.more t"
  from documents_onlyD[OF pos_documents_only(2) this] pos_moreD[OF this]
  show "taken_back s t' = taken_back s t" by (simp add: taken_back_def)
qed

lemma money_sum_less:
  assumes "list_all money as" "foldl dec_add 0 as < 10 ^ 14"
  shows "foldl dec_add 0 as = sum_list as" "money (foldl dec_add 0 as)"
proof -
  show sum: "foldl dec_add 0 as = sum_list as"
    using assms by (intro dec_sum_exact[where k = 4]) (auto simp: money_def list_all_iff)
  show "money (foldl dec_add 0 as)"
    unfolding sum using assms(1) on_grid_sum_list[of as 4 id] by (auto simp: money_def list_all_iff intro: sum_list_nonneg)
qed

lemma return_written:
  fixes s t :: "'a pos_db_scheme"
  assumes s: "refund_totals s" and t: "taken_back s t" and chk: "pos_chk t = None"
  shows "refund_totals t"
proof -
  obtain v r as where v: "v \<in> set (sales s)" and as: "list_all money as"
    and sales: "sales t = upd_where (\<lambda>x. sl_id x = sl_id v)
         (\<lambda>x. x\<lparr>sl_refunded_amount := Money (dec_add (sl_refunded_amount v) (foldl dec_add 0 as))\<rparr>) (sales s)"
    and r: "sale_returns t = sale_returns s @ [r]" "srn_sale_id r = sl_id v" "srn_amount r = Money (foldl dec_add 0 as)"
    using t unfolding taken_back_def by blast
  let ?T = "foldl dec_add 0 as" and ?R = "sl_refunded_amount v"
  let ?f = "\<lambda>x. x\<lparr>sl_refunded_amount := Money (dec_add ?R ?T)\<rparr>"
  have c: "unique_on sl_id (sales t)" "unique_on srn_id (sale_returns t)" "in_range 14 (srn_amount r)"
    "list_all (\<lambda>x. sl_refunded_amount x \<ge> 0 \<and> sl_refunded_amount x \<le> sl_total_amount x) (sales t)"
    "list_all (\<lambda>x. in_range 14 (sl_total_amount x)) (sales t)"
    using chk unfolding pos_chk_def by (simp_all add: pos_constraints_def r list_all_iff)
  have "?f v \<in> set (sales t)" using v by (auto simp: sales set_upd_where)
  then have le: "Money (dec_add ?R ?T) < 10 ^ 14" using c(4,5) by (fastforce simp: list_all_iff in_range_def)
  have "sl_total_amount v < 10 ^ 14" using \<open>?f v \<in> _\<close> c(5) by (fastforce simp: list_all_iff in_range_def)
  have "?T < 10 ^ 14" using c(3) r(3) Money_less_14 by (simp add: in_range_def)
  note T = money_sum_less[OF as this]
  have R: "money ?R" "?R < 10 ^ 14"
    using s v \<open>sl_total_amount v < _\<close> by (fastforce simp: refund_totals_def list_all_iff)+
  have "dec_add ?R ?T = ?R + ?T"
    using R T(2) \<open>?T < _\<close> by (intro dec_add_exact[where k = 4]) (auto simp: money_def)
  then have new: "Money (dec_add ?R ?T) = ?R + ?T" "srn_amount r = ?T"
    using R T(2) r(3) by (simp_all add: Money_fixed money_def on_grid_add)
  have row: "x = v" if "x \<in> set (sales s)" "sl_id x = sl_id v" for x
    using that v s by (auto simp: refund_totals_def distinct_map dest: inj_onD)
  have "tallied sl_id sl_refunded_amount (\<lambda>r. Some (srn_sale_id r)) srn_amount (sales t) (sale_returns t)"
    unfolding sales r(1)
  proof (rule tallied_count)
    show "tallied sl_id sl_refunded_amount (\<lambda>r. Some (srn_sale_id r)) srn_amount (sales s) (sale_returns s)"
      using s by (simp add: refund_totals_def)
    show "sl_refunded_amount (?f x) = sl_refunded_amount x + srn_amount r" if "x \<in> set (sales s)" "sl_id x = sl_id v" for x
      using row[OF that] new by simp
  qed (use r(2) v in simp_all)
  moreover have "list_all (\<lambda>v. money (sl_refunded_amount v) \<and> sl_refunded_amount v \<le> sl_total_amount v) (sales t)"
    unfolding sales
  proof (rule list_all_update_row[OF _ v])
    show "money (sl_refunded_amount (?f v)) \<and> sl_refunded_amount (?f v) \<le> sl_total_amount (?f v)"
      using \<open>?f v \<in> _\<close> c(4) R T(2) new by (auto simp: list_all_iff money_def on_grid_add)
  qed (use s in \<open>simp_all add: refund_totals_def\<close>)
  ultimately show ?thesis using c(1,2) by (simp add: refund_totals_def)
qed

lemma complete_return:
  fixes t :: "'a pos_db_scheme"
  assumes "refunding s (upd_where (\<lambda>x. sl_id x = sl_id v) (\<lambda>x. x\<lparr>sl_refunded_amount := refunded\<rparr>) (sales s)) r x t"
    and v: "v \<in> set (sales s)" "refunded = Money (dec_add (sl_refunded_amount v) x)"
    and r: "srn_id r = i" "srn_sale_id r = sl_id v" "amount = Money x"
  shows "taken_back s (t\<lparr>sale_returns := upd_where (\<lambda>r. srn_id r = i) (\<lambda>r. r\<lparr>srn_amount := amount, srn_number := k\<rparr>) (sale_returns t)\<rparr>)"
proof -
  let ?f = "\<lambda>r. r\<lparr>srn_amount := amount, srn_number := k\<rparr>"
  obtain as where as: "x = foldl dec_add 0 as" "list_all money as" and t: "refund_counts t"
    "sales t = upd_where (\<lambda>x. sl_id x = sl_id v) (\<lambda>x. x\<lparr>sl_refunded_amount := refunded\<rparr>) (sales s)"
    "sale_returns t = sale_returns s @ [r]" "srn_id r \<notin> srn_id ` set (sale_returns s)"
    using assms(1) unfolding refunding_def by blast
  have "upd_where (\<lambda>r. srn_id r = i) ?f (sale_returns s) = sale_returns s"
    by (rule upd_where_no_match) (use t(4) r(1) in \<open>auto simp: image_iff\<close>)
  then have "upd_where (\<lambda>r. srn_id r = i) ?f (sale_returns t) = sale_returns s @ [?f r]" using t(3) r(1) by simp
  moreover have "refund_counts (t\<lparr>sale_returns := rs\<rparr>)" for rs using t(1) by (simp add: refund_counts_def)
  moreover note t(2)[unfolded v(2) as(1)] v(1) as(2) r(2) r(3)[unfolded as(1)]
  ultimately show ?thesis
    unfolding taken_back_def
    by (intro exI[of _ v] exI[of _ "?f r"] exI[of _ as] conjI) simp_all
qed

lemma repo_sale_documents: "vat_db.more t = vat_db.more s \<Longrightarrow> repo_sale i t = repo_sale i (s :: 'a pos_db_scheme)"
  "vat_db.more t = vat_db.more s \<Longrightarrow> repo_sale_lines i t = repo_sale_lines i (s :: 'a pos_db_scheme)"
  by (simp_all only: repo_sale_def repo_sale_lines_def pos_moreD[of t s])

lemma triple_sale_refunded:
  "triple (refunding s vs r x) (modify (\<lambda>t. t\<lparr>sales := upd_where P f (sales t)\<rparr>)) (\<lambda>_. refunding s (upd_where P f vs) r x)"
  by (rule tripleI) (simp add: wp_simps refunding_def refund_counts_def)

lemma take_back_taken:
  fixes s :: "'a pos_db_scheme"
  assumes s: "sale_sums s" "refund_counts s" and p: "valid_refund payload"
  shows "triple (\<lambda>t. vat_db.more t = vat_db.more s) (take_back context payload) (\<lambda>_. taken_back s)"
  unfolding take_back_def Let_def post_refund_def record_vat_for_refund_def update_sale_def update_sale_return_def
  apply ((rule triple_skip, rule keeps_pos_guards)+)
  apply (rule triple_read_documents, rule repo_sale_documents, assumption)
  apply (rule triple_some_or, rule triple_skip, (intro keeps_intros)[1], rule triple_require)
  apply (rule triple_read_documents, rule repo_sale_documents, assumption)
  apply (rule triple_require, rule triple_require)
  apply ((rule triple_skip, rule pos_keeps[OF documents_same])+)
  apply (rule triple_new_return[OF s(2)])
  apply (rule triple_refund_loop[OF s(1) _ p], force simp: repo_sale_lines_def, assumption)
  apply (simp only: prod.case)
  apply ((rule triple_lift_res)+)
  apply (rule triple_bnd, rule triple_sale_refunded)
  apply (rule triple_skip, rule pos_keeps[OF refunding_documents])
  apply (rule triple_bnd[where R = "\<lambda>_. taken_back s"])
   apply (rule tripleI, simp add: wp_simps, erule complete_return)
       apply (auto simp: repo_sale_def dest!: round_money_InrD find_SomeD)[5]
  apply (rule triple_keeps)
  apply (intro keeps_intros pos_keeps[OF taken_back_documents])
  done

lemma refund_inv:
  assumes "valid_refund payload"
  shows "keeps till_inv (refund h fl context payload k)"
proof -
  have sums: "keeps sale_sums (refund h fl context payload k)"
    unfolding refund_def by (intro keeps_intros sale_sums_kept pos_keeps[OF pos_documents_only(1)])
  have "keeps (\<lambda>s. sale_sums s \<and> refund_counts s \<and> refund_totals s) (refund h fl context payload k)"
    unfolding refund_def
    apply (rule triple_committed_with[where N = "\<lambda>s t. taken_back s t \<or> vat_db.more t = vat_db.more s", OF sums[unfolded refund_def]])
    subgoal for s
      apply (rule triple_conseq[where P = "\<lambda>t. vat_db.more t = vat_db.more s" and Q = "\<lambda>_ t. taken_back s t \<or> vat_db.more t = vat_db.more s"])
        apply (rule triple_skip, rule pos_keeps[OF documents_same], rule triple_gets, rule triple_case_option)
         apply (rule triple_bnd[where R = "\<lambda>_. taken_back s"])
          apply (rule take_back_taken[OF _ _ assms]; simp)
         apply (rule triple_weaken, rule triple_keeps, intro keeps_intros pos_keeps[OF taken_back_documents], simp)
        apply (rule triple_weaken, rule triple_keeps, intro keeps_intros pos_keeps[OF documents_same], simp)
      by simp_all
    subgoal for s t
      using return_written[of s t] documents_onlyD[OF pos_documents_only(2), of t s] documents_onlyD[OF pos_documents_only(3), of t s]
      by (auto simp: taken_back_def)
    done
  then show ?thesis by (simp add: till_inv_def[abs_def])
qed

section \<open>The invariant of the point of sale\<close>

definition pos_inv :: "'a pos_db_scheme \<Rightarrow> bool" where
  "pos_inv s \<longleftrightarrow> till_inv s \<and> one_open_session s"

lemma till_inv_kept:
  "keeps till_inv (create_terminal context tmc)" "keeps till_inv (update_terminal context i tmu)"
  "keeps till_inv (open_session context sop)" "keeps till_inv (close_session context i scl)"
  "keeps till_inv (hold context hc)" "keeps till_inv (resume context i)"
  unfolding till_inv_def[abs_def] by (intro keeps_conj sale_sums_kept refund_counts_kept refund_totals_kept)+

lemma one_open_session_kept:
  "keeps one_open_session (create_terminal context tmc)" "keeps one_open_session (update_terminal context i tmu)"
  "keeps one_open_session (open_session context sop)" "keeps one_open_session (close_session context i scl)"
  "keeps one_open_session (hold context hc)" "keeps one_open_session (resume context i)"
  "keeps one_open_session (checkout h fl context co k)" "keeps one_open_session (refund h' fl context rf k)"
  unfolding create_terminal_def update_terminal_def open_session_def close_session_def hold_def resume_def checkout_def refund_def
  by (intro keeps_on_integrity_error one_open_session_committed)+

lemma pos_inv_kept:
  "keeps pos_inv (create_terminal context tmc)" "keeps pos_inv (update_terminal context i tmu)"
  "keeps pos_inv (open_session context sop)" "keeps pos_inv (close_session context i scl)"
  "keeps pos_inv (hold context hc)" "keeps pos_inv (resume context i)"
  "valid_checkout co \<Longrightarrow> keeps pos_inv (checkout h fl context co k)"
  "valid_refund rf \<Longrightarrow> keeps pos_inv (refund h' fl context rf k)"
  unfolding pos_inv_def[abs_def]
  by (intro keeps_conj till_inv_kept one_open_session_kept checkout_inv refund_inv; assumption?)+

lemma pos_inv_documents: "documents_only (pos_inv :: 'a pos_db_scheme \<Rightarrow> bool)"
  unfolding pos_inv_def by (intro documents_only_conj till_inv_documents pos_documents_only)
end
