(* ===== verification/Frames.thy ===== *)
theory Frames
  imports Pos_Invariant
begin

text \<open>
  The frames between the modules. An invariant that does not depend on the tables of the stock, of the ledger or of
  the tax register is kept by the operations of that module (\<open>inventory_operations\<close>, \<open>accounting_operations\<close>,
  \<open>vat_operations\<close>, beside the locales of the document modules), and the invariants of the other modules are such
  invariants.
\<close>

section \<open>Operations of the core modules\<close>

text \<open>An invariant may read the movements if it tolerates that one is appended.\<close>

locale movement_operations = base_services I for I :: "'a inventory_db_scheme \<Rightarrow> bool" +
  assumes movement_appended: "I s \<Longrightarrow> I (s\<lparr>movements := movements s @ [m]\<rparr>)"
    and stock_tables: "I (s\<lparr>balances := bs\<rparr>) = I s" "I (s\<lparr>products := ps\<rparr>) = I s"
    and reservation_table: "I (s\<lparr>reservations := rs\<rparr>) = I s"
    and transfer_tables: "I (s\<lparr>transfers := ts\<rparr>) = I s" "I (s\<lparr>transfer_lines := tls\<rparr>) = I s"
    and adjustment_table: "I (s\<lparr>adjustments := as\<rparr>) = I s"
begin

lemmas tables = movement_appended stock_tables reservation_table transfer_tables adjustment_table

lemma keeps_movement_steps:
  "keeps I (validate_pair context w p)" "keeps I (validate_quantity product q)" "keeps I (balance_for_update w p)"
  "keeps I (set_balance w p f)" "keeps I (set_reservation_released i)"
  unfolding validate_pair_def validate_quantity_def balance_for_update_def ensure_balance_def set_balance_def
    set_reservation_released_def Let_def
  by (intro keeps_intros keeps_base_services; simp add: tables)+

lemma keeps_post_movement: "keeps I (post_movement context w product ty q u rt ri notes key)"
  unfolding post_movement_def apply_movement_def write_movement_def update_cost_def set_product_cost_def
    add_movement_def Let_def
  by (intro keeps_intros keeps_base_services keeps_movement_steps; simp add: tables)

lemma keeps_inventory:
  "keeps I (receipt context mc key)" "keeps I (issue context mc key)" "keeps I (adjust context ac key)"
  "keeps I (reserve context rc)" "keeps I (release context i)" "keeps I (create_transfer context tc)"
  "keeps I (transition_transfer context i b key)" "keeps I (reconcile context)" "keeps I (release_expired locked)"
  unfolding receipt_def issue_def adjust_def reserve_def release_def create_transfer_def add_transfer_line_def
    transition_transfer_def move_transfer_line_def reconcile_def record_drift_def release_expired_def
    release_expired_row_def add_audit_event_def Let_def
  by (intro keeps_intros keeps_base_services keeps_movement_steps keeps_post_movement; simp add: tables)+

end

locale inventory_operations = base_services I for I :: "'a inventory_db_scheme \<Rightarrow> bool" +
  assumes stock_rows: "I (s\<lparr>movements := ms\<rparr>) = I s" "I (s\<lparr>balances := bs\<rparr>) = I s" "I (s\<lparr>products := ps\<rparr>) = I s"
    and reservation_rows: "I (s\<lparr>reservations := rs\<rparr>) = I s"
    and transfer_rows: "I (s\<lparr>transfers := ts\<rparr>) = I s" "I (s\<lparr>transfer_lines := tls\<rparr>) = I s"
    and adjustment_rows: "I (s\<lparr>adjustments := as\<rparr>) = I s"

sublocale inventory_operations \<subseteq> movement_operations
  by unfold_locales (simp_all add: stock_rows reservation_rows transfer_rows adjustment_rows)

locale accounting_operations = base_services I for I :: "'a accounting_db_scheme \<Rightarrow> bool" +
  assumes chart_tables: "I (s\<lparr>accounts := as\<rparr>) = I s" "I (s\<lparr>journals := js\<rparr>) = I s" "I (s\<lparr>fiscal_periods := ps\<rparr>) = I s"
    and entry_tables: "I (s\<lparr>journal_entries := es\<rparr>) = I s" "I (s\<lparr>journal_entry_lines := ls\<rparr>) = I s"
begin

lemmas tables = chart_tables entry_tables

lemma keeps_bootstrap: "keeps I (bootstrap chk)"
  unfolding bootstrap_def bootstrap_account_def bootstrap_journal_def
  by (intro keeps_intros keeps_base_services; simp add: tables)

lemma keeps_post: "keeps I (post chk context d desc st si ev lines b md m)"
  unfolding post_def posting_period_def posting_accounts_def record_entry_def write_entry_def add_entry_line_def
    update_entry_def Let_def
  by (intro keeps_intros keeps_base_services keeps_bootstrap; simp add: tables)

lemma keeps_accounting:
  "keeps I (list_accounts ck)" "keeps I (create_account context acr)" "keeps I (create_period context pc)"
  "keeps I periods" "keeps I (change_period_status context i st)" "keeps I (post_manual context me)"
  "keeps I (get_entry i)" "keeps I (reverse_entry context i d)" "keeps I (trial_balance ck d d')"
  "keeps I (profit_and_loss ck d d')" "keeps I (balance_sheet ck d)" "keeps I (general_ledger i d d')"
  unfolding list_accounts_def create_account_def check_parent_def set_not_postable_def create_period_def periods_def
    change_period_status_def post_manual_def get_entry_def reverse_entry_def update_entry_def trial_balance_def
    profit_and_loss_def balance_sheet_def general_ledger_def Let_def
  by (intro keeps_intros keeps_base_services keeps_bootstrap keeps_post; simp add: tables)+

end

locale vat_operations = base_services I for I :: "'a vat_db_scheme \<Rightarrow> bool" +
  assumes register_tables: "I (s\<lparr>vat_rates := rs\<rparr>) = I s" "I (s\<lparr>vat_transactions := ts\<rparr>) = I s" "I (s\<lparr>vat_returns := ns\<rparr>) = I s"
begin

lemma keeps_vat:
  "keeps I (create_rate b context rc)" "keeps I (rates ck)" "keeps I (transactions d d' dir)"
  "keeps I (prepare_return context rp)" "keeps I (file_return context i)" "keeps I returns" "keeps I (summary ck d d')"
  unfolding create_rate_def rates_def transactions_def prepare_return_def file_return_def claim_rows_def returns_def
    summary_def Let_def
  by (intro keeps_intros keeps_base_services; simp add: register_tables)+

lemma keeps_breakdown: "keeps I (breakdown pq)"
  unfolding breakdown_def rate_on_def
  by (intro keeps_intros) (auto intro: keeps_intros split: list.splits)

end

section \<open>Invariants of the other modules\<close>

text \<open>The documents of the three document modules, as the core modules see them.\<close>

definition documents_inv :: "'a pos_db_scheme \<Rightarrow> bool" where
  "documents_inv s \<longleftrightarrow> sales_inv s \<and> purchasing_inv s \<and> pos_inv s"

lemma documents_inv_documents: "documents_only (documents_inv :: 'a pos_db_scheme \<Rightarrow> bool)"
  unfolding documents_inv_def sales_inv_def purchasing_inv_def
  by (intro documents_only_conj sales_documents_only purchasing_documents_only pos_inv_documents)

lemma documents_inv_more:
  "vat_db.more s' = vat_db.more s \<Longrightarrow> documents_inv s' = documents_inv (s :: 'a pos_db_scheme)"
  by (rule documents_onlyD[OF documents_inv_documents])

interpretation ledger_beside_stock: inventory_operations ledger_ok
  by unfold_locales (rule ledger_ok_cong; simp)+

interpretation register_beside_stock: inventory_operations vat_inv
  by unfold_locales (rule vat_inv_cong; simp)+

interpretation documents_beside_stock: inventory_operations documents_inv
  by unfold_locales (rule documents_inv_more; simp)+

interpretation stock_beside_ledger: accounting_operations "core_inv True"
  by unfold_locales (rule core_inv_cong; simp add: same_inventory_def)+

interpretation register_beside_ledger: accounting_operations vat_inv
  by unfold_locales (rule vat_inv_cong; simp)+

interpretation documents_beside_ledger: accounting_operations documents_inv
  by unfold_locales (rule documents_inv_more; simp)+

interpretation stock_beside_register: vat_operations "core_inv True"
  by unfold_locales (rule core_inv_cong; simp add: same_inventory_def)+

interpretation ledger_beside_register: vat_operations ledger_ok
  by unfold_locales (rule ledger_ok_cong; simp)+

interpretation documents_beside_register: vat_operations documents_inv
  by unfold_locales (rule documents_inv_more; simp)+

text \<open>The document modules do not touch each other's tables; the allocations of payments name an invoice or a bill.\<close>

interpretation purchases_beside_sales: sales_operations purchasing_inv
proof (intro sales_operations.intro sales_operations_axioms.intro sales_services)
  show "documents_only (purchasing_inv :: 'a purchasing_db_scheme \<Rightarrow> bool)"
    unfolding purchasing_inv_def by (intro documents_only_conj purchasing_documents_only)
qed (simp_all add: purchasing_inv_def purchase_sums_def purchase_counts_def bill_sums_def bill_settlement_def
    tallied_def)

interpretation till_beside_sales: sales_operations pos_inv
  by (intro sales_operations.intro sales_operations_axioms.intro sales_services pos_inv_documents)
    (simp_all add: pos_inv_def till_inv_def sale_sums_def refund_counts_def refund_totals_def one_open_session_def)

interpretation sales_beside_purchases: purchasing_operations sales_inv
proof (intro purchasing_operations.intro purchasing_operations_axioms.intro purchasing_services)
  show "documents_only (sales_inv :: 'a purchasing_db_scheme \<Rightarrow> bool)"
    unfolding sales_inv_def by (intro documents_only_conj sales_documents_only)
qed (simp_all add: sales_inv_def quotation_sums_def order_sums_def invoice_sums_def credit_sums_def order_counts_def
    credit_counts_def settlement_def tallied_def)

interpretation till_beside_purchases: purchasing_operations pos_inv
  by (intro purchasing_operations.intro purchasing_operations_axioms.intro purchasing_services pos_inv_documents)
    (simp_all add: pos_inv_def till_inv_def sale_sums_def refund_counts_def refund_totals_def one_open_session_def)

interpretation sales_beside_till: pos_operations sales_inv
proof (intro pos_operations.intro pos_operations_axioms.intro pos_services)
  show "documents_only (sales_inv :: 'a pos_db_scheme \<Rightarrow> bool)"
    unfolding sales_inv_def by (intro documents_only_conj sales_documents_only)
qed (simp_all add: sales_inv_def quotation_sums_def order_sums_def invoice_sums_def credit_sums_def order_counts_def
    credit_counts_def settlement_def)

interpretation purchases_beside_till: pos_operations purchasing_inv
proof (intro pos_operations.intro pos_operations_axioms.intro pos_services)
  show "documents_only (purchasing_inv :: 'a pos_db_scheme \<Rightarrow> bool)"
    unfolding purchasing_inv_def by (intro documents_only_conj purchasing_documents_only)
qed (simp_all add: purchasing_inv_def purchase_sums_def purchase_counts_def bill_sums_def bill_settlement_def)

section \<open>Commits\<close>

text \<open>An operation that returns has passed the checks of its commit.\<close>

definition commits :: "('s \<Rightarrow> error option) \<Rightarrow> ('s, 'a) tx \<Rightarrow> bool" where
  "commits chk m \<longleftrightarrow> (\<forall>s. wp m (\<lambda>_ s'. chk s' = None) s)"

named_theorems commits_intros \<open>operations that pass the checks of a commit when they return\<close>

lemma commits_service_transaction [commits_intros]: "commits chk (service_transaction chk m)"
  by (auto simp: commits_def wp_def service_transaction_def bnd_def flush_def ret_def split: prod.splits sum.splits option.splits)

lemma commits_on_integrity_error [commits_intros]: "commits chk m \<Longrightarrow> commits chk (on_integrity_error e m)"
  by (simp add: commits_def wp_simps)

lemma commits_if [commits_intros]: "commits chk m \<Longrightarrow> commits chk n \<Longrightarrow> commits chk (if b then m else n)"
  by simp

lemma commits_guarded [commits_intros]: "commits chk (g ()) \<Longrightarrow> commits chk (bnd (require b e) g)"
  by (simp add: commits_def wp_simps)

lemma commits_result [commits_intros]:
  "commits chk m \<Longrightarrow> commits chk (bnd m (\<lambda>x. ret (f x)))" "commits chk n \<Longrightarrow> commits chk (bnd n (\<lambda>(x, y). ret (h x y)))"
  by (auto simp: commits_def wp_simps case_prod_beta)

lemma commits_mono:
  assumes "commits chk m" "\<And>s. chk s = None \<Longrightarrow> chk' s = None"
  shows "commits chk' m"
proof -
  have "wp m (\<lambda>_ s'. chk' s' = None) s" for s
    by (rule wp_mono[where Q = "\<lambda>_ s'. chk s' = None"]) (use assms in \<open>simp_all add: commits_def\<close>)
  then show ?thesis by (simp add: commits_def)
qed

lemma keeps_commits: "keeps I m \<Longrightarrow> commits chk m \<Longrightarrow> keeps (\<lambda>s. I s \<and> chk s = None) m"
  by (simp add: keeps_def commits_def wp_conj)

end
