(* ===== verification/System.thy ===== *)
theory System
  imports Frames
begin

text \<open>
  The modules together: every request that changes a table, the handler that serves it, and the states the back end
  reaches by serving requests. In each of them the stock, the ledger, the tax register and the documents are
  consistent at once.
\<close>

section \<open>Requests\<close>

datatype inventory_request =
    PostReceipt MovementCreate "string option"
  | PostIssue MovementCreate "string option"
  | PostAdjustment AdjustmentCreate "string option"
  | ReserveStock ReservationCreate
  | ReleaseStock uuid
  | CreateTransfer TransferCreate
  | MoveTransfer uuid bool "string option"
  | ReconcileStock
  | ExpireReservations "stock_reservation \<Rightarrow> bool"

datatype accounting_request =
    ListAccounts
  | CreateAccount AccountCreate
  | CreatePeriod PeriodCreate
  | ChangePeriodStatus uuid period_status
  | PostManual ManualEntryCreate
  | ReverseEntry uuid date
  | TrialBalance date date
  | BalanceSheet date

datatype vat_request =
    CreateRate bool RateCreate
  | PrepareReturn ReturnPrepare
  | FileReturn uuid

datatype sales_request =
    CreateQuotation QuotationCreate
  | SetQuotationStatus uuid quotation_status
  | ConvertQuotation uuid QuotationConvert
  | CreateOrder SalesOrderCreate
  | ConfirmOrder uuid
  | CancelOrder uuid
  | FulfilOrder uuid FulfillmentCreate
  | CreateInvoice InvoiceCreate
  | IssueInvoice uuid string
  | RecordPayment PaymentCreate "string option"
  | IssueCreditNote CreditNoteCreate

datatype purchasing_request =
    CreatePurchaseOrder PurchaseOrderCreate
  | ConfirmPurchaseOrder uuid
  | CancelPurchaseOrder uuid
  | ReceiveGoods uuid GoodsReceiptCreate
  | CreateBill SupplierBillCreate
  | IssueBill uuid
  | RecordSupplierPayment SupplierPaymentCreate "string option"

datatype pos_request =
    CreateTerminal TerminalCreate
  | UpdateTerminal uuid TerminalUpdate
  | OpenSession SessionOpen
  | CloseSession uuid SessionClose
  | Checkout CheckoutCreate string
  | HoldSale HoldCreate
  | ResumeSale uuid
  | RefundSale RefundCreate string

datatype request =
    Inventory_request inventory_request
  | Accounting_request accounting_request
  | Vat_request vat_request
  | Sales_request sales_request
  | Purchasing_request purchasing_request
  | Pos_request pos_request

text \<open>
  What a handler takes from its surroundings: the collation of account codes, the hash of a request body
  (\<^verbatim>\<open>sha256\<close> of its canonical JSON) and whether another request holds the idempotency key.
\<close>

record surroundings =
  code_collation :: "string \<Rightarrow> nat"
  hash_id :: "uuid \<Rightarrow> string"
  hash_payment :: "PaymentCreate \<Rightarrow> string"
  hash_supplier_payment :: "SupplierPaymentCreate \<Rightarrow> string"
  hash_checkout :: "CheckoutCreate \<Rightarrow> string"
  hash_refund :: "RefundCreate \<Rightarrow> string"
  key_in_flight :: bool

section \<open>Handlers\<close>

definition discard :: "('s, 'a) tx \<Rightarrow> ('s, unit) tx" where
  "discard m = bnd m (\<lambda>_. ret ())"

fun serve_inventory :: "TenantContext \<Rightarrow> inventory_request \<Rightarrow> ('a inventory_db_scheme, unit) tx" where
  "serve_inventory context (PostReceipt payload key) = discard (receipt context payload key)"
| "serve_inventory context (PostIssue payload key) = discard (issue context payload key)"
| "serve_inventory context (PostAdjustment payload key) = discard (adjust context payload key)"
| "serve_inventory context (ReserveStock payload) = discard (reserve context payload)"
| "serve_inventory context (ReleaseStock i) = release context i"
| "serve_inventory context (CreateTransfer payload) = discard (create_transfer context payload)"
| "serve_inventory context (MoveTransfer i arrival key) = discard (transition_transfer context i arrival key)"
| "serve_inventory context ReconcileStock = discard (reconcile context)"
| "serve_inventory context (ExpireReservations locked) =
     discard (service_transaction inventory_chk (release_expired locked))"

fun serve_accounting ::
  "surroundings \<Rightarrow> TenantContext \<Rightarrow> accounting_request \<Rightarrow> ('a accounting_db_scheme, unit) tx"
where
  "serve_accounting env context ListAccounts = discard (list_accounts (code_collation env))"
| "serve_accounting env context (CreateAccount payload) = discard (create_account context payload)"
| "serve_accounting env context (CreatePeriod payload) = discard (create_period context payload)"
| "serve_accounting env context (ChangePeriodStatus i status) = discard (change_period_status context i status)"
| "serve_accounting env context (PostManual payload) = discard (post_manual context payload)"
| "serve_accounting env context (ReverseEntry i d) = discard (reverse_entry context i d)"
| "serve_accounting env context (TrialBalance start stop) = discard (trial_balance (code_collation env) start stop)"
| "serve_accounting env context (BalanceSheet d) = discard (balance_sheet (code_collation env) d)"

fun serve_vat :: "TenantContext \<Rightarrow> vat_request \<Rightarrow> ('a vat_db_scheme, unit) tx" where
  "serve_vat context (CreateRate code_in_message payload) = discard (create_rate code_in_message context payload)"
| "serve_vat context (PrepareReturn payload) = discard (prepare_return context payload)"
| "serve_vat context (FileReturn i) = discard (file_return context i)"

fun serve_sales :: "surroundings \<Rightarrow> TenantContext \<Rightarrow> sales_request \<Rightarrow> ('a sales_db_scheme, unit) tx" where
  "serve_sales env context (CreateQuotation payload) = discard (create_quotation context payload)"
| "serve_sales env context (SetQuotationStatus i status) = discard (set_quotation_status context i status)"
| "serve_sales env context (ConvertQuotation i payload) = discard (convert_quotation context i payload)"
| "serve_sales env context (CreateOrder payload) = discard (create_order context payload)"
| "serve_sales env context (ConfirmOrder i) = discard (confirm_order context i)"
| "serve_sales env context (CancelOrder i) = discard (cancel_order context i)"
| "serve_sales env context (FulfilOrder i payload) = discard (fulfil context i payload)"
| "serve_sales env context (CreateInvoice payload) = discard (create_invoice context payload)"
| "serve_sales env context (IssueInvoice i key) = discard (issue_invoice (hash_id env) (key_in_flight env) context i key)"
| "serve_sales env context (RecordPayment payload key) =
     discard (record_payment (hash_payment env) (key_in_flight env) context payload key)"
| "serve_sales env context (IssueCreditNote payload) = discard (issue_credit_note context payload)"

fun serve_purchasing ::
  "surroundings \<Rightarrow> TenantContext \<Rightarrow> purchasing_request \<Rightarrow> ('a purchasing_db_scheme, unit) tx"
where
  "serve_purchasing env context (CreatePurchaseOrder payload) = discard (create_purchase_order context payload)"
| "serve_purchasing env context (ConfirmPurchaseOrder i) = discard (confirm_purchase_order context i)"
| "serve_purchasing env context (CancelPurchaseOrder i) = discard (cancel_purchase_order context i)"
| "serve_purchasing env context (ReceiveGoods i payload) = discard (receive context i payload)"
| "serve_purchasing env context (CreateBill payload) = discard (create_bill context payload)"
| "serve_purchasing env context (IssueBill i) = discard (issue_bill context i)"
| "serve_purchasing env context (RecordSupplierPayment payload key) =
     discard (record_supplier_payment (hash_supplier_payment env) (key_in_flight env) context payload key)"

fun serve_pos :: "surroundings \<Rightarrow> TenantContext \<Rightarrow> pos_request \<Rightarrow> ('a pos_db_scheme, unit) tx" where
  "serve_pos env context (CreateTerminal payload) = discard (create_terminal context payload)"
| "serve_pos env context (UpdateTerminal i payload) = discard (update_terminal context i payload)"
| "serve_pos env context (OpenSession payload) = discard (open_session context payload)"
| "serve_pos env context (CloseSession i payload) = discard (close_session context i payload)"
| "serve_pos env context (Checkout payload key) =
     discard (checkout (hash_checkout env) (key_in_flight env) context payload key)"
| "serve_pos env context (HoldSale payload) = discard (hold context payload)"
| "serve_pos env context (ResumeSale i) = discard (resume context i)"
| "serve_pos env context (RefundSale payload key) =
     discard (refund (hash_refund env) (key_in_flight env) context payload key)"

fun serve :: "surroundings \<Rightarrow> TenantContext \<Rightarrow> request \<Rightarrow> ('a pos_db_scheme, unit) tx" where
  "serve env context (Inventory_request r) = serve_inventory context r"
| "serve env context (Accounting_request r) = serve_accounting env context r"
| "serve env context (Vat_request r) = serve_vat context r"
| "serve env context (Sales_request r) = serve_sales env context r"
| "serve env context (Purchasing_request r) = serve_purchasing env context r"
| "serve env context (Pos_request r) = serve_pos env context r"

text \<open>What the request schemas guarantee of the numbers in a body before a handler sees it.\<close>

fun valid_sales_request :: "sales_request \<Rightarrow> bool" where
  "valid_sales_request (CreateQuotation payload) = list_all valid_line (qc_lines payload)"
| "valid_sales_request (CreateOrder payload) = list_all valid_line (oc_lines payload)"
| "valid_sales_request (FulfilOrder i payload) = valid_fulfillment payload"
| "valid_sales_request (RecordPayment payload key) = valid_payment payload"
| "valid_sales_request (IssueCreditNote payload) = valid_credit_note payload"
| "valid_sales_request _ = True"

fun valid_purchasing_request :: "purchasing_request \<Rightarrow> bool" where
  "valid_purchasing_request (CreatePurchaseOrder payload) = list_all valid_purchase_line (poc_lines payload)"
| "valid_purchasing_request (ReceiveGoods i payload) = valid_receipt payload"
| "valid_purchasing_request (RecordSupplierPayment payload key) = valid_supplier_payment payload"
| "valid_purchasing_request _ = True"

fun valid_pos_request :: "pos_request \<Rightarrow> bool" where
  "valid_pos_request (Checkout payload key) = valid_checkout payload"
| "valid_pos_request (RefundSale payload key) = valid_refund payload"
| "valid_pos_request _ = True"

fun valid_request :: "request \<Rightarrow> bool" where
  "valid_request (Sales_request r) = valid_sales_request r"
| "valid_request (Purchasing_request r) = valid_purchasing_request r"
| "valid_request (Pos_request r) = valid_pos_request r"
| "valid_request _ = True"

section \<open>Atomicity\<close>

text \<open>Every handler is one transaction: a request that fails leaves the database as it was.\<close>

lemma atomic_discard [atomic_intros]: "atomic m \<Longrightarrow> atomic (discard m)"
  unfolding discard_def by (rule atomic_bnd_ret)

lemma atomic_sales [atomic_intros]:
  "atomic (create_quotation context qc)" "atomic (set_quotation_status context i st)" "atomic (convert_quotation context i qv)"
  "atomic (create_order context oc)" "atomic (confirm_order context i)" "atomic (cancel_order context i)"
  "atomic (fulfil context i fc)" "atomic (create_invoice context ic)" "atomic (issue_invoice h fl context i k)"
  "atomic (record_payment hp fl context pc ko)" "atomic (issue_credit_note context cc)"
  unfolding create_quotation_def set_quotation_status_def convert_quotation_def create_order_def confirm_order_def
    cancel_order_def fulfil_def create_invoice_def issue_invoice_def record_payment_def issue_credit_note_def
  by (intro atomic_intros)+

lemma atomic_purchasing [atomic_intros]:
  "atomic (create_purchase_order context poc)" "atomic (confirm_purchase_order context i)"
  "atomic (cancel_purchase_order context i)" "atomic (receive context i grc)" "atomic (create_bill context sbc)"
  "atomic (issue_bill context i)" "atomic (record_supplier_payment h fl context sp ko)"
  unfolding create_purchase_order_def confirm_purchase_order_def cancel_purchase_order_def receive_def create_bill_def
    issue_bill_def record_supplier_payment_def
  by (intro atomic_intros)+

lemma atomic_pos [atomic_intros]:
  "atomic (create_terminal context tmc)" "atomic (update_terminal context i tmu)" "atomic (open_session context sop)"
  "atomic (close_session context i scl)" "atomic (checkout h fl context co k)" "atomic (hold context hc)"
  "atomic (resume context i)" "atomic (refund h' fl context rf k)"
  unfolding create_terminal_def update_terminal_def open_session_def close_session_def checkout_def hold_def resume_def
    refund_def
  by (intro atomic_intros)+

lemma serve_atomic: "atomic (serve env context r)"
proof (cases r)
  case (Inventory_request q) then show ?thesis by (cases q) (auto intro!: atomic_intros)
next
  case (Accounting_request q) then show ?thesis by (cases q) (auto intro!: atomic_intros)
next
  case (Vat_request q) then show ?thesis by (cases q) (auto intro!: atomic_intros)
next
  case (Sales_request q) then show ?thesis by (cases q) (auto intro!: atomic_intros)
next
  case (Purchasing_request q) then show ?thesis by (cases q) (auto intro!: atomic_intros)
next
  case (Pos_request q) then show ?thesis by (cases q) (auto intro!: atomic_intros)
qed

section \<open>The invariant of the system\<close>

definition system_inv :: "'a pos_db_scheme \<Rightarrow> bool" where
  "system_inv s \<longleftrightarrow> inventory_ok True s \<and> ledger_ok s \<and> vat_inv s \<and> documents_inv s"

lemma system_invI:
  "keeps (inventory_ok True) m \<Longrightarrow> keeps ledger_ok m \<Longrightarrow> keeps vat_inv m \<Longrightarrow> keeps documents_inv m \<Longrightarrow> keeps system_inv m"
  by (simp add: keeps_def system_inv_def[abs_def] wp_conj)

lemma keeps_discard [keeps_intros]: "keeps I m \<Longrightarrow> keeps I (discard m)"
  unfolding discard_def by (intro keeps_intros)

lemma documents_invI: "keeps sales_inv m \<Longrightarrow> keeps purchasing_inv m \<Longrightarrow> keeps pos_inv m \<Longrightarrow> keeps documents_inv m"
  by (simp add: keeps_def documents_inv_def[abs_def] wp_conj)

text \<open>Stock.\<close>

lemma inventory_keeps_ok:
  "keeps (inventory_ok True) (receipt context mc key)" "keeps (inventory_ok True) (issue context mc key)"
  "keeps (inventory_ok True) (adjust context ac key)" "keeps (inventory_ok True) (reserve context rc)"
  "keeps (inventory_ok True) (release context i)" "keeps (inventory_ok True) (reconcile context)"
  by (rule keepsI, simp add: inventory_ok_split[abs_def] wp_conj receipt_inv receipt_transfer_inv issue_inv issue_transfer_inv
      adjust_inv adjust_transfer_inv reserve_inv reserve_transfer_inv release_inv release_transfer_inv reconcile_inv
      reconcile_transfer_inv, (simp add: inventory_inv_def receipt_inv issue_inv adjust_inv reserve_inv)?)+

lemma transfer_keeps_ok:
  "keeps (inventory_ok True) (create_transfer context tc)" "keeps (inventory_ok True) (transition_transfer context i b key)"
  by (rule keepsI, simp add: inventory_ok_def[abs_def] create_transfer_inv transition_transfer_inv)+

lemma expiry_keeps_ok: "keeps (inventory_ok True) (service_transaction inventory_chk (release_expired locked))"
proof (rule keepsI)
  fix s :: "'a inventory_db_scheme"
  assume "inventory_ok True s"
  then have "wp (release_expired locked) (\<lambda>_. (core_inv True)) s"
    by (simp add: inventory_ok_split core_inv_def[abs_def] wp_conj release_expired_inv release_expired_transfer_inv)
  then show "wp (service_transaction inventory_chk (release_expired locked)) (\<lambda>_. (inventory_ok True)) s"
    unfolding inventory_ok_def[abs_def] by (rule wp_committed)
qed

lemma serve_inventory_inv: "keeps (system_inv :: 'a pos_db_scheme \<Rightarrow> bool) (serve_inventory context r)"
  by (cases r; simp only: serve_inventory.simps)
    (intro keeps_discard system_invI inventory_keeps_ok transfer_keeps_ok expiry_keeps_ok keeps_service_transaction
      ledger_beside_stock.keeps_inventory register_beside_stock.keeps_inventory documents_beside_stock.keeps_inventory)+

text \<open>The ledger.\<close>

lemma committed_accounting:
  assumes "keeps (core_inv True) m" "commits accounting_chk m"
  shows "keeps (inventory_ok True) m"
proof -
  have "commits inventory_chk m" using assms(2) accounting_chkD(6) by (rule commits_mono)
  with assms(1) show ?thesis by (simp add: keeps_def commits_def inventory_ok_def[abs_def] wp_conj)
qed

lemma accounting_commits:
  "commits accounting_chk (list_accounts ck)" "commits accounting_chk (create_account context acr)"
  "commits accounting_chk (create_period context pc)" "commits accounting_chk (change_period_status context i st)"
  "commits accounting_chk (post_manual context me)" "commits accounting_chk (reverse_entry context i d)"
  "commits accounting_chk (trial_balance ck d d')" "commits accounting_chk (balance_sheet ck d)"
  unfolding list_accounts_def create_account_def create_period_def change_period_status_def post_manual_def
    reverse_entry_def trial_balance_def balance_sheet_def
  by (intro commits_intros)+

lemma accounting_keeps_ledger:
  "keeps ledger_ok (list_accounts ck)" "keeps ledger_ok (create_account context acr)"
  "keeps ledger_ok (create_period context pc)" "keeps ledger_ok (change_period_status context i st)"
  "keeps ledger_ok (post_manual context me)" "keeps ledger_ok (reverse_entry context i d)"
  "keeps ledger_ok (trial_balance ck d d')" "keeps ledger_ok (balance_sheet ck d)"
  by (rule keepsI, erule list_accounts_ledger create_account_ledger create_period_ledger change_period_status_ledger
      post_manual_ledger reverse_entry_ledger trial_balance_ledger balance_sheet_ledger)+

lemma serve_accounting_inv: "keeps (system_inv :: 'a pos_db_scheme \<Rightarrow> bool) (serve_accounting env context r)"
  by (cases r; simp only: serve_accounting.simps)
    (intro keeps_discard system_invI committed_accounting accounting_commits accounting_keeps_ledger
      stock_beside_ledger.keeps_accounting register_beside_ledger.keeps_accounting
      documents_beside_ledger.keeps_accounting)+

text \<open>The tax register.\<close>

interpretation constraints_beside_register: vat_operations "\<lambda>s. violated (inventory_constraints s) = None"
  by unfold_locales (simp_all add: inventory_constraints_def)

lemma committed_vat:
  assumes "keeps (core_inv True) m" "keeps (\<lambda>s. violated (inventory_constraints s) = None) m" "commits vat_chk m"
  shows "keeps (inventory_ok True) m"
proof (rule keepsI)
  fix s :: "'a vat_db_scheme"
  assume "inventory_ok True s"
  then have "wp m (\<lambda>_ s'. (core_inv True s' \<and> violated (inventory_constraints s') = None) \<and> vat_chk s' = None) s"
    using assms by (simp add: keeps_def commits_def wp_conj inventory_ok_def inventory_chk_def)
  then show "wp m (\<lambda>_. (inventory_ok True)) s"
    by (rule wp_mono) (simp add: inventory_ok_def inventory_chk_def vat_chk_def)
qed

lemma vat_commits:
  "commits vat_chk (create_rate b context rc)" "commits vat_chk (prepare_return context rp)" "commits vat_chk (file_return context i)"
  unfolding create_rate_def prepare_return_def file_return_def Let_def by (intro commits_intros)+

lemma vat_keeps_register:
  "keeps vat_inv (create_rate b context rc)" "keeps vat_inv (prepare_return context rp)" "keeps vat_inv (file_return context i)"
  by (rule keepsI, erule create_rate_inv prepare_inv file_inv)+

lemma serve_vat_inv: "keeps (system_inv :: 'a pos_db_scheme \<Rightarrow> bool) (serve_vat context r)"
  by (cases r; simp only: serve_vat.simps)
    (intro keeps_discard system_invI committed_vat vat_commits vat_keeps_register stock_beside_register.keeps_vat
      constraints_beside_register.keeps_vat ledger_beside_register.keeps_vat documents_beside_register.keeps_vat)+

text \<open>The documents: their commits check the stock and the ledger too.\<close>

lemma document_chk_accounting:
  "sales_chk s = None \<Longrightarrow> accounting_chk s = None" "purchasing_chk t = None \<Longrightarrow> accounting_chk t = None"
  "pos_chk u = None \<Longrightarrow> accounting_chk u = None"
  by (simp_all add: sales_chk_def purchasing_chk_def pos_chk_def accounting_chk_def)

lemma committed_document:
  assumes "keeps (core_inv True) m" "keeps journal_inv m" "commits chk m" "\<And>s. chk s = None \<Longrightarrow> accounting_chk s = None"
  shows "keeps (inventory_ok True) m" "keeps ledger_ok m"
proof -
  have c: "commits accounting_chk m" by (rule commits_mono[OF assms(3,4)])
  show "keeps (inventory_ok True) m" by (rule committed_accounting[OF assms(1) c])
  show "keeps ledger_ok m"
  proof (rule keepsI)
    fix s :: "'a accounting_db_scheme"
    assume "ledger_ok s"
    then have "wp m (\<lambda>_ s'. journal_inv s' \<and> accounting_chk s' = None) s"
      using assms(2) c by (simp add: keeps_def commits_def wp_conj ledger_ok_def)
    then show "wp m (\<lambda>_. ledger_ok) s" by (rule wp_mono) (simp add: ledger_okI)
  qed
qed

lemma sales_commits:
  "commits sales_chk (create_quotation context qc)" "commits sales_chk (set_quotation_status context i st)"
  "commits sales_chk (convert_quotation context i qv)" "commits sales_chk (create_order context oc)"
  "commits sales_chk (confirm_order context i)" "commits sales_chk (cancel_order context i)"
  "commits sales_chk (fulfil context i fc)" "commits sales_chk (create_invoice context ic)"
  "commits sales_chk (issue_invoice h fl context i k)" "commits sales_chk (record_payment hp fl context pc ko)"
  "commits sales_chk (issue_credit_note context cc)"
  unfolding create_quotation_def set_quotation_status_def convert_quotation_def create_order_def confirm_order_def
    cancel_order_def fulfil_def create_invoice_def issue_invoice_def record_payment_def issue_credit_note_def
  by (intro commits_intros)+

lemma purchasing_commits:
  "commits purchasing_chk (create_purchase_order context poc)" "commits purchasing_chk (confirm_purchase_order context i)"
  "commits purchasing_chk (cancel_purchase_order context i)" "commits purchasing_chk (receive context i grc)"
  "commits purchasing_chk (create_bill context sbc)" "commits purchasing_chk (issue_bill context i)"
  "commits purchasing_chk (record_supplier_payment h fl context sp ko)"
  unfolding create_purchase_order_def confirm_purchase_order_def cancel_purchase_order_def receive_def create_bill_def
    issue_bill_def record_supplier_payment_def
  by (intro commits_intros)+

lemma pos_commits:
  "commits pos_chk (create_terminal context tmc)" "commits pos_chk (update_terminal context i tmu)"
  "commits pos_chk (open_session context sop)" "commits pos_chk (close_session context i scl)"
  "commits pos_chk (checkout h fl context co k)" "commits pos_chk (hold context hc)" "commits pos_chk (resume context i)"
  "commits pos_chk (refund h' fl context rf k)"
  unfolding create_terminal_def update_terminal_def open_session_def close_session_def checkout_def hold_def resume_def
    refund_def
  by (intro commits_intros)+

lemmas sales_invs = sales_transitions_inv create_quotation_inv create_order_inv fulfil_inv record_payment_inv
  convert_quotation_inv create_invoice_inv issue_credit_note_inv

lemmas purchasing_invs = purchasing_transitions_inv create_purchase_order_inv receive_inv create_bill_inv
  record_supplier_payment_inv

lemma serve_sales_inv:
  "valid_sales_request r \<Longrightarrow> keeps (system_inv :: 'a pos_db_scheme \<Rightarrow> bool) (serve_sales env context r)"
  by (cases r; simp only: serve_sales.simps valid_sales_request.simps)
    (intro keeps_discard system_invI documents_invI committed_document[where chk = sales_chk] document_chk_accounting
      sales_commits sales_stock.keeps_sales sales_journal.keeps_sales sales_vat.keeps_sales
      purchases_beside_sales.keeps_sales till_beside_sales.keeps_sales sales_invs; assumption)+

lemma serve_purchasing_inv:
  "valid_purchasing_request r \<Longrightarrow> keeps (system_inv :: 'a pos_db_scheme \<Rightarrow> bool) (serve_purchasing env context r)"
  by (cases r; simp only: serve_purchasing.simps valid_purchasing_request.simps)
    (intro keeps_discard system_invI documents_invI committed_document[where chk = purchasing_chk] document_chk_accounting
      purchasing_commits purchasing_stock.keeps_purchasing purchasing_journal.keeps_purchasing
      purchasing_vat.keeps_purchasing sales_beside_purchases.keeps_purchasing till_beside_purchases.keeps_purchasing
      purchasing_invs; assumption)+

lemma serve_pos_inv:
  "valid_pos_request r \<Longrightarrow> keeps (system_inv :: 'a pos_db_scheme \<Rightarrow> bool) (serve_pos env context r)"
  by (cases r; simp only: serve_pos.simps valid_pos_request.simps)
    (intro keeps_discard system_invI documents_invI committed_document[where chk = pos_chk] document_chk_accounting
      pos_commits pos_stock.keeps_pos pos_journal.keeps_pos pos_vat.keeps_pos sales_beside_till.keeps_pos
      purchases_beside_till.keeps_pos pos_inv_kept; assumption)+

lemma serve_inv: "valid_request r \<Longrightarrow> keeps system_inv (serve env context r)"
  by (cases r) (simp_all add: serve_inventory_inv serve_accounting_inv serve_vat_inv serve_sales_inv serve_purchasing_inv
      serve_pos_inv)

section \<open>Reachable states\<close>

text \<open>A tenant starts without documents and with a chart of accounts that may already be filled.\<close>

definition no_documents :: "'a pos_db_scheme \<Rightarrow> bool" where
  "no_documents s \<longleftrightarrow> quotations s = [] \<and> quotation_lines s = [] \<and> sales_orders s = [] \<and> sales_order_lines s = []
     \<and> fulfillment_lines s = [] \<and> invoices s = [] \<and> invoice_lines s = [] \<and> payment_allocations s = []
     \<and> credit_notes s = [] \<and> credit_note_lines s = [] \<and> purchase_orders s = [] \<and> purchase_order_lines s = []
     \<and> goods_receipt_lines s = [] \<and> supplier_bills s = [] \<and> supplier_bill_lines s = [] \<and> pos_sessions s = []
     \<and> sales s = [] \<and> sale_lines s = [] \<and> sale_payments s = [] \<and> sale_returns s = [] \<and> sale_return_lines s = []"

definition no_stock :: "'a inventory_db_scheme \<Rightarrow> bool" where
  "no_stock s \<longleftrightarrow> movements s = [] \<and> balances s = [] \<and> reservations s = [] \<and> transfers s = [] \<and> transfer_lines s = []"

definition master_data_ok :: "'a pos_db_scheme \<Rightarrow> bool" where
  "master_data_ok s \<longleftrightarrow> units_ok s \<and> inventory_chk s = None \<and> list_all (\<lambda>c. 0 \<le> tx_rate c) (tax_categories s)"

definition initial :: "'a pos_db_scheme \<Rightarrow> bool" where
  "initial s \<longleftrightarrow> no_documents s \<and> no_stock s \<and> journal_entries s = [] \<and> journal_entry_lines s = []
     \<and> unique_on acc_id (accounts s) \<and> vat_transactions s = [] \<and> vat_returns s = [] \<and> master_data_ok s"

text \<open>
  Between two requests the master data (catalog, parties, warehouses, settings) and the sources of identifiers and of
  time may change; negative stock may be allowed and forbidden again.
\<close>

definition maintained :: "'a pos_db_scheme \<Rightarrow> 'a pos_db_scheme \<Rightarrow> bool" where
  "maintained s s' \<longleftrightarrow> master_data_ok s'
     \<and> (\<exists>g c rid us ps ws neg cur month cs ss ts.
          s' = s\<lparr>uuid_gen := g, clock := c, request_id := rid, units := us, products := ps, warehouses := ws,
                 allow_negative_inventory := neg, base_currency := cur, fiscal_year_start_month := month,
                 customers := cs, suppliers := ss, tax_categories := ts\<rparr>)"

inductive system_reachable :: "'a pos_db_scheme \<Rightarrow> bool" where
  start: "initial s \<Longrightarrow> system_reachable s"
| request: "system_reachable s \<Longrightarrow> valid_request r \<Longrightarrow> system_reachable (snd (serve env context r s))"
| maintenance: "system_reachable s \<Longrightarrow> maintained s s' \<Longrightarrow> system_reachable s'"

lemma initial_inv: "initial s \<Longrightarrow> system_inv s"
  by (simp add: initial_def no_documents_def no_stock_def master_data_ok_def system_inv_def inventory_ok_def core_inv_def
      stock_inv_def stock_agrees_def agrees_at_def running_balances_def on_hand_def reserved_def lock_balance_def
      ledger_quantity_def active_reserved_def transfer_inv_def ledger_ok_def journal_inv_def vat_inv_def register_grid_def
      documents_inv_def sales_inv_def quotation_sums_def order_sums_def order_counts_def credit_counts_def invoice_sums_def
      settlement_def credit_sums_def purchasing_inv_def purchase_sums_def purchase_counts_def bill_sums_def
      bill_settlement_def pos_inv_def till_inv_def sale_sums_def refund_counts_def refund_totals_def one_open_session_def
      unique_where_def)

lemma maintained_inv:
  fixes s :: "'a pos_db_scheme"
  assumes s: "system_inv s" and m: "maintained s s'"
  shows "system_inv s'"
proof -
  obtain g c rid us ps ws neg cur month cs ss ts where
    eq: "s' = s\<lparr>uuid_gen := g, clock := c, request_id := rid, units := us, products := ps, warehouses := ws,
                 allow_negative_inventory := neg, base_currency := cur, fiscal_year_start_month := month,
                 customers := cs, suppliers := ss, tax_categories := ts\<rparr>"
    using m unfolding maintained_def by blast
  have ok: "units_ok s'" "inventory_chk s' = None" "list_all (\<lambda>c. 0 \<le> tx_rate c) (tax_categories s')"
    using m by (simp_all add: maintained_def master_data_ok_def)
  have "stock_inv True s'" by (rule stock_inv_environment[of True s]) (use s ok in \<open>simp_all add: eq system_inv_def inventory_ok_def core_inv_def\<close>)
  moreover have "transfer_inv s'" using s transfer_inv_cong[of s' s] by (simp add: eq system_inv_def inventory_ok_def core_inv_def)
  moreover have "ledger_ok s'" using s ledger_ok_cong[of s' s] by (simp add: eq system_inv_def)
  moreover have "vat_inv s'" using s vat_inv_cong[of s' s] by (simp add: eq system_inv_def)
  moreover have "sales_inv s'" using s
    by (simp add: eq system_inv_def documents_inv_def sales_inv_def quotation_sums_def order_sums_def order_counts_def
        credit_counts_def invoice_sums_def settlement_def credit_sums_def)
  moreover have "purchasing_inv s'" using s
    by (simp add: eq system_inv_def documents_inv_def purchasing_inv_def purchase_sums_def purchase_counts_def bill_sums_def
        bill_settlement_def)
  moreover have "pos_inv s'" using s ok(3)
    by (simp add: eq system_inv_def documents_inv_def pos_inv_def till_inv_def sale_sums_def refund_counts_def
        refund_totals_def one_open_session_def)
  ultimately show ?thesis using ok(2) by (simp add: system_inv_def inventory_ok_def core_inv_def documents_inv_def)
qed

lemma system_reachable_inv: "system_reachable s \<Longrightarrow> system_inv s"
proof (induction rule: system_reachable.induct)
  case (request s r env ctx)
  then show ?case by (intro keeps_atomic[OF serve_atomic serve_inv])
qed (simp_all add: initial_inv maintained_inv)

end
