(* ===== verification/Evaluation.thy ===== *)
theory Evaluation
  imports System
begin

text \<open>
  Running operations on concrete states inside the logic. \<open>evals m s x t\<close> says that \<open>m\<close> returns \<open>x\<close> from \<open>s\<close> and
  leaves \<open>t\<close>; its rules follow the structure of an operation, so that a run is derived step by step.
\<close>

definition evals :: "('s, 'a) tx \<Rightarrow> 's \<Rightarrow> 'a \<Rightarrow> 's \<Rightarrow> bool" where
  "evals m s x t \<longleftrightarrow> m s = (Inr x, t)"

text \<open>A subterm and its value; the value is found by simplification.\<close>

definition computes :: "'a \<Rightarrow> 'a \<Rightarrow> bool" where
  "computes x v \<longleftrightarrow> x = v"

lemma computes_refl: "computes v v"
  by (simp add: computes_def)

named_theorems evals_intros \<open>derivation rules for runs\<close>

lemma evals_ret [evals_intros]: "evals (ret x) s x s"
  by (simp add: evals_def ret_def)

lemma evals_bnd [evals_intros]: "evals m s x t \<Longrightarrow> evals (f x) t y u \<Longrightarrow> evals (bnd m f) s y u"
  by (simp add: evals_def bnd_def)

lemma evals_gets [evals_intros]: "computes (f s) x \<Longrightarrow> evals (gets f) s x s"
  by (simp add: evals_def gets_def computes_def)

lemma evals_modify [evals_intros]: "computes (f s) t \<Longrightarrow> evals (modify f) s () t"
  by (simp add: evals_def modify_def computes_def)

lemma evals_require [evals_intros]: "b \<Longrightarrow> evals (require b e) s () s"
  by (simp add: evals_def require_def ret_def)

lemma evals_some_or [evals_intros]: "computes r (Some x) \<Longrightarrow> evals (some_or e r) s x s"
  by (simp add: evals_def some_or_def ret_def computes_def)

lemma evals_lift_res [evals_intros]: "computes r (Inr x) \<Longrightarrow> evals (lift_res r) s x s"
  by (simp add: evals_def lift_res_def ret_def computes_def)

lemma evals_flush [evals_intros]: "chk s = None \<Longrightarrow> evals (flush chk) s () s"
  by (simp add: evals_def flush_def)

lemma evals_service_transaction [evals_intros]:
  "evals m s x t \<Longrightarrow> chk t = None \<Longrightarrow> evals (service_transaction chk m) s x t"
  by (simp add: evals_def service_transaction_def bnd_def flush_def ret_def)

lemma evals_on_integrity_error [evals_intros]: "evals m s x t \<Longrightarrow> evals (on_integrity_error e m) s x t"
  by (simp add: evals_def on_integrity_error_def)

text \<open>The list of a loop, the scrutinee of a case and a condition are computed before the step they select.\<close>

definition rounds :: "('a \<Rightarrow> ('s, 'b) tx) \<Rightarrow> 'a list \<Rightarrow> ('s, 'b list) tx" where
  "rounds = for_each"

lemma evals_for_each [evals_intros]: "computes xs ys \<Longrightarrow> evals (rounds f ys) s x t \<Longrightarrow> evals (for_each f xs) s x t"
  by (simp add: rounds_def computes_def)

lemma evals_rounds [evals_intros]:
  "evals (rounds f []) s [] s"
  "evals (f y) s x t \<Longrightarrow> evals (rounds f ys) t xs u \<Longrightarrow> evals (rounds f (y # ys)) s (x # xs) u"
  by (simp_all add: evals_def bnd_def ret_def rounds_def)

definition rounds_acc :: "('acc \<Rightarrow> 'a \<Rightarrow> ('s, 'acc) tx) \<Rightarrow> 'acc \<Rightarrow> 'a list \<Rightarrow> ('s, 'acc) tx" where
  "rounds_acc = for_acc"

lemma evals_for_acc [evals_intros]: "computes xs ys \<Longrightarrow> evals (rounds_acc f acc ys) s x t \<Longrightarrow> evals (for_acc f acc xs) s x t"
  by (simp add: rounds_acc_def computes_def)

lemma evals_rounds_acc [evals_intros]:
  "evals (rounds_acc f acc []) s acc s"
  "evals (f acc y) s acc' t \<Longrightarrow> evals (rounds_acc f acc' ys) t x u \<Longrightarrow> evals (rounds_acc f acc (y # ys)) s x u"
  by (simp_all add: evals_def bnd_def ret_def rounds_acc_def)

lemma evals_case_prod [evals_intros]:
  "computes p (a, b) \<Longrightarrow> evals (f a b) s x t \<Longrightarrow> evals (case p of (x, y) \<Rightarrow> f x y) s x t"
  by (simp add: computes_def)

lemma evals_let [evals_intros]: "evals (f v) s x t \<Longrightarrow> evals (let y = v in f y) s x t"
  by simp

datatype verdict = Holds | Fails

definition verdict :: "bool \<Rightarrow> verdict" where
  "verdict b = (if b then Holds else Fails)"

definition branch :: "verdict \<Rightarrow> 'a \<Rightarrow> 'a \<Rightarrow> 'a" where
  "branch v x y = (case v of Holds \<Rightarrow> x | Fails \<Rightarrow> y)"

lemma evals_branch [evals_intros]:
  "evals m s x t \<Longrightarrow> evals (branch Holds m n) s x t" "evals n s x t \<Longrightarrow> evals (branch Fails m n) s x t"
  by (simp_all add: branch_def)

lemma evals_if [evals_intros]: "computes (verdict b) v \<Longrightarrow> evals (branch v m n) s x t \<Longrightarrow> evals (if b then m else n) s x t"
  by (auto simp: verdict_def branch_def computes_def split: if_splits)

definition alternative :: "'a option \<Rightarrow> 'b \<Rightarrow> ('a \<Rightarrow> 'b) \<Rightarrow> 'b" where
  "alternative r m f = (case r of None \<Rightarrow> m | Some y \<Rightarrow> f y)"

lemma evals_case_option [evals_intros]:
  "computes r r' \<Longrightarrow> evals (alternative r' m f) s x t \<Longrightarrow> evals (case r of None \<Rightarrow> m | Some y \<Rightarrow> f y) s x t"
  by (simp add: alternative_def computes_def)

lemma evals_alternative [evals_intros]:
  "evals m s x t \<Longrightarrow> evals (alternative None m f) s x t" "evals (f y) s x t \<Longrightarrow> evals (alternative (Some y) m f) s x t"
  by (simp_all add: alternative_def)

lemma evals_run_if [evals_intros]: "computes (verdict b) v \<Longrightarrow> evals (branch v m (ret ())) s x t \<Longrightarrow> evals (run_if b m) s x t"
  by (auto simp: run_if_def verdict_def branch_def computes_def split: if_splits)

lemma evals_discard [evals_intros]: "evals m s x t \<Longrightarrow> evals (discard m) s () t"
  by (simp add: evals_def discard_def bnd_def ret_def)

lemma evals_serve: "evals (serve env context r) s () t \<Longrightarrow> snd (serve env context r s) = t"
  by (simp add: evals_def)

text \<open>Decimal arithmetic on values with few places.\<close>

lemma ctx28_small: "on_grid 9 x \<Longrightarrow> \<bar>x\<bar> < 10 ^ 19 \<Longrightarrow> ctx28 x = x"
  by (rule ctx28_exact[of 9]) simp_all

lemma round_money_small: "on_grid 4 x \<Longrightarrow> \<bar>x\<bar> < 10 ^ 23 \<Longrightarrow> round_money x = Inr x"
  using round_money_eq[of x] by (simp add: Money_fixed)

lemma rescale_small: "on_grid k x \<Longrightarrow> rescale round_half_up k x = x"
  by (rule half_up.rescale_fixed)

lemma quantize_small: "on_grid 6 x \<Longrightarrow> \<bar>x\<bar> < 10 ^ 21 \<Longrightarrow> dec_quantize round_half_up 6 x = Inr x"
  using half_up.quantize_rescale[of x 6] by (simp add: rescale_small)

lemma quantize_even_small: "on_grid 6 x \<Longrightarrow> \<bar>x\<bar> < 10 ^ 21 \<Longrightarrow> dec_quantize round_half_even 6 x = Inr x"
  using half_even.quantize_rescale[of x 6] by (simp add: half_even.rescale_fixed)

lemmas decimal_evals = quantize_even_small ctx28_small round_money_small rescale_small quantize_small dec_add_def dec_sub_def dec_mul_def on_grid_def verdict_def

end
