(* ===== verification/Shop.thy ===== *)
theory Shop
  imports Evaluation
begin

text \<open>A small shop: the concrete state and the requests on which the properties of the system are shown at work.\<close>

definition shop_db :: pos_db where
  "shop_db = \<lparr>uuid_gen = (\<lambda>n. 100 + n), uuid_count = 0, clock = (\<lambda>n. 0), clock_count = 0, request_id = None,
     document_sequences = [], idempotency_keys = [], audit_events = [],
     units = [\<lparr>um_id = 1, um_precision = 2\<rparr>],
     products = [\<lparr>pr_id = 5, pr_name = ''Tea'', pr_uom_id = 1, pr_tax_category_id = Some 3, pr_cost_price = 2,
                  pr_selling_price = 4, pr_reorder_point = None, pr_is_stock_tracked = True, pr_is_active = True\<rparr>],
     warehouses = [\<lparr>wh_id = 7, wh_branch_id = Some 2, wh_is_active = True\<rparr>],
     allow_negative_inventory = False, movements = [], balances = [], reservations = [], transfers = [],
     transfer_lines = [], adjustments = [], base_currency = ''BDT'', fiscal_year_start_month = 1,
     accounts = example_accounts, journals = [\<lparr>jr_id = 50, jr_code = ''GENERAL''\<rparr>],
     fiscal_periods = [\<lparr>fp_id = 51, fp_name = ''FY 1970/1970'', fp_start_date = (1970, 1, 1), fp_end_date = (1970, 12, 31),
                        fp_status = OPEN\<rparr>],
     journal_entries = [], journal_entry_lines = [], vat_rates = [],
     vat_transactions = [], vat_returns = [], customers = [\<lparr>cu_id = 11, cu_name = ''Ada''\<rparr>], quotations = [],
     quotation_lines = [], sales_orders = [], sales_order_lines = [], fulfillments = [], fulfillment_lines = [],
     invoices = [], invoice_lines = [], payments = [], payment_allocations = [], credit_notes = [],
     credit_note_lines = [], suppliers = [\<lparr>su_id = 12, su_name = ''Bo''\<rparr>], purchase_orders = [],
     purchase_order_lines = [], goods_receipts = [], goods_receipt_lines = [], supplier_bills = [],
     supplier_bill_lines = [], tax_categories = [\<lparr>tx_id = 3, tx_rate = 1/5, tx_is_active = True\<rparr>], pos_terminals = [],
     pos_sessions = [], sales = [], sale_lines = [], sale_payments = [], held_sales = [], receipts = [],
     sale_returns = [], sale_return_lines = []\<rparr>"

definition shop_env :: surroundings where
  "shop_env = \<lparr>code_collation = (\<lambda>_. 0), hash_id = (\<lambda>_. ''h''), hash_payment = (\<lambda>_. ''h''),
     hash_supplier_payment = (\<lambda>_. ''h''), hash_checkout = (\<lambda>_. ''h''), hash_refund = (\<lambda>_. ''h''), key_in_flight = False\<rparr>"

definition run :: "request list \<Rightarrow> pos_db \<Rightarrow> pos_db" where
  "run rs s = foldl (\<lambda>s r. snd (serve shop_env example_context r s)) s rs"

lemma run_reachable: "system_reachable s \<Longrightarrow> list_all valid_request rs \<Longrightarrow> system_reachable (run rs s)"
  unfolding run_def by (induction rs arbitrary: s) (auto intro: system_reachable.request)

lemma run_step: "evals (serve shop_env example_context r) s () t \<Longrightarrow> run rs t = u \<Longrightarrow> run (r # rs) s = u"
  by (simp add: run_def evals_def)

lemma run_factI: "run rs s = t \<Longrightarrow> P t \<Longrightarrow> P (run rs s)"
  by simp

lemma run_Nil: "run [] s = s"
  by (simp add: run_def)

lemma shop_initial: "system_reachable shop_db"
  by (rule system_reachable.start)
    (simp add: initial_def no_documents_def no_stock_def master_data_ok_def units_ok_def inventory_chk_def base_constraints_def
      inventory_constraints_def unique_where_def shop_db_def example_accounts_unique)

lemma shop_date [simp]: "utc_date 0 = (1970, 1, 1)"
  by (simp add: utc_date_def split_year.simps split_month.simps days_in_year_def days_in_month_def leap_year_def)

text \<open>The chart of accounts is complete, so a posting starts at once.\<close>

lemma evals_bootstrap [evals_intros]:
  assumes "accounts s = example_accounts" "repo_journal s \<noteq> None" "chk s = None"
  shows "evals (bootstrap chk) s () s"
proof -
  have "\<forall>d \<in> set DEFAULT_ACCOUNTS. code_known s (fst d)"
    using assms(1) by (simp add: code_known_def example_accounts_def DEFAULT_ACCOUNTS_def)
  then show ?thesis using assms(2,3) by (simp add: evals_def bootstrap_skip)
qed

definition chart :: "string \<Rightarrow> account option" where
  "chart code = find (\<lambda>a. acc_system_code a = Some code) example_accounts"

lemma system_account_chart: "accounts s = example_accounts \<Longrightarrow> system_account s = chart"
  by (simp add: fun_eq_iff system_account_def chart_def)

lemma chart_accounts:
  "chart ''CASH'' = Some (example_accounts ! 2)" "chart ''BANK'' = Some (example_accounts ! 3)"
  "chart ''AR_CONTROL'' = Some (example_accounts ! 4)" "chart ''INVENTORY'' = Some (example_accounts ! 5)"
  "chart ''VAT_INPUT'' = Some (example_accounts ! 6)" "chart ''AP_CONTROL'' = Some (example_accounts ! 9)"
  "chart ''GRNI'' = Some (example_accounts ! 10)" "chart ''VAT_OUTPUT'' = Some (example_accounts ! 11)"
  "chart ''SALES_REVENUE'' = Some (example_accounts ! 17)" "chart ''SALES_RETURNS'' = Some (example_accounts ! 18)"
  "chart ''COGS'' = Some (example_accounts ! 21)"
  by (simp_all add: chart_def example_accounts_def DEFAULT_ACCOUNTS_def)

lemma chart_postable:
  "i \<in> {2, 3, 4, 5, 6, 9, 10, 11, 17, 18, 21} \<Longrightarrow>
   acc_is_postable (example_accounts ! i) \<and> acc_is_active (example_accounts ! i) \<and> acc_id (example_accounts ! i) = 10 + i"
  by (auto simp: example_accounts_def DEFAULT_ACCOUNTS_def)

lemmas service_evals = serve.simps serve_inventory.simps serve_accounting.simps serve_vat.simps serve_sales.simps
  serve_purchasing.simps serve_pos.simps
  uuid7_def datetime_now_def audit_record_def add_audit_event_def allocate_def upsert_sequence_def period_def
  claim_def complete_key_def claim_payment_key_def
  require_status_def require_branch_def require_warehouse_def get_product_def

lemmas stock_evals = receipt_def post_movement_for_document_def post_movement_def apply_movement_def write_movement_def
  update_cost_def set_product_cost_def set_balance_def add_movement_def balance_for_update_def ensure_balance_def
  validate_pair_def validate_quantity_def

lemmas posting_evals = post_def posting_period_def posting_accounts_def record_entry_def write_entry_def add_entry_line_def
  update_entry_def record_vat_groups_def vat_record_def

lemmas sales_evals = create_order_def add_order_line_def confirm_order_def update_order_def fulfil_def requested_lines_def
  request_line_def fulfil_line_def consume_stock_def update_order_line_def post_fulfillment_def create_invoice_def
  add_invoice_line_def update_invoice_def issue_invoice_def issue_draft_def post_invoice_def record_vat_for_invoice_def
  record_payment_def take_payment_def allocate_payment_def post_payment_def issue_credit_note_def credit_line_of_def
  restock_line_def update_invoice_line_def post_credit_note_def record_vat_for_credit_note_def

lemmas purchasing_evals = create_purchase_order_def add_purchase_line_def confirm_purchase_order_def update_purchase_order_def
  receive_def requested_receipt_lines_def request_receipt_line_def receive_line_def receive_stock_def update_purchase_line_def
  post_goods_receipt_def create_bill_def add_bill_line_def update_bill_def issue_bill_def post_bill_def record_vat_for_bill_def
  record_supplier_payment_def make_supplier_payment_def allocate_supplier_payment_def post_supplier_payment_def

lemmas pos_evals = create_terminal_def open_session_def require_terminal_def require_open_session_def checkout_def ring_up_def
  add_sale_line_def take_sold_stock_def add_tender_def post_sale_def record_vat_for_sale_def update_sale_def update_pos_session_def
  refund_def take_back_def refund_line_def return_stock_def update_sale_line_def update_sale_return_def post_refund_def
  record_vat_for_refund_def sale_parts_def

lemmas query_evals = repo_warehouse_def repo_product_def unit_precision_def is_balance_def lock_balance_def movement_by_key_def
  branch_allowed_def truthy_def movement_value_def product_cost_def
  repo_journal_def period_for_date_def system_account_chart chart_accounts chart_postable
  repo_order_def order_lines_def repo_invoice_def repo_invoice_lines_def repo_invoice_line_def repo_payment_def repo_allocations_def
  line_by_id_def by_product_def outstanding_lines_def replayed_def settled_status_def number_text_def credit_notes_for_invoice_def
  repo_purchase_order_def repo_purchase_order_lines_def repo_bill_def repo_bill_lines_def purchase_line_by_id_def
  by_purchased_product_def outstanding_purchase_lines_def settled_bill_status_def
  repo_terminal_def repo_pos_session_def open_session_for_terminal_def tax_rate_def repo_customer_def repo_sale_def
  repo_sale_lines_def repo_sale_payments_def repo_receipt_def repo_sale_return_def sale_line_by_id_def by_sold_product_def
  new_sale_def receipt_snapshot_def effective_tender_def refund_share_def
  same_key_def same_series_def SERIES_def branch_in_def sort_key_def ISSUE_ENDPOINT_def PAYMENT_ENDPOINT_def SUPPLIER_PAYMENT_ENDPOINT_def
  CHECKOUT_ENDPOINT_def REFUND_ENDPOINT_def RETENTION_def on_hand_def

lemmas value_evals = decimal_evals line_totals_def dec_div_def moving_average_def dec_sum_def dec_abs_def
  quantize_eq_round_money group_taxable_lines_def total_debit_def total_credit_def debit_line_def credit_line_def cogs_recognition_def cash_sale_def
  credit_sale_def customer_payment_def sales_return_def pos_refund_def goods_receipt_def supplier_bill_def supplier_payment_def
  Quantity_def UnitCost_def Money_fixed Rate_def

lemmas constraint_evals = inventory_chk_def sales_chk_def sales_flush_chk_def purchasing_chk_def purchasing_flush_chk_def pos_chk_def pos_flush_chk_def
  base_constraints_def inventory_constraints_def accounting_constraints_def
  vat_constraints_def payment_constraints_def sales_constraints_def purchasing_constraints_def pos_constraints_def
  balance_trigger_def entry_balanced_def lines_of_def unique_where_def in_range_def
  line_ok_def line_in_range_def cost_line_ok_def cost_line_in_range_def example_accounts_unique[unfolded unique_where_def] no_overlap_def
  document_number_eq document_number_pending

lemmas run_evals = service_evals purchasing_evals sales_evals pos_evals stock_evals posting_evals

lemmas shop_evals = shop_db_def shop_env_def example_context_def example_receipt_def query_evals value_evals

definition purchase_requests :: "request list" where
  "purchase_requests =
     [Purchasing_request (CreatePurchaseOrder \<lparr>poc_supplier_id = 12, poc_branch_id = 2, poc_warehouse_id = 7,
        poc_order_date = (1970, 1, 1), poc_expected_date = None, poc_notes = None,
        poc_lines = [\<lparr>pli_product_id = 5, pli_quantity = 10, pli_unit_cost = 3, pli_tax_rate = 1/5, pli_description = None\<rparr>]\<rparr>),
      Purchasing_request (ConfirmPurchaseOrder 100),
      Purchasing_request (ReceiveGoods 100 \<lparr>grc_supplier_reference = None, grc_notes = None,
        grc_lines = Some [\<lparr>rli_order_line_id = 101, rli_quantity = 8, rli_unit_cost = None\<rparr>]\<rparr>),
      Purchasing_request (CreateBill \<lparr>sbc_purchase_order_id = 100, sbc_issue_date = (1970, 1, 1), sbc_due_date = None,
        sbc_supplier_invoice_number = None, sbc_notes = None, sbc_bill_received_only = True\<rparr>),
      Purchasing_request (IssueBill 110),
      Purchasing_request (RecordSupplierPayment \<lparr>sp_supplier_id = 12, sp_branch_id = 2, sp_method = CASH, sp_amount = 10,
        sp_payment_date = (1970, 1, 1), sp_reference = None, sp_notes = None,
        sp_allocations = [\<lparr>bai_supplier_bill_id = 110, bai_amount = 10\<rparr>]\<rparr> (Some ''k''))]"

lemma purchase_run:
  "(\<lambda>t. map (\<lambda>l. (pol_received_quantity l, pol_billed_quantity l)) (purchase_order_lines t) = [(8, 8)]
      \<and> map (\<lambda>b. (sb_paid_amount b, sb_total_amount b)) (supplier_bills t) = [(10, 144/5)]) (run purchase_requests shop_db)"
  unfolding purchase_requests_def
  by (rule run_factI)
    (rule run_step run_Nil evals_intros | (unfold run_evals)[1] | ((simp add: shop_evals)?, rule computes_refl)
      | (simp add: shop_evals constraint_evals; fail))+

definition tea_order :: request where
  "tea_order = Sales_request (CreateOrder \<lparr>oc_customer_id = 11, oc_branch_id = 2, oc_warehouse_id = 7,
        oc_order_date = (1970, 1, 1), oc_notes = None,
        oc_lines = [\<lparr>li_product_id = 5, li_quantity = 6, li_unit_price = 4, li_discount_rate = 0, li_tax_rate = 1/5,
                     li_description = None\<rparr>]\<rparr>)"

definition fulfil_requests :: "request list" where
  "fulfil_requests =
     [Inventory_request (PostReceipt example_receipt None), tea_order, Sales_request (ConfirmOrder 102),
      Sales_request (FulfilOrder 102 \<lparr>fc_notes = None, fc_lines = Some [\<lparr>fli_order_line_id = 103, fli_quantity = 4\<rparr>]\<rparr>)]"

definition tea_invoice :: request where
  "tea_invoice = Sales_request (CreateInvoice \<lparr>ic_sales_order_id = 100, ic_issue_date = (1970, 1, 1), ic_due_date = None,
        ic_notes = None, ic_invoice_fulfilled_only = False\<rparr>)"

definition payment_requests :: "request list" where
  "payment_requests =
     [tea_order, Sales_request (ConfirmOrder 100), tea_invoice, Sales_request (IssueInvoice 102 ''i''),
      Sales_request (RecordPayment \<lparr>pm_customer_id = 11, pm_branch_id = 2, pm_method = CASH, pm_amount = 10,
        pm_payment_date = (1970, 1, 1), pm_reference = None, pm_notes = None,
        pm_allocations = [\<lparr>ai_invoice_id = 102, ai_amount = 10\<rparr>]\<rparr> (Some ''p''))]"

definition credit_requests :: "request list" where
  "credit_requests =
     [tea_order, Sales_request (ConfirmOrder 100), tea_invoice, Sales_request (IssueInvoice 102 ''i''),
      Sales_request (IssueCreditNote \<lparr>cc_invoice_id = 102, cc_issue_date = (1970, 1, 1), cc_reason = ''r'', cc_restock = False,
        cc_warehouse_id = None, cc_notes = None, cc_lines = [\<lparr>cni_invoice_line_id = 103, cni_quantity = 1\<rparr>]\<rparr>)]"

lemma fulfil_run:
  "(\<lambda>t. map sol_fulfilled_quantity (sales_order_lines t) = [4]) (run fulfil_requests shop_db)"
  unfolding fulfil_requests_def tea_order_def
  by (rule run_factI)
    (rule run_step run_Nil evals_intros | (unfold run_evals)[1] | ((simp add: shop_evals)?, rule computes_refl)
      | (simp add: shop_evals constraint_evals; fail))+

lemma payment_run:
  "(\<lambda>t. map sol_invoiced_quantity (sales_order_lines t) = [6]
      \<and> map (\<lambda>v. (inv_paid_amount v, inv_total_amount v)) (invoices t) = [(10, 144/5)]) (run payment_requests shop_db)"
  unfolding payment_requests_def tea_order_def tea_invoice_def
  by (rule run_factI)
    (rule run_step run_Nil evals_intros | (unfold run_evals)[1] | ((simp add: shop_evals)?, rule computes_refl)
      | (simp add: shop_evals constraint_evals; fail))+

lemma credit_run:
  "(\<lambda>t. map il_credited_quantity (invoice_lines t) = [1] \<and> map cn_total_amount (credit_notes t) = [24/5])
     (run credit_requests shop_db)"
  unfolding credit_requests_def tea_order_def tea_invoice_def
  by (rule run_factI)
    (rule run_step run_Nil evals_intros | (unfold run_evals)[1] | ((simp add: shop_evals)?, rule computes_refl)
      | (simp add: shop_evals constraint_evals; fail))+

definition till_requests :: "request list" where
  "till_requests =
     [Inventory_request (PostReceipt example_receipt None),
      Pos_request (CreateTerminal \<lparr>tmc_code = ''T1'', tmc_name = ''Till'', tmc_branch_id = 2, tmc_warehouse_id = 7\<rparr>),
      Pos_request (OpenSession \<lparr>sop_terminal_id = 102, sop_opening_float = 0, sop_notes = None\<rparr>),
      Pos_request (Checkout \<lparr>co_session_id = 103, co_customer_id = None,
        co_lines = [\<lparr>cart_product_id = 5, cart_quantity = 2, cart_discount_rate = 0\<rparr>],
        co_payments = [\<lparr>ti_tender = T_CASH, ti_amount = 10, ti_change_given = 2/5, ti_reference = None\<rparr>], co_notes = None\<rparr> ''c''),
      Pos_request (RefundSale \<lparr>rf_sale_id = 105, rf_session_id = 103, rf_reason = ''r'',
        rf_lines = [\<lparr>rl_sale_line_id = 106, rl_quantity = 1\<rparr>]\<rparr> ''r'')]"

lemma till_run:
  "(\<lambda>t. map (\<lambda>v. (sl_total_amount v, sl_refunded_amount v)) (sales t) = [(48/5, 24/5)]
      \<and> map sln_refunded_quantity (sale_lines t) = [1] \<and> map (\<lambda>x. (ps_terminal_id x, ps_status x)) (pos_sessions t) = [(102, SESSION_OPEN)]
      \<and> on_hand 7 5 t = 9 \<and> length (journal_entries t) = 4) (run till_requests shop_db)"
  unfolding till_requests_def
  by (rule run_factI)
    (rule run_step run_Nil evals_intros | (unfold run_evals)[1] | ((simp add: shop_evals)?, rule computes_refl)
      | (simp add: shop_evals constraint_evals; fail))+

end
