(* ===== verification/Guarantees.thy ===== *)
theory Guarantees
  imports Shop
begin

text \<open>
  What the document modules guarantee in every reachable state of the system: the counters of a line or a document
  agree with the rows they count and never exceed what they are counted against.
\<close>

lemma reachable_documents:
  assumes "system_reachable s"
  shows "sales_inv s" "purchasing_inv s" "pos_inv s"
  using system_reachable_inv[OF assms] by (simp_all add: system_inv_def documents_inv_def)

lemma tallied_count_of:
  "tallied key cnt ref amount ps cs \<Longrightarrow> p \<in> set ps \<Longrightarrow> cnt p = sum_list (map amount (filter (\<lambda>c. ref c = Some (key p)) cs))"
  by (simp add: tallied_def)

lemma run_valid: "list_all valid_request rs \<Longrightarrow> system_reachable (run rs shop_db)"
  using run_reachable[OF shop_initial] .

lemma requests_valid:
  "list_all valid_request fulfil_requests" "list_all valid_request payment_requests" "list_all valid_request credit_requests"
  "list_all valid_request purchase_requests" "list_all valid_request till_requests"
  by (simp_all add: fulfil_requests_def payment_requests_def credit_requests_def purchase_requests_def till_requests_def
      tea_order_def tea_invoice_def valid_fulfillment_def valid_payment_def valid_credit_note_def valid_purchase_line_def
      valid_receipt_def valid_supplier_payment_def valid_checkout_def valid_cart_line_def valid_tender_def valid_refund_def
      valid_line_def valid_quantity_def valid_amount_def valid_rate_def money_def on_grid_def)

section \<open>Sales\<close>

text \<open>
  C2. Order lines count what was delivered and invoiced. In every reachable state the fulfilled quantity of a sales
  order line is the sum of the fulfillment lines that refer to it, its invoiced quantity the sum of the invoice lines
  that refer to it, and neither exceeds the ordered quantity.
\<close>

theorem order_lines_tally:
  assumes "system_reachable s" and "l \<in> set (sales_order_lines s)"
  shows "sol_fulfilled_quantity l = sum_list (map fl_quantity (filter (\<lambda>f. fl_order_line_id f = sol_id l) (fulfillment_lines s)))
       \<and> sol_invoiced_quantity l = sum_list (map lt_quantity (filter (\<lambda>i. il_order_line_id i = Some (sol_id l)) (invoice_lines s)))
       \<and> 0 \<le> sol_fulfilled_quantity l \<and> sol_fulfilled_quantity l \<le> lt_quantity l
       \<and> 0 \<le> sol_invoiced_quantity l \<and> sol_invoiced_quantity l \<le> lt_quantity l"
proof -
  have inv: "order_counts s" using reachable_documents(1)[OF assms(1)] by (simp add: sales_inv_def)
  then have "order_line_counts l" using assms(2) by (simp add: order_counts_def list_all_iff)
  then show ?thesis
    using inv assms(2) by (simp add: order_counts_def order_line_counts_def counted_def tallied_def)
qed

theorem order_lines_tally_witness:
  "\<exists>l. sales_order_lines (run fulfil_requests shop_db) = [l] \<and> sol_fulfilled_quantity l = 4
     \<and> sum_list (map fl_quantity (filter (\<lambda>f. fl_order_line_id f = sol_id l) (fulfillment_lines (run fulfil_requests shop_db)))) = 4"
proof -
  obtain l where l: "sales_order_lines (run fulfil_requests shop_db) = [l]" "sol_fulfilled_quantity l = 4"
    using fulfil_run by (auto simp: map_eq_Cons_conv)
  then show ?thesis using order_lines_tally[OF run_valid[OF requests_valid(1)], of l] by simp
qed

text \<open>
  C3. Invoices are settled exactly. In every reachable state the paid amount of an invoice is the sum of the payments
  allocated to it and at most its total; the invoice is \<open>PAID\<close> exactly when a positive total is paid in full,
  \<open>PARTIALLY_PAID\<close> exactly when a positive part is, and nothing is allocated to it in any other status.
\<close>

theorem invoices_settled:
  assumes "system_reachable s" and "v \<in> set (invoices s)"
  shows "inv_paid_amount v = sum_list (map pa_amount (filter (\<lambda>a. pa_invoice_id a = Some (inv_id v)) (payment_allocations s)))
       \<and> inv_paid_amount v \<le> inv_total_amount v
       \<and> (inv_status v = INV_PAID \<longleftrightarrow> 0 < inv_paid_amount v \<and> inv_paid_amount v = inv_total_amount v)
       \<and> (inv_status v = INV_PARTIALLY_PAID \<longleftrightarrow> 0 < inv_paid_amount v \<and> inv_paid_amount v < inv_total_amount v)"
proof -
  have inv: "settlement s" using reachable_documents(1)[OF assms(1)] by (simp add: sales_inv_def)
  then have v: "settled v" using assms(2) by (simp add: settlement_def list_all_iff)
  have "inv_paid_amount v = sum_list (map pa_amount (filter (\<lambda>a. pa_invoice_id a = Some (inv_id v)) (payment_allocations s)))"
    using inv assms(2) by (intro tallied_count_of) (simp_all add: settlement_def)
  then show ?thesis using v by (cases "inv_status v") (auto simp: settled_def)
qed

theorem invoices_settled_witness:
  "\<exists>v. invoices (run payment_requests shop_db) = [v] \<and> inv_paid_amount v = 10 \<and> inv_status v = INV_PARTIALLY_PAID
     \<and> sum_list (map pa_amount (filter (\<lambda>a. pa_invoice_id a = Some (inv_id v)) (payment_allocations (run payment_requests shop_db)))) = 10"
proof -
  obtain v where v: "invoices (run payment_requests shop_db) = [v]" "inv_paid_amount v = 10" "inv_total_amount v = 144/5"
    using payment_run by (auto simp: map_eq_Cons_conv)
  then show ?thesis using invoices_settled[OF run_valid[OF requests_valid(2)], of v] by simp
qed

text \<open>
  C4. Credit notes never take back more than was invoiced. In every reachable state the credited quantity of an invoice
  line is the sum of the credit note lines that refer to it and at most the invoiced quantity.
\<close>

theorem credits_tally:
  assumes "system_reachable s" and "l \<in> set (invoice_lines s)"
  shows "il_credited_quantity l = sum_list (map lt_quantity (filter (\<lambda>c. cl_invoice_line_id c = il_id l) (credit_note_lines s)))
       \<and> 0 \<le> il_credited_quantity l \<and> il_credited_quantity l \<le> lt_quantity l"
proof -
  have inv: "credit_counts s" using reachable_documents(1)[OF assms(1)] by (simp add: sales_inv_def)
  then have "invoice_line_counts l" using assms(2) by (simp add: credit_counts_def list_all_iff)
  then show ?thesis
    using inv assms(2) by (simp add: credit_counts_def invoice_line_counts_def counted_def tallied_def)
qed

theorem credits_tally_witness:
  "\<exists>l. invoice_lines (run credit_requests shop_db) = [l]
     \<and> sum_list (map lt_quantity (filter (\<lambda>c. cl_invoice_line_id c = il_id l) (credit_note_lines (run credit_requests shop_db)))) = 1"
proof -
  obtain l where l: "invoice_lines (run credit_requests shop_db) = [l]" "il_credited_quantity l = 1"
    using credit_run by (auto simp: map_eq_Cons_conv)
  then show ?thesis using credits_tally[OF run_valid[OF requests_valid(3)], of l] by simp
qed

section \<open>Document totals\<close>

text \<open>
  C5. The totals on a document are the sums of its lines. In every reachable state the net and tax amounts of every
  quotation, order, invoice and credit note are the exact sums over its lines, its total is net plus tax, and the same
  holds of purchase orders and supplier bills: rounding happens on the lines and never again.
\<close>

definition adds_up :: "('p \<Rightarrow> uuid) \<Rightarrow> ('p \<Rightarrow> rat) \<Rightarrow> ('p \<Rightarrow> rat) \<Rightarrow> ('p \<Rightarrow> rat) \<Rightarrow> ('l \<Rightarrow> uuid) \<Rightarrow> ('l \<Rightarrow> rat) \<Rightarrow> ('l \<Rightarrow> rat) \<Rightarrow>
    'p list \<Rightarrow> 'l list \<Rightarrow> bool" where
  "adds_up key net tax tot doc line_net line_tax ds ls \<longleftrightarrow>
     (\<forall>d \<in> set ds. net d = sum_list (map line_net (filter (\<lambda>l. doc l = key d) ls))
        \<and> tax d = sum_list (map line_tax (filter (\<lambda>l. doc l = key d) ls)) \<and> tot d = net d + tax d)"

lemma adds_upI:
  assumes "tallied key net (\<lambda>l. Some (doc l)) line_net ds ls" "tallied key tax (\<lambda>l. Some (doc l)) line_tax ds ls"
    "list_all (\<lambda>d. tot d = net d + tax d) ds"
  shows "adds_up key net tax tot doc line_net line_tax ds ls"
  using assms by (simp add: adds_up_def tallied_def list_all_iff)

theorem document_totals_add_up:
  assumes "system_reachable s"
  shows "adds_up qt_id qt_net_amount qt_tax_amount qt_total_amount ql_quotation_id lt_net_amount lt_tax_amount (quotations s) (quotation_lines s)
       \<and> adds_up so_id so_net_amount so_tax_amount so_total_amount sol_order_id lt_net_amount lt_tax_amount (sales_orders s) (sales_order_lines s)
       \<and> adds_up inv_id inv_net_amount inv_tax_amount inv_total_amount il_invoice_id lt_net_amount lt_tax_amount (invoices s) (invoice_lines s)
       \<and> adds_up cn_id cn_net_amount cn_tax_amount cn_total_amount cl_credit_note_id lt_net_amount lt_tax_amount (credit_notes s) (credit_note_lines s)
       \<and> adds_up po_id po_net_amount po_tax_amount po_total_amount pol_order_id ct_net_amount ct_tax_amount (purchase_orders s) (purchase_order_lines s)
       \<and> adds_up sb_id sb_net_amount sb_tax_amount sb_total_amount sbl_bill_id ct_net_amount ct_tax_amount (supplier_bills s) (supplier_bill_lines s)"
  using reachable_documents(1,2)[OF assms]
  by (intro conjI adds_upI) (simp_all add: sales_inv_def purchasing_inv_def quotation_sums_def order_sums_def invoice_sums_def
      credit_sums_def purchase_sums_def bill_sums_def)

theorem document_totals_add_up_witness:
  "\<exists>n. credit_notes (run credit_requests shop_db) = [n] \<and> cn_total_amount n = 24/5
     \<and> sum_list (map lt_net_amount (filter (\<lambda>l. cl_credit_note_id l = cn_id n) (credit_note_lines (run credit_requests shop_db))))
       + sum_list (map lt_tax_amount (filter (\<lambda>l. cl_credit_note_id l = cn_id n) (credit_note_lines (run credit_requests shop_db)))) = 24/5"
proof -
  obtain n where n: "credit_notes (run credit_requests shop_db) = [n]" "cn_total_amount n = 24/5"
    using credit_run by (auto simp: map_eq_Cons_conv)
  then show ?thesis using document_totals_add_up[OF run_valid[OF requests_valid(3)]] by (simp add: adds_up_def)
qed

section \<open>Purchasing\<close>

text \<open>
  C6. Purchase order lines count what was received and billed. In every reachable state the received quantity is the sum
  of the goods receipt lines and the billed quantity the sum of the bill lines that refer to the order line, and neither
  exceeds the ordered quantity.
\<close>

theorem purchase_lines_tally:
  assumes "system_reachable s" and "l \<in> set (purchase_order_lines s)"
  shows "pol_received_quantity l = sum_list (map grl_quantity (filter (\<lambda>r. grl_order_line_id r = pol_id l) (goods_receipt_lines s)))
       \<and> pol_billed_quantity l = sum_list (map ct_quantity (filter (\<lambda>b. sbl_order_line_id b = Some (pol_id l)) (supplier_bill_lines s)))
       \<and> 0 \<le> pol_received_quantity l \<and> pol_received_quantity l \<le> ct_quantity l
       \<and> 0 \<le> pol_billed_quantity l \<and> pol_billed_quantity l \<le> ct_quantity l"
proof -
  have inv: "purchase_counts s" using reachable_documents(2)[OF assms(1)] by (simp add: purchasing_inv_def)
  then have "purchase_line_counts l" using assms(2) by (simp add: purchase_counts_def list_all_iff)
  then show ?thesis
    using inv assms(2) by (simp add: purchase_counts_def purchase_line_counts_def counted_def tallied_def)
qed

theorem purchase_lines_tally_witness:
  "\<exists>l. purchase_order_lines (run purchase_requests shop_db) = [l] \<and> pol_billed_quantity l = 8
     \<and> sum_list (map grl_quantity (filter (\<lambda>r. grl_order_line_id r = pol_id l) (goods_receipt_lines (run purchase_requests shop_db)))) = 8"
proof -
  obtain l where l: "purchase_order_lines (run purchase_requests shop_db) = [l]" "pol_received_quantity l = 8" "pol_billed_quantity l = 8"
    using purchase_run by (auto simp: map_eq_Cons_conv)
  then show ?thesis using purchase_lines_tally[OF run_valid[OF requests_valid(4)], of l] by simp
qed

text \<open>
  C7. Supplier bills are settled exactly. In every reachable state the paid amount of a bill is the sum of the payments
  allocated to it, at most its total, and the status of the bill tells whether it is paid in part or in full.
\<close>

theorem bills_settled:
  assumes "system_reachable s" and "b \<in> set (supplier_bills s)"
  shows "sb_paid_amount b = sum_list (map pa_amount (filter (\<lambda>a. pa_supplier_bill_id a = Some (sb_id b)) (payment_allocations s)))
       \<and> sb_paid_amount b \<le> sb_total_amount b
       \<and> (sb_status b = BILL_PAID \<longleftrightarrow> 0 < sb_paid_amount b \<and> sb_paid_amount b = sb_total_amount b)
       \<and> (sb_status b = BILL_PARTIALLY_PAID \<longleftrightarrow> 0 < sb_paid_amount b \<and> sb_paid_amount b < sb_total_amount b)"
proof -
  have inv: "bill_settlement s" using reachable_documents(2)[OF assms(1)] by (simp add: purchasing_inv_def)
  then have b: "bill_settled b" using assms(2) by (simp add: bill_settlement_def list_all_iff)
  have "sb_paid_amount b = sum_list (map pa_amount (filter (\<lambda>a. pa_supplier_bill_id a = Some (sb_id b)) (payment_allocations s)))"
    using inv assms(2) by (intro tallied_count_of) (simp_all add: bill_settlement_def)
  then show ?thesis using b by (cases "sb_status b") (auto simp: bill_settled_def)
qed

theorem bills_settled_witness:
  "\<exists>b. supplier_bills (run purchase_requests shop_db) = [b] \<and> sb_paid_amount b = 10 \<and> sb_status b = BILL_PARTIALLY_PAID"
proof -
  obtain b where b: "supplier_bills (run purchase_requests shop_db) = [b]" "sb_paid_amount b = 10" "sb_total_amount b = 144/5"
    using purchase_run by (auto simp: map_eq_Cons_conv)
  then show ?thesis using bills_settled[OF run_valid[OF requests_valid(4)], of b] by simp
qed

section \<open>Point of sale\<close>

text \<open>
  C8. A sale is paid to the last decimal place. In every reachable state the total of a sale is the sum of its lines
  and the sum of the tender taken for it less the change given.
\<close>

theorem sales_paid_exactly:
  assumes "system_reachable s" and "v \<in> set (sales s)"
  shows "sl_total_amount v = sum_list (map (\<lambda>p. spy_amount p - spy_change_given p) (filter (\<lambda>p. spy_sale_id p = sl_id v) (sale_payments s)))
       \<and> sl_net_amount v = sum_list (map lt_net_amount (filter (\<lambda>l. sln_sale_id l = sl_id v) (sale_lines s)))
       \<and> sl_tax_amount v = sum_list (map lt_tax_amount (filter (\<lambda>l. sln_sale_id l = sl_id v) (sale_lines s)))
       \<and> sl_total_amount v = sl_net_amount v + sl_tax_amount v"
proof -
  have inv: "sale_sums s" using reachable_documents(3)[OF assms(1)] by (simp add: pos_inv_def till_inv_def)
  then have tallies: "tallied sl_id sl_total_amount (\<lambda>p. Some (spy_sale_id p)) (\<lambda>p. spy_amount p - spy_change_given p) (sales s) (sale_payments s)"
    "tallied sl_id sl_net_amount (\<lambda>l. Some (sln_sale_id l)) lt_net_amount (sales s) (sale_lines s)"
    "tallied sl_id sl_tax_amount (\<lambda>l. Some (sln_sale_id l)) lt_tax_amount (sales s) (sale_lines s)"
    by (simp_all add: sale_sums_def)
  moreover have "sl_total_amount v = sl_net_amount v + sl_tax_amount v" using inv assms(2) by (simp add: sale_sums_def list_all_iff)
  ultimately show ?thesis using tallied_count_of[OF tallies(1) assms(2)] tallied_count_of[OF tallies(2) assms(2)]
      tallied_count_of[OF tallies(3) assms(2)] by simp
qed

theorem sales_paid_exactly_witness:
  "\<exists>v. sales (run till_requests shop_db) = [v]
     \<and> sum_list (map (\<lambda>p. spy_amount p - spy_change_given p)
         (filter (\<lambda>p. spy_sale_id p = sl_id v) (sale_payments (run till_requests shop_db)))) = 48/5"
proof -
  obtain v where v: "sales (run till_requests shop_db) = [v]" "sl_total_amount v = 48/5"
    using till_run by (auto simp: map_eq_Cons_conv)
  then show ?thesis using sales_paid_exactly[OF run_valid[OF requests_valid(5)], of v] by simp
qed

text \<open>
  C9. Refunds never exceed the sale. In every reachable state the refunded quantity of a sale line is the sum of the
  return lines and at most the sold quantity, and the refunded amount of a sale is the sum of its returns and at most
  its total.
\<close>

theorem refunds_tally:
  assumes "system_reachable s" and "l \<in> set (sale_lines s)" and "v \<in> set (sales s)"
  shows "sln_refunded_quantity l = sum_list (map srl_quantity (filter (\<lambda>r. srl_sale_line_id r = sln_id l) (sale_return_lines s)))
       \<and> 0 \<le> sln_refunded_quantity l \<and> sln_refunded_quantity l \<le> lt_quantity l
       \<and> sl_refunded_amount v = sum_list (map srn_amount (filter (\<lambda>r. srn_sale_id r = sl_id v) (sale_returns s)))
       \<and> 0 \<le> sl_refunded_amount v \<and> sl_refunded_amount v \<le> sl_total_amount v"
proof -
  have inv: "refund_counts s" "refund_totals s" using reachable_documents(3)[OF assms(1)] by (simp_all add: pos_inv_def till_inv_def)
  then have tallies: "tallied sln_id sln_refunded_quantity (\<lambda>r. Some (srl_sale_line_id r)) srl_quantity (sale_lines s) (sale_return_lines s)"
    "tallied sl_id sl_refunded_amount (\<lambda>r. Some (srn_sale_id r)) srn_amount (sales s) (sale_returns s)"
    by (simp_all add: refund_counts_def refund_totals_def)
  have "counted (sln_refunded_quantity l) (lt_quantity l)" using inv(1) assms(2) by (simp add: refund_counts_def sale_line_counts_def list_all_iff)
  moreover have "money (sl_refunded_amount v) \<and> sl_refunded_amount v \<le> sl_total_amount v"
    using inv(2) assms(3) by (simp add: refund_totals_def list_all_iff)
  ultimately show ?thesis using tallied_count_of[OF tallies(1) assms(2)] tallied_count_of[OF tallies(2) assms(3)]
    by (simp add: counted_def money_def)
qed

theorem refunds_tally_witness:
  "\<exists>l v. sale_lines (run till_requests shop_db) = [l] \<and> sales (run till_requests shop_db) = [v]
     \<and> sum_list (map srl_quantity (filter (\<lambda>r. srl_sale_line_id r = sln_id l) (sale_return_lines (run till_requests shop_db)))) = 1
     \<and> sum_list (map srn_amount (filter (\<lambda>r. srn_sale_id r = sl_id v) (sale_returns (run till_requests shop_db)))) = 24/5"
proof -
  obtain l v where "sale_lines (run till_requests shop_db) = [l]" "sln_refunded_quantity l = 1"
    "sales (run till_requests shop_db) = [v]" "sl_refunded_amount v = 24/5"
    using till_run by (auto simp: map_eq_Cons_conv)
  then show ?thesis using refunds_tally[OF run_valid[OF requests_valid(5)], of l v] by simp
qed

end
