(* ===== verification/Append_Only.thy ===== *)
theory Append_Only
  imports Shop
begin

text \<open>
  The stock ledger is append-only: no request of any of the six business modules changes or removes a movement, so
  what was posted under an idempotency key stays posted. The invariant \<open>history_kept\<close> is one more instance of the
  contracts the modules offer to an invariant.
\<close>

section \<open>No request rewrites the movements\<close>

definition history_kept :: "inventory_movement list \<Rightarrow> 'a inventory_db_scheme \<Rightarrow> bool" where
  "history_kept ms s \<longleftrightarrow> (\<exists>more. movements s = ms @ more)"

lemma history_kept_refl [simp]: "history_kept (movements s) s"
  by (simp add: history_kept_def)

lemma history_kept_cong: "movements s' = movements s \<Longrightarrow> history_kept ms s' = history_kept ms s"
  by (simp add: history_kept_def)

lemma history_base: "base_services (history_kept ms)"
  by unfold_locales (rule history_kept_cong; simp)+

interpretation history: movement_operations "history_kept ms" for ms
  by (intro movement_operations.intro history_base movement_operations_axioms.intro)
    (auto simp: history_kept_def)

lemma history_posted: "posted context allow_closed lines e new s s' \<Longrightarrow> history_kept ms s \<Longrightarrow> history_kept ms s'"
  using history_kept_cong[of s' s ms] by (simp add: posted_def same_inventory_def)

lemma history_register: "keeps (history_kept ms) (vat_record dir d st si net tax rate code rv)"
  by (rule keepsI) (simp add: vat_record_def wp_simps Let_def history_kept_def)

lemmas history_services = shared_services.intro shared_services_axioms.intro history_base history.keeps_post_movement history_register

interpretation ledger_history: accounting_operations "history_kept ms" for ms
  by (intro accounting_operations.intro history_base accounting_operations_axioms.intro) (rule history_kept_cong; simp)+

interpretation register_history: vat_operations "history_kept ms" for ms
  by (intro vat_operations.intro history_base vat_operations_axioms.intro) (rule history_kept_cong; simp)+

interpretation sales_history: sales_operations "history_kept ms" for ms
  by (intro sales_operations.intro history_services sales_check.entry_keeps sales_operations_axioms.intro)
    (assumption | rule history_posted | rule history_kept_cong; simp)+

interpretation purchasing_history: purchasing_operations "history_kept ms" for ms
  by (intro purchasing_operations.intro history_services purchasing_check.entry_keeps purchasing_operations_axioms.intro)
    (assumption | rule history_posted | rule history_kept_cong; simp)+

interpretation pos_history: pos_operations "history_kept ms" for ms
  by (intro pos_operations.intro history_services pos_check.entry_keeps pos_operations_axioms.intro)
    (assumption | rule history_posted | rule history_kept_cong; simp)+

lemma serve_history: "keeps (history_kept ms) (serve env context r)"
proof (cases r)
  case (Inventory_request q)
  then show ?thesis by (cases q) (auto intro!: keeps_discard keeps_service_transaction history.keeps_inventory)
next
  case (Accounting_request q)
  then show ?thesis by (cases q) (auto intro!: keeps_discard ledger_history.keeps_accounting)
next
  case (Vat_request q)
  then show ?thesis by (cases q) (auto intro!: keeps_discard register_history.keeps_vat)
next
  case (Sales_request q)
  then show ?thesis by (cases q) (auto intro!: keeps_discard sales_history.keeps_sales)
next
  case (Purchasing_request q)
  then show ?thesis by (cases q) (auto intro!: keeps_discard purchasing_history.keeps_purchasing)
next
  case (Pos_request q)
  then show ?thesis by (cases q) (auto intro!: keeps_discard pos_history.keeps_pos)
qed

section \<open>Later states\<close>

inductive system_later :: "'a pos_db_scheme \<Rightarrow> 'a pos_db_scheme \<Rightarrow> bool" for s where
  now: "system_later s s"
| request: "system_later s t \<Longrightarrow> valid_request r \<Longrightarrow> system_later s (snd (serve env context r t))"
| maintenance: "system_later s t \<Longrightarrow> maintained t u \<Longrightarrow> system_later s u"

lemma system_later_reachable: "system_later s t \<Longrightarrow> system_reachable s \<Longrightarrow> system_reachable t"
  by (induction rule: system_later.induct) (auto intro: system_reachable.intros)

lemma system_later_history: "system_later s t \<Longrightarrow> history_kept (movements s) t"
proof (induction rule: system_later.induct)
  case (request t r env ctx)
  then show ?case by (intro keeps_atomic[OF serve_atomic serve_history])
next
  case (maintenance t u)
  then show ?case using history_kept_cong[of u t "movements s"] by (auto simp: maintained_def)
qed simp

lemma receipt_reachable:
  assumes "system_reachable s" and "receipt context payload key s = (Inr m, s1)"
  shows "system_reachable s1"
proof -
  have "snd (serve env context (Inventory_request (PostReceipt payload key)) s) = s1" for env
    using assms(2) by (simp add: discard_def bnd_def ret_def)
  then show ?thesis using system_reachable.request[OF assms(1), of "Inventory_request (PostReceipt payload key)"] by auto
qed

section \<open>Guarantee\<close>

text \<open>
  C19. A receipt is posted at most once per idempotency key. After a receipt with a non-empty key succeeded, in every state
  that any sequence of requests of the six modules and of changes of the master data leads to: no receipt sent with the
  key, whatever its body and whoever sends it, changes the database, and if one succeeds it returns the movement posted
  first; and the same request sent again does succeed, provided that warehouse, product and quantity still pass
  validation and that quantity and cost have at most six decimal places. (With more places the stored, rounded row
  differs from the retried body and the retry is refused as a reuse of the key.)
\<close>

theorem receipt_posts_once:
  assumes "system_reachable s" and "receipt context payload (Some k) s = (Inr m, s1)" and "k \<noteq> ''''" and "system_later s1 s2"
  shows "(\<forall>context' payload' r s3. receipt context' payload' (Some k) s2 = (r, s3) \<longrightarrow>
            s3 = s2 \<and> (\<forall>m'. r = Inr m' \<longrightarrow> mv_id m' = mv_id m))
       \<and> (\<forall>u product. mc_unit_cost payload = Some u \<and> on_grid 6 (mc_quantity payload) \<and> on_grid 6 u
            \<and> validate_pair context (mc_warehouse_id payload) (mc_product_id payload) s2 = (Inr product, s2)
            \<and> validate_quantity product (mc_quantity payload) s2 = (Inr (), s2) \<longrightarrow>
            (\<exists>m'. receipt context payload (Some k) s2 = (Inr m', s2) \<and> mv_id m' = mv_id m))"
proof -
  obtain row where row: "movement_by_key k s1 = Some row" "mv_id row = mv_id m" and
    same: "\<And>u. mc_unit_cost payload = Some u \<Longrightarrow> on_grid 6 (mc_quantity payload) \<Longrightarrow> on_grid 6 u \<Longrightarrow>
       same_request row (mc_warehouse_id payload) (mc_product_id payload) RECEIPT (mc_quantity payload) (Some u)
         (mc_reference_type payload) (mc_reference_id payload)"
    using receipt_key_row[OF assms(2,3)] by (metis option.inject)
  have known: "movement_by_key k s2 = Some row"
    using row(1) system_later_history[OF assms(4)] by (auto simp: history_kept_def movement_by_key_def find_append)
  have "system_reachable s2" using system_later_reachable[OF assms(4)] receipt_reachable[OF assms(1,2)] .
  then have "inventory_chk s2 = None" using system_reachable_inv[of s2] by (simp add: system_inv_def inventory_ok_def)
  then show ?thesis
    using receipt_key_known[OF known assms(3)] receipt_replays[OF known assms(3)] same row(2) by blast
qed

text \<open>The shop receives ten, issues four, and the receipt is sent again.\<close>

definition shop_issue :: MovementCreate where
  "shop_issue = \<lparr>mc_warehouse_id = 7, mc_product_id = 5, mc_quantity = 4, mc_unit_cost = None, mc_reference_type = None,
     mc_reference_id = None, mc_notes = None\<rparr>"

definition stocked_shop :: pos_db where
  "stocked_shop = snd (receipt example_context example_receipt (Some ''k'') shop_db)"

definition issued_shop :: pos_db where
  "issued_shop = snd (serve shop_env example_context (Inventory_request (PostIssue shop_issue None)) stocked_shop)"

lemmas shop_stock_simps = inventory_run_simps receipt_def issue_def discard_def example_context_def example_receipt_def
  shop_issue_def shop_db_def on_grid_def

lemma shop_receipt_runs: "\<exists>m. receipt example_context example_receipt (Some ''k'') shop_db = (Inr m, stocked_shop)"
  by (simp add: stocked_shop_def shop_stock_simps)

lemma issued_shop_facts:
  "map mv_quantity (movements issued_shop) = [10, -4]" "warehouses issued_shop = warehouses shop_db"
  "units issued_shop = units shop_db" "map (\<lambda>p. (pr_id p, pr_uom_id p, pr_is_stock_tracked p, pr_is_active p)) (products issued_shop) = [(5, 1, True, True)]"
  by (simp_all add: issued_shop_def stocked_shop_def shop_stock_simps)

theorem receipt_posts_once_witness:
  "map mv_quantity (movements issued_shop) = [10, -4]
   \<and> (\<exists>m. receipt example_context example_receipt (Some ''k'') issued_shop = (Inr m, issued_shop))"
proof -
  obtain m where run: "receipt example_context example_receipt (Some ''k'') shop_db = (Inr m, stocked_shop)"
    using shop_receipt_runs by blast
  have "system_later stocked_shop issued_shop"
    unfolding issued_shop_def by (rule system_later.request[OF system_later.now]) simp
  note once = receipt_posts_once[OF shop_initial run _ this]
  obtain product where product: "products issued_shop = [product]" "pr_id product = 5" "pr_uom_id product = 1" "pr_is_stock_tracked product"
    "pr_is_active product"
    using issued_shop_facts(4) by (auto simp: map_eq_Cons_conv)
  have "validate_pair example_context 7 5 issued_shop = (Inr product, issued_shop)"
    by (simp add: validate_pair_def run_simps repo_warehouse_def repo_product_def product issued_shop_facts(2) branch_allowed_def
        shop_db_def example_context_def)
  moreover have "validate_quantity product 10 issued_shop = (Inr (), issued_shop)"
    by (simp add: validate_quantity_def run_simps unit_precision_def product issued_shop_facts(3) shop_db_def on_grid_def)
  ultimately show ?thesis
    using once issued_shop_facts(1) by (auto simp: example_receipt_def on_grid_def)
qed

end
