(* ===== verification/Identity.thy ===== *)
theory Identity
  imports Base_Db Program_Logic
begin

text \<open>
  The tables of the identity modules (\<^verbatim>\<open>modules/auth\<close>, \<^verbatim>\<open>modules/rbac\<close>, \<^verbatim>\<open>modules/members\<close>,
  \<^verbatim>\<open>modules/invitations\<close>, \<^verbatim>\<open>modules/tenancy\<close>, \<^verbatim>\<open>modules/outbox\<close>), their constraints and the queries of their
  repositories. Unlike the business tables these span tenants, so rows carry their tenant. Left out are the columns
  that only annotate a row (client address, user agent, contact data of a branch, \<^verbatim>\<open>created_at\<close>).

  What comes from packages is a parameter: the random source of \<^verbatim>\<open>secrets\<close> is the sequence \<open>token_gen\<close>, and the
  record \<open>crypto\<close> holds the password hash of argon2 (its salt is drawn from the random source) with its check, SHA-256,
  the check of a time-based code and the JWT codec. Nothing is assumed of them unless a statement says so.
\<close>

section \<open>Data\<close>

record user =
  us_id :: uuid
  us_email :: string
  us_password_hash :: string
  us_full_name :: string
  us_is_active :: bool
  us_email_verified_at :: "datetime option"
  us_last_login_at :: "datetime option"
  us_failed_login_count :: nat
  us_locked_until :: "datetime option"

record auth_session =
  se_id :: uuid
  se_user_id :: uuid
  se_created_at :: datetime
  se_last_used_at :: datetime
  se_revoked_at :: "datetime option"
  se_revoked_reason :: "string option"

record refresh_token =
  rk_id :: uuid
  rk_session_id :: uuid
  rk_token_hash :: string
  rk_expires_at :: datetime
  rk_used_at :: "datetime option"
  rk_replaced_by_id :: "uuid option"

text \<open>The rows of \<^verbatim>\<open>email_verification_tokens\<close> and of \<^verbatim>\<open>password_reset_tokens\<close> have the same columns.\<close>

record identity_token =
  ot_id :: uuid
  ot_user_id :: uuid
  ot_token_hash :: string
  ot_expires_at :: datetime
  ot_used_at :: "datetime option"

record mfa_credential =
  mf_id :: uuid
  mf_user_id :: uuid
  mf_secret :: string
  mf_enabled_at :: "datetime option"

record mfa_recovery_code =
  rc_id :: uuid
  rc_user_id :: uuid
  rc_code_hash :: string
  rc_used_at :: "datetime option"

datatype tenant_status = TENANT_ACTIVE | TENANT_SUSPENDED | TENANT_CANCELLED
datatype membership_status = MB_INVITED | MB_ACTIVE | MB_SUSPENDED | MB_REVOKED
datatype invitation_status = IV_PENDING | IV_ACCEPTED | IV_REVOKED | IV_EXPIRED

record tenant =
  tn_id :: uuid
  tn_name :: string
  tn_slug :: string
  tn_legal_name :: "string option"
  tn_tax_identifier :: "string option"
  tn_base_currency :: string
  tn_timezone :: string
  tn_country_code :: "string option"
  tn_status :: tenant_status
  tn_allow_negative_inventory :: bool
  tn_fiscal_year_start_month :: int

record membership =
  mb_id :: uuid
  mb_tenant_id :: uuid
  mb_user_id :: uuid
  mb_status :: membership_status
  mb_roles_version :: nat
  mb_invited_by_user_id :: "uuid option"
  mb_joined_at :: "datetime option"

record invitation =
  iv_id :: uuid
  iv_tenant_id :: uuid
  iv_email :: string
  iv_role_id :: uuid
  iv_token_hash :: string
  iv_invited_by_user_id :: uuid
  iv_expires_at :: datetime
  iv_accepted_at :: "datetime option"
  iv_status :: invitation_status

record role =
  ro_id :: uuid
  ro_tenant_id :: "uuid option"
  ro_code :: string
  ro_name :: string
  ro_is_system :: bool

record tenant_branch =
  br_id :: uuid
  br_tenant_id :: uuid
  br_code :: string
  br_name :: string
  br_is_active :: bool
  br_is_default :: bool

record branch_warehouse =
  bw_id :: uuid
  bw_tenant_id :: uuid
  bw_branch_id :: "uuid option"
  bw_code :: string
  bw_name :: string
  bw_is_active :: bool

record outbox_event =
  ox_id :: uuid
  ox_tenant_id :: "uuid option"
  ox_topic :: string
  ox_payload :: "(string \<times> string) list"
  ox_available_at :: datetime
  ox_sent_at :: "datetime option"
  ox_attempts :: nat
  ox_last_error :: "string option"

text \<open>
  The rows of the link tables are pairs: a role and a permission it grants, a membership and a role it has, a membership
  and a branch it is confined to. \<open>perm_cache\<close> and \<open>challenges\<close> are the keys the modules keep in Redis.
\<close>

record identity_db = base_db +
  token_gen :: "nat \<Rightarrow> string"
  token_count :: nat
  users :: "user list"
  auth_sessions :: "auth_session list"
  refresh_tokens :: "refresh_token list"
  email_verification_tokens :: "identity_token list"
  password_reset_tokens :: "identity_token list"
  mfa_credentials :: "mfa_credential list"
  mfa_recovery_codes :: "mfa_recovery_code list"
  currencies :: "string list"
  tenants :: "tenant list"
  memberships :: "membership list"
  invitations :: "invitation list"
  permission_codes :: "string list"
  roles :: "role list"
  role_permissions :: "(uuid \<times> string) list"
  membership_roles :: "(uuid \<times> uuid) list"
  membership_branches :: "(uuid \<times> uuid) list"
  branches :: "tenant_branch list"
  branch_warehouses :: "branch_warehouse list"
  outbox_events :: "outbox_event list"
  perm_cache :: "((uuid \<times> nat) \<times> string set) list"
  challenges :: "(string \<times> uuid) list"

record access_claims =
  ac_user_id :: uuid
  ac_session_id :: uuid
  ac_tenant_id :: "uuid option"
  ac_issued_at :: int
  ac_expires_at :: int

record crypto =
  argon2_hash :: "string \<Rightarrow> string \<Rightarrow> string"
  verify_password :: "string \<Rightarrow> string \<Rightarrow> bool"
  hash_opaque_token :: "string \<Rightarrow> string"
  totp_verify :: "string \<Rightarrow> string \<Rightarrow> datetime \<Rightarrow> bool"
  jwt_encode :: "access_claims \<Rightarrow> string"
  jwt_decode :: "string \<Rightarrow> error + access_claims"

record settings =
  access_token_expire_minutes :: int
  refresh_token_expire_days :: int
  email_verification_expire_hours :: int
  password_reset_expire_hours :: int
  invitation_expire_days :: int
  mfa_recovery_codes_count :: nat
  outbox_batch_size :: nat
  outbox_max_attempts :: nat
  name_collation :: "string \<Rightarrow> nat"

text \<open>The context of a request of these modules also names the tenant and the roles of the caller.\<close>

record RequestContext = TenantContext +
  tenant_id :: uuid
  role_ids :: "uuid set"

section \<open>Constraints\<close>

text \<open>
  Primary keys, unique columns and partial unique indexes, the checks on roles and on the fiscal year, and the foreign keys
  that a delete or a new link can violate. The check on the characters of a slug repeats the pattern of the request schema,
  and the other foreign keys point to rows that are never deleted and were read in the same transaction.
\<close>

definition references :: "'k list \<Rightarrow> 'k set \<Rightarrow> bool" where
  "references ks ids \<longleftrightarrow> list_all (\<lambda>k. k \<in> ids) ks"

definition identity_constraints :: "'a identity_db_scheme \<Rightarrow> (bool \<times> error) list" where
  "identity_constraints s =
     [(unique_on us_id (users s), IntegrityError), (unique_on us_email (users s), IntegrityError),
      (unique_on se_id (auth_sessions s), IntegrityError),
      (unique_on rk_id (refresh_tokens s), IntegrityError), (unique_on rk_token_hash (refresh_tokens s), IntegrityError),
      (unique_on ot_id (email_verification_tokens s), IntegrityError),
      (unique_on ot_token_hash (email_verification_tokens s), IntegrityError),
      (unique_on ot_id (password_reset_tokens s), IntegrityError),
      (unique_on ot_token_hash (password_reset_tokens s), IntegrityError),
      (unique_on mf_user_id (mfa_credentials s), IntegrityError),
      (unique_on rc_id (mfa_recovery_codes s), IntegrityError), (unique_on rc_code_hash (mfa_recovery_codes s), IntegrityError),
      (unique_on tn_id (tenants s), IntegrityError), (unique_on tn_slug (tenants s), IntegrityError),
      (list_all (\<lambda>t. 1 \<le> tn_fiscal_year_start_month t \<and> tn_fiscal_year_start_month t \<le> 12) (tenants s), IntegrityError),
      (unique_on mb_id (memberships s), IntegrityError),
      (unique_on (\<lambda>m. (mb_tenant_id m, mb_user_id m)) (memberships s), IntegrityError),
      (unique_on iv_id (invitations s), IntegrityError), (unique_on iv_token_hash (invitations s), IntegrityError),
      (unique_where (\<lambda>i. (iv_tenant_id i, iv_email i)) (\<lambda>i. iv_accepted_at i = None \<and> iv_status i = IV_PENDING)
         (invitations s), IntegrityError),
      (unique_on ro_id (roles s), IntegrityError),
      (list_all (\<lambda>r. ro_is_system r \<longleftrightarrow> ro_tenant_id r = None) (roles s), IntegrityError),
      (unique_where (\<lambda>r. (ro_tenant_id r, ro_code r)) (\<lambda>r. ro_tenant_id r \<noteq> None) (roles s), IntegrityError),
      (unique_where ro_code (\<lambda>r. ro_tenant_id r = None) (roles s), IntegrityError),
      (distinct (role_permissions s), IntegrityError), (distinct (membership_roles s), IntegrityError),
      (distinct (membership_branches s), IntegrityError),
      (unique_on br_id (branches s), IntegrityError),
      (unique_on (\<lambda>b. (br_tenant_id b, br_code b)) (branches s), IntegrityError),
      (unique_where br_tenant_id br_is_default (branches s), IntegrityError),
      (unique_on bw_id (branch_warehouses s), IntegrityError),
      (unique_on (\<lambda>w. (bw_tenant_id w, bw_code w)) (branch_warehouses s), IntegrityError),
      (unique_on ox_id (outbox_events s), IntegrityError),
      (references (map rk_session_id (refresh_tokens s)) (se_id ` set (auth_sessions s)), IntegrityError),
      (references (map fst (membership_roles s)) (mb_id ` set (memberships s)), IntegrityError),
      (references (map snd (membership_roles s)) (ro_id ` set (roles s)), IntegrityError),
      (references (map iv_role_id (invitations s)) (ro_id ` set (roles s)), IntegrityError)]"

definition identity_chk :: "'a identity_db_scheme \<Rightarrow> error option" where
  "identity_chk s = violated (base_constraints s @ identity_constraints s)"

section \<open>Random values\<close>

text \<open>\<^verbatim>\<open>secrets.token_urlsafe\<close>, \<^verbatim>\<open>secrets.token_hex\<close>, \<^verbatim>\<open>pyotp.random_base32\<close> and the salt of a password hash.\<close>

definition random_string :: "('a identity_db_scheme, string) tx" where
  "random_string = bnd (gets (\<lambda>s. token_gen s (token_count s))) (\<lambda>t.
                   bnd (modify (\<lambda>s. s\<lparr>token_count := Suc (token_count s)\<rparr>)) (\<lambda>_. ret t))"

definition generate_opaque_token :: "('a identity_db_scheme, string) tx" where
  "generate_opaque_token = random_string"

definition hash_password :: "crypto \<Rightarrow> string \<Rightarrow> ('a identity_db_scheme, string) tx" where
  "hash_password crypto password = bnd random_string (\<lambda>salt. ret (argon2_hash crypto salt password))"

text \<open>\<^verbatim>\<open>str.lower\<close> on the ASCII letters.\<close>

definition lower_char :: "char \<Rightarrow> char" where
  "lower_char c = (if 65 \<le> (of_char c :: nat) \<and> (of_char c :: nat) \<le> 90 then char_of ((of_char c :: nat) + 32) else c)"

definition lower :: "string \<Rightarrow> string" where
  "lower = map lower_char"

definition seconds :: "int \<Rightarrow> int" where "seconds n = n * 1000000"
definition hours :: "int \<Rightarrow> int" where "hours n = seconds (n * 3600)"
definition days :: "int \<Rightarrow> int" where "days n = seconds (n * 86400)"

section \<open>Outbox\<close>

definition TOPIC_EMAIL :: string where "TOPIC_EMAIL = ''email.send''"
definition TOPIC_DOCUMENT_INDEX :: string where "TOPIC_DOCUMENT_INDEX = ''documents.index''"
definition TOPIC_DOCUMENT_CLEANUP :: string where "TOPIC_DOCUMENT_CLEANUP = ''documents.cleanup''"

text \<open>A new row is available from the time of the database, a reading of the clock.\<close>

definition enqueue :: "uuid option \<Rightarrow> string \<Rightarrow> (string \<times> string) list \<Rightarrow> ('a identity_db_scheme, outbox_event) tx" where
  "enqueue tenant topic payload =
     bnd uuid7 (\<lambda>i.
     bnd datetime_now (\<lambda>now.
     let event = \<lparr>ox_id = i, ox_tenant_id = tenant, ox_topic = topic, ox_payload = payload, ox_available_at = now,
                  ox_sent_at = None, ox_attempts = 0, ox_last_error = None\<rparr> in
     bnd (modify (\<lambda>s. s\<lparr>outbox_events := outbox_events s @ [event]\<rparr>)) (\<lambda>_.
     ret event)))"

definition enqueue_email :: "string \<Rightarrow> string \<Rightarrow> (string \<times> string) list \<Rightarrow> ('a identity_db_scheme, outbox_event) tx" where
  "enqueue_email recipient template payload =
     enqueue None TOPIC_EMAIL ([(''to'', recipient), (''template'', template)] @ payload)"

definition enqueue_document_index :: "uuid \<Rightarrow> uuid \<Rightarrow> ('a identity_db_scheme, outbox_event) tx" where
  "enqueue_document_index tenant document =
     enqueue (Some tenant) TOPIC_DOCUMENT_INDEX [(''tenant_id'', str_nat tenant), (''document_id'', str_nat document)]"

definition enqueue_document_cleanup :: "uuid \<Rightarrow> uuid \<Rightarrow> string \<Rightarrow> ('a identity_db_scheme, outbox_event) tx" where
  "enqueue_document_cleanup tenant document storage_key =
     enqueue (Some tenant) TOPIC_DOCUMENT_CLEANUP
       [(''tenant_id'', str_nat tenant), (''document_id'', str_nat document), (''storage_key'', storage_key)]"

section \<open>Queries of the authentication repository\<close>

definition get_user_by_email :: "string \<Rightarrow> 'a identity_db_scheme \<Rightarrow> user option" where
  "get_user_by_email email s = find (\<lambda>u. lower (us_email u) = lower email) (users s)"

definition get_user_by_id :: "uuid \<Rightarrow> 'a identity_db_scheme \<Rightarrow> user option" where
  "get_user_by_id i s = find (\<lambda>u. us_id u = i) (users s)"

definition get_session :: "uuid \<Rightarrow> 'a identity_db_scheme \<Rightarrow> auth_session option" where
  "get_session i s = find (\<lambda>e. se_id e = i) (auth_sessions s)"

definition get_refresh_for_update :: "string \<Rightarrow> 'a identity_db_scheme \<Rightarrow> refresh_token option" where
  "get_refresh_for_update h s = find (\<lambda>t. rk_token_hash t = h) (refresh_tokens s)"

definition update_user :: "uuid \<Rightarrow> (user \<Rightarrow> user) \<Rightarrow> ('a identity_db_scheme, unit) tx" where
  "update_user i f = modify (\<lambda>s. s\<lparr>users := upd_where (\<lambda>u. us_id u = i) f (users s)\<rparr>)"

definition update_session :: "uuid \<Rightarrow> (auth_session \<Rightarrow> auth_session) \<Rightarrow> ('a identity_db_scheme, unit) tx" where
  "update_session i f = modify (\<lambda>s. s\<lparr>auth_sessions := upd_where (\<lambda>e. se_id e = i) f (auth_sessions s)\<rparr>)"

definition update_refresh :: "uuid \<Rightarrow> (refresh_token \<Rightarrow> refresh_token) \<Rightarrow> ('a identity_db_scheme, unit) tx" where
  "update_refresh i f = modify (\<lambda>s. s\<lparr>refresh_tokens := upd_where (\<lambda>t. rk_id t = i) f (refresh_tokens s)\<rparr>)"

definition revoke_session :: "uuid \<Rightarrow> string \<Rightarrow> ('a identity_db_scheme, unit) tx" where
  "revoke_session i reason =
     bnd datetime_now (\<lambda>now.
     modify (\<lambda>s. s\<lparr>auth_sessions := upd_where (\<lambda>e. se_id e = i \<and> se_revoked_at e = None)
       (\<lambda>e. e\<lparr>se_revoked_at := Some now, se_revoked_reason := Some reason\<rparr>) (auth_sessions s)\<rparr>))"

definition live_session_of :: "uuid \<Rightarrow> uuid option \<Rightarrow> auth_session \<Rightarrow> bool" where
  "live_session_of user except e \<longleftrightarrow>
     se_user_id e = user \<and> se_revoked_at e = None \<and> (case except of None \<Rightarrow> True | Some i \<Rightarrow> se_id e \<noteq> i)"

definition revoke_all_sessions :: "uuid \<Rightarrow> string \<Rightarrow> uuid option \<Rightarrow> ('a identity_db_scheme, uuid list) tx" where
  "revoke_all_sessions user reason except =
     bnd datetime_now (\<lambda>now.
     bnd (gets (\<lambda>s. map se_id (filter (live_session_of user except) (auth_sessions s)))) (\<lambda>revoked.
     bnd (modify (\<lambda>s. s\<lparr>auth_sessions := upd_where (live_session_of user except)
       (\<lambda>e. e\<lparr>se_revoked_at := Some now, se_revoked_reason := Some reason\<rparr>) (auth_sessions s)\<rparr>)) (\<lambda>_.
     ret revoked)))"

definition role_codes_of :: "uuid \<Rightarrow> 'a identity_db_scheme \<Rightarrow> string list" where
  "role_codes_of membership s =
     concat (map (\<lambda>(m, r). if m = membership then map ro_code (filter (\<lambda>x. ro_id x = r) (roles s)) else [])
       (membership_roles s))"

definition active_memberships ::
  "settings \<Rightarrow> uuid \<Rightarrow> 'a identity_db_scheme \<Rightarrow> (membership \<times> string \<times> string list) list" where
  "active_memberships settings user s =
     sort_key (\<lambda>(_, name, _). name_collation settings name)
       (List.map_filter (\<lambda>m. case find (\<lambda>t. tn_id t = mb_tenant_id m) (tenants s) of
            None \<Rightarrow> None
          | Some t \<Rightarrow> if mb_user_id m = user \<and> mb_status m = MB_ACTIVE
                      then Some (m, tn_name t, role_codes_of (mb_id m) s) else None)
         (memberships s))"

definition get_active_membership :: "uuid \<Rightarrow> uuid \<Rightarrow> 'a identity_db_scheme \<Rightarrow> membership option" where
  "get_active_membership user tenant s =
     find (\<lambda>m. mb_user_id m = user \<and> mb_tenant_id m = tenant \<and> mb_status m = MB_ACTIVE) (memberships s)"

definition consume_verification_token :: "string \<Rightarrow> 'a identity_db_scheme \<Rightarrow> identity_token option" where
  "consume_verification_token h s = find (\<lambda>t. ot_token_hash t = h) (email_verification_tokens s)"

definition consume_reset_token :: "string \<Rightarrow> 'a identity_db_scheme \<Rightarrow> identity_token option" where
  "consume_reset_token h s = find (\<lambda>t. ot_token_hash t = h) (password_reset_tokens s)"

definition invalidate_outstanding_reset_tokens :: "uuid \<Rightarrow> datetime \<Rightarrow> ('a identity_db_scheme, unit) tx" where
  "invalidate_outstanding_reset_tokens user now =
     modify (\<lambda>s. s\<lparr>password_reset_tokens := upd_where (\<lambda>t. ot_user_id t = user \<and> ot_used_at t = None)
       (\<lambda>t. t\<lparr>ot_used_at := Some now\<rparr>) (password_reset_tokens s)\<rparr>)"

end
