(* ===== verification/Auth_Service.thy ===== *)
theory Auth_Service
  imports Identity
begin

text \<open>
  Sign-in and sessions: \<^verbatim>\<open>modules/auth/service.py\<close>, \<^verbatim>\<open>modules/auth/mfa.py\<close>, the handlers of
  \<^verbatim>\<open>modules/auth/mfa_router.py\<close> and the identity check of \<^verbatim>\<open>api/deps.py\<close>. An operation that answers with an error after
  its transaction committed (a failed login, a reused refresh token) returns the error from the transaction and raises
  it afterwards, as in the code. Publishing the user to the row-level security policies changes no row.
\<close>

section \<open>Data\<close>

record RotatedTokens =
  tk_access_token :: string
  tk_refresh_token :: string
  tk_session_id :: uuid
  tk_user_id :: uuid
  tk_tenant_id :: "uuid option"

record RegisterRequest =
  rr_email :: string
  rr_password :: string
  rr_full_name :: string

record LoginRequest =
  lr_email :: string
  lr_password :: string

type_synonym MembershipSummaryRow = "membership \<times> string \<times> string list"

datatype login_result =
    Login user RotatedTokens "MembershipSummaryRow list"
  | MfaChallengeRequired uuid

definition FAILED_ATTEMPTS_BEFORE_BACKOFF :: nat where "FAILED_ATTEMPTS_BEFORE_BACKOFF = 5"
definition LOCKOUT_BASE_SECONDS :: nat where "LOCKOUT_BASE_SECONDS = 30"
definition LOCKOUT_MAX_SECONDS :: nat where "LOCKOUT_MAX_SECONDS = 900"

definition INVALID_CREDENTIALS :: error where "INVALID_CREDENTIALS = AppError ''INVALID_CREDENTIALS'' 401"
definition ACCOUNT_LOCKED :: error where "ACCOUNT_LOCKED = AppError ''ACCOUNT_LOCKED'' 423"
definition TOKEN_INVALID :: error where "TOKEN_INVALID = AppError ''TOKEN_INVALID'' 401"
definition SESSION_REVOKED :: error where "SESSION_REVOKED = AppError ''SESSION_REVOKED'' 401"
definition REFRESH_REUSE_DETECTED :: error where "REFRESH_REUSE_DETECTED = AppError ''REFRESH_REUSE_DETECTED'' 401"
definition MFA_CODE_INVALID :: error where "MFA_CODE_INVALID = AppError ''MFA_CODE_INVALID'' 401"

section \<open>Tokens and sessions\<close>

definition create_access_token ::
  "crypto \<Rightarrow> settings \<Rightarrow> uuid \<Rightarrow> uuid \<Rightarrow> uuid option \<Rightarrow> ('a identity_db_scheme, string) tx" where
  "create_access_token crypto settings user session tenant =
     bnd datetime_now (\<lambda>now.
     let expires = now + seconds (access_token_expire_minutes settings * 60) in
     ret (jwt_encode crypto \<lparr>ac_user_id = user, ac_session_id = session, ac_tenant_id = tenant,
            ac_issued_at = now div 1000000, ac_expires_at = expires div 1000000\<rparr>))"

definition add_refresh_token ::
  "crypto \<Rightarrow> settings \<Rightarrow> uuid \<Rightarrow> string \<Rightarrow> datetime \<Rightarrow> ('a identity_db_scheme, uuid) tx" where
  "add_refresh_token crypto settings session raw now =
     bnd uuid7 (\<lambda>i.
     bnd (modify (\<lambda>s. s\<lparr>refresh_tokens := refresh_tokens s @
       [\<lparr>rk_id = i, rk_session_id = session, rk_token_hash = hash_opaque_token crypto raw,
         rk_expires_at = now + days (refresh_token_expire_days settings), rk_used_at = None, rk_replaced_by_id = None\<rparr>]\<rparr>)) (\<lambda>_.
     ret i))"

definition auth_open_session ::
  "crypto \<Rightarrow> settings \<Rightarrow> uuid \<Rightarrow> uuid option \<Rightarrow> datetime \<Rightarrow> ('a identity_db_scheme, RotatedTokens) tx" where
  "auth_open_session crypto settings user tenant now =
     bnd uuid7 (\<lambda>i.
     bnd (modify (\<lambda>s. s\<lparr>auth_sessions := auth_sessions s @
       [\<lparr>se_id = i, se_user_id = user, se_created_at = now, se_last_used_at = now, se_revoked_at = None,
         se_revoked_reason = None\<rparr>]\<rparr>)) (\<lambda>_.
     bnd generate_opaque_token (\<lambda>raw.
     bnd (add_refresh_token crypto settings i raw now) (\<lambda>_.
     bnd (create_access_token crypto settings user i tenant) (\<lambda>access.
     ret \<lparr>tk_access_token = access, tk_refresh_token = raw, tk_session_id = i, tk_user_id = user, tk_tenant_id = tenant\<rparr>)))))"

section \<open>Registration and login\<close>

definition new_user :: "crypto \<Rightarrow> string \<Rightarrow> string \<Rightarrow> string \<Rightarrow> ('a identity_db_scheme, user) tx" where
  "new_user crypto email password full_name =
     bnd uuid7 (\<lambda>i.
     bnd (hash_password crypto password) (\<lambda>hash.
     let user = \<lparr>us_id = i, us_email = email, us_password_hash = hash, us_full_name = full_name, us_is_active = True,
                 us_email_verified_at = None, us_last_login_at = None, us_failed_login_count = 0, us_locked_until = None\<rparr> in
     bnd (modify (\<lambda>s. s\<lparr>users := users s @ [user]\<rparr>)) (\<lambda>_.
     bnd (flush identity_chk) (\<lambda>_.
     ret user))))"

definition register_user :: "crypto \<Rightarrow> RegisterRequest \<Rightarrow> ('a identity_db_scheme, user) tx" where
  "register_user crypto payload =
     (let email = lower (rr_email payload) in
      service_transaction identity_chk
        (bnd (gets (get_user_by_email email)) (\<lambda>existing.
         case existing of
           Some user \<Rightarrow> ret user
         | None \<Rightarrow> new_user crypto email (rr_password payload) (rr_full_name payload))))"

text \<open>\<open>_apply_backoff\<close>: the time until which a user with this many failures is locked, if at all.\<close>

definition apply_backoff :: "nat \<Rightarrow> datetime \<Rightarrow> datetime option" where
  "apply_backoff failed_login_count now =
     (if failed_login_count < FAILED_ATTEMPTS_BEFORE_BACKOFF then None
      else let excess = failed_login_count - FAILED_ATTEMPTS_BEFORE_BACKOFF in
           Some (now + seconds (int (min (LOCKOUT_BASE_SECONDS * 2 ^ excess) LOCKOUT_MAX_SECONDS))))"

definition mfa_credential_of :: "uuid \<Rightarrow> 'a identity_db_scheme \<Rightarrow> mfa_credential option" where
  "mfa_credential_of user s = find (\<lambda>c. mf_user_id c = user) (mfa_credentials s)"

definition is_enabled :: "uuid \<Rightarrow> 'a identity_db_scheme \<Rightarrow> bool" where
  "is_enabled user s = (case mfa_credential_of user s of None \<Rightarrow> False | Some c \<Rightarrow> mf_enabled_at c \<noteq> None)"

definition sign_in :: "crypto \<Rightarrow> settings \<Rightarrow> user \<Rightarrow> datetime \<Rightarrow> ('a identity_db_scheme, login_result) tx" where
  "sign_in crypto settings user now =
     bnd (gets (active_memberships settings (us_id user))) (\<lambda>memberships.
     let active_tenant = (if length memberships = 1 then Some (mb_tenant_id (fst (memberships ! 0))) else None) in
     bnd (auth_open_session crypto settings (us_id user) active_tenant now) (\<lambda>tokens.
     ret (Login user tokens memberships)))"

definition fail_login :: "user \<Rightarrow> datetime \<Rightarrow> ('a identity_db_scheme, error) tx" where
  "fail_login user now =
     (let failures = Suc (us_failed_login_count user) in
      case apply_backoff failures now of
        None \<Rightarrow> bnd (update_user (us_id user) (\<lambda>u. u\<lparr>us_failed_login_count := failures\<rparr>)) (\<lambda>_. ret INVALID_CREDENTIALS)
      | Some until \<Rightarrow>
          bnd (update_user (us_id user) (\<lambda>u. u\<lparr>us_failed_login_count := failures, us_locked_until := Some until\<rparr>)) (\<lambda>_.
          ret ACCOUNT_LOCKED))"

definition login_attempt ::
  "crypto \<Rightarrow> settings \<Rightarrow> LoginRequest \<Rightarrow> datetime \<Rightarrow> ('a identity_db_scheme, error + login_result) tx" where
  "login_attempt crypto settings payload now =
     bnd (gets (get_user_by_email (lower (lr_email payload)))) (\<lambda>row.
     case row of
       None \<Rightarrow> ret (Inl INVALID_CREDENTIALS)
     | Some user \<Rightarrow>
         if (case us_locked_until user of None \<Rightarrow> False | Some until \<Rightarrow> until > now) then ret (Inl ACCOUNT_LOCKED)
         else if \<not> verify_password crypto (us_password_hash user) (lr_password payload)
           then bnd (fail_login user now) (\<lambda>e. ret (Inl e))
         else if \<not> us_is_active user then ret (Inl INVALID_CREDENTIALS)
         else bnd (gets (is_enabled (us_id user))) (\<lambda>mfa.
           if mfa then
             bnd (update_user (us_id user) (\<lambda>u. u\<lparr>us_failed_login_count := 0, us_locked_until := None\<rparr>)) (\<lambda>_.
             ret (Inr (MfaChallengeRequired (us_id user))))
           else
             let signed_in = (\<lambda>u. u\<lparr>us_failed_login_count := 0, us_locked_until := None, us_last_login_at := Some now\<rparr>) in
             bnd (update_user (us_id user) signed_in) (\<lambda>_.
             bnd (sign_in crypto settings (signed_in user) now) (\<lambda>result.
             ret (Inr result)))))"

definition login :: "crypto \<Rightarrow> settings \<Rightarrow> LoginRequest \<Rightarrow> ('a identity_db_scheme, login_result) tx" where
  "login crypto settings payload =
     bnd datetime_now (\<lambda>now.
     bnd (service_transaction identity_chk (login_attempt crypto settings payload now)) (\<lambda>outcome.
     lift_res outcome))"

definition complete_mfa_login :: "crypto \<Rightarrow> settings \<Rightarrow> uuid \<Rightarrow> ('a identity_db_scheme, login_result) tx" where
  "complete_mfa_login crypto settings uid =
     bnd datetime_now (\<lambda>now.
     service_transaction identity_chk
       (bnd (gets (get_user_by_id uid)) (\<lambda>row.
        bnd (some_or INVALID_CREDENTIALS row) (\<lambda>user.
        bnd (require (us_is_active user) INVALID_CREDENTIALS) (\<lambda>_.
        bnd (update_user (us_id user) (\<lambda>u. u\<lparr>us_last_login_at := Some now\<rparr>)) (\<lambda>_.
        sign_in crypto settings (user\<lparr>us_last_login_at := Some now\<rparr>) now))))))"

definition logout :: "uuid \<Rightarrow> ('a identity_db_scheme, unit) tx" where
  "logout session = service_transaction identity_chk (revoke_session session ''logout'')"

definition logout_all :: "uuid \<Rightarrow> ('a identity_db_scheme, uuid list) tx" where
  "logout_all user = service_transaction identity_chk (revoke_all_sessions user ''logout_all'' None)"

definition switch_tenant ::
  "crypto \<Rightarrow> settings \<Rightarrow> uuid \<Rightarrow> uuid \<Rightarrow> uuid \<Rightarrow> ('a identity_db_scheme, string) tx" where
  "switch_tenant crypto settings user session tenant =
     bnd (service_transaction identity_chk
       (bnd (gets (get_active_membership user tenant)) (\<lambda>membership.
        bnd (some_or (PermissionDeniedError ''NO_ACTIVE_TENANT'') membership) (\<lambda>_.
        bnd (gets (get_session session)) (\<lambda>row.
        bnd (some_or SESSION_REVOKED row) (\<lambda>auth_session.
        require (se_revoked_at auth_session = None) SESSION_REVOKED)))))) (\<lambda>_.
     create_access_token crypto settings user session (Some tenant))"

definition current_user ::
  "settings \<Rightarrow> uuid \<Rightarrow> ('a identity_db_scheme, user \<times> MembershipSummaryRow list) tx" where
  "current_user settings uid =
     service_transaction identity_chk
       (bnd (gets (get_user_by_id uid)) (\<lambda>row.
        bnd (some_or TOKEN_INVALID row) (\<lambda>user.
        bnd (gets (active_memberships settings uid)) (\<lambda>memberships.
        ret (user, memberships)))))"

section \<open>Refresh tokens\<close>

definition rotate_attempt ::
  "crypto \<Rightarrow> settings \<Rightarrow> string \<Rightarrow> uuid option \<Rightarrow> datetime \<Rightarrow> ('a identity_db_scheme, error + RotatedTokens) tx" where
  "rotate_attempt crypto settings raw_token tenant now =
     bnd (gets (get_refresh_for_update (hash_opaque_token crypto raw_token))) (\<lambda>row.
     bnd (some_or TOKEN_INVALID row) (\<lambda>current.
     bnd (require (\<not> rk_expires_at current \<le> now) TOKEN_INVALID) (\<lambda>_.
     bnd (gets (get_session (rk_session_id current))) (\<lambda>found.
     bnd (some_or SESSION_REVOKED found) (\<lambda>session.
     bnd (require (se_revoked_at session = None) SESSION_REVOKED) (\<lambda>_.
     if rk_used_at current \<noteq> None then
       bnd (revoke_session (se_id session) ''refresh_reuse_detected'') (\<lambda>_. ret (Inl REFRESH_REUSE_DETECTED))
     else
       bnd generate_opaque_token (\<lambda>raw.
       bnd (add_refresh_token crypto settings (se_id session) raw now) (\<lambda>replacement.
       bnd (flush identity_chk) (\<lambda>_.
       bnd (update_refresh (rk_id current) (\<lambda>t. t\<lparr>rk_used_at := Some now, rk_replaced_by_id := Some replacement\<rparr>)) (\<lambda>_.
       bnd (update_session (se_id session) (\<lambda>e. e\<lparr>se_last_used_at := now\<rparr>)) (\<lambda>_.
       bnd (create_access_token crypto settings (se_user_id session) (se_id session) tenant) (\<lambda>access.
       ret (Inr \<lparr>tk_access_token = access, tk_refresh_token = raw, tk_session_id = se_id session,
                tk_user_id = se_user_id session, tk_tenant_id = tenant\<rparr>)))))))))))))"

definition rotate_refresh_token ::
  "crypto \<Rightarrow> settings \<Rightarrow> string \<Rightarrow> uuid option \<Rightarrow> ('a identity_db_scheme, RotatedTokens) tx" where
  "rotate_refresh_token crypto settings raw_token tenant =
     bnd datetime_now (\<lambda>now.
     bnd (service_transaction identity_chk (rotate_attempt crypto settings raw_token tenant now)) (\<lambda>outcome.
     lift_res outcome))"

section \<open>One-time links\<close>

definition new_identity_token :: "crypto \<Rightarrow> uuid \<Rightarrow> string \<Rightarrow> datetime \<Rightarrow> ('a identity_db_scheme, identity_token) tx" where
  "new_identity_token crypto user raw expires =
     bnd uuid7 (\<lambda>i.
     ret \<lparr>ot_id = i, ot_user_id = user, ot_token_hash = hash_opaque_token crypto raw, ot_expires_at = expires, ot_used_at = None\<rparr>)"

definition issue_verification_token ::
  "crypto \<Rightarrow> settings \<Rightarrow> string \<Rightarrow> ('a identity_db_scheme, (user \<times> string) option) tx" where
  "issue_verification_token crypto settings email =
     bnd datetime_now (\<lambda>now.
     service_transaction identity_chk
       (bnd (gets (get_user_by_email (lower email))) (\<lambda>row.
        case row of
          None \<Rightarrow> ret None
        | Some user \<Rightarrow>
            if us_email_verified_at user \<noteq> None then ret None
            else
              bnd generate_opaque_token (\<lambda>raw.
              bnd (new_identity_token crypto (us_id user) raw (now + hours (email_verification_expire_hours settings))) (\<lambda>token.
              bnd (modify (\<lambda>s. s\<lparr>email_verification_tokens := email_verification_tokens s @ [token]\<rparr>)) (\<lambda>_.
              bnd (enqueue_email (us_email user) ''email_verification'' [(''token'', raw)]) (\<lambda>_.
              ret (Some (user, raw)))))))))"

definition LINK_INVALID :: error where "LINK_INVALID = DomainValidationError ''TOKEN_INVALID''"

definition usable_token :: "identity_token \<Rightarrow> datetime \<Rightarrow> bool" where
  "usable_token token now \<longleftrightarrow> ot_used_at token = None \<and> \<not> ot_expires_at token \<le> now"

definition verify_email :: "crypto \<Rightarrow> string \<Rightarrow> ('a identity_db_scheme, user) tx" where
  "verify_email crypto raw_token =
     bnd datetime_now (\<lambda>now.
     service_transaction identity_chk
       (bnd (gets (consume_verification_token (hash_opaque_token crypto raw_token))) (\<lambda>row.
        bnd (some_or LINK_INVALID row) (\<lambda>token.
        bnd (require (usable_token token now) LINK_INVALID) (\<lambda>_.
        bnd (modify (\<lambda>s. s\<lparr>email_verification_tokens := upd_where (\<lambda>t. ot_id t = ot_id token)
               (\<lambda>t. t\<lparr>ot_used_at := Some now\<rparr>) (email_verification_tokens s)\<rparr>)) (\<lambda>_.
        bnd (gets (get_user_by_id (ot_user_id token))) (\<lambda>found.
        bnd (some_or LINK_INVALID found) (\<lambda>user.
        if us_email_verified_at user = None then
          bnd (update_user (us_id user) (\<lambda>u. u\<lparr>us_email_verified_at := Some now\<rparr>)) (\<lambda>_.
          ret (user\<lparr>us_email_verified_at := Some now\<rparr>))
        else ret user))))))))"

definition issue_password_reset ::
  "crypto \<Rightarrow> settings \<Rightarrow> string \<Rightarrow> ('a identity_db_scheme, (user \<times> string) option) tx" where
  "issue_password_reset crypto settings email =
     bnd datetime_now (\<lambda>now.
     service_transaction identity_chk
       (bnd (gets (get_user_by_email (lower email))) (\<lambda>row.
        case row of
          None \<Rightarrow> ret None
        | Some user \<Rightarrow>
            bnd (invalidate_outstanding_reset_tokens (us_id user) now) (\<lambda>_.
            bnd generate_opaque_token (\<lambda>raw.
            bnd (new_identity_token crypto (us_id user) raw (now + hours (password_reset_expire_hours settings))) (\<lambda>token.
            bnd (modify (\<lambda>s. s\<lparr>password_reset_tokens := password_reset_tokens s @ [token]\<rparr>)) (\<lambda>_.
            bnd (enqueue_email (us_email user) ''password_reset'' [(''token'', raw)]) (\<lambda>_.
            ret (Some (user, raw))))))))))"

definition reset_password :: "crypto \<Rightarrow> string \<Rightarrow> string \<Rightarrow> ('a identity_db_scheme, uuid list) tx" where
  "reset_password crypto raw_token new_password =
     bnd datetime_now (\<lambda>now.
     service_transaction identity_chk
       (bnd (gets (consume_reset_token (hash_opaque_token crypto raw_token))) (\<lambda>row.
        bnd (some_or LINK_INVALID row) (\<lambda>token.
        bnd (require (usable_token token now) LINK_INVALID) (\<lambda>_.
        bnd (gets (get_user_by_id (ot_user_id token))) (\<lambda>found.
        bnd (some_or LINK_INVALID found) (\<lambda>user.
        bnd (modify (\<lambda>s. s\<lparr>password_reset_tokens := upd_where (\<lambda>t. ot_id t = ot_id token)
               (\<lambda>t. t\<lparr>ot_used_at := Some now\<rparr>) (password_reset_tokens s)\<rparr>)) (\<lambda>_.
        bnd (hash_password crypto new_password) (\<lambda>hash.
        bnd (update_user (us_id user) (\<lambda>u. u\<lparr>us_password_hash := hash, us_failed_login_count := 0, us_locked_until := None\<rparr>)) (\<lambda>_.
        revoke_all_sessions (us_id user) ''password_reset'' None))))))))))"

definition change_password ::
  "crypto \<Rightarrow> uuid \<Rightarrow> string \<Rightarrow> string \<Rightarrow> uuid \<Rightarrow> ('a identity_db_scheme, uuid list) tx" where
  "change_password crypto uid current_password new_password keep_session =
     bnd (service_transaction identity_chk
       (bnd (gets (get_user_by_id uid)) (\<lambda>row.
        case row of
          None \<Rightarrow> ret (Inl TOKEN_INVALID)
        | Some user \<Rightarrow>
            if \<not> verify_password crypto (us_password_hash user) current_password then ret (Inl INVALID_CREDENTIALS)
            else
              bnd (hash_password crypto new_password) (\<lambda>hash.
              bnd (update_user (us_id user) (\<lambda>u. u\<lparr>us_password_hash := hash\<rparr>)) (\<lambda>_.
              bnd (revoke_all_sessions (us_id user) ''password_changed'' (Some keep_session)) (\<lambda>revoked.
              ret (Inr revoked))))))) (\<lambda>outcome.
     lift_res outcome)"

section \<open>Second factor\<close>

definition MFA_ALREADY_ENABLED :: error where "MFA_ALREADY_ENABLED = AppError ''MFA_ALREADY_ENABLED'' 409"
definition MFA_SETUP_REQUIRED :: error where "MFA_SETUP_REQUIRED = AppError ''MFA_SETUP_REQUIRED'' 409"
definition MFA_NOT_ENABLED :: error where "MFA_NOT_ENABLED = AppError ''MFA_NOT_ENABLED'' 409"

definition mfa_setup :: "uuid \<Rightarrow> ('a identity_db_scheme, string) tx" where
  "mfa_setup user =
     service_transaction identity_chk
       (bnd (gets (mfa_credential_of user)) (\<lambda>existing.
        bnd (require (\<not> (case existing of None \<Rightarrow> False | Some c \<Rightarrow> mf_enabled_at c \<noteq> None)) MFA_ALREADY_ENABLED) (\<lambda>_.
        bnd random_string (\<lambda>secret.
        bnd (case existing of
               None \<Rightarrow> bnd uuid7 (\<lambda>i. modify (\<lambda>s. s\<lparr>mfa_credentials := mfa_credentials s @
                 [\<lparr>mf_id = i, mf_user_id = user, mf_secret = secret, mf_enabled_at = None\<rparr>]\<rparr>))
             | Some c \<Rightarrow> modify (\<lambda>s. s\<lparr>mfa_credentials := upd_where (\<lambda>x. mf_user_id x = user)
                 (\<lambda>x. x\<lparr>mf_secret := secret\<rparr>) (mfa_credentials s)\<rparr>)) (\<lambda>_.
        bnd (flush identity_chk) (\<lambda>_.
        ret secret))))))"

definition add_recovery_code :: "crypto \<Rightarrow> uuid \<Rightarrow> string \<Rightarrow> ('a identity_db_scheme, unit) tx" where
  "add_recovery_code crypto user code =
     bnd uuid7 (\<lambda>i. modify (\<lambda>s. s\<lparr>mfa_recovery_codes := mfa_recovery_codes s @
       [\<lparr>rc_id = i, rc_user_id = user, rc_code_hash = hash_opaque_token crypto code, rc_used_at = None\<rparr>]\<rparr>))"

definition replace_recovery_codes :: "crypto \<Rightarrow> settings \<Rightarrow> uuid \<Rightarrow> ('a identity_db_scheme, string list) tx" where
  "replace_recovery_codes crypto settings user =
     bnd (modify (\<lambda>s. s\<lparr>mfa_recovery_codes := filter (\<lambda>c. rc_user_id c \<noteq> user) (mfa_recovery_codes s)\<rparr>)) (\<lambda>_.
     bnd (for_each (\<lambda>_. random_string) [0..<mfa_recovery_codes_count settings]) (\<lambda>codes.
     bnd (for_each (add_recovery_code crypto user) codes) (\<lambda>_.
     bnd (flush identity_chk) (\<lambda>_.
     ret codes))))"

definition mfa_enable :: "crypto \<Rightarrow> settings \<Rightarrow> uuid \<Rightarrow> string \<Rightarrow> ('a identity_db_scheme, string list) tx" where
  "mfa_enable crypto settings user code =
     service_transaction identity_chk
       (bnd (gets (mfa_credential_of user)) (\<lambda>row.
        bnd (some_or MFA_SETUP_REQUIRED row) (\<lambda>credential.
        bnd (require (mf_enabled_at credential = None) MFA_ALREADY_ENABLED) (\<lambda>_.
        bnd datetime_now (\<lambda>checked.
        bnd (require (totp_verify crypto (mf_secret credential) code checked) MFA_CODE_INVALID) (\<lambda>_.
        bnd datetime_now (\<lambda>now.
        bnd (modify (\<lambda>s. s\<lparr>mfa_credentials := upd_where (\<lambda>x. mf_user_id x = user)
               (\<lambda>x. x\<lparr>mf_enabled_at := Some now\<rparr>) (mfa_credentials s)\<rparr>)) (\<lambda>_.
        replace_recovery_codes crypto settings user))))))))"

definition mfa_disable :: "uuid \<Rightarrow> ('a identity_db_scheme, unit) tx" where
  "mfa_disable user =
     service_transaction identity_chk
       (bnd (gets (is_enabled user)) (\<lambda>enabled.
        bnd (require enabled MFA_NOT_ENABLED) (\<lambda>_.
        modify (\<lambda>s. s\<lparr>mfa_credentials := filter (\<lambda>c. mf_user_id c \<noteq> user) (mfa_credentials s),
                     mfa_recovery_codes := filter (\<lambda>c. rc_user_id c \<noteq> user) (mfa_recovery_codes s)\<rparr>))))"

text \<open>\<^verbatim>\<open>code.strip().lower()\<close>\<close>

definition is_space :: "char \<Rightarrow> bool" where
  "is_space c \<longleftrightarrow> (of_char c :: nat) \<in> {9, 10, 11, 12, 13, 28, 29, 30, 31, 32, 133, 160}"

definition strip :: "string \<Rightarrow> string" where
  "strip t = rev (dropWhile is_space (rev (dropWhile is_space t)))"

definition usable_code :: "crypto \<Rightarrow> uuid \<Rightarrow> string \<Rightarrow> mfa_recovery_code \<Rightarrow> bool" where
  "usable_code crypto user code c \<longleftrightarrow>
     rc_user_id c = user \<and> rc_code_hash c = hash_opaque_token crypto (lower (strip code)) \<and> rc_used_at c = None"

definition consume_recovery_code :: "crypto \<Rightarrow> uuid \<Rightarrow> string \<Rightarrow> ('a identity_db_scheme, bool) tx" where
  "consume_recovery_code crypto user code =
     service_transaction identity_chk
       (bnd (gets (\<lambda>s. find (usable_code crypto user code) (mfa_recovery_codes s))) (\<lambda>row.
        case row of
          None \<Rightarrow> ret False
        | Some c \<Rightarrow>
            bnd datetime_now (\<lambda>now.
            bnd (modify (\<lambda>s. s\<lparr>mfa_recovery_codes := upd_where (\<lambda>x. rc_id x = rc_id c)
                   (\<lambda>x. x\<lparr>rc_used_at := Some now\<rparr>) (mfa_recovery_codes s)\<rparr>)) (\<lambda>_.
            ret True))))"

definition verify_code :: "crypto \<Rightarrow> uuid \<Rightarrow> string \<Rightarrow> ('a identity_db_scheme, bool) tx" where
  "verify_code crypto user code =
     bnd (gets (mfa_credential_of user)) (\<lambda>row.
     case row of
       None \<Rightarrow> ret False
     | Some credential \<Rightarrow>
         if mf_enabled_at credential = None then ret False
         else
           bnd datetime_now (\<lambda>checked.
           if totp_verify crypto (mf_secret credential) code checked then ret True
           else consume_recovery_code crypto user code))"

text \<open>
  The challenge store keeps a key in Redis for a limited time; \<open>alive\<close> says which keys Redis has not expired. The rate
  limits in front of the handlers and the security events they record in a transaction of their own are not part of them.
\<close>

definition challenge_create :: "uuid \<Rightarrow> ('a identity_db_scheme, string) tx" where
  "challenge_create user =
     bnd generate_opaque_token (\<lambda>token.
     bnd (modify (\<lambda>s. s\<lparr>challenges := (token, user) # challenges s\<rparr>)) (\<lambda>_.
     ret token))"

definition challenge_resolve :: "(string \<Rightarrow> bool) \<Rightarrow> string \<Rightarrow> 'a identity_db_scheme \<Rightarrow> uuid option" where
  "challenge_resolve alive token s = (if alive token then map_of (challenges s) token else None)"

definition challenge_consume :: "string \<Rightarrow> ('a identity_db_scheme, unit) tx" where
  "challenge_consume token = modify (\<lambda>s. s\<lparr>challenges := filter (\<lambda>c. fst c \<noteq> token) (challenges s)\<rparr>)"

definition mfa_challenge ::
  "crypto \<Rightarrow> settings \<Rightarrow> (string \<Rightarrow> bool) \<Rightarrow> string \<Rightarrow> string \<Rightarrow> ('a identity_db_scheme, login_result) tx" where
  "mfa_challenge crypto settings alive challenge_token code =
     bnd (gets (challenge_resolve alive challenge_token)) (\<lambda>resolved.
     bnd (some_or (AppError ''MFA_CHALLENGE_INVALID'' 401) resolved) (\<lambda>user.
     bnd (verify_code crypto user code) (\<lambda>ok.
     bnd (require ok MFA_CODE_INVALID) (\<lambda>_.
     bnd (challenge_consume challenge_token) (\<lambda>_.
     complete_mfa_login crypto settings user)))))"

definition mfa_disable_request :: "crypto \<Rightarrow> settings \<Rightarrow> uuid \<Rightarrow> string \<Rightarrow> string \<Rightarrow> ('a identity_db_scheme, unit) tx" where
  "mfa_disable_request crypto settings uid password code =
     bnd (current_user settings uid) (\<lambda>(user, _).
     bnd (require (verify_password crypto (us_password_hash user) password) INVALID_CREDENTIALS) (\<lambda>_.
     bnd (verify_code crypto uid code) (\<lambda>ok.
     bnd (require ok MFA_CODE_INVALID) (\<lambda>_.
     mfa_disable uid))))"

section \<open>The identity of a request\<close>

text \<open>
  \<open>jwt_decode\<close> answers with the error of the exception it raises; \<open>denylisted\<close> is the answer of Redis for the key of the
  session.
\<close>

definition get_current_identity ::
  "crypto \<Rightarrow> (uuid \<Rightarrow> bool) \<Rightarrow> string option \<Rightarrow> ('a identity_db_scheme, access_claims) tx" where
  "get_current_identity crypto denylisted credentials =
     bnd (some_or TOKEN_INVALID credentials) (\<lambda>token.
     bnd (lift_res (jwt_decode crypto token)) (\<lambda>claims.
     bnd (require (\<not> denylisted (ac_session_id claims)) SESSION_REVOKED) (\<lambda>_.
     bnd (gets (get_session (ac_session_id claims))) (\<lambda>row.
     bnd (some_or SESSION_REVOKED row) (\<lambda>auth_session.
     bnd (require (se_revoked_at auth_session = None) SESSION_REVOKED) (\<lambda>_.
     ret claims))))))"

end
