(* ===== verification/Updates.thy ===== *)
theory Updates
  imports Prelude
begin

text \<open>
  Partial updates. A field of an update payload is unset (\<open>None\<close>), set to null (\<open>Some None\<close>) or set to a value: the
  meaning of \<^verbatim>\<open>payload.model_dump(exclude_unset=True)\<close>. Assigning null to a column that does not allow it is refused by
  the database when the row is flushed.
\<close>

definition set_field :: "'v option option \<Rightarrow> ('v \<Rightarrow> 'r \<Rightarrow> 'r) \<Rightarrow> 'r \<Rightarrow> 'r" where
  "set_field change f r = (case change of Some (Some v) \<Rightarrow> f v r | _ \<Rightarrow> r)"

definition set_nullable :: "'v option option \<Rightarrow> ('v option \<Rightarrow> 'r \<Rightarrow> 'r) \<Rightarrow> 'r \<Rightarrow> 'r" where
  "set_nullable change f r = (case change of Some v \<Rightarrow> f v r | None \<Rightarrow> r)"

text \<open>A field that such an assignment leaves alone.\<close>

lemma set_field_other [simp]: "(\<And>v x. k (f v x) = k x) \<Longrightarrow> k (set_field change f r) = k r"
  by (auto simp: set_field_def split: option.splits)

lemma set_nullable_other [simp]: "(\<And>v x. k (f v x) = k x) \<Longrightarrow> k (set_nullable change f r) = k r"
  by (auto simp: set_nullable_def split: option.splits)

end
