(* ===== verification/Access_Service.thy ===== *)
theory Access_Service
  imports Auth_Service Updates "HOL-Library.List_Lexorder"
begin

text \<open>
  Organisations and who may do what in them: \<^verbatim>\<open>modules/tenancy/service.py\<close>, \<^verbatim>\<open>modules/rbac\<close>, \<^verbatim>\<open>modules/members\<close>,
  \<^verbatim>\<open>modules/invitations\<close> and the permission checks of \<^verbatim>\<open>api/deps.py\<close>. The tenant filter of \<^verbatim>\<open>db/tenant_guard.py\<close> is
  written out in the queries on tenant-scoped tables. A set in a payload is a list; \<^verbatim>\<open>sorted(set)\<close> is \<open>sorted_items\<close>.
\<close>

definition sorted_items :: "'a :: linorder list \<Rightarrow> 'a list" where
  "sorted_items xs = sort (remdups xs)"

definition OWNER :: string where "OWNER = ''OWNER''"

definition audit_in :: "'a RequestContext_scheme \<Rightarrow> string \<Rightarrow> string \<Rightarrow> uuid \<Rightarrow> (string \<times> meta) list \<Rightarrow> ('b base_db_scheme, unit) tx" where
  "audit_in context action resource_type resource_id metadata =
     audit_record (TenantContext.truncate context) action resource_type (Some resource_id) metadata"

section \<open>Organisations\<close>

record TenantCreate =
  tc_name :: string
  tc_slug :: string
  tc_legal_name :: "string option"
  tc_base_currency :: string
  tc_timezone :: string
  tc_country_code :: "string option"
  tc_branch_code :: string
  tc_branch_name :: string
  tc_warehouse_code :: string
  tc_warehouse_name :: string

definition get_system_owner_role :: "'a identity_db_scheme \<Rightarrow> role option" where
  "get_system_owner_role s = find (\<lambda>r. ro_code r = OWNER \<and> ro_is_system r) (roles s)"

definition get_tenant :: "uuid \<Rightarrow> 'a identity_db_scheme \<Rightarrow> tenant option" where
  "get_tenant i s = find (\<lambda>t. tn_id t = i) (tenants s)"

definition add_membership :: "membership \<Rightarrow> ('a identity_db_scheme, unit) tx" where
  "add_membership m = bnd (modify (\<lambda>s. s\<lparr>memberships := memberships s @ [m]\<rparr>)) (\<lambda>_. flush identity_chk)"

definition assign_role :: "uuid \<Rightarrow> uuid \<Rightarrow> ('a identity_db_scheme, unit) tx" where
  "assign_role membership role = modify (\<lambda>s. s\<lparr>membership_roles := membership_roles s @ [(membership, role)]\<rparr>)"

definition create_organization ::
  "uuid \<Rightarrow> TenantCreate \<Rightarrow> ('a identity_db_scheme, uuid \<times> uuid \<times> uuid \<times> uuid) tx" where
  "create_organization user payload =
     bnd uuid7 (\<lambda>tenant.
     bnd uuid7 (\<lambda>membership.
     bnd datetime_now (\<lambda>now.
     let context = \<lparr>membership_id = membership, user_id = user, permissions = {}, branch_ids = None,
                    tenant_id = tenant, role_ids = {}\<rparr> in
     on_integrity_error (ConflictError ''DUPLICATE_RESOURCE'')
       (service_transaction identity_chk
         (bnd (gets (\<lambda>s. tc_base_currency payload \<in> set (currencies s))) (\<lambda>supported.
          bnd (require supported (AppError ''VALIDATION_ERROR'' 422)) (\<lambda>_.
          bnd (gets get_system_owner_role) (\<lambda>row.
          bnd (some_or (RuntimeError ''OWNER system role seed is missing'') row) (\<lambda>owner_role.
          bnd (modify (\<lambda>s. s\<lparr>tenants := tenants s @
            [\<lparr>tn_id = tenant, tn_name = tc_name payload, tn_slug = tc_slug payload, tn_legal_name = tc_legal_name payload,
              tn_tax_identifier = None, tn_base_currency = tc_base_currency payload, tn_timezone = tc_timezone payload,
              tn_country_code = tc_country_code payload, tn_status = TENANT_ACTIVE,
              tn_allow_negative_inventory = False, tn_fiscal_year_start_month = 1\<rparr>]\<rparr>)) (\<lambda>_.
          bnd (flush identity_chk) (\<lambda>_.
          bnd (add_membership \<lparr>mb_id = membership, mb_tenant_id = tenant, mb_user_id = user, mb_status = MB_ACTIVE,
                 mb_roles_version = 0, mb_invited_by_user_id = None, mb_joined_at = Some now\<rparr>) (\<lambda>_.
          bnd uuid7 (\<lambda>branch.
          bnd uuid7 (\<lambda>warehouse.
          bnd (modify (\<lambda>s. s\<lparr>
                 branches := branches s @ [\<lparr>br_id = branch, br_tenant_id = tenant, br_code = tc_branch_code payload,
                   br_name = tc_branch_name payload, br_is_active = True, br_is_default = True\<rparr>],
                 branch_warehouses := branch_warehouses s @ [\<lparr>bw_id = warehouse, bw_tenant_id = tenant,
                   bw_branch_id = Some branch, bw_code = tc_warehouse_code payload, bw_name = tc_warehouse_name payload,
                   bw_is_active = True\<rparr>]\<rparr>)) (\<lambda>_.
          bnd (assign_role membership (ro_id owner_role)) (\<lambda>_.
          bnd (flush identity_chk) (\<lambda>_.
          bnd (audit_in context ''tenant.created'' ''tenant'' tenant [(''slug'', MStr (tc_slug payload))]) (\<lambda>_.
          bnd (flush identity_chk) (\<lambda>_.
          ret (tenant, membership, branch, warehouse))))))))))))))))))))"

definition get_current :: "'a RequestContext_scheme \<Rightarrow> ('b identity_db_scheme, tenant) tx" where
  "get_current context =
     service_transaction identity_chk (bnd (gets (get_tenant (tenant_id context))) (some_or NotFoundError))"

record TenantUpdate =
  tu_name :: "string option option"
  tu_legal_name :: "string option option"
  tu_tax_identifier :: "string option option"
  tu_timezone :: "string option option"
  tu_country_code :: "string option option"
  tu_allow_negative_inventory :: "bool option option"
  tu_fiscal_year_start_month :: "int option option"

definition changed_tenant :: "TenantUpdate \<Rightarrow> tenant \<Rightarrow> tenant" where
  "changed_tenant u t =
     set_field (tu_name u) (\<lambda>v t. t\<lparr>tn_name := v\<rparr>)
    (set_nullable (tu_legal_name u) (\<lambda>v t. t\<lparr>tn_legal_name := v\<rparr>)
    (set_nullable (tu_tax_identifier u) (\<lambda>v t. t\<lparr>tn_tax_identifier := v\<rparr>)
    (set_field (tu_timezone u) (\<lambda>v t. t\<lparr>tn_timezone := v\<rparr>)
    (set_nullable (tu_country_code u) (\<lambda>v t. t\<lparr>tn_country_code := v\<rparr>)
    (set_field (tu_allow_negative_inventory u) (\<lambda>v t. t\<lparr>tn_allow_negative_inventory := v\<rparr>)
    (set_field (tu_fiscal_year_start_month u) (\<lambda>v t. t\<lparr>tn_fiscal_year_start_month := v\<rparr>) t))))))"

definition nulls_required_column :: "TenantUpdate \<Rightarrow> bool" where
  "nulls_required_column u \<longleftrightarrow> tu_name u = Some None \<or> tu_timezone u = Some None
     \<or> tu_allow_negative_inventory u = Some None \<or> tu_fiscal_year_start_month u = Some None"

definition changed_fields :: "TenantUpdate \<Rightarrow> string list" where
  "changed_fields u = sort (map fst (filter snd
     [(''name'', tu_name u \<noteq> None), (''legal_name'', tu_legal_name u \<noteq> None),
      (''tax_identifier'', tu_tax_identifier u \<noteq> None), (''timezone'', tu_timezone u \<noteq> None),
      (''country_code'', tu_country_code u \<noteq> None),
      (''allow_negative_inventory'', tu_allow_negative_inventory u \<noteq> None),
      (''fiscal_year_start_month'', tu_fiscal_year_start_month u \<noteq> None)]))"

definition update_current :: "'a RequestContext_scheme \<Rightarrow> TenantUpdate \<Rightarrow> ('b identity_db_scheme, tenant) tx" where
  "update_current context payload =
     service_transaction identity_chk
       (bnd (gets (get_tenant (tenant_id context))) (\<lambda>row.
        bnd (some_or NotFoundError row) (\<lambda>tenant.
        bnd (modify (\<lambda>s. s\<lparr>tenants := upd_where (\<lambda>t. tn_id t = tn_id tenant) (changed_tenant payload) (tenants s)\<rparr>)) (\<lambda>_.
        bnd (audit_in context ''tenant.settings_changed'' ''tenant'' (tn_id tenant)
               (map (\<lambda>f. (''fields'', MStr f)) (changed_fields payload))) (\<lambda>_.
        bnd (require (\<not> nulls_required_column payload) IntegrityError) (\<lambda>_.
        bnd (flush identity_chk) (\<lambda>_.
        ret (changed_tenant payload tenant))))))))"

section \<open>Permissions of a request\<close>

definition get_role_ids :: "uuid \<Rightarrow> 'a identity_db_scheme \<Rightarrow> uuid set" where
  "get_role_ids membership s = set (map snd (filter (\<lambda>x. fst x = membership) (membership_roles s)))"

definition get_permissions :: "uuid \<Rightarrow> 'a identity_db_scheme \<Rightarrow> string set" where
  "get_permissions membership s =
     set (concat (map (\<lambda>(m, r). if m = membership then map snd (filter (\<lambda>x. fst x = r) (role_permissions s)) else [])
       (membership_roles s)))"

definition get_branch_scope :: "uuid \<Rightarrow> 'a identity_db_scheme \<Rightarrow> uuid set option" where
  "get_branch_scope membership s =
     (let scope = map snd (filter (\<lambda>(m, b). m = membership \<and> list_ex (\<lambda>x. br_id x = b \<and> br_is_active x) (branches s))
                            (membership_branches s))
      in if scope = [] then None else Some (set scope))"

text \<open>\<open>alive\<close> says which cache keys Redis has not expired.\<close>

definition cached_permissions :: "(uuid \<times> nat \<Rightarrow> bool) \<Rightarrow> uuid \<times> nat \<Rightarrow> 'a identity_db_scheme \<Rightarrow> string set" where
  "cached_permissions alive key s =
     (if alive key then (case map_of (perm_cache s) key of None \<Rightarrow> {} | Some ps \<Rightarrow> ps) else {})"

definition build_tenant_context ::
  "(uuid \<times> nat \<Rightarrow> bool) \<Rightarrow> uuid \<Rightarrow> uuid \<Rightarrow> ('a identity_db_scheme, RequestContext) tx" where
  "build_tenant_context alive user tenant =
     bnd (gets (get_active_membership user tenant)) (\<lambda>row.
     bnd (some_or (PermissionDeniedError ''NO_ACTIVE_TENANT'') row) (\<lambda>membership.
     let cache_key = (mb_id membership, mb_roles_version membership) in
     bnd (gets (cached_permissions alive cache_key)) (\<lambda>cached.
     bnd (if cached \<noteq> {} then ret cached
          else bnd (gets (get_permissions (mb_id membership))) (\<lambda>current.
               bnd (run_if (current \<noteq> {}) (modify (\<lambda>s. s\<lparr>perm_cache := (cache_key, current) # perm_cache s\<rparr>))) (\<lambda>_.
               ret current))) (\<lambda>granted.
     bnd (gets (get_role_ids (mb_id membership))) (\<lambda>roles.
     bnd (gets (get_branch_scope (mb_id membership))) (\<lambda>scope.
     ret \<lparr>membership_id = mb_id membership, user_id = user, permissions = granted, branch_ids = scope,
          tenant_id = tenant, role_ids = roles\<rparr>))))))"

definition get_tenant_context ::
  "(uuid \<times> nat \<Rightarrow> bool) \<Rightarrow> access_claims \<Rightarrow> ('a identity_db_scheme, RequestContext) tx" where
  "get_tenant_context alive claims =
     bnd (some_or (PermissionDeniedError ''NO_ACTIVE_TENANT'') (ac_tenant_id claims)) (\<lambda>tenant.
     build_tenant_context alive (ac_user_id claims) tenant)"

definition RequirePermission :: "string \<Rightarrow> 'a TenantContext_scheme \<Rightarrow> ('s, unit) tx" where
  "RequirePermission permission context = require (permission \<in> permissions context) (PermissionDeniedError ''PERMISSION_DENIED'')"

definition RequireBranch :: "uuid \<Rightarrow> 'a TenantContext_scheme \<Rightarrow> ('s, unit) tx" where
  "RequireBranch branch context =
     require (case branch_ids context of None \<Rightarrow> True | Some scope \<Rightarrow> branch \<in> scope) (PermissionDeniedError ''BRANCH_ACCESS_DENIED'')"

section \<open>Roles\<close>

record RoleCreate =
  rlc_code :: string
  rlc_name :: string
  rlc_permission_codes :: "string list"

record RoleUpdate =
  ru_name :: "string option"
  ru_permission_codes :: "string list option"

definition visible_role :: "'a RequestContext_scheme \<Rightarrow> role \<Rightarrow> bool" where
  "visible_role context r \<longleftrightarrow> ro_tenant_id r = Some (tenant_id context) \<or> ro_tenant_id r = None"

definition role_permission_codes :: "uuid \<Rightarrow> 'a identity_db_scheme \<Rightarrow> string list" where
  "role_permission_codes role s = sort (map snd (filter (\<lambda>x. fst x = role) (role_permissions s)))"

definition list_roles :: "settings \<Rightarrow> 'b RequestContext_scheme \<Rightarrow> ('a identity_db_scheme, (role \<times> string list) list) tx" where
  "list_roles settings context =
     service_transaction identity_chk
       (gets (\<lambda>s. map (\<lambda>r. (r, role_permission_codes (ro_id r) s))
          (sort_key (\<lambda>r. \<not> ro_is_system r) (sort_key (\<lambda>r. name_collation settings (ro_name r)) (sort_key ro_id
            (filter (visible_role context) (roles s)))))))"

definition list_permissions :: "('a identity_db_scheme, string list) tx" where
  "list_permissions = service_transaction identity_chk (gets (\<lambda>s. sort (permission_codes s)))"

definition get_custom :: "'b RequestContext_scheme \<Rightarrow> uuid \<Rightarrow> 'a identity_db_scheme \<Rightarrow> role option" where
  "get_custom context i s = find (\<lambda>r. ro_id r = i \<and> ro_tenant_id r = Some (tenant_id context)) (roles s)"

definition is_system :: "uuid \<Rightarrow> 'a identity_db_scheme \<Rightarrow> bool" where
  "is_system i s = list_ex (\<lambda>r. ro_id r = i \<and> ro_tenant_id r = None) (roles s)"

definition raise_missing_or_system :: "uuid \<Rightarrow> ('a identity_db_scheme, 'r) tx" where
  "raise_missing_or_system i =
     bnd (gets (is_system i)) (\<lambda>sys. raise (if sys then ConflictError ''SYSTEM_ROLE_IMMUTABLE'' else NotFoundError))"

definition validate_permissions :: "'b RequestContext_scheme \<Rightarrow> string list \<Rightarrow> ('a identity_db_scheme, unit) tx" where
  "validate_permissions context codes =
     bnd (gets (\<lambda>s. set codes - set (permission_codes s))) (\<lambda>unknown.
     bnd (require (unknown = {}) (DomainValidationError ''UNKNOWN_PERMISSION'')) (\<lambda>_.
     require (set codes \<subseteq> permissions context) (PermissionDeniedError ''PRIVILEGE_ESCALATION'')))"

definition replace_permissions :: "uuid \<Rightarrow> string list \<Rightarrow> ('a identity_db_scheme, unit) tx" where
  "replace_permissions role codes =
     modify (\<lambda>s. s\<lparr>role_permissions := filter (\<lambda>x. fst x \<noteq> role) (role_permissions s) @ map (Pair role) (sorted_items codes)\<rparr>)"

definition bump_assigned_memberships :: "'b RequestContext_scheme \<Rightarrow> uuid \<Rightarrow> ('a identity_db_scheme, unit) tx" where
  "bump_assigned_memberships context role =
     modify (\<lambda>s. s\<lparr>memberships := upd_where
       (\<lambda>m. mb_id m \<in> set (map fst (filter (\<lambda>x. snd x = role) (membership_roles s))) \<and> mb_tenant_id m = tenant_id context)
       (\<lambda>m. m\<lparr>mb_roles_version := mb_roles_version m + 1\<rparr>) (memberships s)\<rparr>)"

definition create_role :: "'b RequestContext_scheme \<Rightarrow> RoleCreate \<Rightarrow> ('a identity_db_scheme, role \<times> string list) tx" where
  "create_role context payload =
     bnd uuid7 (\<lambda>i.
     let role = \<lparr>ro_id = i, ro_tenant_id = Some (tenant_id context), ro_code = rlc_code payload, ro_name = rlc_name payload,
                 ro_is_system = False\<rparr> in
     on_integrity_error (ConflictError ''DUPLICATE_RESOURCE'')
       (service_transaction identity_chk
         (bnd (validate_permissions context (rlc_permission_codes payload)) (\<lambda>_.
          bnd (modify (\<lambda>s. s\<lparr>roles := roles s @ [role]\<rparr>)) (\<lambda>_.
          bnd (flush identity_chk) (\<lambda>_.
          bnd (replace_permissions i (rlc_permission_codes payload)) (\<lambda>_.
          bnd (audit_in context ''role.created'' ''role'' i []) (\<lambda>_.
          ret (role, sorted_items (rlc_permission_codes payload))))))))))"

definition update_role ::
  "'b RequestContext_scheme \<Rightarrow> uuid \<Rightarrow> RoleUpdate \<Rightarrow> ('a identity_db_scheme, role \<times> string list) tx" where
  "update_role context i payload =
     service_transaction identity_chk
       (bnd (gets (get_custom context i)) (\<lambda>row.
        case row of
          None \<Rightarrow> raise_missing_or_system i
        | Some role \<Rightarrow>
            let renamed = (case ru_name payload of None \<Rightarrow> False | Some n \<Rightarrow> n \<noteq> ro_name role);
                role' = (case ru_name payload of None \<Rightarrow> role | Some n \<Rightarrow> role\<lparr>ro_name := n\<rparr>) in
            bnd (run_if renamed (modify (\<lambda>s. s\<lparr>roles := upd_where (\<lambda>r. ro_id r = i) (\<lambda>_. role') (roles s)\<rparr>))) (\<lambda>_.
            bnd (case ru_permission_codes payload of
                   None \<Rightarrow> gets (role_permission_codes i)
                 | Some codes \<Rightarrow>
                     bnd (validate_permissions context codes) (\<lambda>_.
                     bnd (replace_permissions i codes) (\<lambda>_.
                     bnd (bump_assigned_memberships context i) (\<lambda>_.
                     ret (sorted_items codes))))) (\<lambda>codes.
            bnd (audit_in context ''role.updated'' ''role'' i
                   (map (\<lambda>f. (''fields'', MStr f)) ((if renamed then [''name''] else [])
                     @ (if ru_permission_codes payload \<noteq> None then [''permission_codes''] else [])))) (\<lambda>_.
            ret (role', codes))))))"

definition assigned_count :: "uuid \<Rightarrow> 'a identity_db_scheme \<Rightarrow> nat" where
  "assigned_count role s = length (filter (\<lambda>x. snd x = role) (membership_roles s))"

text \<open>Deleting a role cascades to its permissions and to the memberships that have it.\<close>

definition delete_custom :: "'b RequestContext_scheme \<Rightarrow> uuid \<Rightarrow> ('a identity_db_scheme, unit) tx" where
  "delete_custom context i =
     modify (\<lambda>s. s\<lparr>roles := filter (\<lambda>r. \<not> (ro_id r = i \<and> ro_tenant_id r = Some (tenant_id context))) (roles s),
                  role_permissions := filter (\<lambda>x. fst x \<noteq> i) (role_permissions s),
                  membership_roles := filter (\<lambda>x. snd x \<noteq> i) (membership_roles s)\<rparr>)"

definition delete_role :: "'b RequestContext_scheme \<Rightarrow> uuid \<Rightarrow> ('a identity_db_scheme, unit) tx" where
  "delete_role context i =
     service_transaction identity_chk
       (bnd (gets (get_custom context i)) (\<lambda>row.
        case row of
          None \<Rightarrow> raise_missing_or_system i
        | Some role \<Rightarrow>
            bnd (gets (assigned_count i)) (\<lambda>assigned.
            bnd (require (assigned = 0) (ConflictError ''ROLE_ASSIGNED'')) (\<lambda>_.
            bnd (audit_in context ''role.deleted'' ''role'' i []) (\<lambda>_.
            delete_custom context i)))))"

section \<open>Members\<close>

record MemberRecord =
  mr_membership :: membership
  mr_user :: user
  mr_role_ids :: "uuid list"
  mr_branch_ids :: "uuid list"

definition member_record :: "'a identity_db_scheme \<Rightarrow> membership \<Rightarrow> MemberRecord option" where
  "member_record s m =
     (case get_user_by_id (mb_user_id m) s of
        None \<Rightarrow> None
      | Some u \<Rightarrow> Some \<lparr>mr_membership = m, mr_user = u,
          mr_role_ids = sort (map snd (filter (\<lambda>x. fst x = mb_id m) (membership_roles s))),
          mr_branch_ids = sort (map snd (filter (\<lambda>x. fst x = mb_id m) (membership_branches s)))\<rparr>)"

definition list_members :: "'b RequestContext_scheme \<Rightarrow> ('a identity_db_scheme, MemberRecord list) tx" where
  "list_members context =
     service_transaction identity_chk
       (gets (\<lambda>s. List.map_filter (member_record s) (filter (\<lambda>m. mb_tenant_id m = tenant_id context) (memberships s))))"

definition repo_member :: "'b RequestContext_scheme \<Rightarrow> uuid \<Rightarrow> 'a identity_db_scheme \<Rightarrow> MemberRecord option" where
  "repo_member context i s =
     (case find (\<lambda>m. mb_id m = i \<and> mb_tenant_id m = tenant_id context) (memberships s) of
        None \<Rightarrow> None
      | Some m \<Rightarrow> member_record s m)"

definition get_member :: "'b RequestContext_scheme \<Rightarrow> uuid \<Rightarrow> ('a identity_db_scheme, MemberRecord) tx" where
  "get_member context i = service_transaction identity_chk (bnd (gets (repo_member context i)) (some_or NotFoundError))"

definition get_locked :: "'b RequestContext_scheme \<Rightarrow> uuid \<Rightarrow> ('a identity_db_scheme, MemberRecord) tx" where
  "get_locked context i = bnd (gets (repo_member context i)) (some_or NotFoundError)"

definition grantable_roles :: "'b RequestContext_scheme \<Rightarrow> uuid list \<Rightarrow> 'a identity_db_scheme \<Rightarrow> role list" where
  "grantable_roles context ids s = filter (\<lambda>r. ro_id r \<in> set ids \<and> visible_role context r) (roles s)"

definition permissions_of_roles :: "uuid list \<Rightarrow> 'a identity_db_scheme \<Rightarrow> string set" where
  "permissions_of_roles ids s = set (map snd (filter (\<lambda>x. fst x \<in> set ids) (role_permissions s)))"

definition owner_role_id :: "'a identity_db_scheme \<Rightarrow> uuid option" where
  "owner_role_id s = map_option ro_id (get_system_owner_role s)"

definition owner_of :: "'a identity_db_scheme \<Rightarrow> membership \<Rightarrow> bool" where
  "owner_of s m \<longleftrightarrow> mb_status m = MB_ACTIVE
     \<and> list_ex (\<lambda>(i, r). i = mb_id m \<and> list_ex (\<lambda>x. ro_id x = r \<and> ro_code x = OWNER \<and> ro_is_system x) (roles s)) (membership_roles s)"

definition active_owner_count :: "uuid \<Rightarrow> 'a identity_db_scheme \<Rightarrow> nat" where
  "active_owner_count tenant s = length (filter (\<lambda>m. mb_tenant_id m = tenant \<and> owner_of s m) (memberships s))"

definition require_another_owner :: "'b RequestContext_scheme \<Rightarrow> ('a identity_db_scheme, unit) tx" where
  "require_another_owner context =
     bnd (gets (active_owner_count (tenant_id context))) (\<lambda>n.
     require (\<not> n \<le> 1) (ConflictError ''LAST_OWNER_REQUIRED''))"

definition is_active_owner :: "uuid option \<Rightarrow> MemberRecord \<Rightarrow> bool" where
  "is_active_owner owner record \<longleftrightarrow>
     mb_status (mr_membership record) = MB_ACTIVE \<and> (case owner of None \<Rightarrow> False | Some i \<Rightarrow> i \<in> set (mr_role_ids record))"

definition protect_last_owner :: "'b RequestContext_scheme \<Rightarrow> MemberRecord \<Rightarrow> ('a identity_db_scheme, unit) tx" where
  "protect_last_owner context record =
     bnd (gets owner_role_id) (\<lambda>owner.
     run_if (is_active_owner owner record) (require_another_owner context))"

definition update_membership :: "uuid \<Rightarrow> (membership \<Rightarrow> membership) \<Rightarrow> ('a identity_db_scheme, unit) tx" where
  "update_membership i f = modify (\<lambda>s. s\<lparr>memberships := upd_where (\<lambda>m. mb_id m = i) f (memberships s)\<rparr>)"

definition replace_roles :: "uuid \<Rightarrow> uuid list \<Rightarrow> ('a identity_db_scheme, unit) tx" where
  "replace_roles i ids =
     bnd (modify (\<lambda>s. s\<lparr>membership_roles := filter (\<lambda>x. fst x \<noteq> i) (membership_roles s) @ map (Pair i) (sorted_items ids)\<rparr>)) (\<lambda>_.
     update_membership i (\<lambda>m. m\<lparr>mb_roles_version := mb_roles_version m + 1\<rparr>))"

definition replace_branches :: "uuid \<Rightarrow> uuid list \<Rightarrow> ('a identity_db_scheme, unit) tx" where
  "replace_branches i ids =
     modify (\<lambda>s. s\<lparr>membership_branches := filter (\<lambda>x. fst x \<noteq> i) (membership_branches s) @ map (Pair i) (sorted_items ids)\<rparr>)"

definition update_roles :: "'b RequestContext_scheme \<Rightarrow> uuid \<Rightarrow> uuid list \<Rightarrow> ('a identity_db_scheme, MemberRecord) tx" where
  "update_roles context i new_roles =
     bnd (require (i \<noteq> membership_id context) (PermissionDeniedError ''CANNOT_MODIFY_OWN_ROLES'')) (\<lambda>_.
     service_transaction identity_chk
       (bnd (get_locked context i) (\<lambda>record.
        bnd (gets (grantable_roles context new_roles)) (\<lambda>found.
        bnd (require (ro_id ` set found = set new_roles) (DomainValidationError ''VALIDATION_ERROR'')) (\<lambda>_.
        bnd (gets (permissions_of_roles new_roles)) (\<lambda>granted.
        bnd (require (granted \<subseteq> permissions context) (PermissionDeniedError ''CANNOT_GRANT_UNHELD_PERMISSION'')) (\<lambda>_.
        bnd (gets owner_role_id) (\<lambda>owner.
        let grants_owner = (case owner of None \<Rightarrow> False | Some w \<Rightarrow> w \<in> set new_roles);
            actor_is_owner = (case owner of None \<Rightarrow> False | Some w \<Rightarrow> w \<in> role_ids context) in
        bnd (require (\<not> (grants_owner \<and> \<not> actor_is_owner)) (PermissionDeniedError ''CANNOT_GRANT_UNHELD_PERMISSION'')) (\<lambda>_.
        bnd (run_if (is_active_owner owner record \<and> \<not> grants_owner) (require_another_owner context)) (\<lambda>_.
        bnd (replace_roles (mb_id (mr_membership record)) new_roles) (\<lambda>_.
        bnd (audit_in context ''member.role_changed'' ''membership'' i []) (\<lambda>_.
        ret (record\<lparr>mr_role_ids := sorted_items new_roles\<rparr>)))))))))))))"

definition require_grantable_branches :: "'b TenantContext_scheme \<Rightarrow> uuid list \<Rightarrow> ('s, unit) tx" where
  "require_grantable_branches context ids =
     require (case branch_ids context of None \<Rightarrow> True | Some held \<Rightarrow> ids \<noteq> [] \<and> set ids \<subseteq> held)
       (PermissionDeniedError ''CANNOT_GRANT_UNHELD_BRANCH'')"

definition active_branch_ids :: "'b RequestContext_scheme \<Rightarrow> uuid list \<Rightarrow> 'a identity_db_scheme \<Rightarrow> uuid set" where
  "active_branch_ids context ids s =
     set (map br_id (filter (\<lambda>b. br_id b \<in> set ids \<and> br_is_active b \<and> br_tenant_id b = tenant_id context) (branches s)))"

definition update_branches :: "'b RequestContext_scheme \<Rightarrow> uuid \<Rightarrow> uuid list \<Rightarrow> ('a identity_db_scheme, MemberRecord) tx" where
  "update_branches context i ids =
     bnd (require (i \<noteq> membership_id context) (PermissionDeniedError ''CANNOT_MODIFY_OWN_BRANCHES'')) (\<lambda>_.
     bnd (require_grantable_branches context ids) (\<lambda>_.
     service_transaction identity_chk
       (bnd (get_locked context i) (\<lambda>record.
        bnd (gets (active_branch_ids context ids)) (\<lambda>active.
        bnd (require (active = set ids) (DomainValidationError ''VALIDATION_ERROR'')) (\<lambda>_.
        bnd (replace_branches i ids) (\<lambda>_.
        bnd (audit_in context ''member.branches_changed'' ''membership'' i []) (\<lambda>_.
        ret (record\<lparr>mr_branch_ids := sorted_items ids\<rparr>)))))))))"

fun membership_status_value :: "membership_status \<Rightarrow> string" where
  "membership_status_value MB_INVITED = ''INVITED''"
| "membership_status_value MB_ACTIVE = ''ACTIVE''"
| "membership_status_value MB_SUSPENDED = ''SUSPENDED''"
| "membership_status_value MB_REVOKED = ''REVOKED''"

definition set_status :: "uuid \<Rightarrow> membership_status \<Rightarrow> ('a identity_db_scheme, unit) tx" where
  "set_status i status =
     update_membership i (\<lambda>m. m\<lparr>mb_status := status, mb_roles_version := mb_roles_version m + 1\<rparr>)"

definition update_status ::
  "'b RequestContext_scheme \<Rightarrow> uuid \<Rightarrow> membership_status \<Rightarrow> ('a identity_db_scheme, MemberRecord) tx" where
  "update_status context i status =
     bnd (require (status \<noteq> MB_INVITED) (DomainValidationError ''INVALID_STATE_TRANSITION'')) (\<lambda>_.
     service_transaction identity_chk
       (bnd (get_locked context i) (\<lambda>record.
        let m = mr_membership record in
        bnd (require (mb_status m \<noteq> MB_REVOKED) (ConflictError ''INVALID_STATE_TRANSITION'')) (\<lambda>_.
        bnd (run_if (status \<noteq> MB_ACTIVE) (protect_last_owner context record)) (\<lambda>_.
        bnd (set_status (mb_id m) status) (\<lambda>_.
        bnd (audit_in context ''member.status_changed'' ''membership'' i [(''status'', MStr (membership_status_value status))]) (\<lambda>_.
        ret (record\<lparr>mr_membership := m\<lparr>mb_status := status, mb_roles_version := mb_roles_version m + 1\<rparr>\<rparr>))))))))"

definition remove_member :: "'b RequestContext_scheme \<Rightarrow> uuid \<Rightarrow> ('a identity_db_scheme, unit) tx" where
  "remove_member context i =
     service_transaction identity_chk
       (bnd (get_locked context i) (\<lambda>record.
        bnd (protect_last_owner context record) (\<lambda>_.
        if mb_status (mr_membership record) = MB_REVOKED then ret ()
        else
          bnd (set_status (mb_id (mr_membership record)) MB_REVOKED) (\<lambda>_.
          audit_in context ''member.removed'' ''membership'' i []))))"

section \<open>Invitations\<close>

record InvitationCreate =
  ic_email :: string
  ic_role_id :: uuid

record InvitationAccept =
  ia_token :: string
  ia_full_name :: "string option"
  ia_password :: "string option"

definition role_in_tenant :: "'b RequestContext_scheme \<Rightarrow> uuid \<Rightarrow> 'a identity_db_scheme \<Rightarrow> role option" where
  "role_in_tenant context i s = find (\<lambda>r. ro_id r = i \<and> visible_role context r) (roles s)"

definition member_emails :: "uuid \<Rightarrow> 'a identity_db_scheme \<Rightarrow> string set" where
  "member_emails tenant s =
     set (List.map_filter (\<lambda>m. if mb_tenant_id m = tenant \<and> mb_status m \<noteq> MB_REVOKED
            then map_option (\<lambda>u. lower (us_email u)) (get_user_by_id (mb_user_id m) s) else None) (memberships s))"

definition repo_invitation :: "'b RequestContext_scheme \<Rightarrow> uuid \<Rightarrow> 'a identity_db_scheme \<Rightarrow> invitation option" where
  "repo_invitation context i s = find (\<lambda>v. iv_id v = i \<and> iv_tenant_id v = tenant_id context) (invitations s)"

definition list_invitations :: "'b RequestContext_scheme \<Rightarrow> ('a identity_db_scheme, invitation list) tx" where
  "list_invitations context =
     service_transaction identity_chk (gets (\<lambda>s. rev (filter (\<lambda>v. iv_tenant_id v = tenant_id context) (invitations s))))"

definition update_invitation :: "uuid \<Rightarrow> (invitation \<Rightarrow> invitation) \<Rightarrow> ('a identity_db_scheme, unit) tx" where
  "update_invitation i f = modify (\<lambda>s. s\<lparr>invitations := upd_where (\<lambda>v. iv_id v = i) f (invitations s)\<rparr>)"

definition invite ::
  "crypto \<Rightarrow> settings \<Rightarrow> 'b RequestContext_scheme \<Rightarrow> InvitationCreate \<Rightarrow> ('a identity_db_scheme, invitation \<times> string) tx" where
  "invite crypto settings context payload =
     bnd datetime_now (\<lambda>now.
     let email = lower (ic_email payload) in
     on_integrity_error (ConflictError ''DUPLICATE_RESOURCE'')
       (service_transaction identity_chk
         (bnd (gets (role_in_tenant context (ic_role_id payload))) (\<lambda>row.
          bnd (some_or NotFoundError row) (\<lambda>role.
          bnd (gets (\<lambda>s. set (role_permission_codes (ro_id role) s))) (\<lambda>granted.
          bnd (require (granted \<subseteq> permissions context) (PermissionDeniedError ''CANNOT_GRANT_UNHELD_PERMISSION'')) (\<lambda>_.
          bnd (gets (member_emails (tenant_id context))) (\<lambda>emails.
          bnd (require (email \<notin> emails) (ConflictError ''DUPLICATE_RESOURCE'')) (\<lambda>_.
          bnd generate_opaque_token (\<lambda>raw.
          bnd uuid7 (\<lambda>i.
          let invitation = \<lparr>iv_id = i, iv_tenant_id = tenant_id context, iv_email = email, iv_role_id = ro_id role,
                            iv_token_hash = hash_opaque_token crypto raw, iv_invited_by_user_id = user_id context,
                            iv_expires_at = now + days (invitation_expire_days settings), iv_accepted_at = None,
                            iv_status = IV_PENDING\<rparr> in
          bnd (modify (\<lambda>s. s\<lparr>invitations := invitations s @ [invitation]\<rparr>)) (\<lambda>_.
          bnd (enqueue_email email ''invitation'' [(''token'', raw)]) (\<lambda>_.
          bnd (audit_in context ''member.invited'' ''invitation'' i [(''email'', MStr email)]) (\<lambda>_.
          bnd (flush identity_chk) (\<lambda>_.
          ret (invitation, raw))))))))))))))))"

definition revoke_invitation :: "'b RequestContext_scheme \<Rightarrow> uuid \<Rightarrow> ('a identity_db_scheme, unit) tx" where
  "revoke_invitation context i =
     service_transaction identity_chk
       (bnd (gets (repo_invitation context i)) (\<lambda>row.
        bnd (some_or NotFoundError row) (\<lambda>invitation.
        bnd (require (iv_status invitation = IV_PENDING) (ConflictError ''INVALID_STATE_TRANSITION'')) (\<lambda>_.
        bnd (update_invitation (iv_id invitation) (\<lambda>v. v\<lparr>iv_status := IV_REVOKED\<rparr>)) (\<lambda>_.
        bnd (audit_in context ''member.invitation_revoked'' ''invitation'' (iv_id invitation) []) (\<lambda>_.
        flush identity_chk))))))"

definition resend_invitation ::
  "crypto \<Rightarrow> settings \<Rightarrow> 'b RequestContext_scheme \<Rightarrow> uuid \<Rightarrow> ('a identity_db_scheme, invitation \<times> string) tx" where
  "resend_invitation crypto settings context i =
     bnd datetime_now (\<lambda>now.
     service_transaction identity_chk
       (bnd (gets (repo_invitation context i)) (\<lambda>row.
        bnd (some_or NotFoundError row) (\<lambda>invitation.
        bnd (require (iv_status invitation = IV_PENDING) (ConflictError ''INVALID_STATE_TRANSITION'')) (\<lambda>_.
        bnd generate_opaque_token (\<lambda>raw.
        let renew = (\<lambda>v. v\<lparr>iv_token_hash := hash_opaque_token crypto raw,
                           iv_expires_at := now + days (invitation_expire_days settings)\<rparr>) in
        bnd (update_invitation (iv_id invitation) renew) (\<lambda>_.
        bnd (enqueue_email (iv_email invitation) ''invitation'' [(''token'', raw)]) (\<lambda>_.
        bnd (flush identity_chk) (\<lambda>_.
        ret (renew invitation, raw))))))))))"

definition resolve_user :: "crypto \<Rightarrow> string \<Rightarrow> InvitationAccept \<Rightarrow> ('a identity_db_scheme, user \<times> bool) tx" where
  "resolve_user crypto email payload =
     bnd (gets (get_user_by_email email)) (\<lambda>existing.
     case existing of
       Some user \<Rightarrow> ret (user, False)
     | None \<Rightarrow>
         (case (ia_password payload, ia_full_name payload) of
            (Some password, Some full_name) \<Rightarrow>
              bnd (require (password \<noteq> [] \<and> full_name \<noteq> []) (DomainValidationError ''VALIDATION_ERROR'')) (\<lambda>_.
              bnd (new_user crypto email password full_name) (\<lambda>user.
              ret (user, True)))
          | _ \<Rightarrow> raise (DomainValidationError ''VALIDATION_ERROR'')))"

text \<open>
  The membership query of \<open>accept\<close> runs before the transaction has published a tenant or a user, so the policies on
  \<open>memberships\<close> (migrations 0008 and 0010) decide which rows it sees: those of \<open>app.tenant_id\<close> and of \<open>app.user_id\<close>,
  here neither.
\<close>

definition existing_membership ::
  "uuid option \<Rightarrow> uuid option \<Rightarrow> uuid \<Rightarrow> uuid \<Rightarrow> 'a identity_db_scheme \<Rightarrow> membership option" where
  "existing_membership app_tenant app_user tenant user s =
     find (\<lambda>m. (app_tenant = Some (mb_tenant_id m) \<or> app_user = Some (mb_user_id m))
               \<and> mb_tenant_id m = tenant \<and> mb_user_id m = user) (memberships s)"

definition redeemable :: "invitation \<Rightarrow> datetime \<Rightarrow> bool" where
  "redeemable invitation now \<longleftrightarrow>
     \<not> (iv_status invitation \<noteq> IV_PENDING \<or> iv_accepted_at invitation \<noteq> None \<or> iv_expires_at invitation \<le> now)"

definition accept ::
  "crypto \<Rightarrow> InvitationAccept \<Rightarrow> ('a identity_db_scheme, uuid \<times> uuid \<times> uuid \<times> bool) tx" where
  "accept crypto payload =
     bnd datetime_now (\<lambda>now.
     service_transaction identity_chk
       (bnd (gets (\<lambda>s. find (\<lambda>v. iv_token_hash v = hash_opaque_token crypto (ia_token payload)) (invitations s))) (\<lambda>row.
        bnd (some_or LINK_INVALID row) (\<lambda>invitation.
        bnd (require (redeemable invitation now) LINK_INVALID) (\<lambda>_.
        bnd (resolve_user crypto (iv_email invitation) payload) (\<lambda>(user, created).
        bnd (gets (existing_membership None None (iv_tenant_id invitation) (us_id user))) (\<lambda>existing.
        bnd (require (case existing of None \<Rightarrow> True | Some m \<Rightarrow> mb_status m = MB_REVOKED) (ConflictError ''DUPLICATE_RESOURCE'')) (\<lambda>_.
        bnd uuid7 (\<lambda>i.
        bnd (update_invitation (iv_id invitation) (\<lambda>v. v\<lparr>iv_status := IV_ACCEPTED, iv_accepted_at := Some now\<rparr>)) (\<lambda>_.
        let context = \<lparr>membership_id = i, user_id = us_id user, permissions = {}, branch_ids = None,
                       tenant_id = iv_tenant_id invitation, role_ids = {iv_role_id invitation}\<rparr> in
        bnd (add_membership \<lparr>mb_id = i, mb_tenant_id = iv_tenant_id invitation, mb_user_id = us_id user,
               mb_status = MB_ACTIVE, mb_roles_version = 0, mb_invited_by_user_id = Some (iv_invited_by_user_id invitation),
               mb_joined_at = Some now\<rparr>) (\<lambda>_.
        bnd (assign_role i (iv_role_id invitation)) (\<lambda>_.
        bnd (flush identity_chk) (\<lambda>_.
        bnd (audit_in context ''member.invitation_accepted'' ''membership'' i [(''invitation_id'', MUuid (iv_id invitation))]) (\<lambda>_.
        bnd (flush identity_chk) (\<lambda>_.
        ret (iv_tenant_id invitation, i, us_id user, created))))))))))))))))"

end
