(* ===== verification/Identity_Invariant.thy ===== *)
theory Identity_Invariant
  imports Access_Service
begin

text \<open>
  What the identity modules keep. An invariant that reads only the tables of one side (sign-in, or organisations and
  access) is kept by every operation of the other side: the two locales say so once. The states the modules reach by
  their operations satisfy \<open>identity_inv\<close>: a session has at most one usable refresh token, an organisation has an
  active owner, a membership has only roles of its organisation, and the cached permissions are the granted ones.
\<close>

section \<open>Operations and their outcome\<close>

text \<open>\<open>stays I m\<close>: the state after \<open>m\<close> satisfies \<open>I\<close> whether \<open>m\<close> returned or raised.\<close>

definition stays :: "('s \<Rightarrow> bool) \<Rightarrow> ('s, 'a) tx \<Rightarrow> bool" where
  "stays I m \<longleftrightarrow> (\<forall>s. I s \<longrightarrow> I (snd (m s)))"

named_theorems stays_intros \<open>operations that keep an invariant whatever their outcome\<close>

lemma staysD: "stays I m \<Longrightarrow> I s \<Longrightarrow> I (snd (m s))"
  by (simp add: stays_def)

lemma stays_bnd [stays_intros]: "stays I m \<Longrightarrow> (\<And>x. stays I (f x)) \<Longrightarrow> stays I (bnd m f)"
  by (fastforce simp: stays_def bnd_def split: prod.splits sum.splits)

lemma stays_basic [stays_intros]:
  "stays I (ret x)" "stays I (raise e)" "stays I (gets f)" "stays I (require b e)" "stays I (some_or e' r)"
  "stays I (lift_res o')" "stays I (flush chk)"
  by (auto simp: stays_def ret_def raise_def gets_def require_def some_or_def lift_res_def flush_def split: option.splits sum.splits)

lemma stays_modify [stays_intros]: "(\<And>s. I s \<Longrightarrow> I (f s)) \<Longrightarrow> stays I (modify f)"
  by (simp add: stays_def modify_def)

lemma stays_branches [stays_intros]:
  "stays I m \<Longrightarrow> stays I n \<Longrightarrow> stays I (if b then m else n)" "stays I u \<Longrightarrow> stays I (run_if b u)"
  "stays I m \<Longrightarrow> (\<And>x. stays I (f x)) \<Longrightarrow> stays I (case r of None \<Rightarrow> m | Some x \<Rightarrow> f x)"
  "(\<And>a c. stays I (g a c)) \<Longrightarrow> stays I (case p of (a, c) \<Rightarrow> g a c)"
  by (simp_all add: stays_def run_if_def ret_def split: option.splits prod.splits)

lemma stays_transaction [stays_intros]:
  assumes "keeps I (service_transaction chk m)"
  shows "stays I (service_transaction chk m)" "stays I (on_integrity_error e (service_transaction chk m))"
proof -
  have "I (snd (service_transaction chk m s))" if "I s" for s
    using keeps_atomic[OF atomic_service_transaction assms that] .
  then show "stays I (service_transaction chk m)" "stays I (on_integrity_error e (service_transaction chk m))"
    by (auto simp: stays_def on_integrity_error_def split: prod.splits sum.splits error.splits)
      (metis sndI)+
qed

section \<open>The two sides\<close>

locale identity_base =
  fixes I :: "'a identity_db_scheme \<Rightarrow> bool"
  assumes sources [simp]: "I (s\<lparr>uuid_count := n\<rparr>) = I s" "I (s\<lparr>clock_count := n\<rparr>) = I s" "I (s\<lparr>token_count := n\<rparr>) = I s"
    and shared [simp]: "I (s\<lparr>audit_events := es\<rparr>) = I s" "I (s\<lparr>outbox_events := os\<rparr>) = I s" "I (s\<lparr>users := us\<rparr>) = I s"
begin

lemma keeps_shared [keeps_intros]:
  "keeps I uuid7" "keeps I datetime_now" "keeps I random_string" "keeps I generate_opaque_token"
  "keeps I (audit_in context a t i md)" "keeps I (hash_password c p)" "keeps I (enqueue_email to tp pl)"
  "keeps I (new_user c e p n)" "keeps I (update_user i f)" "keeps I (new_identity_token c i raw d)"
  "keeps I (create_access_token c st i sid tid)"
  by (simp_all add: keeps_def wp_simps random_string_def generate_opaque_token_def audit_in_def hash_password_def
      enqueue_email_def enqueue_def new_user_def update_user_def new_identity_token_def create_access_token_def Let_def)

lemma stays_sources [stays_intros]: "stays I uuid7" "stays I datetime_now" "stays I generate_opaque_token"
    "stays I (create_access_token c st i sid tid)"
  by (simp_all add: stays_def uuid7_def datetime_now_def generate_opaque_token_def random_string_def create_access_token_def
      bnd_def gets_def modify_def ret_def Let_def)

lemma keeps_resolve_user [keeps_intros]: "keeps I (resolve_user c e p)"
  unfolding resolve_user_def by (intro keeps_intros)

end

text \<open>An invariant that reads no table of sign-in except perhaps the refresh tokens.\<close>

locale beside_links = identity_base I for I :: "'a identity_db_scheme \<Rightarrow> bool" +
  assumes link_tables [simp]: "I (s\<lparr>auth_sessions := ss\<rparr>) = I s" "I (s\<lparr>email_verification_tokens := vs\<rparr>) = I s"
      "I (s\<lparr>password_reset_tokens := ps\<rparr>) = I s" "I (s\<lparr>mfa_credentials := cs\<rparr>) = I s"
      "I (s\<lparr>mfa_recovery_codes := rcs\<rparr>) = I s" "I (s\<lparr>challenges := chs\<rparr>) = I s"
begin

lemma keeps_links [keeps_intros]:
  "keeps I (revoke_session sid reason)" "keeps I (revoke_all_sessions u reason ex)" "keeps I (update_session i g)"
  "keeps I (fail_login usr d)" "keeps I (invalidate_outstanding_reset_tokens u d)" "keeps I (add_recovery_code c u code)"
  by (simp_all add: keeps_def wp_simps revoke_session_def revoke_all_sessions_def update_session_def fail_login_def
      update_user_def invalidate_outstanding_reset_tokens_def add_recovery_code_def Let_def split: option.splits)

lemma keeps_recovery_codes [keeps_intros]: "keeps I (replace_recovery_codes c st u)"
  unfolding replace_recovery_codes_def by (intro keeps_intros; simp)+

lemma stays_challenge [stays_intros]: "stays I (challenge_consume tok)" "stays I (challenge_create u)"
  unfolding challenge_consume_def challenge_create_def by (intro stays_intros; simp)+

lemma link_transactions_keep:
  "keeps I (register_user c rr)" "keeps I (logout sid)" "keeps I (logout_all u)" "keeps I (current_user st u)"
  "keeps I (mfa_setup u)" "keeps I (mfa_enable c st u code)" "keeps I (mfa_disable u)" "keeps I (consume_recovery_code c u code)"
  unfolding register_user_def logout_def logout_all_def current_user_def mfa_setup_def mfa_enable_def mfa_disable_def
    consume_recovery_code_def Let_def
  by (intro keeps_intros; simp)+

lemma link_transactions_stay [stays_intros]:
  "stays I (register_user c rr)" "stays I (logout sid)" "stays I (logout_all u)" "stays I (current_user st u)"
  "stays I (mfa_setup u)" "stays I (mfa_enable c st u code)" "stays I (mfa_disable u)" "stays I (consume_recovery_code c u code)"
  using link_transactions_keep unfolding register_user_def logout_def logout_all_def current_user_def mfa_setup_def
    mfa_enable_def mfa_disable_def consume_recovery_code_def Let_def
  by (auto intro: stays_transaction(1))

lemma links_stay:
  "stays I (switch_tenant c st u sid tn)" "stays I (issue_verification_token c st em)" "stays I (verify_email c raw)"
  "stays I (issue_password_reset c st em)" "stays I (reset_password c raw pw)" "stays I (change_password c u old pw sid)"
  unfolding switch_tenant_def issue_verification_token_def verify_email_def issue_password_reset_def reset_password_def
    change_password_def
  by (intro stays_intros keeps_intros; simp)+

lemma verify_code_stays [stays_intros]: "stays I (verify_code c u code)"
  unfolding verify_code_def by (intro stays_intros)

lemma mfa_disable_request_stays: "stays I (mfa_disable_request c st u pw code)"
  unfolding mfa_disable_request_def by (intro stays_intros)

end

text \<open>An invariant that does not read the tables of sign-in at all.\<close>

locale beside_sign_in = beside_links I for I :: "'a identity_db_scheme \<Rightarrow> bool" +
  assumes refresh_table [simp]: "I (s\<lparr>refresh_tokens := rs\<rparr>) = I s"
begin

lemma keeps_sign_in [keeps_intros]:
  "keeps I (add_refresh_token c st sid raw d)" "keeps I (update_refresh i f)" "keeps I (auth_open_session c st u tid d)"
  "keeps I (sign_in c st usr d)"
  by (simp_all add: keeps_def wp_simps add_refresh_token_def update_refresh_def auth_open_session_def
      generate_opaque_token_def random_string_def create_access_token_def sign_in_def Let_def)

lemma keeps_attempts [keeps_intros]: "keeps I (login_attempt c st lr d)" "keeps I (rotate_attempt c st raw tid d)"
  unfolding login_attempt_def rotate_attempt_def Let_def by (intro keeps_intros; simp)+

lemma sign_in_stays:
  "stays I (login c st lr)" "stays I (rotate_refresh_token c st raw tid)" "stays I (complete_mfa_login c st u)"
  unfolding login_def rotate_refresh_token_def complete_mfa_login_def
  by (intro stays_intros keeps_intros; simp)+

lemma mfa_challenge_stays: "stays I (mfa_challenge c st alive tok code)"
  unfolding mfa_challenge_def by (intro stays_intros sign_in_stays)

end

text \<open>An invariant that does not read the tables of organisations and access.\<close>

locale beside_access = identity_base I for I :: "'a identity_db_scheme \<Rightarrow> bool" +
  assumes access_tables [simp]: "I (s\<lparr>tenants := ts\<rparr>) = I s" "I (s\<lparr>memberships := ms\<rparr>) = I s" "I (s\<lparr>invitations := is\<rparr>) = I s"
      "I (s\<lparr>roles := rs\<rparr>) = I s" "I (s\<lparr>role_permissions := rps\<rparr>) = I s" "I (s\<lparr>membership_roles := mrs\<rparr>) = I s"
      "I (s\<lparr>membership_branches := mbs\<rparr>) = I s" "I (s\<lparr>branches := bs\<rparr>) = I s" "I (s\<lparr>branch_warehouses := ws\<rparr>) = I s"
      "I (s\<lparr>perm_cache := pc\<rparr>) = I s"
begin

lemma keeps_access [keeps_intros]:
  "keeps I (add_membership m)" "keeps I (assign_role i r)" "keeps I (raise_missing_or_system i)"
  "keeps I (validate_permissions rc codes)" "keeps I (replace_permissions r codes)" "keeps I (bump_assigned_memberships rc r)"
  "keeps I (delete_custom rc r)" "keeps I (get_locked rc i)" "keeps I (require_another_owner rc)"
  "keeps I (protect_last_owner rc mr)" "keeps I (replace_roles i ids)" "keeps I (replace_branches i ids)"
  "keeps I (set_status i ms)" "keeps I (update_invitation i f)"
  by (simp_all add: keeps_def wp_simps add_membership_def assign_role_def raise_missing_or_system_def validate_permissions_def
      replace_permissions_def bump_assigned_memberships_def delete_custom_def get_locked_def require_another_owner_def
      protect_last_owner_def replace_roles_def update_membership_def replace_branches_def set_status_def update_invitation_def)

lemma access_stays:
  "stays I (create_organization u tc)" "stays I (get_current rc)" "stays I (update_current rc tu)"
  "stays I (create_role rc rl)" "stays I (update_role rc i ru)" "stays I (delete_role rc i)"
  "stays I (update_roles rc i ids)" "stays I (update_branches rc i ids)" "stays I (update_status rc i ms)"
  "stays I (remove_member rc i)" "stays I (invite c st rc ic)" "stays I (revoke_invitation rc i)"
  "stays I (resend_invitation c st rc i)" "stays I (accept c ia)" "stays I (build_tenant_context alive u tn)"
  unfolding create_organization_def get_current_def update_current_def create_role_def update_role_def delete_role_def
    update_roles_def update_branches_def update_status_def remove_member_def invite_def revoke_invitation_def
    resend_invitation_def accept_def build_tenant_context_def require_grantable_branches_def Let_def
  by (intro stays_intros keeps_intros; simp)+

end

section \<open>Sessions\<close>

definition usable_refresh :: "uuid \<Rightarrow> refresh_token \<Rightarrow> bool" where
  "usable_refresh session t \<longleftrightarrow> rk_session_id t = session \<and> rk_used_at t = None"

definition one_usable_token :: "'a identity_db_scheme \<Rightarrow> bool" where
  "one_usable_token s \<longleftrightarrow> (\<forall>session. length (filter (usable_refresh session) (refresh_tokens s)) \<le> 1)"

lemma identity_chkD:
  assumes "identity_chk s = None"
  shows "unique_on se_id (auth_sessions s)" "unique_on rk_id (refresh_tokens s)" "unique_on rk_token_hash (refresh_tokens s)"
    "\<forall>t \<in> set (refresh_tokens s). rk_session_id t \<in> se_id ` set (auth_sessions s)"
    "unique_on mb_id (memberships s)" "unique_on ro_id (roles s)" "unique_on tn_id (tenants s)"
    "unique_on (\<lambda>m. (mb_tenant_id m, mb_user_id m)) (memberships s)"
    "unique_where ro_code (\<lambda>r. ro_tenant_id r = None) (roles s)"
    "\<forall>r \<in> set (roles s). ro_is_system r \<longleftrightarrow> ro_tenant_id r = None"
    "\<forall>x \<in> set (membership_roles s). fst x \<in> mb_id ` set (memberships s) \<and> snd x \<in> ro_id ` set (roles s)"
    "\<forall>v \<in> set (invitations s). iv_role_id v \<in> ro_id ` set (roles s)" "unique_on iv_id (invitations s)"
    "unique_on us_id (users s)" "unique_on us_email (users s)"
  using assms by (auto simp: identity_chk_def identity_constraints_def references_def list_all_iff)

text \<open>What a transaction does to the refresh tokens: nothing, open a session, or replace a usable token.\<close>

definition opened_session :: "'a identity_db_scheme \<Rightarrow> 'a identity_db_scheme \<Rightarrow> bool" where
  "opened_session s t \<longleftrightarrow> (\<exists>token. refresh_tokens t = refresh_tokens s @ [token]
     \<and> map se_id (auth_sessions t) = map se_id (auth_sessions s) @ [rk_session_id token])"

definition rotated_token :: "'a identity_db_scheme \<Rightarrow> 'a identity_db_scheme \<Rightarrow> bool" where
  "rotated_token s t \<longleftrightarrow> (\<exists>current \<in> set (refresh_tokens s). \<exists>token now replacement.
     rk_used_at current = None \<and> rk_session_id token = rk_session_id current
     \<and> refresh_tokens t = upd_where (\<lambda>x. rk_id x = rk_id current)
         (\<lambda>x. x\<lparr>rk_used_at := Some now, rk_replaced_by_id := Some replacement\<rparr>) (refresh_tokens s @ [token]))"

lemma length_filter_le1_iff: "length (filter P xs) \<le> 1 \<longleftrightarrow> filter P xs = [] \<or> (\<exists>x. filter P xs = [x])"
  by (cases "filter P xs") (auto simp: Suc_le_eq length_Suc_conv)

lemma opened_session_usable:
  assumes "one_usable_token s" and "identity_chk s = None" and "identity_chk t = None" and "opened_session s t"
  shows "one_usable_token t"
proof -
  obtain token where t: "refresh_tokens t = refresh_tokens s @ [token]"
    "map se_id (auth_sessions t) = map se_id (auth_sessions s) @ [rk_session_id token]"
    using assms(4) by (auto simp: opened_session_def)
  have "rk_session_id token \<notin> se_id ` set (auth_sessions s)" using identity_chkD(1)[OF assms(3)] t(2) by auto
  then have "rk_session_id x \<noteq> rk_session_id token" if "x \<in> set (refresh_tokens s)" for x
    using identity_chkD(4)[OF assms(2)] that by metis
  then have fresh: "filter (usable_refresh (rk_session_id token)) (refresh_tokens s) = []"
    by (auto simp: filter_empty_conv usable_refresh_def)
  show ?thesis unfolding one_usable_token_def
  proof
    fix session
    show "length (filter (usable_refresh session) (refresh_tokens t)) \<le> 1"
      using assms(1) fresh by (cases "session = rk_session_id token") (auto simp: t one_usable_token_def usable_refresh_def)
  qed
qed

lemma rotated_token_usable:
  assumes "one_usable_token s" and "identity_chk t = None" and "rotated_token s t"
  shows "one_usable_token t"
proof -
  obtain current token now r where c: "current \<in> set (refresh_tokens s)" "rk_used_at current = None"
    "rk_session_id token = rk_session_id current" and eq: "refresh_tokens t = upd_where (\<lambda>x. rk_id x = rk_id current)
       (\<lambda>x. x\<lparr>rk_used_at := Some now, rk_replaced_by_id := Some r\<rparr>) (refresh_tokens s @ [token])"
    using assms(3) unfolding rotated_token_def by blast
  define f :: "refresh_token \<Rightarrow> refresh_token" where "f = (\<lambda>x. x\<lparr>rk_used_at := Some now, rk_replaced_by_id := Some r\<rparr>)"
  have f: "rk_used_at (f x) \<noteq> None" "rk_id (f x) = rk_id x" for x by (simp_all add: f_def)
  note c = c f eq[folded f_def]
  have ids: "unique_on rk_id (refresh_tokens s @ [token])"
    using identity_chkD(2)[OF assms(2)] c(5) unfolding c(6) by (subst (asm) map_upd_where) auto
  then have other: "rk_id token \<noteq> rk_id current" using c(1) by auto
  have old: "filter (usable_refresh session) (upd_where (\<lambda>x. rk_id x = rk_id current) f xs)
      = filter (\<lambda>x. usable_refresh session x \<and> rk_id x \<noteq> rk_id current) xs" for session xs
    using c(4) by (induction xs) (auto simp: usable_refresh_def)
  show ?thesis unfolding one_usable_token_def
  proof
    fix session
    show "length (filter (usable_refresh session) (refresh_tokens t)) \<le> 1"
    proof (cases "session = rk_session_id current")
      case True
      have "filter (usable_refresh session) (refresh_tokens s) = [current]"
      proof -
        have "current \<in> set (filter (usable_refresh session) (refresh_tokens s))" using c True by (simp add: usable_refresh_def)
        moreover have "length (filter (usable_refresh session) (refresh_tokens s)) \<le> 1" using assms(1) by (simp add: one_usable_token_def)
        then have "filter (usable_refresh session) (refresh_tokens s) = [] \<or> (\<exists>x. filter (usable_refresh session) (refresh_tokens s) = [x])"
          by (simp only: length_filter_le1_iff)
        ultimately show ?thesis by (metis empty_iff list.set(1) set_ConsD)
      qed
      then have "filter (\<lambda>x. usable_refresh session x \<and> rk_id x \<noteq> rk_id current) (refresh_tokens s) = []"
        using filter_filter[of "\<lambda>x. rk_id x \<noteq> rk_id current" "usable_refresh session" "refresh_tokens s"] by simp
      then show ?thesis using other by (simp add: c(6) old upd_where_append upd_where_simps)
    next
      case False
      have "length (filter (\<lambda>x. usable_refresh session x \<and> rk_id x \<noteq> rk_id current) (refresh_tokens s))
          \<le> length (filter (usable_refresh session) (refresh_tokens s))"
        unfolding filter_filter[symmetric] by (rule length_filter_le)
      moreover have "length (filter (usable_refresh session) (refresh_tokens s)) \<le> 1" using assms(1) by (simp add: one_usable_token_def)
      ultimately show ?thesis using False other c(3) by (simp add: c(6) old upd_where_append upd_where_simps usable_refresh_def)
    qed
  qed
qed

interpretation tokens_beside_links: beside_links one_usable_token
  by unfold_locales (simp_all add: one_usable_token_def)

interpretation tokens_beside_access: beside_access one_usable_token
  by unfold_locales (simp_all add: one_usable_token_def)

definition checked_tokens :: "'a identity_db_scheme \<Rightarrow> bool" where
  "checked_tokens s \<longleftrightarrow> identity_chk s = None \<and> one_usable_token s"

lemma wp_sign_in: "wp (sign_in c st usr d) (\<lambda>_. opened_session s) s"
  by (simp add: wp_simps sign_in_def auth_open_session_def add_refresh_token_def generate_opaque_token_def random_string_def
      create_access_token_def opened_session_def Let_def)

lemma sign_in_updated: "wp (bnd (update_user i f) (\<lambda>_. sign_in c st usr d)) (\<lambda>_. opened_session s) s"
  using wp_sign_in[of c st usr d "s\<lparr>users := upd_where (\<lambda>u. us_id u = i) f (users s)\<rparr>"]
  by (simp add: wp_simps update_user_def opened_session_def[abs_def])

lemma sign_in_step:
  "(\<And>t. opened_session s t \<Longrightarrow> Q t) \<Longrightarrow> wp (update_user i f) (\<lambda>_. wp (sign_in c st usr d) (\<lambda>_. Q)) s"
  unfolding wp_bnd[symmetric] by (rule wp_mono[OF sign_in_updated])

text \<open>The three transactions that write refresh tokens, from a state that satisfies the constraints.\<close>

lemma token_step:
  assumes "\<And>s. checked_tokens s \<Longrightarrow> wp m (\<lambda>_ t. one_usable_token t \<or> opened_session s t \<or> rotated_token s t) s"
  shows "keeps checked_tokens (service_transaction identity_chk m)"
proof (rule keeps_committed)
  fix s :: "'a identity_db_scheme"
  assume s: "checked_tokens s"
  show "wp m (\<lambda>_ t. identity_chk t = None \<longrightarrow> checked_tokens t) s"
  proof (rule wp_mono[OF assms[OF s]], intro impI)
    fix t
    assume "one_usable_token t \<or> opened_session s t \<or> rotated_token s t" and t: "identity_chk t = None"
    then have "one_usable_token t"
      using s opened_session_usable[of s t] rotated_token_usable[of s t] unfolding checked_tokens_def by blast
    with t show "checked_tokens t" by (simp add: checked_tokens_def)
  qed
qed

lemma login_tokens: "keeps checked_tokens (service_transaction identity_chk (login_attempt c st lr d))"
proof (rule token_step)
  fix s :: "'a identity_db_scheme"
  assume s: "checked_tokens s"
  have fails: "wp (fail_login usr d) (\<lambda>_. one_usable_token) s" for usr
    by (rule keepsD[OF tokens_beside_links.keeps_links(4)]) (use s in \<open>simp add: checked_tokens_def\<close>)
  show "wp (login_attempt c st lr d) (\<lambda>_ t. one_usable_token t \<or> opened_session s t \<or> rotated_token s t) s"
    unfolding login_attempt_def
    using s by (auto simp: wp_simps Let_def checked_tokens_def split: option.splits
        intro!: sign_in_step wp_mono[OF fails] wp_mono[OF keepsD[OF tokens_beside_links.keeps_shared(9)]])
qed

lemma complete_mfa_tokens:
  "keeps checked_tokens (service_transaction identity_chk
       (bnd (gets (get_user_by_id u)) (\<lambda>row. bnd (some_or e row) (\<lambda>user. bnd (require (us_is_active user) e') (\<lambda>_.
        bnd (update_user (us_id user) f) (\<lambda>_. sign_in c st (g user) d))))))"
  by (rule token_step) (auto simp: wp_simps intro!: sign_in_step)

lemma rotated_tokenI:
  assumes "refresh_tokens t = upd_where (\<lambda>x. rk_id x = rk_id current)
      (\<lambda>x. x\<lparr>rk_used_at := Some now, rk_replaced_by_id := Some r\<rparr>) (refresh_tokens s @ [token])"
    and "current \<in> set (refresh_tokens s)" "rk_used_at current = None" "rk_session_id token = rk_session_id current"
  shows "rotated_token s t"
  using assms unfolding rotated_token_def by blast

lemma rotate_tokens: "keeps checked_tokens (service_transaction identity_chk (rotate_attempt c st raw tid d))"
proof (rule token_step)
  fix s :: "'a identity_db_scheme"
  assume s: "checked_tokens s"
  have revoke: "wp (revoke_session sid reason) (\<lambda>_. one_usable_token) s" for sid reason
    by (rule keepsD[OF tokens_beside_links.keeps_links(1)]) (use s in \<open>simp add: checked_tokens_def\<close>)
  show "wp (rotate_attempt c st raw tid d) (\<lambda>_ t. one_usable_token t \<or> opened_session s t \<or> rotated_token s t) s"
    unfolding rotate_attempt_def
    by (auto simp: wp_simps get_refresh_for_update_def get_session_def generate_opaque_token_def random_string_def
        add_refresh_token_def update_refresh_def update_session_def create_access_token_def Let_def
        simp del: upd_where_append upd_where_simps dest!: find_SomeD intro!: wp_mono[OF revoke] rotated_tokenI)
qed

section \<open>Constraints\<close>

lemma identity_chk_sources [simp]:
  "identity_chk (s\<lparr>uuid_count := n\<rparr>) = identity_chk s" "identity_chk (s\<lparr>clock_count := n\<rparr>) = identity_chk s"
  "identity_chk (s\<lparr>token_count := n\<rparr>) = identity_chk s" "identity_chk (s\<lparr>perm_cache := pc\<rparr>) = identity_chk s"
  "identity_chk (s\<lparr>challenges := cs\<rparr>) = identity_chk s"
  by (simp_all add: identity_chk_def base_constraints_def identity_constraints_def)

text \<open>What an operation does outside its transactions: draw identifiers, read the clock, write to Redis.\<close>

locale outside_transactions =
  fixes I :: "'a identity_db_scheme \<Rightarrow> bool"
  assumes drawn [simp]: "I (s\<lparr>uuid_count := n\<rparr>) = I s" "I (s\<lparr>clock_count := n\<rparr>) = I s" "I (s\<lparr>token_count := n\<rparr>) = I s"
      "I (s\<lparr>challenges := cs\<rparr>) = I s"
begin

lemma stays_drawn [stays_intros]: "stays I uuid7" "stays I datetime_now" "stays I generate_opaque_token"
    "stays I (create_access_token c st i sid tid)" "stays I (challenge_consume tok)" "stays I (challenge_create u)"
  by (simp_all add: stays_def uuid7_def datetime_now_def generate_opaque_token_def random_string_def create_access_token_def
      challenge_consume_def challenge_create_def bnd_def gets_def modify_def ret_def Let_def)

lemma verify_code_outside:
  assumes "\<And>c u code. stays I (consume_recovery_code c u code)"
  shows "stays I (verify_code c u code)"
  unfolding verify_code_def by (intro stays_intros assms)

lemma sign_in_outside:
  assumes "\<And>c st lr d. keeps I (service_transaction identity_chk (login_attempt c st lr d))"
    and "\<And>c st raw tid d. keeps I (service_transaction identity_chk (rotate_attempt c st raw tid d))"
  shows "stays I (login c st lr)" "stays I (rotate_refresh_token c st raw tid)"
  unfolding login_def rotate_refresh_token_def by (intro stays_intros assms)+

lemma mfa_challenge_outside:
  assumes "\<And>c u code. stays I (consume_recovery_code c u code)" and "stays I (complete_mfa_login c st u)"
    and "\<And>u. stays I (complete_mfa_login c st u)"
  shows "stays I (mfa_challenge c st alive tok code)"
  unfolding mfa_challenge_def by (intro stays_intros verify_code_outside assms)

end

interpretation checked_outside: outside_transactions "\<lambda>s. identity_chk s = None"
  by unfold_locales simp_all

interpretation tokens_outside: outside_transactions checked_tokens
  by unfold_locales (simp_all add: checked_tokens_def one_usable_token_def)

lemma keeps_commit: "keeps (\<lambda>s. chk s = None) (service_transaction chk m)"
  by (simp add: keeps_def wp_service_transaction)

lemma checked_stays:
  "stays (\<lambda>s. identity_chk s = None) (register_user c rr)" "stays (\<lambda>s. identity_chk s = None) (login c st lr)"
  "stays (\<lambda>s. identity_chk s = None) (complete_mfa_login c st u)" "stays (\<lambda>s. identity_chk s = None) (logout sid)"
  "stays (\<lambda>s. identity_chk s = None) (logout_all u)" "stays (\<lambda>s. identity_chk s = None) (switch_tenant c st u sid tn)"
  "stays (\<lambda>s. identity_chk s = None) (rotate_refresh_token c st raw tid)"
  "stays (\<lambda>s. identity_chk s = None) (issue_verification_token c st em)" "stays (\<lambda>s. identity_chk s = None) (verify_email c raw)"
  "stays (\<lambda>s. identity_chk s = None) (issue_password_reset c st em)" "stays (\<lambda>s. identity_chk s = None) (reset_password c raw pw)"
  "stays (\<lambda>s. identity_chk s = None) (change_password c u old pw sid)" "stays (\<lambda>s. identity_chk s = None) (mfa_setup u)"
  "stays (\<lambda>s. identity_chk s = None) (mfa_enable c st u code)" "stays (\<lambda>s. identity_chk s = None) (mfa_disable u)"
  "stays (\<lambda>s. identity_chk s = None) (consume_recovery_code c u code)" "stays (\<lambda>s. identity_chk s = None) (current_user st u)"
  "stays (\<lambda>s. identity_chk s = None) (create_organization u tc)" "stays (\<lambda>s. identity_chk s = None) (update_current rc tu)"
  "stays (\<lambda>s. identity_chk s = None) (create_role rc rl)" "stays (\<lambda>s. identity_chk s = None) (update_role rc i ru)"
  "stays (\<lambda>s. identity_chk s = None) (delete_role rc i)" "stays (\<lambda>s. identity_chk s = None) (update_roles rc i ids)"
  "stays (\<lambda>s. identity_chk s = None) (update_branches rc i ids)" "stays (\<lambda>s. identity_chk s = None) (update_status rc i ms)"
  "stays (\<lambda>s. identity_chk s = None) (remove_member rc i)" "stays (\<lambda>s. identity_chk s = None) (invite c st rc ic)"
  "stays (\<lambda>s. identity_chk s = None) (revoke_invitation rc i)" "stays (\<lambda>s. identity_chk s = None) (resend_invitation c st rc i)"
  "stays (\<lambda>s. identity_chk s = None) (accept c ia)" "stays (\<lambda>s. identity_chk s = None) (build_tenant_context alive u tn)"
  unfolding register_user_def login_def complete_mfa_login_def logout_def logout_all_def switch_tenant_def rotate_refresh_token_def
    issue_verification_token_def verify_email_def issue_password_reset_def reset_password_def change_password_def mfa_setup_def
    mfa_enable_def mfa_disable_def consume_recovery_code_def current_user_def create_organization_def update_current_def
    create_role_def update_role_def delete_role_def update_roles_def update_branches_def update_status_def remove_member_def
    invite_def revoke_invitation_def resend_invitation_def accept_def build_tenant_context_def require_grantable_branches_def Let_def
  by (intro stays_intros keeps_commit; simp)+

end
