(* ===== verification/Access_Invariant.thy ===== *)
theory Access_Invariant
  imports Identity_Invariant
begin

text \<open>
  The invariant of organisations and access, and the states the identity modules reach by their operations.
\<close>

section \<open>Access\<close>

definition fits :: "uuid \<Rightarrow> role \<Rightarrow> bool" where
  "fits tenant r \<longleftrightarrow> ro_tenant_id r = None \<or> ro_tenant_id r = Some tenant"

text \<open>Memberships and invitations have roles of their organisation or system roles.\<close>

definition role_scope :: "'a identity_db_scheme \<Rightarrow> bool" where
  "role_scope s \<longleftrightarrow>
     (\<forall>x \<in> set (membership_roles s). \<forall>m \<in> set (memberships s). \<forall>r \<in> set (roles s).
        mb_id m = fst x \<longrightarrow> ro_id r = snd x \<longrightarrow> fits (mb_tenant_id m) r)
     \<and> (\<forall>v \<in> set (invitations s). \<forall>r \<in> set (roles s). ro_id r = iv_role_id v \<longrightarrow> fits (iv_tenant_id v) r)"

text \<open>A cache entry belongs to a membership and is out of date or holds what the roles of the membership grant.\<close>

definition cache_entry_ok :: "'a identity_db_scheme \<Rightarrow> (uuid \<times> nat) \<times> string set \<Rightarrow> bool" where
  "cache_entry_ok s e \<longleftrightarrow> (\<exists>m \<in> set (memberships s). mb_id m = fst (fst e) \<and> snd (fst e) \<le> mb_roles_version m
     \<and> (snd (fst e) = mb_roles_version m \<longrightarrow> snd e = get_permissions (mb_id m) s))"

definition cache_ok :: "'a identity_db_scheme \<Rightarrow> bool" where
  "cache_ok s \<longleftrightarrow> (\<forall>e \<in> set (perm_cache s). cache_entry_ok s e)"

definition has_owner :: "'a identity_db_scheme \<Rightarrow> uuid \<Rightarrow> bool" where
  "has_owner s tenant \<longleftrightarrow> (\<exists>m \<in> set (memberships s). mb_tenant_id m = tenant \<and> owner_of s m)"

definition owned :: "'a identity_db_scheme \<Rightarrow> bool" where
  "owned s \<longleftrightarrow> (\<forall>t \<in> set (tenants s). has_owner s (tn_id t))"

definition access_inv :: "'a identity_db_scheme \<Rightarrow> bool" where
  "access_inv s \<longleftrightarrow> role_scope s \<and> cache_ok s \<and> owned s"

lemma access_inv_cong:
  assumes "tenants t = tenants s" "memberships t = memberships s" "invitations t = invitations s" "roles t = roles s"
    "role_permissions t = role_permissions s" "membership_roles t = membership_roles s" "perm_cache t = perm_cache s"
  shows "access_inv t = access_inv s"
  using assms by (simp add: access_inv_def role_scope_def cache_ok_def cache_entry_ok_def owned_def has_owner_def owner_of_def[abs_def]
      get_permissions_def)

interpretation access_beside_sign_in: beside_sign_in access_inv
  by unfold_locales (rule access_inv_cong; simp)+

declare access_beside_sign_in.sources [simp del] access_beside_sign_in.shared [simp del]
  access_beside_sign_in.link_tables [simp del] access_beside_sign_in.refresh_table [simp del]

lemma get_permissions_iff:
  "p \<in> get_permissions i s \<longleftrightarrow> (\<exists>r. (i, r) \<in> set (membership_roles s) \<and> (r, p) \<in> set (role_permissions s))"
  by (force simp: get_permissions_def)

lemma owner_of_iff:
  "owner_of s m \<longleftrightarrow> mb_status m = MB_ACTIVE \<and> (\<exists>r \<in> set (roles s). ro_code r = OWNER \<and> ro_is_system r
     \<and> (mb_id m, ro_id r) \<in> set (membership_roles s))"
  by (force simp: owner_of_def list_ex_iff)

lemma same_invitation:
  assumes "map (\<lambda>v. (iv_role_id v, iv_tenant_id v)) vs = map (\<lambda>v. (iv_role_id v, iv_tenant_id v)) ws" and "v \<in> set vs"
  shows "\<exists>w \<in> set ws. iv_role_id w = iv_role_id v \<and> iv_tenant_id w = iv_tenant_id v"
proof -
  have "(iv_role_id v, iv_tenant_id v) \<in> set (map (\<lambda>v. (iv_role_id v, iv_tenant_id v)) vs)" using assms(2) by simp
  then show ?thesis unfolding assms(1) by auto
qed

text \<open>A new membership with one role.\<close>

lemma joined_access:
  assumes inv: "access_inv s" and chk: "identity_chk s = None" "identity_chk t = None"
    and t: "memberships t = memberships s @ [m]" "membership_roles t = membership_roles s @ [(mb_id m, ro_id r)]"
      "roles t = roles s" "role_permissions t = role_permissions s" "perm_cache t = perm_cache s"
      "map (\<lambda>v. (iv_role_id v, iv_tenant_id v)) (invitations t) = map (\<lambda>v. (iv_role_id v, iv_tenant_id v)) (invitations s)"
    and r: "r \<in> set (roles s)" "fits (mb_tenant_id m) r"
    and tenants: "\<And>x. x \<in> set (tenants t) \<Longrightarrow> x \<in> set (tenants s) \<or> has_owner t (tn_id x)"
  shows "access_inv t"
proof -
  have new: "mb_id m \<notin> mb_id ` set (memberships s)" using identity_chkD(5)[OF chk(2)] by (simp add: t)
  then have unassigned: "fst x \<noteq> mb_id m" if "x \<in> set (membership_roles s)" for x
    using identity_chkD(11)[OF chk(1)] that by metis
  have perms: "get_permissions i t = get_permissions i s" if "i \<noteq> mb_id m" for i
    using that by (auto simp: get_permissions_iff t set_eq_iff)
  have "role_scope t"
  proof -
    have ids: "r' = r" if "r' \<in> set (roles s)" "ro_id r' = ro_id r" for r'
      using unique_on_inj[OF identity_chkD(6)[OF chk(1)] that(1) r(1) that(2)] .
    have "\<exists>w \<in> set (invitations s). iv_role_id w = iv_role_id v \<and> iv_tenant_id w = iv_tenant_id v" if "v \<in> set (invitations t)" for v
      using same_invitation[OF t(6) that] .
    moreover have "fits (mb_tenant_id k) r'"
      if x: "x \<in> set (membership_roles t)" and k: "k \<in> set (memberships t)" and r': "r' \<in> set (roles t)"
        and eqs: "mb_id k = fst x" "ro_id r' = snd x" for x k r'
    proof (cases "x \<in> set (membership_roles s)")
      case True
      then have "k \<in> set (memberships s)" using k eqs(1) unassigned[OF True] by (auto simp: t)
      then show ?thesis using True r' eqs inv by (auto simp: access_inv_def role_scope_def t)
    next
      case False
      then have x_eq: "x = (mb_id m, ro_id r)" using x by (simp add: t(2))
      then have "k \<notin> set (memberships s)" using new eqs(1) by (metis fst_conv image_eqI)
      then have "k = m" using k by (simp add: t(1))
      moreover have "r' = r" by (rule ids) (use r' eqs(2) x_eq in \<open>simp_all add: t(3)\<close>)
      ultimately show ?thesis using r(2) by simp
    qed
    ultimately show ?thesis using inv unfolding access_inv_def role_scope_def t(3) by metis
  qed
  moreover have "cache_ok t" unfolding cache_ok_def
  proof
    fix e
    assume "e \<in> set (perm_cache t)"
    then obtain k where k: "k \<in> set (memberships s)" "mb_id k = fst (fst e)" "snd (fst e) \<le> mb_roles_version k"
      "snd (fst e) = mb_roles_version k \<longrightarrow> snd e = get_permissions (mb_id k) s"
      using inv by (auto simp: access_inv_def cache_ok_def cache_entry_ok_def t)
    moreover have "mb_id k \<noteq> mb_id m" using new k(1) by (metis image_eqI)
    ultimately show "cache_entry_ok t e" unfolding cache_entry_ok_def t by (intro bexI[of _ k]) (simp_all add: perms)
  qed
  moreover have "owned t" unfolding owned_def
  proof
    fix x
    assume x: "x \<in> set (tenants t)"
    have "has_owner t (tn_id x)" if "x \<in> set (tenants s)"
    proof -
      obtain k where "k \<in> set (memberships s)" "mb_tenant_id k = tn_id x" "owner_of s k"
        using inv \<open>x \<in> set (tenants s)\<close> by (auto simp: access_inv_def owned_def has_owner_def)
      then show ?thesis unfolding has_owner_def t by (intro bexI[of _ k]) (auto simp: owner_of_iff t)
    qed
    then show "has_owner t (tn_id x)" using tenants[OF x] by blast
  qed
  ultimately show ?thesis by (simp add: access_inv_def)
qed

text \<open>A membership whose roles or status change, with its version.\<close>

lemma changed_member_access:
  assumes inv: "access_inv s" and chk: "identity_chk s = None" "identity_chk t = None"
    and m: "m \<in> set (memberships s)"
    and f: "\<And>x. mb_id (f x) = mb_id x" "\<And>x. mb_tenant_id (f x) = mb_tenant_id x" "\<And>x. mb_roles_version (f x) = Suc (mb_roles_version x)"
    and t: "memberships t = upd_where (\<lambda>x. mb_id x = mb_id m) f (memberships s)"
      "\<And>x. fst x \<noteq> mb_id m \<Longrightarrow> x \<in> set (membership_roles t) \<longleftrightarrow> x \<in> set (membership_roles s)"
      "roles t = roles s" "role_permissions t = role_permissions s" "perm_cache t = perm_cache s"
      "tenants t = tenants s" "invitations t = invitations s"
    and scope: "\<And>r. r \<in> set (roles s) \<Longrightarrow> (mb_id m, ro_id r) \<in> set (membership_roles t) \<Longrightarrow> fits (mb_tenant_id m) r"
    and owner: "has_owner s (mb_tenant_id m) \<Longrightarrow> has_owner t (mb_tenant_id m)"
  shows "access_inv t"
proof -
  have uniq: "x = m" if "x \<in> set (memberships s)" "mb_id x = mb_id m" for x
    using unique_on_inj[OF identity_chkD(5)[OF chk(1)] that(1) m that(2)] .
  have cases: "x \<in> set (memberships s) \<and> mb_id x \<noteq> mb_id m \<or> x = f m" if "x \<in> set (memberships t)" for x
    using that uniq f(1) by (auto simp: t set_upd_where split: if_splits)
  have in_t: "x \<in> set (memberships t)" if "x \<in> set (memberships s)" "mb_id x \<noteq> mb_id m" for x
    using that by (auto simp: t set_upd_where intro!: exI[of _ x])
  have fm: "f m \<in> set (memberships t)" using m by (auto simp: t set_upd_where intro!: exI[of _ m])
  have perms: "get_permissions i t = get_permissions i s" if "i \<noteq> mb_id m" for i
    using that t(2) by (simp add: get_permissions_iff t set_eq_iff)
  have "role_scope t" unfolding role_scope_def
  proof (intro conjI ballI impI)
    fix x k r
    assume x: "x \<in> set (membership_roles t)" and k: "k \<in> set (memberships t)" and r: "r \<in> set (roles t)"
      and eqs: "mb_id k = fst x" "ro_id r = snd x"
    show "fits (mb_tenant_id k) r"
    proof (cases "mb_id k = mb_id m")
      case True
      then have "k = f m" using cases[OF k] by auto
      moreover have "x = (mb_id m, ro_id r)" using True eqs by (simp add: prod_eq_iff)
      ultimately show ?thesis using scope[of r] r x f(2) by (simp add: t)
    next
      case False
      then have "k \<in> set (memberships s)" using cases[OF k] f(1) by auto
      moreover have "x \<in> set (membership_roles s)" using t(2)[of x] x False eqs by simp
      ultimately show ?thesis using inv r eqs by (simp add: access_inv_def role_scope_def t)
    qed
  next
    fix v r
    assume "v \<in> set (invitations t)" "r \<in> set (roles t)" "ro_id r = iv_role_id v"
    then show "fits (iv_tenant_id v) r" using inv by (simp add: access_inv_def role_scope_def t)
  qed
  moreover have "cache_ok t" unfolding cache_ok_def
  proof
    fix e
    assume "e \<in> set (perm_cache t)"
    then obtain k where k: "k \<in> set (memberships s)" "mb_id k = fst (fst e)" "snd (fst e) \<le> mb_roles_version k"
      "snd (fst e) = mb_roles_version k \<longrightarrow> snd e = get_permissions (mb_id k) s"
      using inv by (auto simp: access_inv_def cache_ok_def cache_entry_ok_def t)
    show "cache_entry_ok t e"
    proof (cases "mb_id k = mb_id m")
      case True
      then have "k = m" using uniq[OF k(1)] by simp
      then show ?thesis unfolding cache_entry_ok_def using k fm f by (intro bexI[of _ "f m"]) auto
    next
      case False
      then show ?thesis unfolding cache_entry_ok_def using k in_t[OF k(1) False] by (intro bexI[of _ k]) (auto simp: perms)
    qed
  qed
  moreover have "owned t" unfolding owned_def t
  proof
    fix x
    assume "x \<in> set (tenants s)"
    then obtain k where k: "k \<in> set (memberships s)" "mb_tenant_id k = tn_id x" "owner_of s k"
      using inv by (auto simp: access_inv_def owned_def has_owner_def)
    show "has_owner t (tn_id x)"
    proof (cases "mb_id k = mb_id m")
      case True
      then have "tn_id x = mb_tenant_id m" using uniq[OF k(1)] k(2) by simp
      then show ?thesis using owner k by (auto simp: has_owner_def)
    next
      case False
      have "owner_of t k" using k(3) False t(2) by (auto simp: owner_of_iff t)
      then show ?thesis using in_t[OF k(1) False] k(2) by (auto simp: has_owner_def)
    qed
  qed
  ultimately show ?thesis by (simp add: access_inv_def)
qed

text \<open>Another active owner remains when the changed member was not an active owner, or was one of several.\<close>

lemma remaining_owner:
  assumes chk: "identity_chk s = None" and m: "m \<in> set (memberships s)"
    and f: "\<And>x. mb_id (f x) = mb_id x" "\<And>x. mb_tenant_id (f x) = mb_tenant_id x"
    and t: "memberships t = upd_where (\<lambda>x. mb_id x = mb_id m) f (memberships s)"
      "\<And>x. fst x \<noteq> mb_id m \<Longrightarrow> x \<in> set (membership_roles t) \<longleftrightarrow> x \<in> set (membership_roles s)" "roles t = roles s"
    and guard: "owner_of s m \<Longrightarrow> \<not> owner_of t (f m) \<Longrightarrow> active_owner_count (mb_tenant_id m) s > 1"
    and some: "has_owner s (mb_tenant_id m)"
  shows "has_owner t (mb_tenant_id m)"
proof (cases "owner_of t (f m)")
  case True
  have "f m \<in> set (memberships t)" using m by (auto simp: t set_upd_where intro!: exI[of _ m])
  then show ?thesis using True f by (auto simp: has_owner_def)
next
  case False
  have other: "\<exists>k \<in> set (memberships s). mb_tenant_id k = mb_tenant_id m \<and> owner_of s k \<and> mb_id k \<noteq> mb_id m"
  proof (cases "owner_of s m")
    case True
    let ?os = "filter (\<lambda>k. mb_tenant_id k = mb_tenant_id m \<and> owner_of s k) (memberships s)"
    have two: "length ?os > 1" using guard[OF True False] by (simp add: active_owner_count_def)
    have "unique_on mb_id ?os" using identity_chkD(5)[OF chk] by (rule distinct_map_filter)
    then have "card (mb_id ` set ?os) > 1" using two by (metis distinct_card length_map set_map)
    then have "\<not> mb_id ` set ?os \<subseteq> {mb_id m}" by (metis One_nat_def card_mono card.empty card_insert_disjoint finite.emptyI finite.insertI empty_iff leD)
    then show ?thesis by auto
  next
    case False
    obtain k where k: "k \<in> set (memberships s)" "mb_tenant_id k = mb_tenant_id m" "owner_of s k"
      using some by (auto simp: has_owner_def)
    then have "mb_id k \<noteq> mb_id m" using unique_on_inj[OF identity_chkD(5)[OF chk] k(1) m] False by auto
    then show ?thesis using k by blast
  qed
  then obtain k where k: "k \<in> set (memberships s)" "mb_tenant_id k = mb_tenant_id m" "owner_of s k" "mb_id k \<noteq> mb_id m" by blast
  have "k \<in> set (memberships t)" using k by (auto simp: t set_upd_where intro!: exI[of _ k])
  moreover have "owner_of t k" using k t(2) by (auto simp: owner_of_iff t(3))
  ultimately show ?thesis using k(2) by (auto simp: has_owner_def)
qed

text \<open>Renaming a role.\<close>

definition role_view :: "role \<Rightarrow> uuid \<times> uuid option \<times> string \<times> bool" where
  "role_view r = (ro_id r, ro_tenant_id r, ro_code r, ro_is_system r)"

lemma role_viewD:
  assumes "map role_view rs' = map role_view rs" "r \<in> set rs'"
  shows "\<exists>q \<in> set rs. ro_id q = ro_id r \<and> ro_tenant_id q = ro_tenant_id r \<and> ro_code q = ro_code r \<and> ro_is_system q = ro_is_system r"
proof -
  have "role_view r \<in> set (map role_view rs)" using assms by (metis image_eqI list.set_map)
  then show ?thesis by (auto simp: role_view_def)
qed

lemma renamed_access:
  assumes inv: "access_inv s" and t: "map role_view (roles t) = map role_view (roles s)"
    "tenants t = tenants s" "memberships t = memberships s" "invitations t = invitations s"
    "role_permissions t = role_permissions s" "membership_roles t = membership_roles s" "perm_cache t = perm_cache s"
  shows "access_inv t"
proof -
  have owner: "owner_of t m" if "owner_of s m" for m
    using that role_viewD[OF t(1)[symmetric]] unfolding owner_of_iff t by metis
  have "get_permissions i t = get_permissions i s" for i by (simp add: get_permissions_def t)
  then have "cache_ok t" using inv by (simp add: access_inv_def cache_ok_def cache_entry_ok_def t)
  moreover have "role_scope t" using inv role_viewD[OF t(1)] unfolding access_inv_def role_scope_def fits_def t by metis
  moreover have "owned t" using inv owner unfolding access_inv_def owned_def has_owner_def t by metis
  ultimately show ?thesis by (simp add: access_inv_def)
qed

text \<open>Replacing the permissions of a role; the memberships that have it get a new version.\<close>

lemma regranted_access:
  assumes inv: "access_inv s" and chk: "identity_chk s = None"
    and r: "r \<in> set (roles s)" "ro_tenant_id r = Some tenant"
    and t: "memberships t = upd_where (\<lambda>m. mb_id m \<in> set (map fst (filter (\<lambda>x. snd x = ro_id r) (membership_roles s)))
          \<and> mb_tenant_id m = tenant) (\<lambda>m. m\<lparr>mb_roles_version := mb_roles_version m + 1\<rparr>) (memberships s)"
      "\<And>x. fst x \<noteq> ro_id r \<Longrightarrow> x \<in> set (role_permissions t) \<longleftrightarrow> x \<in> set (role_permissions s)"
      "roles t = roles s" "membership_roles t = membership_roles s" "perm_cache t = perm_cache s"
      "tenants t = tenants s" "invitations t = invitations s"
  shows "access_inv t"
proof -
  let ?f = "\<lambda>m. m\<lparr>mb_roles_version := mb_roles_version m + 1\<rparr>"
  have cases: "\<exists>k \<in> set (memberships s). mb_id k = mb_id x \<and> mb_tenant_id k = mb_tenant_id x \<and> mb_status k = mb_status x"
    if "x \<in> set (memberships t)" for x
    using that by (auto simp: t(1) set_upd_where)
  have image: "\<exists>x \<in> set (memberships t). mb_id x = mb_id k \<and> mb_tenant_id x = mb_tenant_id k \<and> mb_status x = mb_status k
      \<and> mb_roles_version k \<le> mb_roles_version x
      \<and> ((mb_id k, ro_id r) \<in> set (membership_roles s) \<longrightarrow> mb_roles_version k < mb_roles_version x)"
    if k: "k \<in> set (memberships s)" for k
  proof (cases "(mb_id k, ro_id r) \<in> set (membership_roles s)")
    case True
    then have "fits (mb_tenant_id k) r" using inv k r(1) unfolding access_inv_def role_scope_def by fastforce
    then have "mb_tenant_id k = tenant" using r(2) by (simp add: fits_def)
    moreover have "mb_id k \<in> set (map fst (filter (\<lambda>x. snd x = ro_id r) (membership_roles s)))" using True by force
    ultimately have "?f k \<in> set (memberships t)" using k unfolding t(1) set_upd_where by (intro CollectI exI[of _ k]) simp
    then show ?thesis by (intro bexI[of _ "?f k"]) simp_all
  next
    case False
    then show ?thesis using k unfolding t(1) set_upd_where by (fastforce intro!: exI[of _ k])
  qed
  have perms: "get_permissions i t = get_permissions i s" if "(i, ro_id r) \<notin> set (membership_roles s)" for i
  proof -
    have "(q, p) \<in> set (role_permissions t) \<longleftrightarrow> (q, p) \<in> set (role_permissions s)" if "(i, q) \<in> set (membership_roles s)" for q p
      using t(2)[of "(q, p)"] that \<open>(i, ro_id r) \<notin> set (membership_roles s)\<close> by auto
    then show ?thesis unfolding set_eq_iff get_permissions_iff t(4) by blast
  qed
  have "cache_ok t" unfolding cache_ok_def
  proof
    fix e
    assume "e \<in> set (perm_cache t)"
    then obtain k where k: "k \<in> set (memberships s)" "mb_id k = fst (fst e)" "snd (fst e) \<le> mb_roles_version k"
      "snd (fst e) = mb_roles_version k \<longrightarrow> snd e = get_permissions (mb_id k) s"
      using inv by (auto simp: access_inv_def cache_ok_def cache_entry_ok_def t)
    obtain x where x: "x \<in> set (memberships t)" "mb_id x = mb_id k" "mb_roles_version k \<le> mb_roles_version x"
      "(mb_id k, ro_id r) \<in> set (membership_roles s) \<longrightarrow> mb_roles_version k < mb_roles_version x"
      using image[OF k(1)] by blast
    show "cache_entry_ok t e" unfolding cache_entry_ok_def
    proof (intro bexI[of _ x] conjI impI)
      assume same: "snd (fst e) = mb_roles_version x"
      then have "(mb_id k, ro_id r) \<notin> set (membership_roles s)" "mb_roles_version x = mb_roles_version k" using x k(3) by auto
      then show "snd e = get_permissions (mb_id x) t" using k same x(2) by (simp add: perms)
    qed (use x k in auto)
  qed
  moreover have "role_scope t" using inv cases unfolding access_inv_def role_scope_def t(3,4,7) by metis
  moreover have "owned t" using inv image unfolding access_inv_def owned_def has_owner_def owner_of_iff t(3,4,6) by metis
  ultimately show ?thesis by (simp add: access_inv_def)
qed

text \<open>A new role, which no membership has yet, and the end of a role which none has any more.\<close>

lemma roles_changed_access:
  assumes inv: "access_inv s" and chk: "identity_chk s = None"
    and roles: "\<And>r. r \<in> set (roles t) \<Longrightarrow> r \<in> set (roles s) \<or> ro_id r \<notin> ro_id ` set (roles s)"
      "\<And>r. r \<in> set (roles s) \<Longrightarrow> ro_is_system r \<Longrightarrow> r \<in> set (roles t)"
    and t: "\<And>x. fst x \<in> snd ` set (membership_roles s) \<Longrightarrow> x \<in> set (role_permissions t) \<longleftrightarrow> x \<in> set (role_permissions s)"
      "tenants t = tenants s" "memberships t = memberships s" "invitations t = invitations s"
      "membership_roles t = membership_roles s" "perm_cache t = perm_cache s"
  shows "access_inv t"
proof -
  have old: "r \<in> set (roles s)" if "r \<in> set (roles t)" "ro_id r \<in> ro_id ` set (roles s)" for r
    using roles(1)[OF that(1)] that(2) by blast
  have "(q, p) \<in> set (role_permissions t) \<longleftrightarrow> (q, p) \<in> set (role_permissions s)" if "(i, q) \<in> set (membership_roles s)" for i q p
    using t(1)[of "(q, p)"] that by force
  then have perms: "get_permissions i t = get_permissions i s" for i
    unfolding set_eq_iff get_permissions_iff t(5) by blast
  have "role_scope t"
    using inv old identity_chkD(11)[OF chk] identity_chkD(12)[OF chk] unfolding access_inv_def role_scope_def t(3,4,5) by metis
  moreover have "cache_ok t" using inv unfolding access_inv_def cache_ok_def cache_entry_ok_def t(3,6) perms by blast
  moreover have "owned t" using inv roles(2) unfolding access_inv_def owned_def has_owner_def owner_of_iff t(2,3,5) by metis
  ultimately show ?thesis by (simp add: access_inv_def)
qed

text \<open>Invitations and the settings of an organisation.\<close>

lemma invited_access:
  assumes inv: "access_inv s"
    and invited: "\<And>v. v \<in> set (invitations t) \<Longrightarrow>
        (\<exists>w \<in> set (invitations s). iv_role_id w = iv_role_id v \<and> iv_tenant_id w = iv_tenant_id v)
        \<or> (\<forall>r \<in> set (roles s). ro_id r = iv_role_id v \<longrightarrow> fits (iv_tenant_id v) r)"
    and t: "tenants t = tenants s" "memberships t = memberships s" "roles t = roles s"
      "role_permissions t = role_permissions s" "membership_roles t = membership_roles s" "perm_cache t = perm_cache s"
  shows "access_inv t"
proof -
  have "role_scope t" using inv invited unfolding access_inv_def role_scope_def t(2,3,5) by metis
  then show ?thesis using inv
    by (simp add: access_inv_def cache_ok_def cache_entry_ok_def owned_def has_owner_def owner_of_iff get_permissions_def t)
qed

lemma resettled_access:
  assumes "access_inv s" "\<And>x. x \<in> set (tenants t) \<Longrightarrow> \<exists>y \<in> set (tenants s). tn_id y = tn_id x"
    "memberships t = memberships s" "invitations t = invitations s" "roles t = roles s"
    "role_permissions t = role_permissions s" "membership_roles t = membership_roles s" "perm_cache t = perm_cache s"
  shows "access_inv t"
proof -
  have "owned t" using assms unfolding access_inv_def owned_def has_owner_def owner_of_iff assms(3,5,7) by metis
  then show ?thesis using assms(1)
    by (simp add: access_inv_def role_scope_def cache_ok_def cache_entry_ok_def get_permissions_def assms(3-))
qed

section \<open>Operations on access\<close>

definition checked_access :: "'a identity_db_scheme \<Rightarrow> bool" where
  "checked_access s \<longleftrightarrow> identity_chk s = None \<and> access_inv s"

lemma access_transaction:
  assumes "\<And>s. checked_access s \<Longrightarrow> wp m (\<lambda>_ t. identity_chk t = None \<longrightarrow> access_inv t) s"
  shows "keeps checked_access (service_transaction identity_chk m)"
  by (rule keeps_committed, rule wp_mono[OF assms]) (auto simp: checked_access_def)

lemmas access_steps = wp_simps add_membership_def assign_role_def raise_missing_or_system_def validate_permissions_def
  replace_permissions_def bump_assigned_memberships_def delete_custom_def get_locked_def require_another_owner_def
  protect_last_owner_def replace_roles_def update_membership_def replace_branches_def set_status_def update_invitation_def
  audit_in_def enqueue_email_def enqueue_def generate_opaque_token_def random_string_def hash_password_def new_user_def Let_def

lemma get_system_owner_roleD: "get_system_owner_role s = Some r \<Longrightarrow> r \<in> set (roles s) \<and> ro_code r = OWNER \<and> ro_is_system r"
  by (auto simp: get_system_owner_role_def dest: find_SomeD)

lemma system_fits: "identity_chk s = None \<Longrightarrow> r \<in> set (roles s) \<Longrightarrow> ro_is_system r \<Longrightarrow> fits tenant r"
  using identity_chkD(10)[of s] by (simp add: fits_def)

interpretation access_outside: outside_transactions checked_access
proof -
  have "access_inv (s\<lparr>uuid_count := n\<rparr>) = access_inv s" "access_inv (s\<lparr>clock_count := n\<rparr>) = access_inv s"
    "access_inv (s\<lparr>token_count := n\<rparr>) = access_inv s" "access_inv (s\<lparr>challenges := cs\<rparr>) = access_inv s"
    for s :: "'a identity_db_scheme" and n cs
    by (rule access_inv_cong; simp)+
  then show "outside_transactions (checked_access :: 'a identity_db_scheme \<Rightarrow> bool)"
    by unfold_locales (simp_all add: checked_access_def)
qed

lemma founded_access:
  assumes s: "checked_access s" and r: "get_system_owner_role s = Some r" and chk: "identity_chk t = None"
    and t: "tenants t = tenants s @ [tn]" "memberships t = memberships s @ [m]"
      "membership_roles t = membership_roles s @ [(mb_id m, ro_id r)]" "roles t = roles s"
      "role_permissions t = role_permissions s" "perm_cache t = perm_cache s" "invitations t = invitations s"
    and m: "mb_tenant_id m = tn_id tn" "mb_status m = MB_ACTIVE"
  shows "access_inv t"
proof (rule joined_access[of s t m r])
  show "x \<in> set (tenants s) \<or> has_owner t (tn_id x)" if "x \<in> set (tenants t)" for x
    using that get_system_owner_roleD[OF r] m by (auto simp: t has_owner_def owner_of_iff)
qed (use s chk r get_system_owner_roleD[OF r] system_fits[of s r] in \<open>simp_all add: t checked_access_def\<close>)

lemma create_organization_access: "stays checked_access (create_organization u tc)"
  unfolding create_organization_def Let_def
  by (intro stays_intros access_transaction) (auto simp: access_steps intro!: founded_access)

lemma update_current_access: "stays checked_access (update_current rc tu)"
proof -
  have id: "tn_id (changed_tenant tu t) = tn_id t" for t
    by (simp add: changed_tenant_def set_field_def set_nullable_def split: option.splits)
  have step: "access_inv t" if "checked_access s" and "tenants t = upd_where p (changed_tenant tu) (tenants s)"
    "memberships t = memberships s" "invitations t = invitations s" "roles t = roles s"
    "role_permissions t = role_permissions s" "membership_roles t = membership_roles s" "perm_cache t = perm_cache s"
    for s t :: "'a identity_db_scheme" and p
    by (rule resettled_access[of s]) (use that id in \<open>auto simp: checked_access_def set_upd_where\<close>)
  show ?thesis unfolding update_current_def
    by (intro stays_intros access_transaction) (auto simp: access_steps intro!: step)
qed

lemma create_role_access: "stays checked_access (create_role rc rl)"
proof -
  have step: "access_inv t"
    if s: "checked_access s" and chk: "identity_chk t = None"
      and t: "roles t = roles s @ [r]" "\<not> ro_is_system r"
        "role_permissions t = filter (\<lambda>x. fst x \<noteq> ro_id r) (role_permissions s) @ map (Pair (ro_id r)) codes"
        "tenants t = tenants s" "memberships t = memberships s" "invitations t = invitations s"
        "membership_roles t = membership_roles s" "perm_cache t = perm_cache s"
    for s t :: "'a identity_db_scheme" and r codes
  proof -
    have new: "ro_id r \<notin> ro_id ` set (roles s)" using identity_chkD(6)[OF chk] by (simp add: t)
    then have "(a, ro_id r) \<notin> set (membership_roles s)" for a
      using s identity_chkD(11)[of s] by (force simp: checked_access_def)
    then show ?thesis
      by (intro roles_changed_access[of s t]) (use s new t in \<open>auto simp: checked_access_def\<close>)
  qed
  show ?thesis unfolding create_role_def Let_def
    by (intro stays_intros access_transaction) (auto simp: access_steps intro!: step)
qed

lemma get_customD: "get_custom rc i s = Some r \<Longrightarrow> r \<in> set (roles s) \<and> ro_id r = i \<and> ro_tenant_id r = Some (tenant_id rc)"
  by (auto simp: get_custom_def dest: find_SomeD)

lemma role_view_rename:
  assumes "identity_chk s = None" "r \<in> set (roles s)" "role_view r' = role_view r"
  shows "map role_view (upd_where (\<lambda>q. ro_id q = ro_id r) (\<lambda>_. r') (roles s)) = map role_view (roles s)"
proof -
  have "role_view q = role_view r'" if "q \<in> set (roles s)" "ro_id q = ro_id r" for q
    using unique_on_inj[OF identity_chkD(6)[OF assms(1)] that(1) assms(2) that(2)] assms(3) by simp
  then show ?thesis by (auto simp: upd_where_def)
qed

lemma update_role_access: "stays checked_access (update_role rc i ru)"
proof -
  have step: "access_inv t"
    if s: "checked_access s" and r: "get_custom rc i s = Some r"
      and t: "map role_view (roles t) = map role_view (roles s)"
        "(memberships t = memberships s \<and> role_permissions t = role_permissions s)
         \<or> (memberships t = upd_where (\<lambda>m. mb_id m \<in> set (map fst (filter (\<lambda>x. snd x = i) (membership_roles s)))
              \<and> mb_tenant_id m = tenant_id rc) (\<lambda>m. m\<lparr>mb_roles_version := mb_roles_version m + 1\<rparr>) (memberships s)
            \<and> (\<forall>x. fst x \<noteq> i \<longrightarrow> (x \<in> set (role_permissions t) \<longleftrightarrow> x \<in> set (role_permissions s))))"
        "tenants t = tenants s" "invitations t = invitations s"
        "membership_roles t = membership_roles s" "perm_cache t = perm_cache s"
    for s t :: "'a identity_db_scheme" and r
  proof -
    let ?s = "t\<lparr>roles := roles s\<rparr>"
    have "access_inv ?s" using t(2)
    proof
      assume "memberships t = memberships s \<and> role_permissions t = role_permissions s"
      then show ?thesis using s access_inv_cong[of ?s s] t by (simp add: checked_access_def)
    next
      assume "memberships t = upd_where (\<lambda>m. mb_id m \<in> set (map fst (filter (\<lambda>x. snd x = i) (membership_roles s)))
              \<and> mb_tenant_id m = tenant_id rc) (\<lambda>m. m\<lparr>mb_roles_version := mb_roles_version m + 1\<rparr>) (memberships s)
            \<and> (\<forall>x. fst x \<noteq> i \<longrightarrow> (x \<in> set (role_permissions t) \<longleftrightarrow> x \<in> set (role_permissions s)))"
      then show ?thesis using s get_customD[OF r]
        by (intro regranted_access[of s r "tenant_id rc" ?s]) (auto simp: checked_access_def t)
    qed
    then show ?thesis by (rule renamed_access) (simp_all add: t)
  qed
  have view: "map role_view (upd_where (\<lambda>q. ro_id q = i) (\<lambda>_. r\<lparr>ro_name := n\<rparr>) (roles s)) = map role_view (roles s)"
    if "checked_access s" "get_custom rc i s = Some r" for s :: "'a identity_db_scheme" and r n
    using role_view_rename[of s r "r\<lparr>ro_name := n\<rparr>"] that get_customD[OF that(2)] by (simp add: checked_access_def role_view_def)
  show ?thesis unfolding update_role_def
    by (intro stays_intros access_transaction)
      (auto simp: access_steps view split: option.splits intro!: step)
qed

lemma delete_role_access: "stays checked_access (delete_role rc i)"
proof -
  have step: "access_inv t"
    if s: "checked_access s" and "assigned_count i s = 0"
      and t: "roles t = filter (\<lambda>r. ro_id r = i \<longrightarrow> ro_tenant_id r \<noteq> Some (tenant_id rc)) (roles s)"
        "role_permissions t = filter (\<lambda>x. fst x \<noteq> i) (role_permissions s)"
        "membership_roles t = filter (\<lambda>x. snd x \<noteq> i) (membership_roles s)"
        "tenants t = tenants s" "memberships t = memberships s" "invitations t = invitations s" "perm_cache t = perm_cache s"
    for s t :: "'a identity_db_scheme"
  proof -
    have unassigned: "(a, i) \<notin> set (membership_roles s)" for a
      using \<open>assigned_count i s = 0\<close> by (auto simp: assigned_count_def filter_empty_conv)
    then have "membership_roles t = membership_roles s" by (auto simp: t filter_id_conv)
    then show ?thesis
      by (intro roles_changed_access[of s t])
        (use s t unassigned identity_chkD(10)[of s] in \<open>auto simp: checked_access_def\<close>)
  qed
  show ?thesis unfolding delete_role_def
    by (intro stays_intros access_transaction) (auto simp: access_steps split: option.splits intro!: step)
qed

lemma repo_memberD:
  assumes "repo_member rc i s = Some x"
  shows "mr_membership x \<in> set (memberships s)" "mb_id (mr_membership x) = i" "mb_tenant_id (mr_membership x) = tenant_id rc"
    "set (mr_role_ids x) = {r. (i, r) \<in> set (membership_roles s)}"
  using assms by (auto simp: repo_member_def member_record_def dest!: find_SomeD split: option.splits) force+

text \<open>The guard of the services reads the owner role by its code; there is one system role of that code.\<close>

lemma active_owner_iff:
  assumes "identity_chk s = None" and "repo_member rc i s = Some x"
  shows "is_active_owner (owner_role_id s) x \<longleftrightarrow> owner_of s (mr_membership x)"
proof -
  have same: "q = r" if "q \<in> set (roles s)" "r \<in> set (roles s)" "ro_code q = OWNER" "ro_code r = OWNER"
    "ro_is_system q" "ro_is_system r" for q r
    using unique_where_inj[OF identity_chkD(9)[OF assms(1)], of q r] identity_chkD(10)[OF assms(1)] that by auto
  show ?thesis
  proof (cases "get_system_owner_role s")
    case None
    then have "\<not> (ro_code r = OWNER \<and> ro_is_system r)" if "r \<in> set (roles s)" for r
      using that by (auto simp: get_system_owner_role_def find_None_iff)
    then show ?thesis by (auto simp: is_active_owner_def owner_role_id_def None owner_of_iff)
  next
    case (Some r)
    then show ?thesis using same get_system_owner_roleD[OF Some] repo_memberD[OF assms(2)]
      by (auto simp: is_active_owner_def owner_role_id_def owner_of_iff)
  qed
qed

lemma member_step:
  assumes s: "checked_access s" and x: "repo_member rc i s = Some x" and chk: "identity_chk t = None"
    and t: "memberships t = upd_where (\<lambda>m. mb_id m = i) f (memberships s)"
      "\<And>y. fst y \<noteq> i \<Longrightarrow> y \<in> set (membership_roles t) \<longleftrightarrow> y \<in> set (membership_roles s)"
      "roles t = roles s" "role_permissions t = role_permissions s" "perm_cache t = perm_cache s"
      "tenants t = tenants s" "invitations t = invitations s"
    and f: "\<And>m. mb_id (f m) = mb_id m" "\<And>m. mb_tenant_id (f m) = mb_tenant_id m" "\<And>m. mb_roles_version (f m) = Suc (mb_roles_version m)"
    and scope: "\<And>r. r \<in> set (roles s) \<Longrightarrow> (i, ro_id r) \<in> set (membership_roles t) \<Longrightarrow> fits (tenant_id rc) r"
    and guard: "is_active_owner (owner_role_id s) x \<Longrightarrow> \<not> owner_of t (f (mr_membership x)) \<Longrightarrow> \<not> active_owner_count (tenant_id rc) s \<le> 1"
  shows "access_inv t"
proof -
  note m = repo_memberD[OF x]
  have s': "identity_chk s = None" "access_inv s" using s by (simp_all add: checked_access_def)
  have count: "active_owner_count (tenant_id rc) s > 1" if "owner_of s (mr_membership x)" "\<not> owner_of t (f (mr_membership x))"
    using guard that active_owner_iff[OF s'(1) x] by simp
  have owner: "has_owner t (mb_tenant_id (mr_membership x))" if "has_owner s (mb_tenant_id (mr_membership x))"
    by (rule remaining_owner[OF s'(1) m(1) f(1,2)]) (use t(1-3) m(2,3) count that in simp_all)
  show ?thesis
    by (rule changed_member_access[OF s'(2,1) chk m(1) f]) (use t m(2,3) scope owner in simp_all)
qed

lemma grantedD:
  assumes "ro_id ` set (grantable_roles rc ids s) = set ids" "r \<in> set (roles s)" "ro_id r \<in> set ids" "identity_chk s = None"
  shows "fits (tenant_id rc) r"
proof -
  have "ro_id r \<in> ro_id ` set (grantable_roles rc ids s)" using assms by simp
  then obtain q where q: "q \<in> set (roles s)" "visible_role rc q" "ro_id q = ro_id r" by (auto simp: grantable_roles_def)
  then show ?thesis using unique_on_inj[OF identity_chkD(6)[OF assms(4)] q(1) assms(2) q(3)]
    by (auto simp: visible_role_def fits_def)
qed

lemma update_roles_access: "stays checked_access (update_roles rc i ids)"
proof -
  have step: "access_inv t"
    if s: "checked_access s" and x: "repo_member rc i s = Some x" and chk: "identity_chk t = None"
      and grant: "ro_id ` set (grantable_roles rc ids s) = set ids"
      and t: "memberships t = upd_where (\<lambda>m. mb_id m = mb_id (mr_membership x)) (\<lambda>m. m\<lparr>mb_roles_version := mb_roles_version m + 1\<rparr>) (memberships s)"
        "membership_roles t = filter (\<lambda>y. fst y \<noteq> mb_id (mr_membership x)) (membership_roles s)
           @ map (Pair (mb_id (mr_membership x))) (sorted_items ids)"
        "roles t = roles s" "role_permissions t = role_permissions s" "perm_cache t = perm_cache s"
        "tenants t = tenants s" "invitations t = invitations s"
      and guard: "is_active_owner (owner_role_id s) x \<and> \<not> (case owner_role_id s of None \<Rightarrow> False | Some w \<Rightarrow> w \<in> set ids)
        \<Longrightarrow> \<not> active_owner_count (tenant_id rc) s \<le> 1"
    for s t :: "'a identity_db_scheme" and x
  proof (rule member_step[OF s x chk])
    note m = repo_memberD[OF x]
    show "fits (tenant_id rc) r" if "r \<in> set (roles s)" "(i, ro_id r) \<in> set (membership_roles t)" for r
      using that grantedD[OF grant that(1)] s by (auto simp: t m checked_access_def sorted_items_def)
    show "\<not> active_owner_count (tenant_id rc) s \<le> 1"
      if a: "is_active_owner (owner_role_id s) x" and "\<not> owner_of t ((mr_membership x)\<lparr>mb_roles_version := mb_roles_version (mr_membership x) + 1\<rparr>)"
    proof (rule guard, rule conjI[OF a], rule notI)
      assume "case owner_role_id s of None \<Rightarrow> False | Some w \<Rightarrow> w \<in> set ids"
      then have "owner_of t ((mr_membership x)\<lparr>mb_roles_version := mb_roles_version (mr_membership x) + 1\<rparr>)"
        using a get_system_owner_roleD[of s] m
        by (auto simp: owner_role_id_def is_active_owner_def owner_of_iff t sorted_items_def split: option.splits)
      then show False using that(2) by simp
    qed
  qed (use t repo_memberD[OF x] in \<open>auto simp: sorted_items_def\<close>)
  show ?thesis unfolding update_roles_def Let_def
    by (intro stays_intros access_transaction) (auto simp: access_steps intro!: step)
qed

lemma status_step:
  assumes s: "checked_access s" and x: "repo_member rc i s = Some x" and chk: "identity_chk t = None"
    and t: "memberships t = upd_where (\<lambda>m. mb_id m = mb_id (mr_membership x))
          (\<lambda>m. m\<lparr>mb_status := status, mb_roles_version := mb_roles_version m + 1\<rparr>) (memberships s)"
      "membership_roles t = membership_roles s" "roles t = roles s" "role_permissions t = role_permissions s"
      "perm_cache t = perm_cache s" "tenants t = tenants s" "invitations t = invitations s"
    and guard: "status \<noteq> MB_ACTIVE \<Longrightarrow> is_active_owner (owner_role_id s) x \<Longrightarrow> \<not> active_owner_count (tenant_id rc) s \<le> 1"
  shows "access_inv t"
proof (rule member_step[OF s x chk])
  note m = repo_memberD[OF x]
  show "fits (tenant_id rc) r" if "r \<in> set (roles s)" "(i, ro_id r) \<in> set (membership_roles t)" for r
    using that s m(1-3) unfolding t(2) checked_access_def access_inv_def role_scope_def by fastforce
  show "\<not> active_owner_count (tenant_id rc) s \<le> 1" if a: "is_active_owner (owner_role_id s) x"
      and b: "\<not> owner_of t ((mr_membership x)\<lparr>mb_status := status, mb_roles_version := mb_roles_version (mr_membership x) + 1\<rparr>)"
  proof (rule guard[OF notI a])
    assume "status = MB_ACTIVE"
    then show False using a b active_owner_iff[OF _ x] s by (auto simp: owner_of_iff t checked_access_def)
  qed
qed (use t repo_memberD[OF x] in auto)

lemma member_status_access: "stays checked_access (update_status rc i status)" "stays checked_access (remove_member rc i)"
  unfolding update_status_def remove_member_def Let_def
  by (intro stays_intros access_transaction, auto simp: access_steps checked_access_def intro!: status_step)+

lemma access_inv_base [simp]:
  "access_inv (s\<lparr>membership_branches := bs\<rparr>) = access_inv s" "access_inv (s\<lparr>audit_events := es\<rparr>) = access_inv s"
  by (rule access_inv_cong; simp)+

lemma update_branches_access: "stays checked_access (update_branches rc i ids)"
  unfolding update_branches_def require_grantable_branches_def
  by (intro stays_intros access_transaction) (auto simp: access_steps checked_access_def)

lemma invite_access: "stays checked_access (invite c st rc ic)"
proof -
  have step: "access_inv t"
    if s: "checked_access s" and r: "role_in_tenant rc j s = Some r" and t: "invitations t = invitations s @ [v]"
      "iv_role_id v = ro_id r" "iv_tenant_id v = tenant_id rc" "tenants t = tenants s" "memberships t = memberships s"
      "roles t = roles s" "role_permissions t = role_permissions s" "membership_roles t = membership_roles s" "perm_cache t = perm_cache s"
    for s t :: "'a identity_db_scheme" and r v j
  proof (rule invited_access[of s])
    have r': "r \<in> set (roles s)" "visible_role rc r" using r by (auto simp: role_in_tenant_def dest: find_SomeD)
    have "fits (tenant_id rc) q" if "q \<in> set (roles s)" "ro_id q = ro_id r" for q
      using unique_on_inj[OF identity_chkD(6) that(1) r'(1) that(2)] s r'(2)
      by (auto simp: checked_access_def visible_role_def fits_def)
    then show "(\<exists>w \<in> set (invitations s). iv_role_id w = iv_role_id u \<and> iv_tenant_id w = iv_tenant_id u)
        \<or> (\<forall>r \<in> set (roles s). ro_id r = iv_role_id u \<longrightarrow> fits (iv_tenant_id u) r)" if "u \<in> set (invitations t)" for u
      using that t by auto
  qed (use s t in \<open>simp_all add: checked_access_def\<close>)
  show ?thesis unfolding invite_def Let_def
    by (intro stays_intros access_transaction) (auto simp: access_steps intro!: step)
qed

lemma same_invitations_access:
  assumes s: "checked_access s"
    and t: "map (\<lambda>v. (iv_role_id v, iv_tenant_id v)) (invitations t) = map (\<lambda>v. (iv_role_id v, iv_tenant_id v)) (invitations s)"
      "tenants t = tenants s" "memberships t = memberships s"
      "roles t = roles s" "role_permissions t = role_permissions s" "membership_roles t = membership_roles s" "perm_cache t = perm_cache s"
  shows "access_inv t"
proof (rule invited_access[of s])
  show "(\<exists>w \<in> set (invitations s). iv_role_id w = iv_role_id v \<and> iv_tenant_id w = iv_tenant_id v)
      \<or> (\<forall>r \<in> set (roles s). ro_id r = iv_role_id v \<longrightarrow> fits (iv_tenant_id v) r)" if "v \<in> set (invitations t)" for v
    using same_invitation[OF t(1) that] by blast
qed (use s t in \<open>simp_all add: checked_access_def\<close>)

lemma invitation_access: "stays checked_access (revoke_invitation rc i)" "stays checked_access (resend_invitation c st rc i)"
  unfolding revoke_invitation_def resend_invitation_def Let_def
  by (intro stays_intros access_transaction, auto simp: access_steps intro!: same_invitations_access)+

lemma build_tenant_context_access: "stays checked_access (build_tenant_context alive u tn)"
proof -
  have "checked_access (s\<lparr>perm_cache := ((mb_id m, mb_roles_version m), get_permissions (mb_id m) s) # perm_cache s\<rparr>)"
    if "checked_access s" "get_active_membership u tn s = Some m" for s :: "'a identity_db_scheme" and m
  proof -
    have "m \<in> set (memberships s)" using that(2) by (auto simp: get_active_membership_def dest: find_SomeD)
    then show ?thesis using that(1)
      by (auto simp: checked_access_def access_inv_def role_scope_def cache_ok_def cache_entry_ok_def owned_def has_owner_def owner_of_iff
          get_permissions_def)
  qed
  then show ?thesis
    by (simp add: stays_def build_tenant_context_def bnd_def gets_def some_or_def raise_def ret_def run_if_def modify_def Let_def
        split: option.splits)
qed

lemma accept_access: "stays checked_access (accept c ia)"
proof -
  have step: "access_inv t"
    if s: "checked_access s" and v: "find P (invitations s) = Some v" and chk: "identity_chk t = None"
      and t: "memberships t = memberships s @ [m]" "membership_roles t = membership_roles s @ [(mb_id m, iv_role_id v)]"
        "mb_tenant_id m = iv_tenant_id v" "roles t = roles s" "role_permissions t = role_permissions s" "perm_cache t = perm_cache s"
        "map (\<lambda>v. (iv_role_id v, iv_tenant_id v)) (invitations t) = map (\<lambda>v. (iv_role_id v, iv_tenant_id v)) (invitations s)"
        "tenants t = tenants s"
    for s t :: "'a identity_db_scheme" and v m P
  proof -
    have v': "v \<in> set (invitations s)" using v by (auto dest: find_SomeD)
    have ok: "identity_chk s = None" "access_inv s" using s by (simp_all add: checked_access_def)
    obtain r where r: "r \<in> set (roles s)" "ro_id r = iv_role_id v" using identity_chkD(12)[OF ok(1)] v' by auto
    have "fits (mb_tenant_id m) r" using ok(2) v' r t(3) by (simp add: access_inv_def role_scope_def)
    then show ?thesis using ok chk r t by (intro joined_access[of s t m r]) simp_all
  qed
  have user: "wp (resolve_user c em ia) Q s"
    if "\<And>x t. identity_chk t = None \<or> t = s \<Longrightarrow> tenants t = tenants s \<Longrightarrow> memberships t = memberships s \<Longrightarrow> invitations t = invitations s \<Longrightarrow> roles t = roles s \<Longrightarrow>
      role_permissions t = role_permissions s \<Longrightarrow> membership_roles t = membership_roles s \<Longrightarrow> perm_cache t = perm_cache s \<Longrightarrow> Q x t"
    for em Q and s :: "'a identity_db_scheme"
    using that by (auto simp: resolve_user_def access_steps split: option.splits)
  show ?thesis unfolding accept_def Let_def
    by (intro stays_intros access_transaction) (auto simp: wp_simps intro!: user, auto simp: access_steps intro!: step)
qed

section \<open>Reachable states\<close>

text \<open>The requests of the identity modules that write, with any parameters and any answers of Redis.\<close>

definition void :: "('s, 'r) tx \<Rightarrow> ('s, unit) tx" where
  "void m = bnd m (\<lambda>_. ret ())"

inductive identity_request :: "('a identity_db_scheme, unit) tx \<Rightarrow> bool" where
  "identity_request (void (register_user c rr))"
| "identity_request (void (login c st lr))"
| "identity_request (void (challenge_create u))"
| "identity_request (void (mfa_challenge c st alive tok code))"
| "identity_request (logout sid)"
| "identity_request (void (logout_all u))"
| "identity_request (void (switch_tenant c st u sid tn))"
| "identity_request (void (rotate_refresh_token c st raw tid))"
| "identity_request (void (issue_verification_token c st em))"
| "identity_request (void (verify_email c raw))"
| "identity_request (void (issue_password_reset c st em))"
| "identity_request (void (reset_password c raw pw))"
| "identity_request (void (change_password c u old pw sid))"
| "identity_request (void (mfa_setup u))"
| "identity_request (void (mfa_enable c st u code))"
| "identity_request (mfa_disable_request c st u pw code)"
| "identity_request (void (create_organization u tc))"
| "identity_request (void (update_current (rc :: RequestContext) tu))"
| "identity_request (void (build_tenant_context cached u tn))"
| "identity_request (void (create_role (rc :: RequestContext) rl))"
| "identity_request (void (update_role (rc :: RequestContext) i ru))"
| "identity_request (delete_role (rc :: RequestContext) i)"
| "identity_request (void (update_roles (rc :: RequestContext) i ids))"
| "identity_request (void (update_branches (rc :: RequestContext) i ids))"
| "identity_request (void (update_status (rc :: RequestContext) i ms))"
| "identity_request (remove_member (rc :: RequestContext) i)"
| "identity_request (void (invite c st (rc :: RequestContext) ic))"
| "identity_request (revoke_invitation (rc :: RequestContext) i)"
| "identity_request (void (resend_invitation c st (rc :: RequestContext) i))"
| "identity_request (void (accept c ia))"

definition seeded :: "'a identity_db_scheme \<Rightarrow> bool" where
  "seeded s \<longleftrightarrow> identity_chk s = None \<and> refresh_tokens s = [] \<and> tenants s = [] \<and> membership_roles s = [] \<and> invitations s = []
     \<and> perm_cache s = []"

inductive identity_reachable :: "'a identity_db_scheme \<Rightarrow> bool" where
  seed: "seeded s \<Longrightarrow> identity_reachable s"
| serve: "identity_reachable s \<Longrightarrow> identity_request m \<Longrightarrow> identity_reachable (snd (m s))"

definition identity_inv :: "'a identity_db_scheme \<Rightarrow> bool" where
  "identity_inv s \<longleftrightarrow> checked_tokens s \<and> checked_access s"

lemma stays_void: "stays I m \<Longrightarrow> stays I (void m)"
  unfolding void_def by (intro stays_intros)

lemma stays_and: "stays I m \<Longrightarrow> stays J m \<Longrightarrow> stays (\<lambda>s. I s \<and> J s) m"
  by (simp add: stays_def)

lemma tokens_split: "checked_tokens = (\<lambda>s. identity_chk s = None \<and> one_usable_token s)"
  and access_split: "checked_access = (\<lambda>s. identity_chk s = None \<and> access_inv s)"
  by (simp_all add: fun_eq_iff checked_tokens_def checked_access_def)

lemma more_checked_stays:
  "stays (\<lambda>s. identity_chk s = None) (mfa_challenge c st alive tok code)"
  "stays (\<lambda>s. identity_chk s = None) (mfa_disable_request c st u pw code)"
  unfolding mfa_challenge_def mfa_disable_request_def verify_code_def
  by (intro stays_intros checked_outside.stays_drawn checked_stays)+

lemma sign_in_tokens:
  "stays checked_tokens (login c st lr)" "stays checked_tokens (rotate_refresh_token c st raw tid)"
  "stays checked_tokens (mfa_challenge c st alive tok code)"
proof -
  show "stays checked_tokens (login c st lr)" "stays checked_tokens (rotate_refresh_token c st raw tid)"
    by (rule tokens_outside.sign_in_outside[OF login_tokens rotate_tokens])+
  have "stays checked_tokens (complete_mfa_login c st u)" for u
    unfolding complete_mfa_login_def by (intro stays_intros tokens_outside.stays_drawn complete_mfa_tokens)
  moreover have "stays checked_tokens (consume_recovery_code c u code)" for c u code
    unfolding tokens_split by (intro stays_and checked_stays tokens_beside_links.link_transactions_stay)
  ultimately show "stays checked_tokens (mfa_challenge c st alive tok code)" by (intro tokens_outside.mfa_challenge_outside)
qed

lemma request_tokens: "identity_request m \<Longrightarrow> stays checked_tokens m"
  by (cases m rule: identity_request.cases)
    (auto intro!: stays_void sign_in_tokens, auto simp: tokens_split intro!: stays_void stays_and checked_stays more_checked_stays
      checked_outside.stays_drawn tokens_beside_links.link_transactions_stay tokens_beside_links.links_stay
      tokens_beside_links.stays_challenge tokens_beside_links.mfa_disable_request_stays tokens_beside_access.access_stays)

lemma request_access: "identity_request m \<Longrightarrow> stays checked_access m"
  by (cases m rule: identity_request.cases)
    (auto intro!: stays_void create_organization_access update_current_access create_role_access update_role_access
      delete_role_access update_roles_access member_status_access update_branches_access invite_access invitation_access
      accept_access build_tenant_context_access, auto simp: access_split intro!: stays_void stays_and checked_stays more_checked_stays
      checked_outside.stays_drawn access_beside_sign_in.link_transactions_stay access_beside_sign_in.links_stay
      access_beside_sign_in.stays_challenge access_beside_sign_in.mfa_disable_request_stays access_beside_sign_in.sign_in_stays
      access_beside_sign_in.mfa_challenge_stays)

lemma seeded_inv: "seeded s \<Longrightarrow> identity_inv s"
  by (simp add: seeded_def identity_inv_def checked_tokens_def checked_access_def one_usable_token_def access_inv_def
      role_scope_def cache_ok_def owned_def)

lemma identity_reachable_inv: "identity_reachable s \<Longrightarrow> identity_inv s"
proof (induction rule: identity_reachable.induct)
  case (serve s m)
  then show ?case using staysD[OF request_tokens[of m]] staysD[OF request_access[of m]] by (simp add: identity_inv_def)
qed (simp add: seeded_inv)

end
