(* ===== verification/Session_History.thy ===== *)
theory Session_History
  imports Access_Invariant
begin

text \<open>
  What sign-in never takes back. A fact about sessions or refresh tokens that survives the few writes to those two tables
  survives every request of the identity modules; two such facts are that a refresh token was used and that a session
  was revoked.
\<close>

section \<open>Facts that stay\<close>

locale session_history = beside_access I for I :: "'a identity_db_scheme \<Rightarrow> bool" +
  assumes one_time_tables [simp]: "I (s\<lparr>email_verification_tokens := vs\<rparr>) = I s" "I (s\<lparr>password_reset_tokens := ps\<rparr>) = I s"
      "I (s\<lparr>mfa_credentials := cs\<rparr>) = I s" "I (s\<lparr>mfa_recovery_codes := rcs\<rparr>) = I s" "I (s\<lparr>challenges := chs\<rparr>) = I s"
    and revokes [keeps_intros]: "keeps I (revoke_session sid reason)" "keeps I (revoke_all_sessions u reason ex)"
    and rotates [keeps_intros]: "keeps I (update_session i (\<lambda>e. e\<lparr>se_last_used_at := d\<rparr>))"
      "keeps I (update_refresh i (\<lambda>t. t\<lparr>rk_used_at := Some d, rk_replaced_by_id := Some r\<rparr>))"
      "keeps I (add_refresh_token c st sid raw d)"
    and opens [keeps_intros]: "keeps I (auth_open_session c st u tid d)"
begin

lemma keeps_steps [keeps_intros]:
  "keeps I (fail_login usr d)" "keeps I (invalidate_outstanding_reset_tokens u d)" "keeps I (add_recovery_code c u code)"
  by (simp_all add: keeps_def wp_simps fail_login_def update_user_def invalidate_outstanding_reset_tokens_def
      add_recovery_code_def Let_def split: option.splits)

lemma keeps_recovery_codes [keeps_intros]: "keeps I (replace_recovery_codes c st u)"
  unfolding replace_recovery_codes_def by (intro keeps_intros; simp)+

lemma keeps_attempts [keeps_intros]:
  "keeps I (sign_in c st usr d)" "keeps I (login_attempt c st lr d)" "keeps I (rotate_attempt c st raw tid d)"
  unfolding login_attempt_def rotate_attempt_def sign_in_def Let_def by (intro keeps_intros; simp)+

lemma challenges_stay [stays_intros]: "stays I (challenge_consume tok)" "stays I (challenge_create u)"
  unfolding challenge_consume_def challenge_create_def by (intro stays_intros; simp)+

lemma sign_in_stay [stays_intros]:
  "stays I (register_user c rr)" "stays I (login c st lr)" "stays I (complete_mfa_login c st u)" "stays I (logout sid)"
  "stays I (logout_all u)" "stays I (current_user st u)" "stays I (switch_tenant c st u sid tn)"
  "stays I (rotate_refresh_token c st raw tid)"
  unfolding register_user_def login_def complete_mfa_login_def logout_def logout_all_def current_user_def switch_tenant_def
    rotate_refresh_token_def Let_def
  by (intro stays_intros keeps_intros; simp)+

lemma links_stay [stays_intros]:
  "stays I (issue_verification_token c st em)" "stays I (verify_email c raw)" "stays I (issue_password_reset c st em)"
  "stays I (reset_password c raw pw)" "stays I (change_password c u old pw sid)"
  unfolding issue_verification_token_def verify_email_def issue_password_reset_def reset_password_def change_password_def
  by (intro stays_intros keeps_intros; simp)+

lemma factors_stay [stays_intros]:
  "stays I (mfa_setup u)" "stays I (mfa_enable c st u code)" "stays I (mfa_disable u)" "stays I (consume_recovery_code c u code)"
  unfolding mfa_setup_def mfa_enable_def mfa_disable_def consume_recovery_code_def
  by (intro stays_intros keeps_intros; simp)+

lemma verify_code_stays [stays_intros]: "stays I (verify_code c u code)"
  unfolding verify_code_def by (intro stays_intros)

lemma challenge_requests_stay [stays_intros]:
  "stays I (mfa_challenge c st alive tok code)" "stays I (mfa_disable_request c st u pw code)"
  unfolding mfa_challenge_def mfa_disable_request_def by (intro stays_intros)+

lemma requests_stay: "identity_request m \<Longrightarrow> stays I m"
  by (cases m rule: identity_request.cases) (auto intro!: stays_void stays_intros access_stays)

end

text \<open>The states that come after a state, by any requests of anyone.\<close>

inductive identity_later :: "'a identity_db_scheme \<Rightarrow> 'a identity_db_scheme \<Rightarrow> bool" where
  now: "identity_later s s"
| after: "identity_later s t \<Longrightarrow> identity_request m \<Longrightarrow> identity_later s (snd (m t))"

context session_history
begin

lemma later_keeps: "identity_later s t \<Longrightarrow> I s \<Longrightarrow> I t"
  by (induction rule: identity_later.induct) (auto dest: requests_stay staysD)

end

lemma identity_later_reachable: "identity_later s t \<Longrightarrow> identity_reachable s \<Longrightarrow> identity_reachable t"
  by (induction rule: identity_later.induct) (auto intro: identity_reachable.serve)

section \<open>Used refresh tokens and revoked sessions\<close>

definition spent :: "string \<Rightarrow> 'a identity_db_scheme \<Rightarrow> bool" where
  "spent h s \<longleftrightarrow> (\<exists>t \<in> set (refresh_tokens s). rk_token_hash t = h \<and> rk_used_at t \<noteq> None)"

definition revoked :: "uuid \<Rightarrow> 'a identity_db_scheme \<Rightarrow> bool" where
  "revoked sid s \<longleftrightarrow> (\<exists>e \<in> set (auth_sessions s). se_id e = sid \<and> se_revoked_at e \<noteq> None)"

lemma some_upd_where:
  assumes "\<exists>x \<in> set xs. P x" and "\<And>x. P x \<Longrightarrow> P (f x)"
  shows "\<exists>x \<in> set (upd_where p f xs). P x"
proof -
  obtain x where x: "x \<in> set xs" "P x" using assms(1) by blast
  then have "(if p x then f x else x) \<in> set (upd_where p f xs)" unfolding upd_where_def by auto
  then show ?thesis using x(2) assms(2) by (metis (full_types))
qed

interpretation spent: session_history "spent h" for h
  by unfold_locales
    (auto simp: keeps_def wp_simps spent_def revoke_session_def revoke_all_sessions_def update_session_def update_refresh_def
      add_refresh_token_def auth_open_session_def generate_opaque_token_def random_string_def create_access_token_def Let_def
      intro!: some_upd_where)

interpretation revoked: session_history "revoked sid" for sid
  by unfold_locales
    (auto simp: keeps_def wp_simps revoked_def revoke_session_def revoke_all_sessions_def update_session_def update_refresh_def
      add_refresh_token_def auth_open_session_def generate_opaque_token_def random_string_def create_access_token_def Let_def
      intro!: some_upd_where)

section \<open>Refusals\<close>


lemma raised: "wp m (\<lambda>_ _. False) s \<Longrightarrow> \<exists>e. fst (m s) = Inl e"
  by (auto simp: wp_def split: prod.splits sum.splits)

lemma find_refresh:
  assumes "identity_chk s = None" and "t \<in> set (refresh_tokens s)"
  shows "get_refresh_for_update (rk_token_hash t) s = Some t"
  unfolding get_refresh_for_update_def using assms(2) identity_chkD(3)[OF assms(1)] by (simp add: find_distinct_iff)

lemma find_session:
  assumes "identity_chk s = None" and "e \<in> set (auth_sessions s)"
  shows "get_session (se_id e) s = Some e"
  unfolding get_session_def using assms(2) identity_chkD(1)[OF assms(1)] by (simp add: find_distinct_iff)

lemma marked_row:
  assumes "find (\<lambda>t. rk_token_hash t = h) xs = Some x"
  shows "\<exists>t \<in> set (upd_where (\<lambda>t. rk_id t = rk_id x) (\<lambda>t. t\<lparr>rk_used_at := Some d, rk_replaced_by_id := Some r\<rparr>) xs).
      rk_token_hash t = h \<and> (\<exists>y. rk_used_at t = Some y)"
proof -
  have "x\<lparr>rk_used_at := Some d, rk_replaced_by_id := Some r\<rparr>
      \<in> set (upd_where (\<lambda>t. rk_id t = rk_id x) (\<lambda>t. t\<lparr>rk_used_at := Some d, rk_replaced_by_id := Some r\<rparr>) xs)"
    using find_SomeD[OF assms] by (auto simp: set_upd_where)
  then show ?thesis by (rule bexI[rotated]) (use find_SomeD[OF assms] in simp)
qed

lemma rotation_spends: "wp (rotate_refresh_token c st raw tn) (\<lambda>_. spent (hash_opaque_token c raw)) s"
  by (auto simp: wp_simps rotate_refresh_token_def rotate_attempt_def generate_opaque_token_def random_string_def
      add_refresh_token_def update_refresh_def update_session_def create_access_token_def revoke_session_def Let_def
      get_refresh_for_update_def spent_def bex_Un intro: marked_row)

lemma spent_refused:
  assumes "identity_chk s = None" and "spent (hash_opaque_token c raw) s"
  shows "\<exists>e. fst (rotate_refresh_token c st raw tn s) = Inl e"
proof (rule raised)
  obtain t where t: "t \<in> set (refresh_tokens s)" "rk_token_hash t = hash_opaque_token c raw" "rk_used_at t \<noteq> None"
    using assms(2) by (auto simp: spent_def)
  have "get_refresh_for_update (hash_opaque_token c raw) s' = Some t" if "refresh_tokens s' = refresh_tokens s" for s' :: "'a identity_db_scheme"
    using find_refresh[OF assms(1) t(1)] that by (simp add: t(2) get_refresh_for_update_def)
  then show "wp (rotate_refresh_token c st raw tn) (\<lambda>_ _. False) s"
    using t(3) by (simp add: rotate_refresh_token_def rotate_attempt_def wp_simps)
qed

lemma revoked_refused:
  assumes "identity_chk s = None" and "revoked sid s"
  shows "get_refresh_for_update (hash_opaque_token c raw) s = Some t \<Longrightarrow> rk_session_id t = sid
      \<Longrightarrow> \<exists>e. fst (rotate_refresh_token c st raw tn s) = Inl e"
    and "jwt_decode c token = Inr claims \<Longrightarrow> ac_session_id claims = sid
      \<Longrightarrow> fst (get_current_identity c denylisted (Some token) s) = Inl SESSION_REVOKED"
    and "\<exists>e. fst (switch_tenant c st u sid tenant s) = Inl e"
proof -
  obtain e where e: "e \<in> set (auth_sessions s)" "se_id e = sid" "se_revoked_at e \<noteq> None"
    using assms(2) by (auto simp: revoked_def)
  have found: "get_session sid s' = Some e" if "auth_sessions s' = auth_sessions s" for s' :: "'a identity_db_scheme"
    using find_session[OF assms(1) e(1)] that by (simp add: e(2) get_session_def)
  show "\<exists>e. fst (rotate_refresh_token c st raw tn s) = Inl e"
    if "get_refresh_for_update (hash_opaque_token c raw) s = Some t" "rk_session_id t = sid"
    by (rule raised) (use that e(3) found in \<open>auto simp: rotate_refresh_token_def rotate_attempt_def wp_simps get_refresh_for_update_def\<close>)
  show "fst (get_current_identity c denylisted (Some token) s) = Inl SESSION_REVOKED"
    if "jwt_decode c token = Inr claims" "ac_session_id claims = sid"
    using that e(3) found[of s] by (auto simp: get_current_identity_def some_or_def lift_res_def require_def bnd_def ret_def raise_def gets_def)
  show "\<exists>e. fst (switch_tenant c st u sid tenant s) = Inl e"
    by (rule raised) (use e(3) found in \<open>auto simp: switch_tenant_def wp_simps\<close>)
qed

lemmas run_defs = bnd_def gets_def modify_def ret_def raise_def require_def run_if_def some_or_def lift_res_def
  service_transaction_def flush_def

lemma run_apply:
  "bnd m f s = (case m s of (Inl e, s') \<Rightarrow> (Inl e, s') | (Inr x, s') \<Rightarrow> f x s')"
  "gets g s = (Inr (g s), s)" "modify h s = (Inr (), h s)" "ret x s = (Inr x, s)" "raise e s = (Inl e, s)"
  "require b e s = (if b then (Inr (), s) else (Inl e, s))" "run_if b u s = (if b then u s else (Inr (), s))"
  "some_or e r s = (case r of None \<Rightarrow> (Inl e, s) | Some y \<Rightarrow> (Inr y, s))"
  "lift_res q s = (case q of Inl e \<Rightarrow> (Inl e, s) | Inr x \<Rightarrow> (Inr x, s))"
  "flush chk s = (case chk s of None \<Rightarrow> (Inr (), s) | Some e \<Rightarrow> (Inl e, s))"
  "service_transaction chk m s = (case m s of (Inl e, _) \<Rightarrow> (Inl e, s)
     | (Inr x, s') \<Rightarrow> (case chk s' of None \<Rightarrow> (Inr x, s') | Some e \<Rightarrow> (Inl e, s)))"
  "on_integrity_error e m s = (case m s of (Inl e', s') \<Rightarrow> (Inl (if e' = IntegrityError then e else e'), s') | r \<Rightarrow> r)"
  by (simp_all add: run_defs on_integrity_error_def split: prod.splits sum.splits option.splits error.splits)

lemma identity_chk_sessions:
  assumes "map se_id ss = map se_id (auth_sessions s)"
  shows "identity_chk (s\<lparr>auth_sessions := ss\<rparr>) = identity_chk s"
proof -
  have "se_id ` set ss = se_id ` set (auth_sessions s)" using arg_cong[OF assms, of set] by simp
  then show ?thesis using assms by (simp add: identity_chk_def base_constraints_def identity_constraints_def)
qed

lemma reuse_revokes:
  assumes chk: "identity_chk s = None" and tk: "get_refresh_for_update (hash_opaque_token c raw) s = Some t"
    and used: "rk_used_at t \<noteq> None" and live: "clock s (clock_count s) < rk_expires_at t"
  shows "fst (rotate_refresh_token c st raw tn s)
      = Inl (if revoked (rk_session_id t) s then SESSION_REVOKED else REFRESH_REUSE_DETECTED)"
    and "revoked (rk_session_id t) (snd (rotate_refresh_token c st raw tn s))"
proof -
  let ?s = "s\<lparr>clock_count := Suc (clock_count s)\<rparr>"
  let ?ss = "upd_where (\<lambda>e. se_id e = rk_session_id t \<and> se_revoked_at e = None)
    (\<lambda>e. e\<lparr>se_revoked_at := Some (clock s (Suc (clock_count s))), se_revoked_reason := Some ''refresh_reuse_detected''\<rparr>) (auth_sessions s)"
  let ?r = "s\<lparr>clock_count := Suc (Suc (clock_count s)), auth_sessions := ?ss\<rparr>"
  have "t \<in> set (refresh_tokens s)" using tk by (auto simp: get_refresh_for_update_def dest: find_SomeD)
  then obtain e where e: "e \<in> set (auth_sessions s)" "se_id e = rk_session_id t" using identity_chkD(4)[OF chk] by force
  have session: "get_session (rk_session_id t) s = Some e" using find_session[OF chk e(1)] by (simp add: e(2))
  have rv: "revoked (rk_session_id t) s \<longleftrightarrow> se_revoked_at e \<noteq> None"
  proof
    assume "revoked (rk_session_id t) s"
    then obtain x where x: "x \<in> set (auth_sessions s)" "se_id x = se_id e" "se_revoked_at x \<noteq> None"
      unfolding revoked_def e(2) by blast
    show "se_revoked_at e \<noteq> None" using x(3) unique_on_inj[OF identity_chkD(1)[OF chk] x(1) e(1) x(2)] by simp
  qed (use e in \<open>unfold revoked_def, blast\<close>)
  have reads: "get_refresh_for_update (hash_opaque_token c raw) ?s = Some t" "get_session (rk_session_id t) ?s = Some e"
    using tk session by (simp_all add: get_refresh_for_update_def get_session_def)
  have chk': "identity_chk ?r = None" using chk identity_chk_sessions[of ?ss "s\<lparr>clock_count := Suc (Suc (clock_count s))\<rparr>"]
    by simp
  have run: "rotate_refresh_token c st raw tn s = (if se_revoked_at e = None then (Inl REFRESH_REUSE_DETECTED, ?r) else (Inl SESSION_REVOKED, ?s))"
    using used live reads chk' e(2)
    by (auto simp: rotate_refresh_token_def rotate_attempt_def datetime_now_def revoke_session_def run_defs)
  then show "fst (rotate_refresh_token c st raw tn s)
      = Inl (if revoked (rk_session_id t) s then SESSION_REVOKED else REFRESH_REUSE_DETECTED)" using rv by simp
  have "revoked (rk_session_id t) ?r" if "se_revoked_at e = None"
  proof -
    have "e\<lparr>se_revoked_at := Some (clock s (Suc (clock_count s))), se_revoked_reason := Some ''refresh_reuse_detected''\<rparr> \<in> set ?ss"
      using e that by (auto simp: set_upd_where)
    then show ?thesis unfolding revoked_def using e(2) by (intro bexI) simp_all
  qed
  moreover have "revoked (rk_session_id t) ?s" if "se_revoked_at e \<noteq> None" using that e by (auto simp: revoked_def)
  ultimately show "revoked (rk_session_id t) (snd (rotate_refresh_token c st raw tn s))" using run by simp
qed

end
