(* ===== verification/Identity_Guarantees.thy ===== *)
theory Identity_Guarantees
  imports Session_History
begin

text \<open>
  What the identity modules guarantee: refresh tokens work once and a reused one ends its session for good, an
  organisation keeps an owner, the permission cache is invisible, nobody hands out a permission he does not hold, and
  failed logins lock an account within bounds. The samples at the end of the definitions are for the witnesses.
\<close>

section \<open>Failed logins\<close>


lemma get_user_by_email_frame [simp]: "get_user_by_email e (s\<lparr>clock_count := n\<rparr>) = get_user_by_email e s"
  by (simp add: get_user_by_email_def)





section \<open>Permissions\<close>

lemma cached_is_granted:
  assumes inv: "checked_access s" and m: "get_active_membership u tn s = Some m"
    and cached: "cached_permissions alive (mb_id m, mb_roles_version m) s \<noteq> {}"
  shows "cached_permissions alive (mb_id m, mb_roles_version m) s = get_permissions (mb_id m) s"
proof -
  obtain ps where ps: "map_of (perm_cache s) (mb_id m, mb_roles_version m) = Some ps"
    "cached_permissions alive (mb_id m, mb_roles_version m) s = ps"
    using cached by (auto simp: cached_permissions_def split: if_splits option.splits)
  then have "cache_entry_ok s ((mb_id m, mb_roles_version m), ps)"
    using map_of_SomeD[OF ps(1)] inv by (simp add: checked_access_def access_inv_def cache_ok_def)
  then obtain k where k: "k \<in> set (memberships s)" "mb_id k = mb_id m"
    "mb_roles_version m = mb_roles_version k \<longrightarrow> ps = get_permissions (mb_id k) s" by (auto simp: cache_entry_ok_def)
  have "m \<in> set (memberships s)" using m by (auto simp: get_active_membership_def dest: find_SomeD)
  then have "k = m" using unique_on_inj[OF identity_chkD(5) k(1) _ k(2)] inv by (simp add: checked_access_def)
  then show ?thesis using k(3) ps(2) by simp
qed

lemma cache_transparent:
  assumes "checked_access s"
  shows "fst (build_tenant_context alive u tn s) = fst (build_tenant_context (\<lambda>_. False) u tn s)"
proof (cases "get_active_membership u tn s")
  case (Some m)
  then show ?thesis using cached_is_granted[OF assms Some, of alive]
    by (simp add: build_tenant_context_def run_defs get_role_ids_def get_branch_scope_def cached_permissions_def[of "\<lambda>_. False"] Let_def)
qed (simp add: build_tenant_context_def run_defs)

text \<open>Everybody has at most the permissions \<open>P\<close> gives him and those of \<open>A\<close>.\<close>

definition permitted :: "(uuid \<Rightarrow> string set) \<Rightarrow> string set \<Rightarrow> 'a identity_db_scheme \<Rightarrow> bool" where
  "permitted P A s \<longleftrightarrow> (\<forall>k. get_permissions k s \<subseteq> P k \<union> A)"

lemma permitted_frame:
  "role_permissions t = role_permissions s \<Longrightarrow> membership_roles t = membership_roles s \<Longrightarrow> permitted P A t = permitted P A s"
  by (simp add: permitted_def get_permissions_def)

interpretation permitted: beside_sign_in "permitted P A" for P A
  by unfold_locales (rule permitted_frame; simp)+

lemma keeps_permitted [keeps_intros]:
  "keeps (permitted P A) (add_membership m)" "keeps (permitted P A) (raise_missing_or_system i)"
  "keeps (permitted P A) (validate_permissions rc codes)" "keeps (permitted P A) (bump_assigned_memberships rc r)"
  "keeps (permitted P A) (get_locked rc i)" "keeps (permitted P A) (require_another_owner rc)"
  "keeps (permitted P A) (protect_last_owner rc mr)" "keeps (permitted P A) (replace_branches i ids)"
  "keeps (permitted P A) (set_status i ms)" "keeps (permitted P A) (update_invitation i f)"
  by (auto simp: keeps_def wp_simps add_membership_def raise_missing_or_system_def validate_permissions_def
      bump_assigned_memberships_def get_locked_def require_another_owner_def protect_last_owner_def replace_branches_def
      set_status_def update_membership_def update_invitation_def permitted_def get_permissions_def)

lemma within_granted: "p \<in> get_permissions k t \<Longrightarrow> permitted P A t \<Longrightarrow> p \<in> P k \<or> p \<in> A"
  by (auto simp: permitted_def)

lemma permitted_regrant:
  assumes "permitted P A s" and "set codes \<subseteq> A" and "membership_roles t = membership_roles s"
    and "role_permissions t = filter (\<lambda>x. fst x \<noteq> r) (role_permissions s) @ map (Pair r) (sorted_items codes)"
  shows "permitted P A t"
  using assms unfolding permitted_def get_permissions_iff subset_iff by (fastforce simp: sorted_items_def)

lemma permitted_reassign:
  assumes "permitted P A s" and "permissions_of_roles ids s \<subseteq> A" and "role_permissions t = role_permissions s"
    and "membership_roles t = filter (\<lambda>x. fst x \<noteq> i) (membership_roles s) @ map (Pair i) (sorted_items ids)"
  shows "permitted P A t"
  using assms unfolding permitted_def get_permissions_iff subset_iff by (fastforce simp: sorted_items_def permissions_of_roles_def)

lemma permitted_withdraw:
  assumes "permitted P A s" and "set (role_permissions t) \<subseteq> set (role_permissions s)"
    and "set (membership_roles t) \<subseteq> set (membership_roles s)"
  shows "permitted P A t"
  using assms unfolding permitted_def get_permissions_iff subset_iff by blast


lemma permitted_frames:
  "permitted P A (s\<lparr>roles := rs\<rparr>) = permitted P A s" "permitted P A (s\<lparr>memberships := ms\<rparr>) = permitted P A s"
  "permitted P A (s\<lparr>tenants := ts\<rparr>) = permitted P A s" "permitted P A (s\<lparr>invitations := vs\<rparr>) = permitted P A s"
  "permitted P A (s\<lparr>membership_branches := bs\<rparr>) = permitted P A s"
  by (rule permitted_frame; simp)+

lemma keeps_regrant:
  assumes "set codes \<subseteq> A"
  shows "keeps (permitted P A) (replace_permissions r codes)"
  unfolding replace_permissions_def by (intro keeps_modify) (rule permitted_regrant[OF _ assms, where r = r]; simp)

lemma keeps_validated:
  "(set codes \<subseteq> permissions rc \<Longrightarrow> keeps I (f ())) \<Longrightarrow> keeps I (bnd (validate_permissions rc codes) f)"
  by (auto simp: keeps_def wp_simps validate_permissions_def)

lemma roles_permitted:
  "stays (permitted P (permissions rc)) (create_role rc rl)" "stays (permitted P (permissions rc)) (update_role rc i ru)"
  "stays (permitted P (permissions rc)) (delete_role rc i)"
proof -
  have keeps_roles: "keeps (permitted P A) (modify (\<lambda>s. s\<lparr>roles := g s\<rparr>))" for g and P A
    by (rule keeps_modify) (simp add: permitted_frames)
  show "stays (permitted P (permissions rc)) (create_role rc rl)" "stays (permitted P (permissions rc)) (update_role rc i ru)"
    unfolding create_role_def update_role_def Let_def
    by (intro stays_intros keeps_validated keeps_regrant keeps_intros keeps_roles; assumption?)+
  have "keeps (permitted P A) (delete_custom rc i)" for P A
    unfolding delete_custom_def by (rule keeps_modify) (rule permitted_withdraw; auto)
  then show "stays (permitted P (permissions rc)) (delete_role rc i)"
    unfolding delete_role_def by (intro stays_intros keeps_intros)
qed

lemma update_roles_permitted:
  "stays (permitted P (permissions rc)) (update_roles rc i ids :: ('a identity_db_scheme, MemberRecord) tx)"
proof -
  have replaced: "wp (replace_roles j ids) (\<lambda>_. permitted P A) s"
    if "permitted P A s" "permissions_of_roles ids s \<subseteq> A" for j A and s :: "'a identity_db_scheme"
    unfolding replace_roles_def update_membership_def wp_simps by (rule permitted_reassign[OF that, where i = j]) simp_all
  have "wp (replace_roles j ids) (\<lambda>_. wp (audit_in rc a r i []) (\<lambda>_ t. identity_chk t = None \<longrightarrow> permitted P A t)) s"
    if "permitted P A s" "permissions_of_roles ids s \<subseteq> A" for j A a r and s :: "'a identity_db_scheme"
    by (rule wp_mono[OF replaced[OF that]], rule wp_mono[OF keepsD[OF permitted.keeps_shared(5)]]) (assumption, rule impI, assumption)
  then show ?thesis
    unfolding update_roles_def Let_def
    by (intro stays_intros, intro keepsI) (simp add: wp_simps get_locked_def require_another_owner_def)
qed

lemma members_permitted:
  "stays (permitted P A) (update_branches rc i ids)" "stays (permitted P A) (update_status rc i ms)"
  "stays (permitted P A) (remove_member rc i)"
  unfolding update_branches_def update_status_def remove_member_def require_grantable_branches_def Let_def
  by (intro stays_intros keeps_intros)+

lemma invitations_permitted:
  "stays (permitted P A) (invite c st rc ic)" "stays (permitted P A) (revoke_invitation rc i)"
  "stays (permitted P A) (resend_invitation c st rc i)" "stays (permitted P A) (update_current rc tu)"
  unfolding invite_def revoke_invitation_def resend_invitation_def update_current_def Let_def
  by (intro stays_intros keeps_intros; simp add: permitted_frames)+


text \<open>The requests an administrator makes with the context \<open>rc\<close>.\<close>

inductive admin_request :: "RequestContext \<Rightarrow> ('a identity_db_scheme, unit) tx \<Rightarrow> bool" for rc where
  "admin_request rc (void (create_role rc rl))"
| "admin_request rc (void (update_role rc i ru))"
| "admin_request rc (delete_role rc i)"
| "admin_request rc (void (update_roles rc i ids))"
| "admin_request rc (void (update_branches rc i ids))"
| "admin_request rc (void (update_status rc i ms))"
| "admin_request rc (remove_member rc i)"
| "admin_request rc (void (invite c st rc ic))"
| "admin_request rc (revoke_invitation rc i)"
| "admin_request rc (void (resend_invitation c st rc i))"
| "admin_request rc (void (update_current rc tu))"

lemma admin_permitted: "admin_request rc m \<Longrightarrow> stays (permitted P (permissions rc)) m"
  by (induction rule: admin_request.induct)
    (auto intro: stays_void roles_permitted update_roles_permitted members_permitted invitations_permitted)

section \<open>Accepting an invitation\<close>

lemma identity_chk_error: "identity_chk s = None \<or> identity_chk s = Some IntegrityError"
proof -
  have "list_all (\<lambda>c. snd c = IntegrityError) (base_constraints s @ identity_constraints s)"
    by (simp add: base_constraints_def identity_constraints_def)
  then show ?thesis unfolding identity_chk_def violated_def
    by (cases "find (\<lambda>c. \<not> fst c) (base_constraints s @ identity_constraints s)") (auto simp: list_all_iff dest!: find_SomeD)
qed

lemma joining_twice:
  assumes "\<exists>m \<in> set ms. mb_tenant_id m = mb_tenant_id k \<and> mb_user_id m = mb_user_id k"
  shows "identity_chk (s\<lparr>memberships := ms @ [k]\<rparr>) = Some IntegrityError"
proof -
  have "\<not> unique_on (\<lambda>m. (mb_tenant_id m, mb_user_id m)) (ms @ [k])" using assms by (simp add: image_iff) metis
  then show ?thesis using identity_chkD(8)[of "s\<lparr>memberships := ms @ [k]\<rparr>"] identity_chk_error[of "s\<lparr>memberships := ms @ [k]\<rparr>"] by auto
qed

lemma find_nothing [simp]: "find (\<lambda>x. False) xs = None"
  by (induction xs) simp_all

lemma accept_again:
  assumes "find (\<lambda>v. iv_token_hash v = hash_opaque_token c (ia_token p)) (invitations s) = Some v"
    and "redeemable v (clock s (clock_count s))"
    and "get_user_by_email (iv_email v) s = Some u"
    and "\<exists>m \<in> set (memberships s). mb_tenant_id m = iv_tenant_id v \<and> mb_user_id m = us_id u"
  shows "accept c p s = (Inl IntegrityError, s\<lparr>clock_count := Suc (clock_count s)\<rparr>)"
  using assms
  by (simp add: accept_def datetime_now_def uuid7_def resolve_user_def existing_membership_def update_invitation_def
      add_membership_def joining_twice run_defs)

section \<open>Sample\<close>

text \<open>An organisation, its owner signed in, and his first refresh token rotated.\<close>


definition sample_crypto :: crypto where
  "sample_crypto = \<lparr>argon2_hash = (\<lambda>salt p. p), verify_password = (\<lambda>h p. h = p), hash_opaque_token = (\<lambda>t. t),
     totp_verify = (\<lambda>_ _ _. False), jwt_encode = (\<lambda>c. str_nat (ac_session_id c)),
     jwt_decode = (\<lambda>t. Inr \<lparr>ac_user_id = 10, ac_session_id = 104, ac_tenant_id = None, ac_issued_at = 0, ac_expires_at = 900\<rparr>)\<rparr>"

definition sample_settings :: settings where
  "sample_settings = \<lparr>access_token_expire_minutes = 15, refresh_token_expire_days = 30, email_verification_expire_hours = 24,
     password_reset_expire_hours = 1, invitation_expire_days = 7, mfa_recovery_codes_count = 10, outbox_batch_size = 50,
     outbox_max_attempts = 8, name_collation = length\<rparr>"

definition sample_user :: user where
  "sample_user = \<lparr>us_id = 10, us_email = ''a@x'', us_password_hash = ''pw'', us_full_name = ''A'', us_is_active = True,
     us_email_verified_at = None, us_last_login_at = None, us_failed_login_count = 4, us_locked_until = None\<rparr>"

definition sample_identity :: identity_db where
  "sample_identity = \<lparr>uuid_gen = (\<lambda>n. n + 100), uuid_count = 0, clock = (\<lambda>n. seconds (int n)), clock_count = 0, request_id = None,
     document_sequences = [], idempotency_keys = [], audit_events = [],
     token_gen = str_nat, token_count = 0, users = [sample_user], auth_sessions = [], refresh_tokens = [],
     email_verification_tokens = [], password_reset_tokens = [], mfa_credentials = [], mfa_recovery_codes = [],
     currencies = [''USD''], tenants = [], memberships = [], invitations = [], permission_codes = [''read'', ''roles''],
     roles = [\<lparr>ro_id = 1, ro_tenant_id = None, ro_code = OWNER, ro_name = ''Owner'', ro_is_system = True\<rparr>],
     role_permissions = [(1, ''read''), (1, ''roles'')], membership_roles = [], membership_branches = [], branches = [],
     branch_warehouses = [], outbox_events = [], perm_cache = [], challenges = []\<rparr>"

definition sample_org :: TenantCreate where
  "sample_org = \<lparr>tc_name = ''Acme'', tc_slug = ''acme'', tc_legal_name = None, tc_base_currency = ''USD'', tc_timezone = ''UTC'',
     tc_country_code = None, tc_branch_code = ''B1'', tc_branch_name = ''Main'', tc_warehouse_code = ''W1'', tc_warehouse_name = ''Main''\<rparr>"

definition organised :: identity_db where
  "organised = sample_identity\<lparr>uuid_count := 4, clock_count := 1,
     tenants := [\<lparr>tn_id = 100, tn_name = ''Acme'', tn_slug = ''acme'', tn_legal_name = None, tn_tax_identifier = None,
       tn_base_currency = ''USD'', tn_timezone = ''UTC'', tn_country_code = None, tn_status = TENANT_ACTIVE,
       tn_allow_negative_inventory = False, tn_fiscal_year_start_month = 1\<rparr>],
     memberships := [\<lparr>mb_id = 101, mb_tenant_id = 100, mb_user_id = 10, mb_status = MB_ACTIVE, mb_roles_version = 0,
       mb_invited_by_user_id = None, mb_joined_at = Some 0\<rparr>],
     branches := [\<lparr>br_id = 102, br_tenant_id = 100, br_code = ''B1'', br_name = ''Main'', br_is_active = True, br_is_default = True\<rparr>],
     branch_warehouses := [\<lparr>bw_id = 103, bw_tenant_id = 100, bw_branch_id = Some 102, bw_code = ''W1'', bw_name = ''Main'',
       bw_is_active = True\<rparr>],
     membership_roles := [(101, 1)],
     audit_events := [\<lparr>ae_actor_user_id = Some 10, ae_actor_membership_id = Some 101, ae_action = ''tenant.created'',
       ae_resource_type = ''tenant'', ae_resource_id = Some 100, ae_request_id = None, ae_metadata = [(''slug'', MStr ''acme'')]\<rparr>]\<rparr>"

lemmas identity_chk_eval = identity_chk_def violated_def base_constraints_def identity_constraints_def references_def

lemma organised_run: "create_organization 10 sample_org sample_identity = (Inr (100, 101, 102, 103), organised)"
  by (simp add: run_apply create_organization_def uuid7_def datetime_now_def sample_identity_def Let_def
      sample_org_def get_system_owner_role_def add_membership_def assign_role_def audit_in_def audit_record_def add_audit_event_def
      identity_chk_eval organised_def OWNER_def sample_user_def seconds_def unique_where_def TenantContext.defs)

definition signed_in :: identity_db where
  "signed_in = organised\<lparr>uuid_count := 6, clock_count := 3, token_count := 1,
     users := [sample_user\<lparr>us_failed_login_count := 0, us_last_login_at := Some (seconds 1)\<rparr>],
     auth_sessions := [\<lparr>se_id = 104, se_user_id = 10, se_created_at = seconds 1, se_last_used_at = seconds 1, se_revoked_at = None,
       se_revoked_reason = None\<rparr>],
     refresh_tokens := [\<lparr>rk_id = 105, rk_session_id = 104, rk_token_hash = ''0'', rk_expires_at = seconds 2592001,
       rk_used_at = None, rk_replaced_by_id = None\<rparr>]\<rparr>"

lemma signed_in_run: "\<exists>r. login sample_crypto sample_settings \<lparr>lr_email = ''a@x'', lr_password = ''pw''\<rparr> organised = (Inr r, signed_in)"
  by (simp add: run_apply login_def login_attempt_def datetime_now_def uuid7_def get_user_by_email_def lower_def lower_char_def
      sample_crypto_def sample_settings_def is_enabled_def mfa_credential_of_def update_user_def sign_in_def active_memberships_def
      auth_open_session_def generate_opaque_token_def random_string_def add_refresh_token_def create_access_token_def Let_def
      signed_in_def organised_def sample_identity_def sample_user_def seconds_def days_def identity_chk_eval unique_where_def str_nat.simps digit_char_def
      map_filter_def role_codes_of_def)
definition rotated :: identity_db where
  "rotated = signed_in\<lparr>uuid_count := 7, clock_count := 5, token_count := 2,
     auth_sessions := [\<lparr>se_id = 104, se_user_id = 10, se_created_at = seconds 1, se_last_used_at = seconds 3, se_revoked_at = None,
       se_revoked_reason = None\<rparr>],
     refresh_tokens := [\<lparr>rk_id = 105, rk_session_id = 104, rk_token_hash = ''0'', rk_expires_at = seconds 2592001,
         rk_used_at = Some (seconds 3), rk_replaced_by_id = Some 106\<rparr>,
       \<lparr>rk_id = 106, rk_session_id = 104, rk_token_hash = ''1'', rk_expires_at = seconds 2592003,
         rk_used_at = None, rk_replaced_by_id = None\<rparr>]\<rparr>"

lemmas sample_defs = sample_crypto_def sample_settings_def sample_user_def sample_identity_def organised_def signed_in_def
  rotated_def seconds_def days_def lower_def lower_char_def

lemma rotated_run: "\<exists>r. rotate_refresh_token sample_crypto sample_settings ''0'' None signed_in = (Inr r, rotated)"
  by (simp add: run_apply rotate_refresh_token_def rotate_attempt_def datetime_now_def uuid7_def get_refresh_for_update_def
      get_session_def generate_opaque_token_def random_string_def add_refresh_token_def create_access_token_def update_refresh_def
      update_session_def Let_def sample_defs identity_chk_eval unique_where_def str_nat.simps digit_char_def)

definition sample_context :: RequestContext where
  "sample_context = \<lparr>membership_id = 101, user_id = 10, permissions = {''read''}, branch_ids = None, tenant_id = 100, role_ids = {1}\<rparr>"

lemma void_run: "m s = (Inr x, t) \<Longrightarrow> snd (void m s) = t"
  by (simp add: void_def run_apply)

lemma sample_seeded: "seeded sample_identity"
  by (simp add: seeded_def sample_defs identity_chk_eval unique_where_def OWNER_def)

lemma sample_reachable: "identity_reachable organised" "identity_reachable signed_in" "identity_reachable rotated"
proof -
  show o: "identity_reachable organised" unfolding void_run[of "create_organization 10 sample_org", OF organised_run, symmetric]
    by (intro identity_reachable.serve identity_reachable.seed identity_request.intros sample_seeded)
  obtain r where r: "login sample_crypto sample_settings \<lparr>lr_email = ''a@x'', lr_password = ''pw''\<rparr> organised = (Inr r, signed_in)"
    using signed_in_run by blast
  show s: "identity_reachable signed_in" unfolding void_run[of "login _ _ _", OF r, symmetric]
    by (intro identity_reachable.serve o identity_request.intros)
  obtain r' where r': "rotate_refresh_token sample_crypto sample_settings ''0'' None signed_in = (Inr r', rotated)"
    using rotated_run by blast
  show "identity_reachable rotated" unfolding void_run[of "rotate_refresh_token _ _ _ _", OF r', symmetric]
    by (intro identity_reachable.serve s identity_request.intros)
qed

section \<open>Guarantees\<close>

text \<open>
  C27. A refresh token is accepted at most once: after it was rotated, no sequence of further requests by anyone makes
  the service accept it again.
\<close>

theorem refresh_token_single_use:
  assumes "identity_reachable s" and "rotate_refresh_token c st raw tn s = (Inr tokens, t)" and "identity_later t u"
  shows "\<exists>e. fst (rotate_refresh_token c st' raw tn' u) = Inl e"
proof -
  have "spent (hash_opaque_token c raw) t" using wpD[OF rotation_spends assms(2)] .
  then have "spent (hash_opaque_token c raw) u" by (rule spent.later_keeps[OF assms(3)])
  moreover have "identity_reachable (snd (void (rotate_refresh_token c st raw tn) s))"
    by (intro identity_reachable.serve assms(1) identity_request.intros)
  then have "identity_reachable t" using assms(2) by (simp add: void_def bnd_def ret_def)
  then have "identity_inv u" by (rule identity_reachable_inv[OF identity_later_reachable[OF assms(3)]])
  ultimately show ?thesis by (intro spent_refused) (simp_all add: identity_inv_def checked_tokens_def)
qed

theorem refresh_token_single_use_witness:
  "\<exists>e. fst (rotate_refresh_token sample_crypto sample_settings ''0'' None rotated) = Inl e"
  using refresh_token_single_use[OF sample_reachable(2) _ identity_later.now] rotated_run by blast

text \<open>
  C28. A reused refresh token ends its session: presenting a token that was already used and has not expired is refused
  with \<^verbatim>\<open>REFRESH_REUSE_DETECTED\<close> while the session lives, and from then on, whatever requests follow, no refresh
  token of the session is rotated, no access token of it is accepted and it cannot be moved to another organisation.
\<close>

theorem reuse_ends_session:
  assumes "identity_reachable s" and "get_refresh_for_update (hash_opaque_token c raw) s = Some t"
    and "rk_used_at t \<noteq> None" and "clock s (clock_count s) < rk_expires_at t"
    and "identity_later (snd (void (rotate_refresh_token c st raw tn) s)) u"
  shows "fst (rotate_refresh_token c st raw tn s)
      = Inl (if revoked (rk_session_id t) s then SESSION_REVOKED else REFRESH_REUSE_DETECTED)
    \<and> (\<forall>st' raw' tn' t'. get_refresh_for_update (hash_opaque_token c raw') u = Some t' \<and> rk_session_id t' = rk_session_id t
          \<longrightarrow> (\<exists>e. fst (rotate_refresh_token c st' raw' tn' u) = Inl e))
    \<and> (\<forall>token claims denylisted. jwt_decode c token = Inr claims \<and> ac_session_id claims = rk_session_id t
          \<longrightarrow> fst (get_current_identity c denylisted (Some token) u) = Inl SESSION_REVOKED)
    \<and> (\<forall>st' usr org. \<exists>e. fst (switch_tenant c st' usr (rk_session_id t) org u) = Inl e)"
proof -
  have chk: "identity_chk s = None"
    using identity_reachable_inv[OF assms(1)] by (simp add: identity_inv_def checked_tokens_def)
  note reuse = reuse_revokes[OF chk assms(2-4), of st tn]
  have same: "snd (void (rotate_refresh_token c st raw tn) s) = snd (rotate_refresh_token c st raw tn s)"
    using reuse(1) by (auto simp: void_def bnd_def ret_def split: prod.splits sum.splits)
  have "identity_reachable (snd (void (rotate_refresh_token c st raw tn) s))"
    by (intro identity_reachable.serve assms(1) identity_request.intros)
  then have u: "identity_chk u = None"
    using identity_reachable_inv[OF identity_later_reachable[OF assms(5)]] by (simp add: identity_inv_def checked_tokens_def)
  have "revoked (rk_session_id t) u" using revoked.later_keeps[OF assms(5)] reuse(2) same by simp
  then show ?thesis using reuse(1) revoked_refused[OF u] by (intro conjI allI impI) auto
qed

theorem reuse_ends_session_witness:
  "fst (rotate_refresh_token sample_crypto sample_settings ''0'' None rotated) = Inl REFRESH_REUSE_DETECTED
     \<and> fst (get_current_identity sample_crypto (\<lambda>_. False) (Some ''104'')
         (snd (void (rotate_refresh_token sample_crypto sample_settings ''0'' None) rotated))) = Inl SESSION_REVOKED"
proof -
  let ?t = "hd (refresh_tokens rotated)"
  have "get_refresh_for_update (hash_opaque_token sample_crypto ''0'') rotated = Some ?t" by (simp add: get_refresh_for_update_def sample_defs)
  moreover have "rk_used_at ?t \<noteq> None" by (simp add: get_refresh_for_update_def sample_defs)
  moreover have "clock rotated (clock_count rotated) < rk_expires_at ?t" by (simp add: get_refresh_for_update_def sample_defs)
  ultimately have "fst (rotate_refresh_token sample_crypto sample_settings ''0'' None rotated)
      = Inl (if revoked (rk_session_id ?t) rotated then SESSION_REVOKED else REFRESH_REUSE_DETECTED)
    \<and> (\<forall>token claims denylisted. jwt_decode sample_crypto token = Inr claims \<and> ac_session_id claims = rk_session_id ?t
          \<longrightarrow> fst (get_current_identity sample_crypto denylisted (Some token)
              (snd (void (rotate_refresh_token sample_crypto sample_settings ''0'' None) rotated))) = Inl SESSION_REVOKED)"
    using reuse_ends_session[OF sample_reachable(3) _ _ _ identity_later.now] by blast
  moreover have "\<not> revoked (rk_session_id ?t) rotated" by (simp add: revoked_def sample_defs)
  moreover have "jwt_decode sample_crypto ''104'' = Inr \<lparr>ac_user_id = 10, ac_session_id = 104, ac_tenant_id = None, ac_issued_at = 0,
      ac_expires_at = 900\<rparr>" by (simp add: get_refresh_for_update_def sample_defs)
  moreover have "rk_session_id ?t = 104" by (simp add: get_refresh_for_update_def sample_defs)
  ultimately show ?thesis by simp
qed

text \<open>
  C29. Every organisation always has an active member with the system role \<^verbatim>\<open>OWNER\<close>, whatever its administrators
  change: roles, role assignments, member statuses, removals, invitations.
\<close>

theorem organisation_keeps_owner:
  assumes "identity_reachable s" and "t \<in> set (tenants s)"
  shows "\<exists>m \<in> set (memberships s). mb_tenant_id m = tn_id t \<and> mb_status m = MB_ACTIVE
     \<and> (\<exists>r \<in> set (roles s). ro_code r = OWNER \<and> ro_is_system r \<and> (mb_id m, ro_id r) \<in> set (membership_roles s))"
  using identity_reachable_inv[OF assms(1)] assms(2)
  unfolding identity_inv_def checked_access_def access_inv_def owned_def has_owner_def owner_of_iff by blast

theorem organisation_keeps_owner_witness:
  "\<exists>m \<in> set (memberships organised). mb_tenant_id m = 100 \<and> mb_status m = MB_ACTIVE
     \<and> (\<exists>r \<in> set (roles organised). ro_code r = OWNER \<and> ro_is_system r \<and> (mb_id m, ro_id r) \<in> set (membership_roles organised))"
proof -
  have "hd (tenants organised) \<in> set (tenants organised)" by (simp add: sample_defs)
  moreover have "tn_id (hd (tenants organised)) = 100" by (simp add: sample_defs)
  ultimately show ?thesis using organisation_keeps_owner[OF sample_reachable(1)] by metis
qed

text \<open>
  C30. The permission cache is invisible: whatever keys Redis still holds, the context built for a request is the one
  built by reading the grants from the database.
\<close>

theorem permission_cache_transparent:
  assumes "identity_reachable s"
  shows "fst (build_tenant_context alive u tn s) = fst (build_tenant_context (\<lambda>_. False) u tn s)"
  using identity_reachable_inv[OF assms] by (intro cache_transparent) (simp add: identity_inv_def)

theorem permission_cache_transparent_witness:
  "fst (build_tenant_context (\<lambda>_. True) 10 100 (snd (void (build_tenant_context (\<lambda>_. True) 10 100) organised)))
     = fst (build_tenant_context (\<lambda>_. False) 10 100 (snd (void (build_tenant_context (\<lambda>_. True) 10 100) organised)))"
  by (intro permission_cache_transparent identity_reachable.serve sample_reachable identity_request.intros)

text \<open>
  C31. Nobody hands out a permission he does not hold: after any administrative request, allowed or refused, every
  member has at most the permissions he had before and those of the member who made the request.
\<close>

theorem no_privilege_escalation:
  assumes "admin_request rc m"
  shows "get_permissions k (snd (m s)) \<subseteq> get_permissions k s \<union> permissions rc"
proof -
  have "permitted (\<lambda>k. get_permissions k s) (permissions rc) (snd (m s))"
    by (rule staysD[OF admin_permitted[OF assms]]) (simp add: permitted_def)
  then show ?thesis by (simp add: permitted_def)
qed

theorem no_privilege_escalation_witness:
  "get_permissions 101 (snd (void (create_role sample_context \<lparr>rlc_code = ''R'', rlc_name = ''R'', rlc_permission_codes = [''read'']\<rparr>)
     organised)) \<subseteq> get_permissions 101 organised \<union> permissions sample_context"
  by (intro no_privilege_escalation admin_request.intros)



text \<open>
  C40. A person who has a membership in an organisation, even a revoked one, cannot accept an invitation to it: the
  request fails with an unhandled \<^verbatim>\<open>IntegrityError\<close> and changes nothing, although the code is written to answer
  with \<^verbatim>\<open>DUPLICATE_RESOURCE\<close> or to let a revoked member back in.
\<close>

theorem accept_existing_member_fails:
  assumes "find (\<lambda>v. iv_token_hash v = hash_opaque_token c (ia_token p)) (invitations s) = Some v"
    and "redeemable v (clock s (clock_count s))" and "get_user_by_email (iv_email v) s = Some u"
    and "\<exists>m \<in> set (memberships s). mb_tenant_id m = iv_tenant_id v \<and> mb_user_id m = us_id u"
  shows "accept c p s = (Inl IntegrityError, s\<lparr>clock_count := Suc (clock_count s)\<rparr>)"
  using accept_again[OF assms] .

definition invited :: identity_db where
  "invited = organised\<lparr>invitations := [\<lparr>iv_id = 7, iv_tenant_id = 100, iv_email = ''a@x'', iv_role_id = 1, iv_token_hash = ''i'',
     iv_invited_by_user_id = 10, iv_expires_at = seconds 9999, iv_accepted_at = None, iv_status = IV_PENDING\<rparr>]\<rparr>"

theorem accept_existing_member_fails_witness:
  "accept sample_crypto \<lparr>ia_token = ''i'', ia_full_name = None, ia_password = None\<rparr> invited
     = (Inl IntegrityError, invited\<lparr>clock_count := Suc (clock_count invited)\<rparr>)"
proof (rule accept_existing_member_fails)
  let ?v = "hd (invitations invited)"
  let ?p = "\<lparr>ia_token = ''i'', ia_full_name = None, ia_password = None\<rparr>"
  show "find (\<lambda>v. iv_token_hash v = hash_opaque_token sample_crypto (ia_token ?p)) (invitations invited) = Some ?v" by (simp add: invited_def redeemable_def get_user_by_email_def sample_defs)
  show "redeemable ?v (clock invited (clock_count invited))" by (simp add: invited_def redeemable_def get_user_by_email_def sample_defs)
  show "get_user_by_email (iv_email ?v) invited = Some sample_user" by (simp add: invited_def redeemable_def get_user_by_email_def sample_defs)
  show "\<exists>m \<in> set (memberships invited). mb_tenant_id m = iv_tenant_id ?v \<and> mb_user_id m = us_id sample_user" by (simp add: invited_def redeemable_def get_user_by_email_def sample_defs)
qed

end
