(* ===== verification/Outbox.thy ===== *)
theory Outbox
  imports Identity_Guarantees
begin

text \<open>
  Delivery of the outbox: \<^verbatim>\<open>modules/outbox/dispatcher.py\<close>, the rendering of \<^verbatim>\<open>modules/notifications/email.py\<close> and the
  worker task \<^verbatim>\<open>workers/tasks/outbox.py\<close>. The mail server and the task queue are parameters: \<open>transport\<close> says which
  exception, if any, a delivery at a given time raises. Of an exception only its type is kept in \<open>ox_last_error\<close>. Rows
  that another worker has locked are skipped by the code; here one drain runs at a time.
\<close>

section \<open>Rendering\<close>

record message =
  em_to :: string
  em_subject :: string
  em_body :: string

definition line_feed :: string where "line_feed = [CHR 0x0A]"

text \<open>A template is its subject and the text before and after the token.\<close>

definition TEMPLATES :: "(string \<times> string \<times> string \<times> string) list" where
  "TEMPLATES =
     [(''email_verification'', ''Verify your email address'',
         ''Use this code to verify your Nexora AI account:'' @ line_feed @ line_feed, line_feed),
      (''password_reset'', ''Reset your password'',
         ''Use this code to reset your Nexora AI password:'' @ line_feed @ line_feed,
         line_feed @ ''If you did not request this, you can ignore this message.'' @ line_feed),
      (''invitation'', ''You have been invited to Nexora AI'',
         ''Use this code to accept your invitation:'' @ line_feed @ line_feed, line_feed)]"

definition dict_get :: "string \<Rightarrow> string \<Rightarrow> (string \<times> string) list \<Rightarrow> string" where
  "dict_get missing key d = (case map_of d key of None \<Rightarrow> missing | Some v \<Rightarrow> v)"

definition render :: "(string \<times> string) list \<Rightarrow> string + message" where
  "render payload =
     (case map_of TEMPLATES (dict_get [] ''template'' payload) of
        None \<Rightarrow> Inl ''ValueError''
      | Some (subject, before, after) \<Rightarrow>
          (case map_of payload ''to'' of
             None \<Rightarrow> Inl ''KeyError''
           | Some recipient \<Rightarrow> Inr \<lparr>em_to = recipient, em_subject = subject, em_body = before @ dict_get [] ''token'' payload @ after\<rparr>))"

section \<open>Dispatch\<close>

record transport =
  sender_send :: "message \<Rightarrow> datetime \<Rightarrow> string option"
  document_indexer :: "string \<Rightarrow> string \<Rightarrow> datetime \<Rightarrow> string option"
  document_cleaner :: "string \<Rightarrow> string \<Rightarrow> string \<Rightarrow> datetime \<Rightarrow> string option"

definition dispatch :: "transport \<Rightarrow> datetime \<Rightarrow> outbox_event \<Rightarrow> string option" where
  "dispatch transport now event =
     (if ox_topic event = TOPIC_EMAIL then
        (case render (ox_payload event) of Inl e \<Rightarrow> Some e | Inr message \<Rightarrow> sender_send transport message now)
      else if ox_topic event = TOPIC_DOCUMENT_INDEX then
        (case (map_of (ox_payload event) ''tenant_id'', map_of (ox_payload event) ''document_id'') of
           (Some tenant, Some document) \<Rightarrow> document_indexer transport tenant document now
         | _ \<Rightarrow> Some ''KeyError'')
      else if ox_topic event = TOPIC_DOCUMENT_CLEANUP then
        (case (map_of (ox_payload event) ''tenant_id'', map_of (ox_payload event) ''document_id'', map_of (ox_payload event) ''storage_key'') of
           (Some tenant, Some document, Some key) \<Rightarrow> document_cleaner transport tenant document key now
         | _ \<Rightarrow> Some ''KeyError'')
      else Some ''ValueError'')"

definition BACKOFF_BASE_SECONDS :: nat where "BACKOFF_BASE_SECONDS = 30"
definition BACKOFF_MAX_SECONDS :: nat where "BACKOFF_MAX_SECONDS = 3600"

definition backoff :: "nat \<Rightarrow> nat" where
  "backoff attempts = min (BACKOFF_BASE_SECONDS * 2 ^ (attempts - 1)) BACKOFF_MAX_SECONDS"

definition pending_event :: "settings \<Rightarrow> outbox_event \<Rightarrow> bool" where
  "pending_event settings e \<longleftrightarrow> ox_sent_at e = None \<and> ox_attempts e < outbox_max_attempts settings"

definition claimed_events :: "settings \<Rightarrow> datetime \<Rightarrow> 'a identity_db_scheme \<Rightarrow> outbox_event list" where
  "claimed_events settings now s =
     take (outbox_batch_size settings)
       (sort_key ox_available_at (filter (\<lambda>e. pending_event settings e \<and> ox_available_at e \<le> now) (outbox_events s)))"

definition update_event :: "uuid \<Rightarrow> (outbox_event \<Rightarrow> outbox_event) \<Rightarrow> ('a identity_db_scheme, unit) tx" where
  "update_event i f = modify (\<lambda>s. s\<lparr>outbox_events := upd_where (\<lambda>e. ox_id e = i) f (outbox_events s)\<rparr>)"

definition drain_event :: "transport \<Rightarrow> datetime \<Rightarrow> nat \<Rightarrow> outbox_event \<Rightarrow> ('a identity_db_scheme, nat) tx" where
  "drain_event transport now sent event =
     (let event = event\<lparr>ox_attempts := ox_attempts event + 1\<rparr> in
      case dispatch transport now event of
        Some exc \<Rightarrow>
          bnd (update_event (ox_id event) (\<lambda>_. event\<lparr>ox_last_error := Some (take 500 exc),
                 ox_available_at := now + seconds (int (backoff (ox_attempts event)))\<rparr>)) (\<lambda>_.
          ret sent)
      | None \<Rightarrow>
          bnd datetime_now (\<lambda>sent_at.
          bnd (update_event (ox_id event) (\<lambda>_. event\<lparr>ox_sent_at := Some sent_at, ox_last_error := None\<rparr>)) (\<lambda>_.
          ret (sent + 1))))"

definition drain :: "transport \<Rightarrow> settings \<Rightarrow> ('a identity_db_scheme, nat) tx" where
  "drain transport settings =
     bnd datetime_now (\<lambda>now.
     bnd (gets (claimed_events settings now)) (\<lambda>claimed.
     bnd (for_acc (drain_event transport now) 0 claimed) (\<lambda>sent.
     bnd (flush identity_chk) (\<lambda>_.
     ret sent))))"

definition drain_once :: "transport \<Rightarrow> settings \<Rightarrow> ('a identity_db_scheme, nat) tx" where
  "drain_once transport settings = service_transaction identity_chk (drain transport settings)"

section \<open>One drain\<close>

text \<open>An event the transport accepts whenever it is tried.\<close>

definition accepted :: "transport \<Rightarrow> outbox_event \<Rightarrow> bool" where
  "accepted transport e \<longleftrightarrow> (\<forall>now n. dispatch transport now (e\<lparr>ox_attempts := n\<rparr>) = None)"

text \<open>What one try makes of an event: it is sent, or it stays unsent with its error and becomes due again later.\<close>

definition tried :: "transport \<Rightarrow> datetime \<Rightarrow> outbox_event \<Rightarrow> outbox_event \<Rightarrow> bool" where
  "tried transport now e e' \<longleftrightarrow> ox_id e' = ox_id e \<and> ox_attempts e' = ox_attempts e + 1
     \<and> (ox_sent_at e' \<noteq> None
        \<or> ox_sent_at e' = None \<and> ox_last_error e' \<noteq> None \<and> now \<le> ox_available_at e' \<and> \<not> accepted transport e)"

definition drained ::
  "transport \<Rightarrow> datetime \<Rightarrow> outbox_event list \<Rightarrow> 'a identity_db_scheme \<Rightarrow> 'a identity_db_scheme \<Rightarrow> bool" where
  "drained transport now tries s t \<longleftrightarrow> (\<exists>n \<ge> clock_count s. t = s\<lparr>clock_count := n, outbox_events := outbox_events t\<rparr>)
     \<and> list_all2 (\<lambda>e e'. if e \<in> set tries then tried transport now e e' else e' = e) (outbox_events s) (outbox_events t)"

lemma accepted_frame [simp]:
  "accepted tr (e\<lparr>ox_attempts := n\<rparr>) = accepted tr e" "accepted tr (e\<lparr>ox_last_error := x\<rparr>) = accepted tr e"
  "accepted tr (e\<lparr>ox_available_at := d\<rparr>) = accepted tr e" "accepted tr (e\<lparr>ox_sent_at := y\<rparr>) = accepted tr e"
  by (simp_all add: accepted_def dispatch_def)

lemma event_attempt:
  assumes unique: "unique_on ox_id (outbox_events s)" and x: "x \<in> set (outbox_events s)" "x \<notin> set tries"
    and rel: "drained tr now tries s t" and x': "tried tr now x x'"
    and u: "u = t\<lparr>clock_count := m, outbox_events := upd_where (\<lambda>e. ox_id e = ox_id x) (\<lambda>_. x') (outbox_events t)\<rparr>" "clock_count t \<le> m"
  shows "drained tr now (tries @ [x]) s u"
proof -
  let ?upd = "\<lambda>e. if ox_id e = ox_id x then x' else e"
  let ?R = "\<lambda>tries e e'. if e \<in> set tries then tried tr now e e' else e' = e"
  have step: "?R (tries @ [x]) e (?upd e')" if "e \<in> set (outbox_events s)" "?R tries e e'" for e e'
  proof (cases "e = x")
    case True
    then show ?thesis using that(2) x(2) x' by (auto simp: tried_def)
  next
    case False
    then have "ox_id e \<noteq> ox_id x" using unique_on_inj[OF unique that(1) x(1)] by blast
    moreover have "ox_id e' = ox_id e" using that(2) by (auto simp: tried_def split: if_splits)
    ultimately show ?thesis using that(2) False by simp
  qed
  have "list_all2 (?R tries) (outbox_events s) (outbox_events t)" using rel by (simp add: drained_def)
  then have "list_all2 (\<lambda>e e'. ?R (tries @ [x]) e (?upd e')) (outbox_events s) (outbox_events t)"
    by (rule list.rel_mono_strong) (rule step)
  then have "list_all2 (?R (tries @ [x])) (outbox_events s) (outbox_events u)"
    by (simp add: u(1) upd_where_def list_all2_map2)
  moreover obtain n where "clock_count s \<le> n" "t = s\<lparr>clock_count := n, outbox_events := outbox_events t\<rparr>"
    using rel by (auto simp: drained_def)
  then have "clock_count s \<le> clock_count u \<and> u = s\<lparr>clock_count := clock_count u, outbox_events := outbox_events u\<rparr>"
    using u by (cases s; cases t) auto
  ultimately show ?thesis unfolding drained_def by blast
qed

lemma drain_event_run:
  assumes "unique_on ox_id (outbox_events s)" and "x \<in> set (outbox_events s)" "x \<notin> set tries" and "drained tr now tries s t"
  shows "\<exists>y u. drain_event tr now acc x t = (Inr y, u) \<and> drained tr now (tries @ [x]) s u"
proof (cases "dispatch tr now (x\<lparr>ox_attempts := ox_attempts x + 1\<rparr>)")
  case None
  let ?x = "x\<lparr>ox_attempts := ox_attempts x + 1, ox_sent_at := Some (clock t (clock_count t)), ox_last_error := None\<rparr>"
  let ?u = "t\<lparr>clock_count := Suc (clock_count t), outbox_events := upd_where (\<lambda>e. ox_id e = ox_id x) (\<lambda>_. ?x) (outbox_events t)\<rparr>"
  have "drain_event tr now acc x t = (Inr (acc + 1), ?u)"
    using None by (simp add: drain_event_def Let_def datetime_now_def update_event_def run_apply)
  moreover have "drained tr now (tries @ [x]) s ?u" by (rule event_attempt[OF assms _ refl]) (simp_all add: tried_def)
  ultimately show ?thesis by blast
next
  case (Some exc)
  let ?x = "x\<lparr>ox_attempts := ox_attempts x + 1, ox_last_error := Some (take 500 exc),
    ox_available_at := now + seconds (int (backoff (ox_attempts x + 1)))\<rparr>"
  let ?u = "t\<lparr>clock_count := clock_count t, outbox_events := upd_where (\<lambda>e. ox_id e = ox_id x) (\<lambda>_. ?x) (outbox_events t)\<rparr>"
  have "\<not> accepted tr x" unfolding accepted_def using Some by (metis option.distinct(1))
  then have "drained tr now (tries @ [x]) s ?u" by (intro event_attempt[OF assms _ refl]) (auto simp: tried_def seconds_def)
  moreover have "drain_event tr now acc x t = (Inr acc, ?u)"
    using Some by (simp add: drain_event_def Let_def update_event_def run_apply)
  ultimately show ?thesis by blast
qed

lemma drain_loop:
  assumes "unique_on ox_id (outbox_events s)" and "set (tries @ xs) \<subseteq> set (outbox_events s)" "distinct (tries @ xs)"
    and "drained tr now tries s t"
  shows "\<exists>y u. for_acc (drain_event tr now) acc xs t = (Inr y, u) \<and> drained tr now (tries @ xs) s u"
  using assms(2-4)
proof (induction xs arbitrary: tries t acc)
  case Nil
  then show ?case by (simp add: run_apply)
next
  case (Cons x xs)
  obtain y u where u: "drain_event tr now acc x t = (Inr y, u)" "drained tr now (tries @ [x]) s u"
    using drain_event_run[OF assms(1) _ _ Cons.prems(3), of x acc] Cons.prems(1,2) by auto
  then show ?case using Cons.IH[of "tries @ [x]" u y] Cons.prems(1,2) by (simp add: run_apply)
qed

lemma identity_chk_outbox:
  "map ox_id es = map ox_id (outbox_events s) \<Longrightarrow> identity_chk (s\<lparr>outbox_events := es\<rparr>) = identity_chk s"
  by (simp add: identity_chk_def base_constraints_def identity_constraints_def)

lemma drained_ids:
  assumes "drained tr now tries s t"
  shows "map ox_id (outbox_events t) = map ox_id (outbox_events s)"
proof -
  have "list_all2 (\<lambda>e e'. ox_id e = ox_id e') (outbox_events s) (outbox_events t)"
    using assms unfolding drained_def by (elim conjE list_all2_mono) (auto simp: tried_def split: if_splits)
  then show ?thesis by (metis list_all2_eq list_all2_map1 list_all2_map2 list.map_id)
qed

lemma drained_chk:
  assumes "drained tr now tries s t"
  shows "identity_chk t = identity_chk s"
proof -
  obtain n where t: "t = s\<lparr>clock_count := n, outbox_events := outbox_events t\<rparr>" using assms by (auto simp: drained_def)
  have "identity_chk (s\<lparr>clock_count := n, outbox_events := outbox_events t\<rparr>) = identity_chk s"
    using drained_ids[OF assms] identity_chk_outbox[of "outbox_events t" "s\<lparr>clock_count := n\<rparr>"] by simp
  then show ?thesis using t by simp
qed

lemma drain_once_run:
  assumes "identity_chk s = None"
  shows "\<exists>y u. drain_once tr st s = (Inr y, u) \<and> identity_chk u = None
     \<and> drained tr (clock s (clock_count s)) (claimed_events st (clock s (clock_count s)) s) (s\<lparr>clock_count := Suc (clock_count s)\<rparr>) u"
proof -
  let ?s = "s\<lparr>clock_count := Suc (clock_count s)\<rparr>"
  let ?now = "clock s (clock_count s)"
  let ?xs = "claimed_events st ?now s"
  have xs: "claimed_events st now ?s = claimed_events st now s" for now by (simp add: claimed_events_def)
  have unique: "unique_on ox_id (outbox_events s)"
    using assms by (simp add: identity_chk_def identity_constraints_def)
  then have "distinct (outbox_events s)" by (simp add: distinct_map)
  then have "distinct ?xs" by (simp add: claimed_events_def)
  moreover have "set ?xs \<subseteq> set (outbox_events s)" unfolding claimed_events_def by (auto dest: in_set_takeD)
  moreover have "drained tr ?now [] ?s ?s" by (auto simp: drained_def list_all2_refl)
  ultimately obtain y u where u: "for_acc (drain_event tr (clock s (clock_count s))) 0 ?xs ?s = (Inr y, u)" "drained tr ?now ?xs ?s u"
    using drain_loop[of ?s "[]" ?xs tr ?now ?s 0] unique by auto
  then have "identity_chk u = None" using drained_chk[OF u(2)] assms by simp
  then show ?thesis using u by (simp add: drain_once_def drain_def datetime_now_def run_apply xs)
qed

lemma list_all2_partner: "list_all2 R xs ys \<Longrightarrow> x \<in> set xs \<Longrightarrow> \<exists>y \<in> set ys. R x y"
  by (induction rule: list_all2_induct) auto

lemma list_all2_sum_le:
  fixes g :: "'b \<Rightarrow> nat"
  assumes "list_all2 R xs ys" and "\<And>x y. x \<in> set xs \<Longrightarrow> R x y \<Longrightarrow> g y \<le> g x"
  shows "sum_list (map g ys) \<le> sum_list (map g xs)"
  using assms by (induction rule: list_all2_induct) (auto intro: add_mono)

lemma list_all2_sum_less:
  fixes g :: "'b \<Rightarrow> nat"
  assumes "list_all2 R xs ys" and "\<And>x y. x \<in> set xs \<Longrightarrow> R x y \<Longrightarrow> g y \<le> g x" and "x \<in> set xs" "\<And>y. R x y \<Longrightarrow> g y < g x"
  shows "sum_list (map g ys) < sum_list (map g xs)"
  using assms(1-3)
proof (induction rule: list_all2_induct)
  case (Cons z zs w ws)
  have le: "sum_list (map g ws) \<le> sum_list (map g zs)" using list_all2_sum_le[OF Cons.hyps(2)] Cons.prems(1) by simp
  show ?case
  proof (cases "z = x")
    case True
    then show ?thesis using le assms(4)[of w] Cons.hyps(1) by (simp add: add_less_le_mono)
  next
    case False
    then have "sum_list (map g ws) < sum_list (map g zs)" using Cons by simp
    then show ?thesis using Cons.prems(1)[of z w] Cons.hyps(1) by (simp add: add_le_less_mono)
  qed
qed simp

lemma drained_sources:
  assumes "drained tr now tries s t"
  shows "clock t = clock s" "clock_count s \<le> clock_count t"
proof -
  obtain n where n: "clock_count s \<le> n" and t: "t = s\<lparr>clock_count := n, outbox_events := outbox_events t\<rparr>"
    using assms by (auto simp: drained_def)
  show "clock t = clock s" "clock_count s \<le> clock_count t"
    using n arg_cong[OF t, of clock] arg_cong[OF t, of clock_count] by simp_all
qed

text \<open>
  The effect of one drain on a committed state. The events still waiting at a moment are those that are pending and
  due by then; once that moment has passed, a drain takes the earliest of them off and adds none.
\<close>

definition waiting :: "settings \<Rightarrow> datetime \<Rightarrow> outbox_event \<Rightarrow> nat" where
  "waiting st moment e = (if pending_event st e \<and> ox_available_at e \<le> moment then 1 else 0)"

lemma due_first:
  assumes "e \<in> set (outbox_events s)" "pending_event st e" "ox_available_at e \<le> now" "1 \<le> outbox_batch_size st"
  obtains x where "x \<in> set (claimed_events st now s)" "ox_available_at x \<le> ox_available_at e"
proof -
  let ?due = "sort_key ox_available_at (filter (\<lambda>e. pending_event st e \<and> ox_available_at e \<le> now) (outbox_events s))"
  have e: "e \<in> set ?due" using assms(1-3) by simp
  then obtain x xs where due: "?due = x # xs" by (cases ?due) auto
  have "sorted (map ox_available_at ?due)" by simp
  then have "ox_available_at x \<le> ox_available_at e" using e unfolding due by auto
  moreover have "x \<in> set (claimed_events st now s)"
    unfolding claimed_events_def due using assms(4) by (cases "outbox_batch_size st") auto
  ultimately show thesis using that by blast
qed

lemma claimed_waiting: "e \<in> set (claimed_events st now s) \<Longrightarrow> pending_event st e \<and> e \<in> set (outbox_events s)"
  by (auto simp: claimed_events_def dest: in_set_takeD)

lemma drain_step:
  assumes "identity_chk s = None" and "t = snd (drain_once tr st s)"
  shows "identity_chk t = None" "clock t = clock s" "clock_count s < clock_count t"
    and "e \<in> set (outbox_events s) \<Longrightarrow>
      e \<in> set (outbox_events t) \<or> pending_event st e \<and> (\<exists>e' \<in> set (outbox_events t). tried tr (clock s (clock_count s)) e e')"
    and "moment < clock s (clock_count s) \<Longrightarrow>
      sum_list (map (waiting st moment) (outbox_events t)) \<le> sum_list (map (waiting st moment) (outbox_events s))"
    and "moment < clock s (clock_count s) \<Longrightarrow> 1 \<le> outbox_batch_size st \<Longrightarrow>
      e \<in> set (outbox_events s) \<Longrightarrow> pending_event st e \<Longrightarrow> ox_available_at e \<le> moment \<Longrightarrow>
      sum_list (map (waiting st moment) (outbox_events t)) < sum_list (map (waiting st moment) (outbox_events s))"
proof -
  let ?now = "clock s (clock_count s)" and ?s = "s\<lparr>clock_count := Suc (clock_count s)\<rparr>"
  let ?xs = "claimed_events st ?now s"
  let ?R = "\<lambda>e e'. if e \<in> set ?xs then tried tr ?now e e' else e' = e"
  have t: "identity_chk t = None" "drained tr ?now ?xs ?s t" using drain_once_run[OF assms(1), of tr st] assms(2) by auto
  have rows: "list_all2 ?R (outbox_events s) (outbox_events t)" using t(2) by (simp add: drained_def)
  show "identity_chk t = None" by (rule t(1))
  show "clock t = clock s" "clock_count s < clock_count t" using drained_sources[OF t(2)] by simp_all
  show "e \<in> set (outbox_events t) \<or> pending_event st e \<and> (\<exists>e' \<in> set (outbox_events t). tried tr ?now e e')"
    if "e \<in> set (outbox_events s)"
    using list_all2_partner[OF rows that] claimed_waiting[of e st ?now s] by (auto split: if_splits)
  have off: "waiting st moment y = 0" if "moment < ?now" "tried tr ?now x y" for x y
    using that by (auto simp: waiting_def tried_def pending_event_def)
  have le: "waiting st moment y \<le> waiting st moment x" if "moment < ?now" "?R x y" for x y
    using that off[OF that(1), of x y] by (auto split: if_splits)
  show "sum_list (map (waiting st moment) (outbox_events t)) \<le> sum_list (map (waiting st moment) (outbox_events s))"
    if "moment < ?now"
    using rows by (rule list_all2_sum_le) (rule le[OF that])
  assume now: "moment < ?now" and e: "e \<in> set (outbox_events s)" "pending_event st e" "ox_available_at e \<le> moment"
    and b: "1 \<le> outbox_batch_size st"
  then obtain x where x: "x \<in> set ?xs" "ox_available_at x \<le> ox_available_at e" using due_first[of e s st ?now] by auto
  show "sum_list (map (waiting st moment) (outbox_events t)) < sum_list (map (waiting st moment) (outbox_events s))"
    using rows
  proof (rule list_all2_sum_less)
    show "x \<in> set (outbox_events s)" using claimed_waiting[OF x(1)] by simp
    show "waiting st moment y < waiting st moment x" if "?R x y" for y
      using that x(1,2) e(3) claimed_waiting[OF x(1)] off[OF now, of x y] by (simp add: waiting_def)
  qed (rule le[OF now])
qed

section \<open>A worker among other requests\<close>

text \<open>
  Between two drains other transactions queue events: new rows, due at the time they are written.
\<close>

definition enqueued :: "'a identity_db_scheme \<Rightarrow> 'a identity_db_scheme \<Rightarrow> bool" where
  "enqueued s t \<longleftrightarrow> identity_chk t = None \<and> clock t = clock s \<and> clock_count s \<le> clock_count t
     \<and> (\<exists>new. outbox_events t = outbox_events s @ new \<and> (\<forall>e \<in> set new. \<exists>n \<ge> clock_count s. ox_available_at e = clock s n))"

lemma enqueue_enqueued: "enqueue tenant topic payload s = (Inr e, t) \<Longrightarrow> identity_chk t = None \<Longrightarrow> enqueued s t"
  by (auto simp: enqueue_def enqueued_def uuid7_def datetime_now_def Let_def run_apply)

definition outbox_run :: "transport \<Rightarrow> settings \<Rightarrow> (nat \<Rightarrow> 'a identity_db_scheme) \<Rightarrow> bool" where
  "outbox_run tr st history \<longleftrightarrow> identity_chk (history 0) = None
     \<and> (\<forall>k. history (Suc k) = snd (drain_once tr st (history k)) \<or> enqueued (history k) (history (Suc k)))
     \<and> (\<forall>k. \<exists>j \<ge> k. history (Suc j) = snd (drain_once tr st (history j)))"

definition time_passes :: "'a identity_db_scheme \<Rightarrow> bool" where
  "time_passes s \<longleftrightarrow> (\<forall>moment. \<exists>n. \<forall>m \<ge> n. moment < clock s m)"

lemma run_chk:
  assumes "outbox_run tr st h"
  shows "identity_chk (h k) = None" "clock (h k) = clock (h 0)" "clock_count (h k) \<le> clock_count (h (Suc k))"
proof -
  have step: "identity_chk (h (Suc k)) = None \<and> clock (h (Suc k)) = clock (h k) \<and> clock_count (h k) \<le> clock_count (h (Suc k))"
    if "identity_chk (h k) = None" for k
    using assms that drain_step(1-3)[OF that refl, of tr st] unfolding outbox_run_def enqueued_def
    by (metis less_imp_le)
  have ok: "identity_chk (h k) = None \<and> clock (h k) = clock (h 0)" for k
    using step assms by (induction k) (auto simp: outbox_run_def)
  then show "identity_chk (h k) = None" "clock (h k) = clock (h 0)" by simp_all
  show "clock_count (h k) \<le> clock_count (h (Suc k))" using step ok by blast
qed

lemma run_clock:
  assumes "outbox_run tr st h"
  shows "\<exists>k. \<forall>j \<ge> k. n \<le> clock_count (h j)"
proof -
  have mono: "clock_count (h i) \<le> clock_count (h j)" if "i \<le> j" for i j
    using run_chk(3)[OF assms] that by (rule lift_Suc_mono_le)
  have "\<exists>k. n \<le> clock_count (h k)"
  proof (induction n)
    case (Suc n)
    then obtain k where k: "n \<le> clock_count (h k)" by blast
    obtain j where j: "k \<le> j" "h (Suc j) = snd (drain_once tr st (h j))" using assms by (auto simp: outbox_run_def)
    have "clock_count (h j) < clock_count (h (Suc j))" using drain_step(3)[OF run_chk(1)[OF assms] j(2)] .
    then show ?case using k mono[OF j(1)] by (intro exI[of _ "Suc j"]) simp
  qed simp
  then show ?thesis using mono order_trans by blast
qed

lemma run_row:
  assumes "outbox_run tr st h" and "e \<in> set (outbox_events (h k))"
  shows "e \<in> set (outbox_events (h (Suc k)))
    \<or> pending_event st e \<and> (\<exists>e' \<in> set (outbox_events (h (Suc k))). \<exists>now. tried tr now e e')"
  using assms drain_step(4)[OF run_chk(1)[OF assms(1)] refl assms(2), of tr st]
  unfolding outbox_run_def enqueued_def by (metis Un_iff set_append)

lemma settled_stays:
  assumes "outbox_run tr st h" and "e \<in> set (outbox_events (h k))" "\<not> pending_event st e" and "k \<le> j"
  shows "e \<in> set (outbox_events (h j))"
  using assms(4)
proof (induction j rule: dec_induct)
  case (step n)
  then show ?case using run_row[OF assms(1), of e n] assms(3) by blast
qed (rule assms(2))

text \<open>A pending event is tried: else the number of events waiting at its due time would fall with every drain.\<close>

lemma pending_tried:
  assumes run: "outbox_run tr st h" and time: "time_passes (h 0)" and batch: "1 \<le> outbox_batch_size st"
    and e: "e \<in> set (outbox_events (h k))" "pending_event st e"
  shows "\<exists>j e'. e' \<in> set (outbox_events (h j)) \<and> (\<exists>now. tried tr now e e')"
proof (rule ccontr)
  assume never: "\<not> ?thesis"
  let ?w = "\<lambda>j. sum_list (map (waiting st (ox_available_at e)) (outbox_events (h j)))"
  have there: "e \<in> set (outbox_events (h j))" if "k \<le> j" for j
    using that
  proof (induction j rule: dec_induct)
    case (step n)
    then show ?case using run_row[OF run, of e n] never by blast
  qed (rule e(1))
  obtain n where n: "\<forall>m \<ge> n. ox_available_at e < clock (h 0) m" using time by (auto simp: time_passes_def)
  obtain k0 where k0: "\<forall>j \<ge> k0. n \<le> clock_count (h j)" using run_clock[OF run] by blast
  have past: "ox_available_at e < clock (h j) m" if "k0 \<le> j" "clock_count (h j) \<le> m" for j m
    using n k0 that order_trans run_chk(2)[OF run, of j] by metis
  have fall: "?w (Suc j) < ?w j" if "k \<le> j" "k0 \<le> j" "h (Suc j) = snd (drain_once tr st (h j))" for j
    using drain_step(6)[OF run_chk(1)[OF run] that(3) past batch there e(2)] that(1,2) by simp
  have step: "?w (Suc j) \<le> ?w j" if "k0 \<le> j" for j
  proof (cases "h (Suc j) = snd (drain_once tr st (h j))")
    case True
    then show ?thesis using drain_step(5)[OF run_chk(1)[OF run] True past] that by simp
  next
    case False
    then obtain new where "outbox_events (h (Suc j)) = outbox_events (h j) @ new"
      "\<forall>x \<in> set new. \<exists>m \<ge> clock_count (h j). ox_available_at x = clock (h j) m"
      using run unfolding outbox_run_def enqueued_def by metis
    moreover from this(2) have "\<forall>x \<in> set new. waiting st (ox_available_at e) x = 0"
      using past[OF that] by (fastforce simp: waiting_def)
    ultimately show ?thesis by simp
  qed
  have mono: "?w j \<le> ?w i" if "k0 \<le> i" "i \<le> j" for i j
    using that(2)
  proof (induction j rule: dec_induct)
    case (step n)
    then show ?case using \<open>\<And>j. k0 \<le> j \<Longrightarrow> ?w (Suc j) \<le> ?w j\<close>[of n] that(1) by simp
  qed simp
  have down: "\<exists>j \<ge> max k k0. ?w j + d \<le> ?w (max k k0)" for d
  proof (induction d)
    case (Suc d)
    then obtain i where i: "max k k0 \<le> i" "?w i + d \<le> ?w (max k k0)" by blast
    obtain j where j: "i \<le> j" "h (Suc j) = snd (drain_once tr st (h j))" using run by (auto simp: outbox_run_def)
    have "?w (Suc j) < ?w j" "?w j \<le> ?w i" using fall[OF _ _ j(2)] mono[of i j] i(1) j(1) by simp_all
    then show ?case using i j(1) by (intro exI[of _ "Suc j"]) simp
  qed (auto intro: exI[of _ "max k k0"])
  from down[of "Suc (?w (max k k0))"] show False by auto
qed

section \<open>Guarantee\<close>

text \<open>A failed event carries its error: so every drain leaves it.\<close>

definition error_kept :: "outbox_event \<Rightarrow> bool" where
  "error_kept e \<longleftrightarrow> (ox_sent_at e = None \<and> 0 < ox_attempts e \<longrightarrow> ox_last_error e \<noteq> None)"

definition event_settled :: "settings \<Rightarrow> outbox_event \<Rightarrow> bool" where
  "event_settled st e \<longleftrightarrow> ox_sent_at e \<noteq> None \<or> outbox_max_attempts st \<le> ox_attempts e \<and> ox_last_error e \<noteq> None"

lemma event_settles:
  assumes run: "outbox_run tr st h" "time_passes (h 0)" "1 \<le> outbox_batch_size st" "1 \<le> outbox_max_attempts st"
  shows "e \<in> set (outbox_events (h k)) \<Longrightarrow> error_kept e \<Longrightarrow>
    \<exists>j e'. e' \<in> set (outbox_events (h j)) \<and> ox_id e' = ox_id e \<and> event_settled st e' \<and> \<not> pending_event st e'
      \<and> (accepted tr e \<and> pending_event st e \<longrightarrow> ox_sent_at e' \<noteq> None)"
proof (induction "outbox_max_attempts st - ox_attempts e" arbitrary: e k rule: less_induct)
  case less
  show ?case
  proof (cases "pending_event st e")
    case False
    then have "event_settled st e" using less.prems(2) run(4) by (auto simp: pending_event_def event_settled_def error_kept_def)
    then show ?thesis using False less.prems(1) by blast
  next
    case True
    then obtain j e' now where e': "e' \<in> set (outbox_events (h j))" "tried tr now e e'"
      using pending_tried[OF run(1-3) less.prems(1)] by blast
    show ?thesis
    proof (cases "ox_sent_at e' = None")
      case False
      then show ?thesis using e' by (auto simp: tried_def event_settled_def pending_event_def)
    next
      case unsent: True
      have "outbox_max_attempts st - ox_attempts e' < outbox_max_attempts st - ox_attempts e"
        using True e'(2) by (auto simp: tried_def pending_event_def)
      from less.hyps[OF this e'(1)] show ?thesis using e'(2) unsent by (auto simp: tried_def error_kept_def)
    qed
  qed
qed

text \<open>
  C33. Every queued event is settled. Let a worker drain the outbox again and again while other transactions queue new
  events, and let time pass. Then for every event of the queue, also one that was tried before, there is a point from
  which on it is sent, or it was tried the maximum of times and carries its last error; it is never lost, however many
  events arrive. A pending event that the transport accepts whenever it is tried is sent. Only this is assumed of the
  event: if an earlier try failed, its error is recorded (which every drain does). The bounds on the batch size and on the
  attempts are those of the configuration.
\<close>

theorem outbox_settles:
  assumes "outbox_run tr st history" and "time_passes (history 0)"
    and "1 \<le> outbox_batch_size st" "1 \<le> outbox_max_attempts st"
    and "e \<in> set (outbox_events (history k))" and "error_kept e"
  shows "\<exists>k. \<forall>j \<ge> k. \<exists>e' \<in> set (outbox_events (history j)). ox_id e' = ox_id e
    \<and> (ox_sent_at e' \<noteq> None \<or> outbox_max_attempts st \<le> ox_attempts e' \<and> ox_last_error e' \<noteq> None)
    \<and> (accepted tr e \<and> pending_event st e \<longrightarrow> ox_sent_at e' \<noteq> None)"
  using event_settles[OF assms(1-4) assms(5,6)] settled_stays[OF assms(1)] unfolding event_settled_def by metis

text \<open>A mail that failed twice, and a worker that finds the mail server back in order.\<close>

definition queued :: identity_db where
  "queued = sample_identity\<lparr>outbox_events := [\<lparr>ox_id = 1, ox_tenant_id = None, ox_topic = TOPIC_EMAIL,
     ox_payload = [(''to'', ''a@x''), (''template'', ''invitation''), (''token'', ''t'')], ox_available_at = 0, ox_sent_at = None,
     ox_attempts = 2, ox_last_error = Some ''OSError''\<rparr>]\<rparr>"

definition open_transport :: transport where
  "open_transport = \<lparr>sender_send = (\<lambda>_ _. None), document_indexer = (\<lambda>_ _ _. None), document_cleaner = (\<lambda>_ _ _ _. None)\<rparr>"

fun drains :: "transport \<Rightarrow> settings \<Rightarrow> 'a identity_db_scheme \<Rightarrow> nat \<Rightarrow> 'a identity_db_scheme" where
  "drains tr st s 0 = s"
| "drains tr st s (Suc k) = snd (drain_once tr st (drains tr st s k))"

theorem outbox_settles_witness:
  "\<exists>k. \<forall>j \<ge> k. \<exists>e' \<in> set (outbox_events (drains open_transport sample_settings queued j)). ox_id e' = 1 \<and> ox_sent_at e' \<noteq> None"
proof -
  let ?e = "hd (outbox_events queued)"
  have "identity_chk queued = None" by (simp add: queued_def sample_defs identity_chk_eval unique_where_def OWNER_def)
  then have "outbox_run open_transport sample_settings (drains open_transport sample_settings queued)"
    by (auto simp: outbox_run_def)
  moreover have "time_passes (drains open_transport sample_settings queued 0)" unfolding time_passes_def
  proof
    fix moment :: datetime
    show "\<exists>n. \<forall>m \<ge> n. moment < clock (drains open_transport sample_settings queued 0) m"
      by (intro exI[of _ "nat (moment + 1)"]) (auto simp: queued_def sample_identity_def seconds_def)
  qed
  moreover have "1 \<le> outbox_batch_size sample_settings" "1 \<le> outbox_max_attempts sample_settings"
    by (simp_all add: sample_settings_def)
  moreover have "?e \<in> set (outbox_events (drains open_transport sample_settings queued 0))" "error_kept ?e"
    by (simp_all add: queued_def error_kept_def)
  ultimately have "\<exists>k. \<forall>j \<ge> k. \<exists>e' \<in> set (outbox_events (drains open_transport sample_settings queued j)). ox_id e' = ox_id ?e
    \<and> (ox_sent_at e' \<noteq> None \<or> outbox_max_attempts sample_settings \<le> ox_attempts e' \<and> ox_last_error e' \<noteq> None)
    \<and> (accepted open_transport ?e \<and> pending_event sample_settings ?e \<longrightarrow> ox_sent_at e' \<noteq> None)"
    by (rule outbox_settles)
  then obtain k where "\<forall>j \<ge> k. \<exists>e' \<in> set (outbox_events (drains open_transport sample_settings queued j)). ox_id e' = ox_id ?e
    \<and> (accepted open_transport ?e \<and> pending_event sample_settings ?e \<longrightarrow> ox_sent_at e' \<noteq> None)" by blast
  moreover have "accepted open_transport ?e"
    by (simp add: accepted_def queued_def dispatch_def render_def TEMPLATES_def dict_get_def open_transport_def)
  moreover have "pending_event sample_settings ?e" "ox_id ?e = 1"
    by (simp_all add: queued_def pending_event_def sample_settings_def)
  ultimately show ?thesis by metis
qed

end
