(* ===== verification/Chunking.thy ===== *)
theory Chunking
  imports Auth_Service "HOL-Library.Sublist"
begin

text \<open>
  Chunking of extracted text: \<^verbatim>\<open>modules/documents/chunking.py\<close>. The two regular expressions of the module are written
  out: \<open>split_blocks\<close> is \<^verbatim>\<open>re.split\<close> on \<^verbatim>\<open>\n\s*\n\<close> and \<open>heading_line\<close> the pattern of a heading. Characters are those
  below 256. The loop that cuts a long block is a \<open>partial_function\<close>, so that its termination is a theorem.
\<close>

section \<open>Text\<close>

abbreviation newline :: char where "newline \<equiv> CHR 0x0A"

text \<open>What the pattern leaves of the whitespace after a newline: the part behind the last newline, if there is one.\<close>

definition behind_last_newline :: "string \<Rightarrow> string option" where
  "behind_last_newline ws = (if newline \<in> set ws then Some (rev (takeWhile (\<lambda>c. c \<noteq> newline) (rev ws))) else None)"

lemma behind_last_newline_length: "behind_last_newline ws = Some r \<Longrightarrow> length r \<le> length ws"
  using length_takeWhile_le[of "\<lambda>c. c \<noteq> newline" "rev ws"] by (auto simp: behind_last_newline_def split: if_splits)

lemma spaces_split: "length (takeWhile p xs) + length (dropWhile p xs) = length xs"
  by (metis length_append takeWhile_dropWhile_id)

fun cons_first :: "char \<Rightarrow> string list \<Rightarrow> string list" where
  "cons_first c [] = [[c]]"
| "cons_first c (b # bs) = (c # b) # bs"

function split_blocks :: "string \<Rightarrow> string list" where
  "split_blocks [] = [[]]"
| "split_blocks (c # t) =
     (case if c = newline then behind_last_newline (takeWhile is_space t) else None of
        Some rest \<Rightarrow> [] # split_blocks (rest @ dropWhile is_space t)
      | None \<Rightarrow> cons_first c (split_blocks t))"
  by pat_completeness auto

termination
proof (relation "measure length")
  fix c t rest
  assume "(if c = newline then behind_last_newline (takeWhile is_space t) else None) = Some rest"
  then have "length rest \<le> length (takeWhile is_space t)" by (auto dest: behind_last_newline_length split: if_splits)
  then show "(rest @ dropWhile is_space t, c # t) \<in> measure length" using spaces_split[of is_space t] by simp
qed simp_all

definition blocks_of :: "string \<Rightarrow> string list" where
  "blocks_of t = filter (\<lambda>b. b \<noteq> []) (map strip (split_blocks t))"

text \<open>\<^verbatim>\<open>str.splitlines\<close> and the pattern of a heading\<close>

definition line_break :: "char \<Rightarrow> bool" where
  "line_break c \<longleftrightarrow> (of_char c :: nat) \<in> {10, 11, 12, 13, 28, 29, 30, 133}"

definition upper_case :: "char \<Rightarrow> bool" where
  "upper_case c \<longleftrightarrow> 65 \<le> (of_char c :: nat) \<and> (of_char c :: nat) \<le> 90"

definition heading_char :: "char \<Rightarrow> bool" where
  "heading_char c \<longleftrightarrow> upper_case c \<or> 48 \<le> (of_char c :: nat) \<and> (of_char c :: nat) \<le> 57 \<or> c \<in> set '' -/&,()''"

definition hash_heading :: "string \<Rightarrow> bool" where
  "hash_heading t \<longleftrightarrow> list_ex (\<lambda>h. h \<le> length t \<and> list_all (\<lambda>c. c = CHR ''#'') (take h t)
     \<and> (case drop h t of [] \<Rightarrow> False | c # r \<Rightarrow> is_space c \<and> dropWhile is_space r \<noteq> [])) [1..<7]"

definition capital_heading :: "string \<Rightarrow> bool" where
  "capital_heading t \<longleftrightarrow> list_ex (\<lambda>n. n < length t \<and> upper_case (hd t) \<and> list_all heading_char (take n (tl t))
     \<and> list_all is_space (drop (n + 1) t)) [5..<81]"

definition heading_line :: "string \<Rightarrow> bool" where
  "heading_line line \<longleftrightarrow> list_ex (\<lambda>k. k \<le> length line \<and> list_all is_space (take k line)
     \<and> (hash_heading (drop k line) \<or> capital_heading (drop k line))) [0..<4]"

definition strip_chars :: "string \<Rightarrow> string \<Rightarrow> string" where
  "strip_chars cs t = rev (dropWhile (\<lambda>c. c \<in> set cs) (rev (dropWhile (\<lambda>c. c \<in> set cs) t)))"

definition heading_of :: "string \<Rightarrow> string option" where
  "heading_of block =
     (let first = takeWhile (\<lambda>c. \<not> line_break c) (strip block) in
      if heading_line first then Some (take 500 (strip (strip_chars ''# '' first))) else None)"

section \<open>Chunks\<close>

record Chunk =
  ck_index :: nat
  ck_content :: string
  ck_page :: "nat option"
  ck_heading :: "string option"

record Page =
  pg_number :: "nat option"
  pg_text :: string

definition add_chunk :: "string \<Rightarrow> nat option \<Rightarrow> string option \<Rightarrow> Chunk list \<Rightarrow> Chunk list" where
  "add_chunk content number heading chunks =
     chunks @ [\<lparr>ck_index = length chunks, ck_content = content, ck_page = number, ck_heading = heading\<rparr>]"

text \<open>\<^verbatim>\<open>while len(block) > window\<close>\<close>

partial_function (option) split_window ::
  "nat \<Rightarrow> nat \<Rightarrow> nat option \<Rightarrow> string option \<Rightarrow> Chunk list \<Rightarrow> string \<Rightarrow> (Chunk list \<times> string) option" where
  "split_window window overlap number heading chunks block =
     (if window < length block
      then split_window window overlap number heading (add_chunk (take window block) number heading chunks)
             (if overlap \<noteq> 0 then drop (window - overlap) block else drop window block)
      else Some (chunks, block))"

declare split_window.simps [code]

definition joined :: "string \<Rightarrow> string \<Rightarrow> string" where
  "joined buffer block = (if buffer \<noteq> [] then strip (buffer @ [newline, newline] @ block) else block)"

definition chunk_block ::
  "nat \<Rightarrow> nat \<Rightarrow> nat option \<Rightarrow> Chunk list \<times> string option \<times> string \<Rightarrow> string \<Rightarrow> (Chunk list \<times> string option \<times> string) option" where
  "chunk_block window overlap number state block =
     (case state of (chunks, heading, buffer) \<Rightarrow>
        let heading = (case heading_of block of Some h \<Rightarrow> if h \<noteq> [] then Some h else heading | None \<Rightarrow> heading) in
        if length (joined buffer block) \<le> window then Some (chunks, heading, joined buffer block)
        else
          let chunks = (if buffer \<noteq> [] then add_chunk buffer number heading chunks else chunks);
              buffer = (if buffer \<noteq> [] \<and> overlap \<noteq> 0 then drop (length buffer - overlap) buffer else []) in
          map_option (\<lambda>(chunks, rest). (chunks, heading, joined buffer rest))
            (split_window window overlap number heading chunks block))"

fun chunk_blocks ::
  "nat \<Rightarrow> nat \<Rightarrow> nat option \<Rightarrow> Chunk list \<times> string option \<times> string \<Rightarrow> string list \<Rightarrow> (Chunk list \<times> string option \<times> string) option" where
  "chunk_blocks window overlap number state [] = Some state"
| "chunk_blocks window overlap number state (block # blocks) =
     (case chunk_block window overlap number state block of
        None \<Rightarrow> None
      | Some state' \<Rightarrow> chunk_blocks window overlap number state' blocks)"

definition chunk_page :: "nat \<Rightarrow> nat \<Rightarrow> Chunk list \<Rightarrow> Page \<Rightarrow> Chunk list option" where
  "chunk_page window overlap chunks page =
     map_option (\<lambda>(chunks, heading, buffer).
         if strip buffer \<noteq> [] then add_chunk (strip buffer) (pg_number page) heading chunks else chunks)
       (chunk_blocks window overlap (pg_number page) (chunks, None, []) (blocks_of (pg_text page)))"

fun chunk_all :: "nat \<Rightarrow> nat \<Rightarrow> Chunk list \<Rightarrow> Page list \<Rightarrow> Chunk list option" where
  "chunk_all window overlap chunks [] = Some chunks"
| "chunk_all window overlap chunks (page # pages) =
     (case chunk_page window overlap chunks page of None \<Rightarrow> None | Some chunks' \<Rightarrow> chunk_all window overlap chunks' pages)"

text \<open>\<open>None\<close>: the call does not return.\<close>

definition chunk_pages :: "Page list \<Rightarrow> nat \<Rightarrow> nat \<Rightarrow> (error + Chunk list) option" where
  "chunk_pages pages window overlap =
     (if window \<le> overlap then Some (Inl (ValueError))
      else map_option Inr (chunk_all window overlap [] pages))"

section \<open>Phrases survive stripping\<close>

lemma strip_length: "length (strip t) \<le> length t"
  unfolding strip_def by (metis length_dropWhile_le length_rev order_trans)

lemma stripped_ends:
  assumes "strip w = w" and "w \<noteq> []"
  shows "\<not> is_space (hd w)" "\<not> is_space (last w)"
proof -
  have le: "length (strip w) \<le> length (dropWhile is_space w)"
    unfolding strip_def by (metis length_dropWhile_le length_rev)
  then have same: "dropWhile is_space w = w"
    using assms(1) length_dropWhile_le[of is_space "tl w"] by (cases w) (auto split: if_splits)
  show "\<not> is_space (hd w)" using same assms(2) by (metis hd_dropWhile)
  have "dropWhile is_space (rev w) = rev w" using assms(1) same by (metis strip_def rev_rev_ident)
  then show "\<not> is_space (last w)" using assms(2) by (metis hd_dropWhile hd_rev rev_is_Nil_conv)
qed

lemma sublist_dropWhile:
  assumes "sublist w x" and "w \<noteq> []" and "\<not> P (hd w)"
  shows "sublist w (dropWhile P x)"
proof -
  obtain ps ss where x: "x = ps @ w @ ss" using assms(1) by (auto simp: sublist_def)
  have "dropWhile P x = w @ ss \<or> (\<exists>qs. dropWhile P x = qs @ w @ ss)"
  proof (cases "\<forall>c \<in> set ps. P c")
    case True
    then have "dropWhile P x = dropWhile P (w @ ss)" by (simp add: x)
    then show ?thesis using assms(2,3) by (cases w) simp_all
  next
    case False
    then show ?thesis by (auto simp: x dropWhile_append1)
  qed
  then show ?thesis unfolding sublist_def by (metis append_Nil)
qed

lemma sublist_strip:
  assumes "sublist w x" and "strip w = w" and "w \<noteq> []"
  shows "sublist w (strip x)"
proof -
  have "sublist w (dropWhile is_space x)" using sublist_dropWhile[OF assms(1,3)] stripped_ends[OF assms(2,3)] by blast
  then have "sublist (rev w) (rev (dropWhile is_space x))" by (simp add: sublist_rev)
  then have "sublist (rev w) (dropWhile is_space (rev (dropWhile is_space x)))"
    using sublist_dropWhile stripped_ends[OF assms(2,3)] assms(3) by (metis hd_rev rev_is_Nil_conv)
  then show ?thesis unfolding strip_def by (metis rev_rev_ident sublist_rev)
qed

section \<open>What the chunks hold\<close>

text \<open>Chunks are numbered from zero, and none is longer than \<open>limit\<close>.\<close>

definition well_chunked :: "nat \<Rightarrow> Chunk list \<Rightarrow> bool" where
  "well_chunked limit chunks \<longleftrightarrow> map ck_index chunks = [0..<length chunks] \<and> (\<forall>c \<in> set chunks. length (ck_content c) \<le> limit)"

definition in_chunks :: "nat option \<Rightarrow> Chunk list \<Rightarrow> string \<Rightarrow> bool" where
  "in_chunks number chunks w \<longleftrightarrow> (\<exists>c \<in> set chunks. ck_page c = number \<and> sublist w (ck_content c))"

definition phrase :: "nat \<Rightarrow> string \<Rightarrow> bool" where
  "phrase overlap w \<longleftrightarrow> w \<noteq> [] \<and> strip w = w \<and> length w \<le> overlap + 1"

lemma well_chunked_add: "well_chunked limit chunks \<Longrightarrow> length t \<le> limit \<Longrightarrow> well_chunked limit (add_chunk t n h chunks)"
  by (simp add: well_chunked_def add_chunk_def)

lemma in_chunks_add: "in_chunks k (add_chunk t n h chunks) w \<longleftrightarrow> in_chunks k chunks w \<or> k = n \<and> sublist w t"
  by (auto simp: in_chunks_def add_chunk_def)

lemma sublist_joined:
  assumes "phrase k w" and "sublist w buffer \<or> sublist w block"
  shows "sublist w (joined buffer block)"
proof -
  have "sublist w (buffer @ [newline, newline] @ block)" using assms(2)
  proof
    assume "sublist w buffer"
    then show ?thesis by (rule sublist_order.order.trans) (rule sublist_append_rightI)
  next
    assume "sublist w block"
    then show ?thesis by (rule sublist_order.order.trans) (metis append.assoc sublist_append_leftI)
  qed
  then show ?thesis using assms unfolding phrase_def joined_def by (auto intro: sublist_strip)
qed

lemma sublist_window:
  assumes "sublist w block" and "length w \<le> overlap + 1" and "overlap < window"
  shows "sublist w (take window block) \<or> sublist w (drop (window - overlap) block)"
proof -
  obtain ps ss where b: "block = ps @ w @ ss" using assms(1) by (auto simp: sublist_def)
  show ?thesis
  proof (cases "length ps + length w \<le> window")
    case True
    then have "take window block = ps @ w @ take (window - length ps - length w) ss" by (simp add: b)
    then show ?thesis by (auto simp: sublist_def)
  next
    case False
    then have "drop (window - overlap) block = drop (window - overlap) ps @ w @ ss" using assms(2,3) by (simp add: b)
    then show ?thesis by (auto simp: sublist_def)
  qed
qed

lemma split_window_total:
  assumes "overlap < window" and "well_chunked limit chunks" and "window \<le> limit"
  shows "\<exists>chunks' rest. split_window window overlap number heading chunks block = Some (chunks', rest)
    \<and> well_chunked limit chunks' \<and> length rest \<le> window \<and> (\<forall>k w. in_chunks k chunks w \<longrightarrow> in_chunks k chunks' w)
    \<and> (\<forall>w. phrase overlap w \<and> sublist w block \<longrightarrow> in_chunks number chunks' w \<or> sublist w rest)"
  using assms(2)
proof (induction "length block" arbitrary: block chunks rule: less_induct)
  case less
  show ?case
  proof (cases "window < length block")
    case True
    let ?chunks = "add_chunk (take window block) number heading chunks"
    let ?rest = "drop (window - overlap) block"
    have rest: "(if overlap \<noteq> 0 then drop (window - overlap) block else drop window block) = ?rest" by simp
    have "length ?rest < length block" using True assms(1) by simp
    moreover have "well_chunked limit ?chunks" using less.prems assms(3) by (intro well_chunked_add) auto
    ultimately obtain chunks' r where r: "split_window window overlap number heading ?chunks ?rest = Some (chunks', r)"
      "well_chunked limit chunks'" "length r \<le> window" "\<And>k w. in_chunks k ?chunks w \<Longrightarrow> in_chunks k chunks' w"
      "\<And>w. phrase overlap w \<Longrightarrow> sublist w ?rest \<Longrightarrow> in_chunks number chunks' w \<or> sublist w r"
      using less.hyps[of ?rest ?chunks] by blast
    have "split_window window overlap number heading chunks block = Some (chunks', r)"
      using r(1) True by (subst split_window.simps) (simp only: rest if_True)
    moreover have "in_chunks number chunks' w \<or> sublist w r" if "phrase overlap w" "sublist w block" for w
      using sublist_window[OF that(2) _ assms(1)] that(1) r(4,5) by (auto simp: phrase_def in_chunks_add)
    ultimately show ?thesis using r(2-4) by (auto simp: in_chunks_add)
  next
    case False
    then show ?thesis using less.prems by (subst split_window.simps) simp
  qed
qed

text \<open>What holds between blocks: \<open>Ws\<close> are the phrases read so far on the page.\<close>

definition page_state :: "nat \<Rightarrow> nat \<Rightarrow> nat option \<Rightarrow> string set \<Rightarrow> Chunk list \<times> string option \<times> string \<Rightarrow> bool" where
  "page_state window overlap number Ws state \<longleftrightarrow> (case state of (chunks, heading, buffer) \<Rightarrow>
     well_chunked (window + overlap + 2) chunks \<and> length buffer \<le> window + overlap + 2
     \<and> (\<forall>w \<in> Ws. in_chunks number chunks w \<or> sublist w buffer))"

definition phrases :: "nat \<Rightarrow> string \<Rightarrow> string set" where
  "phrases overlap block = {w. phrase overlap w \<and> sublist w block}"

lemma joined_length: "length (joined buffer block) \<le> length buffer + 2 + length block"
  unfolding joined_def using strip_length[of "buffer @ [newline, newline] @ block"] by simp

lemma chunk_block_total:
  assumes "overlap < window" and "page_state window overlap number Ws (chunks, heading, buffer)" and "\<forall>w \<in> Ws. phrase overlap w"
  shows "\<exists>chunks' heading' buffer'. chunk_block window overlap number (chunks, heading, buffer) block = Some (chunks', heading', buffer')
    \<and> page_state window overlap number (Ws \<union> phrases overlap block) (chunks', heading', buffer')
    \<and> (\<forall>k w. in_chunks k chunks w \<longrightarrow> in_chunks k chunks' w)"
proof (cases "length (joined buffer block) \<le> window")
  case True
  then show ?thesis using assms(2,3)
    by (auto simp: chunk_block_def Let_def page_state_def phrases_def intro: sublist_joined)
next
  case False
  define h where "h = (case heading_of block of Some h \<Rightarrow> if h \<noteq> [] then Some h else heading | None \<Rightarrow> heading)"
  define cs where "cs = (if buffer \<noteq> [] then add_chunk buffer number h chunks else chunks)"
  define bf where "bf = (if buffer \<noteq> [] \<and> overlap \<noteq> 0 then drop (length buffer - overlap) buffer else [])"
  have cs: "well_chunked (window + overlap + 2) cs" "\<And>k w. in_chunks k chunks w \<Longrightarrow> in_chunks k cs w"
    using assms(2) by (auto simp: cs_def page_state_def in_chunks_add intro: well_chunked_add)
  have seen: "in_chunks number cs w" if "w \<in> Ws" for w
    using that assms(2,3) by (auto simp: cs_def page_state_def in_chunks_add phrase_def)
  have bf: "length bf \<le> overlap" by (auto simp: bf_def)
  obtain cs' rest where r: "split_window window overlap number h cs block = Some (cs', rest)" "well_chunked (window + overlap + 2) cs'"
    "length rest \<le> window" "\<And>k w. in_chunks k cs w \<Longrightarrow> in_chunks k cs' w"
    "\<And>w. phrase overlap w \<Longrightarrow> sublist w block \<Longrightarrow> in_chunks number cs' w \<or> sublist w rest"
    using split_window_total[OF assms(1) cs(1), of number h block] by auto
  have "chunk_block window overlap number (chunks, heading, buffer) block = Some (cs', h, joined bf rest)"
    using False r(1) unfolding chunk_block_def Let_def prod.case h_def[symmetric] cs_def[symmetric] bf_def[symmetric]
    by (simp only: if_False option.map prod.case)
  moreover have "page_state window overlap number (Ws \<union> phrases overlap block) (cs', h, joined bf rest)"
    unfolding page_state_def prod.case
  proof (intro conjI ballI)
    show "length (joined bf rest) \<le> window + overlap + 2" using r(3) bf joined_length[of bf rest] by simp
    fix w
    assume "w \<in> Ws \<union> phrases overlap block"
    then consider "w \<in> Ws" | "phrase overlap w" "sublist w block" by (auto simp: phrases_def)
    then show "in_chunks number cs' w \<or> sublist w (joined bf rest)"
      using r(4)[OF seen] r(5) sublist_joined[of overlap w bf rest] by cases metis+
  qed (rule r(2))
  ultimately show ?thesis using cs(2) r(4) by blast
qed

lemma chunk_blocks_total:
  assumes "overlap < window" and "page_state window overlap number Ws (chunks, heading, buffer)" and "\<forall>w \<in> Ws. phrase overlap w"
  shows "\<exists>chunks' heading' buffer'. chunk_blocks window overlap number (chunks, heading, buffer) blocks = Some (chunks', heading', buffer')
    \<and> page_state window overlap number (Ws \<union> \<Union> (phrases overlap ` set blocks)) (chunks', heading', buffer')
    \<and> (\<forall>k w. in_chunks k chunks w \<longrightarrow> in_chunks k chunks' w)"
  using assms(2,3)
proof (induction blocks arbitrary: Ws chunks heading buffer)
  case (Cons block blocks)
  obtain cs h bf where b: "chunk_block window overlap number (chunks, heading, buffer) block = Some (cs, h, bf)"
    "page_state window overlap number (Ws \<union> phrases overlap block) (cs, h, bf)" "\<And>k w. in_chunks k chunks w \<Longrightarrow> in_chunks k cs w"
    using chunk_block_total[OF assms(1) Cons.prems] by blast
  have "\<forall>w \<in> Ws \<union> phrases overlap block. phrase overlap w" using Cons.prems(2) by (auto simp: phrases_def)
  from Cons.IH[OF b(2) this] obtain cs' h' bf' where "chunk_blocks window overlap number (cs, h, bf) blocks = Some (cs', h', bf')"
    "page_state window overlap number (Ws \<union> phrases overlap block \<union> \<Union> (phrases overlap ` set blocks)) (cs', h', bf')"
    "\<And>k w. in_chunks k cs w \<Longrightarrow> in_chunks k cs' w" by blast
  then show ?case using b(1,3) by (auto simp: Un_assoc)
qed simp

lemma chunk_page_total:
  assumes "overlap < window" and "well_chunked (window + overlap + 2) chunks"
  shows "\<exists>chunks'. chunk_page window overlap chunks page = Some chunks' \<and> well_chunked (window + overlap + 2) chunks'
    \<and> (\<forall>k w. in_chunks k chunks w \<longrightarrow> in_chunks k chunks' w)
    \<and> (\<forall>block \<in> set (blocks_of (pg_text page)). \<forall>w \<in> phrases overlap block. in_chunks (pg_number page) chunks' w)"
proof -
  let ?Ws = "\<Union> (phrases overlap ` set (blocks_of (pg_text page)))"
  have "page_state window overlap (pg_number page) {} (chunks, None, [])" using assms(2) by (simp add: page_state_def)
  then obtain cs h bf where c: "chunk_blocks window overlap (pg_number page) (chunks, None, []) (blocks_of (pg_text page)) = Some (cs, h, bf)"
    "page_state window overlap (pg_number page) ?Ws (cs, h, bf)" "\<And>k w. in_chunks k chunks w \<Longrightarrow> in_chunks k cs w"
    using chunk_blocks_total[OF assms(1), of "pg_number page" "{}" chunks None "[]" "blocks_of (pg_text page)"] by auto
  let ?cs = "if strip bf \<noteq> [] then add_chunk (strip bf) (pg_number page) h cs else cs"
  have "well_chunked (window + overlap + 2) ?cs"
    using c(2) strip_length[of bf] by (auto simp: page_state_def intro: well_chunked_add)
  moreover have "in_chunks (pg_number page) ?cs w" if "w \<in> ?Ws" for w
  proof -
    have w: "w \<noteq> []" "strip w = w" using that by (auto simp: phrases_def phrase_def)
    have "\<forall>w \<in> ?Ws. in_chunks (pg_number page) cs w \<or> sublist w bf"
      using c(2) unfolding page_state_def prod.case by (elim conjE)
    then have "in_chunks (pg_number page) cs w \<or> sublist w bf" using that by (rule bspec)
    then consider "in_chunks (pg_number page) cs w" | "sublist w (strip bf)"
      using sublist_strip[OF _ w(2,1), of bf] by argo
    then show ?thesis using w(1) by cases (auto simp: in_chunks_add)
  qed
  moreover have "chunk_page window overlap chunks page = Some ?cs" using c(1) by (simp add: chunk_page_def)
  moreover have "in_chunks k ?cs w" if "in_chunks k chunks w" for k w using c(3)[OF that] by (simp add: in_chunks_add)
  ultimately show ?thesis by blast
qed

lemma chunk_all_total:
  assumes "overlap < window" and "well_chunked (window + overlap + 2) chunks"
  shows "\<exists>chunks'. chunk_all window overlap chunks pages = Some chunks' \<and> well_chunked (window + overlap + 2) chunks'
    \<and> (\<forall>k w. in_chunks k chunks w \<longrightarrow> in_chunks k chunks' w)
    \<and> (\<forall>page \<in> set pages. \<forall>block \<in> set (blocks_of (pg_text page)). \<forall>w \<in> phrases overlap block. in_chunks (pg_number page) chunks' w)"
  using assms(2)
proof (induction pages arbitrary: chunks)
  case (Cons page pages)
  obtain cs where p: "chunk_page window overlap chunks page = Some cs" "well_chunked (window + overlap + 2) cs"
    "\<And>k w. in_chunks k chunks w \<Longrightarrow> in_chunks k cs w"
    "\<And>block w. block \<in> set (blocks_of (pg_text page)) \<Longrightarrow> w \<in> phrases overlap block \<Longrightarrow> in_chunks (pg_number page) cs w"
    using chunk_page_total[OF assms(1) Cons.prems, of page] by blast
  from Cons.IH[OF p(2)] show ?case using p(1,3,4) by fastforce
qed simp

section \<open>Guarantees\<close>

text \<open>
  C34. Chunking terminates: whatever the pages, the call returns. If the overlap is not smaller than the window it raises
  \<open>ValueError\<close>; otherwise it returns chunks numbered from zero, each at most the window, the overlap and two line breaks
  long.
\<close>

theorem chunk_pages_terminates:
  "(window \<le> overlap \<longrightarrow> chunk_pages pages window overlap = Some (Inl ValueError))
   \<and> (overlap < window \<longrightarrow> (\<exists>chunks. chunk_pages pages window overlap = Some (Inr chunks)
        \<and> map ck_index chunks = [0..<length chunks]
        \<and> list_all (\<lambda>c. length (ck_content c) \<le> window + overlap + 2) chunks))"
proof (intro conjI impI)
  assume lt: "overlap < window"
  have "well_chunked (window + overlap + 2) []" by (simp add: well_chunked_def)
  from chunk_all_total[OF lt this, of pages] lt
  show "\<exists>chunks. chunk_pages pages window overlap = Some (Inr chunks) \<and> map ck_index chunks = [0..<length chunks]
      \<and> list_all (\<lambda>c. length (ck_content c) \<le> window + overlap + 2) chunks"
    by (auto simp: chunk_pages_def well_chunked_def list_all_iff)
qed (simp add: chunk_pages_def)

text \<open>
  C35. Chunking loses nothing: every phrase of a paragraph that is at most one character longer than the overlap, and does
  not begin or end with white space, stands whole in a chunk of its page, also where the paragraph is cut.
\<close>

theorem chunk_pages_covers:
  assumes "chunk_pages pages window overlap = Some (Inr chunks)" and "page \<in> set pages" and "block \<in> set (blocks_of (pg_text page))"
    and "sublist w block" and "w \<noteq> []" and "strip w = w" and "length w \<le> overlap + 1"
  shows "\<exists>c \<in> set chunks. ck_page c = pg_number page \<and> sublist w (ck_content c)"
proof -
  have lt: "overlap < window" and run: "chunk_all window overlap [] pages = Some chunks"
    using assms(1) by (auto simp: chunk_pages_def split: if_splits)
  have "w \<in> phrases overlap block" using assms(4-7) by (simp add: phrases_def phrase_def)
  then have "in_chunks (pg_number page) chunks w"
    using chunk_all_total[OF lt, of "[]" pages] run assms(2,3) by (auto simp: well_chunked_def)
  then show ?thesis by (simp add: in_chunks_def)
qed

definition sample_page :: Page where
  "sample_page = \<lparr>pg_number = Some 1, pg_text = ''abcdef''\<rparr>"

theorem chunk_pages_terminates_witness:
  "chunk_pages [sample_page] 2 2 = Some (Inl ValueError)
   \<and> (\<exists>chunks. chunk_pages [sample_page] 4 2 = Some (Inr chunks) \<and> map ck_index chunks = [0..<length chunks]
        \<and> list_all (\<lambda>c. length (ck_content c) \<le> 8) chunks)"
  using chunk_pages_terminates[of 2 2 "[sample_page]"] chunk_pages_terminates[of 4 2 "[sample_page]"] by simp

theorem chunk_pages_covers_witness:
  "\<exists>c \<in> set [\<lparr>ck_index = 0, ck_content = ''abcd'', ck_page = Some 1, ck_heading = None\<rparr>,
             \<lparr>ck_index = 1, ck_content = ''cdef'', ck_page = Some 1, ck_heading = None\<rparr>].
     ck_page c = pg_number sample_page \<and> sublist ''de'' (ck_content c)"
proof (rule chunk_pages_covers[where pages = "[sample_page]" and window = 4 and overlap = 2 and block = "''abcdef''"])
  show "chunk_pages [sample_page] 4 2 = Some (Inr [\<lparr>ck_index = 0, ck_content = ''abcd'', ck_page = Some 1, ck_heading = None\<rparr>,
             \<lparr>ck_index = 1, ck_content = ''cdef'', ck_page = Some 1, ck_heading = None\<rparr>])" by code_simp
  show "''abcdef'' \<in> set (blocks_of (pg_text sample_page))" by code_simp
  show "sublist ''de'' ''abcdef''" by code_simp
  show "strip ''de'' = ''de''" by code_simp
qed simp_all

end
