(* ===== verification/Catalog.thy ===== *)
theory Catalog
  imports Inventory Updates Program_Logic "HOL-Library.List_Lexorder"
begin

text \<open>
  The catalogue: \<^verbatim>\<open>modules/catalog/service.py\<close> with the queries of \<^verbatim>\<open>modules/catalog/repository.py\<close>. These are the full
  rows of the tables of which the stock and document services read some columns (\<open>product\<close> and \<open>unit_of_measure\<close> of
  \<open>Inventory\<close>); \<open>moved_products\<close> are the products that have stock movements. The JSON attributes of a variant are kept as
  their text.

  The query \<open>category_parent_chain\<close> follows parents in a loop that has no bound of its own. It is a \<open>partial_function\<close>;
  an operation whose loop does not return is given the result \<open>unfinished\<close>, which the theorem on chains excludes.
\<close>

section \<open>Data\<close>

record category =
  cg_id :: uuid
  cg_name :: string
  cg_parent_id :: "uuid option"
  cg_description :: "string option"
  cg_is_active :: bool

record brand =
  bd_id :: uuid
  bd_name :: string
  bd_description :: "string option"
  bd_is_active :: bool

record catalog_unit =
  cm_id :: uuid
  cm_code :: string
  cm_name :: string
  cm_precision :: nat
  cm_is_active :: bool

record catalog_tax_category =
  ctx_id :: uuid
  ctx_code :: string
  ctx_name :: string
  ctx_rate :: rat
  ctx_is_active :: bool

record catalog_product =
  cp_id :: uuid
  cp_sku :: string
  cp_name :: string
  cp_description :: "string option"
  cp_category_id :: "uuid option"
  cp_brand_id :: "uuid option"
  cp_uom_id :: uuid
  cp_tax_category_id :: "uuid option"
  cp_cost_price :: rat
  cp_selling_price :: rat
  cp_reorder_point :: "rat option"
  cp_is_stock_tracked :: bool
  cp_is_active :: bool

record product_variant =
  pv_id :: uuid
  pv_product_id :: uuid
  pv_sku :: string
  pv_name :: string
  pv_attributes :: string
  pv_is_active :: bool

record product_barcode =
  pb_id :: uuid
  pb_product_id :: uuid
  pb_product_variant_id :: "uuid option"
  pb_barcode :: string
  pb_is_primary :: bool

record catalog_db = base_db +
  categories :: "category list"
  brands :: "brand list"
  catalog_units :: "catalog_unit list"
  catalog_tax_categories :: "catalog_tax_category list"
  catalog_products :: "catalog_product list"
  product_variants :: "product_variant list"
  product_barcodes :: "product_barcode list"
  moved_products :: "uuid list"

definition linked :: "uuid option \<Rightarrow> uuid list \<Rightarrow> bool" where
  "linked link ids \<longleftrightarrow> (case link of None \<Rightarrow> True | Some i \<Rightarrow> i \<in> set ids)"

definition catalog_constraints :: "'a catalog_db_scheme \<Rightarrow> (bool \<times> error) list" where
  "catalog_constraints s =
     [(unique_on cg_id (categories s), IntegrityError),
      (unique_on (\<lambda>c. (cg_parent_id c, cg_name c)) (categories s), IntegrityError),
      (list_all (\<lambda>c. linked (cg_parent_id c) (map cg_id (categories s))) (categories s), IntegrityError),
      (unique_on bd_id (brands s), IntegrityError), (unique_on bd_name (brands s), IntegrityError),
      (unique_on cm_id (catalog_units s), IntegrityError), (unique_on cm_code (catalog_units s), IntegrityError),
      (list_all (\<lambda>u. cm_precision u \<le> 6) (catalog_units s), IntegrityError),
      (unique_on ctx_id (catalog_tax_categories s), IntegrityError), (unique_on ctx_code (catalog_tax_categories s), IntegrityError),
      (list_all (\<lambda>t. 0 \<le> ctx_rate t \<and> ctx_rate t \<le> 1) (catalog_tax_categories s), IntegrityError),
      (unique_on cp_id (catalog_products s), IntegrityError), (unique_on cp_sku (catalog_products s), IntegrityError),
      (list_all (\<lambda>p. 0 \<le> cp_cost_price p \<and> 0 \<le> cp_selling_price p) (catalog_products s), IntegrityError),
      (list_all (\<lambda>p. case cp_reorder_point p of None \<Rightarrow> True | Some q \<Rightarrow> 0 \<le> q) (catalog_products s), IntegrityError),
      (list_all (\<lambda>p. in_range 14 (cp_selling_price p)) (catalog_products s), overflow),
      (list_all (\<lambda>p. case cp_reorder_point p of None \<Rightarrow> True | Some q \<Rightarrow> in_range 12 q) (catalog_products s), overflow),
      (list_all (\<lambda>p. linked (cp_category_id p) (map cg_id (categories s)) \<and> linked (cp_brand_id p) (map bd_id (brands s))
          \<and> cp_uom_id p \<in> set (map cm_id (catalog_units s)) \<and> linked (cp_tax_category_id p) (map ctx_id (catalog_tax_categories s)))
        (catalog_products s), IntegrityError),
      (unique_on pv_id (product_variants s), IntegrityError), (unique_on pv_sku (product_variants s), IntegrityError),
      (list_all (\<lambda>v. pv_product_id v \<in> set (map cp_id (catalog_products s))) (product_variants s), IntegrityError),
      (unique_on pb_id (product_barcodes s), IntegrityError), (unique_on pb_barcode (product_barcodes s), IntegrityError),
      (list_all (\<lambda>b. pb_product_id b \<in> set (map cp_id (catalog_products s))) (product_barcodes s), IntegrityError),
      (list_all (\<lambda>b. case pb_product_variant_id b of None \<Rightarrow> True
          | Some v \<Rightarrow> (v, pb_product_id b) \<in> set (map (\<lambda>x. (pv_id x, pv_product_id x)) (product_variants s))) (product_barcodes s),
        IntegrityError)]"

definition catalog_chk :: "'a catalog_db_scheme \<Rightarrow> error option" where
  "catalog_chk s = violated (base_constraints s @ catalog_constraints s)"

text \<open>\<^verbatim>\<open>{"fields": sorted(changes)}\<close>\<close>

definition fields_changed :: "(string \<times> bool) list \<Rightarrow> (string \<times> meta) list" where
  "fields_changed changes = map (\<lambda>f. (''fields'', MStr f)) (sort (map fst (filter snd changes)))"

section \<open>Categories\<close>

record CategoryCreate =
  cc_name :: string
  cc_description :: "string option"
  cc_parent_id :: "uuid option"

record CategoryUpdate =
  cgu_name :: "string option option"
  cgu_description :: "string option option"
  cgu_is_active :: "bool option option"
  cgu_parent_id :: "uuid option option"

partial_function (option) parent_chain :: "category list \<Rightarrow> category list \<Rightarrow> uuid option \<Rightarrow> category list option" where
  "parent_chain cs chain current =
     (case current of
        None \<Rightarrow> Some chain
      | Some i \<Rightarrow>
          (case find (\<lambda>c. cg_id c = i) cs of
             None \<Rightarrow> Some chain
           | Some c \<Rightarrow> parent_chain cs (chain @ [c]) (cg_parent_id c)))"

declare parent_chain.simps [code]

definition category_parent_chain :: "uuid \<Rightarrow> 'a catalog_db_scheme \<Rightarrow> category list option" where
  "category_parent_chain i s = parent_chain (categories s) [] (Some i)"

text \<open>A request whose loop does not return has no outcome in the program; it is shown as an error of its own.\<close>

definition unfinished :: error where "unfinished = RuntimeError ''the loop does not return''"

definition get_category :: "uuid \<Rightarrow> 'a catalog_db_scheme \<Rightarrow> category option" where
  "get_category i s = find (\<lambda>c. cg_id c = i) (categories s)"

definition update_categories :: "uuid \<Rightarrow> (category \<Rightarrow> category) \<Rightarrow> ('a catalog_db_scheme, unit) tx" where
  "update_categories i f = modify (\<lambda>s. s\<lparr>categories := upd_where (\<lambda>c. cg_id c = i) f (categories s)\<rparr>)"

definition create_category :: "TenantContext \<Rightarrow> CategoryCreate \<Rightarrow> ('a catalog_db_scheme, category) tx" where
  "create_category context payload =
     on_integrity_error (ConflictError ''DUPLICATE_RESOURCE'')
       (service_transaction catalog_chk
         (bnd (case cc_parent_id payload of
                 None \<Rightarrow> ret ()
               | Some parent \<Rightarrow>
                   bnd (gets (category_parent_chain parent)) (\<lambda>loop.
                   bnd (some_or unfinished loop) (\<lambda>chain.
                   bnd (require (chain \<noteq> [] \<and> cg_id (hd chain) = parent) NotFoundError) (\<lambda>_.
                   require (\<not> 5 \<le> length chain) (ConflictError ''CATEGORY_CYCLE''))))) (\<lambda>_.
          bnd uuid7 (\<lambda>i.
          let category = \<lparr>cg_id = i, cg_name = cc_name payload, cg_parent_id = cc_parent_id payload,
                          cg_description = cc_description payload, cg_is_active = True\<rparr> in
          bnd (modify (\<lambda>s. s\<lparr>categories := categories s @ [category]\<rparr>)) (\<lambda>_.
          bnd (audit_record context ''catalog.category_created'' ''category'' (Some i) []) (\<lambda>_.
          ret category))))))"

definition changed_category :: "CategoryUpdate \<Rightarrow> category \<Rightarrow> category" where
  "changed_category u c =
     set_field (cgu_name u) (\<lambda>v c. c\<lparr>cg_name := v\<rparr>)
    (set_nullable (cgu_description u) (\<lambda>v c. c\<lparr>cg_description := v\<rparr>)
    (set_field (cgu_is_active u) (\<lambda>v c. c\<lparr>cg_is_active := v\<rparr>)
    (set_nullable (cgu_parent_id u) (\<lambda>v c. c\<lparr>cg_parent_id := v\<rparr>) c)))"

definition update_category :: "TenantContext \<Rightarrow> uuid \<Rightarrow> CategoryUpdate \<Rightarrow> ('a catalog_db_scheme, category) tx" where
  "update_category context i payload =
     on_integrity_error (ConflictError ''DUPLICATE_RESOURCE'')
       (service_transaction catalog_chk
         (bnd (gets (get_category i)) (\<lambda>row.
          bnd (some_or NotFoundError row) (\<lambda>category.
          bnd (case cgu_parent_id payload of
                 Some (Some parent) \<Rightarrow>
                   bnd (gets (category_parent_chain parent)) (\<lambda>loop.
                   bnd (some_or unfinished loop) (\<lambda>chain.
                   bnd (require (\<not> (chain = [] \<or> i \<in> cg_id ` set chain)) (ConflictError ''CATEGORY_CYCLE'')) (\<lambda>_.
                   require (\<not> 5 \<le> length chain) (ConflictError ''CATEGORY_CYCLE''))))
               | _ \<Rightarrow> ret ()) (\<lambda>_.
          bnd (update_categories i (changed_category payload)) (\<lambda>_.
          bnd (audit_record context ''catalog.category_updated'' ''category'' (Some i)
                 (fields_changed [(''name'', cgu_name payload \<noteq> None), (''description'', cgu_description payload \<noteq> None),
                    (''is_active'', cgu_is_active payload \<noteq> None), (''parent_id'', cgu_parent_id payload \<noteq> None)])) (\<lambda>_.
          bnd (require (cgu_name payload \<noteq> Some None \<and> cgu_is_active payload \<noteq> Some None) IntegrityError) (\<lambda>_.
          ret (changed_category payload category)))))))))"

definition category_has_children_or_products :: "uuid \<Rightarrow> 'a catalog_db_scheme \<Rightarrow> bool" where
  "category_has_children_or_products i s \<longleftrightarrow>
     list_ex (\<lambda>c. cg_parent_id c = Some i) (categories s) \<or> list_ex (\<lambda>p. cp_category_id p = Some i) (catalog_products s)"

definition deactivate_category :: "TenantContext \<Rightarrow> uuid \<Rightarrow> ('a catalog_db_scheme, unit) tx" where
  "deactivate_category context i =
     service_transaction catalog_chk
       (bnd (gets (get_category i)) (\<lambda>row.
        bnd (some_or NotFoundError row) (\<lambda>category.
        bnd (gets (category_has_children_or_products i)) (\<lambda>used.
        bnd (require (\<not> used) (ConflictError ''RESOURCE_IN_USE'')) (\<lambda>_.
        bnd (update_categories i (\<lambda>c. c\<lparr>cg_is_active := False\<rparr>)) (\<lambda>_.
        audit_record context ''catalog.category_deactivated'' ''category'' (Some i) []))))))"

section \<open>Brands, units and tax categories\<close>

text \<open>The resource named in the path decides the table and the payload.\<close>

datatype reference_create =
    NewBrand string "string option"
  | NewUnit string string nat
  | NewTaxCategory string string rat

datatype reference_update =
    BrandUpdate "string option option" "string option option" "bool option option"
  | UnitUpdate "string option option" "nat option option" "bool option option"
  | TaxCategoryUpdate "string option option" "rat option option" "bool option option"

datatype reference = Ref_brand | Ref_unit | Ref_tax_category

fun reference_table :: "reference \<Rightarrow> string" where
  "reference_table Ref_brand = ''brands''"
| "reference_table Ref_unit = ''units_of_measure''"
| "reference_table Ref_tax_category = ''tax_categories''"

fun created_resource :: "reference_create \<Rightarrow> reference" where
  "created_resource (NewBrand n d) = Ref_brand"
| "created_resource (NewUnit c n p) = Ref_unit"
| "created_resource (NewTaxCategory c n r) = Ref_tax_category"

fun updated_resource :: "reference_update \<Rightarrow> reference" where
  "updated_resource (BrandUpdate n d a) = Ref_brand"
| "updated_resource (UnitUpdate n p a) = Ref_unit"
| "updated_resource (TaxCategoryUpdate n r a) = Ref_tax_category"

fun reference_ids :: "reference \<Rightarrow> 'a catalog_db_scheme \<Rightarrow> uuid list" where
  "reference_ids Ref_brand s = map bd_id (brands s)"
| "reference_ids Ref_unit s = map cm_id (catalog_units s)"
| "reference_ids Ref_tax_category s = map ctx_id (catalog_tax_categories s)"

fun add_reference :: "uuid \<Rightarrow> reference_create \<Rightarrow> ('a catalog_db_scheme, unit) tx" where
  "add_reference i (NewBrand name description) = modify (\<lambda>s. s\<lparr>brands := brands s @
     [\<lparr>bd_id = i, bd_name = name, bd_description = description, bd_is_active = True\<rparr>]\<rparr>)"
| "add_reference i (NewUnit code name precision) = modify (\<lambda>s. s\<lparr>catalog_units := catalog_units s @
     [\<lparr>cm_id = i, cm_code = code, cm_name = name, cm_precision = precision, cm_is_active = True\<rparr>]\<rparr>)"
| "add_reference i (NewTaxCategory code name rate) = modify (\<lambda>s. s\<lparr>catalog_tax_categories := catalog_tax_categories s @
     [\<lparr>ctx_id = i, ctx_code = code, ctx_name = name, ctx_rate = Rate rate, ctx_is_active = True\<rparr>]\<rparr>)"

definition create_reference :: "TenantContext \<Rightarrow> reference_create \<Rightarrow> ('a catalog_db_scheme, uuid) tx" where
  "create_reference context payload =
     on_integrity_error (ConflictError ''DUPLICATE_RESOURCE'')
       (service_transaction catalog_chk
         (bnd uuid7 (\<lambda>i.
          bnd (add_reference i payload) (\<lambda>_.
          bnd (audit_record context ''catalog.reference_created'' (reference_table (created_resource payload)) (Some i) []) (\<lambda>_.
          ret i)))))"

fun change_reference :: "uuid \<Rightarrow> reference_update \<Rightarrow> ('a catalog_db_scheme, unit) tx" where
  "change_reference i (BrandUpdate name description active) = modify (\<lambda>s. s\<lparr>brands := upd_where (\<lambda>b. bd_id b = i)
     (\<lambda>b. set_field name (\<lambda>v b. b\<lparr>bd_name := v\<rparr>) (set_nullable description (\<lambda>v b. b\<lparr>bd_description := v\<rparr>)
       (set_field active (\<lambda>v b. b\<lparr>bd_is_active := v\<rparr>) b))) (brands s)\<rparr>)"
| "change_reference i (UnitUpdate name precision active) = modify (\<lambda>s. s\<lparr>catalog_units := upd_where (\<lambda>u. cm_id u = i)
     (\<lambda>u. set_field name (\<lambda>v u. u\<lparr>cm_name := v\<rparr>) (set_field precision (\<lambda>v u. u\<lparr>cm_precision := v\<rparr>)
       (set_field active (\<lambda>v u. u\<lparr>cm_is_active := v\<rparr>) u))) (catalog_units s)\<rparr>)"
| "change_reference i (TaxCategoryUpdate name rate active) = modify (\<lambda>s. s\<lparr>catalog_tax_categories := upd_where (\<lambda>t. ctx_id t = i)
     (\<lambda>t. set_field name (\<lambda>v t. t\<lparr>ctx_name := v\<rparr>) (set_field rate (\<lambda>v t. t\<lparr>ctx_rate := Rate v\<rparr>)
       (set_field active (\<lambda>v t. t\<lparr>ctx_is_active := v\<rparr>) t))) (catalog_tax_categories s)\<rparr>)"

fun nulls_reference :: "reference_update \<Rightarrow> bool" where
  "nulls_reference (BrandUpdate n d a) \<longleftrightarrow> n = Some None \<or> a = Some None"
| "nulls_reference (UnitUpdate n p a) \<longleftrightarrow> n = Some None \<or> p = Some None \<or> a = Some None"
| "nulls_reference (TaxCategoryUpdate n r a) \<longleftrightarrow> n = Some None \<or> r = Some None \<or> a = Some None"

fun reference_fields :: "reference_update \<Rightarrow> (string \<times> bool) list" where
  "reference_fields (BrandUpdate n d a) = [(''name'', n \<noteq> None), (''description'', d \<noteq> None), (''is_active'', a \<noteq> None)]"
| "reference_fields (UnitUpdate n p a) = [(''name'', n \<noteq> None), (''precision'', p \<noteq> None), (''is_active'', a \<noteq> None)]"
| "reference_fields (TaxCategoryUpdate n r a) = [(''name'', n \<noteq> None), (''rate'', r \<noteq> None), (''is_active'', a \<noteq> None)]"

definition update_reference :: "TenantContext \<Rightarrow> uuid \<Rightarrow> reference_update \<Rightarrow> ('a catalog_db_scheme, unit) tx" where
  "update_reference context i payload =
     on_integrity_error (ConflictError ''DUPLICATE_RESOURCE'')
       (service_transaction catalog_chk
         (bnd (gets (\<lambda>s. i \<in> set (reference_ids (updated_resource payload) s))) (\<lambda>found.
          bnd (require found NotFoundError) (\<lambda>_.
          bnd (change_reference i payload) (\<lambda>_.
          bnd (audit_record context ''catalog.reference_updated'' (reference_table (updated_resource payload)) (Some i)
                 (fields_changed (reference_fields payload))) (\<lambda>_.
          require (\<not> nulls_reference payload) IntegrityError))))))"

fun reference_has_products :: "reference \<Rightarrow> uuid \<Rightarrow> 'a catalog_db_scheme \<Rightarrow> bool" where
  "reference_has_products Ref_brand i s = list_ex (\<lambda>p. cp_brand_id p = Some i) (catalog_products s)"
| "reference_has_products Ref_unit i s = list_ex (\<lambda>p. cp_uom_id p = i) (catalog_products s)"
| "reference_has_products Ref_tax_category i s = list_ex (\<lambda>p. cp_tax_category_id p = Some i) (catalog_products s)"

fun switch_off :: "reference \<Rightarrow> uuid \<Rightarrow> ('a catalog_db_scheme, unit) tx" where
  "switch_off Ref_brand i = modify (\<lambda>s. s\<lparr>brands := upd_where (\<lambda>b. bd_id b = i) (\<lambda>b. b\<lparr>bd_is_active := False\<rparr>) (brands s)\<rparr>)"
| "switch_off Ref_unit i = modify (\<lambda>s. s\<lparr>catalog_units := upd_where (\<lambda>u. cm_id u = i) (\<lambda>u. u\<lparr>cm_is_active := False\<rparr>) (catalog_units s)\<rparr>)"
| "switch_off Ref_tax_category i = modify (\<lambda>s. s\<lparr>catalog_tax_categories := upd_where (\<lambda>t. ctx_id t = i)
     (\<lambda>t. t\<lparr>ctx_is_active := False\<rparr>) (catalog_tax_categories s)\<rparr>)"

definition deactivate_reference :: "TenantContext \<Rightarrow> uuid \<Rightarrow> reference \<Rightarrow> ('a catalog_db_scheme, unit) tx" where
  "deactivate_reference context i resource =
     service_transaction catalog_chk
       (bnd (gets (\<lambda>s. i \<in> set (reference_ids resource s))) (\<lambda>found.
        bnd (require found NotFoundError) (\<lambda>_.
        bnd (gets (reference_has_products resource i)) (\<lambda>used.
        bnd (require (\<not> used) (ConflictError ''RESOURCE_IN_USE'')) (\<lambda>_.
        bnd (switch_off resource i) (\<lambda>_.
        audit_record context ''catalog.reference_deactivated'' (reference_table resource) (Some i) []))))))"

section \<open>Products\<close>

record ProductCreate =
  pcr_sku :: string
  pcr_name :: string
  pcr_description :: "string option"
  pcr_category_id :: "uuid option"
  pcr_brand_id :: "uuid option"
  pcr_uom_id :: uuid
  pcr_tax_category_id :: "uuid option"
  pcr_selling_price :: rat
  pcr_reorder_point :: "rat option"
  pcr_is_stock_tracked :: bool

record ProductUpdate =
  pu_name :: "string option option"
  pu_description :: "string option option"
  pu_category_id :: "uuid option option"
  pu_brand_id :: "uuid option option"
  pu_uom_id :: "uuid option option"
  pu_tax_category_id :: "uuid option option"
  pu_selling_price :: "rat option option"
  pu_cost_price :: "rat option option"
  pu_reorder_point :: "rat option option"
  pu_is_stock_tracked :: "bool option option"
  pu_is_active :: "bool option option"

definition catalog_get_product :: "uuid \<Rightarrow> 'a catalog_db_scheme \<Rightarrow> catalog_product option" where
  "catalog_get_product i s = find (\<lambda>p. cp_id p = i) (catalog_products s)"

definition variants_of :: "uuid \<Rightarrow> 'a catalog_db_scheme \<Rightarrow> product_variant list" where
  "variants_of i s = filter (\<lambda>v. pv_product_id v = i) (product_variants s)"

definition barcodes_of :: "uuid \<Rightarrow> 'a catalog_db_scheme \<Rightarrow> product_barcode list" where
  "barcodes_of i s = sort_key (\<lambda>b. \<not> pb_is_primary b) (filter (\<lambda>b. pb_product_id b = i) (product_barcodes s))"

definition product_detail ::
  "uuid \<Rightarrow> ('a catalog_db_scheme, catalog_product \<times> product_variant list \<times> product_barcode list) tx" where
  "product_detail i =
     service_transaction catalog_chk
       (bnd (gets (catalog_get_product i)) (\<lambda>row.
        bnd (some_or NotFoundError row) (\<lambda>product.
        bnd (gets (\<lambda>s. (variants_of i s, barcodes_of i s))) (\<lambda>(variants, barcodes).
        ret (product, variants, barcodes)))))"

definition validate_product_links ::
  "uuid option \<Rightarrow> uuid option \<Rightarrow> uuid option \<Rightarrow> uuid option \<Rightarrow> ('a catalog_db_scheme, unit) tx" where
  "validate_product_links category brand uom tax_category =
     bnd (gets (\<lambda>s. linked category (map cg_id (categories s)))) (\<lambda>ok. bnd (require ok NotFoundError) (\<lambda>_.
     bnd (gets (\<lambda>s. linked brand (map bd_id (brands s)))) (\<lambda>ok. bnd (require ok NotFoundError) (\<lambda>_.
     bnd (gets (\<lambda>s. linked uom (map cm_id (catalog_units s)))) (\<lambda>ok. bnd (require ok NotFoundError) (\<lambda>_.
     bnd (gets (\<lambda>s. linked tax_category (map ctx_id (catalog_tax_categories s)))) (\<lambda>ok. require ok NotFoundError)))))))"

definition create_product :: "TenantContext \<Rightarrow> ProductCreate \<Rightarrow> ('a catalog_db_scheme, catalog_product) tx" where
  "create_product context payload =
     on_integrity_error (ConflictError ''SKU_DUPLICATE'')
       (service_transaction catalog_chk
         (bnd (validate_product_links (pcr_category_id payload) (pcr_brand_id payload) (Some (pcr_uom_id payload)) (pcr_tax_category_id payload)) (\<lambda>_.
          bnd uuid7 (\<lambda>i.
          let product = \<lparr>cp_id = i, cp_sku = pcr_sku payload, cp_name = pcr_name payload, cp_description = pcr_description payload,
                         cp_category_id = pcr_category_id payload, cp_brand_id = pcr_brand_id payload, cp_uom_id = pcr_uom_id payload,
                         cp_tax_category_id = pcr_tax_category_id payload, cp_cost_price = 0,
                         cp_selling_price = Money (pcr_selling_price payload),
                         cp_reorder_point = map_option Quantity (pcr_reorder_point payload),
                         cp_is_stock_tracked = pcr_is_stock_tracked payload, cp_is_active = True\<rparr> in
          bnd (modify (\<lambda>s. s\<lparr>catalog_products := catalog_products s @ [product]\<rparr>)) (\<lambda>_.
          bnd uuid7 (\<lambda>j.
          bnd (modify (\<lambda>s. s\<lparr>product_variants := product_variants s @ [\<lparr>pv_id = j, pv_product_id = i, pv_sku = pcr_sku payload,
                 pv_name = ''Default'', pv_attributes = ''{}'', pv_is_active = True\<rparr>]\<rparr>)) (\<lambda>_.
          bnd (audit_record context ''catalog.product_created'' ''product'' (Some i) []) (\<lambda>_.
          ret product))))))))"

definition changed_product :: "ProductUpdate \<Rightarrow> catalog_product \<Rightarrow> catalog_product" where
  "changed_product u p =
     set_field (pu_name u) (\<lambda>v p. p\<lparr>cp_name := v\<rparr>)
    (set_nullable (pu_description u) (\<lambda>v p. p\<lparr>cp_description := v\<rparr>)
    (set_nullable (pu_category_id u) (\<lambda>v p. p\<lparr>cp_category_id := v\<rparr>)
    (set_nullable (pu_brand_id u) (\<lambda>v p. p\<lparr>cp_brand_id := v\<rparr>)
    (set_field (pu_uom_id u) (\<lambda>v p. p\<lparr>cp_uom_id := v\<rparr>)
    (set_nullable (pu_tax_category_id u) (\<lambda>v p. p\<lparr>cp_tax_category_id := v\<rparr>)
    (set_field (pu_selling_price u) (\<lambda>v p. p\<lparr>cp_selling_price := Money v\<rparr>)
    (set_nullable (pu_reorder_point u) (\<lambda>v p. p\<lparr>cp_reorder_point := map_option Quantity v\<rparr>)
    (set_field (pu_is_stock_tracked u) (\<lambda>v p. p\<lparr>cp_is_stock_tracked := v\<rparr>)
    (set_field (pu_is_active u) (\<lambda>v p. p\<lparr>cp_is_active := v\<rparr>) p)))))))))"

definition nulls_product :: "ProductUpdate \<Rightarrow> bool" where
  "nulls_product u \<longleftrightarrow> pu_name u = Some None \<or> pu_uom_id u = Some None \<or> pu_selling_price u = Some None
     \<or> pu_is_stock_tracked u = Some None \<or> pu_is_active u = Some None"

definition product_fields :: "ProductUpdate \<Rightarrow> (string \<times> bool) list" where
  "product_fields u =
     [(''name'', pu_name u \<noteq> None), (''description'', pu_description u \<noteq> None), (''category_id'', pu_category_id u \<noteq> None),
      (''brand_id'', pu_brand_id u \<noteq> None), (''uom_id'', pu_uom_id u \<noteq> None), (''tax_category_id'', pu_tax_category_id u \<noteq> None),
      (''selling_price'', pu_selling_price u \<noteq> None), (''reorder_point'', pu_reorder_point u \<noteq> None),
      (''is_stock_tracked'', pu_is_stock_tracked u \<noteq> None), (''is_active'', pu_is_active u \<noteq> None)]"

definition link_of :: "uuid option option \<Rightarrow> uuid option" where
  "link_of change = (case change of Some link \<Rightarrow> link | None \<Rightarrow> None)"

definition update_product :: "TenantContext \<Rightarrow> uuid \<Rightarrow> ProductUpdate \<Rightarrow> ('a catalog_db_scheme, catalog_product) tx" where
  "update_product context i payload =
     bnd (require (pu_cost_price payload = None) (ConflictError ''INVALID_STATE_TRANSITION'')) (\<lambda>_.
     service_transaction catalog_chk
       (bnd (gets (catalog_get_product i)) (\<lambda>row.
        bnd (some_or NotFoundError row) (\<lambda>product.
        bnd (validate_product_links (link_of (pu_category_id payload)) (link_of (pu_brand_id payload)) (link_of (pu_uom_id payload))
               (link_of (pu_tax_category_id payload))) (\<lambda>_.
        bnd (modify (\<lambda>s. s\<lparr>catalog_products := upd_where (\<lambda>p. cp_id p = i) (changed_product payload) (catalog_products s)\<rparr>)) (\<lambda>_.
        bnd (audit_record context ''catalog.product_updated'' ''product'' (Some i) (fields_changed (product_fields payload))) (\<lambda>_.
        bnd (require (\<not> nulls_product payload) IntegrityError) (\<lambda>_.
        ret (changed_product payload product)))))))))"

definition product_has_movements :: "uuid \<Rightarrow> 'a catalog_db_scheme \<Rightarrow> bool" where
  "product_has_movements i s \<longleftrightarrow> i \<in> set (moved_products s)"

definition deactivate_product :: "TenantContext \<Rightarrow> uuid \<Rightarrow> ('a catalog_db_scheme, unit) tx" where
  "deactivate_product context i =
     service_transaction catalog_chk
       (bnd (gets (catalog_get_product i)) (\<lambda>row.
        bnd (some_or NotFoundError row) (\<lambda>product.
        bnd (gets (product_has_movements i)) (\<lambda>moved.
        bnd (require (\<not> moved) (ConflictError ''RESOURCE_IN_USE'')) (\<lambda>_.
        bnd (modify (\<lambda>s. s\<lparr>catalog_products := upd_where (\<lambda>p. cp_id p = i) (\<lambda>p. p\<lparr>cp_is_active := False\<rparr>) (catalog_products s)\<rparr>)) (\<lambda>_.
        audit_record context ''catalog.product_deactivated'' ''product'' (Some i) []))))))"

record BarcodeCreate =
  bc_barcode :: string
  bc_product_variant_id :: "uuid option"
  bc_is_primary :: bool

record VariantCreate =
  vc_sku :: string
  vc_name :: string
  vc_attributes :: string

definition get_variant :: "uuid \<Rightarrow> 'a catalog_db_scheme \<Rightarrow> product_variant option" where
  "get_variant i s = find (\<lambda>v. pv_id v = i) (product_variants s)"

definition add_barcode :: "TenantContext \<Rightarrow> uuid \<Rightarrow> BarcodeCreate \<Rightarrow> ('a catalog_db_scheme, product_barcode) tx" where
  "add_barcode context product payload =
     on_integrity_error (ConflictError ''BARCODE_DUPLICATE'')
       (service_transaction catalog_chk
         (bnd (gets (catalog_get_product product)) (\<lambda>row.
          bnd (some_or NotFoundError row) (\<lambda>_.
          bnd (case bc_product_variant_id payload of
                 None \<Rightarrow> ret ()
               | Some v \<Rightarrow>
                   bnd (gets (get_variant v)) (\<lambda>found.
                   require (case found of None \<Rightarrow> False | Some x \<Rightarrow> pv_product_id x = product) NotFoundError)) (\<lambda>_.
          bnd uuid7 (\<lambda>i.
          let barcode = \<lparr>pb_id = i, pb_product_id = product, pb_product_variant_id = bc_product_variant_id payload,
                         pb_barcode = bc_barcode payload, pb_is_primary = bc_is_primary payload\<rparr> in
          bnd (modify (\<lambda>s. s\<lparr>product_barcodes := product_barcodes s @ [barcode]\<rparr>)) (\<lambda>_.
          bnd (audit_record context ''catalog.barcode_added'' ''product_barcode'' (Some i) []) (\<lambda>_.
          ret barcode))))))))"

definition add_variant :: "TenantContext \<Rightarrow> uuid \<Rightarrow> VariantCreate \<Rightarrow> ('a catalog_db_scheme, product_variant) tx" where
  "add_variant context product payload =
     on_integrity_error (ConflictError ''SKU_DUPLICATE'')
       (service_transaction catalog_chk
         (bnd (gets (catalog_get_product product)) (\<lambda>row.
          bnd (some_or NotFoundError row) (\<lambda>_.
          bnd uuid7 (\<lambda>i.
          let variant = \<lparr>pv_id = i, pv_product_id = product, pv_sku = vc_sku payload, pv_name = vc_name payload,
                         pv_attributes = vc_attributes payload, pv_is_active = True\<rparr> in
          bnd (modify (\<lambda>s. s\<lparr>product_variants := product_variants s @ [variant]\<rparr>)) (\<lambda>_.
          bnd (audit_record context ''catalog.variant_added'' ''product_variant'' (Some i) []) (\<lambda>_.
          ret variant)))))))"

definition resolve_barcode :: "string \<Rightarrow> ('a catalog_db_scheme, catalog_product \<times> product_barcode) tx" where
  "resolve_barcode value =
     service_transaction catalog_chk
       (bnd (gets (\<lambda>s. find (\<lambda>b. pb_barcode b = value) (product_barcodes s))) (\<lambda>row.
        bnd (some_or NotFoundError row) (\<lambda>barcode.
        bnd (gets (catalog_get_product (pb_product_id barcode))) (\<lambda>found.
        bnd (some_or NotFoundError found) (\<lambda>product.
        ret (product, barcode))))))"

end
