(* ===== verification/Catalog_Chains.thy ===== *)
theory Catalog_Chains
  imports Catalog Keeps
begin

text \<open>
  The loop of \<open>category_parent_chain\<close> ends. \<open>ends cs link\<close> says that following parents from a link comes to an end;
  the guards of \<open>create_category\<close> and \<open>update_category\<close> keep it true of every category, so that in every state the
  catalogue service reaches the loop returns and no category is among its own ancestors.
\<close>

section \<open>Chains that end\<close>

inductive ends :: "category list \<Rightarrow> uuid option \<Rightarrow> bool" for cs where
  no_link: "ends cs None"
| no_row: "find (\<lambda>c. cg_id c = i) cs = None \<Longrightarrow> ends cs (Some i)"
| follow: "find (\<lambda>c. cg_id c = i) cs = Some c \<Longrightarrow> ends cs (cg_parent_id c) \<Longrightarrow> ends cs (Some i)"

inductive_cases ends_SomeE: "ends cs (Some i)"

lemma parent_chain_None [simp]: "parent_chain cs chain None = Some chain"
  by (subst parent_chain.simps) simp

lemma parent_chain_no_row [simp]: "find (\<lambda>c. cg_id c = i) cs = None \<Longrightarrow> parent_chain cs chain (Some i) = Some chain"
  by (subst parent_chain.simps) simp

lemma parent_chain_follow [simp]:
  "find (\<lambda>c. cg_id c = i) cs = Some c \<Longrightarrow> parent_chain cs chain (Some i) = parent_chain cs (chain @ [c]) (cg_parent_id c)"
  by (subst parent_chain.simps) simp

lemma ends_returns: "ends cs link \<Longrightarrow> \<exists>rest. \<forall>chain. parent_chain cs chain link = Some (chain @ rest)"
proof (induction rule: ends.induct)
  case (follow i c)
  then obtain rest where "parent_chain cs chain (cg_parent_id c) = Some (chain @ rest)" for chain by blast
  then show ?case using follow.hyps(1) by (intro exI[of _ "c # rest"]) simp
qed auto

lemma returns_ends:
  assumes "parent_chain cs chain link = Some r"
  shows "ends cs link"
  using parent_chain.raw_induct[of "\<lambda>cs _ link _. ends cs link", OF _ assms]
  by (fastforce split: option.splits intro: ends.intros)

text \<open>The chain of a row is the row and the chain of its parent; the chain of a row in it is a tail of it.\<close>

definition chain_of :: "category list \<Rightarrow> uuid option \<Rightarrow> category list" where
  "chain_of cs link = the (parent_chain cs [] link)"

lemma parent_chain_chain_of: "ends cs link \<Longrightarrow> parent_chain cs chain link = Some (chain @ chain_of cs link)"
  using ends_returns[of cs link] by (auto simp: chain_of_def)

lemma chain_of_simps [simp]:
  "chain_of cs None = []"
  "find (\<lambda>c. cg_id c = i) cs = None \<Longrightarrow> chain_of cs (Some i) = []"
  by (simp_all add: chain_of_def)

lemma chain_of_follow:
  "find (\<lambda>c. cg_id c = i) cs = Some c \<Longrightarrow> ends cs (cg_parent_id c) \<Longrightarrow> chain_of cs (Some i) = c # chain_of cs (cg_parent_id c)"
  unfolding chain_of_def[of cs "Some i"] by (simp add: parent_chain_chain_of)

lemma chain_of_tail:
  "ends cs link \<Longrightarrow> d \<in> set (chain_of cs link) \<Longrightarrow> d \<in> set cs \<and> length (chain_of cs (Some (cg_id d))) \<le> length (chain_of cs link)"
proof (induction rule: ends.induct)
  case (follow i c)
  have c: "c \<in> set cs" "cg_id c = i" using follow.hyps(1) by (auto simp: find_Some_iff)
  show ?case
  proof (cases "d = c")
    case True
    then show ?thesis using c by simp
  next
    case False
    then show ?thesis using follow by (auto simp: chain_of_follow)
  qed
qed simp_all

lemma chain_of_distinct: "ends cs link \<Longrightarrow> distinct (map cg_id (chain_of cs link))"
proof (induction rule: ends.induct)
  case (follow i c)
  have c: "cg_id c = i" using follow.hyps(1) by (auto simp: find_Some_iff)
  have "cg_id d \<noteq> cg_id c" if "d \<in> set (chain_of cs (cg_parent_id c))" for d
  proof
    assume "cg_id d = cg_id c"
    then have "length (chain_of cs (Some i)) \<le> length (chain_of cs (cg_parent_id c))"
      using chain_of_tail[OF follow.hyps(2) that] c by simp
    then show False by (simp add: chain_of_follow[OF follow.hyps(1,2)])
  qed
  then have "cg_id c \<notin> cg_id ` set (chain_of cs (cg_parent_id c))" by (metis imageE)
  then show ?case using follow by (simp add: chain_of_follow)
qed simp_all

section \<open>The operations keep the chains ending\<close>

definition chains_end :: "category list \<Rightarrow> bool" where
  "chains_end cs \<longleftrightarrow> (\<forall>i. ends cs (Some i))"

definition parents_exist :: "category list \<Rightarrow> bool" where
  "parents_exist cs \<longleftrightarrow> list_all (\<lambda>c. linked (cg_parent_id c) (map cg_id cs)) cs"

lemma linked_find: "linked (Some i) (map cg_id cs) \<longleftrightarrow> find (\<lambda>c. cg_id c = i) cs \<noteq> None"
  by (auto simp: linked_def find_None_iff)

text \<open>A new row is no row's parent yet, and its own parent is an older row.\<close>

lemma ends_append:
  "ends cs link \<Longrightarrow> parents_exist cs \<Longrightarrow> linked link (map cg_id cs) \<Longrightarrow> ends (cs @ [c]) link"
proof (induction rule: ends.induct)
  case (no_row i)
  then show ?case by (simp add: linked_find)
next
  case (follow i d)
  then have "d \<in> set cs" by (auto simp: find_Some_iff)
  then have "linked (cg_parent_id d) (map cg_id cs)" using follow.prems by (simp add: parents_exist_def list_all_iff)
  then show ?case using follow by (intro ends.follow[of _ _ d]) (simp_all add: find_append)
qed (rule ends.no_link)

lemma chains_end_append:
  assumes "chains_end cs" and "parents_exist cs" and "linked (cg_parent_id c) (map cg_id cs)"
  shows "chains_end (cs @ [c])"
  unfolding chains_end_def
proof
  fix i
  have "ends (cs @ [c]) (cg_parent_id c)"
    using assms by (cases "cg_parent_id c") (auto simp: chains_end_def intro: ends_append ends.no_link)
  then show "ends (cs @ [c]) (Some i)"
    using ends_append[of cs "Some i" c] assms
    by (cases "find (\<lambda>c. cg_id c = i) cs"; cases "cg_id c = i")
       (auto simp: chains_end_def linked_find find_append intro: ends.no_row ends.follow)
qed

text \<open>A row that moves goes under a row that does not have it among its ancestors.\<close>

lemma find_moved:
  assumes "\<And>c. cg_id (f c) = cg_id c"
  shows "find (\<lambda>c. cg_id c = j) (upd_where (\<lambda>c. cg_id c = i) f cs)
    = map_option (\<lambda>c. if j = i then f c else c) (find (\<lambda>c. cg_id c = j) cs)"
  using assms by (induction cs) auto

lemma ends_moved_off:
  assumes "\<And>c. cg_id (f c) = cg_id c"
  shows "ends cs link \<Longrightarrow> i \<notin> cg_id ` set (chain_of cs link) \<Longrightarrow> ends (upd_where (\<lambda>c. cg_id c = i) f cs) link"
proof (induction rule: ends.induct)
  case (no_row j)
  then show ?case by (intro ends.no_row) (simp add: find_moved[OF assms])
next
  case (follow j c)
  then have "j = cg_id c" by (auto simp: find_Some_iff)
  then show ?case using follow by (intro ends.follow[of _ _ c]) (auto simp: find_moved[OF assms] chain_of_follow)
qed (rule ends.no_link)

lemma chains_end_moved:
  assumes id: "\<And>c. cg_id (f c) = cg_id c" and ending: "chains_end cs"
    and row: "\<And>c. find (\<lambda>c. cg_id c = i) cs = Some c \<Longrightarrow> ends (upd_where (\<lambda>c. cg_id c = i) f cs) (cg_parent_id (f c))"
  shows "chains_end (upd_where (\<lambda>c. cg_id c = i) f cs)"
proof -
  have "ends cs link \<Longrightarrow> ends (upd_where (\<lambda>c. cg_id c = i) f cs) link" for link
  proof (induction rule: ends.induct)
    case (no_row j)
    then show ?case by (intro ends.no_row) (simp add: find_moved[OF id])
  next
    case (follow j c)
    then show ?case
      by (cases "j = i") (auto simp: find_moved[OF id] intro: ends.follow[of _ _ "f c"] ends.follow[of _ _ c] row)
  qed (rule ends.no_link)
  then show ?thesis using ending by (simp add: chains_end_def)
qed

section \<open>The catalogue service\<close>

definition chains_ok :: "'a catalog_db_scheme \<Rightarrow> bool" where
  "chains_ok s \<longleftrightarrow> chains_end (categories s) \<and> parents_exist (categories s)"

interpretation chains: base_services chains_ok
  by unfold_locales (simp_all add: chains_ok_def)

lemma catalog_chk_parents: "catalog_chk s = None \<Longrightarrow> parents_exist (categories s)"
  by (simp add: catalog_chk_def catalog_constraints_def parents_exist_def)

lemma chains_ok_chain:
  "chains_ok s \<Longrightarrow> category_parent_chain i s = Some (chain_of (categories s) (Some i))"
  by (simp add: chains_ok_def chains_end_def category_parent_chain_def parent_chain_chain_of)

lemma chain_head_linked: "chain_of cs (Some i) \<noteq> [] \<Longrightarrow> linked (Some i) (map cg_id cs)"
  by (cases "find (\<lambda>c. cg_id c = i) cs") (simp_all add: linked_find)

lemma chains_transaction:
  assumes "\<And>s. chains_ok s \<Longrightarrow> wp m (\<lambda>_ t. chains_end (categories t)) s"
  shows "keeps chains_ok (service_transaction catalog_chk m)"
  using assms by (intro keeps_committed) (auto simp: chains_ok_def catalog_chk_parents intro: wp_mono[of m "\<lambda>_ t. chains_end (categories t)"])

lemma create_category_keeps_chains: "keeps chains_ok (create_category context payload)"
  unfolding create_category_def Let_def
  by (intro keeps_on_integrity_error chains_transaction)
     (auto simp: wp_simps chains_ok_chain linked_def chains_ok_def split: option.splits
       intro!: chains_end_append dest!: chain_head_linked)

lemma chains_end_same_parents:
  assumes "\<And>c. cg_id (f c) = cg_id c" and "\<And>c. cg_parent_id (f c) = cg_parent_id c" and "chains_end cs"
  shows "chains_end (upd_where (\<lambda>c. cg_id c = i) f cs)"
proof -
  have "ends cs link \<Longrightarrow> ends (upd_where (\<lambda>c. cg_id c = i) f cs) link" for link
  proof (induction rule: ends.induct)
    case (no_row j)
    then show ?case by (intro ends.no_row) (simp add: find_moved[OF assms(1)])
  next
    case (follow j c)
    then show ?case
      by (intro ends.follow[of _ _ "if j = i then f c else c"]) (simp_all add: find_moved[OF assms(1)] assms(2))
  qed (rule ends.no_link)
  then show ?thesis using assms(3) by (simp add: chains_end_def)
qed

lemma changed_category_id [simp]: "cg_id (changed_category u c) = cg_id c"
  by (simp add: changed_category_def)

lemma changed_category_parent:
  "cg_parent_id (changed_category u c) = (case cgu_parent_id u of None \<Rightarrow> cg_parent_id c | Some link \<Rightarrow> link)"
  by (simp add: changed_category_def) (simp add: set_nullable_def split: option.splits)

lemma chains_end_changed:
  assumes "chains_end cs" and "\<And>p. cgu_parent_id u = Some (Some p) \<Longrightarrow> i \<notin> cg_id ` set (chain_of cs (Some p))"
  shows "chains_end (upd_where (\<lambda>c. cg_id c = i) (changed_category u) cs)"
proof (cases "cgu_parent_id u")
  case None
  then show ?thesis using assms(1) by (intro chains_end_same_parents) (simp_all add: changed_category_parent)
next
  case (Some link)
  then show ?thesis
    using assms by (intro chains_end_moved; cases link)
      (simp_all add: changed_category_parent ends.no_link ends_moved_off chains_end_def)
qed

lemma update_category_keeps_chains: "keeps chains_ok (update_category context i payload)"
  unfolding update_category_def
  by (intro keeps_on_integrity_error chains_transaction)
     (auto simp: wp_simps update_categories_def chains_ok_chain split: option.splits
       intro!: chains_end_changed, (simp add: chains_ok_def)+)

lemma deactivate_category_keeps_chains: "keeps chains_ok (deactivate_category context i)"
  unfolding deactivate_category_def
  by (intro chains_transaction) (auto simp: wp_simps update_categories_def chains_ok_def intro: chains_end_same_parents)

text \<open>The other operations leave the table of categories alone.\<close>

lemma keeps_new_reference [keeps_intros]: "keeps chains_ok (add_reference i nr)"
  by (cases nr) (simp_all add: keeps_def wp_simps chains_ok_def)

lemma keeps_change_reference [keeps_intros]: "keeps chains_ok (change_reference i ur)"
  by (cases ur) (simp_all add: keeps_def wp_simps chains_ok_def)

lemma keeps_switch_off [keeps_intros]: "keeps chains_ok (switch_off r i)"
  by (cases r) (simp_all add: keeps_def wp_simps chains_ok_def)

lemma keeps_product_links [keeps_intros]: "keeps I (validate_product_links a b c d)"
  unfolding validate_product_links_def by (intro keeps_intros)

lemma other_operations_keep_chains:
  "keeps chains_ok (create_reference context nr)" "keeps chains_ok (update_reference context i ur)"
  "keeps chains_ok (deactivate_reference context i r)" "keeps chains_ok (create_product context np)"
  "keeps chains_ok (update_product context i up)" "keeps chains_ok (deactivate_product context i)"
  "keeps chains_ok (add_barcode context i nb)" "keeps chains_ok (add_variant context i nv)"
  "keeps chains_ok (product_detail i)" "keeps chains_ok (resolve_barcode value)"
  unfolding create_reference_def update_reference_def deactivate_reference_def create_product_def update_product_def
    deactivate_product_def add_barcode_def add_variant_def product_detail_def resolve_barcode_def Let_def
  by (intro keeps_intros chains.keeps_base; simp add: chains_ok_def)+

lemma catalog_operations_atomic [atomic_intros]:
  "atomic (create_category context nc)" "atomic (update_category context i uc)" "atomic (deactivate_category context i)"
  "atomic (create_reference context nr)" "atomic (update_reference context i ur)" "atomic (deactivate_reference context i r)"
  "atomic (create_product context np)" "atomic (update_product context i up)" "atomic (deactivate_product context i)"
  "atomic (add_barcode context i nb)" "atomic (add_variant context i nv)" "atomic (product_detail i)"
  "atomic (resolve_barcode value)"
  unfolding create_category_def update_category_def deactivate_category_def create_reference_def update_reference_def
    deactivate_reference_def create_product_def update_product_def deactivate_product_def add_barcode_def add_variant_def
    product_detail_def resolve_barcode_def
  by (intro atomic_intros)+

section \<open>Reachable catalogues\<close>

inductive catalog_reachable :: "'a catalog_db_scheme \<Rightarrow> bool" where
  new_tenant: "catalog_chk s = None \<Longrightarrow> categories s = [] \<Longrightarrow> catalog_reachable s"
| category_created: "catalog_reachable s \<Longrightarrow> catalog_reachable (snd (create_category context nc s))"
| category_updated: "catalog_reachable s \<Longrightarrow> catalog_reachable (snd (update_category context i uc s))"
| category_deactivated: "catalog_reachable s \<Longrightarrow> catalog_reachable (snd (deactivate_category context i s))"
| reference_created: "catalog_reachable s \<Longrightarrow> catalog_reachable (snd (create_reference context nr s))"
| reference_updated: "catalog_reachable s \<Longrightarrow> catalog_reachable (snd (update_reference context i ur s))"
| reference_deactivated: "catalog_reachable s \<Longrightarrow> catalog_reachable (snd (deactivate_reference context i r s))"
| product_created: "catalog_reachable s \<Longrightarrow> catalog_reachable (snd (create_product context np s))"
| product_updated: "catalog_reachable s \<Longrightarrow> catalog_reachable (snd (update_product context i up s))"
| product_deactivated: "catalog_reachable s \<Longrightarrow> catalog_reachable (snd (deactivate_product context i s))"
| barcode_added: "catalog_reachable s \<Longrightarrow> catalog_reachable (snd (add_barcode context i nb s))"
| variant_added: "catalog_reachable s \<Longrightarrow> catalog_reachable (snd (add_variant context i nv s))"
| detail_read: "catalog_reachable s \<Longrightarrow> catalog_reachable (snd (product_detail i s))"
| barcode_resolved: "catalog_reachable s \<Longrightarrow> catalog_reachable (snd (resolve_barcode value s))"
| stock_moved: "catalog_reachable s \<Longrightarrow> catalog_reachable (s\<lparr>moved_products := ms\<rparr>)"

lemma catalog_reachable_chains: "catalog_reachable s \<Longrightarrow> chains_ok s"
proof (induction rule: catalog_reachable.induct)
  case (new_tenant s)
  then show ?case by (auto simp: chains_ok_def chains_end_def parents_exist_def intro: ends.no_row)
next
  case (stock_moved s ms)
  then show ?case by (simp add: chains_ok_def)
qed (intro keeps_atomic[where I = chains_ok] atomic_intros create_category_keeps_chains update_category_keeps_chains
  deactivate_category_keeps_chains other_operations_keep_chains; assumption)+

text \<open>
  C37. The loop that follows the parents of a category ends. In every state the catalogue service reaches by requests that
  run one after the other, the query returns for every identifier, the rows it returns are rows of the table, and no
  category occurs among its own ancestors: the guards of creating and moving a category exclude cycles of any length.
\<close>

theorem category_chains_end:
  assumes "catalog_reachable s"
  shows "\<exists>chain. category_parent_chain i s = Some chain \<and> set chain \<subseteq> set (categories s) \<and> distinct (map cg_id chain)
    \<and> (\<forall>c \<in> set (categories s). cg_id c = i \<longrightarrow> chain \<noteq> [] \<and> cg_id (hd chain) = i)"
proof (intro exI conjI)
  have ends: "ends (categories s) (Some i)"
    using catalog_reachable_chains[OF assms] by (simp add: chains_ok_def chains_end_def)
  show "category_parent_chain i s = Some (chain_of (categories s) (Some i))"
    by (rule chains_ok_chain[OF catalog_reachable_chains[OF assms]])
  show "set (chain_of (categories s) (Some i)) \<subseteq> set (categories s)" using chain_of_tail[OF ends] by blast
  show "distinct (map cg_id (chain_of (categories s) (Some i)))" by (rule chain_of_distinct[OF ends])
  show "\<forall>c \<in> set (categories s). cg_id c = i \<longrightarrow>
      chain_of (categories s) (Some i) \<noteq> [] \<and> cg_id (hd (chain_of (categories s) (Some i))) = i"
  proof (intro ballI impI)
    fix c
    assume "c \<in> set (categories s)" "cg_id c = i"
    then obtain d where d: "find (\<lambda>c. cg_id c = i) (categories s) = Some d"
      using linked_find[of i "categories s"] by (auto simp: linked_def)
    then have "ends (categories s) (cg_parent_id d)" using ends by (auto elim: ends_SomeE)
    then show "chain_of (categories s) (Some i) \<noteq> [] \<and> cg_id (hd (chain_of (categories s) (Some i))) = i"
      using d by (auto simp: chain_of_follow dest: find_SomeD)
  qed
qed

definition catalog_context :: TenantContext where
  "catalog_context = \<lparr>membership_id = 1, user_id = 1, permissions = {}, branch_ids = None\<rparr>"

definition catalog_with :: "category list \<Rightarrow> catalog_db" where
  "catalog_with cs = \<lparr>uuid_gen = \<lambda>n. 100 + n, uuid_count = 0, clock = int, clock_count = 0, request_id = None,
     document_sequences = [], idempotency_keys = [], audit_events = [], categories = cs, brands = [], catalog_units = [],
     catalog_tax_categories = [], catalog_products = [], product_variants = [], product_barcodes = [], moved_products = []\<rparr>"

definition sample_category :: "string \<Rightarrow> uuid option \<Rightarrow> CategoryCreate" where
  "sample_category name parent = \<lparr>cc_name = name, cc_description = None, cc_parent_id = parent\<rparr>"

theorem category_chains_end_witness:
  "let s = snd (create_category catalog_context (sample_category ''Tea'' (Some 100))
             (snd (create_category catalog_context (sample_category ''Food'' None) (catalog_with [])))) in
   map cg_id (categories s) = [100, 101]
   \<and> (\<exists>chain. category_parent_chain 101 s = Some chain \<and> set chain \<subseteq> set (categories s) \<and> distinct (map cg_id chain)
     \<and> (\<forall>c \<in> set (categories s). cg_id c = 101 \<longrightarrow> chain \<noteq> [] \<and> cg_id (hd chain) = 101))"
  unfolding Let_def
proof (intro conjI category_chains_end category_created new_tenant)
  show "map cg_id (categories (snd (create_category catalog_context (sample_category ''Tea'' (Some 100))
          (snd (create_category catalog_context (sample_category ''Food'' None) (catalog_with [])))))) = [100, 101]"
    by code_simp
  show "catalog_chk (catalog_with []) = None" by code_simp
  show "categories (catalog_with []) = []" by (simp add: catalog_with_def)
qed

text \<open>
  The limit of five levels holds for what is created but not for what is moved: \<open>update_category\<close> counts the levels above
  the new parent and not those below the category. Here a category with one child moves under a fourth-level category.
\<close>

definition two_trees :: "category list" where
  "two_trees = map (\<lambda>(i, name, parent). \<lparr>cg_id = i, cg_name = name, cg_parent_id = parent, cg_description = None, cg_is_active = True\<rparr>)
     [(1, ''a'', None), (2, ''b'', Some 1), (3, ''c'', Some 2), (4, ''d'', Some 3), (10, ''x'', Some 1), (11, ''y'', Some 10)]"

lemma depth_limit_not_kept:
  "catalog_chk (catalog_with two_trees) = None"
  "map_option length (category_parent_chain 11 (catalog_with two_trees)) = Some 3"
  "map_option length (category_parent_chain 11 (snd (update_category catalog_context 10
     \<lparr>cgu_name = None, cgu_description = None, cgu_is_active = None, cgu_parent_id = Some (Some 4)\<rparr> (catalog_with two_trees)))) = Some 6"
  by code_simp+

end
