(* ===== verification/Audit_Chain.thy ===== *)
theory Audit_Chain
  imports Base_Db
begin

text \<open>
  The hash chain over the audit and the security events: the triggers of \<^verbatim>\<open>alembic/versions/0024_phase_11_audit_chain.py\<close>
  that write it and \<open>verify_chain\<close> of \<^verbatim>\<open>modules/audit/chain.py\<close> that checks it. The two tables have the same columns, so one
  record serves for both; the metadata is the text of its \<^verbatim>\<open>jsonb\<close> column.

  SHA-256 (of the \<^verbatim>\<open>pgcrypto\<close> extension) and the text forms that PostgreSQL gives identifiers and timestamps are
  parameters. An ascending sort puts nulls last and a descending one first, as PostgreSQL does by default.
\<close>

section \<open>Rows\<close>

record chained_event =
  ch_id :: uuid
  ch_tenant_id :: "uuid option"
  ch_actor_user_id :: "uuid option"
  ch_actor_membership_id :: "uuid option"
  ch_action :: string
  ch_resource_type :: string
  ch_resource_id :: "uuid option"
  ch_request_id :: "string option"
  ch_occurred_at :: datetime
  ch_metadata :: string
  ch_prev_hash :: "string option"
  ch_hash :: "string option"
  ch_chain_seq :: "nat option"

text \<open>A table and the next value of its sequence\<close>

record chained_table =
  ct_rows :: "chained_event list"
  ct_next_seq :: nat

record texts =
  digest_hex :: "string \<Rightarrow> string"
  uuid_text :: "uuid \<Rightarrow> string"
  timestamp_text :: "datetime \<Rightarrow> string"

definition chain_order :: "chained_event list \<Rightarrow> chained_event list" where
  "chain_order rows = sort_key (\<lambda>r. the (ch_chain_seq r)) (filter (\<lambda>r. ch_chain_seq r \<noteq> None) rows)
     @ filter (\<lambda>r. ch_chain_seq r = None) rows"

definition partition_of :: "uuid option \<Rightarrow> chained_event list \<Rightarrow> chained_event list" where
  "partition_of tenant rows = chain_order (filter (\<lambda>r. ch_tenant_id r = tenant) rows)"

section \<open>Writing the chain\<close>

abbreviation line_end :: char where "line_end \<equiv> CHR 0x0A"

definition coalesce :: "string option \<Rightarrow> string" where
  "coalesce v = (case v of None \<Rightarrow> [] | Some x \<Rightarrow> x)"

definition hashed_text :: "texts \<Rightarrow> string option \<Rightarrow> chained_event \<Rightarrow> string" where
  "hashed_text tx prev e =
     coalesce prev @ line_end #
     coalesce (map_option (uuid_text tx) (ch_tenant_id e)) @ line_end #
     coalesce (map_option (uuid_text tx) (ch_actor_user_id e)) @ line_end # ch_action e @ line_end #
     ch_resource_type e @ line_end #
     coalesce (map_option (uuid_text tx) (ch_resource_id e)) @ line_end #
     timestamp_text tx (ch_occurred_at e) @ line_end # ch_metadata e"

definition nexora_chain_hash :: "texts \<Rightarrow> string option \<Rightarrow> chained_event \<Rightarrow> string" where
  "nexora_chain_hash tx prev e = digest_hex tx (hashed_text tx prev e)"

text \<open>\<^verbatim>\<open>SELECT hash INTO prev \<dots> ORDER BY chain_seq DESC LIMIT 1\<close>\<close>

definition newest_hash :: "chained_event list \<Rightarrow> string option" where
  "newest_hash ordered = (if ordered = [] then None else ch_hash (last ordered))"

definition nexora_chain_events :: "texts \<Rightarrow> chained_event \<Rightarrow> chained_table \<Rightarrow> chained_table" where
  "nexora_chain_events tx new t =
     (let prev = newest_hash (partition_of (ch_tenant_id new) (ct_rows t));
          new = new\<lparr>ch_chain_seq := Some (ct_next_seq t), ch_prev_hash := prev, ch_hash := Some (nexora_chain_hash tx prev new)\<rparr>
      in \<lparr>ct_rows = ct_rows t @ [new], ct_next_seq = ct_next_seq t + 1\<rparr>)"

section \<open>Checking the chain\<close>

datatype chained_table_name = Audit_events | Security_events

record BrokenLink =
  bl_table :: chained_table_name
  bl_row_id :: uuid
  bl_occurred_at :: datetime
  bl_link_broken :: bool
  bl_hash_broken :: bool

text \<open>\<^verbatim>\<open>LAG(hash) OVER (PARTITION BY tenant_id ORDER BY chain_seq)\<close>, row by row\<close>

definition with_lag :: "chained_event list \<Rightarrow> (string option \<times> chained_event) list" where
  "with_lag ordered = zip (None # map ch_hash ordered) ordered"

text \<open>A comparison with null is null: it does not select the row, and \<^verbatim>\<open>not\<close> of it is true in Python.\<close>

definition hash_ok :: "texts \<Rightarrow> string option \<times> chained_event \<Rightarrow> bool option" where
  "hash_ok tx r = (case r of (expected_prev, e) \<Rightarrow> map_option (\<lambda>h. h = nexora_chain_hash tx expected_prev e) (ch_hash e))"

definition link_ok :: "string option \<times> chained_event \<Rightarrow> bool" where
  "link_ok r = (case r of (expected_prev, e) \<Rightarrow> ch_prev_hash e = expected_prev)"

definition is_broken :: "texts \<Rightarrow> string option \<times> chained_event \<Rightarrow> bool" where
  "is_broken tx r \<longleftrightarrow> \<not> link_ok r \<or> hash_ok tx r = Some False"

definition broken_link :: "texts \<Rightarrow> chained_table_name \<Rightarrow> string option \<times> chained_event \<Rightarrow> BrokenLink" where
  "broken_link tx name r =
     \<lparr>bl_table = name, bl_row_id = ch_id (snd r), bl_occurred_at = ch_occurred_at (snd r), bl_link_broken = \<not> link_ok r,
      bl_hash_broken = (hash_ok tx r \<noteq> Some True)\<rparr>"

text \<open>With a tenant the query reads its rows, without one those of every tenant, each in its own partition.\<close>

definition checked_tenants :: "uuid option \<Rightarrow> chained_event list \<Rightarrow> uuid option list" where
  "checked_tenants tenant rows = (case tenant of Some i \<Rightarrow> [Some i] | None \<Rightarrow> remdups (map ch_tenant_id rows))"

definition chain_query :: "texts \<Rightarrow> uuid option \<Rightarrow> chained_event list \<Rightarrow> (string option \<times> chained_event) list" where
  "chain_query tx tenant rows =
     (let selected = filter (is_broken tx) (concat (map (\<lambda>i. with_lag (partition_of i rows)) (checked_tenants tenant rows)))
      in sort_key (\<lambda>r. the (ch_chain_seq (snd r))) (filter (\<lambda>r. ch_chain_seq (snd r) \<noteq> None) selected)
         @ filter (\<lambda>r. ch_chain_seq (snd r) = None) selected)"

definition verify_table ::
  "texts \<Rightarrow> uuid option \<Rightarrow> (chained_table_name \<Rightarrow> chained_event list) \<Rightarrow> chained_table_name \<Rightarrow> BrokenLink list" where
  "verify_table tx tenant database name =
     (if name = Audit_events \<and> tenant = None then []
      else map (broken_link tx name) (chain_query tx tenant (database name)))"

definition verify_chain ::
  "texts \<Rightarrow> uuid option \<Rightarrow> chained_table_name list \<Rightarrow> (chained_table_name \<Rightarrow> chained_event list) \<Rightarrow> BrokenLink list" where
  "verify_chain tx tenant tables database = concat (map (verify_table tx tenant database) tables)"

lemma sort_key_Nil [simp]: "sort_key f xs = [] \<longleftrightarrow> xs = []"
  by (metis set_sort set_empty)

section \<open>What the triggers write passes the check\<close>

text \<open>
  The rows of a partition in order: each carries the hash of the one before it and its own hash.
\<close>

fun chained_from :: "texts \<Rightarrow> string option \<Rightarrow> chained_event list \<Rightarrow> bool" where
  "chained_from tx prev [] = True"
| "chained_from tx prev (e # es) \<longleftrightarrow>
     ch_prev_hash e = prev \<and> ch_hash e = Some (nexora_chain_hash tx prev e) \<and> chained_from tx (ch_hash e) es"

lemma with_lag_Nil [simp]: "with_lag [] = []"
  by (simp add: with_lag_def)

lemma lag_broken:
  "list_all (\<lambda>e. ch_hash e \<noteq> None) es \<Longrightarrow>
   filter (is_broken tx) (zip (prev # map ch_hash es) es) = [] \<longleftrightarrow> chained_from tx prev es"
proof (induction es arbitrary: prev)
  case (Cons e es)
  then show ?case by (auto simp: is_broken_def link_ok_def hash_ok_def)
qed simp

lemma chained_hashes: "chained_from tx prev es \<Longrightarrow> list_all (\<lambda>e. ch_hash e \<noteq> None) es"
  by (induction es arbitrary: prev) auto

lemma with_lag_clean: "chained_from tx None es \<Longrightarrow> filter (is_broken tx) (with_lag es) = []"
  unfolding with_lag_def using lag_broken[OF chained_hashes] by blast

lemma chained_from_append:
  "chained_from tx prev (es @ [e]) \<longleftrightarrow> chained_from tx prev es
     \<and> (let p = (if es = [] then prev else ch_hash (last es))
        in ch_prev_hash e = p \<and> ch_hash e = Some (nexora_chain_hash tx p e))"
  by (induction es arbitrary: prev) (auto simp: Let_def)

lemma nexora_chain_hash_frame [simp]:
  "nexora_chain_hash tx prev (e\<lparr>ch_chain_seq := a\<rparr>) = nexora_chain_hash tx prev e"
  "nexora_chain_hash tx prev (e\<lparr>ch_prev_hash := b\<rparr>) = nexora_chain_hash tx prev e"
  "nexora_chain_hash tx prev (e\<lparr>ch_hash := c\<rparr>) = nexora_chain_hash tx prev e"
  by (simp_all add: nexora_chain_hash_def hashed_text_def)

text \<open>
  The states of a table that only the triggers wrote: inserts of any tenants in any order; a transaction that is rolled
  back uses a value of the sequence up.
\<close>

inductive chain_written :: "texts \<Rightarrow> chained_table \<Rightarrow> bool" for tx where
  empty: "ct_rows t = [] \<Longrightarrow> chain_written tx t"
| inserted: "chain_written tx t \<Longrightarrow> chain_written tx (nexora_chain_events tx e t)"
| skipped: "chain_written tx t \<Longrightarrow> ct_next_seq t \<le> n \<Longrightarrow> chain_written tx (t\<lparr>ct_next_seq := n\<rparr>)"

definition chain_inv :: "texts \<Rightarrow> chained_table \<Rightarrow> bool" where
  "chain_inv tx t \<longleftrightarrow> list_all (\<lambda>r. \<exists>n < ct_next_seq t. ch_chain_seq r = Some n) (ct_rows t)
     \<and> sorted (map (\<lambda>r. the (ch_chain_seq r)) (ct_rows t))
     \<and> (\<forall>i. chained_from tx None (filter (\<lambda>r. ch_tenant_id r = i) (ct_rows t)))"

lemma sorted_filter_map: "sorted (map f xs) \<Longrightarrow> sorted (map f (filter P xs))"
  by (induction xs) auto

lemma chain_order_written:
  assumes "list_all (\<lambda>r. ch_chain_seq r \<noteq> None) rows" and "sorted (map (\<lambda>r. the (ch_chain_seq r)) rows)"
  shows "chain_order rows = rows"
proof -
  have "filter (\<lambda>r. ch_chain_seq r \<noteq> None) rows = rows" "filter (\<lambda>r. ch_chain_seq r = None) rows = []"
    using assms(1) by (simp_all add: filter_id_conv filter_empty_conv list_all_iff)
  then show ?thesis using assms(2) by (simp add: chain_order_def sorted_sort_id sort_key_id_if_sorted)
qed

lemma partition_written: "chain_inv tx t \<Longrightarrow> partition_of i (ct_rows t) = filter (\<lambda>r. ch_tenant_id r = i) (ct_rows t)"
  unfolding partition_of_def chain_inv_def
  by (intro chain_order_written sorted_filter_map) (auto simp: list_all_iff)

lemma chain_inv_insert:
  assumes "chain_inv tx t"
  shows "chain_inv tx (nexora_chain_events tx e t)"
proof -
  let ?own = "filter (\<lambda>r. ch_tenant_id r = ch_tenant_id e) (ct_rows t)"
  let ?prev = "newest_hash ?own"
  let ?row = "e\<lparr>ch_chain_seq := Some (ct_next_seq t), ch_prev_hash := ?prev, ch_hash := Some (nexora_chain_hash tx ?prev e)\<rparr>"
  have t': "nexora_chain_events tx e t = \<lparr>ct_rows = ct_rows t @ [?row], ct_next_seq = ct_next_seq t + 1\<rparr>"
    by (simp add: nexora_chain_events_def Let_def partition_written[OF assms])
  have seqs: "list_all (\<lambda>r. \<exists>n < ct_next_seq t. ch_chain_seq r = Some n) (ct_rows t)"
    "sorted (map (\<lambda>r. the (ch_chain_seq r)) (ct_rows t))"
    and chained: "\<And>i. chained_from tx None (filter (\<lambda>r. ch_tenant_id r = i) (ct_rows t))"
    using assms by (simp_all add: chain_inv_def)
  have "sorted (map (\<lambda>r. the (ch_chain_seq r)) (ct_rows t @ [?row]))"
    using seqs by (fastforce simp: sorted_append list_all_iff)
  moreover have "chained_from tx None (filter (\<lambda>r. ch_tenant_id r = i) (ct_rows t @ [?row]))" for i
    using chained[of i] by (auto simp: chained_from_append newest_hash_def Let_def)
  ultimately show ?thesis using seqs(1) unfolding chain_inv_def t' by (auto simp: list_all_iff intro: less_SucI)
qed

lemma chain_written_inv: "chain_written tx t \<Longrightarrow> chain_inv tx t"
proof (induction rule: chain_written.induct)
  case (skipped t n)
  then show ?case by (fastforce simp: chain_inv_def list_all_iff)
next
  case (empty t)
  then show ?case by (simp add: chain_inv_def)
qed (rule chain_inv_insert)

lemma chain_query_clean:
  assumes "chain_written tx t"
  shows "chain_query tx tenant (ct_rows t) = []"
proof -
  have inv: "chain_inv tx t" by (rule chain_written_inv[OF assms])
  have "filter (is_broken tx) (with_lag (partition_of i (ct_rows t))) = []" for i
    using inv by (intro with_lag_clean) (simp add: partition_written[OF inv], simp add: chain_inv_def)
  then have "filter (is_broken tx) (concat (map (\<lambda>i. with_lag (partition_of i (ct_rows t))) ts)) = []" for ts
    by (induction ts) simp_all
  then show ?thesis by (simp add: chain_query_def)
qed

section \<open>Tampering\<close>

text \<open>
  What is assumed of the text forms: they are those of different values different, not empty, and without line breaks.
  Nothing is assumed of the digest but that it is not empty and has no line break (it is a hexadecimal number).
\<close>

definition plain :: "string \<Rightarrow> bool" where
  "plain x \<longleftrightarrow> x \<noteq> [] \<and> line_end \<notin> set x"

definition texts_ok :: "texts \<Rightarrow> bool" where
  "texts_ok tx \<longleftrightarrow> (\<forall>x. plain (digest_hex tx x)) \<and> (\<forall>i. plain (uuid_text tx i)) \<and> (\<forall>i j. uuid_text tx i = uuid_text tx j \<longrightarrow> i = j)
     \<and> (\<forall>d. plain (timestamp_text tx d)) \<and> (\<forall>d d'. timestamp_text tx d = timestamp_text tx d' \<longrightarrow> d = d')"

text \<open>The columns the hash covers. Membership, request and network address of the actor are not among them.\<close>

definition protected :: "chained_event \<Rightarrow> uuid option \<times> uuid option \<times> string \<times> string \<times> uuid option \<times> datetime \<times> string" where
  "protected e = (ch_tenant_id e, ch_actor_user_id e, ch_action e, ch_resource_type e, ch_resource_id e, ch_occurred_at e, ch_metadata e)"

definition one_line :: "chained_event \<Rightarrow> bool" where
  "one_line e \<longleftrightarrow> line_end \<notin> set (ch_action e) \<and> line_end \<notin> set (ch_resource_type e)"

lemma split_line:
  assumes "a @ line_end # r = b @ line_end # q" and "line_end \<notin> set a" "line_end \<notin> set b"
  shows "a = b \<and> r = q"
  using assms by (induction a arbitrary: b) (case_tac b; auto)+

lemma coalesce_line: "(\<And>x. v = Some x \<Longrightarrow> plain x) \<Longrightarrow> line_end \<notin> set (coalesce v)"
  by (auto simp: coalesce_def plain_def split: option.splits)

lemma coalesce_inj:
  "coalesce v = coalesce w \<Longrightarrow> (\<And>x. v = Some x \<Longrightarrow> plain x) \<Longrightarrow> (\<And>x. w = Some x \<Longrightarrow> plain x) \<Longrightarrow> v = w"
  by (auto simp: coalesce_def plain_def split: option.splits)

lemma hashed_text_inj:
  assumes tx: "texts_ok tx" and e: "one_line e" "one_line f" and eq: "hashed_text tx prev e = hashed_text tx prev' f"
    and prev: "\<And>x. prev = Some x \<Longrightarrow> plain x" "\<And>x. prev' = Some x \<Longrightarrow> plain x"
  shows "prev = prev' \<and> protected e = protected f"
proof -
  let ?u = "\<lambda>v. coalesce (map_option (uuid_text tx) v)"
  have u: "line_end \<notin> set (?u v)" for v using tx by (intro coalesce_line) (auto simp: texts_ok_def)
  have ui: "v = w" if "?u v = ?u w" for v w
  proof -
    have "map_option (uuid_text tx) v = map_option (uuid_text tx) w"
      using coalesce_inj[OF that] tx by (auto simp: texts_ok_def)
    then show ?thesis using tx by (cases v; cases w) (auto simp: texts_ok_def)
  qed
  have p: "line_end \<notin> set (coalesce prev)" "line_end \<notin> set (coalesce prev')" by (rule coalesce_line, rule prev, assumption)+
  have d: "line_end \<notin> set (timestamp_text tx x)" for x using tx by (simp add: texts_ok_def plain_def)
  note lines = e[unfolded one_line_def]
  have "coalesce prev = coalesce prev' \<and> ?u (ch_tenant_id e) = ?u (ch_tenant_id f)
      \<and> ?u (ch_actor_user_id e) = ?u (ch_actor_user_id f) \<and> ch_action e = ch_action f \<and> ch_resource_type e = ch_resource_type f
      \<and> ?u (ch_resource_id e) = ?u (ch_resource_id f)
      \<and> timestamp_text tx (ch_occurred_at e) = timestamp_text tx (ch_occurred_at f) \<and> ch_metadata e = ch_metadata f"
    using eq[unfolded hashed_text_def] p u d lines by (auto dest!: split_line)
  then show ?thesis using coalesce_inj[OF _ prev] ui tx by (auto simp: protected_def texts_ok_def)
qed

text \<open>Two different texts that were hashed, with the same digest\<close>

definition collision :: "texts \<Rightarrow> chained_event list \<Rightarrow> chained_event list \<Rightarrow> bool" where
  "collision tx es fs \<longleftrightarrow> (\<exists>(p, e) \<in> set (with_lag es). \<exists>(q, f) \<in> set (with_lag fs).
     hashed_text tx p e \<noteq> hashed_text tx q f \<and> digest_hex tx (hashed_text tx p e) = digest_hex tx (hashed_text tx q f))"

lemma with_lag_append: "with_lag (es @ [e]) = with_lag es @ [(if es = [] then None else ch_hash (last es), e)]"
proof (cases es rule: rev_cases)
  case (snoc xs x)
  have "zip (None # map ch_hash xs @ [ch_hash x, ch_hash e]) (xs @ [x, e]) = zip (None # map ch_hash xs) (xs @ [x]) @ [(ch_hash x, e)]"
    using zip_append[of "None # map ch_hash xs" "xs @ [x]" "[ch_hash x, ch_hash e]" "[e]"] by simp
  moreover have "zip (None # map ch_hash xs @ [ch_hash x]) (xs @ [x]) = zip (None # map ch_hash xs) (xs @ [x])"
    using zip_append[of "None # map ch_hash xs" "xs @ [x]" "[ch_hash x]" "[]"] by simp
  ultimately show ?thesis by (simp add: with_lag_def snoc)
qed (simp add: with_lag_def)

lemma chains_agree:
  assumes tx: "texts_ok tx"
  shows "chained_from tx None es \<Longrightarrow> chained_from tx None fs \<Longrightarrow> es \<noteq> [] \<Longrightarrow> fs \<noteq> [] \<Longrightarrow> ch_hash (last es) = ch_hash (last fs)
    \<Longrightarrow> list_all one_line (es @ fs) \<Longrightarrow> \<not> collision tx es fs \<Longrightarrow> map protected es = map protected fs"
proof (induction es arbitrary: fs rule: rev_induct)
  case (snoc e es)
  obtain gs f where fs: "fs = gs @ [f]" using snoc.prems(4) by (cases fs rule: rev_cases) auto
  let ?p = "if es = [] then None else ch_hash (last es)" and ?q = "if gs = [] then None else ch_hash (last gs)"
  have e: "chained_from tx None es" "ch_hash e = Some (nexora_chain_hash tx ?p e)"
    and f: "chained_from tx None gs" "ch_hash f = Some (nexora_chain_hash tx ?q f)"
    using snoc.prems(1,2) unfolding fs by (simp_all add: chained_from_append Let_def)
  have hash: "\<exists>x. ch_hash (last xs) = Some (nexora_chain_hash tx x (last xs))" if "chained_from tx None xs" "xs \<noteq> []" for xs
    using that by (cases xs rule: rev_cases) (auto simp: chained_from_append Let_def)
  have plain: "plain x" if "?p = Some x" for x
    using that hash[OF e(1)] tx by (auto simp: texts_ok_def nexora_chain_hash_def split: if_splits)
  have plain': "plain x" if "?q = Some x" for x
    using that hash[OF f(1)] tx by (auto simp: texts_ok_def nexora_chain_hash_def split: if_splits)
  have sub: "\<not> collision tx es gs" using snoc.prems(7) unfolding collision_def fs with_lag_append by fastforce
  have "digest_hex tx (hashed_text tx ?p e) = digest_hex tx (hashed_text tx ?q f)"
    using snoc.prems(5) e(2) f(2) by (simp add: fs nexora_chain_hash_def)
  then have "hashed_text tx ?p e = hashed_text tx ?q f"
    using snoc.prems(7) unfolding collision_def fs with_lag_append by fastforce
  from hashed_text_inj[OF tx _ _ this plain plain'] have same: "?p = ?q" "protected e = protected f"
    using snoc.prems(6) by (auto simp: fs)
  have "map protected es = map protected gs"
  proof (cases "es = []")
    case True
    then show ?thesis using same(1) hash[OF f(1)] by (auto split: if_splits)
  next
    case False
    then have ne: "gs \<noteq> []" using same(1) hash[OF e(1)] by (auto split: if_splits)
    show ?thesis by (rule snoc.IH) (use e f False ne same(1) snoc.prems(6) sub in \<open>simp_all add: fs\<close>)
  qed
  then show ?case using same(2) by (simp add: fs)
qed simp

text \<open>What a clean answer of the query says of the rows of a tenant, provided that all of them are in the chain.\<close>

lemma query_clean_chained:
  assumes "chain_query tx (Some i) rows = []" and "list_all (\<lambda>r. ch_hash r \<noteq> None) (partition_of (Some i) rows)"
  shows "chained_from tx None (partition_of (Some i) rows)"
proof -
  have "filter (is_broken tx) (with_lag (partition_of (Some i) rows)) = []"
    using assms(1) by (auto simp: chain_query_def checked_tenants_def Let_def filter_empty_conv sort_key_Nil)
  then show ?thesis unfolding with_lag_def using lag_broken[OF assms(2)] by blast
qed

section \<open>Rows from before the chain\<close>

text \<open>
  Rows that existed before the migration keep their three columns null. In the descending order of the trigger they come
  first, so as long as a tenant has one, the trigger finds no previous hash.
\<close>

definition old_row :: "chained_event \<Rightarrow> bool" where
  "old_row r \<longleftrightarrow> ch_chain_seq r = None \<and> ch_hash r = None \<and> ch_prev_hash r = None"

lemma newest_hash_old:
  assumes "r \<in> set rows" "ch_tenant_id r = i" "ch_chain_seq r = None" and "\<forall>x \<in> set rows. ch_chain_seq x = None \<longrightarrow> ch_hash x = None"
  shows "newest_hash (partition_of i rows) = None"
proof -
  let ?nulls = "filter (\<lambda>r. ch_chain_seq r = None) (filter (\<lambda>r. ch_tenant_id r = i) rows)"
  have ne: "?nulls \<noteq> []" using assms(1-3) by (auto simp: filter_empty_conv)
  then have "last ?nulls \<in> set ?nulls" by (rule last_in_set)
  then have "ch_hash (last ?nulls) = None" using assms(4) by auto
  then show ?thesis using ne by (simp add: newest_hash_def partition_of_def chain_order_def)
qed

lemma sort_key_snoc: "(\<And>x. x \<in> set xs \<Longrightarrow> f x \<le> f y) \<Longrightarrow> sort_key f (xs @ [y]) = sort_key f xs @ [y]"
  for f :: "_ \<Rightarrow> nat"
proof (induction xs)
  case (Cons x xs)
  have "insort_key f x (zs @ [y]) = insort_key f x zs @ [y]" if "f x \<le> f y" for zs using that by (induction zs) auto
  then show ?case using Cons by simp
qed simp

lemma sorted_seqs_snoc:
  assumes "\<forall>x \<in> set rows. \<forall>n. ch_chain_seq x = Some n \<longrightarrow> n \<le> m" and "ch_chain_seq e = Some m"
  shows "sort_key (\<lambda>r. the (ch_chain_seq r)) (filter (\<lambda>r. ch_chain_seq r \<noteq> None) rows @ [e])
    = sort_key (\<lambda>r. the (ch_chain_seq r)) (filter (\<lambda>r. ch_chain_seq r \<noteq> None) rows) @ [e]"
  by (rule sort_key_snoc) (use assms in auto)

lemma chain_order_snoc2:
  assumes "\<forall>x \<in> set rows. \<forall>n. ch_chain_seq x = Some n \<longrightarrow> n \<le> m" and "ch_chain_seq e = Some m" "ch_chain_seq f = Some (m + 1)"
  shows "\<exists>xs ys. chain_order (rows @ [e, f]) = xs @ e # f # ys"
proof -
  have m: "\<forall>x \<in> set (rows @ [e]). \<forall>n. ch_chain_seq x = Some n \<longrightarrow> n \<le> m + 1" using assms by fastforce
  have "sort_key (\<lambda>r. the (ch_chain_seq r)) (filter (\<lambda>r. ch_chain_seq r \<noteq> None) rows @ [e, f])
      = sort_key (\<lambda>r. the (ch_chain_seq r)) (filter (\<lambda>r. ch_chain_seq r \<noteq> None) rows) @ [e, f]"
    using sorted_seqs_snoc[OF m assms(3)] sorted_seqs_snoc[OF assms(1,2)] assms(2) by simp
  then show ?thesis using assms(2,3) by (auto simp: chain_order_def)
qed

lemma with_lag_pair: "(ch_hash e, f) \<in> set (with_lag (xs @ e # f # ys))"
proof -
  have "zip (p # map ch_hash (xs @ e # f # ys)) (xs @ e # f # ys)
      = zip (p # map ch_hash xs) (xs @ [e]) @ zip (map ch_hash (e # f # ys)) (f # ys)" for p
    using zip_append[of "p # map ch_hash xs" "xs @ [e]" "map ch_hash (e # f # ys)" "f # ys"] by simp
  then show ?thesis by (simp add: with_lag_def)
qed

lemma query_reports:
  "(p, e) \<in> set (with_lag (partition_of (Some i) rows)) \<Longrightarrow> is_broken tx (p, e) \<Longrightarrow> (p, e) \<in> set (chain_query tx (Some i) rows)"
  by (cases "ch_chain_seq e") (auto simp: chain_query_def checked_tenants_def Let_def)

lemma take_lag: "zip (p # map ch_hash (take n es)) (take n es) = take n (zip (p # map ch_hash es) es)"
proof (induction es arbitrary: n p)
  case (Cons e es)
  then show ?case by (cases n) auto
qed simp

lemma chained_take: "chained_from tx p es \<Longrightarrow> chained_from tx p (take n es)"
proof (induction es arbitrary: n p)
  case (Cons e es)
  then show ?case by (cases n) auto
qed simp

section \<open>Guarantees\<close>

text \<open>
  C38. The check accepts what the triggers wrote: if both tables were filled by inserts only, of any tenants in any order and
  with gaps in the sequence, \<open>verify_chain\<close> reports nothing, for any tenant and any choice of tables.
\<close>

theorem written_chain_verifies:
  assumes "\<And>name. chain_written tx (database name)"
  shows "verify_chain tx tenant names (\<lambda>name. ct_rows (database name)) = []"
proof -
  have "verify_table tx tenant (\<lambda>name. ct_rows (database name)) name = []" for name
    by (simp add: verify_table_def chain_query_clean[OF assms])
  then show ?thesis by (simp add: verify_chain_def)
qed

text \<open>
  C36. The chain makes tampering evident. Take the hash of the newest row of a tenant while only the triggers have written
  its log, and later any content of the table, rewritten at will, that \<open>verify_chain\<close> accepts, in which every row of the tenant
  still has a hash and a row has the noted one. Then up to that row nothing was changed, inserted, removed or reordered in
  the columns that the hash covers, unless two different texts were found with the same digest. (Action and resource type
  hold no line breaks, which separate the columns in the hashed text.)
\<close>

theorem audit_history_protected:
  assumes "texts_ok tx" and "chain_written tx before" and "verify_chain tx (Some i) [name] after = []"
    and "list_all (\<lambda>r. ch_hash r \<noteq> None) (partition_of (Some i) (after name))"
    and "partition_of (Some i) (ct_rows before) \<noteq> []" and "k < length (partition_of (Some i) (after name))"
    and "ch_hash (partition_of (Some i) (after name) ! k) = newest_hash (partition_of (Some i) (ct_rows before))"
    and "list_all one_line (partition_of (Some i) (ct_rows before) @ partition_of (Some i) (after name))"
    and "\<not> collision tx (partition_of (Some i) (ct_rows before)) (partition_of (Some i) (after name))"
  shows "map protected (take (k + 1) (partition_of (Some i) (after name))) = map protected (partition_of (Some i) (ct_rows before))"
proof -
  let ?es = "partition_of (Some i) (ct_rows before)" and ?fs = "partition_of (Some i) (after name)"
  have inv: "chain_inv tx before" by (rule chain_written_inv[OF assms(2)])
  then have es: "chained_from tx None ?es" unfolding partition_written[OF inv] by (simp add: chain_inv_def)
  have "chain_query tx (Some i) (after name) = []" using assms(3) by (simp add: verify_chain_def verify_table_def)
  then have fs: "chained_from tx None (take (k + 1) ?fs)" using query_clean_chained assms(4) by (intro chained_take) blast
  have "set (with_lag (take (k + 1) ?fs)) \<subseteq> set (with_lag ?fs)" unfolding with_lag_def take_lag by (rule set_take_subset)
  then have free: "\<not> collision tx ?es (take (k + 1) ?fs)" using assms(9) unfolding collision_def by fast
  have last: "last (take (k + 1) ?fs) = ?fs ! k" using assms(6) by (simp add: take_Suc_conv_app_nth)
  have "map protected ?es = map protected (take (k + 1) ?fs)"
  proof (rule chains_agree[OF assms(1) es fs assms(5)])
    show "take (k + 1) ?fs \<noteq> []" using assms(6) by auto
    show "ch_hash (last ?es) = ch_hash (last (take (k + 1) ?fs))" unfolding last using assms(5,7) by (simp add: newest_hash_def)
    show "list_all one_line (?es @ take (k + 1) ?fs)" using assms(8) by (auto simp: list_all_iff dest: in_set_takeD)
  qed (rule free)
  then show ?thesis by simp
qed

text \<open>
  C39. Rows from before the chain break it. If a tenant has a row that was written before the migration, the chain of its
  new rows is never linked: after any two further events of the tenant, written by nobody but the triggers, the check
  reports the second as tampered with. (The rows without a position in the chain are those of before the migration, which
  have no hash, and the sequence is ahead of the positions it gave.)
\<close>

theorem old_rows_break_chain:
  assumes "r \<in> set (ct_rows t)" and "ch_tenant_id r = Some i" and "old_row r"
    and "\<forall>x \<in> set (ct_rows t). ch_chain_seq x = None \<longrightarrow> old_row x"
    and "\<forall>x \<in> set (ct_rows t). \<forall>n. ch_chain_seq x = Some n \<longrightarrow> n < ct_next_seq t"
    and "ch_tenant_id e = Some i" and "ch_tenant_id f = Some i"
  shows "\<exists>b \<in> set (verify_chain tx (Some i) [name] (\<lambda>_. ct_rows (nexora_chain_events tx f (nexora_chain_events tx e t)))).
    bl_row_id b = ch_id f \<and> bl_link_broken b"
proof -
  let ?own = "filter (\<lambda>r. ch_tenant_id r = Some i)"
  let ?e = "e\<lparr>ch_chain_seq := Some (ct_next_seq t), ch_prev_hash := None, ch_hash := Some (nexora_chain_hash tx None e)\<rparr>"
  let ?f = "f\<lparr>ch_chain_seq := Some (ct_next_seq t + 1), ch_prev_hash := None, ch_hash := Some (nexora_chain_hash tx None f)\<rparr>"
  have old: "\<forall>x \<in> set (ct_rows t). ch_chain_seq x = None \<longrightarrow> ch_hash x = None" using assms(4) by (simp add: old_row_def)
  have e: "nexora_chain_events tx e t = \<lparr>ct_rows = ct_rows t @ [?e], ct_next_seq = ct_next_seq t + 1\<rparr>"
    using newest_hash_old[OF assms(1,2) _ old] assms(3,6) by (simp add: nexora_chain_events_def Let_def old_row_def)
  have "newest_hash (partition_of (Some i) (ct_rows t @ [?e])) = None"
    by (rule newest_hash_old[of r]) (use assms(1-3) old in \<open>auto simp: old_row_def\<close>)
  then have ef: "ct_rows (nexora_chain_events tx f (nexora_chain_events tx e t)) = ct_rows t @ [?e, ?f]"
    using assms(7) by (simp add: e nexora_chain_events_def[of tx f] Let_def)
  have "\<exists>xs ys. chain_order (?own (ct_rows t) @ [?e, ?f]) = xs @ ?e # ?f # ys"
    by (rule chain_order_snoc2) (use assms(5) in \<open>auto dest: less_imp_le\<close>)
  then obtain xs ys where "partition_of (Some i) (ct_rows t @ [?e, ?f]) = xs @ ?e # ?f # ys"
    using assms(6,7) by (auto simp: partition_of_def)
  then have "(ch_hash ?e, ?f) \<in> set (with_lag (partition_of (Some i) (ct_rows t @ [?e, ?f])))"
    by (simp only:) (rule with_lag_pair)
  then have "(ch_hash ?e, ?f) \<in> set (chain_query tx (Some i) (ct_rows t @ [?e, ?f]))"
    by (rule query_reports) (simp add: is_broken_def link_ok_def)
  then have "broken_link tx name (ch_hash ?e, ?f)
      \<in> set (verify_chain tx (Some i) [name] (\<lambda>_. ct_rows (nexora_chain_events tx f (nexora_chain_events tx e t))))"
    unfolding ef by (simp add: verify_chain_def verify_table_def)
  moreover have "bl_row_id (broken_link tx name (ch_hash ?e, ?f)) = ch_id f" "bl_link_broken (broken_link tx name (ch_hash ?e, ?f))"
    by (simp_all add: broken_link_def link_ok_def)
  ultimately show ?thesis by blast
qed

text \<open>
  The comparison of the hash does not select a row whose hash is null: the newest row of a log can be altered unnoticed by
  whoever also sets its hash to null.
\<close>

lemma null_hash_unnoticed:
  assumes "chained_from tx None (es @ [e])" and "ch_prev_hash f = ch_prev_hash e" and "ch_hash f = None"
  shows "filter (is_broken tx) (with_lag (es @ [f])) = []"
proof -
  have "chained_from tx None es" "ch_prev_hash e = (if es = [] then None else ch_hash (last es))"
    using assms(1) by (simp_all add: chained_from_append Let_def)
  then show ?thesis
    using with_lag_clean assms(2,3) by (simp add: with_lag_append is_broken_def link_ok_def hash_ok_def)
qed

section \<open>Concrete runs\<close>

definition sample_texts :: texts where
  "sample_texts = \<lparr>digest_hex = (\<lambda>x. ''h'' @ map (\<lambda>c. if c = line_end then CHR ''/'' else c) x),
     uuid_text = (\<lambda>i. replicate (Suc i) CHR ''u''),
     timestamp_text = (\<lambda>d. (if 0 \<le> d then ''+'' else ''-'') @ replicate (nat \<bar>d\<bar>) CHR ''t'')\<rparr>"

definition sample_event :: "uuid \<Rightarrow> string \<Rightarrow> chained_event" where
  "sample_event i action = \<lparr>ch_id = i, ch_tenant_id = Some 1, ch_actor_user_id = None, ch_actor_membership_id = None,
     ch_action = action, ch_resource_type = ''user'', ch_resource_id = None, ch_request_id = None, ch_occurred_at = 0,
     ch_metadata = ''{}'', ch_prev_hash = None, ch_hash = None, ch_chain_seq = None\<rparr>"

definition sample_log :: chained_table where
  "sample_log = nexora_chain_events sample_texts (sample_event 2 ''b'')
     (nexora_chain_events sample_texts (sample_event 1 ''a'') \<lparr>ct_rows = [], ct_next_seq = 0\<rparr>)"

lemma sample_log_written: "chain_written sample_texts sample_log"
  unfolding sample_log_def by (intro chain_written.inserted chain_written.empty) simp

theorem written_chain_verifies_witness:
  "map ch_action (ct_rows sample_log) = [''a'', ''b'']
   \<and> verify_chain sample_texts (Some 1) [Audit_events, Security_events] (\<lambda>_. ct_rows sample_log) = []"
  using written_chain_verifies[of sample_texts "\<lambda>_. sample_log", OF sample_log_written] by (simp add: sample_log_def) code_simp

lemma sample_texts_uuid: "inj (uuid_text sample_texts)"
  by (rule injI) (simp add: sample_texts_def replicate_eq_replicate)

lemma sample_texts_timestamp: "inj (timestamp_text sample_texts)"
proof (rule injI)
  fix d d' :: int
  assume eq: "timestamp_text sample_texts d = timestamp_text sample_texts d'"
  have "hd (timestamp_text sample_texts e) = (if 0 \<le> e then CHR ''+'' else CHR ''-'')"
    and "length (timestamp_text sample_texts e) = Suc (nat \<bar>e\<bar>)" for e
    by (simp_all add: sample_texts_def)
  from arg_cong[OF eq, of hd, unfolded this] arg_cong[OF eq, of length, unfolded this]
  show "d = d'" by (simp split: if_splits)
qed

lemma sample_texts_ok: "texts_ok sample_texts"
  using sample_texts_uuid sample_texts_timestamp
  by (auto simp: texts_ok_def inj_eq) (auto simp: sample_texts_def plain_def)

text \<open>The log grows by one event; its first two rows are the ones that were noted.\<close>

definition grown_log :: chained_table where
  "grown_log = nexora_chain_events sample_texts (sample_event 3 ''c'') sample_log"

theorem audit_history_protected_witness:
  "length (ct_rows grown_log) = 3
   \<and> map protected (take 2 (partition_of (Some 1) (ct_rows grown_log))) = map protected (partition_of (Some 1) (ct_rows sample_log))"
proof
  show "length (ct_rows grown_log) = 3" by code_simp
  have "map protected (take (1 + 1) (partition_of (Some 1) (ct_rows grown_log))) = map protected (partition_of (Some 1) (ct_rows sample_log))"
  proof (rule audit_history_protected[where name = Audit_events and after = "\<lambda>_. ct_rows grown_log", OF sample_texts_ok sample_log_written])
    show "verify_chain sample_texts (Some 1) [Audit_events] (\<lambda>_. ct_rows grown_log) = []" by code_simp
    show "list_all (\<lambda>r. ch_hash r \<noteq> None) (partition_of (Some 1) (ct_rows grown_log))" by code_simp
    show "partition_of (Some 1) (ct_rows sample_log) \<noteq> []" by code_simp
    show "1 < length (partition_of (Some 1) (ct_rows grown_log))" by code_simp
    show "ch_hash (partition_of (Some 1) (ct_rows grown_log) ! 1) = newest_hash (partition_of (Some 1) (ct_rows sample_log))" by code_simp
    show "list_all one_line (partition_of (Some 1) (ct_rows sample_log) @ partition_of (Some 1) (ct_rows grown_log))" by code_simp
    show "\<not> collision sample_texts (partition_of (Some 1) (ct_rows sample_log)) (partition_of (Some 1) (ct_rows grown_log))" by code_simp
  qed
  then show "map protected (take 2 (partition_of (Some 1) (ct_rows grown_log))) = map protected (partition_of (Some 1) (ct_rows sample_log))"
    by (simp add: numeral_2_eq_2)
qed

definition migrated_log :: chained_table where
  "migrated_log = \<lparr>ct_rows = [sample_event 9 ''old''], ct_next_seq = 0\<rparr>"

theorem old_rows_break_chain_witness:
  "\<exists>b \<in> set (verify_chain sample_texts (Some 1) [Audit_events] (\<lambda>_. ct_rows (nexora_chain_events sample_texts (sample_event 2 ''b'')
     (nexora_chain_events sample_texts (sample_event 1 ''a'') migrated_log)))). bl_row_id b = 2 \<and> bl_link_broken b"
  using old_rows_break_chain[of "sample_event 9 ''old''" migrated_log 1 "sample_event 1 ''a''" "sample_event 2 ''b''" sample_texts Audit_events]
  by (simp add: migrated_log_def sample_event_def old_row_def)

end
