(* ===== verification/Spec2Isabelle.thy ===== *)
theory Spec2Isabelle
  imports Guarantees Append_Only Outbox Chunking Catalog_Chains Audit_Chain
begin

text \<open>
  Verification of the back end of Nexora, a multi-tenant business suite (\<^verbatim>\<open>src/backend/app\<close>, Python on FastAPI, SQLAlchemy and
  PostgreSQL). Paths below are relative to that directory.

  \<^bold>\<open>The program.\<close> Every request is served by one operation of a service class. The operation opens a transaction
  (\<^verbatim>\<open>db/session.py\<close>, \<open>service_transaction\<close>), reads rows through a repository, checks guards, writes rows and commits; an exception
  rolls the transaction back and becomes an HTTP error (\<^verbatim>\<open>core/errors.py\<close>). The document modules (sales, purchasing, point of
  sale) call the stock service for movements, the accounting service for journal entries, the tax service for register
  rows, and shared services for document numbers, idempotency keys and the audit trail, all in their own transaction.
  The identity modules (authentication, roles, members, invitations, tenants) decide who may call what and queue mail in the
  outbox, which a worker delivers. Beside these stand the catalogue, the chunking of documents for search, and the
  hash chain over the audit events that the database writes and a command checks.

  \<^bold>\<open>How the code is modelled.\<close> A state is a \<^theory_text>\<open>record\<close> with one list of rows per table, and the records extend each other in the
  order in which the modules build on each other: \<open>base_db\<close>, \<open>inventory_db\<close>, \<open>accounting_db\<close>, \<open>vat_db\<close>, \<open>sales_db\<close>,
  \<open>purchasing_db\<close>, \<open>pos_db\<close>; \<open>identity_db\<close> and \<open>catalog_db\<close> extend the base on their own. A row is a record with the columns of
  the model class. An operation is a function of type \<open>('s, 'a) tx\<close>, from a state to an error or a result and a new state;
  \<open>bnd\<close>, \<open>require\<close> and \<open>some_or\<close> write statements, guards and lookups in the order of the source, so every raise is a branch.
  \<open>service_transaction chk\<close> restores the state on an error and raises what \<open>chk\<close> reports at the flush and at the commit:
  \<open>chk\<close> lists the unique keys, foreign keys, checks, numeric ranges and triggers of the model classes and migrations.
  Decimals are rationals with the rounding of the 28-digit context written out at every operation; assigning to a
  column rounds to its scale.

  \<^bold>\<open>Theories and the code they model.\<close>
  \<^item> \<^verbatim>\<open>Prelude\<close>: errors, transactions, the collections of simplification rules; \<^verbatim>\<open>Program_Logic\<close>: \<open>wp\<close>, \<open>keeps\<close> and triples, the rules
    by which invariants of operations are proved by their structure; \<^verbatim>\<open>Updates\<close>: the fields of a partial update.
  \<^item> \<^verbatim>\<open>Decimals\<close>, \<^verbatim>\<open>Pricing\<close>: Python's \<^verbatim>\<open>decimal\<close> and \<^verbatim>\<open>core/money.py\<close>, \<^verbatim>\<open>modules/sales/money.py\<close>, \<^verbatim>\<open>modules/vat/pricing.py\<close>. Rounding
    modes are interpretations of one locale. Net and tax of an inclusive price add up, and inclusive and exclusive prices
    convert into each other.
  \<^item> \<^verbatim>\<open>Base_Db\<close>: \<^verbatim>\<open>modules/numbering\<close>, \<^verbatim>\<open>modules/idempotency\<close>, \<^verbatim>\<open>modules/audit/service.py\<close>, \<^verbatim>\<open>core/context.py\<close>. Numbers of a series are
    gapless; a completed key is replayed.
  \<^item> \<^verbatim>\<open>Inventory\<close>, \<^verbatim>\<open>Stock_Invariant\<close>: \<^verbatim>\<open>modules/inventory\<close>. Balances equal the movement ledger, transfers move goods once,
    the moving-average cost is bounded, overselling is refused.
  \<^item> \<^verbatim>\<open>Calendar\<close>, \<^verbatim>\<open>Posting_Rules\<close>, \<^verbatim>\<open>Accounting\<close>, \<^verbatim>\<open>Ledger\<close>: dates, \<^verbatim>\<open>modules/accounting\<close> and the balance trigger of migration 0017.
    Every posting rule balances; the trial balance balances; reversals cancel; what the application's check has to do with
    the trigger of the database; closed periods; the accounting equation of the balance sheet.
  \<^item> \<^verbatim>\<open>Vat\<close>, \<^verbatim>\<open>Vat_Register\<close>: \<^verbatim>\<open>modules/vat\<close>. Filed returns equal the rows they claimed, which are claimed once.
  \<^item> \<^verbatim>\<open>Sales\<close>, \<^verbatim>\<open>Sales_Service\<close>, \<^verbatim>\<open>Purchasing\<close>, \<^verbatim>\<open>Purchasing_Service\<close>, \<^verbatim>\<open>Pos\<close>, \<^verbatim>\<open>Pos_Service\<close>: \<^verbatim>\<open>modules/sales\<close>, \<^verbatim>\<open>modules/purchasing\<close>,
    \<^verbatim>\<open>modules/pos\<close>, each with its tables in the first theory and its operations in the second.
  \<^item> \<^verbatim>\<open>Keeps\<close>, \<^verbatim>\<open>Frames\<close>: locales for the interfaces. \<open>base_services\<close> and \<open>shared_services\<close> say which laws an invariant must satisfy
    to be kept by the services the documents call; \<open>sales_operations\<close>, \<open>inventory_operations\<close> and their siblings extend them to
    whole modules. Each invariant is interpreted there once, for its own module or as a frame of another.
  \<^item> \<^verbatim>\<open>Tallies\<close>, \<^verbatim>\<open>Sales_Invariant\<close>, \<^verbatim>\<open>Purchasing_Invariant\<close>, \<^verbatim>\<open>Pos_Invariant\<close>: counters and the rows they count, totals and lines,
    settlement of invoices and bills, refunds.
  \<^item> \<^verbatim>\<open>System\<close>: the requests of the six business modules (inventory, accounting, tax, sales, purchasing, point of sale), \<open>serve\<close>,
    and \<open>system_reachable\<close>: any sequence of requests, with changes of the master data and of the settings between them.
    \<^verbatim>\<open>Evaluation\<close>, \<^verbatim>\<open>Shop\<close>: derivation rules that run operations inside the logic, and a small shop on which the properties
    are shown at work. \<^verbatim>\<open>Guarantees\<close>: what the documents satisfy in every reachable state. \<^verbatim>\<open>Append_Only\<close>: movements are
    never changed, so a receipt is posted once per key whatever happens in between.
  \<^item> \<^verbatim>\<open>Identity\<close>, \<^verbatim>\<open>Auth_Service\<close>, \<^verbatim>\<open>Access_Service\<close>: \<^verbatim>\<open>modules/auth\<close>, \<^verbatim>\<open>modules/tenancy\<close>, \<^verbatim>\<open>modules/rbac\<close>, \<^verbatim>\<open>modules/members\<close>,
    \<^verbatim>\<open>modules/invitations\<close>, \<^verbatim>\<open>api/deps.py\<close>. Some of these operations commit and then raise (a failed login, a reused refresh token);
    they are modelled so. \<^verbatim>\<open>Identity_Invariant\<close>, \<^verbatim>\<open>Access_Invariant\<close>, \<^verbatim>\<open>Session_History\<close>, \<^verbatim>\<open>Identity_Guarantees\<close>: refresh tokens work once,
    reuse ends the session, an organisation keeps an owner, the permission cache is invisible, nobody hands out a
    permission he lacks, failed logins lock within bounds.
  \<^item> \<^verbatim>\<open>Outbox\<close>: \<^verbatim>\<open>modules/outbox\<close>, \<^verbatim>\<open>modules/notifications/email.py\<close>. Every event is settled.
  \<^item> \<^verbatim>\<open>Chunking\<close>: \<^verbatim>\<open>modules/documents/chunking.py\<close>. It terminates and loses no phrase.
  \<^item> \<^verbatim>\<open>Catalog\<close>, \<^verbatim>\<open>Catalog_Chains\<close>: \<^verbatim>\<open>modules/catalog\<close>. Categories form no cycles, so the loop over their parents ends.
  \<^item> \<^verbatim>\<open>Audit_Chain\<close>: \<^verbatim>\<open>modules/audit/chain.py\<close> and the triggers of migration 0024. What the triggers write passes the check, and
    what passes the check was not tampered with.

  \<^bold>\<open>Parameters.\<close> Code outside the repository is an argument: the generator of identifiers and the clock are arbitrary sequences
  in the state (differing identifiers are obtained from the primary keys that the commit checks); password hashing,
  SHA-256, time-based codes and the token codec are functions, of which a property names what it needs; the collation of account
  codes, the mail transport, the text forms of PostgreSQL and the keys Redis still holds are arguments too.

  \<^bold>\<open>Loops.\<close> Loops over rows are structural recursion. Two loops that need not end are \<^theory_text>\<open>partial_function (option)\<close>:
  \<open>split_window\<close> of the chunking and \<open>parent_chain\<close> of the catalogue; that they return is proved as such. No fuel is used. The worker that
  drains the outbox runs forever: \<open>outbox_run\<close> is an infinite history in which it drains again and again.

  \<^bold>\<open>What is not modelled.\<close> Requests run one after the other: row locks and the isolation of the database are what makes this
  so in the program, and races it leaves open are noted as findings. A state of the business modules holds one tenant's
  rows; the row filter by tenant is not modelled, except where the identity modules depend on it. Messages of exceptions,
  response schemas, routes, paginated listings, rate limits and logging are left out, as are reporting, CRM, forecasting, anomaly
  detection, the assistant and document storage, which read the modelled tables or call services outside the repository.
\<close>

section \<open>The modules together\<close>

text \<open>
  C1. The modules stay consistent with each other. Whatever requests of the six business modules are served in whatever
  order, in every state the back end reaches: the quantity on hand of every product in every warehouse is the sum of its stock
  movements and its reserved quantity the sum of the active reservations; every posted journal entry balances and
  matches the totals on its head; and the totals of every filed tax return are the sums of the register rows it claimed.
\<close>

theorem system_consistent:
  assumes "system_reachable s"
  shows "(\<forall>w p. on_hand w p s = ledger_quantity w p (movements s) \<and> reserved w p s = active_reserved w p (reservations s))
       \<and> list_all (entry_balanced s) (journal_entries s)
       \<and> (\<forall>r \<in> set (vat_returns s). vn_status r = FILED \<longrightarrow> totals_match (claimed_rows (vn_id r) s) r)"
proof -
  have inv: "inventory_ok True s" "ledger_ok s" "vat_inv s"
    using system_reachable_inv[OF assms] by (simp_all add: system_inv_def)
  then have "stock_agrees True s" using inventory_chkD(9)[of s] by (simp add: inventory_ok_def core_inv_def stock_inv_def)
  then show ?thesis using inv(2,3) by (simp add: stock_agrees_def agrees_at_def ledger_ok_def vat_inv_def)
qed

theorem system_consistent_witness:
  "ledger_quantity 7 5 (movements (run till_requests shop_db)) = 9
   \<and> length (filter (entry_balanced (run till_requests shop_db)) (journal_entries (run till_requests shop_db))) = 4"
proof -
  note consistent = system_consistent[OF run_valid[OF requests_valid(5)]]
  moreover have "filter (entry_balanced (run till_requests shop_db)) (journal_entries (run till_requests shop_db))
      = journal_entries (run till_requests shop_db)"
    using consistent by (simp add: filter_id_conv list_all_iff)
  ultimately show ?thesis using till_run by simp
qed

end
